(* ===== verification/Prelude.thy ===== *)
theory Prelude imports Main "HOL-Library.List_Lexorder" "HOL-Library.Char_ord" "HOL-Library.Product_Lexorder" begin

text \<open>
  Shared vocabulary of the development: the names of the model's basic types, the operations of
  the JavaScript standard library the sources use on strings, arrays, sets and maps, results that
  may fail, and collections of records keyed by an identifier. The generic lemmas declared here
  carry the component proofs.

  Instants. The sources keep instants as ISO-8601 strings written by \<open>Date.prototype.toISOString\<close>
  and compare them either with \<open>Date.parse\<close> or as strings. All such strings of the years 0 to
  9999 have the same shape, so both orders are the order of the milliseconds since the epoch, and
  an instant is an \<open>int\<close> here. \<open>iso_instant\<close> (theory Json) writes its text where the
  sources hash it.
\<close>

type_synonym instant = int
type_synonym str = string

named_theorems coll_simps \<open>lookup and update laws of the record collections\<close>
named_theorems guard_simps \<open>unfolding of the guards of fallible operations\<close>

subsection \<open>Fallible results\<close>

definition res_bind :: "'e + 'a \<Rightarrow> ('a \<Rightarrow> 'e + 'b) \<Rightarrow> 'e + 'b" where
  "res_bind r f = (case r of Inl e \<Rightarrow> Inl e | Inr a \<Rightarrow> f a)"

definition require :: "bool \<Rightarrow> 'e \<Rightarrow> 'e + unit" where
  "require b e = (if b then Inr () else Inl e)"

lemma res_bind_simps [simp]:
  "res_bind (Inl e) f = Inl e"
  "res_bind (Inr a) f = f a"
  by (simp_all add: res_bind_def)

lemma res_bind_Inr_iff:
  "res_bind r f = Inr b \<longleftrightarrow> (\<exists>a. r = Inr a \<and> f a = Inr b)"
  by (cases r) simp_all

lemma res_bind_Inl_iff:
  "res_bind r f = Inl e \<longleftrightarrow> r = Inl e \<or> (\<exists>a. r = Inr a \<and> f a = Inl e)"
  by (cases r) simp_all

lemma require_iff [simp, guard_simps]:
  "require b e = Inr u \<longleftrightarrow> b"
  "require b e = Inl e' \<longleftrightarrow> \<not> b \<and> e' = e"
  by (auto simp: require_def)

lemma require_bind [guard_simps]:
  "res_bind (require b e) f = (if b then f () else Inl e)"
  by (simp add: require_def)

subsection \<open>Optional values\<close>

definition opt_or :: "'a option \<Rightarrow> 'a \<Rightarrow> 'a" where
  "opt_or x d = (case x of None \<Rightarrow> d | Some a \<Rightarrow> a)"

definition opt_first :: "'a option \<Rightarrow> 'a option \<Rightarrow> 'a option" where
  "opt_first x y = (case x of None \<Rightarrow> y | Some a \<Rightarrow> Some a)"

lemma opt_simps [simp]:
  "opt_or None d = d" "opt_or (Some a) d = a"
  "opt_first None y = y" "opt_first (Some a) y = Some a"
  by (simp_all add: opt_or_def opt_first_def)

text \<open>A JavaScript string is truthy when it is not empty; an absent string is falsy.\<close>

definition truthy_str :: "str option \<Rightarrow> bool" where
  "truthy_str x = (case x of None \<Rightarrow> False | Some s \<Rightarrow> s \<noteq> [])"

lemma truthy_str_simps [simp]:
  "\<not> truthy_str None" "truthy_str (Some s) = (s \<noteq> [])"
  by (simp_all add: truthy_str_def)

subsection \<open>Strings\<close>

definition js_space :: "char \<Rightarrow> bool" where
  "js_space c = (c \<in> {CHR 0x09, CHR 0x0A, CHR 0x0B, CHR 0x0C, CHR 0x0D, CHR '' '', CHR 0xA0})"

definition js_trim :: "str \<Rightarrow> str" where
  "js_trim s = rev (dropWhile js_space (rev (dropWhile js_space s)))"

fun starts_with :: "str \<Rightarrow> str \<Rightarrow> bool" where
  "starts_with s [] = True"
| "starts_with [] (p # ps) = False"
| "starts_with (c # cs) (p # ps) = (c = p \<and> starts_with cs ps)"

lemma starts_with_iff: "starts_with s p \<longleftrightarrow> (\<exists>t. s = p @ t)"
  by (induction s p rule: starts_with.induct) auto

definition strip_prefix :: "str \<Rightarrow> str \<Rightarrow> str" where
  "strip_prefix p s = (if starts_with s p then drop (length p) s else s)"

text \<open>\<open>s.split(sep)\<close> for a one-character separator.\<close>

fun js_split :: "char \<Rightarrow> str \<Rightarrow> str list" where
  "js_split sep [] = [[]]"
| "js_split sep (c # cs) =
     (if c = sep then [] # js_split sep cs
      else (case js_split sep cs of [] \<Rightarrow> [[c]] | w # ws \<Rightarrow> (c # w) # ws))"

fun js_join :: "str \<Rightarrow> str list \<Rightarrow> str" where
  "js_join sep [] = []"
| "js_join sep [w] = w"
| "js_join sep (w # v # ws) = w @ sep @ js_join sep (v # ws)"

lemma js_split_not_Nil [simp]: "js_split sep s \<noteq> []"
  by (induction sep s rule: js_split.induct) (auto split: list.splits)

lemma js_join_split: "js_join [sep] (js_split sep s) = s"
proof (induction sep s rule: js_split.induct)
  case (2 sep c cs)
  show ?case
  proof (cases "js_split sep cs")
    case (Cons w ws)
    with 2 show ?thesis by (cases ws) auto
  qed simp
qed simp

lemma js_split_no_sep: "w \<in> set (js_split sep s) \<Longrightarrow> sep \<notin> set w"
  by (induction sep s arbitrary: w rule: js_split.induct)
    (auto split: if_splits list.splits)

subsection \<open>Arrays, sets and maps\<close>

text \<open>\<open>[...new Set(xs)]\<close>: the elements in the order of their first occurrence.\<close>

fun uniq :: "'a list \<Rightarrow> 'a list" where
  "uniq [] = []"
| "uniq (x # xs) = x # removeAll x (uniq xs)"

lemma set_uniq [simp]: "set (uniq xs) = set xs"
  by (induction xs) auto

lemma distinct_uniq [simp]: "distinct (uniq xs)"
  by (induction xs) (auto simp: distinct_removeAll)

lemma uniq_Nil_iff [simp]: "uniq xs = [] \<longleftrightarrow> xs = []"
  by (cases xs) auto

lemma uniq_distinct: "distinct xs \<Longrightarrow> uniq xs = xs"
  by (induction xs) auto

lemma uniq_snoc: "uniq (xs @ [y]) = (if y \<in> set xs then uniq xs else uniq xs @ [y])"
  by (induction xs) auto

text \<open>\<open>new Map(xs.map(x => [key(x), x])).get(k)\<close>: the last entry of a key wins.\<close>

definition map_by :: "('a \<Rightarrow> 'k) \<Rightarrow> 'a list \<Rightarrow> 'k \<Rightarrow> 'a option" where
  "map_by key xs k = find (\<lambda>x. key x = k) (rev xs)"

lemma map_by_Some: "map_by key xs k = Some x \<Longrightarrow> x \<in> set xs \<and> key x = k"
  by (auto simp: map_by_def find_Some_iff) (metis nth_mem length_rev set_rev)

lemma map_by_None: "map_by key xs k = None \<longleftrightarrow> k \<notin> key ` set xs"
  by (auto simp: map_by_def find_None_iff)

lemma find_hit: "find P xs = Some x \<Longrightarrow> x \<in> set xs \<and> P x"
  by (auto simp: find_Some_iff)

lemma find_miss: "find P xs = None \<Longrightarrow> x \<in> set xs \<Longrightarrow> \<not> P x"
  by (auto simp: find_None_iff)

lemma find_distinct:
  assumes "distinct (map key xs)" "x \<in> set xs"
  shows "find (\<lambda>y. key y = key x) xs = Some x"
  using assms by (induction xs) (auto simp: rev_image_eqI)

subsection \<open>Array.prototype.sort\<close>

text \<open>
  The stable sort of the language, by insertion: for a consistent comparator the language
  standard determines the result, and insertion is one way to reach it.
\<close>

fun js_insert :: "('a \<Rightarrow> 'a \<Rightarrow> int) \<Rightarrow> 'a \<Rightarrow> 'a list \<Rightarrow> 'a list" where
  "js_insert cmp x [] = [x]"
| "js_insert cmp x (y # ys) = (if cmp x y \<le> 0 then x # y # ys else y # js_insert cmp x ys)"

definition js_sort :: "('a \<Rightarrow> 'a \<Rightarrow> int) \<Rightarrow> 'a list \<Rightarrow> 'a list" where
  "js_sort cmp xs = foldr (js_insert cmp) xs []"

lemma js_sort_simps [simp]:
  "js_sort cmp [] = []"
  "js_sort cmp (x # xs) = js_insert cmp x (js_sort cmp xs)"
  by (simp_all add: js_sort_def)

lemma set_js_insert [simp]: "set (js_insert cmp x xs) = insert x (set xs)"
  by (induction xs) auto

lemma length_js_insert [simp]: "length (js_insert cmp x xs) = Suc (length xs)"
  by (induction xs) auto

lemma distinct_js_insert [simp]:
  "distinct (map f (js_insert cmp x xs)) \<longleftrightarrow> f x \<notin> f ` set xs \<and> distinct (map f xs)"
  by (induction xs) auto

lemma set_js_sort [simp]: "set (js_sort cmp xs) = set xs"
  by (induction xs) auto

lemma length_js_sort [simp]: "length (js_sort cmp xs) = length xs"
  by (induction xs) auto

lemma distinct_js_sort [simp]: "distinct (map f (js_sort cmp xs)) = distinct (map f xs)"
  by (induction xs) auto

lemma js_insert_cong:
  "(\<And>y. y \<in> set ys \<Longrightarrow> c x y = d x y) \<Longrightarrow> js_insert c x ys = js_insert d x ys"
  by (induction ys) auto

lemma js_sort_cong:
  "(\<And>x y. x \<in> set xs \<Longrightarrow> y \<in> set xs \<Longrightarrow> c x y = d x y) \<Longrightarrow> js_sort c xs = js_sort d xs"
  by (induction xs) (auto intro: js_insert_cong)

definition cmp_of :: "'a::linorder \<Rightarrow> 'a \<Rightarrow> int" where
  "cmp_of a b = (if a < b then -1 else if a = b then 0 else 1)"

definition cmp_then :: "int \<Rightarrow> int \<Rightarrow> int" where
  "cmp_then a b = (if a \<noteq> 0 then a else b)"

text \<open>The contract of a comparator, under which a sort returns an ordered array.\<close>

locale comparator =
  fixes cmp :: "'a \<Rightarrow> 'a \<Rightarrow> int"
  assumes total: "0 < cmp x y \<Longrightarrow> cmp y x \<le> 0"
    and trans: "cmp x y \<le> 0 \<Longrightarrow> cmp y z \<le> 0 \<Longrightarrow> cmp x z \<le> 0"
begin

lemma sorted_insert:
  "sorted_wrt (\<lambda>x y. cmp x y \<le> 0) xs \<Longrightarrow> sorted_wrt (\<lambda>x y. cmp x y \<le> 0) (js_insert cmp x xs)"
proof (induction xs)
  case (Cons y ys)
  show ?case
  proof (cases "cmp x y \<le> 0")
    case True
    with Cons.prems show ?thesis by (auto intro: trans)
  next
    case False
    then have "cmp y x \<le> 0" using total by fastforce
    with False Cons show ?thesis by auto
  qed
qed simp

lemma sorted_sort: "sorted_wrt (\<lambda>x y. cmp x y \<le> 0) (js_sort cmp xs)"
  by (induction xs) (auto intro: sorted_insert)

lemma sort_take_least:
  assumes "x \<in> set (take n (js_sort cmp xs))" "y \<in> set (drop n (js_sort cmp xs))"
  shows "cmp x y \<le> 0"
proof -
  have "sorted_wrt (\<lambda>x y. cmp x y \<le> 0) (take n (js_sort cmp xs) @ drop n (js_sort cmp xs))"
    using sorted_sort by simp
  with assms show ?thesis by (auto simp only: sorted_wrt_append)
qed

end

interpretation order_comparator: comparator "cmp_of :: 'a::linorder \<Rightarrow> 'a \<Rightarrow> int"
  by unfold_locales (auto simp: cmp_of_def split: if_splits)

subsection \<open>Record collections\<close>

text \<open>
  A collection is the directory of one kind of record: the file names (identifiers) with the
  record stored under each, in the order the directory is read. Writing a record replaces the file
  of its identifier or adds one.
\<close>

type_synonym 'r coll = "(str \<times> 'r) list"

fun coll_put :: "str \<Rightarrow> 'r \<Rightarrow> 'r coll \<Rightarrow> 'r coll" where
  "coll_put k r [] = [(k, r)]"
| "coll_put k r ((k', r') # c) = (if k = k' then (k, r) # c else (k', r') # coll_put k r c)"

definition coll_get :: "'r coll \<Rightarrow> str \<Rightarrow> 'r option" where
  "coll_get c k = map_of c k"

definition coll_values :: "'r coll \<Rightarrow> 'r list" where
  "coll_values c = map snd c"

definition coll_wf :: "('r \<Rightarrow> str) \<Rightarrow> 'r coll \<Rightarrow> bool" where
  "coll_wf key c = (distinct (map fst c) \<and> list_all (\<lambda>(k, r). key r = k) c)"

lemma coll_get_Nil [simp, coll_simps]: "coll_get [] k = None"
  by (simp add: coll_get_def)

lemma coll_values_Nil [simp, coll_simps]: "coll_values [] = []"
  by (simp add: coll_values_def)

lemma coll_wf_Nil [simp]: "coll_wf key []"
  by (simp add: coll_wf_def)

lemma coll_get_put [simp, coll_simps]:
  "coll_get (coll_put k r c) k' = (if k' = k then Some r else coll_get c k')"
  by (induction k r c rule: coll_put.induct) (auto simp: coll_get_def)

lemma keys_coll_put: "set (map fst (coll_put k r c)) = insert k (set (map fst c))"
  by (induction k r c rule: coll_put.induct) auto

lemma distinct_coll_put: "distinct (map fst c) \<Longrightarrow> distinct (map fst (coll_put k r c))"
proof (induction k r c rule: coll_put.induct)
  case (2 k r k' r' c)
  then show ?case using keys_coll_put [of k r c] by auto
qed simp

lemma coll_wf_put: "coll_wf key c \<Longrightarrow> key r = k \<Longrightarrow> coll_wf key (coll_put k r c)"
proof -
  assume wf: "coll_wf key c" and k: "key r = k"
  from wf have "list_all (\<lambda>(k, r). key r = k) (coll_put k r c)"
    unfolding coll_wf_def using k by (induction k r c rule: coll_put.induct) auto
  with wf show ?thesis by (simp add: coll_wf_def distinct_coll_put)
qed

lemma coll_get_key: "coll_wf key c \<Longrightarrow> coll_get c k = Some r \<Longrightarrow> key r = k"
  by (auto simp: coll_wf_def coll_get_def list_all_iff dest!: map_of_SomeD)

lemma coll_values_iff:
  assumes "coll_wf key c"
  shows "r \<in> set (coll_values c) \<longleftrightarrow> coll_get c (key r) = Some r"
proof
  assume "r \<in> set (coll_values c)"
  then obtain k where "(k, r) \<in> set c" by (auto simp: coll_values_def)
  moreover from this assms have "key r = k" by (auto simp: coll_wf_def list_all_iff)
  ultimately show "coll_get c (key r) = Some r"
    using assms by (simp add: coll_get_def coll_wf_def)
next
  assume "coll_get c (key r) = Some r"
  then show "r \<in> set (coll_values c)"
    by (auto simp: coll_get_def coll_values_def dest!: map_of_SomeD intro: rev_image_eqI)
qed

lemma coll_values_distinct: "coll_wf key c \<Longrightarrow> distinct (map key (coll_values c))"
proof -
  assume wf: "coll_wf key c"
  then have "map key (coll_values c) = map fst c"
    by (auto simp: coll_wf_def coll_values_def list_all_iff)
  with wf show ?thesis by (simp add: coll_wf_def)
qed

end
