(* ===== verification/FileLock.thy ===== *)
theory FileLock imports Prelude begin

text \<open>
  The queue lock of the file store (\<open>withRouteJobsLock\<close> of runtime/routing-store.ts) as processes
  that interleave on one lock file: \<open>open(lockPath, "wx")\<close> creates the file or fails because it
  exists; a waiter then reads the file's age, removes it when it is older than 30 s, gives up after
  5 s, or waits and tries again; the holder removes the file when its operation ends. Each file
  system call is one step, so any schedule of the calls is a run. A process may crash while it
  holds the lock. The file's modification time is that of its creation (the holder's write of
  its identity follows at once); file system errors other than "exists" are left out.
\<close>

datatype lock_phase =
    Idle
  | Trying instant
  | Checking instant
  | Stealing instant
  | Holding instant
  | Finished
  | TimedOut
  | Crashed

record lock_state =
  lk_now :: instant
  lk_file :: "instant option"
  lk_phase :: "nat \<Rightarrow> lock_phase"

definition stale_after_ms :: int where
  "stale_after_ms = 30000"

definition lock_timeout_ms :: int where
  "lock_timeout_ms = 5000"

text \<open>\<open>isStaleLock\<close>: the age of the file, false when it is gone.\<close>

definition is_stale_lock :: "lock_state \<Rightarrow> bool" where
  "is_stale_lock s = (case lk_file s of None \<Rightarrow> False | Some m \<Rightarrow> lk_now s - m > stale_after_ms)"

definition set_phase :: "nat \<Rightarrow> lock_phase \<Rightarrow> lock_state \<Rightarrow> lock_state" where
  "set_phase p x s = s\<lparr>lk_phase := (lk_phase s)(p := x)\<rparr>"

inductive lock_step :: "lock_state \<Rightarrow> lock_state \<Rightarrow> bool" where
  lk_tick: "0 \<le> d \<Longrightarrow> lock_step s (s\<lparr>lk_now := lk_now s + d\<rparr>)"
| lk_start: "lk_phase s p = Idle \<Longrightarrow> lock_step s (set_phase p (Trying (lk_now s)) s)"
| lk_open: "lk_phase s p = Trying t \<Longrightarrow> lk_file s = None \<Longrightarrow>
    lock_step s (set_phase p (Holding (lk_now s)) (s\<lparr>lk_file := Some (lk_now s)\<rparr>))"
| lk_exists: "lk_phase s p = Trying t \<Longrightarrow> lk_file s \<noteq> None \<Longrightarrow> lock_step s (set_phase p (Checking t) s)"
| lk_stale: "lk_phase s p = Checking t \<Longrightarrow> is_stale_lock s \<Longrightarrow> lock_step s (set_phase p (Stealing t) s)"
| lk_steal: "lk_phase s p = Stealing t \<Longrightarrow> lock_step s (set_phase p (Trying t) (s\<lparr>lk_file := None\<rparr>))"
| lk_give_up: "lk_phase s p = Checking t \<Longrightarrow> \<not> is_stale_lock s \<Longrightarrow> lk_now s - t \<ge> lock_timeout_ms \<Longrightarrow>
    lock_step s (set_phase p TimedOut s)"
| lk_wait: "lk_phase s p = Checking t \<Longrightarrow> \<not> is_stale_lock s \<Longrightarrow> lk_now s - t < lock_timeout_ms \<Longrightarrow>
    lock_step s (set_phase p (Trying t) s)"
| lk_release: "lk_phase s p = Holding h \<Longrightarrow> lock_step s (set_phase p Finished (s\<lparr>lk_file := None\<rparr>))"
| lk_crash: "lk_phase s p = Holding h \<Longrightarrow> lock_step s (set_phase p Crashed s)"

inductive_cases lock_stepE: "lock_step s s'"

definition timely :: "lock_state \<Rightarrow> bool" where
  "timely s \<longleftrightarrow> (\<forall>p h. lk_phase s p = Holding h \<longrightarrow> lk_now s - h \<le> stale_after_ms) \<and>
     (\<forall>p. lk_phase s p \<noteq> Crashed)"

text \<open>Runs in which every state satisfies a side condition.\<close>

inductive lock_run :: "(lock_state \<Rightarrow> bool) \<Rightarrow> lock_state \<Rightarrow> lock_state \<Rightarrow> bool" for P where
  lr_refl: "P s \<Longrightarrow> lock_run P s s"
| lr_step: "lock_run P s t \<Longrightarrow> lock_step t u \<Longrightarrow> P u \<Longrightarrow> lock_run P s u"

definition unlocked :: "instant \<Rightarrow> lock_state" where
  "unlocked now = \<lparr>lk_now = now, lk_file = None, lk_phase = (\<lambda>p. Idle)\<rparr>"

definition holders :: "lock_state \<Rightarrow> nat set" where
  "holders s = {p. \<exists>h. lk_phase s p = Holding h}"

text \<open>The file exists exactly while one process holds the lock, and carries its time; nobody steals.\<close>

definition lock_inv :: "lock_state \<Rightarrow> bool" where
  "lock_inv s \<longleftrightarrow>
     (\<forall>p t. lk_phase s p \<noteq> Stealing t) \<and>
     (\<forall>p h. lk_phase s p = Holding h \<longrightarrow> lk_file s = Some h) \<and>
     (\<forall>m. lk_file s = Some m \<longrightarrow> (\<exists>p. lk_phase s p = Holding m)) \<and>
     (\<forall>p q h h'. lk_phase s p = Holding h \<longrightarrow> lk_phase s q = Holding h' \<longrightarrow> p = q)"

lemma lock_inv_move:
  assumes "lock_inv s" "\<And>h. lk_phase s p \<noteq> Holding h" "\<And>h. x \<noteq> Holding h" "\<And>t. x \<noteq> Stealing t"
  shows "lock_inv (set_phase p x s)"
proof -
  have "lk_phase (set_phase p x s) q = Holding h \<longleftrightarrow> lk_phase s q = Holding h" for q h
    using assms(2,3) by (simp add: set_phase_def)
  moreover have "lk_phase (set_phase p x s) q \<noteq> Stealing t" for q t
    using assms(1,4) by (simp add: set_phase_def lock_inv_def)
  moreover have "lk_file (set_phase p x s) = lk_file s" by (simp add: set_phase_def)
  ultimately show ?thesis using assms(1) unfolding lock_inv_def by simp
qed

lemma lock_inv_step:
  assumes "lock_step s s'" "lock_inv s" "timely s" "timely s'"
  shows "lock_inv s'"
  using assms(1)
proof (cases rule: lock_step.cases)
  case (lk_tick d)
  with assms(2) show ?thesis by (simp add: lock_inv_def)
next
  case (lk_start p)
  then show ?thesis using lock_inv_move [OF assms(2)] by simp
next
  case (lk_open p t)
  have none: "lk_phase s q \<noteq> Holding h" for q h
  proof
    assume "lk_phase s q = Holding h"
    with assms(2) have "lk_file s = Some h" unfolding lock_inv_def by blast
    with lk_open(3) show False by simp
  qed
  have "lk_phase s' q = Holding h \<longleftrightarrow> q = p \<and> h = lk_now s" for q h
    using none by (auto simp: lk_open set_phase_def)
  moreover have "lk_phase s' q \<noteq> Stealing t'" for q t'
    using assms(2) by (simp add: lk_open set_phase_def lock_inv_def)
  moreover have "lk_file s' = Some (lk_now s)" by (simp add: lk_open set_phase_def)
  ultimately show ?thesis unfolding lock_inv_def by simp
next
  case (lk_exists p t)
  then show ?thesis using lock_inv_move [OF assms(2)] by simp
next
  case (lk_stale p t)
  then obtain m where m: "lk_file s = Some m" "lk_now s - m > stale_after_ms"
    by (auto simp: is_stale_lock_def split: option.splits)
  from assms(2) m(1) obtain q where "lk_phase s q = Holding m" unfolding lock_inv_def by blast
  with assms(3) have "lk_now s - m \<le> stale_after_ms" unfolding timely_def by blast
  with m(2) show ?thesis by simp
next
  case (lk_steal p t)
  with assms(2) show ?thesis unfolding lock_inv_def by blast
next
  case (lk_give_up p t)
  then show ?thesis using lock_inv_move [OF assms(2)] by simp
next
  case (lk_wait p t)
  then show ?thesis using lock_inv_move [OF assms(2)] by simp
next
  case (lk_release p h)
  have none: "lk_phase s' q \<noteq> Holding h'" for q h'
  proof
    assume q: "lk_phase s' q = Holding h'"
    then have "q \<noteq> p" "lk_phase s q = Holding h'" by (auto simp: lk_release set_phase_def split: if_splits)
    with assms(2) lk_release(2) show False unfolding lock_inv_def by blast
  qed
  moreover have "lk_phase s' q \<noteq> Stealing t" for q t
    using assms(2) by (simp add: lk_release set_phase_def lock_inv_def)
  moreover have "lk_file s' = None" by (simp add: lk_release set_phase_def)
  ultimately show ?thesis unfolding lock_inv_def by simp
next
  case (lk_crash p h)
  then have "lk_phase s' p = Crashed" by (simp add: set_phase_def)
  with assms(4) show ?thesis unfolding timely_def by blast
qed

lemma lock_run_inv: "lock_run timely s s' \<Longrightarrow> lock_inv s \<Longrightarrow> lock_inv s' \<and> timely s'"
  by (induction rule: lock_run.induct) (auto intro: lock_inv_step)

text \<open>
  C17: the queue lock excludes. As long as no operation holds the lock for more than 30 s and no
  holder crashes, in any interleaving of any number of processes at most one of them is inside its
  operation, the lock file exists exactly while one is, and nobody removes it but its holder.
\<close>

theorem queue_lock_excludes:
  assumes "lock_run timely (unlocked now) s"
  shows "(p \<in> holders s \<longrightarrow> q \<in> holders s \<longrightarrow> p = q) \<and> (lk_file s = None \<longleftrightarrow> holders s = {}) \<and>
    lk_phase s p \<noteq> Stealing t"
proof -
  have "lock_inv (unlocked now)" by (simp add: lock_inv_def unlocked_def)
  with lock_run_inv [OF assms] have inv: "lock_inv s" by blast
  then have "lk_file s = None \<longleftrightarrow> holders s = {}"
    unfolding lock_inv_def holders_def by (cases "lk_file s") auto
  with inv show ?thesis unfolding lock_inv_def holders_def by blast
qed

text \<open>A run to a state in which one process is inside its operation and another waits.\<close>

theorem queue_lock_excludes_witness:
  "\<exists>s. 0 \<in> holders s \<and> lk_phase s 1 = Checking 100 \<and> (1 \<in> holders s \<longrightarrow> (1::nat) = 0)"
proof -
  let ?s0 = "unlocked 100"
  let ?s1 = "set_phase 0 (Trying 100) ?s0"
  let ?s2 = "set_phase 0 (Holding 100) (?s1\<lparr>lk_file := Some 100\<rparr>)"
  let ?s3 = "set_phase 1 (Trying 100) ?s2"
  let ?s4 = "set_phase 1 (Checking 100) ?s3"
  have "lock_run timely ?s0 ?s0" by (rule lr_refl) (simp add: timely_def unlocked_def)
  moreover have "lock_step ?s0 ?s1" using lk_start [of ?s0 0] by (simp add: unlocked_def)
  moreover have "lock_step ?s1 ?s2" using lk_open [of ?s1 0 100] by (simp add: unlocked_def set_phase_def)
  moreover have "lock_step ?s2 ?s3" using lk_start [of ?s2 1] by (simp add: unlocked_def set_phase_def)
  moreover have "lock_step ?s3 ?s4" using lk_exists [of ?s3 1 100] by (simp add: unlocked_def set_phase_def)
  moreover have "timely ?s1" "timely ?s2" "timely ?s3" "timely ?s4"
    by (auto simp: timely_def unlocked_def set_phase_def stale_after_ms_def)
  ultimately have run: "lock_run timely ?s0 ?s4" by (meson lr_step)
  from queue_lock_excludes [OF run, of 1 0 0]
  have "1 \<in> holders ?s4 \<longrightarrow> 0 \<in> holders ?s4 \<longrightarrow> (1::nat) = 0" by blast
  moreover have "0 \<in> holders ?s4" "lk_phase ?s4 1 = Checking 100"
    by (simp_all add: holders_def set_phase_def)
  ultimately show ?thesis by blast
qed

subsection \<open>Stealing a stale lock is not exclusive\<close>

text \<open>A lock left behind by a crashed holder more than 30 s ago.\<close>

definition abandoned :: lock_state where
  "abandoned = \<lparr>lk_now = 40000, lk_file = Some 0, lk_phase = (\<lambda>p. if p = 0 then Crashed else Idle)\<rparr>"

definition brisk :: "lock_state \<Rightarrow> bool" where
  "brisk s \<longleftrightarrow> (\<forall>p h. lk_phase s p = Holding h \<longrightarrow> lk_now s = h)"

text \<open>Two waiters at the abandoned lock, with the file and their phases.\<close>

definition race :: "instant option \<Rightarrow> lock_phase \<Rightarrow> lock_phase \<Rightarrow> lock_state" where
  "race m a b = \<lparr>lk_now = 40000, lk_file = m,
     lk_phase = (\<lambda>p. if p = 0 then Crashed else if p = 1 then a else if p = 2 then b else Idle)\<rparr>"

definition own_phase :: "lock_phase \<Rightarrow> bool" where
  "own_phase a \<longleftrightarrow> (\<forall>h. a = Holding h \<longrightarrow> h = 40000)"

text \<open>What one waiter does at the instant 40000, to the file and to its phase.\<close>

inductive waiter_step :: "instant option \<times> lock_phase \<Rightarrow> instant option \<times> lock_phase \<Rightarrow> bool" where
  race_idle: "waiter_step (m, Idle) (m, Trying 40000)"
| race_exists: "waiter_step (Some m, Trying 40000) (Some m, Checking 40000)"
| race_stale: "waiter_step (Some 0, Checking 40000) (Some 0, Stealing 40000)"
| race_steal: "waiter_step (m, Stealing 40000) (None, Trying 40000)"
| race_open: "waiter_step (None, Trying 40000) (Some 40000, Holding 40000)"

lemma same_file: "lk_file s = m \<Longrightarrow> s\<lparr>lk_file := m\<rparr> = s"
  by (cases s) auto

lemma waiter_lock_step:
  assumes "waiter_step (lk_file s, lk_phase s p) (m, a)" "lk_now s = 40000"
  shows "lock_step s (set_phase p a (s\<lparr>lk_file := m\<rparr>))"
  using assms(1)
proof cases
  case race_idle
  with lk_start [of s p] same_file [of s m] assms(2) show ?thesis by simp
next
  case (race_exists m')
  then have same: "s\<lparr>lk_file := Some m'\<rparr> = s" by (intro same_file) simp
  show ?thesis unfolding race_exists(3,4) same
    by (rule lk_exists [OF race_exists(2)]) (simp add: race_exists(1))
next
  case race_stale
  then have same: "s\<lparr>lk_file := Some 0\<rparr> = s" by (intro same_file) simp
  show ?thesis unfolding race_stale(3,4) same
    by (rule lk_stale [OF race_stale(2)]) (simp add: is_stale_lock_def stale_after_ms_def race_stale(1) assms(2))
next
  case race_steal
  with lk_steal [of s p 40000] show ?thesis by simp
next
  case race_open
  with lk_open [of s p 40000] assms(2) show ?thesis by simp
qed

lemma race_updates:
  "set_phase 1 a' (race m a b\<lparr>lk_file := m'\<rparr>) = race m' a' b"
  "set_phase 2 b' (race m a b\<lparr>lk_file := m'\<rparr>) = race m' a b'"
  by (simp_all add: set_phase_def race_def fun_eq_iff)

lemma race_fields: "lk_file (race m a b) = m" "lk_phase (race m a b) 1 = a" "lk_phase (race m a b) 2 = b"
  "lk_now (race m a b) = 40000"
  by (simp_all add: race_def)

lemma race_brisk: "brisk (race m a b) \<longleftrightarrow> own_phase a \<and> own_phase b"
  unfolding brisk_def own_phase_def race_def by (auto split: if_splits)

lemma waiter_own: "waiter_step x (m, a) \<Longrightarrow> own_phase a"
  by (erule waiter_step.cases) (simp_all add: own_phase_def)

lemma race_start: "lock_run brisk abandoned (race (Some 0) Idle Idle)"
proof -
  have "abandoned = race (Some 0) Idle Idle" by (simp add: abandoned_def race_def fun_eq_iff)
  moreover have "brisk (race (Some 0) Idle Idle)" by (simp add: race_brisk own_phase_def)
  ultimately show ?thesis by (simp add: lr_refl)
qed

lemma lock_run_side: "lock_run P s t \<Longrightarrow> P t"
  by (induction rule: lock_run.induct) auto

lemma race_one:
  assumes run: "lock_run brisk abandoned (race m a b)" and step: "waiter_step (m, a) (m', a')"
  shows "lock_run brisk abandoned (race m' a' b)"
  using lr_step [OF run waiter_lock_step [of "race m a b" 1 m' a', unfolded race_fields race_updates, OF step refl]]
    lock_run_side [OF run] waiter_own [OF step] by (simp add: race_brisk)

lemma race_two:
  assumes run: "lock_run brisk abandoned (race m a b)" and step: "waiter_step (m, b) (m', b')"
  shows "lock_run brisk abandoned (race m' a b')"
  using lr_step [OF run waiter_lock_step [of "race m a b" 2 m' b', unfolded race_fields race_updates, OF step refl]]
    lock_run_side [OF run] waiter_own [OF step] by (simp add: race_brisk)

text \<open>
  Taking over an abandoned lock can put two processes inside at once. From a lock file left by a
  crashed process, two waiters that both see it stale can both remove a file and create one, the second
  removing the lock the first has just taken, although every operation is instantaneous.
\<close>

theorem stale_lock_race:
  "\<exists>s. lock_run brisk abandoned s \<and> 1 \<in> holders s \<and> 2 \<in> holders s"
proof -
  let ?T = "Trying 40000" and ?C = "Checking 40000" and ?S = "Stealing 40000" and ?H = "Holding 40000"
  note r0 = race_start
  note r1 = race_one [OF r0 race_idle]
  note r2 = race_two [OF r1 race_idle]
  note r3 = race_one [OF r2 race_exists]
  note r4 = race_two [OF r3 race_exists]
  note r5 = race_one [OF r4 race_stale]
  note r6 = race_two [OF r5 race_stale]
  note r7 = race_one [OF r6 race_steal]
  note r8 = race_one [OF r7 race_open]
  note r9 = race_two [OF r8 race_steal]
  note r10 = race_two [OF r9 race_open]
  from r10 show ?thesis
    by (intro exI [of _ "race (Some 40000) ?H ?H"]) (simp add: holders_def race_def)
qed

end
