(* ===== verification/Json.thy ===== *)
theory Json imports Prelude Complex_Main "HOL-Library.Multiset" begin

text \<open>
  JSON values, their canonical text and the content hash (core/hash.ts), and the path lookup the
  routing rules use (\<open>readPath\<close> of core/routing.ts).

  \<open>json\<close> is the type of the values the sources call \<open>unknown\<close> once they are validated. An object is
  the list of its own enumerable properties in enumeration order. Numbers are rationals (every
  finite double is one). What a number's text is (\<open>Number::toString\<close>), the SHA-256 digest of
  node:crypto, the collation order of \<open>String.prototype.localeCompare\<close>, the number a text denotes
  (\<open>StringToNumber\<close>, \<open>None\<close> for \<open>NaN\<close>) and the case-insensitive regular-expression test
  (\<open>None\<close> when the pattern is not one and the constructor throws) are the fields of the
  record \<open>runtime\<close>, an argument of the definitions that use them. Only own properties are
  modelled: a name inherited from \<open>Object.prototype\<close> (\<open>toString\<close>, \<open>constructor\<close>) is not found.
\<close>

datatype json =
    JNull
  | JBool bool
  | JNum rat
  | JStr str
  | JArr "json list"
  | JObj "(str \<times> json) list"

record runtime =
  sha256_hex :: "str \<Rightarrow> str"
  number_text :: "rat \<Rightarrow> str"
  locale_compare :: "str \<Rightarrow> str \<Rightarrow> int"
  parse_number :: "str \<Rightarrow> rat option"
  regex_test_i :: "str \<Rightarrow> str \<Rightarrow> bool option"

subsection \<open>The text of an instant\<close>

definition digit_char :: "nat \<Rightarrow> char" where
  "digit_char n = char_of (48 + n)"

fun dec_digits :: "nat \<Rightarrow> nat \<Rightarrow> str" where
  "dec_digits 0 n = []"
| "dec_digits (Suc k) n = dec_digits k (n div 10) @ [digit_char (n mod 10)]"

text \<open>Year, month and day of a day number counted from 1970-01-01 (proleptic Gregorian).\<close>

definition civil_of_days :: "int \<Rightarrow> int \<times> int \<times> int" where
  "civil_of_days n =
     (let z = n + 719468; era = z div 146097; doe = z mod 146097;
          yoe = (doe - doe div 1460 + doe div 36524 - doe div 146096) div 365;
          doy = doe - (365 * yoe + yoe div 4 - yoe div 100);
          mp = (5 * doy + 2) div 153;
          d = doy - (153 * mp + 2) div 5 + 1;
          m = (if mp < 10 then mp + 3 else mp - 9);
          y = yoe + era * 400 + (if m \<le> 2 then 1 else 0)
      in (y, m, d))"

definition year_text :: "int \<Rightarrow> str" where
  "year_text y =
     (if 0 \<le> y \<and> y \<le> 9999 then dec_digits 4 (nat y)
      else (if y < 0 then CHR ''-'' else CHR ''+'') # dec_digits 6 (nat \<bar>y\<bar>))"

definition iso_instant :: "instant \<Rightarrow> str" where
  "iso_instant t =
     (let (y, m, d) = civil_of_days (t div 86400000); r = nat (t mod 86400000)
      in year_text y @ ''-'' @ dec_digits 2 (nat m) @ ''-'' @ dec_digits 2 (nat d) @ ''T'' @
         dec_digits 2 (r div 3600000) @ '':'' @ dec_digits 2 (r div 60000 mod 60) @ '':'' @
         dec_digits 2 (r div 1000 mod 60) @ ''.'' @ dec_digits 3 (r mod 1000) @ ''Z'')"

subsection \<open>JSON.stringify\<close>

definition hex_char :: "nat \<Rightarrow> char" where
  "hex_char n = (if n < 10 then char_of (48 + n) else char_of (87 + n))"

definition escape_char :: "char \<Rightarrow> str" where
  "escape_char c =
     (if c = CHR 0x22 then [CHR 0x5C, CHR 0x22]
      else if c = CHR 0x5C then [CHR 0x5C, CHR 0x5C]
      else if c = CHR 0x08 then [CHR 0x5C, CHR ''b'']
      else if c = CHR 0x0C then [CHR 0x5C, CHR ''f'']
      else if c = CHR 0x0A then [CHR 0x5C, CHR ''n'']
      else if c = CHR 0x0D then [CHR 0x5C, CHR ''r'']
      else if c = CHR 0x09 then [CHR 0x5C, CHR ''t'']
      else if (of_char c :: nat) < 32
        then [CHR 0x5C, CHR ''u'', CHR ''0'', CHR ''0'',
              hex_char (of_char c div 16), hex_char (of_char c mod 16)]
      else [c])"

definition quote_text :: "str \<Rightarrow> str" where
  "quote_text s = CHR 0x22 # concat (map escape_char s) @ [CHR 0x22]"

fun stringify :: "runtime \<Rightarrow> json \<Rightarrow> str" where
  "stringify R JNull = ''null''"
| "stringify R (JBool b) = (if b then ''true'' else ''false'')"
| "stringify R (JNum q) = number_text R q"
| "stringify R (JStr s) = quote_text s"
| "stringify R (JArr xs) = ''['' @ js_join '','' (map (stringify R) xs) @ '']''"
| "stringify R (JObj kvs) =
     CHR 0x7B # js_join '','' (map (\<lambda>(k, v). quote_text k @ '':'' @ stringify R v) kvs) @ [CHR 0x7D]"

subsection \<open>Canonical key order\<close>

text \<open>
  \<open>sortKeys\<close> writes the sorted keys one by one into a fresh object literal. Enumeration then lists
  the array-index keys first, in numeric order, and the others in the order they were written.
  Writing the key \<open>__proto__\<close> reaches the inherited setter and creates no property.
\<close>

definition digit_val :: "char \<Rightarrow> nat option" where
  "digit_val c = (let n = (of_char c :: nat) in if 48 \<le> n \<and> n \<le> 57 then Some (n - 48) else None)"

fun digits_val :: "nat \<Rightarrow> str \<Rightarrow> nat option" where
  "digits_val a [] = Some a"
| "digits_val a (c # cs) = (case digit_val c of None \<Rightarrow> None | Some d \<Rightarrow> digits_val (10 * a + d) cs)"

definition array_index :: "str \<Rightarrow> nat option" where
  "array_index k =
     (if k = [] \<or> (hd k = CHR ''0'' \<and> k \<noteq> ''0'') then None
      else (case digits_val 0 k of None \<Rightarrow> None
            | Some n \<Rightarrow> if n < 4294967295 then Some n else None))"

definition own_key_order :: "(str \<times> 'v) list \<Rightarrow> (str \<times> 'v) list" where
  "own_key_order kvs =
     sort_key (\<lambda>(k, v). the (array_index k)) (filter (\<lambda>(k, v). array_index k \<noteq> None) kvs) @
     filter (\<lambda>(k, v). array_index k = None) kvs"

definition proto_key :: str where
  "proto_key = ''__proto__''"

fun sort_keys :: "json \<Rightarrow> json" where
  "sort_keys (JArr xs) = JArr (map sort_keys xs)"
| "sort_keys (JObj kvs) =
     JObj (own_key_order (filter (\<lambda>(k, v). k \<noteq> proto_key)
       (sort_key fst (map (\<lambda>(k, v). (k, sort_keys v)) kvs))))"
| "sort_keys v = v"

definition stable_stringify :: "runtime \<Rightarrow> json \<Rightarrow> str" where
  "stable_stringify R v = stringify R (sort_keys v)"

text \<open>The argument of the hashes: \<open>None\<close> is \<open>undefined\<close>.\<close>

definition digest_preimage :: "runtime \<Rightarrow> json option \<Rightarrow> str" where
  "digest_preimage R v =
     (case v of None \<Rightarrow> ''undefined''
      | Some JNull \<Rightarrow> ''null''
      | Some (JStr s) \<Rightarrow> s
      | Some w \<Rightarrow> stable_stringify R w)"

definition content_digest :: "runtime \<Rightarrow> json option \<Rightarrow> str" where
  "content_digest R v = sha256_hex R (digest_preimage R v)"

definition content_hash :: "runtime \<Rightarrow> json option \<Rightarrow> str" where
  "content_hash R v = take 16 (content_digest R v)"

text \<open>The object literal the sources hash; a property whose value is \<open>undefined\<close> leaves no text.\<close>

definition jobj :: "(str \<times> json option) list \<Rightarrow> json" where
  "jobj kvs = JObj (concat (map (\<lambda>(k, v). case v of None \<Rightarrow> [] | Some w \<Rightarrow> [(k, w)]) kvs))"

definition jstr :: "str \<Rightarrow> json option" where
  "jstr s = Some (JStr s)"

definition jopt :: "str option \<Rightarrow> json option" where
  "jopt s = map_option JStr s"

definition jstrs :: "str list \<Rightarrow> json option" where
  "jstrs xs = Some (JArr (map JStr xs))"

definition hash_obj :: "runtime \<Rightarrow> (str \<times> json option) list \<Rightarrow> str" where
  "hash_obj R kvs = content_hash R (Some (jobj kvs))"

definition idempotency_key :: "runtime \<Rightarrow> str \<Rightarrow> str \<Rightarrow> str \<Rightarrow> str" where
  "idempotency_key R loopSpecVersion triggerSource sourceEventId =
     hash_obj R [(''loopSpecVersion'', jstr loopSpecVersion),
       (''triggerSource'', jstr triggerSource), (''sourceEventId'', jstr sourceEventId)]"

definition run_id :: "runtime \<Rightarrow> str \<Rightarrow> str \<Rightarrow> str" where
  "run_id R loopSpecHash idempotencyKey =
     ''run_'' @ hash_obj R [(''loopSpecHash'', jstr loopSpecHash),
       (''idempotencyKey'', jstr idempotencyKey)]"

subsection \<open>Path lookup\<close>

definition array_member :: "json list \<Rightarrow> str \<Rightarrow> json option" where
  "array_member xs p =
     (if p = ''length'' then Some (JNum (of_nat (length xs)))
      else (case array_index p of None \<Rightarrow> None
            | Some i \<Rightarrow> if i < length xs then Some (xs ! i) else None))"

fun read_parts :: "json option \<Rightarrow> str list \<Rightarrow> json option" where
  "read_parts cur [] = cur"
| "read_parts cur (p # ps) =
     (case cur of
        Some (JObj kvs) \<Rightarrow> read_parts (map_of kvs p) ps
      | Some (JArr xs) \<Rightarrow> read_parts (array_member xs p) ps
      | _ \<Rightarrow> None)"

definition path_parts :: "str \<Rightarrow> str list" where
  "path_parts p = filter (\<lambda>w. w \<noteq> []) (js_split (CHR ''.'') p)"

definition read_path :: "json \<Rightarrow> str \<Rightarrow> json option" where
  "read_path v p = read_parts (Some v) (path_parts p)"

lemma read_parts_None [simp]: "read_parts None ps = (if ps = [] then None else None)"
  by (cases ps) auto

lemma read_parts_append: "read_parts cur (ps @ qs) = read_parts (read_parts cur ps) qs"
  by (induction cur ps rule: read_parts.induct) (auto split: option.splits json.splits)


subsection \<open>The content hash does not depend on key order\<close>

text \<open>Equality of values up to the order in which objects list their (distinct) keys.\<close>

inductive same_json :: "json \<Rightarrow> json \<Rightarrow> bool" where
  same_refl: "same_json v v"
| same_arr: "list_all2 same_json xs ys \<Longrightarrow> same_json (JArr xs) (JArr ys)"
| same_obj: "distinct (map fst kvs) \<Longrightarrow> list_all2 (rel_prod (=) same_json) kvs ls \<Longrightarrow>
     mset ls = mset kvs' \<Longrightarrow> same_json (JObj kvs) (JObj kvs')"

lemma list_all2_pair_keys: "list_all2 (rel_prod (=) P) kvs ls \<Longrightarrow> map fst kvs = map fst ls"
  by (induction rule: list_all2_induct) auto

lemma list_all2_pair_map:
  "list_all2 (rel_prod (=) (\<lambda>a b. P a b \<and> f a = f b)) kvs ls \<Longrightarrow>
   map (\<lambda>(k, v). (k, f v)) kvs = map (\<lambda>(k, v). (k, f v)) ls"
  by (induction rule: list_all2_induct) auto

lemma map_fst_pair: "map fst (map (\<lambda>(k, v). (k, f v)) kvs) = map fst kvs"
  by (induction kvs) auto

lemma sort_key_fst_mset_cong:
  assumes "distinct (map fst xs)" "mset xs = mset ys"
  shows "sort_key fst xs = sort_key fst (ys :: (str \<times> 'v) list)"
proof (rule sort_key_inj_key_eq)
  show "mset xs = mset (sort_key fst ys)" using assms(2) by simp
  show "inj_on fst (set xs)" using assms(1) by (simp add: distinct_map)
  show "sorted (map fst (sort_key fst ys))" by simp
qed

lemma sort_keys_same: "same_json a b \<Longrightarrow> sort_keys a = sort_keys b"
proof (induction rule: same_json.induct)
  case (same_arr xs ys)
  then have "map sort_keys xs = map sort_keys ys"
    by (induction rule: list_all2_induct) auto
  then show ?case by simp
next
  case (same_obj kvs ls kvs')
  let ?g = "\<lambda>(k, v). (k, sort_keys v)"
  have eq: "map ?g kvs = map ?g ls"
    using same_obj.IH by (rule list_all2_pair_map)
  have "distinct (map fst (map ?g kvs))"
    using same_obj.hyps(1) by (simp only: map_fst_pair)
  moreover have "mset (map ?g kvs) = mset (map ?g kvs')"
    using eq same_obj.hyps(2) by (metis mset_map)
  ultimately have "sort_key fst (map ?g kvs) = sort_key fst (map ?g kvs')"
    by (rule sort_key_fst_mset_cong)
  then show ?case by simp
qed simp

lemma same_json_head:
  "same_json a b \<Longrightarrow> (a = JNull \<longleftrightarrow> b = JNull) \<and> (\<forall>s. a = JStr s \<longleftrightarrow> b = JStr s)"
  by (induction rule: same_json.induct) auto

lemma digest_preimage_same: "same_json a b \<Longrightarrow> digest_preimage R (Some a) = digest_preimage R (Some b)"
proof -
  assume ab: "same_json a b"
  from sort_keys_same [OF ab] have "stable_stringify R a = stable_stringify R b"
    by (simp add: stable_stringify_def)
  with same_json_head [OF ab] show ?thesis
    by (auto simp: digest_preimage_def split: json.splits)
qed

text \<open>
  Two values that differ only in the order of their object keys, at any depth, have the same
  content hash, so identifiers derived from a hash do not depend on how a record was written.
\<close>

theorem content_hash_key_order:
  assumes "same_json a b"
  shows "content_hash R (Some a) = content_hash R (Some b)"
  using assms by (simp add: content_hash_def content_digest_def digest_preimage_same)

end
