(* ===== verification/RoutingTypes.thy ===== *)
theory RoutingTypes imports Json begin

text \<open>
  The data of the routing core (the zod schemas of core/routing.ts): every \<open>z.enum\<close> is a
  datatype, every \<open>z.object\<close> a record, and the checks a schema makes beyond its types (non-empty
  identifiers, ranges, \<open>superRefine\<close>) are a predicate \<open>..._ok\<close>. Parsing a value whose predicate
  fails throws in the sources; the operations model that as the error \<open>SchemaError\<close>.
  The literal \<open>schemaVersion\<close> fields are constants and are written only where a value is hashed.
\<close>

subsection \<open>Enumerations\<close>

datatype activation_mode = Shadow | Recommend | Simulate | ExecuteWithApproval | AutonomousLowRisk

datatype ambiguity_policy = AmbiguityIgnore | AmbiguityDefer | AmbiguityRequestHuman | AmbiguityRouteToTriage

datatype no_match_policy = NoMatchUnhandled | NoMatchIgnore | NoMatchRequestHuman

datatype fanout_mode = FanoutNone | IndependentOnly | DeclaredOrdered

datatype decision_action = Route | AppendEvidence | Ignore | Defer | RequestHuman | Unhandled

datatype sensitivity = Public | Internal | Confidential | Restricted

datatype severity = SevLow | SevMedium | SevHigh | SevCritical

datatype concurrency_strategy = ConReject | ConAppendEvidence | ConQueue

datatype readiness = Ready | Degraded | Blocked | ReadinessUnknown

datatype loop_status = LoopActive | LoopDisabled | LoopDraft

datatype problem_status = Detected | NeedsHuman | Routed | InProgress | Waiting | Resolved | Closed | UnhandledProblem

datatype route_role = Primary | Supporting

datatype receipt_status = Received | Duplicate | IgnoredReceipt | Replayed | FailedReceipt

datatype commit_status = CShadow | CQueued | CRunning | CWaitingReview | CCompleted | CFailed | CCancelled

datatype job_status = Queued | Claimed | Dispatched | Running | WaitingReview | Completed | Failed | DeadLetter | Cancelled

datatype attempt_status = AttReceived | AttValidated | AttRejected | AttCommitted | AttFailed

datatype exec_runtime = LoopgraphLocal | Hermes

datatype exec_environment = EnvLocal | EnvSandbox | EnvStaging | EnvProduction

definition action_text :: "decision_action \<Rightarrow> str" where
  "action_text a = (case a of Route \<Rightarrow> ''route'' | AppendEvidence \<Rightarrow> ''append_evidence''
     | Ignore \<Rightarrow> ''ignore'' | Defer \<Rightarrow> ''defer'' | RequestHuman \<Rightarrow> ''request_human''
     | Unhandled \<Rightarrow> ''unhandled'')"

definition sensitivity_text :: "sensitivity \<Rightarrow> str" where
  "sensitivity_text s = (case s of Public \<Rightarrow> ''public'' | Internal \<Rightarrow> ''internal''
     | Confidential \<Rightarrow> ''confidential'' | Restricted \<Rightarrow> ''restricted'')"

definition severity_text :: "severity \<Rightarrow> str" where
  "severity_text s = (case s of SevLow \<Rightarrow> ''low'' | SevMedium \<Rightarrow> ''medium'' | SevHigh \<Rightarrow> ''high''
     | SevCritical \<Rightarrow> ''critical'')"

definition role_text :: "route_role \<Rightarrow> str" where
  "role_text r = (case r of Primary \<Rightarrow> ''primary'' | Supporting \<Rightarrow> ''supporting'')"

subsection \<open>Events\<close>

record subject =
  sub_type :: str
  sub_id :: str
  sub_display :: "str option"

record payload_reference =
  pr_ref :: str
  pr_hash :: "str option"
  pr_storage :: "str option"

record trust =
  signature_verified :: bool
  signer :: "str option"
  untrusted_fields :: "str list"

record event =
  ev_id :: str
  ev_workspace :: str
  ev_company :: str
  ev_source :: str
  ev_source_route :: str
  ev_delivery :: str
  ev_type :: str
  ev_occurred_at :: instant
  ev_received_at :: instant
  ev_subject :: subject
  ev_correlation :: str
  ev_causation :: "str option"
  ev_parent :: "str option"
  ev_hop_count :: nat
  ev_payload :: "(str \<times> json) list"
  ev_raw_payload :: "payload_reference option"
  ev_evidence_refs :: "str list"
  ev_trust :: trust
  ev_sensitivity :: sensitivity

definition subject_ok :: "subject \<Rightarrow> bool" where
  "subject_ok s = (sub_type s \<noteq> [] \<and> sub_id s \<noteq> [])"

definition event_ok :: "event \<Rightarrow> bool" where
  "event_ok e =
     (ev_id e \<noteq> [] \<and> ev_workspace e \<noteq> [] \<and> ev_company e \<noteq> [] \<and> ev_source e \<noteq> [] \<and>
      ev_source_route e \<noteq> [] \<and> ev_delivery e \<noteq> [] \<and> ev_type e \<noteq> [] \<and> subject_ok (ev_subject e) \<and>
      ev_correlation e \<noteq> [] \<and>
      (case ev_raw_payload e of None \<Rightarrow> True | Some r \<Rightarrow> pr_ref r \<noteq> []) \<and>
      list_all (\<lambda>r. r \<noteq> [] \<and> length r \<le> 2048) (ev_evidence_refs e) \<and> length (ev_evidence_refs e) \<le> 100 \<and>
      list_all (\<lambda>f. length f \<le> 512) (untrusted_fields (ev_trust e)) \<and>
      length (untrusted_fields (ev_trust e)) \<le> 100)"

definition subject_json :: "subject \<Rightarrow> json" where
  "subject_json s = jobj [(''type'', jstr (sub_type s)), (''id'', jstr (sub_id s)),
     (''display'', jopt (sub_display s))]"

definition payload_reference_json :: "payload_reference \<Rightarrow> json" where
  "payload_reference_json r = jobj [(''ref'', jstr (pr_ref r)), (''hash'', jopt (pr_hash r)),
     (''storage'', jopt (pr_storage r))]"

definition trust_json :: "trust \<Rightarrow> json" where
  "trust_json t = jobj [(''signatureVerified'', Some (JBool (signature_verified t))),
     (''signer'', jopt (signer t)), (''untrustedFields'', jstrs (untrusted_fields t))]"

text \<open>The event as the object the sources hash and read paths from.\<close>

definition event_json :: "event \<Rightarrow> json" where
  "event_json e = jobj
     [(''id'', jstr (ev_id e)), (''schemaVersion'', jstr ''event-envelope/v1alpha1''),
      (''workspaceId'', jstr (ev_workspace e)), (''companyId'', jstr (ev_company e)),
      (''source'', jstr (ev_source e)), (''sourceRoute'', jstr (ev_source_route e)),
      (''sourceDeliveryId'', jstr (ev_delivery e)), (''eventType'', jstr (ev_type e)),
      (''occurredAt'', jstr (iso_instant (ev_occurred_at e))),
      (''receivedAt'', jstr (iso_instant (ev_received_at e))),
      (''subject'', Some (subject_json (ev_subject e))),
      (''correlationId'', jstr (ev_correlation e)), (''causationId'', jopt (ev_causation e)),
      (''parentEventId'', jopt (ev_parent e)),
      (''hopCount'', Some (JNum (of_nat (ev_hop_count e)))),
      (''normalizedPayload'', Some (JObj (ev_payload e))),
      (''rawPayloadRef'', map_option payload_reference_json (ev_raw_payload e)),
      (''evidenceRefs'', jstrs (ev_evidence_refs e)),
      (''trust'', Some (trust_json (ev_trust e))),
      (''sensitivity'', jstr (sensitivity_text (ev_sensitivity e)))]"

subsection \<open>Routing contracts and cards\<close>

record accept_rule =
  ar_source_pattern :: str
  ar_type_pattern :: str
  ar_subject_types :: "str list"
  ar_required_fields :: "str list"
  ar_optional_conditions :: "json list"
  ar_reason :: "str option"

record exclude_rule =
  xr_source_pattern :: str
  xr_type_pattern :: str
  xr_subject_types :: "str list"
  xr_fields :: "str list"
  xr_reason :: str

record fanout_policy =
  fan_mode :: fanout_mode
  fan_max_routes :: nat
  fan_independent :: bool

record cooldown_policy =
  cooldown_seconds :: nat
  dedupe_window_seconds :: nat

record concurrency_policy =
  max_active :: nat
  con_strategy :: concurrency_strategy

record routing_contract =
  ct_problem_types :: "str list"
  ct_accepts :: "accept_rule list"
  ct_excludes :: "exclude_rule list"
  ct_input_mapping :: "(str \<times> str) list"
  ct_priority :: int
  ct_minimum_confidence :: rat
  ct_ambiguity :: ambiguity_policy
  ct_no_match :: no_match_policy
  ct_fanout :: fanout_policy
  ct_supporting :: "str list"
  ct_cooldown :: cooldown_policy
  ct_concurrency :: concurrency_policy
  ct_activation :: activation_mode
  ct_lifecycle_events :: "str list"
  ct_required_connections :: "str list"
  ct_should_route :: "str list"
  ct_should_not_route :: "str list"

datatype risk_level = RiskLow | RiskMedium | RiskHigh | RiskCritical

datatype department = Management | Marketing | Sales | Product | CustomerSuccess | Engineering
  | OpsFinance | HrTalent | LegalCompliance | CustomDepartment

record routing_card =
  rc_catalog_version :: str
  rc_loop_id :: str
  rc_loop_name :: str
  rc_department :: "department option"
  rc_goal :: str
  rc_readiness :: readiness
  rc_loop_status :: loop_status
  rc_problem_types :: "str list"
  rc_non_goals :: "str list"
  rc_accepts :: "accept_rule list"
  rc_excludes :: "exclude_rule list"
  rc_primary_action :: "str option"
  rc_action_risk :: risk_level
  rc_activation :: activation_mode
  rc_minimum_confidence :: rat
  rc_priority :: int
  rc_ambiguity :: ambiguity_policy
  rc_no_match :: no_match_policy
  rc_fanout :: fanout_policy
  rc_supporting :: "str list"
  rc_cooldown :: cooldown_policy
  rc_concurrency :: concurrency_policy
  rc_input_mapping :: "(str \<times> str) list"
  rc_required_connections :: "str list"
  rc_lifecycle_events :: "str list"
  rc_active_runs :: nat
  rc_cooldown_until :: "instant option"
  rc_should_route :: "str list"
  rc_should_not_route :: "str list"
  rc_loop_spec_hash :: str

definition accept_rule_ok :: "accept_rule \<Rightarrow> bool" where
  "accept_rule_ok r = (ar_source_pattern r \<noteq> [] \<and> ar_type_pattern r \<noteq> [] \<and>
     list_all (\<lambda>s. s \<noteq> []) (ar_subject_types r) \<and> list_all (\<lambda>s. s \<noteq> []) (ar_required_fields r))"

definition exclude_rule_ok :: "exclude_rule \<Rightarrow> bool" where
  "exclude_rule_ok r = (xr_source_pattern r \<noteq> [] \<and> xr_type_pattern r \<noteq> [] \<and>
     list_all (\<lambda>s. s \<noteq> []) (xr_subject_types r) \<and> list_all (\<lambda>s. s \<noteq> []) (xr_fields r) \<and> xr_reason r \<noteq> [])"

definition input_mapping_ok :: "(str \<times> str) list \<Rightarrow> bool" where
  "input_mapping_ok m = list_all (\<lambda>(k, v). k \<noteq> [] \<and> v \<noteq> []) m"

definition contract_ok :: "routing_contract \<Rightarrow> bool" where
  "contract_ok c =
     (ct_problem_types c \<noteq> [] \<and> list_all (\<lambda>s. s \<noteq> []) (ct_problem_types c) \<and>
      ct_accepts c \<noteq> [] \<and> list_all accept_rule_ok (ct_accepts c) \<and>
      list_all exclude_rule_ok (ct_excludes c) \<and> input_mapping_ok (ct_input_mapping c) \<and>
      0 \<le> ct_minimum_confidence c \<and> ct_minimum_confidence c \<le> 1 \<and>
      1 \<le> fan_max_routes (ct_fanout c) \<and> list_all (\<lambda>s. s \<noteq> []) (ct_supporting c) \<and>
      1 \<le> max_active (ct_concurrency c) \<and> list_all (\<lambda>s. s \<noteq> []) (ct_lifecycle_events c) \<and>
      list_all (\<lambda>s. s \<noteq> []) (ct_required_connections c))"

definition card_ok :: "routing_card \<Rightarrow> bool" where
  "card_ok c =
     (rc_catalog_version c \<noteq> [] \<and> rc_loop_id c \<noteq> [] \<and> rc_loop_name c \<noteq> [] \<and> rc_goal c \<noteq> [] \<and>
      rc_problem_types c \<noteq> [] \<and> list_all (\<lambda>s. s \<noteq> []) (rc_problem_types c) \<and>
      rc_accepts c \<noteq> [] \<and> list_all accept_rule_ok (rc_accepts c) \<and>
      list_all exclude_rule_ok (rc_excludes c) \<and>
      0 \<le> rc_minimum_confidence c \<and> rc_minimum_confidence c \<le> 1 \<and>
      1 \<le> fan_max_routes (rc_fanout c) \<and> list_all (\<lambda>s. s \<noteq> []) (rc_supporting c) \<and>
      1 \<le> max_active (rc_concurrency c) \<and> input_mapping_ok (rc_input_mapping c) \<and>
      list_all (\<lambda>s. s \<noteq> []) (rc_required_connections c) \<and>
      list_all (\<lambda>s. s \<noteq> []) (rc_lifecycle_events c) \<and> rc_loop_spec_hash c \<noteq> [])"

subsection \<open>Problems and decisions\<close>

record business_problem =
  bp_id :: str
  bp_workspace :: str
  bp_company :: str
  bp_problem_type :: str
  bp_subject :: subject
  bp_summary :: str
  bp_severity :: severity
  bp_status :: problem_status
  bp_correlation :: str
  bp_dedupe_key :: str
  bp_evidence_event_ids :: "str list"
  bp_primary_loop :: "str option"
  bp_supporting_loops :: "str list"
  bp_route_commit_ids :: "str list"
  bp_owner :: "str option"
  bp_sla_due_at :: "instant option"
  bp_outcome_refs :: "str list"
  bp_opened_at :: instant
  bp_updated_at :: instant
  bp_resolved_at :: "instant option"

definition problem_ok :: "business_problem \<Rightarrow> bool" where
  "problem_ok p =
     (bp_id p \<noteq> [] \<and> bp_workspace p \<noteq> [] \<and> bp_company p \<noteq> [] \<and> bp_problem_type p \<noteq> [] \<and>
      subject_ok (bp_subject p) \<and> bp_summary p \<noteq> [] \<and> bp_correlation p \<noteq> [] \<and> bp_dedupe_key p \<noteq> [] \<and>
      list_all (\<lambda>s. s \<noteq> []) (bp_evidence_event_ids p))"

record problem_proposal =
  pp_summary :: str
  pp_problem_types :: "str list"
  pp_subject :: subject
  pp_severity :: severity
  pp_dedupe_key_inputs :: "str list"

record selected_route =
  sr_loop_id :: str
  sr_role :: route_role
  sr_confidence :: rat
  sr_reason :: str
  sr_evidence_refs :: "str list"
  sr_input_mapping :: "(str \<times> json) list"
  sr_priority :: int

record route_alternative =
  alt_loop_id :: str
  alt_confidence :: rat
  alt_reason :: str

record routing_decision =
  dec_event_id :: str
  dec_catalog_version :: str
  dec_action :: decision_action
  dec_existing_problem :: "str option"
  dec_problem :: "problem_proposal option"
  dec_selected :: "selected_route list"
  dec_alternatives :: "route_alternative list"
  dec_fanout_reason :: "str option"
  dec_model_metadata :: "(str \<times> json) list"
  dec_policy_version :: str

definition proposal_ok :: "problem_proposal \<Rightarrow> bool" where
  "proposal_ok p = (pp_summary p \<noteq> [] \<and> list_all (\<lambda>s. s \<noteq> []) (pp_problem_types p) \<and>
     subject_ok (pp_subject p))"

definition selected_route_ok :: "selected_route \<Rightarrow> bool" where
  "selected_route_ok r = (sr_loop_id r \<noteq> [] \<and> 0 \<le> sr_confidence r \<and> sr_confidence r \<le> 1 \<and>
     sr_reason r \<noteq> [] \<and> list_all (\<lambda>s. s \<noteq> []) (sr_evidence_refs r))"

definition alternative_ok :: "route_alternative \<Rightarrow> bool" where
  "alternative_ok a = (alt_loop_id a \<noteq> [] \<and> 0 \<le> alt_confidence a \<and> alt_confidence a \<le> 1 \<and> alt_reason a \<noteq> [])"

definition decision_ok :: "routing_decision \<Rightarrow> bool" where
  "decision_ok d =
     (dec_event_id d \<noteq> [] \<and> dec_catalog_version d \<noteq> [] \<and>
      (case dec_problem d of None \<Rightarrow> True | Some p \<Rightarrow> proposal_ok p) \<and>
      list_all selected_route_ok (dec_selected d) \<and> list_all alternative_ok (dec_alternatives d) \<and>
      dec_policy_version d \<noteq> [])"

definition proposal_json :: "problem_proposal \<Rightarrow> json" where
  "proposal_json p = jobj [(''summary'', jstr (pp_summary p)), (''problemTypes'', jstrs (pp_problem_types p)),
     (''subject'', Some (subject_json (pp_subject p))),
     (''severity'', jstr (severity_text (pp_severity p))),
     (''dedupeKeyInputs'', jstrs (pp_dedupe_key_inputs p))]"

definition selected_route_json :: "selected_route \<Rightarrow> json" where
  "selected_route_json r = jobj [(''loopId'', jstr (sr_loop_id r)), (''role'', jstr (role_text (sr_role r))),
     (''confidence'', Some (JNum (sr_confidence r))), (''reasonSummary'', jstr (sr_reason r)),
     (''evidenceRefs'', jstrs (sr_evidence_refs r)), (''inputMapping'', Some (JObj (sr_input_mapping r))),
     (''priority'', Some (JNum (of_int (sr_priority r))))]"

definition alternative_json :: "route_alternative \<Rightarrow> json" where
  "alternative_json a = jobj [(''loopId'', jstr (alt_loop_id a)),
     (''confidence'', Some (JNum (alt_confidence a))), (''reasonSummary'', jstr (alt_reason a))]"

definition decision_json :: "routing_decision \<Rightarrow> json" where
  "decision_json d = jobj
     [(''schemaVersion'', jstr ''routing-decision/v1alpha1''), (''eventId'', jstr (dec_event_id d)),
      (''catalogVersion'', jstr (dec_catalog_version d)), (''action'', jstr (action_text (dec_action d))),
      (''existingProblemId'', jopt (dec_existing_problem d)),
      (''problem'', map_option proposal_json (dec_problem d)),
      (''selectedRoutes'', Some (JArr (map selected_route_json (dec_selected d)))),
      (''alternatives'', Some (JArr (map alternative_json (dec_alternatives d)))),
      (''fanoutReason'', jopt (dec_fanout_reason d)),
      (''modelMetadata'', Some (JObj (dec_model_metadata d))),
      (''policyVersion'', jstr (dec_policy_version d))]"

subsection \<open>Receipts, attempts, commits and jobs\<close>

record event_receipt =
  rcp_id :: str
  rcp_event_id :: str
  rcp_event :: event
  rcp_event_hash :: str
  rcp_status :: receipt_status
  rcp_duplicate_of :: "str option"
  rcp_first_seen :: instant
  rcp_last_seen :: instant

definition receipt_ok :: "event_receipt \<Rightarrow> bool" where
  "receipt_ok r = (rcp_id r \<noteq> [] \<and> rcp_event_id r \<noteq> [] \<and> event_ok (rcp_event r) \<and> rcp_event_hash r \<noteq> [])"

text \<open>
  The learning context is kept as the object it is parsed to; its digest leaves out
  \<open>generatedAt\<close>. A binding states the digest it was computed with and whether Hermes acknowledged it.
\<close>

definition learning_context_digest :: "runtime \<Rightarrow> (str \<times> json) list \<Rightarrow> str" where
  "learning_context_digest R ctx =
     content_digest R (Some (JObj (filter (\<lambda>(k, v). k \<noteq> ''generatedAt'') ctx)))"

record learning_binding =
  lb_context_digest :: str
  lb_acknowledged_digest :: "str option"
  lb_acknowledged :: bool
  lb_context :: "(str \<times> json) list"
  lb_bound_at :: instant

definition hex_digest_text :: "str \<Rightarrow> bool" where
  "hex_digest_text s = (length s = 64 \<and> list_all (\<lambda>c. c \<in> set ''0123456789abcdef'') s)"

definition learning_binding_ok :: "runtime \<Rightarrow> learning_binding \<Rightarrow> bool" where
  "learning_binding_ok R b =
     (hex_digest_text (lb_context_digest b) \<and>
      (case lb_acknowledged_digest b of None \<Rightarrow> True | Some d \<Rightarrow> hex_digest_text d) \<and>
      lb_context_digest b = learning_context_digest R (lb_context b) \<and>
      lb_acknowledged b = (lb_acknowledged_digest b = Some (learning_context_digest R (lb_context b))))"

record route_commit =
  rcm_id :: str
  rcm_event_id :: str
  rcm_problem_id :: str
  rcm_loop_id :: str
  rcm_loop_spec_hash :: str
  rcm_attempt_id :: str
  rcm_run_id :: "str option"
  rcm_status :: commit_status
  rcm_input_mapping :: "(str \<times> json) list"
  rcm_committed_at :: instant

definition commit_ok :: "route_commit \<Rightarrow> bool" where
  "commit_ok c = (rcm_id c \<noteq> [] \<and> rcm_event_id c \<noteq> [] \<and> rcm_problem_id c \<noteq> [] \<and> rcm_loop_id c \<noteq> [] \<and>
     rcm_loop_spec_hash c \<noteq> [] \<and> rcm_attempt_id c \<noteq> [])"

record execution_target =
  et_runtime :: exec_runtime
  et_environment :: exec_environment
  et_capabilities :: "str list"
  et_preferred_agent :: "str option"

definition execution_target_ok :: "execution_target \<Rightarrow> bool" where
  "execution_target_ok t =
     (list_all (\<lambda>c. c \<noteq> [] \<and> length c \<le> 160) (et_capabilities t) \<and> length (et_capabilities t) \<le> 250 \<and>
      (case et_preferred_agent t of None \<Rightarrow> True | Some a \<Rightarrow> a \<noteq> [] \<and> length a \<le> 160))"

record retry_policy =
  base_delay_seconds :: nat
  max_delay_seconds :: nat
  backoff_multiplier :: rat

record job_lease =
  ls_claimed_by :: str
  ls_token :: "str option"
  ls_claimed_at :: instant
  ls_expires_at :: instant
  ls_heartbeat_at :: "instant option"

record job_result =
  jr_trace_status :: str
  jr_completed_at :: "instant option"
  jr_delivery_ids :: "str list"
  jr_metric_sample_ids :: "str list"

record job_error =
  je_code :: "str option"
  je_message :: str
  je_at :: instant

record route_job =
  job_id :: str
  job_idempotency_key :: str
  job_event_id :: str
  job_problem_id :: str
  job_commit_id :: str
  job_attempt_id :: str
  job_loop_id :: str
  job_loop_spec_hash :: str
  job_run_id :: str
  job_activation :: activation_mode
  job_target :: execution_target
  job_status :: job_status
  job_correlation :: str
  job_attempts :: nat
  job_max_attempts :: nat
  job_retry :: retry_policy
  job_next_run_at :: instant
  job_lease :: "job_lease option"
  job_result :: "job_result option"
  job_last_error :: "job_error option"
  job_dead_letter_reason :: "str option"
  job_created_at :: instant
  job_updated_at :: instant

definition lease_ok :: "job_lease \<Rightarrow> bool" where
  "lease_ok l = (ls_claimed_by l \<noteq> [] \<and> (case ls_token l of None \<Rightarrow> True | Some t \<Rightarrow> t \<noteq> []))"

definition job_ok :: "route_job \<Rightarrow> bool" where
  "job_ok j =
     (job_id j \<noteq> [] \<and> job_idempotency_key j \<noteq> [] \<and> job_event_id j \<noteq> [] \<and> job_problem_id j \<noteq> [] \<and>
      job_commit_id j \<noteq> [] \<and> job_attempt_id j \<noteq> [] \<and> job_loop_id j \<noteq> [] \<and> job_loop_spec_hash j \<noteq> [] \<and>
      job_run_id j \<noteq> [] \<and> execution_target_ok (job_target j) \<and> job_correlation j \<noteq> [] \<and>
      1 \<le> job_max_attempts j \<and> 1 \<le> base_delay_seconds (job_retry j) \<and>
      1 \<le> max_delay_seconds (job_retry j) \<and> 1 \<le> backoff_multiplier (job_retry j) \<and>
      (case job_lease j of None \<Rightarrow> True | Some l \<Rightarrow> lease_ok l) \<and>
      (case job_result j of None \<Rightarrow> True
       | Some r \<Rightarrow> jr_trace_status r \<noteq> [] \<and> list_all (\<lambda>s. s \<noteq> []) (jr_delivery_ids r) \<and>
                  list_all (\<lambda>s. s \<noteq> []) (jr_metric_sample_ids r)) \<and>
      (case job_last_error j of None \<Rightarrow> True | Some e \<Rightarrow> je_message e \<noteq> []))"

record routing_correction =
  cor_id :: str
  cor_event_id :: str
  cor_attempt_id :: "str option"
  cor_expected_action :: decision_action
  cor_expected_loops :: "str list"
  cor_reason :: str
  cor_by :: str
  cor_at :: instant

definition correction_ok :: "routing_correction \<Rightarrow> bool" where
  "correction_ok c = (cor_id c \<noteq> [] \<and> cor_event_id c \<noteq> [] \<and> cor_reason c \<noteq> [] \<and> cor_by c \<noteq> [])"

record router_evaluation =
  eva_id :: str
  eva_fixture_id :: str
  eva_event_id :: str
  eva_expected_action :: decision_action
  eva_expected_loops :: "str list"
  eva_actual_action :: decision_action
  eva_actual_loops :: "str list"
  eva_passed :: bool
  eva_latency_ms :: "nat option"
  eva_evaluated_at :: instant

definition evaluation_ok :: "router_evaluation \<Rightarrow> bool" where
  "evaluation_ok v = (eva_id v \<noteq> [] \<and> eva_fixture_id v \<noteq> [] \<and> eva_event_id v \<noteq> [])"

end
