(* ===== verification/LoopTypes.thy ===== *)
theory LoopTypes imports RoutingTypes begin

text \<open>
  The data of loops and runs: the LoopSpec (core/loop-spec.ts), the output of an assessment
  (core/evidence.ts), prepared actions and reviews (core/review.ts), escalation cases
  (core/escalation.ts), context snapshots (core/context.ts) and the run trace (core/trace.ts).
  A \<open>z.record\<close> is the list of its properties; \<open>z.unknown\<close> is \<open>json option\<close>. Left out are
  message texts, the affected entities of a case, the content of an
  output artifact, and the latency and cost of a trace: the modelled code only carries them along.
\<close>

subsection \<open>Enumerations (core/constants.ts)\<close>

datatype run_status = DRAFT | VALIDATED | READY | SIMULATING | PROPOSED_ACTIONS | VERIFYING
  | WAITING_FOR_REVIEW | APPROVED | COMMITTED | COMPLETED | FAILED_VALIDATION | FAILED_VERIFICATION
  | ESCALATED | REJECTED | BLOCKED_BY_POLICY | CANCELLED

datatype review_role = Approver | Reviewer | Owner | Teacher | Executor | AccountabilityHolder

datatype run_mode = ModeValidate | ModeSimulate | ModeDryRun | ModeExecute

datatype case_severity = P0 | P1 | P2 | P3

datatype source_type = SrcPolicy | SrcFixture | SrcIntegration | SrcMemory | SrcEvent | SrcTrace

datatype freshness = Realtime | Hourly | Daily | Manual | FromFixture

datatype trigger_type = TrigWebhook | TrigSchedule | TrigManual | TrigEvent

datatype verifier_type = VSchema | VPolicy | VEvidence | VNumericThreshold | VApprovalRequired | VMockJudge

datatype redaction_policy = RedactNone | RedactRestrictedOnly | RedactAggressive

definition review_role_text :: "review_role \<Rightarrow> str" where
  "review_role_text r = (case r of Approver \<Rightarrow> ''approver'' | Reviewer \<Rightarrow> ''reviewer''
     | Owner \<Rightarrow> ''owner'' | Teacher \<Rightarrow> ''teacher'' | Executor \<Rightarrow> ''executor''
     | AccountabilityHolder \<Rightarrow> ''accountability_holder'')"

definition run_status_text :: "run_status \<Rightarrow> str" where
  "run_status_text s = (case s of DRAFT \<Rightarrow> ''DRAFT'' | VALIDATED \<Rightarrow> ''VALIDATED'' | READY \<Rightarrow> ''READY''
     | SIMULATING \<Rightarrow> ''SIMULATING'' | PROPOSED_ACTIONS \<Rightarrow> ''PROPOSED_ACTIONS'' | VERIFYING \<Rightarrow> ''VERIFYING''
     | WAITING_FOR_REVIEW \<Rightarrow> ''WAITING_FOR_REVIEW'' | APPROVED \<Rightarrow> ''APPROVED'' | COMMITTED \<Rightarrow> ''COMMITTED''
     | COMPLETED \<Rightarrow> ''COMPLETED'' | FAILED_VALIDATION \<Rightarrow> ''FAILED_VALIDATION''
     | FAILED_VERIFICATION \<Rightarrow> ''FAILED_VERIFICATION'' | ESCALATED \<Rightarrow> ''ESCALATED'' | REJECTED \<Rightarrow> ''REJECTED''
     | BLOCKED_BY_POLICY \<Rightarrow> ''BLOCKED_BY_POLICY'' | CANCELLED \<Rightarrow> ''CANCELLED'')"

definition trigger_type_text :: "trigger_type \<Rightarrow> str" where
  "trigger_type_text t = (case t of TrigWebhook \<Rightarrow> ''webhook'' | TrigSchedule \<Rightarrow> ''schedule''
     | TrigManual \<Rightarrow> ''manual'' | TrigEvent \<Rightarrow> ''event'')"

subsection \<open>Assessment output\<close>

record evidence_ref =
  er_id :: str
  er_source :: str
  er_source_type :: source_type
  er_excerpt :: str
  er_field_path :: "str option"
  er_trusted :: bool

record policy_input =
  pi_key :: str
  pi_value :: "json option"
  pi_source :: str

record proposed_action =
  pa_id :: str
  pa_tool :: str
  pa_label :: str
  pa_input :: "(str \<times> json) list"
  pa_risk :: risk_level
  pa_requires_approval :: bool
  pa_customer_facing :: bool

record escalation_request =
  esr_required :: bool
  esr_category :: "str option"
  esr_severity :: "case_severity option"
  esr_rationale :: "str option"

record agent_output =
  ao_summary :: str
  ao_assumptions :: "(str \<times> str \<times> rat) list"
  ao_actions :: "proposed_action list"
  ao_evidence :: "evidence_ref list"
  ao_policy_inputs :: "policy_input list"
  ao_verification_required :: bool
  ao_escalation :: "escalation_request option"

subsection \<open>The LoopSpec\<close>

record tool_binding =
  tb_key :: str
  tb_adapter :: str
  tb_label :: str
  tb_write_capable :: bool
  tb_risk :: risk_level

record action_policy =
  ap_tool :: str
  ap_allowed :: bool
  ap_requires_approval :: bool
  ap_customer_facing :: bool
  ap_risk :: risk_level

record forbidden_action =
  fa_tool :: str
  fa_reason :: str

record escalation_rule =
  xrule_id :: str
  xrule_when :: "(str \<times> json) list"
  xrule_case :: "(str \<times> case_severity option) option"
  xrule_owner :: str
  xrule_reviewers :: "str list"
  xrule_sla :: "str option"
  xrule_approvals :: "str list"
  xrule_decisions :: "str list"

record verifier_binding =
  vb_id :: str
  vb_type :: verifier_type
  vb_config :: "(str \<times> json) list option"

record context_source =
  cs_id :: str
  cs_type :: source_type
  cs_adapter :: "str option"
  cs_variable :: "str option"
  cs_title :: str
  cs_sensitivity :: sensitivity
  cs_trusted :: bool
  cs_precedence :: nat

record approval_policy =
  apol_fingerprint :: bool
  apol_separate :: bool
  apol_roles :: "review_role list"

text \<open>
  The parsed specification: the parts the modelled code reads, and \<open>sp_document\<close>, the whole
  parsed object that \<open>loopSpecHash\<close> hashes.
\<close>

record loop_spec =
  sp_document :: "(str \<times> json) list"
  sp_id :: str
  sp_name :: str
  sp_version :: str
  sp_description :: "str option"
  sp_lifecycle_status :: "str option"
  sp_department :: "str option"
  sp_trigger_type :: trigger_type
  sp_trigger_source :: str
  sp_trigger_event :: str
  sp_output_properties :: "(str \<times> json) list"
  sp_sources :: "context_source list"
  sp_redaction :: redaction_policy
  sp_tools :: "tool_binding list"
  sp_allowed :: "action_policy list"
  sp_forbidden :: "forbidden_action list"
  sp_escalations :: "escalation_rule list"
  sp_verification :: "verifier_binding list"
  sp_approval :: approval_policy
  sp_evidence_required :: bool
  sp_routing :: "routing_contract option"
  sp_connector_requirements :: "(json option \<times> json option) list"

definition loop_spec_hash :: "runtime \<Rightarrow> loop_spec \<Rightarrow> str" where
  "loop_spec_hash R spec = content_hash R (Some (JObj (sp_document spec)))"

subsection \<open>Prepared actions and reviews\<close>

record prepared_action =
  pre_id :: str
  pre_tool :: str
  pre_label :: str
  pre_payload :: "(str \<times> json) list"
  pre_fingerprint :: str
  pre_risk :: risk_level
  pre_requires_approval :: bool
  pre_customer_facing :: bool
  pre_proposed_id :: str

datatype review_status = RvOpen | RvApproved | RvRejected | RvNeedsChanges | RvExpired
  | RvRequestEvidence | RvReassigned

record review_minutes =
  rm_review :: "rat option"
  rm_rework :: "rat option"
  rm_botsitting :: "rat option"
  rm_escalation :: "rat option"
  rm_governance :: "rat option"

definition no_minutes :: review_minutes where
  "no_minutes = \<lparr>rm_review = None, rm_rework = None, rm_botsitting = None, rm_escalation = None, rm_governance = None\<rparr>"

record human_review =
  hr_id :: str
  hr_run :: str
  hr_status :: review_status
  hr_reviewer :: "str option"
  hr_role :: review_role
  hr_approved :: "str list"
  hr_rejected :: "str list"
  hr_comment :: "str option"
  hr_feedback :: "str option"
  hr_minutes :: review_minutes
  hr_reassigned_to :: "str option"
  hr_created_at :: instant
  hr_decided_at :: "instant option"

text \<open>\<open>validateApprovalBinding\<close>\<close>

definition validate_approval_binding :: "prepared_action \<Rightarrow> str list \<Rightarrow> bool" where
  "validate_approval_binding a fingerprints = (pre_fingerprint a \<in> set fingerprints)"

subsection \<open>Context snapshots\<close>

record context_entry =
  ce_source :: str
  ce_type :: source_type
  ce_title :: str
  ce_value :: json
  ce_retrieved_at :: instant
  ce_freshness :: freshness
  ce_sensitivity :: sensitivity
  ce_trusted :: bool
  ce_redacted :: bool
  ce_hash :: str
  ce_precedence :: nat

record context_snapshot =
  cx_id :: str
  cx_loop :: str
  cx_version :: str
  cx_created_at :: instant
  cx_hash :: str
  cx_token_estimate :: nat
  cx_entries :: "context_entry list"
  cx_prompt :: str

subsection \<open>Escalation cases\<close>

datatype case_status = CaseOpen | CaseUnderReview | CaseApproved | CaseInProgress | CaseResolved
  | CaseClosed | CaseRejected

record case_outcome =
  co_summary :: str
  co_resolved_at :: "instant option"
  co_business :: "str option"
  co_customer :: "str option"
  co_classification :: "bool option"
  co_follow_up :: "bool option"

record escalation_case =
  ec_id :: str
  ec_run :: str
  ec_loop :: str
  ec_created_at :: instant
  ec_category :: str
  ec_severity :: case_severity
  ec_confidence :: json
  ec_summary :: str
  ec_evidence :: "evidence_ref list"
  ec_actions :: "proposed_action list"
  ec_decisions :: "(str \<times> str \<times> str) list"
  ec_owner :: str
  ec_reviewers :: "str list"
  ec_informed :: "str list"
  ec_deadline :: instant
  ec_internal_actions :: "prepared_action list"
  ec_customer_draft :: "prepared_action option"
  ec_status :: case_status
  ec_outcome :: "case_outcome option"

subsection \<open>The run trace\<close>

datatype call_status = CallPending | CallCompleted | CallFailed | CallMockCommitted

record tool_call =
  tc_id :: str
  tc_tool :: str
  tc_input :: "(str \<times> json) list"
  tc_output :: "json option"
  tc_status :: call_status
  tc_started_at :: instant
  tc_completed_at :: "instant option"

datatype policy_action = ActBlock | ActAllow | ActEscalate | ActContinue | ActReview

record policy_decision =
  pd_rule :: str
  pd_matched :: bool
  pd_action :: policy_action
  pd_requires_review :: bool
  pd_create_case :: bool

record verification_result =
  vr_verifier :: str
  vr_passed :: bool
  vr_confidence :: rat

record invocation =
  inv_actor :: str
  inv_source :: "str option"
  inv_user :: "str option"
  inv_session :: "str option"
  inv_attempt :: "str option"
  inv_commit :: "str option"

record provenance =
  prov_invocation :: invocation
  prov_approval :: "(bool \<times> bool \<times> str list) option"
  prov_gate_reasons :: "str list option"

datatype task_status = TaskPending | TaskRunning | TaskWaitingReview | TaskCompleted | TaskFailed

record task_run =
  tk_id :: str
  tk_label :: str
  tk_owner :: "str option"
  tk_status :: task_status
  tk_summary :: "str option"
  tk_started_at :: "instant option"
  tk_completed_at :: "instant option"
  tk_error :: "(str \<times> str) option"

record metric_update =
  mu_name :: str
  mu_value :: rat
  mu_unit :: "str option"
  mu_observed :: bool

record run_error =
  rne_code :: str
  rne_message :: str
  rne_at :: instant

record run_trace =
  tr_id :: str
  tr_loop :: str
  tr_version :: str
  tr_hash :: str
  tr_mode :: run_mode
  tr_status :: run_status
  tr_event :: str
  tr_idempotency :: str
  tr_context :: context_snapshot
  tr_inputs :: "(str \<times> json) list"
  tr_output :: "agent_output option"
  tr_proposed :: "proposed_action list"
  tr_prepared :: "prepared_action list"
  tr_calls :: "tool_call list"
  tr_decisions :: "policy_decision list"
  tr_verifications :: "verification_result list"
  tr_cases :: "str list"
  tr_reviews :: "human_review list"
  tr_outputs :: "(str \<times> str) list"
  tr_tasks :: "task_run list option"
  tr_metrics :: "metric_update list"
  tr_errors :: "run_error list"
  tr_provenance :: "provenance option"
  tr_started_at :: instant
  tr_completed_at :: "instant option"

text \<open>The approval policy a trace carries: fingerprint match, separate customer approval, roles.\<close>

definition trace_allowed_roles :: "run_trace \<Rightarrow> str list" where
  "trace_allowed_roles t =
     (case Option.bind (tr_provenance t) prov_approval of None \<Rightarrow> [] | Some (f, s, roles) \<Rightarrow> roles)"

definition trace_separate_approval :: "run_trace \<Rightarrow> bool" where
  "trace_separate_approval t =
     (case Option.bind (tr_provenance t) prov_approval of None \<Rightarrow> False | Some (f, s, roles) \<Rightarrow> s)"

definition trace_commit_id :: "run_trace \<Rightarrow> str option" where
  "trace_commit_id t = Option.bind (tr_provenance t) (\<lambda>p. inv_commit (prov_invocation p))"

definition trace_attempt_id :: "run_trace \<Rightarrow> str option" where
  "trace_attempt_id t = Option.bind (tr_provenance t) (\<lambda>p. inv_attempt (prov_invocation p))"

end
