(* ===== verification/RoutingRules.thy ===== *)
theory RoutingRules imports RoutingTypes begin

text \<open>
  The routing rules (functions of core/routing.ts): derived identifiers, untrusted fields and the
  safe subject, pattern matching, field paths, eligibility of a routing card for an event, the
  deterministic input mapping and the validation of a routing decision. Error and reason texts are
  the constructors of \<open>eligibility_reason\<close> and \<open>validation_error\<close>, one per message.
\<close>

subsection \<open>Derived identifiers\<close>

definition create_event_envelope_id :: "runtime \<Rightarrow> str \<Rightarrow> str \<Rightarrow> str \<Rightarrow> str \<Rightarrow> str" where
  "create_event_envelope_id R workspaceId source sourceDeliveryId eventType =
     ''evt_'' @ hash_obj R [(''workspaceId'', jstr workspaceId), (''source'', jstr source),
       (''sourceDeliveryId'', jstr sourceDeliveryId), (''eventType'', jstr eventType)]"

definition create_problem_dedupe_key ::
  "runtime \<Rightarrow> str \<Rightarrow> str \<Rightarrow> str \<Rightarrow> str \<Rightarrow> str option \<Rightarrow> str" where
  "create_problem_dedupe_key R workspaceId problemType subjectType subjectId repeatWindow =
     ''problem_'' @ hash_obj R [(''workspaceId'', jstr workspaceId), (''problemType'', jstr problemType),
       (''subjectType'', jstr subjectType), (''subjectId'', jstr subjectId),
       (''repeatWindow'', jopt repeatWindow)]"

definition create_route_job_id :: "runtime \<Rightarrow> str \<Rightarrow> str \<Rightarrow> str \<Rightarrow> str" where
  "create_route_job_id R eventId loopId loopSpecHash =
     ''job_'' @ hash_obj R [(''eventId'', jstr eventId), (''loopId'', jstr loopId),
       (''loopSpecHash'', jstr loopSpecHash)]"

subsection \<open>Untrusted fields\<close>

definition normalize_field_path :: "str \<Rightarrow> str" where
  "normalize_field_path p =
     strip_prefix ''trigger.'' (strip_prefix ''event.'' (strip_prefix ''$.'' (js_trim p)))"

definition field_marked_untrusted :: "event \<Rightarrow> str \<Rightarrow> bool" where
  "field_marked_untrusted e path =
     (let f = normalize_field_path path
      in list_ex (\<lambda>candidate. let c = normalize_field_path candidate
           in c = f \<or> starts_with f (c @ ''.'')) (untrusted_fields (ev_trust e)))"

definition safe_event_subject :: "event \<Rightarrow> subject" where
  "safe_event_subject e =
     (let display = map_option js_trim (sub_display (ev_subject e))
      in if \<not> truthy_str display \<or> field_marked_untrusted e ''subject.display''
         then \<lparr>sub_type = sub_type (ev_subject e), sub_id = sub_id (ev_subject e), sub_display = None\<rparr>
         else \<lparr>sub_type = sub_type (ev_subject e), sub_id = sub_id (ev_subject e), sub_display = display\<rparr>)"

definition safe_event_subject_label :: "event \<Rightarrow> str" where
  "safe_event_subject_label e = opt_or (sub_display (safe_event_subject e)) (sub_id (ev_subject e))"

subsection \<open>Patterns\<close>

text \<open>
  \<open>patternMatches\<close> splits the pattern at its stars and matches the anchored regular expression that
  has \<open>.*\<close> between the escaped segments. The dot of a regular expression does not match a line
  terminator.
\<close>

definition line_terminator :: "char \<Rightarrow> bool" where
  "line_terminator c = (c = CHR 0x0A \<or> c = CHR 0x0D)"

fun rest_match :: "str list \<Rightarrow> str \<Rightarrow> bool" where
  "rest_match [] v = (v = [])"
| "rest_match (s # ss) v =
     list_ex (\<lambda>k. list_all (\<lambda>c. \<not> line_terminator c) (take k v) \<and> starts_with (drop k v) s \<and>
                  rest_match ss (drop (k + length s) v)) [0..<Suc (length v)]"

definition segments_match :: "str list \<Rightarrow> str \<Rightarrow> bool" where
  "segments_match segs v =
     (case segs of [] \<Rightarrow> v = []
      | s # ss \<Rightarrow> starts_with v s \<and> rest_match ss (drop (length s) v))"

definition pattern_matches :: "str \<Rightarrow> str \<Rightarrow> bool" where
  "pattern_matches pattern v = (pattern = ''*'' \<or> segments_match (js_split (CHR ''*'') pattern) v)"

definition subject_matches :: "str list \<Rightarrow> str \<Rightarrow> bool" where
  "subject_matches types t = (types = [] \<or> t \<in> set types)"

definition subject_identity_matches :: "subject \<Rightarrow> subject \<Rightarrow> bool" where
  "subject_identity_matches l r = (sub_type l = sub_type r \<and> sub_id l = sub_id r)"

subsection \<open>Field paths\<close>

definition defined_value :: "json option \<Rightarrow> bool" where
  "defined_value v = (v \<noteq> None \<and> v \<noteq> Some JNull)"

definition event_path_value :: "event \<Rightarrow> str \<Rightarrow> json option" where
  "event_path_value e path =
     (let direct = read_path (event_json e) path
      in if defined_value direct then direct else read_path (JObj (ev_payload e)) path)"

definition event_path_has_value :: "event \<Rightarrow> str \<Rightarrow> bool" where
  "event_path_has_value e path =
     (case event_path_value e path of
        None \<Rightarrow> False
      | Some JNull \<Rightarrow> False
      | Some (JStr s) \<Rightarrow> js_trim s \<noteq> []
      | Some (JArr xs) \<Rightarrow> xs \<noteq> []
      | Some (JObj kvs) \<Rightarrow> kvs \<noteq> []
      | Some v \<Rightarrow> True)"

subsection \<open>Eligibility\<close>

datatype eligibility_reason =
    LoopIs loop_status
  | ReadinessBlocked
  | OverConcurrency
  | InsideCooldown
  | NoAcceptMatched
  | ExcludeMatched
  | MissingField str

record eligibility =
  el_eligible :: bool
  el_card :: routing_card
  el_accepts :: "accept_rule list"
  el_excludes :: "exclude_rule list"
  el_missing :: "str list"
  el_reasons :: "eligibility_reason list"

definition accept_pattern_matches :: "event \<Rightarrow> accept_rule \<Rightarrow> bool" where
  "accept_pattern_matches e r =
     (pattern_matches (ar_source_pattern r) (ev_source e) \<and>
      pattern_matches (ar_type_pattern r) (ev_type e) \<and>
      subject_matches (ar_subject_types r) (sub_type (ev_subject e)))"

definition missing_required :: "event \<Rightarrow> accept_rule \<Rightarrow> str list" where
  "missing_required e r = filter (\<lambda>f. \<not> event_path_has_value e f) (ar_required_fields r)"

definition exclude_matches :: "event \<Rightarrow> exclude_rule \<Rightarrow> bool" where
  "exclude_matches e r =
     (pattern_matches (xr_source_pattern r) (ev_source e) \<and>
      pattern_matches (xr_type_pattern r) (ev_type e) \<and>
      subject_matches (xr_subject_types r) (sub_type (ev_subject e)) \<and>
      (xr_fields r = [] \<or> list_all (event_path_has_value e) (xr_fields r)))"

definition cooling_down :: "event \<Rightarrow> routing_card \<Rightarrow> bool" where
  "cooling_down e c =
     (case rc_cooldown_until c of None \<Rightarrow> False | Some t \<Rightarrow> t > ev_received_at e)"

definition evaluate_routing_eligibility :: "event \<Rightarrow> routing_card \<Rightarrow> eligibility" where
  "evaluate_routing_eligibility e c =
     (let matching = filter (accept_pattern_matches e) (rc_accepts c);
          accepts = filter (\<lambda>r. missing_required e r = []) matching;
          missing = uniq (concat (map (missing_required e) matching));
          excludes = filter (exclude_matches e) (rc_excludes c);
          reasons =
            (if rc_loop_status c \<noteq> LoopActive then [LoopIs (rc_loop_status c)] else []) @
            (if rc_readiness c = Blocked then [ReadinessBlocked] else []) @
            (if rc_active_runs c \<ge> max_active (rc_concurrency c) then [OverConcurrency] else []) @
            (if cooling_down e c then [InsideCooldown] else []) @
            (if accepts = [] then [NoAcceptMatched] else []) @
            (if excludes \<noteq> [] then [ExcludeMatched] else []) @
            map MissingField missing
      in \<lparr>el_eligible = (reasons = []), el_card = c, el_accepts = accepts, el_excludes = excludes,
          el_missing = missing, el_reasons = reasons\<rparr>)"

definition eligible_order :: "runtime \<Rightarrow> eligibility \<Rightarrow> eligibility \<Rightarrow> int" where
  "eligible_order R a b =
     cmp_then (rc_priority (el_card b) - rc_priority (el_card a))
       (locale_compare R (rc_loop_name (el_card a)) (rc_loop_name (el_card b)))"

definition get_eligible_routing_cards :: "runtime \<Rightarrow> event \<Rightarrow> routing_card list \<Rightarrow> eligibility list" where
  "get_eligible_routing_cards R e cards =
     js_sort (eligible_order R) (filter el_eligible (map (evaluate_routing_eligibility e) cards))"

subsection \<open>Input mapping\<close>

definition map_routing_card_inputs :: "event \<Rightarrow> routing_card \<Rightarrow> (str \<times> json) list" where
  "map_routing_card_inputs e c =
     concat (map (\<lambda>(target, source). case event_path_value e source of
         None \<Rightarrow> [] | Some JNull \<Rightarrow> [] | Some v \<Rightarrow> [(target, v)]) (rc_input_mapping c))"

datatype validation_error =
    EventIdMismatch
  | CatalogStale
  | SubjectMismatch
  | RouteNeedsSelection
  | UnexpectedSelection decision_action
  | LoopNotInCatalog str
  | LoopNotEligible str "eligibility_reason list"
  | ConfidenceBelowMinimum str
  | MappingUnresolved str str
  | MappingUndeclared str str
  | MappingMismatch str str
  | AlternativeNotInCatalog str
  | PrimaryCount
  | FanoutLimitExceeded
  | FanoutNotAllowed str
  | SupportingNotPermitted str str
  | ProblemRequired decision_action
  | ExistingProblemRequired
  | AppendWithSelection
  | ExistingProblemNotFound str
  | ExistingProblemForeign str
  | ExistingProblemOtherSubject str
  | ProblemTypeNotSolved str
  | OpenProblemHasWork str
  | ReceiptNotFound
  | StaleLearningContext

definition input_mapping_errors ::
  "runtime \<Rightarrow> event \<Rightarrow> selected_route \<Rightarrow> routing_card \<Rightarrow> validation_error list" where
  "input_mapping_errors R e sel c =
     (let declared = map fst (rc_input_mapping c); mapped = map_routing_card_inputs e c
      in concat (map (\<lambda>t. if map_of mapped t = None then [MappingUnresolved (rc_loop_id c) t] else []) (uniq declared)) @
         concat (map (\<lambda>(t, v).
             if t \<notin> set declared then [MappingUndeclared (rc_loop_id c) t]
             else if content_hash R (Some v) \<noteq> content_hash R (map_of mapped t)
               then [MappingMismatch (rc_loop_id c) t] else []) (sr_input_mapping sel)))"

subsection \<open>Validation of a decision\<close>

definition check_selected_route ::
  "runtime \<Rightarrow> event \<Rightarrow> routing_card list \<Rightarrow> selected_route \<Rightarrow> validation_error list \<times> routing_card list" where
  "check_selected_route R e cards sel =
     (case map_by rc_loop_id cards (sr_loop_id sel) of
        None \<Rightarrow> ([LoopNotInCatalog (sr_loop_id sel)], [])
      | Some c \<Rightarrow>
          (let el = evaluate_routing_eligibility e c
           in if \<not> el_eligible el then ([LoopNotEligible (sr_loop_id sel) (el_reasons el)], [])
              else ((if sr_confidence sel < rc_minimum_confidence c
                     then [ConfidenceBelowMinimum (sr_loop_id sel)] else []) @
                    input_mapping_errors R e sel c, [c])))"

definition fanout_errors :: "routing_card list \<Rightarrow> selected_route list \<Rightarrow> routing_card list \<Rightarrow> validation_error list" where
  "fanout_errors cards selected chosen =
     (if length chosen > 1 then
        (if length chosen > min_list (map (\<lambda>c. fan_max_routes (rc_fanout c)) chosen)
         then [FanoutLimitExceeded] else []) @
        concat (map (\<lambda>c. if fan_mode (rc_fanout c) = FanoutNone
                         then [FanoutNotAllowed (rc_loop_id c)] else []) chosen) @
        (case find (\<lambda>r. sr_role r = Primary) selected of
           None \<Rightarrow> []
         | Some p \<Rightarrow>
             (case map_by rc_loop_id cards (sr_loop_id p) of
                None \<Rightarrow> []
              | Some pc \<Rightarrow>
                  concat (map (\<lambda>s. if sr_loop_id s \<notin> set (rc_supporting pc)
                                   then [SupportingNotPermitted (rc_loop_id pc) (sr_loop_id s)] else [])
                    (filter (\<lambda>r. sr_role r = Supporting) selected))))
      else [])"

record decision_validation =
  dv_valid :: bool
  dv_errors :: "validation_error list"
  dv_cards :: "routing_card list"

definition validate_routing_decision ::
  "runtime \<Rightarrow> event \<Rightarrow> routing_decision \<Rightarrow> routing_card list \<Rightarrow> str \<Rightarrow> decision_validation" where
  "validate_routing_decision R e d cards catalogVersion =
     (let checks = map (check_selected_route R e cards) (dec_selected d);
          chosen = concat (map snd checks);
          errors =
            (if dec_event_id d \<noteq> ev_id e then [EventIdMismatch] else []) @
            (if dec_catalog_version d \<noteq> catalogVersion then [CatalogStale] else []) @
            (case dec_problem d of None \<Rightarrow> []
             | Some p \<Rightarrow> if \<not> subject_identity_matches (pp_subject p) (ev_subject e)
                         then [SubjectMismatch] else []) @
            (if dec_action d = Route \<and> dec_selected d = [] then [RouteNeedsSelection] else []) @
            (if dec_action d \<noteq> Route \<and> dec_selected d \<noteq> [] then [UnexpectedSelection (dec_action d)] else []) @
            concat (map fst checks) @
            concat (map (\<lambda>a. if map_by rc_loop_id cards (alt_loop_id a) = None
                             then [AlternativeNotInCatalog (alt_loop_id a)] else []) (dec_alternatives d)) @
            (if dec_action d = Route \<and> length (filter (\<lambda>r. sr_role r = Primary) (dec_selected d)) \<noteq> 1
             then [PrimaryCount] else []) @
            fanout_errors cards (dec_selected d) chosen
      in \<lparr>dv_valid = (errors = []), dv_errors = errors, dv_cards = chosen\<rparr>)"


subsection \<open>What a pattern matches\<close>

text \<open>\<open>fill_stars p gs\<close> is the pattern with its stars replaced, in order, by the texts \<open>gs\<close>.\<close>

fun fill_stars :: "str \<Rightarrow> str list \<Rightarrow> str" where
  "fill_stars [] gs = []"
| "fill_stars (c # cs) gs =
     (if c = CHR ''*''
      then (case gs of [] \<Rightarrow> fill_stars cs [] | g # gs' \<Rightarrow> g @ fill_stars cs gs')
      else c # fill_stars cs gs)"

definition one_line :: "str \<Rightarrow> bool" where
  "one_line g = list_all (\<lambda>c. \<not> line_terminator c) g"

lemma rest_match_iff:
  "rest_match ss v \<longleftrightarrow>
   (\<exists>gs. length gs = length ss \<and> list_all one_line gs \<and> v = concat (map2 (@) gs ss))"
proof (induction ss arbitrary: v)
  case (Cons s ss)
  show ?case
  proof
    assume "rest_match (s # ss) v"
    then obtain k where k: "k \<le> length v" "one_line (take k v)" "starts_with (drop k v) s"
      "rest_match ss (drop (k + length s) v)"
      by (auto simp: one_line_def list_ex_iff less_Suc_eq_le simp del: upt_Suc)
    from k(3) obtain w where w: "drop k v = s @ w" by (auto simp: starts_with_iff)
    then have "drop (k + length s) v = w"
      by (metis add.commute append_eq_conv_conj drop_drop)
    with k(4) Cons.IH obtain gs where gs: "length gs = length ss" "list_all one_line gs"
      "w = concat (map2 (@) gs ss)" by auto
    have "v = take k v @ s @ w" using w by (metis append_take_drop_id)
    with gs k(2) show "\<exists>gs. length gs = length (s # ss) \<and> list_all one_line gs \<and>
        v = concat (map2 (@) gs (s # ss))"
      by (intro exI [of _ "take k v # gs"]) simp
  next
    assume "\<exists>gs. length gs = length (s # ss) \<and> list_all one_line gs \<and> v = concat (map2 (@) gs (s # ss))"
    then obtain g gs where g: "length gs = length ss" "one_line g" "list_all one_line gs"
      "v = g @ s @ concat (map2 (@) gs ss)"
      by (auto simp: length_Suc_conv)
    then have "rest_match ss (concat (map2 (@) gs ss))" using Cons.IH by blast
    with g show "rest_match (s # ss) v"
      by (auto simp: one_line_def list_ex_iff starts_with_iff less_Suc_eq_le
          intro!: bexI [of _ "length g"] simp del: upt_Suc)
  qed
qed simp

lemma length_js_split: "length (js_split sep p) = Suc (count_list p sep)"
  by (induction sep p rule: js_split.induct) (auto split: list.splits)

lemma fill_stars_split:
  "length gs = count_list p (CHR ''*'') \<Longrightarrow>
   fill_stars p gs = hd (js_split (CHR ''*'') p) @ concat (map2 (@) gs (tl (js_split (CHR ''*'') p)))"
proof (induction p arbitrary: gs)
  case (Cons c cs)
  obtain w ws where w: "js_split (CHR ''*'') cs = w # ws" by (cases "js_split (CHR ''*'') cs") auto
  show ?case
  proof (cases "c = CHR ''*''")
    case True
    with Cons.prems obtain g gs' where "gs = g # gs'" "length gs' = count_list cs (CHR ''*'')"
      by (cases gs) auto
    with Cons.IH [of gs'] w True show ?thesis by simp
  next
    case False
    with Cons w show ?thesis by simp
  qed
qed simp

lemma segments_match_iff:
  "segments_match (js_split (CHR ''*'') p) v \<longleftrightarrow>
   (\<exists>gs. length gs = count_list p (CHR ''*'') \<and> list_all one_line gs \<and> v = fill_stars p gs)"
proof -
  obtain s ss where s: "js_split (CHR ''*'') p = s # ss" by (cases "js_split (CHR ''*'') p") auto
  have len: "length ss = count_list p (CHR ''*'')" using length_js_split [of "CHR ''*''" p] s by simp
  have "segments_match (s # ss) v \<longleftrightarrow> (\<exists>w. v = s @ w \<and> rest_match ss w)"
    by (auto simp: segments_match_def starts_with_iff)
  also have "\<dots> \<longleftrightarrow> (\<exists>gs. length gs = count_list p (CHR ''*'') \<and> list_all one_line gs \<and> v = fill_stars p gs)"
    using fill_stars_split [of _ p] s len by (auto simp: rest_match_iff)
  finally show ?thesis using s by simp
qed

text \<open>
  An event source or type matches a routing pattern exactly when it is the pattern with every
  star replaced by some text without line terminators (the pattern \<open>*\<close> alone matches everything);
  the other characters of the pattern stand for themselves.
\<close>

theorem pattern_matches_spec:
  "pattern_matches p v \<longleftrightarrow>
   p = ''*'' \<or>
   (\<exists>gs. length gs = count_list p (CHR ''*'') \<and> list_all one_line gs \<and> v = fill_stars p gs)"
  by (simp add: pattern_matches_def segments_match_iff)

subsection \<open>When a card is eligible\<close>

lemma uniq_concat_Nil: "uniq (concat (map f xs)) = [] \<longleftrightarrow> (\<forall>x\<in>set xs. f x = [])"
  by (induction xs) auto

lemma eligibility_card [simp]: "el_card (evaluate_routing_eligibility e c) = c"
  by (simp add: evaluate_routing_eligibility_def Let_def)

lemma eligible_reasons: "el_eligible (evaluate_routing_eligibility e c) = (el_reasons (evaluate_routing_eligibility e c) = [])"
  by (simp add: evaluate_routing_eligibility_def Let_def)

lemma missing_required_Nil: "missing_required e r = [] \<longleftrightarrow> (\<forall>f\<in>set (ar_required_fields r). event_path_has_value e f)"
  by (auto simp: missing_required_def filter_empty_conv)

lemma eligible_char:
  "el_eligible (evaluate_routing_eligibility e c) \<longleftrightarrow>
     rc_loop_status c = LoopActive \<and> rc_readiness c \<noteq> Blocked \<and>
     rc_active_runs c < max_active (rc_concurrency c) \<and>
     (\<forall>t. rc_cooldown_until c = Some t \<longrightarrow> t \<le> ev_received_at e) \<and>
     (\<exists>r\<in>set (rc_accepts c). accept_pattern_matches e r) \<and>
     (\<forall>r\<in>set (rc_accepts c). accept_pattern_matches e r \<longrightarrow>
        (\<forall>f\<in>set (ar_required_fields r). event_path_has_value e f)) \<and>
     (\<forall>r\<in>set (rc_excludes c). \<not> exclude_matches e r)"
proof -
  have cool: "\<not> cooling_down e c \<longleftrightarrow> (\<forall>t. rc_cooldown_until c = Some t \<longrightarrow> t \<le> ev_received_at e)"
    by (auto simp: cooling_down_def split: option.splits)
  let ?m = "filter (accept_pattern_matches e) (rc_accepts c)"
  have acc: "(filter (\<lambda>r. missing_required e r = []) ?m \<noteq> [] \<and> uniq (concat (map (missing_required e) ?m)) = []) \<longleftrightarrow>
      (\<exists>r\<in>set (rc_accepts c). accept_pattern_matches e r) \<and>
      (\<forall>r\<in>set (rc_accepts c). accept_pattern_matches e r \<longrightarrow> missing_required e r = [])"
    unfolding uniq_concat_Nil by (auto simp: filter_empty_conv)
  show ?thesis
    using cool acc
    by (auto simp: evaluate_routing_eligibility_def Let_def missing_required_Nil filter_empty_conv)
qed

text \<open>
  C30: a routing card is eligible for an event exactly when its loop is active, not blocked, below
  its concurrency limit and out of its cooldown, some accept rule matches the event, every accept
  rule that matches has all its required fields, and no exclude rule matches.
\<close>

theorem eligible_iff:
  "el_eligible (evaluate_routing_eligibility e c) \<longleftrightarrow>
     rc_loop_status c = LoopActive \<and> rc_readiness c \<noteq> Blocked \<and>
     rc_active_runs c < max_active (rc_concurrency c) \<and>
     (\<forall>t. rc_cooldown_until c = Some t \<longrightarrow> t \<le> ev_received_at e) \<and>
     (\<exists>r\<in>set (rc_accepts c). accept_pattern_matches e r) \<and>
     (\<forall>r\<in>set (rc_accepts c). accept_pattern_matches e r \<longrightarrow>
        (\<forall>f\<in>set (ar_required_fields r). event_path_has_value e f)) \<and>
     (\<forall>r\<in>set (rc_excludes c). \<not> exclude_matches e r)"
  by (rule eligible_char)

lemma comparator_eligible:
  assumes "comparator (locale_compare R)"
  shows "comparator (eligible_order R)"
proof
  fix x y z
  show "0 < eligible_order R x y \<Longrightarrow> eligible_order R y x \<le> 0"
    using comparator.total [OF assms] by (auto simp: eligible_order_def cmp_then_def split: if_splits)
  show "eligible_order R x y \<le> 0 \<Longrightarrow> eligible_order R y z \<le> 0 \<Longrightarrow> eligible_order R x z \<le> 0"
    using comparator.trans [OF assms] by (auto simp: eligible_order_def cmp_then_def split: if_splits)
qed

text \<open>
  The eligible cards offered for an event are exactly the catalog's cards that are eligible,
  each as often as it is listed, by descending priority and, among equal priorities, in collation
  order of the loop name.
\<close>

theorem eligible_cards_sorted:
  assumes "comparator (locale_compare R)"
  shows "set (get_eligible_routing_cards R e cards) =
           {el. el_eligible el \<and> (\<exists>c\<in>set cards. el = evaluate_routing_eligibility e c)} \<and>
         length (get_eligible_routing_cards R e cards) =
           length (filter (\<lambda>c. el_eligible (evaluate_routing_eligibility e c)) cards) \<and>
         sorted_wrt (\<lambda>a b. rc_priority (el_card a) > rc_priority (el_card b) \<or>
             rc_priority (el_card a) = rc_priority (el_card b) \<and>
             locale_compare R (rc_loop_name (el_card a)) (rc_loop_name (el_card b)) \<le> 0)
           (get_eligible_routing_cards R e cards)"
proof (intro conjI)
  let ?P = "\<lambda>a b. rc_priority (el_card a) > rc_priority (el_card b) \<or>
             rc_priority (el_card a) = rc_priority (el_card b) \<and>
             locale_compare R (rc_loop_name (el_card a)) (rc_loop_name (el_card b)) \<le> 0"
  show "set (get_eligible_routing_cards R e cards) =
           {el. el_eligible el \<and> (\<exists>c\<in>set cards. el = evaluate_routing_eligibility e c)}"
    by (auto simp: get_eligible_routing_cards_def)
  show "length (get_eligible_routing_cards R e cards) =
           length (filter (\<lambda>c. el_eligible (evaluate_routing_eligibility e c)) cards)"
    by (simp add: get_eligible_routing_cards_def filter_map o_def)
  have "(\<lambda>a b. eligible_order R a b \<le> 0) = ?P"
    by (auto simp: eligible_order_def cmp_then_def fun_eq_iff)
  then show "sorted_wrt ?P (get_eligible_routing_cards R e cards)"
    using comparator.sorted_sort [OF comparator_eligible [OF assms]]
    unfolding get_eligible_routing_cards_def by simp
qed


subsection \<open>When a decision is valid\<close>

text \<open>
  The declarative reading of the validation: what a decision must satisfy for the event, the
  catalog and the catalog version it was made for.
\<close>

definition route_admissible :: "runtime \<Rightarrow> event \<Rightarrow> routing_card list \<Rightarrow> selected_route \<Rightarrow> bool" where
  "route_admissible R e cards sel \<longleftrightarrow>
     (\<exists>c. map_by rc_loop_id cards (sr_loop_id sel) = Some c \<and>
          el_eligible (evaluate_routing_eligibility e c) \<and>
          rc_minimum_confidence c \<le> sr_confidence sel \<and>
          (\<forall>t\<in>fst ` set (rc_input_mapping c). map_of (map_routing_card_inputs e c) t \<noteq> None) \<and>
          (\<forall>(t, v)\<in>set (sr_input_mapping sel). t \<in> fst ` set (rc_input_mapping c) \<and>
             content_hash R (Some v) = content_hash R (map_of (map_routing_card_inputs e c) t)))"

definition fanout_admissible :: "routing_card list \<Rightarrow> selected_route list \<Rightarrow> bool" where
  "fanout_admissible cards selected \<longleftrightarrow>
     (\<forall>s\<in>set selected. \<forall>c. map_by rc_loop_id cards (sr_loop_id s) = Some c \<longrightarrow>
        length selected \<le> fan_max_routes (rc_fanout c) \<and> fan_mode (rc_fanout c) \<noteq> FanoutNone) \<and>
     (\<forall>p\<in>set selected. \<forall>s\<in>set selected. \<forall>pc. sr_role p = Primary \<longrightarrow> sr_role s = Supporting \<longrightarrow>
        map_by rc_loop_id cards (sr_loop_id p) = Some pc \<longrightarrow> sr_loop_id s \<in> set (rc_supporting pc))"

definition decision_admissible ::
  "runtime \<Rightarrow> event \<Rightarrow> routing_decision \<Rightarrow> routing_card list \<Rightarrow> str \<Rightarrow> bool" where
  "decision_admissible R e d cards catalogVersion \<longleftrightarrow>
     dec_event_id d = ev_id e \<and> dec_catalog_version d = catalogVersion \<and>
     (\<forall>p. dec_problem d = Some p \<longrightarrow> subject_identity_matches (pp_subject p) (ev_subject e)) \<and>
     (dec_action d = Route \<longleftrightarrow> dec_selected d \<noteq> []) \<and>
     (\<forall>s\<in>set (dec_selected d). route_admissible R e cards s) \<and>
     (\<forall>a\<in>set (dec_alternatives d). alt_loop_id a \<in> rc_loop_id ` set cards) \<and>
     (dec_action d = Route \<longrightarrow> length (filter (\<lambda>r. sr_role r = Primary) (dec_selected d)) = 1) \<and>
     (1 < length (dec_selected d) \<longrightarrow> fanout_admissible cards (dec_selected d))"

lemma concat_map_Nil: "concat (map f xs) = [] \<longleftrightarrow> (\<forall>x\<in>set xs. f x = [])"
  by (induction xs) auto

lemma input_mapping_errors_Nil:
  "input_mapping_errors R e sel c = [] \<longleftrightarrow>
     (\<forall>t\<in>fst ` set (rc_input_mapping c). map_of (map_routing_card_inputs e c) t \<noteq> None) \<and>
     (\<forall>(t, v)\<in>set (sr_input_mapping sel). t \<in> fst ` set (rc_input_mapping c) \<and>
        content_hash R (Some v) = content_hash R (map_of (map_routing_card_inputs e c) t))"
  unfolding input_mapping_errors_def Let_def append_is_Nil_conv concat_map_Nil
  by (auto split: if_splits)

lemma check_selected_route_ok:
  "fst (check_selected_route R e cards sel) = [] \<longleftrightarrow> route_admissible R e cards sel"
  by (auto simp: check_selected_route_def route_admissible_def Let_def input_mapping_errors_Nil
      not_less split: option.splits)

lemma check_selected_route_cards:
  "fst (check_selected_route R e cards sel) = [] \<Longrightarrow>
   snd (check_selected_route R e cards sel) = [the (map_by rc_loop_id cards (sr_loop_id sel))]"
  by (auto simp: check_selected_route_def Let_def split: option.splits if_splits)

lemma chosen_cards:
  assumes "\<forall>s\<in>set sels. fst (check_selected_route R e cards s) = []"
  shows "concat (map snd (map (check_selected_route R e cards) sels)) =
         map (\<lambda>s. the (map_by rc_loop_id cards (sr_loop_id s))) sels"
  using assms by (induction sels) (auto simp: check_selected_route_cards)

lemma min_list_le_iff: "xs \<noteq> [] \<Longrightarrow> (n :: nat) \<le> min_list xs \<longleftrightarrow> (\<forall>x\<in>set xs. n \<le> x)"
  by (simp add: min_list_Min)

lemma find_Primary:
  "find (\<lambda>r. sr_role r = Primary) xs = Some p \<Longrightarrow> p \<in> set xs \<and> sr_role p = Primary"
  by (auto simp: find_Some_iff)

lemma single_primary:
  assumes "length (filter P xs) = 1" "find P xs = Some p" "q \<in> set xs" "P q"
  shows "q = p"
proof -
  from assms(1) obtain a where "filter P xs = [a]" by (auto simp: length_Suc_conv)
  moreover from assms(3,4) have "q \<in> set (filter P xs)" by simp
  moreover from assms(2) have "p \<in> set (filter P xs)" by (auto simp: find_Some_iff)
  ultimately show ?thesis by simp
qed

lemma fanout_errors_Nil:
  assumes card: "\<forall>s\<in>set sels. map_by rc_loop_id cards (sr_loop_id s) = Some (crd s)"
    and one: "length (filter (\<lambda>r. sr_role r = Primary) sels) = 1"
  shows "fanout_errors cards sels (map crd sels) = [] \<longleftrightarrow>
         (1 < length sels \<longrightarrow> fanout_admissible cards sels)"
proof -
  from one obtain p where p: "find (\<lambda>r. sr_role r = Primary) sels = Some p"
    by (cases "find (\<lambda>r. sr_role r = Primary) sels") (auto simp: find_None_iff filter_empty_conv dest: arg_cong [of _ _ length])
  have pin: "p \<in> set sels" "sr_role p = Primary" using find_Primary [OF p] by auto
  have uniq: "q = p" if "q \<in> set sels" "sr_role q = Primary" for q
    using single_primary [OF one p that] .
  show ?thesis
  proof (cases "1 < length sels")
    case True
    then have ne: "map (\<lambda>c. fan_max_routes (rc_fanout c)) (map crd sels) \<noteq> []" by auto
    have "fanout_errors cards sels (map crd sels) = [] \<longleftrightarrow>
        length sels \<le> min_list (map (\<lambda>c. fan_max_routes (rc_fanout c)) (map crd sels)) \<and>
        (\<forall>c\<in>set (map crd sels). fan_mode (rc_fanout c) \<noteq> FanoutNone) \<and>
        (\<forall>s\<in>set (filter (\<lambda>r. sr_role r = Supporting) sels). sr_loop_id s \<in> set (rc_supporting (crd p)))"
      using True p card pin(1)
      by (simp add: fanout_errors_def concat_map_Nil not_less del: set_map set_filter concat_eq_Nil_conv map_map)
    also have "\<dots> \<longleftrightarrow>
        (\<forall>s\<in>set sels. length sels \<le> fan_max_routes (rc_fanout (crd s)) \<and>
            fan_mode (rc_fanout (crd s)) \<noteq> FanoutNone) \<and>
        (\<forall>s\<in>set sels. sr_role s = Supporting \<longrightarrow> sr_loop_id s \<in> set (rc_supporting (crd p)))"
      unfolding min_list_le_iff [OF ne] by auto
    also have "\<dots> \<longleftrightarrow> fanout_admissible cards sels"
    proof -
      have each: "(\<forall>s\<in>set sels. \<forall>c. map_by rc_loop_id cards (sr_loop_id s) = Some c \<longrightarrow> Q c) \<longleftrightarrow>
          (\<forall>s\<in>set sels. Q (crd s))" for Q
        using card by simp
      have second: "(\<forall>q\<in>set sels. \<forall>s\<in>set sels. \<forall>pc. sr_role q = Primary \<longrightarrow> sr_role s = Supporting \<longrightarrow>
          map_by rc_loop_id cards (sr_loop_id q) = Some pc \<longrightarrow> sr_loop_id s \<in> set (rc_supporting pc)) \<longleftrightarrow>
        (\<forall>s\<in>set sels. sr_role s = Supporting \<longrightarrow> sr_loop_id s \<in> set (rc_supporting (crd p)))"
        (is "?L \<longleftrightarrow> ?R")
      proof
        assume ?L
        with pin card show ?R by simp
      next
        assume ?R
        show ?L
        proof (intro ballI allI impI)
          fix q s pc
          assume q: "q \<in> set sels" "sr_role q = Primary" and s: "s \<in> set sels" "sr_role s = Supporting"
            and pc: "map_by rc_loop_id cards (sr_loop_id q) = Some pc"
          from uniq [OF q] pc card pin(1) have "pc = crd p" by simp
          with \<open>?R\<close> s show "sr_loop_id s \<in> set (rc_supporting pc)" by simp
        qed
      qed
      show ?thesis unfolding fanout_admissible_def each second ..
    qed
    finally show ?thesis using True by simp
  qed (simp add: fanout_errors_def)
qed

lemma fanout_errors_short: "length chosen \<le> 1 \<Longrightarrow> fanout_errors cards sels chosen = []"
  by (simp add: fanout_errors_def)

lemma valid_iff_admissible:
  "dv_valid (validate_routing_decision R e d cards v) \<longleftrightarrow> decision_admissible R e d cards v"
proof -
  let ?checks = "map (check_selected_route R e cards) (dec_selected d)"
  let ?chosen = "concat (map snd ?checks)"
  let ?A = "\<forall>s\<in>set (dec_selected d). route_admissible R e cards s"
  let ?one = "length (filter (\<lambda>r. sr_role r = Primary) (dec_selected d)) = 1"
  have checks: "concat (map fst ?checks) = [] \<longleftrightarrow> ?A"
    by (auto simp: check_selected_route_ok)
  have alts: "(concat (map (\<lambda>a. if map_by rc_loop_id cards (alt_loop_id a) = None
        then [AlternativeNotInCatalog (alt_loop_id a)] else []) (dec_alternatives d)) = []) \<longleftrightarrow>
      (\<forall>a\<in>set (dec_alternatives d). alt_loop_id a \<in> rc_loop_id ` set cards)"
    by (auto simp: map_by_None)
  have fan: "fanout_errors cards (dec_selected d) ?chosen = [] \<longleftrightarrow>
      (1 < length (dec_selected d) \<longrightarrow> fanout_admissible cards (dec_selected d))"
    if "?A" and "dec_selected d \<noteq> [] \<longrightarrow> ?one"
  proof (cases "dec_selected d = []")
    case True
    then show ?thesis by (simp add: fanout_errors_short)
  next
    case False
    have "?chosen = map (\<lambda>s. the (map_by rc_loop_id cards (sr_loop_id s))) (dec_selected d)"
      using that(1) by (intro chosen_cards) (simp add: check_selected_route_ok)
    moreover have "\<forall>s\<in>set (dec_selected d). map_by rc_loop_id cards (sr_loop_id s) =
        Some (the (map_by rc_loop_id cards (sr_loop_id s)))"
      using that(1) by (auto simp: route_admissible_def)
    ultimately show ?thesis using False that(2) fanout_errors_Nil by simp
  qed
  have "dv_valid (validate_routing_decision R e d cards v) \<longleftrightarrow>
      dec_event_id d = ev_id e \<and> dec_catalog_version d = v \<and>
      (\<forall>p. dec_problem d = Some p \<longrightarrow> subject_identity_matches (pp_subject p) (ev_subject e)) \<and>
      \<not> (dec_action d = Route \<and> dec_selected d = []) \<and> \<not> (dec_action d \<noteq> Route \<and> dec_selected d \<noteq> []) \<and>
      ?A \<and> (\<forall>a\<in>set (dec_alternatives d). alt_loop_id a \<in> rc_loop_id ` set cards) \<and>
      \<not> (dec_action d = Route \<and> \<not> ?one) \<and> fanout_errors cards (dec_selected d) ?chosen = []"
    unfolding validate_routing_decision_def Let_def decision_validation.simps append_is_Nil_conv
      checks alts by (auto split: option.splits if_splits)
  also have "\<dots> \<longleftrightarrow> decision_admissible R e d cards v"
    unfolding decision_admissible_def using fan by blast
  finally show ?thesis .
qed

text \<open>
  C21: the validation accepts a decision exactly when it is admissible: it names the event and the
  current catalog, its problem is about the event's subject, it selects routes exactly when its
  action is to route, every selected loop is in the catalog, eligible, at or above its minimum
  confidence and mapped as the event determines, alternatives are in the catalog, exactly one
  route is primary, and a fan-out is within every selected card's limit and only to supporting
  loops the primary permits.
\<close>

theorem validate_routing_decision_spec:
  "dv_valid (validate_routing_decision R e d cards v) \<longleftrightarrow> decision_admissible R e d cards v"
  by (rule valid_iff_admissible)

lemma valid_decision_cards:
  assumes "dv_valid (validate_routing_decision R e d cards v)"
  shows "dv_cards (validate_routing_decision R e d cards v) =
         map (\<lambda>s. the (map_by rc_loop_id cards (sr_loop_id s))) (dec_selected d)"
proof -
  have "\<forall>s\<in>set (dec_selected d). route_admissible R e cards s"
    using valid_iff_admissible assms unfolding decision_admissible_def by blast
  then show ?thesis
    using chosen_cards [of "dec_selected d" R e cards]
    by (simp add: validate_routing_decision_def Let_def check_selected_route_ok)
qed


text \<open>A display name that the event marks untrusted, itself or through its parent, is left out.\<close>

lemma untrusted_display_hidden:
  assumes "f \<in> set (untrusted_fields (ev_trust e))"
    and "normalize_field_path f = ''subject'' \<or> normalize_field_path f = ''subject.display''"
  shows "sub_display (safe_event_subject e) = None \<and>
         safe_event_subject_label e = sub_id (ev_subject e)"
proof -
  have path: "normalize_field_path ''subject.display'' = ''subject.display''"
    by code_simp
  have "field_marked_untrusted e ''subject.display''"
    unfolding field_marked_untrusted_def Let_def path list_ex_iff
    using assms by (intro bexI [of _ f]) auto
  then show ?thesis
    by (simp add: safe_event_subject_def safe_event_subject_label_def Let_def)
qed

subsection \<open>A sample event and card\<close>

text \<open>Evaluation of a path lookup in a concrete event.\<close>

lemmas path_simps = event_path_has_value_def event_path_value_def read_path_def path_parts_def
  event_json_def subject_json_def trust_json_def jobj_def jstr_def jopt_def jstrs_def
  defined_value_def js_trim_def js_space_def

definition sample_event :: event where
  "sample_event =
     \<lparr>ev_id = ''evt_1'', ev_workspace = ''w'', ev_company = ''c'', ev_source = ''crm'',
      ev_source_route = ''r'', ev_delivery = ''d1'', ev_type = ''deal.stalled'',
      ev_occurred_at = 1000, ev_received_at = 2000,
      ev_subject = \<lparr>sub_type = ''deal'', sub_id = ''42'', sub_display = Some ''Acme''\<rparr>,
      ev_correlation = ''k'', ev_causation = None, ev_parent = None, ev_hop_count = 0,
      ev_payload = [(''stage'', JStr ''won'')], ev_raw_payload = None, ev_evidence_refs = [],
      ev_trust = \<lparr>signature_verified = True, signer = None, untrusted_fields = [''event.subject'']\<rparr>,
      ev_sensitivity = Internal\<rparr>"

definition sample_card :: routing_card where
  "sample_card =
     \<lparr>rc_catalog_version = ''v1'', rc_loop_id = ''loop_a'', rc_loop_name = ''A'', rc_department = Some Sales,
      rc_goal = ''g'', rc_readiness = Ready, rc_loop_status = LoopActive, rc_problem_types = [''stalled''],
      rc_non_goals = [],
      rc_accepts = [\<lparr>ar_source_pattern = ''crm'', ar_type_pattern = ''deal.*'', ar_subject_types = [''deal''],
         ar_required_fields = [''subject.id'', ''stage''], ar_optional_conditions = [], ar_reason = None\<rparr>],
      rc_excludes = [\<lparr>xr_source_pattern = ''*'', xr_type_pattern = ''*'', xr_subject_types = [''lead''],
         xr_fields = [], xr_reason = ''x''\<rparr>],
      rc_primary_action = None, rc_action_risk = RiskLow, rc_activation = Simulate,
      rc_minimum_confidence = 3/4, rc_priority = 0, rc_ambiguity = AmbiguityRequestHuman,
      rc_no_match = NoMatchUnhandled,
      rc_fanout = \<lparr>fan_mode = FanoutNone, fan_max_routes = 1, fan_independent = True\<rparr>,
      rc_supporting = [], rc_cooldown = \<lparr>cooldown_seconds = 0, dedupe_window_seconds = 0\<rparr>,
      rc_concurrency = \<lparr>max_active = 1, con_strategy = ConAppendEvidence\<rparr>,
      rc_input_mapping = [], rc_required_connections = [], rc_lifecycle_events = [], rc_active_runs = 0,
      rc_cooldown_until = Some 1500, rc_should_route = [], rc_should_not_route = [],
      rc_loop_spec_hash = ''h''\<rparr>"

lemma sample_accepts:
  "\<forall>r\<in>set (rc_accepts sample_card). accept_pattern_matches sample_event r"
  by code_simp

lemma sample_required:
  "\<forall>r\<in>set (rc_accepts sample_card). \<forall>f\<in>set (ar_required_fields r). event_path_has_value sample_event f"
  by (simp add: sample_card_def sample_event_def path_simps)

lemma sample_excludes: "\<forall>r\<in>set (rc_excludes sample_card). \<not> exclude_matches sample_event r"
  by code_simp

theorem eligible_iff_witness: "el_eligible (evaluate_routing_eligibility sample_event sample_card)"
  unfolding eligible_iff [of sample_event sample_card]
  using sample_accepts sample_required sample_excludes
  by (simp add: sample_card_def sample_event_def)

text \<open>A stand-in for the platform: a digest of 64 hexadecimal digits and an order on names.\<close>

definition sample_runtime :: runtime where
  "sample_runtime = \<lparr>sha256_hex = (\<lambda>s. rev (dec_digits 64 (length s))), number_text = (\<lambda>q. ''0''),
     locale_compare = cmp_of, parse_number = (\<lambda>s. None), regex_test_i = (\<lambda>p s. Some (p = s))\<rparr>"

theorem eligible_cards_sorted_witness:
  "sorted_wrt (\<lambda>a b. rc_priority (el_card a) > rc_priority (el_card b) \<or>
             rc_priority (el_card a) = rc_priority (el_card b) \<and>
             locale_compare sample_runtime (rc_loop_name (el_card a)) (rc_loop_name (el_card b)) \<le> 0)
     (get_eligible_routing_cards sample_runtime sample_event
        [sample_card, sample_card\<lparr>rc_priority := 5\<rparr>, sample_card\<lparr>rc_loop_status := LoopDraft\<rparr>])"
proof -
  have "comparator (locale_compare sample_runtime)"
    by (simp add: sample_runtime_def order_comparator.comparator_axioms)
  from eligible_cards_sorted [OF this] show ?thesis by blast
qed

end
