(* ===== verification/LoopSpecRules.thy ===== *)
theory LoopSpecRules imports LoopTypes RoutingRules begin

text \<open>
  The semantic rules of a LoopSpec (\<open>collectLoopSpecSemanticErrors\<close> of core/loop-spec.ts), the
  compilation of its routing card (\<open>compileRoutingCardFromLoopSpec\<close> of core/routing.ts) with the
  department names (core/department-skills.ts), and the orchestration limits
  (runtime/orchestration.ts).
\<close>

subsection \<open>Departments\<close>

definition lower_char :: "char \<Rightarrow> char" where
  "lower_char c = (let n = (of_char c :: nat) in if 65 \<le> n \<and> n \<le> 90 then char_of (n + 32) else c)"

text \<open>\<open>toLowerCase\<close> on ASCII letters; the names compared below contain no others.\<close>

definition js_lower :: "str \<Rightarrow> str" where
  "js_lower s = map lower_char s"

definition department_types :: "(str \<times> department) list" where
  "department_types =
     [(''management'', Management), (''marketing'', Marketing), (''sales'', Sales), (''product'', Product),
      (''customer_success'', CustomerSuccess), (''engineering'', Engineering), (''ops_finance'', OpsFinance),
      (''hr_talent'', HrTalent), (''legal_compliance'', LegalCompliance), (''custom'', CustomDepartment)]"

definition department_aliases :: "(str \<times> department) list" where
  "department_aliases =
     [(''operations_finance'', OpsFinance), (''hr'', HrTalent), (''legal_security'', LegalCompliance)]"

definition normalize_department_type :: "str \<Rightarrow> department option" where
  "normalize_department_type v =
     opt_first (map_of department_types (js_lower (js_trim v))) (map_of department_aliases (js_lower (js_trim v)))"

definition require_department_type :: "str \<Rightarrow> str + department" where
  "require_department_type v = (case normalize_department_type v of None \<Rightarrow> Inl v | Some d \<Rightarrow> Inr d)"

definition department_name :: "department \<Rightarrow> str" where
  "department_name d = (case d of Management \<Rightarrow> ''management'' | Marketing \<Rightarrow> ''marketing'' | Sales \<Rightarrow> ''sales''
     | Product \<Rightarrow> ''product'' | CustomerSuccess \<Rightarrow> ''customer_success'' | Engineering \<Rightarrow> ''engineering''
     | OpsFinance \<Rightarrow> ''ops_finance'' | HrTalent \<Rightarrow> ''hr_talent'' | LegalCompliance \<Rightarrow> ''legal_compliance''
     | CustomDepartment \<Rightarrow> ''custom'')"

lemma normalize_department_name: "normalize_department_type (department_name d) = Some d"
  by (cases d) (simp_all add: department_name_def normalize_department_type_def department_types_def
    js_lower_def lower_char_def js_trim_def js_space_def Let_def)

subsection \<open>Semantic errors\<close>

datatype spec_error =
    WriteToolWithoutPolicy str
  | ApprovalWithoutFingerprint str
  | RuleWithoutOwner str
  | RuleWithoutSla str
  | RuleWithoutDecisions str
  | EvidenceNotInOutput
  | EmptyRequiredField nat
  | AutonomousWithoutEvidence
  | FanoutWithoutMode

definition tool_spec_errors :: "loop_spec \<Rightarrow> spec_error list" where
  "tool_spec_errors spec =
     concat (map (\<lambda>t. if tb_write_capable t \<and> map_by ap_tool (sp_allowed spec) (tb_key t) = None
                      then [WriteToolWithoutPolicy (tb_key t)] else []) (sp_tools spec)) @
     concat (map (\<lambda>a. if ap_requires_approval a \<and> \<not> apol_fingerprint (sp_approval spec)
                      then [ApprovalWithoutFingerprint (ap_tool a)] else []) (sp_allowed spec))"

definition rule_spec_errors :: "escalation_rule \<Rightarrow> spec_error list" where
  "rule_spec_errors r =
     (if xrule_owner r = [] then [RuleWithoutOwner (xrule_id r)] else []) @
     (if \<not> truthy_str (xrule_sla r) then [RuleWithoutSla (xrule_id r)] else []) @
     (if xrule_case r \<noteq> None \<and> xrule_decisions r = [] then [RuleWithoutDecisions (xrule_id r)] else [])"

definition routing_spec_errors :: "routing_contract \<Rightarrow> spec_error list" where
  "routing_spec_errors c =
     concat (map (\<lambda>(i, r). if list_ex (\<lambda>f. js_trim f = []) (ar_required_fields r) then [EmptyRequiredField i] else [])
       (zip [0..<length (ct_accepts c)] (ct_accepts c))) @
     (if ct_activation c = AutonomousLowRisk \<and> \<not> list_ex (\<lambda>r. ar_required_fields r \<noteq> []) (ct_accepts c)
      then [AutonomousWithoutEvidence] else []) @
     (if fan_mode (ct_fanout c) = FanoutNone \<and> fan_max_routes (ct_fanout c) > 1 then [FanoutWithoutMode] else [])"

definition collect_loop_spec_semantic_errors :: "loop_spec \<Rightarrow> spec_error list" where
  "collect_loop_spec_semantic_errors spec =
     tool_spec_errors spec @ concat (map rule_spec_errors (sp_escalations spec)) @
     (if sp_evidence_required spec \<and> map_of (sp_output_properties spec) ''evidence'' = None
      then [EvidenceNotInOutput] else []) @
     (case sp_routing spec of None \<Rightarrow> [] | Some c \<Rightarrow> routing_spec_errors c)"

definition validate_loop_spec :: "loop_spec \<Rightarrow> spec_error list + loop_spec" where
  "validate_loop_spec spec =
     (if collect_loop_spec_semantic_errors spec \<noteq> [] then Inl (collect_loop_spec_semantic_errors spec) else Inr spec)"

subsection \<open>The routing card\<close>

record card_options =
  cop_catalog_version :: "str option"
  cop_readiness :: "readiness option"
  cop_loop_status :: "loop_status option"
  cop_active_runs :: "nat option"
  cop_cooldown_until :: "instant option"

definition default_card_options :: card_options where
  "default_card_options = \<lparr>cop_catalog_version = None, cop_readiness = None, cop_loop_status = None,
     cop_active_runs = None, cop_cooldown_until = None\<rparr>"

definition primary_action_policy :: "loop_spec \<Rightarrow> action_policy option" where
  "primary_action_policy spec =
     opt_first (find ap_allowed (sp_allowed spec)) (case sp_allowed spec of [] \<Rightarrow> None | a # _ \<Rightarrow> Some a)"

definition routing_card_for :: "runtime \<Rightarrow> loop_spec \<Rightarrow> card_options \<Rightarrow> routing_contract \<Rightarrow> routing_card" where
  "routing_card_for R spec opts c =
     \<lparr>rc_catalog_version = opt_or (cop_catalog_version opts) (''catalog_'' @ loop_spec_hash R spec),
      rc_loop_id = sp_id spec, rc_loop_name = sp_name spec,
      rc_department = (if truthy_str (sp_department spec)
        then Some (opt_or (normalize_department_type (the (sp_department spec))) CustomDepartment) else None),
      rc_goal = opt_or (sp_description spec) (sp_name spec),
      rc_readiness = opt_or (cop_readiness opts) ReadinessUnknown,
      rc_loop_status = opt_or (cop_loop_status opts)
        (if sp_lifecycle_status spec = Some ''paused'' \<or> sp_lifecycle_status spec = Some ''retired''
         then LoopDisabled else LoopActive),
      rc_problem_types = ct_problem_types c, rc_non_goals = map xr_reason (ct_excludes c),
      rc_accepts = ct_accepts c, rc_excludes = ct_excludes c,
      rc_primary_action = map_option ap_tool (primary_action_policy spec),
      rc_action_risk = opt_or (map_option ap_risk (primary_action_policy spec)) RiskLow,
      rc_activation = ct_activation c, rc_minimum_confidence = ct_minimum_confidence c,
      rc_priority = ct_priority c, rc_ambiguity = ct_ambiguity c, rc_no_match = ct_no_match c,
      rc_fanout = ct_fanout c, rc_supporting = ct_supporting c, rc_cooldown = ct_cooldown c,
      rc_concurrency = ct_concurrency c, rc_input_mapping = ct_input_mapping c,
      rc_required_connections = ct_required_connections c, rc_lifecycle_events = ct_lifecycle_events c,
      rc_active_runs = opt_or (cop_active_runs opts) 0, rc_cooldown_until = cop_cooldown_until opts,
      rc_should_route = ct_should_route c, rc_should_not_route = ct_should_not_route c,
      rc_loop_spec_hash = loop_spec_hash R spec\<rparr>"

text \<open>\<open>Inr None\<close>: a spec without a routing contract has no card.\<close>

definition compile_routing_card :: "runtime \<Rightarrow> loop_spec \<Rightarrow> card_options \<Rightarrow> unit + routing_card option" where
  "compile_routing_card R spec opts =
     (case sp_routing spec of
        None \<Rightarrow> Inr None
      | Some c \<Rightarrow> res_bind (require (card_ok (routing_card_for R spec opts c)) ())
                    (\<lambda>_. Inr (Some (routing_card_for R spec opts c))))"

subsection \<open>Orchestration limits\<close>

record orchestration_context =
  oc_parent :: "str option"
  oc_depth :: int
  oc_reentries :: int

datatype orchestration_error = DepthExceeded | ReentryExceeded | InformationalEdge str

definition assert_orchestration_limits :: "orchestration_context \<Rightarrow> orchestration_error + unit" where
  "assert_orchestration_limits c =
     res_bind (require (\<not> oc_depth c > 3) DepthExceeded) (\<lambda>_. require (\<not> oc_reentries c > 2) ReentryExceeded)"

definition informational_edge_types :: "str list" where
  "informational_edge_types = [''reports_to'', ''learns_from'', ''depends_on'']"

definition semantic_edge_types :: "str list" where
  "semantic_edge_types = [''observes'', ''calls'', ''verifies_with'', ''requires_approval'', ''escalates_to'',
     ''writes_trace_to'']"

definition is_executable_edge :: "str \<Rightarrow> bool" where
  "is_executable_edge e = (e \<in> set semantic_edge_types \<and> e \<notin> set informational_edge_types)"

definition assert_edge_executable :: "str \<Rightarrow> orchestration_error + unit" where
  "assert_edge_executable e = require (e \<notin> set informational_edge_types) (InformationalEdge e)"

subsection \<open>What a valid specification gives\<close>

lemma concat_map_nil: "concat (map f xs) = [] \<longleftrightarrow> (\<forall>x\<in>set xs. f x = [])"
  by (induction xs) auto

lemma valid_spec_tools:
  assumes "collect_loop_spec_semantic_errors spec = []"
  shows "\<forall>t\<in>set (sp_tools spec). tb_write_capable t \<longrightarrow> tb_key t \<in> ap_tool ` set (sp_allowed spec)"
    and "\<forall>a\<in>set (sp_allowed spec). ap_requires_approval a \<longrightarrow> apol_fingerprint (sp_approval spec)"
  using assms
  by (auto simp: collect_loop_spec_semantic_errors_def tool_spec_errors_def concat_map_nil map_by_None
      simp del: concat_eq_Nil_conv split: if_splits)

lemma valid_spec_rules:
  assumes "collect_loop_spec_semantic_errors spec = []" "r \<in> set (sp_escalations spec)"
  shows "xrule_owner r \<noteq> []" "truthy_str (xrule_sla r)" "xrule_case r \<noteq> None \<Longrightarrow> xrule_decisions r \<noteq> []"
proof -
  have "rule_spec_errors r = []"
    using assms by (simp add: collect_loop_spec_semantic_errors_def concat_map_nil del: concat_eq_Nil_conv)
  then show "xrule_owner r \<noteq> []" "truthy_str (xrule_sla r)" "xrule_case r \<noteq> None \<Longrightarrow> xrule_decisions r \<noteq> []"
    by (auto simp: rule_spec_errors_def split: if_splits)
qed

lemma card_from_contract:
  assumes "contract_ok c" "sp_routing spec = Some c" "sp_id spec \<noteq> []" "sp_name spec \<noteq> []"
    and "sp_description spec \<noteq> Some []" "cop_catalog_version opts \<noteq> Some []" "loop_spec_hash R spec \<noteq> []"
  shows "card_ok (routing_card_for R spec opts c)"
  using assms by (auto simp: card_ok_def routing_card_for_def contract_ok_def opt_or_def split: option.splits)

end
