(* ===== verification/Actions.thy ===== *)
theory Actions imports Prelude begin

text \<open>
  Stateful operations that may throw. An action maps the state before a call to the value it
  returns or the error it throws, and the state after it: a throw keeps the writes made before it,
  as an exception of the sources leaves the files already written. \<open>act_each\<close> is the loop
  \<open>for (const x of xs) out.push(await f(x))\<close>. The collection \<open>keeps_rules\<close> proves that every
  path of an action, throws included, preserves an invariant; \<open>act_simps\<close> runs actions.
\<close>

type_synonym ('s, 'e, 'a) action = "'s \<Rightarrow> ('e + 'a) \<times> 's"

named_theorems act_simps \<open>running actions\<close>
named_theorems keeps_rules \<open>preservation of invariants by actions\<close>

definition act_return :: "'a \<Rightarrow> ('s, 'e, 'a) action" where
  "act_return a = (\<lambda>s. (Inr a, s))"

definition act_throw :: "'e \<Rightarrow> ('s, 'e, 'a) action" where
  "act_throw e = (\<lambda>s. (Inl e, s))"

definition act_bind :: "('s, 'e, 'a) action \<Rightarrow> ('a \<Rightarrow> ('s, 'e, 'b) action) \<Rightarrow> ('s, 'e, 'b) action" where
  "act_bind m f = (\<lambda>s. case m s of (Inl e, s') \<Rightarrow> (Inl e, s') | (Inr a, s') \<Rightarrow> f a s')"

definition act_read :: "('s \<Rightarrow> 'a) \<Rightarrow> ('s, 'e, 'a) action" where
  "act_read f = (\<lambda>s. (Inr (f s), s))"

definition act_write :: "('s \<Rightarrow> 's) \<Rightarrow> ('s, 'e, unit) action" where
  "act_write f = (\<lambda>s. (Inr (), f s))"

definition act_lift :: "'e + 'a \<Rightarrow> ('s, 'e, 'a) action" where
  "act_lift r = (\<lambda>s. (r, s))"

definition act_catch :: "('s, 'e, 'a) action \<Rightarrow> ('e \<Rightarrow> ('s, 'e, 'a) action) \<Rightarrow> ('s, 'e, 'a) action" where
  "act_catch m h = (\<lambda>s. case m s of (Inl e, s') \<Rightarrow> h e s' | (Inr a, s') \<Rightarrow> (Inr a, s'))"

text \<open>An action of a part of the state, its errors renamed.\<close>

definition act_zoom ::
  "('t \<Rightarrow> 's) \<Rightarrow> (('s \<Rightarrow> 's) \<Rightarrow> 't \<Rightarrow> 't) \<Rightarrow> ('e \<Rightarrow> 'f) \<Rightarrow> ('s, 'e, 'a) action \<Rightarrow> ('t, 'f, 'a) action" where
  "act_zoom get upd f m =
     (\<lambda>t. case m (get t) of (Inl e, s) \<Rightarrow> (Inl (f e), upd (\<lambda>_. s) t) | (Inr a, s) \<Rightarrow> (Inr a, upd (\<lambda>_. s) t))"

fun act_each :: "('x \<Rightarrow> ('s, 'e, 'a) action) \<Rightarrow> 'x list \<Rightarrow> ('s, 'e, 'a list) action" where
  "act_each f [] = act_return []"
| "act_each f (x # xs) =
     act_bind (f x) (\<lambda>a. act_bind (act_each f xs) (\<lambda>as. act_return (a # as)))"

subsection \<open>Running actions\<close>

lemma act_return_run [simp, act_simps]: "act_return a s = (Inr a, s)"
  by (simp add: act_return_def)

lemma act_throw_run [simp, act_simps]: "act_throw e s = (Inl e, s)"
  by (simp add: act_throw_def)

lemma act_read_run [simp, act_simps]: "act_read f s = (Inr (f s), s)"
  by (simp add: act_read_def)

lemma act_write_run [simp, act_simps]: "act_write f s = (Inr (), f s)"
  by (simp add: act_write_def)

lemma act_lift_run [simp, act_simps]: "act_lift r s = (r, s)"
  by (simp add: act_lift_def)

lemma act_bind_run [act_simps]:
  "act_bind m f s = (case m s of (Inl e, s') \<Rightarrow> (Inl e, s') | (Inr a, s') \<Rightarrow> f a s')"
  by (simp add: act_bind_def)

lemma act_bind_read [simp, act_simps]: "act_bind (act_read g) f s = f (g s) s"
  by (simp add: act_bind_def)

lemma act_bind_return [simp, act_simps]: "act_bind (act_return a) f s = f a s"
  by (simp add: act_bind_def)

lemma act_bind_throw [simp, act_simps]: "act_bind (act_throw e) f s = (Inl e, s)"
  by (simp add: act_bind_def)

lemma act_bind_write [simp, act_simps]: "act_bind (act_write g) f s = f () (g s)"
  by (simp add: act_bind_def)

lemma act_bind_Inr: "act_bind m f s = (Inr b, s'') \<longleftrightarrow> (\<exists>a s'. m s = (Inr a, s') \<and> f a s' = (Inr b, s''))"
  by (auto simp: act_bind_def split: prod.splits sum.splits)

lemma act_bind_Inl:
  "act_bind m f s = (Inl e, s'') \<longleftrightarrow>
   m s = (Inl e, s'') \<or> (\<exists>a s'. m s = (Inr a, s') \<and> f a s' = (Inl e, s''))"
  by (auto simp: act_bind_def split: prod.splits sum.splits)

lemma act_bind_InrE:
  assumes "act_bind m f s = (Inr b, s'')"
  obtains a s' where "m s = (Inr a, s')" "f a s' = (Inr b, s'')"
  using assms by (auto simp: act_bind_Inr)

lemma act_zoom_run [act_simps]:
  "act_zoom get upd f m t =
     (case m (get t) of (Inl e, s) \<Rightarrow> (Inl (f e), upd (\<lambda>_. s) t) | (Inr a, s) \<Rightarrow> (Inr a, upd (\<lambda>_. s) t))"
  by (simp add: act_zoom_def)

lemma act_zoom_Inr:
  "act_zoom get upd f m t = (Inr a, t') \<longleftrightarrow> (\<exists>s. m (get t) = (Inr a, s) \<and> t' = upd (\<lambda>_. s) t)"
  by (auto simp: act_zoom_def split: prod.splits sum.splits)

lemma act_zoom_Inl:
  "act_zoom get upd f m t = (Inl e', t') \<longleftrightarrow> (\<exists>e s. m (get t) = (Inl e, s) \<and> e' = f e \<and> t' = upd (\<lambda>_. s) t)"
  by (auto simp: act_zoom_def split: prod.splits sum.splits)

lemma act_each_append:
  "act_each f (xs @ ys) s =
   act_bind (act_each f xs) (\<lambda>as. act_bind (act_each f ys) (\<lambda>bs. act_return (as @ bs))) s"
  by (induction xs arbitrary: s) (auto simp: act_bind_def split: prod.splits sum.splits)

lemma act_each_length:
  "act_each f xs s = (Inr as, s') \<Longrightarrow> length as = length xs"
  by (induction xs arbitrary: s as s') (auto simp: act_bind_Inr)

subsection \<open>Invariants kept on every path\<close>

definition keeps :: "('s \<Rightarrow> bool) \<Rightarrow> ('s, 'e, 'a) action \<Rightarrow> bool" where
  "keeps I m \<longleftrightarrow> (\<forall>s. I s \<longrightarrow> I (snd (m s)))"

lemma keepsI: "(\<And>s r s'. I s \<Longrightarrow> m s = (r, s') \<Longrightarrow> I s') \<Longrightarrow> keeps I m"
  by (metis keeps_def prod.collapse)

lemma keepsD: "keeps I m \<Longrightarrow> I s \<Longrightarrow> m s = (r, s') \<Longrightarrow> I s'"
  by (metis keeps_def snd_conv)

lemma keeps_return [keeps_rules]: "keeps I (act_return a)"
  by (simp add: keeps_def)

lemma keeps_throw [keeps_rules]: "keeps I (act_throw e)"
  by (simp add: keeps_def)

lemma keeps_read [keeps_rules]: "keeps I (act_read f)"
  by (simp add: keeps_def)

lemma keeps_lift [keeps_rules]: "keeps I (act_lift r)"
  by (simp add: keeps_def)

lemma keeps_bind [keeps_rules]: "keeps I m \<Longrightarrow> (\<And>a. keeps I (f a)) \<Longrightarrow> keeps I (act_bind m f)"
  by (fastforce simp: keeps_def act_bind_def split: prod.splits sum.splits)

lemma keeps_catch [keeps_rules]: "keeps I m \<Longrightarrow> (\<And>e. keeps I (h e)) \<Longrightarrow> keeps I (act_catch m h)"
  by (fastforce simp: keeps_def act_catch_def split: prod.splits sum.splits)

lemma keeps_each [keeps_rules]: "(\<And>x. keeps I (f x)) \<Longrightarrow> keeps I (act_each f xs)"
  by (induction xs) (auto intro!: keeps_rules)

lemma keeps_if [keeps_rules]: "(b \<Longrightarrow> keeps I m) \<Longrightarrow> (\<not> b \<Longrightarrow> keeps I n) \<Longrightarrow> keeps I (if b then m else n)"
  by simp

lemma keeps_option [keeps_rules]:
  "(x = None \<Longrightarrow> keeps I m) \<Longrightarrow> (\<And>a. x = Some a \<Longrightarrow> keeps I (f a)) \<Longrightarrow>
   keeps I (case x of None \<Rightarrow> m | Some a \<Rightarrow> f a)"
  by (cases x) auto

lemma keeps_zoom:
  assumes "\<And>t. I t \<Longrightarrow> J (get t)" and "\<And>t s. I t \<Longrightarrow> J s \<Longrightarrow> I (upd (\<lambda>_. s) t)" and "keeps J m"
  shows "keeps I (act_zoom get upd f m)"
proof (rule keepsI)
  fix t r t'
  assume "I t" and "act_zoom get upd f m t = (r, t')"
  then show "I t'"
    using assms keepsD [OF assms(3), of "get t"] by (fastforce simp: act_zoom_def split: prod.splits sum.splits)
qed

text \<open>A relation between the states before and after, closed under composition, on every path.\<close>

definition advances :: "('s \<Rightarrow> 's \<Rightarrow> bool) \<Rightarrow> ('s, 'e, 'a) action \<Rightarrow> bool" where
  "advances Q m \<longleftrightarrow> (\<forall>s. Q s (snd (m s)))"

lemma advances_keeps: "(\<And>s. keeps (Q s) m) \<Longrightarrow> (\<And>s. Q s s) \<Longrightarrow> advances Q m"
  by (simp add: keeps_def advances_def)

lemma advancesD: "advances Q m \<Longrightarrow> m s = (r, s') \<Longrightarrow> Q s s'"
  by (metis advances_def snd_conv)

end
