(* ===== verification/RoutingStore.thy ===== *)
theory RoutingStore imports Actions RoutingRules begin

text \<open>
  The file-backed routing store (class \<open>FileRoutingStore\<close> of runtime/routing-store.ts) and the
  ingestion of events (\<open>ingestRoutingEvent\<close>). The store is the seven directories of records; a
  save parses the record with its schema and writes the file of its identifier, a read parses the
  file and skips it when it does not parse. Identifiers name files through \<open>encodeURIComponent\<close>,
  which is injective, so the identifier stands for the file name. The order in which a directory
  lists its files is the order of first writing; nothing proved here depends on it.
\<close>

subsection \<open>Routing attempts\<close>

record routing_attempt =
  att_id :: str
  att_event_id :: str
  att_catalog_version :: str
  att_action :: "decision_action option"
  att_status :: attempt_status
  att_decision :: "routing_decision option"
  att_errors :: "validation_error list"
  att_metadata :: "(str \<times> json) list"
  att_binding :: "learning_binding option"
  att_created_at :: instant

definition attempt_ok :: "runtime \<Rightarrow> routing_attempt \<Rightarrow> bool" where
  "attempt_ok R a =
     (att_id a \<noteq> [] \<and> att_event_id a \<noteq> [] \<and> att_catalog_version a \<noteq> [] \<and>
      (case att_decision a of None \<Rightarrow> True | Some d \<Rightarrow> decision_ok d) \<and>
      (case att_binding a of None \<Rightarrow> True | Some b \<Rightarrow> learning_binding_ok R b))"

subsection \<open>The store\<close>

record routing_store =
  st_events :: "event_receipt coll"
  st_problems :: "business_problem coll"
  st_attempts :: "routing_attempt coll"
  st_commits :: "route_commit coll"
  st_jobs :: "route_job coll"
  st_corrections :: "routing_correction coll"
  st_evaluations :: "router_evaluation coll"

definition empty_store :: routing_store where
  "empty_store = \<lparr>st_events = [], st_problems = [], st_attempts = [], st_commits = [], st_jobs = [],
     st_corrections = [], st_evaluations = []\<rparr>"

text \<open>What a routing operation may throw.\<close>

datatype store_error =
    SchemaError
  | JobNotFound str
  | JobLeaseLost str
  | JobNotLeased str
  | JobCannotBeRetried str job_status
  | CompletedJobNotCancelled str
  | JobActivelyLeased str str
  | QueueLockTimeout
  | ExistingProblemMissing str
  | ProposalRequired decision_action

type_synonym 'a store_action = "(routing_store, store_error, 'a) action"

text \<open>
  \<open>writeJson(recordPath(c, parsed.id), parsed)\<close> after \<open>schema.parse\<close>, \<open>readJson\<close> and
  \<open>listRecords\<close>, over one directory.
\<close>

definition record_save ::
  "('r \<Rightarrow> bool) \<Rightarrow> ('r \<Rightarrow> str) \<Rightarrow> (('r coll \<Rightarrow> 'r coll) \<Rightarrow> 's \<Rightarrow> 's) \<Rightarrow> 'r \<Rightarrow> ('s, store_error, unit) action" where
  "record_save ok key upd r =
     act_bind (act_lift (require (ok r) SchemaError)) (\<lambda>_. act_write (upd (coll_put (key r) r)))"

definition record_get :: "('r \<Rightarrow> bool) \<Rightarrow> 'r coll \<Rightarrow> str \<Rightarrow> 'r option" where
  "record_get ok c k = (case coll_get c k of None \<Rightarrow> None | Some r \<Rightarrow> if ok r then Some r else None)"

definition record_list :: "('r \<Rightarrow> bool) \<Rightarrow> 'r coll \<Rightarrow> 'r list" where
  "record_list ok c = filter ok (coll_values c)"

definition save_event_receipt :: "event_receipt \<Rightarrow> unit store_action" where
  "save_event_receipt = record_save receipt_ok rcp_id st_events_update"

definition list_event_receipts :: "routing_store \<Rightarrow> event_receipt list" where
  "list_event_receipts st = record_list receipt_ok (st_events st)"

definition get_event_receipt :: "routing_store \<Rightarrow> str \<Rightarrow> event_receipt option" where
  "get_event_receipt st eventId =
     find (\<lambda>r. rcp_event_id r = eventId \<and> rcp_status r \<notin> {Duplicate, Replayed}) (list_event_receipts st)"

definition save_business_problem :: "business_problem \<Rightarrow> unit store_action" where
  "save_business_problem = record_save problem_ok bp_id st_problems_update"

definition get_business_problem :: "routing_store \<Rightarrow> str \<Rightarrow> business_problem option" where
  "get_business_problem st problemId = record_get problem_ok (st_problems st) problemId"

definition list_business_problems :: "routing_store \<Rightarrow> business_problem list" where
  "list_business_problems st = record_list problem_ok (st_problems st)"

definition save_routing_attempt :: "runtime \<Rightarrow> routing_attempt \<Rightarrow> unit store_action" where
  "save_routing_attempt R = record_save (attempt_ok R) att_id st_attempts_update"

definition list_routing_attempts :: "runtime \<Rightarrow> routing_store \<Rightarrow> str option \<Rightarrow> routing_attempt list" where
  "list_routing_attempts R st eventId =
     (let attempts = record_list (attempt_ok R) (st_attempts st)
      in if truthy_str eventId then filter (\<lambda>a. Some (att_event_id a) = eventId) attempts else attempts)"

definition save_route_commit :: "route_commit \<Rightarrow> unit store_action" where
  "save_route_commit = record_save commit_ok rcm_id st_commits_update"

definition list_route_commits :: "routing_store \<Rightarrow> str option \<Rightarrow> route_commit list" where
  "list_route_commits st problemId =
     (let commits = record_list commit_ok (st_commits st)
      in if truthy_str problemId then filter (\<lambda>c. Some (rcm_problem_id c) = problemId) commits else commits)"

definition save_route_job :: "route_job \<Rightarrow> unit store_action" where
  "save_route_job = record_save job_ok job_id st_jobs_update"

definition get_route_job :: "routing_store \<Rightarrow> str \<Rightarrow> route_job option" where
  "get_route_job st jobId = record_get job_ok (st_jobs st) jobId"

record job_filters =
  jf_event :: "str option"
  jf_problem :: "str option"
  jf_commit :: "str option"
  jf_loop :: "str option"
  jf_status :: "job_status option"

definition no_filters :: job_filters where
  "no_filters = \<lparr>jf_event = None, jf_problem = None, jf_commit = None, jf_loop = None, jf_status = None\<rparr>"

definition filter_field :: "str option \<Rightarrow> ('r \<Rightarrow> str) \<Rightarrow> 'r list \<Rightarrow> 'r list" where
  "filter_field f get rs = filter (\<lambda>r. \<not> truthy_str f \<or> Some (get r) = f) rs"

definition list_route_jobs :: "routing_store \<Rightarrow> job_filters \<Rightarrow> route_job list" where
  "list_route_jobs st fs =
     filter (\<lambda>j. jf_status fs = None \<or> Some (job_status j) = jf_status fs)
       (filter_field (jf_loop fs) job_loop_id
         (filter_field (jf_commit fs) job_commit_id
           (filter_field (jf_problem fs) job_problem_id
             (filter_field (jf_event fs) job_event_id (record_list job_ok (st_jobs st))))))"

definition save_routing_correction :: "routing_correction \<Rightarrow> unit store_action" where
  "save_routing_correction = record_save correction_ok cor_id st_corrections_update"

definition list_routing_corrections :: "routing_store \<Rightarrow> str option \<Rightarrow> routing_correction list" where
  "list_routing_corrections st eventId =
     (let corrections = record_list correction_ok (st_corrections st)
      in if truthy_str eventId then filter (\<lambda>c. Some (cor_event_id c) = eventId) corrections else corrections)"

definition save_router_evaluation :: "router_evaluation \<Rightarrow> unit store_action" where
  "save_router_evaluation = record_save evaluation_ok eva_id st_evaluations_update"

definition list_router_evaluations :: "routing_store \<Rightarrow> router_evaluation list" where
  "list_router_evaluations st = record_list evaluation_ok (st_evaluations st)"

subsection \<open>Ingestion\<close>

record ingest_result =
  ing_receipt :: event_receipt
  ing_duplicate :: bool
  ing_eligible :: "eligibility list"
  ing_candidates :: "business_problem list"

text \<open>
  \<open>createEventReceiptAtomically\<close> is an optional operation of a store: the file store has none,
  a store of another package may pass one (it returns the stored receipt and whether it is new).
\<close>

type_synonym atomic_receipt = "(event_receipt \<Rightarrow> (event_receipt \<times> bool) store_action) option"

definition ingest_receipt :: "runtime \<Rightarrow> event \<Rightarrow> bool \<Rightarrow> instant \<Rightarrow> event_receipt" where
  "ingest_receipt R e replay now =
     \<lparr>rcp_id = (if replay
        then ''receipt_replay_'' @ hash_obj R [(''eventId'', jstr (ev_id e)), (''at'', jstr (iso_instant now))]
        else ''receipt_'' @ ev_id e),
      rcp_event_id = ev_id e, rcp_event = e, rcp_event_hash = content_hash R (Some (event_json e)),
      rcp_status = (if replay then Replayed else Received), rcp_duplicate_of = None,
      rcp_first_seen = now, rcp_last_seen = now\<rparr>"

definition duplicate_receipt :: "runtime \<Rightarrow> event \<Rightarrow> event_receipt \<Rightarrow> instant \<Rightarrow> event_receipt" where
  "duplicate_receipt R e existing now =
     \<lparr>rcp_id = ''receipt_duplicate_'' @ hash_obj R [(''eventId'', jstr (ev_id e)), (''at'', jstr (iso_instant now))],
      rcp_event_id = ev_id e, rcp_event = e, rcp_event_hash = rcp_event_hash existing,
      rcp_status = Duplicate, rcp_duplicate_of = Some (rcp_event_id existing),
      rcp_first_seen = now, rcp_last_seen = now\<rparr>"

definition open_problem_for_event :: "event \<Rightarrow> business_problem \<Rightarrow> bool" where
  "open_problem_for_event e p =
     (bp_workspace p = ev_workspace e \<and> bp_company p = ev_company e \<and>
      sub_type (bp_subject p) = sub_type (ev_subject e) \<and> sub_id (bp_subject p) = sub_id (ev_subject e) \<and>
      bp_status p \<notin> {Resolved, Closed})"

definition ingest_new_event :: "runtime \<Rightarrow> event \<Rightarrow> routing_card list \<Rightarrow> event_receipt \<Rightarrow> ingest_result store_action" where
  "ingest_new_event R e cards receipt =
     act_read (\<lambda>st. \<lparr>ing_receipt = receipt, ing_duplicate = False,
        ing_eligible = js_sort (eligible_order R) (filter el_eligible (map (evaluate_routing_eligibility e) cards)),
        ing_candidates = filter (open_problem_for_event e) (list_business_problems st)\<rparr>)"

definition ingest_routing_event ::
  "runtime \<Rightarrow> atomic_receipt \<Rightarrow> event \<Rightarrow> routing_card list \<Rightarrow> bool \<Rightarrow> instant \<Rightarrow> ingest_result store_action" where
  "ingest_routing_event R atomic e cards replay now =
     (let receipt = ingest_receipt R e replay now
      in act_bind (act_lift (require (receipt_ok receipt) SchemaError)) (\<lambda>_.
         act_bind (case atomic of
             Some create \<Rightarrow> if replay then act_return None
               else act_bind (create receipt) (\<lambda>r. act_return (Some r))
           | None \<Rightarrow> act_return None) (\<lambda>atomicReceipt.
         act_bind (if replay then act_return None
             else (case atomicReceipt of
                 Some (r, created) \<Rightarrow> act_return (if created then None else Some r)
               | None \<Rightarrow> act_read (\<lambda>st. get_event_receipt st (ev_id e)))) (\<lambda>existing.
         (case existing of
            Some x \<Rightarrow>
              (let dup = duplicate_receipt R e x now
               in act_bind (act_lift (require (receipt_ok dup) SchemaError)) (\<lambda>_.
                  act_bind (save_event_receipt dup) (\<lambda>_.
                  act_return \<lparr>ing_receipt = dup, ing_duplicate = True, ing_eligible = [], ing_candidates = []\<rparr>)))
          | None \<Rightarrow>
              act_bind (if (case atomicReceipt of Some (r, created) \<Rightarrow> created | None \<Rightarrow> False)
                  then act_return () else save_event_receipt receipt) (\<lambda>_.
              ingest_new_event R e cards receipt))))))"


subsection \<open>The contract of a collection of records\<close>

locale record_collection =
  fixes key :: "'r \<Rightarrow> str" and ok :: "'r \<Rightarrow> bool" and save :: "'r \<Rightarrow> ('s, 'e, unit) action"
    and all :: "'s \<Rightarrow> 'r list" and inv :: "'s \<Rightarrow> bool"
  assumes save_accepts: "ok r \<Longrightarrow> fst (save r s) = Inr ()"
    and save_refuses: "\<not> ok r \<Longrightarrow> \<exists>e. save r s = (Inl e, s)"
    and save_inv: "inv s \<Longrightarrow> inv (snd (save r s))"
    and all_save: "inv s \<Longrightarrow> ok r \<Longrightarrow>
      set (all (snd (save r s))) = insert r {x \<in> set (all s). key x \<noteq> key r}"
    and all_ok: "inv s \<Longrightarrow> x \<in> set (all s) \<Longrightarrow> ok x"
    and all_distinct: "inv s \<Longrightarrow> distinct (map key (all s))"
begin

lemma same_key: "inv s \<Longrightarrow> x \<in> set (all s) \<Longrightarrow> y \<in> set (all s) \<Longrightarrow> key x = key y \<Longrightarrow> x = y"
  using all_distinct [of s] by (auto simp: distinct_map dest: inj_onD)

lemma save_keeps: "keeps inv (save r)"
  by (simp add: keeps_def save_inv)

lemma save_run: "save r s = (Inr (), s') \<longleftrightarrow> ok r \<and> s' = snd (save r s)"
  using save_accepts [of r s] save_refuses [of r s] by (cases "save r s") auto

lemma saved_listed: "inv s \<Longrightarrow> ok r \<Longrightarrow> r \<in> set (all (snd (save r s)))"
  by (simp add: all_save)

lemma others_kept:
  "inv s \<Longrightarrow> key x \<noteq> key r \<Longrightarrow> x \<in> set (all (snd (save r s))) \<longleftrightarrow> x \<in> set (all s)"
  using save_refuses [of r s] by (cases "ok r") (auto simp: all_save)

lemma replaced: "inv s \<Longrightarrow> ok r \<Longrightarrow> x \<in> set (all (snd (save r s))) \<Longrightarrow> key x = key r \<Longrightarrow> x = r"
  by (simp add: all_save)

end

locale keyed_collection = record_collection +
  fixes get :: "'s \<Rightarrow> str \<Rightarrow> 'r option"
  assumes get_iff: "inv s \<Longrightarrow> get s k = Some r \<longleftrightarrow> r \<in> set (all s) \<and> key r = k"
begin

lemma get_saved: "inv s \<Longrightarrow> ok r \<Longrightarrow> get (snd (save r s)) (key r) = Some r"
  by (simp add: get_iff save_inv saved_listed)

lemma get_other: "inv s \<Longrightarrow> k \<noteq> key r \<Longrightarrow> get (snd (save r s)) k = get s k"
proof -
  assume s: "inv s" and k: "k \<noteq> key r"
  have "get (snd (save r s)) k = Some x \<longleftrightarrow> get s k = Some x" for x
    using k others_kept [OF s, of x r] by (auto simp: get_iff s save_inv)
  then show ?thesis by (metis not_None_eq)
qed

lemma get_ok: "inv s \<Longrightarrow> get s k = Some r \<Longrightarrow> ok r \<and> key r = k"
  by (auto simp: get_iff dest: all_ok)

lemma get_None_iff:
  assumes "inv s"
  shows "get s k = None \<longleftrightarrow> k \<notin> key ` set (all s)"
proof -
  have "get s k = None \<longleftrightarrow> (\<forall>r. get s k \<noteq> Some r)" by simp
  then show ?thesis unfolding get_iff [OF assms] by auto
qed

end

subsection \<open>The collections of the store satisfy it\<close>

definition store_wf :: "routing_store \<Rightarrow> bool" where
  "store_wf st =
     (coll_wf rcp_id (st_events st) \<and> coll_wf bp_id (st_problems st) \<and> coll_wf att_id (st_attempts st) \<and>
      coll_wf rcm_id (st_commits st) \<and> coll_wf job_id (st_jobs st) \<and>
      coll_wf cor_id (st_corrections st) \<and> coll_wf eva_id (st_evaluations st))"

lemma empty_store_wf: "store_wf empty_store"
  by (simp add: store_wf_def empty_store_def)

lemma record_save_run [act_simps]:
  "record_save ok key upd r s =
     (if ok r then (Inr (), upd (coll_put (key r) r) s) else (Inl SchemaError, s))"
  by (simp add: record_save_def require_def act_bind_def)

lemma record_list_put:
  assumes "coll_wf key c" "ok r"
  shows "set (record_list ok (coll_put (key r) r c)) = insert r {x \<in> set (record_list ok c). key x \<noteq> key r}"
proof -
  have wf: "coll_wf key (coll_put (key r) r c)" using assms(1) by (simp add: coll_wf_put)
  have "x \<in> set (coll_values (coll_put (key r) r c)) \<longleftrightarrow>
      x = r \<or> x \<in> set (coll_values c) \<and> key x \<noteq> key r" for x
    unfolding coll_values_iff [OF wf] coll_values_iff [OF assms(1)]
    by (cases "key x = key r") (auto)
  with assms(2) show ?thesis by (auto simp: record_list_def)
qed

lemma record_list_ok: "x \<in> set (record_list ok c) \<Longrightarrow> ok x"
  by (simp add: record_list_def)

lemma record_list_distinct: "coll_wf key c \<Longrightarrow> distinct (map key (record_list ok c))"
  using coll_values_distinct [of key c] by (simp add: record_list_def distinct_map_filter)

lemma record_get_iff:
  "coll_wf key c \<Longrightarrow> record_get ok c k = Some r \<longleftrightarrow> r \<in> set (record_list ok c) \<and> key r = k"
  by (auto simp: record_get_def record_list_def coll_values_iff dest: coll_get_key split: option.splits if_splits)

lemma record_collectionI:
  assumes get_upd: "\<And>f s. sel (upd f s) = f (sel s)"
    and wf: "\<And>s. I s \<Longrightarrow> coll_wf key (sel s)"
    and inv: "\<And>s r. I s \<Longrightarrow> I (upd (coll_put (key r) r) s)"
  shows "record_collection key ok (record_save ok key upd) (\<lambda>s. record_list ok (sel s)) I"
proof
  fix r s
  show "ok r \<Longrightarrow> fst (record_save ok key upd r s) = Inr ()"
    by (simp add: record_save_run)
  show "\<not> ok r \<Longrightarrow> \<exists>e. record_save ok key upd r s = (Inl e, s)"
    by (simp add: record_save_run)
  show "I s \<Longrightarrow> I (snd (record_save ok key upd r s))"
    by (simp add: record_save_run inv)
  show "I s \<Longrightarrow> ok r \<Longrightarrow> set (record_list ok (sel (snd (record_save ok key upd r s)))) =
      insert r {x \<in> set (record_list ok (sel s)). key x \<noteq> key r}"
    by (simp add: record_save_run get_upd record_list_put wf)
  show "I s \<Longrightarrow> distinct (map key (record_list ok (sel s)))"
    by (simp add: record_list_distinct wf)
  fix x
  show "I s \<Longrightarrow> x \<in> set (record_list ok (sel s)) \<Longrightarrow> ok x"
    by (rule record_list_ok)
qed

lemma keyed_collectionI:
  assumes "record_collection key ok (record_save ok key upd) (\<lambda>s. record_list ok (sel s)) I"
    and wf: "\<And>s. I s \<Longrightarrow> coll_wf key (sel s)"
  shows "keyed_collection key ok (record_save ok key upd) (\<lambda>s. record_list ok (sel s)) I
    (\<lambda>s. record_get ok (sel s))"
  using assms by (simp add: keyed_collection_def keyed_collection_axioms_def record_get_iff)

lemma list_all_defs:
  "list_event_receipts = (\<lambda>st. record_list receipt_ok (st_events st))"
  "list_business_problems = (\<lambda>st. record_list problem_ok (st_problems st))"
  "(\<lambda>st. list_routing_attempts R st None) = (\<lambda>st. record_list (attempt_ok R) (st_attempts st))"
  "(\<lambda>st. list_route_commits st None) = (\<lambda>st. record_list commit_ok (st_commits st))"
  "(\<lambda>st. list_route_jobs st no_filters) = (\<lambda>st. record_list job_ok (st_jobs st))"
  "(\<lambda>st. list_routing_corrections st None) = (\<lambda>st. record_list correction_ok (st_corrections st))"
  "list_router_evaluations = (\<lambda>st. record_list evaluation_ok (st_evaluations st))"
  "get_business_problem = (\<lambda>st. record_get problem_ok (st_problems st))"
  "get_route_job = (\<lambda>st. record_get job_ok (st_jobs st))"
  by (simp_all add: fun_eq_iff list_event_receipts_def list_business_problems_def list_routing_attempts_def
    list_route_commits_def list_route_jobs_def no_filters_def filter_field_def list_routing_corrections_def
    list_router_evaluations_def get_business_problem_def get_route_job_def)

lemmas save_defs = save_event_receipt_def save_business_problem_def save_routing_attempt_def
  save_route_commit_def save_route_job_def save_routing_correction_def save_router_evaluation_def

interpretation receipts: record_collection rcp_id receipt_ok save_event_receipt list_event_receipts store_wf
  unfolding save_defs list_all_defs by (rule record_collectionI) (simp_all add: store_wf_def coll_wf_put)

interpretation problems: keyed_collection bp_id problem_ok save_business_problem list_business_problems
    store_wf get_business_problem
  unfolding save_defs list_all_defs
  by (intro keyed_collectionI record_collectionI) (simp_all add: store_wf_def coll_wf_put)

interpretation attempts: record_collection att_id "attempt_ok R" "save_routing_attempt R"
    "\<lambda>st. list_routing_attempts R st None" store_wf for R
  unfolding save_defs list_all_defs by (rule record_collectionI) (simp_all add: store_wf_def coll_wf_put)

interpretation commits: record_collection rcm_id commit_ok save_route_commit
    "\<lambda>st. list_route_commits st None" store_wf
  unfolding save_defs list_all_defs by (rule record_collectionI) (simp_all add: store_wf_def coll_wf_put)

interpretation jobs: keyed_collection job_id job_ok save_route_job
    "\<lambda>st. list_route_jobs st no_filters" store_wf get_route_job
  unfolding save_defs list_all_defs
  by (intro keyed_collectionI record_collectionI) (simp_all add: store_wf_def coll_wf_put)

interpretation corrections: record_collection cor_id correction_ok save_routing_correction
    "\<lambda>st. list_routing_corrections st None" store_wf
  unfolding save_defs list_all_defs by (rule record_collectionI) (simp_all add: store_wf_def coll_wf_put)

interpretation evaluations: record_collection eva_id evaluation_ok save_router_evaluation
    list_router_evaluations store_wf
  unfolding save_defs list_all_defs by (rule record_collectionI) (simp_all add: store_wf_def coll_wf_put)

subsection \<open>Ingestion records each event once\<close>

text \<open>SHA-256 in hexadecimal: the documented output of \<open>createHash("sha256").digest("hex")\<close>.\<close>

definition digest_runtime :: "runtime \<Rightarrow> bool" where
  "digest_runtime R \<longleftrightarrow> (\<forall>s. hex_digest_text (sha256_hex R s))"

lemma content_hash_length: "digest_runtime R \<Longrightarrow> length (content_hash R v) = 16"
  by (simp add: digest_runtime_def content_hash_def content_digest_def hex_digest_text_def)

lemma content_hash_not_Nil: "digest_runtime R \<Longrightarrow> content_hash R v \<noteq> []"
  using content_hash_length [of R v] by auto

definition first_receipt :: "event_receipt \<Rightarrow> bool" where
  "first_receipt r = (rcp_status r \<notin> {Duplicate, Replayed})"

text \<open>
  The receipts a duplicate or a replay does not make carry the identifier derived from the event,
  and event identifiers are the derived ones (\<open>createEventEnvelopeId\<close>, prefix \<open>evt_\<close>).
\<close>

definition receipts_keyed :: "routing_store \<Rightarrow> bool" where
  "receipts_keyed st \<longleftrightarrow>
     (\<forall>r\<in>set (list_event_receipts st). first_receipt r \<longrightarrow>
        rcp_id r = ''receipt_'' @ rcp_event_id r \<and> starts_with (rcp_event_id r) ''evt_'')"

definition store_inv :: "routing_store \<Rightarrow> bool" where
  "store_inv st \<longleftrightarrow> store_wf st \<and> receipts_keyed st"

lemma empty_store_inv: "store_inv empty_store"
  using empty_store_wf
  by (simp add: store_inv_def receipts_keyed_def list_event_receipts_def record_list_def empty_store_def)

lemma find_some_iff:
  assumes "\<And>x y. x \<in> set xs \<Longrightarrow> y \<in> set xs \<Longrightarrow> P x \<Longrightarrow> P y \<Longrightarrow> x = y"
  shows "find P xs = Some x \<longleftrightarrow> x \<in> set xs \<and> P x"
  using assms by (induction xs) auto

lemma find_SomeD: "find P xs = Some x \<Longrightarrow> P x" "find P xs = Some x \<Longrightarrow> x \<in> set xs"
  by (auto simp: find_Some_iff)

lemma get_event_receipt_iff:
  assumes "store_inv st"
  shows "get_event_receipt st eventId = Some r \<longleftrightarrow>
         r \<in> set (list_event_receipts st) \<and> rcp_event_id r = eventId \<and> first_receipt r"
proof -
  have "x = y" if "x \<in> set (list_event_receipts st)" "y \<in> set (list_event_receipts st)"
    "rcp_event_id x = eventId \<and> first_receipt x" "rcp_event_id y = eventId \<and> first_receipt y" for x y
    using that assms receipts.same_key [of st x y] by (auto simp: store_inv_def receipts_keyed_def)
  then show ?thesis
    unfolding get_event_receipt_def first_receipt_def [symmetric] by (rule find_some_iff)
qed

lemma save_event_receipt_run [act_simps]:
  "save_event_receipt r st =
     (if receipt_ok r then (Inr (), st_events_update (coll_put (rcp_id r) r) st) else (Inl SchemaError, st))"
  by (simp add: save_event_receipt_def record_save_run)

definition others_same :: "routing_store \<Rightarrow> routing_store \<Rightarrow> bool" where
  "others_same st st' \<longleftrightarrow> st' = st\<lparr>st_events := st_events st'\<rparr>"

lemma others_same_events [simp]: "others_same st (st_events_update f st)"
  by (simp add: others_same_def)

lemma ingest_receipt_ok:
  "event_ok e \<Longrightarrow> digest_runtime R \<Longrightarrow> receipt_ok (ingest_receipt R e replay now)"
  by (simp add: receipt_ok_def ingest_receipt_def content_hash_not_Nil event_ok_def)

lemma duplicate_receipt_ok:
  "event_ok e \<Longrightarrow> receipt_ok x \<Longrightarrow> receipt_ok (duplicate_receipt R e x now)"
  by (simp add: receipt_ok_def duplicate_receipt_def event_ok_def)

lemma get_event_receipt_ok: "get_event_receipt st eventId = Some r \<Longrightarrow> receipt_ok r"
  unfolding get_event_receipt_def list_event_receipts_def by (metis find_SomeD(2) record_list_ok)

text \<open>One ingestion by the file store, in closed form.\<close>

lemma ingest_run:
  assumes "event_ok e" "digest_runtime R"
  shows "ingest_routing_event R None e cards replay now st =
    (case if replay then None else get_event_receipt st (ev_id e) of
       None \<Rightarrow>
         (let r = ingest_receipt R e replay now
          in (Inr \<lparr>ing_receipt = r, ing_duplicate = False,
                ing_eligible = get_eligible_routing_cards R e cards,
                ing_candidates = filter (open_problem_for_event e) (list_business_problems st)\<rparr>,
              st_events_update (coll_put (rcp_id r) r) st))
     | Some x \<Rightarrow>
         (let r = duplicate_receipt R e x now
          in (Inr \<lparr>ing_receipt = r, ing_duplicate = True, ing_eligible = [], ing_candidates = []\<rparr>,
              st_events_update (coll_put (rcp_id r) r) st)))"
  using assms ingest_receipt_ok [OF assms] get_event_receipt_ok [of st "ev_id e"]
    duplicate_receipt_ok [of e _ R now]
  by (auto simp: ingest_routing_event_def ingest_new_event_def get_eligible_routing_cards_def Let_def
      act_simps require_def list_business_problems_def split: option.splits)

lemma receipt_id_clash:
  "''receipt_'' @ eventId \<noteq> ''receipt_duplicate_'' @ h" "''receipt_'' @ eventId \<noteq> ''receipt_replay_'' @ h"
  if "starts_with eventId ''evt_''"
  using that by (auto simp: starts_with_iff)

text \<open>The receipt an ingestion writes.\<close>

definition written_receipt :: "runtime \<Rightarrow> event \<Rightarrow> bool \<Rightarrow> instant \<Rightarrow> routing_store \<Rightarrow> event_receipt" where
  "written_receipt R e replay now st =
     (case if replay then None else get_event_receipt st (ev_id e) of
        None \<Rightarrow> ingest_receipt R e replay now
      | Some x \<Rightarrow> duplicate_receipt R e x now)"

lemma ingest_writes:
  assumes "event_ok e" "digest_runtime R"
  shows "snd (ingest_routing_event R None e cards replay now st) =
           snd (save_event_receipt (written_receipt R e replay now st) st)"
    and "receipt_ok (written_receipt R e replay now st)"
  using assms ingest_receipt_ok [OF assms] get_event_receipt_ok [of st "ev_id e"]
    duplicate_receipt_ok [of e _ R now]
  by (auto simp: ingest_run written_receipt_def act_simps Let_def split: option.splits)

lemma written_first:
  "first_receipt (written_receipt R e replay now st) \<longleftrightarrow> \<not> replay \<and> get_event_receipt st (ev_id e) = None"
  by (auto simp: written_receipt_def first_receipt_def ingest_receipt_def duplicate_receipt_def
      split: option.splits)

lemma written_key:
  assumes "starts_with eventId ''evt_''"
    and "\<not> (\<not> replay \<and> get_event_receipt st (ev_id e) = None)"
  shows "rcp_id (written_receipt R e replay now st) \<noteq> ''receipt_'' @ eventId"
  using assms receipt_id_clash [OF assms(1)]
  by (auto simp: written_receipt_def ingest_receipt_def duplicate_receipt_def split: option.splits)

lemma ingest_inv:
  assumes inv: "store_inv st" and e: "event_ok e" "starts_with (ev_id e) ''evt_''" and R: "digest_runtime R"
  shows "store_inv (snd (ingest_routing_event R None e cards replay now st))"
proof -
  let ?r = "written_receipt R e replay now st"
  have wf: "store_wf st" using inv by (simp add: store_inv_def)
  have "rcp_id ?r = ''receipt_'' @ rcp_event_id ?r \<and> starts_with (rcp_event_id ?r) ''evt_''"
    if "first_receipt ?r"
    using that e by (auto simp: written_first) (auto simp: written_receipt_def ingest_receipt_def)
  then have "receipts_keyed (snd (save_event_receipt ?r st))"
    using inv ingest_writes(2) [OF e(1) R] by (auto simp: receipts_keyed_def store_inv_def receipts.all_save)
  then show ?thesis
    using wf by (simp add: store_inv_def ingest_writes(1) [OF e(1) R] receipts.save_inv)
qed

lemma first_receipt_kept:
  assumes inv: "store_inv st" and e: "event_ok e" "starts_with (ev_id e) ''evt_''" and R: "digest_runtime R"
    and r: "get_event_receipt st eventId = Some r"
  shows "get_event_receipt (snd (ingest_routing_event R None e cards replay now st)) eventId = Some r"
proof -
  let ?w = "written_receipt R e replay now st"
  have wf: "store_wf st" using inv by (simp add: store_inv_def)
  have rin: "r \<in> set (list_event_receipts st)" "rcp_event_id r = eventId" "first_receipt r"
    using r by (auto simp: get_event_receipt_iff [OF inv])
  then have key: "rcp_id r = ''receipt_'' @ eventId" "starts_with eventId ''evt_''"
    using inv by (auto simp: store_inv_def receipts_keyed_def)
  have "rcp_id ?w \<noteq> rcp_id r"
  proof (cases "\<not> replay \<and> get_event_receipt st (ev_id e) = None")
    case True
    then have "ev_id e \<noteq> eventId" using r by auto
    with True key show ?thesis by (simp add: written_receipt_def ingest_receipt_def)
  next
    case False
    then show ?thesis using written_key [OF key(2)] key(1) by simp
  qed
  then have "r \<in> set (list_event_receipts (snd (save_event_receipt ?w st)))"
    using rin receipts.others_kept [OF wf] by metis
  with rin show ?thesis
    using get_event_receipt_iff [OF ingest_inv [OF inv e R]] ingest_writes(1) [OF e(1) R] by simp
qed

text \<open>
  C29: ingestion is idempotent. The first delivery of an event is recorded as received, with its
  eligible loops and the open problems of its subject; a later delivery under the same event
  identifier is answered as a duplicate that names the first receipt's hash, offers no loop and no
  problem, and leaves the recorded first receipt in place. Nothing but receipts is written.
\<close>

theorem ingest_once:
  assumes inv: "store_inv st" and e: "event_ok e" "starts_with (ev_id e) ''evt_''"
    and R: "digest_runtime R"
    and run: "ingest_routing_event R None e cards False now st = (out, st')"
  shows "store_inv st' \<and> others_same st st' \<and>
    (\<exists>res. out = Inr res \<and>
       (case get_event_receipt st (ev_id e) of
          None \<Rightarrow> \<not> ing_duplicate res \<and> rcp_status (ing_receipt res) = Received \<and>
            get_event_receipt st' (ev_id e) = Some (ing_receipt res) \<and>
            ing_eligible res = get_eligible_routing_cards R e cards \<and>
            ing_candidates res = filter (open_problem_for_event e) (list_business_problems st)
        | Some r \<Rightarrow> ing_duplicate res \<and> rcp_event_hash (ing_receipt res) = rcp_event_hash r \<and>
            ing_eligible res = [] \<and> ing_candidates res = [] \<and>
            get_event_receipt st' (ev_id e) = Some r))"
proof (cases "get_event_receipt st (ev_id e)")
  case None
  let ?r = "ingest_receipt R e False now"
  have inv': "store_inv st'"
    using ingest_inv [OF inv e R, of cards False now] run by simp
  have st': "st' = snd (save_event_receipt ?r st)"
    using ingest_writes(1) [OF e(1) R, of cards False now st] run None by (simp add: written_receipt_def)
  have "?r \<in> set (list_event_receipts st')"
    using inv ingest_receipt_ok [OF e(1) R] unfolding st' by (simp add: store_inv_def receipts.saved_listed)
  then have "get_event_receipt st' (ev_id e) = Some ?r"
    by (simp add: get_event_receipt_iff [OF inv']) (simp add: ingest_receipt_def first_receipt_def)
  with None run inv' show ?thesis
    by (auto simp: ingest_run [OF e(1) R] Let_def ingest_receipt_def)
next
  case (Some r)
  have "store_inv st'" "get_event_receipt st' (ev_id e) = Some r"
    using ingest_inv [OF inv e R, of cards False now] run
      first_receipt_kept [OF inv e R Some, of cards False now] by simp_all
  with Some run show ?thesis
    by (auto simp: ingest_run [OF e(1) R] Let_def duplicate_receipt_def)
qed

end
