(* ===== verification/RunStorage.thy ===== *)
theory RunStorage imports LoopTypes RoutingStore begin

text \<open>
  The file storage of runs, reviews and escalation cases (class \<open>FileStorageAdapter\<close> of
  sdk/storage.ts): a record per file and an index that lists every run and every case with its
  latest status, newest first. An identifier that cannot name a file makes a write throw and a read
  return nothing.
\<close>

datatype run_failure =
    InvalidRecordId str
  | BadTransition run_status run_status
  | PolicyThrew
  | AssessmentFailed

record run_index_entry =
  ri_id :: str
  ri_loop :: str
  ri_status :: run_status

record case_index_entry =
  ci_id :: str
  ci_loop :: str
  ci_severity :: case_severity
  ci_status :: case_status

record run_storage =
  rs_traces :: "run_trace coll"
  rs_reviews :: "human_review coll"
  rs_cases :: "escalation_case coll"
  rs_run_index :: "run_index_entry list"
  rs_case_index :: "case_index_entry list"

type_synonym 'a run_action = "(run_storage, run_failure, 'a) action"

definition empty_storage :: run_storage where
  "empty_storage = \<lparr>rs_traces = [], rs_reviews = [], rs_cases = [], rs_run_index = [], rs_case_index = []\<rparr>"

definition control_char :: "char \<Rightarrow> bool" where
  "control_char c = ((of_char c :: nat) < 32 \<or> (of_char c :: nat) = 127)"

definition safe_record_id :: "str \<Rightarrow> bool" where
  "safe_record_id i = (i \<noteq> [] \<and> length i \<le> 512 \<and> \<not> list_ex control_char i)"

definition index_run :: "run_trace \<Rightarrow> run_index_entry list \<Rightarrow> run_index_entry list" where
  "index_run t xs = \<lparr>ri_id = tr_id t, ri_loop = tr_loop t, ri_status = tr_status t\<rparr> # filter (\<lambda>x. ri_id x \<noteq> tr_id t) xs"

definition index_case :: "escalation_case \<Rightarrow> case_index_entry list \<Rightarrow> case_index_entry list" where
  "index_case c xs =
     \<lparr>ci_id = ec_id c, ci_loop = ec_loop c, ci_severity = ec_severity c, ci_status = ec_status c\<rparr> #
     filter (\<lambda>x. ci_id x \<noteq> ec_id c) xs"

definition save_run :: "run_trace \<Rightarrow> unit run_action" where
  "save_run t =
     act_bind (act_lift (require (safe_record_id (tr_id t)) (InvalidRecordId (tr_id t)))) (\<lambda>_.
       act_write (\<lambda>s. s\<lparr>rs_traces := coll_put (tr_id t) t (rs_traces s), rs_run_index := index_run t (rs_run_index s)\<rparr>))"

definition get_run :: "run_storage \<Rightarrow> str \<Rightarrow> run_trace option" where
  "get_run s runId = (if safe_record_id runId then coll_get (rs_traces s) runId else None)"

definition save_review :: "human_review \<Rightarrow> unit run_action" where
  "save_review r =
     act_bind (act_lift (require (safe_record_id (hr_id r)) (InvalidRecordId (hr_id r)))) (\<lambda>_.
       act_write (\<lambda>s. s\<lparr>rs_reviews := coll_put (hr_id r) r (rs_reviews s)\<rparr>))"

definition save_escalation_case :: "escalation_case \<Rightarrow> unit run_action" where
  "save_escalation_case c =
     act_bind (act_lift (require (safe_record_id (ec_id c)) (InvalidRecordId (ec_id c)))) (\<lambda>_.
       act_write (\<lambda>s. s\<lparr>rs_cases := coll_put (ec_id c) c (rs_cases s), rs_case_index := index_case c (rs_case_index s)\<rparr>))"

definition get_escalation_case :: "run_storage \<Rightarrow> str \<Rightarrow> escalation_case option" where
  "get_escalation_case s caseId = (if safe_record_id caseId then coll_get (rs_cases s) caseId else None)"

definition list_runs :: "run_storage \<Rightarrow> run_index_entry list" where
  "list_runs s = rs_run_index s"

definition list_cases :: "run_storage \<Rightarrow> case_index_entry list" where
  "list_cases s = rs_case_index s"

text \<open>The identifiers of the trace files (\<open>listTraceFiles\<close>), and the stored traces and cases.\<close>

definition list_trace_files :: "run_storage \<Rightarrow> str list" where
  "list_trace_files s = map fst (rs_traces s)"

definition stored_runs :: "run_storage \<Rightarrow> run_trace list" where
  "stored_runs s = coll_values (rs_traces s)"

definition stored_cases :: "run_storage \<Rightarrow> escalation_case list" where
  "stored_cases s = coll_values (rs_cases s)"

subsection \<open>The index agrees with the records\<close>

definition storage_wf :: "run_storage \<Rightarrow> bool" where
  "storage_wf s \<longleftrightarrow>
     coll_wf tr_id (rs_traces s) \<and> coll_wf ec_id (rs_cases s) \<and> coll_wf hr_id (rs_reviews s) \<and>
     (\<forall>t\<in>set (stored_runs s). safe_record_id (tr_id t)) \<and> (\<forall>c\<in>set (stored_cases s). safe_record_id (ec_id c)) \<and>
     distinct (map ri_id (rs_run_index s)) \<and> distinct (map ci_id (rs_case_index s)) \<and>
     set (rs_run_index s) = (\<lambda>t. \<lparr>ri_id = tr_id t, ri_loop = tr_loop t, ri_status = tr_status t\<rparr>) ` set (stored_runs s) \<and>
     set (rs_case_index s) = (\<lambda>c. \<lparr>ci_id = ec_id c, ci_loop = ec_loop c, ci_severity = ec_severity c,
        ci_status = ec_status c\<rparr>) ` set (stored_cases s)"

lemma empty_storage_wf: "storage_wf empty_storage"
  by (simp add: storage_wf_def empty_storage_def stored_runs_def stored_cases_def)

lemma save_run_run [act_simps]:
  "save_run t s =
     (if safe_record_id (tr_id t)
      then (Inr (), s\<lparr>rs_traces := coll_put (tr_id t) t (rs_traces s), rs_run_index := index_run t (rs_run_index s)\<rparr>)
      else (Inl (InvalidRecordId (tr_id t)), s))"
  by (simp add: save_run_def require_def act_bind_def)

lemma save_escalation_case_run [act_simps]:
  "save_escalation_case c s =
     (if safe_record_id (ec_id c)
      then (Inr (), s\<lparr>rs_cases := coll_put (ec_id c) c (rs_cases s), rs_case_index := index_case c (rs_case_index s)\<rparr>)
      else (Inl (InvalidRecordId (ec_id c)), s))"
  by (simp add: save_escalation_case_def require_def act_bind_def)

lemma save_review_run [act_simps]:
  "save_review r s =
     (if safe_record_id (hr_id r) then (Inr (), s\<lparr>rs_reviews := coll_put (hr_id r) r (rs_reviews s)\<rparr>)
      else (Inl (InvalidRecordId (hr_id r)), s))"
  by (simp add: save_review_def require_def act_bind_def)

lemma values_put:
  assumes "coll_wf key c" "key r = k"
  shows "set (coll_values (coll_put k r c)) = insert r {x \<in> set (coll_values c). key x \<noteq> k}"
  using record_list_put [OF assms(1), of "\<lambda>_. True" r] assms(2) by (simp add: record_list_def)

lemma save_run_wf: "storage_wf s \<Longrightarrow> storage_wf (snd (save_run t s))"
  by (auto simp: storage_wf_def save_run_run stored_runs_def stored_cases_def coll_wf_put values_put index_run_def
      distinct_map_filter)

lemma save_case_wf: "storage_wf s \<Longrightarrow> storage_wf (snd (save_escalation_case c s))"
  by (auto simp: storage_wf_def save_escalation_case_run stored_runs_def stored_cases_def coll_wf_put values_put
      index_case_def distinct_map_filter)

lemma save_review_wf: "storage_wf s \<Longrightarrow> storage_wf (snd (save_review r s))"
  by (auto simp: storage_wf_def save_review_run stored_runs_def stored_cases_def coll_wf_put)

lemma stored_wf: "storage_wf s \<Longrightarrow> coll_wf tr_id (rs_traces s) \<and> coll_wf ec_id (rs_cases s)"
  by (simp add: storage_wf_def)

interpretation runs: keyed_collection tr_id "\<lambda>t. safe_record_id (tr_id t)" save_run stored_runs storage_wf get_run
proof unfold_locales
  fix r s k x
  show "safe_record_id (tr_id r) \<Longrightarrow> fst (save_run r s) = Inr ()" by (simp add: save_run_run)
  show "\<not> safe_record_id (tr_id r) \<Longrightarrow> \<exists>e. save_run r s = (Inl e, s)" by (simp add: save_run_run)
  show "storage_wf s \<Longrightarrow> storage_wf (snd (save_run r s))" by (rule save_run_wf)
  show "storage_wf s \<Longrightarrow> safe_record_id (tr_id r) \<Longrightarrow>
      set (stored_runs (snd (save_run r s))) = insert r {x \<in> set (stored_runs s). tr_id x \<noteq> tr_id r}"
    by (simp add: save_run_run stored_runs_def values_put stored_wf)
  show "storage_wf s \<Longrightarrow> distinct (map tr_id (stored_runs s))"
    by (simp add: stored_runs_def coll_values_distinct stored_wf)
  assume "storage_wf s"
  then show "get_run s k = Some r \<longleftrightarrow> r \<in> set (stored_runs s) \<and> tr_id r = k"
    unfolding get_run_def stored_runs_def
    using coll_values_iff [of tr_id "rs_traces s" r] coll_get_key [of tr_id "rs_traces s" k r]
    by (auto simp: storage_wf_def stored_runs_def)
  assume "x \<in> set (stored_runs s)"
  with \<open>storage_wf s\<close> show "safe_record_id (tr_id x)" by (simp add: storage_wf_def)
qed

interpretation cases: keyed_collection ec_id "\<lambda>c. safe_record_id (ec_id c)" save_escalation_case stored_cases
    storage_wf get_escalation_case
proof unfold_locales
  fix r s k x
  show "safe_record_id (ec_id r) \<Longrightarrow> fst (save_escalation_case r s) = Inr ()" by (simp add: save_escalation_case_run)
  show "\<not> safe_record_id (ec_id r) \<Longrightarrow> \<exists>e. save_escalation_case r s = (Inl e, s)"
    by (simp add: save_escalation_case_run)
  show "storage_wf s \<Longrightarrow> storage_wf (snd (save_escalation_case r s))" by (rule save_case_wf)
  show "storage_wf s \<Longrightarrow> safe_record_id (ec_id r) \<Longrightarrow>
      set (stored_cases (snd (save_escalation_case r s))) = insert r {x \<in> set (stored_cases s). ec_id x \<noteq> ec_id r}"
    by (simp add: save_escalation_case_run stored_cases_def values_put stored_wf)
  show "storage_wf s \<Longrightarrow> distinct (map ec_id (stored_cases s))"
    by (simp add: stored_cases_def coll_values_distinct stored_wf)
  assume "storage_wf s"
  then show "get_escalation_case s k = Some r \<longleftrightarrow> r \<in> set (stored_cases s) \<and> ec_id r = k"
    unfolding get_escalation_case_def stored_cases_def
    using coll_values_iff [of ec_id "rs_cases s" r] coll_get_key [of ec_id "rs_cases s" k r]
    by (auto simp: storage_wf_def stored_cases_def)
  assume "x \<in> set (stored_cases s)"
  with \<open>storage_wf s\<close> show "safe_record_id (ec_id x)" by (simp add: storage_wf_def)
qed

lemma get_run_id: "storage_wf s \<Longrightarrow> get_run s k = Some t \<Longrightarrow> tr_id t = k \<and> safe_record_id k"
  using runs.get_iff [of s k t] by (auto simp: get_run_def split: if_splits)

lemma get_case_id: "storage_wf s \<Longrightarrow> get_escalation_case s k = Some c \<Longrightarrow> ec_id c = k \<and> safe_record_id k"
  using cases.get_iff [of s k c] by (auto simp: get_escalation_case_def split: if_splits)

text \<open>Any sequence of saves.\<close>

inductive storage_run :: "run_storage \<Rightarrow> run_storage \<Rightarrow> bool" where
  sr_refl: "storage_run s s"
| sr_run: "storage_run s s1 \<Longrightarrow> storage_run s (snd (save_run t s1))"
| sr_review: "storage_run s s1 \<Longrightarrow> storage_run s (snd (save_review r s1))"
| sr_case: "storage_run s s1 \<Longrightarrow> storage_run s (snd (save_escalation_case c s1))"

lemma storage_run_wf: "storage_run s s' \<Longrightarrow> storage_wf s \<Longrightarrow> storage_wf s'"
  by (induction rule: storage_run.induct) (auto intro: save_run_wf save_review_wf save_case_wf)

text \<open>
  The run index never drifts. After any sequence of saved runs, reviews and cases the index lists
  every stored run exactly once, with the status of its last saved trace, and reading a saved run
  returns it.
\<close>

theorem run_index_consistent:
  assumes "storage_run empty_storage s"
  shows "distinct (map ri_id (list_runs s)) \<and>
    (\<forall>x. x \<in> set (list_runs s) \<longleftrightarrow>
       (\<exists>t. get_run s (ri_id x) = Some t \<and> ri_loop x = tr_loop t \<and> ri_status x = tr_status t))"
proof -
  have wf: "storage_wf s" by (rule storage_run_wf [OF assms empty_storage_wf])
  have "x \<in> set (list_runs s) \<longleftrightarrow>
       (\<exists>t. get_run s (ri_id x) = Some t \<and> ri_loop x = tr_loop t \<and> ri_status x = tr_status t)" for x
  proof -
    have "x \<in> set (list_runs s) \<longleftrightarrow>
        (\<exists>t\<in>set (stored_runs s). x = \<lparr>ri_id = tr_id t, ri_loop = tr_loop t, ri_status = tr_status t\<rparr>)"
      using wf by (auto simp: storage_wf_def list_runs_def)
    also have "\<dots> \<longleftrightarrow> (\<exists>t. get_run s (ri_id x) = Some t \<and> ri_loop x = tr_loop t \<and> ri_status x = tr_status t)"
      unfolding runs.get_iff [OF wf] by (cases x) auto
    finally show ?thesis .
  qed
  with wf show ?thesis by (simp add: storage_wf_def list_runs_def)
qed

end
