(* ===== verification/Policy.thy ===== *)
theory Policy imports LoopTypes begin

text \<open>
  The policy of a loop (core/policy.ts): preparing the proposed actions, the decisions of the
  forbidden, escalation and allow rules, the case an escalation creates, and the invariants a case
  should satisfy (\<open>validateEscalationCaseInvariants\<close> of core/escalation.ts). A rule's condition is
  an object whose keys name an input and an operator; evaluating one may throw (an invalid regular
  expression, a value that is not a list), which is \<open>None\<close>.
\<close>

subsection \<open>Conversions of the language\<close>

text \<open>\<open>String(x)\<close> and \<open>Number(x)\<close>; \<open>None\<close> of the latter is \<open>NaN\<close>.\<close>

fun js_string :: "runtime \<Rightarrow> json \<Rightarrow> str" where
  "js_string R JNull = ''null''"
| "js_string R (JBool b) = (if b then ''true'' else ''false'')"
| "js_string R (JNum q) = number_text R q"
| "js_string R (JStr s) = s"
| "js_string R (JArr xs) = js_join '','' (map (\<lambda>x. if x = JNull then [] else js_string R x) xs)"
| "js_string R (JObj kvs) = ''[object Object]''"

definition js_string_opt :: "runtime \<Rightarrow> json option \<Rightarrow> str" where
  "js_string_opt R v = (case v of None \<Rightarrow> ''undefined'' | Some w \<Rightarrow> js_string R w)"

definition js_number :: "runtime \<Rightarrow> json option \<Rightarrow> rat option" where
  "js_number R v =
     (case v of None \<Rightarrow> None | Some JNull \<Rightarrow> Some 0 | Some (JBool b) \<Rightarrow> Some (if b then 1 else 0)
      | Some (JNum q) \<Rightarrow> Some q | Some (JObj kvs) \<Rightarrow> None | Some w \<Rightarrow> parse_number R (js_string R w))"

fun contains_text :: "str \<Rightarrow> str \<Rightarrow> bool" where
  "contains_text [] p = (p = [])"
| "contains_text (c # cs) p = (starts_with (c # cs) p \<or> contains_text cs p)"

definition ends_with :: "str \<Rightarrow> str \<Rightarrow> bool" where
  "ends_with s p = starts_with (rev s) (rev p)"

fun nat_text :: "nat \<Rightarrow> str" where
  "nat_text n = (if n < 10 then [digit_char n] else nat_text (n div 10) @ [digit_char (n mod 10)])"

declare nat_text.simps [simp del]

subsection \<open>Conditions\<close>

definition policy_input_value :: "agent_output \<Rightarrow> str \<Rightarrow> json option" where
  "policy_input_value out key =
     (case find (\<lambda>p. pi_key p = key) (ao_policy_inputs out) of None \<Rightarrow> None | Some p \<Rightarrow> pi_value p)"

text \<open>\<open>find(...)?.value ?? d\<close>\<close>

definition value_or :: "json \<Rightarrow> json option \<Rightarrow> json" where
  "value_or d v = (case v of None \<Rightarrow> d | Some JNull \<Rightarrow> d | Some w \<Rightarrow> w)"

definition input_text :: "runtime \<Rightarrow> agent_output \<Rightarrow> str \<Rightarrow> str" where
  "input_text R out key = js_string R (value_or (JStr []) (policy_input_value out key))"

text \<open>\<open>(value as string[]).includes(s)\<close>: a list, or a text by substring; anything else throws.\<close>

definition js_includes :: "json \<Rightarrow> str \<Rightarrow> bool option" where
  "js_includes v s =
     (case v of JArr xs \<Rightarrow> Some (JStr s \<in> set xs) | JStr t \<Rightarrow> Some (contains_text t s) | _ \<Rightarrow> None)"

definition entry_matches :: "runtime \<Rightarrow> agent_output \<Rightarrow> str \<times> json \<Rightarrow> bool option" where
  "entry_matches R out = (\<lambda>(key, v).
     if key = ''issue.labels contains'' then
       Some (list_ex (\<lambda>p. pi_key p = ''issue.labels'' \<and>
               contains_text (js_string_opt R (pi_value p)) (js_string R v)) (ao_policy_inputs out))
     else if key = ''issue.body matches'' then
       regex_test_i R (js_string R v) (input_text R out ''issue.body'')
     else if key = ''account.segment in'' then js_includes v (input_text R out ''account.segment'')
     else if key = ''incident.category =='' then
       Some (input_text R out ''incident.category'' = js_string R v)
     else if key = ''incident.severity in'' then js_includes v (input_text R out ''incident.severity'')
     else if key = ''businessImpact.renewalRisk =='' then
       Some (input_text R out ''businessImpact.renewalRisk'' = js_string R v)
     else if key = ''account.renewalDaysRemaining <='' then
       Some (case (js_number R (Some (value_or (JNum 999) (policy_input_value out ''account.renewalDaysRemaining''))),
                   js_number R (Some v)) of
               (Some days, Some limit) \<Rightarrow> \<not> days > limit | _ \<Rightarrow> True)
     else if ends_with key '' =='' then
       Some (input_text R out (js_trim (take (length key - 3) key)) = js_string R v)
     else if ends_with key '' in'' then
       Some (input_text R out (js_trim (take (length key - 3) key)) \<in>
             set (case v of JArr xs \<Rightarrow> map (js_string R) xs | _ \<Rightarrow> [js_string R v]))
     else Some True)"

fun entries_match :: "runtime \<Rightarrow> agent_output \<Rightarrow> (str \<times> json) list \<Rightarrow> bool option" where
  "entries_match R out [] = Some True"
| "entries_match R out (e # es) =
     (case entry_matches R out e of Some True \<Rightarrow> entries_match R out es | r \<Rightarrow> r)"

definition matches_clause :: "runtime \<Rightarrow> agent_output \<Rightarrow> (str \<times> json) list \<Rightarrow> bool option" where
  "matches_clause R out clause =
     (case entries_match R out clause of
        Some True \<Rightarrow> Some ((case ao_escalation out of None \<Rightarrow> False | Some x \<Rightarrow> esr_required x) \<and> clause = [] \<or>
                         clause \<noteq> [])
      | r \<Rightarrow> r)"

text \<open>\<open>Object.entries\<close> of a clause that need not be an object; \<open>null\<close> throws.\<close>

definition object_entries :: "json \<Rightarrow> (str \<times> json) list option" where
  "object_entries v =
     (case v of JNull \<Rightarrow> None | JObj kvs \<Rightarrow> Some kvs
      | JArr xs \<Rightarrow> Some (zip (map nat_text [0..<length xs]) xs)
      | JStr s \<Rightarrow> Some (zip (map nat_text [0..<length s]) (map (\<lambda>c. JStr [c]) s))
      | _ \<Rightarrow> Some [])"

definition clause_matches :: "runtime \<Rightarrow> agent_output \<Rightarrow> json \<Rightarrow> bool option" where
  "clause_matches R out v = Option.bind (object_entries v) (matches_clause R out)"

fun some_clause :: "('a \<Rightarrow> bool option) \<Rightarrow> 'a list \<Rightarrow> bool option" where
  "some_clause f [] = Some False"
| "some_clause f (x # xs) = (case f x of Some False \<Rightarrow> some_clause f xs | r \<Rightarrow> r)"

fun every_clause :: "('a \<Rightarrow> bool option) \<Rightarrow> 'a list \<Rightarrow> bool option" where
  "every_clause f [] = Some True"
| "every_clause f (x # xs) = (case f x of Some True \<Rightarrow> every_clause f xs | r \<Rightarrow> r)"

definition matches_when :: "runtime \<Rightarrow> (str \<times> json) list \<Rightarrow> agent_output \<Rightarrow> bool option" where
  "matches_when R when_obj out =
     (case map_of when_obj ''any'' of
        Some (JArr clauses) \<Rightarrow> some_clause (clause_matches R out) clauses
      | _ \<Rightarrow> (case map_of when_obj ''all'' of
                Some (JArr clauses) \<Rightarrow> every_clause (clause_matches R out) clauses
              | _ \<Rightarrow> matches_clause R out when_obj))"

subsection \<open>Decisions\<close>

definition forbidden_decision :: "agent_output \<Rightarrow> forbidden_action \<Rightarrow> policy_decision" where
  "forbidden_decision out f =
     (let matched = list_ex (\<lambda>a. pa_tool a = fa_tool f) (ao_actions out)
      in \<lparr>pd_rule = ''forbidden:'' @ fa_tool f, pd_matched = matched,
          pd_action = (if matched then ActBlock else ActAllow),
          pd_requires_review = False, pd_create_case = False\<rparr>)"

definition escalation_decision :: "runtime \<Rightarrow> agent_output \<Rightarrow> escalation_rule \<Rightarrow> policy_decision option" where
  "escalation_decision R out r =
     map_option (\<lambda>matched. \<lparr>pd_rule = xrule_id r, pd_matched = matched,
          pd_action = (if matched then ActEscalate else ActContinue),
          pd_requires_review = (matched \<and> xrule_approvals r \<noteq> []),
          pd_create_case = (matched \<and> xrule_case r \<noteq> None)\<rparr>) (matches_when R (xrule_when r) out)"

definition action_policy_for :: "loop_spec \<Rightarrow> str \<Rightarrow> action_policy option" where
  "action_policy_for spec tool = find (\<lambda>p. ap_tool p = tool) (sp_allowed spec)"

definition prepared_decisions :: "loop_spec \<Rightarrow> prepared_action \<Rightarrow> policy_decision list" where
  "prepared_decisions spec a =
     (case action_policy_for spec (pre_tool a) of
        Some p \<Rightarrow>
          if \<not> ap_allowed p then
            [\<lparr>pd_rule = ''allow:'' @ pre_tool a, pd_matched = True, pd_action = ActBlock,
              pd_requires_review = False, pd_create_case = False\<rparr>]
          else if ap_requires_approval p \<or> pre_requires_approval a then
            [\<lparr>pd_rule = ''approval:'' @ pre_tool a, pd_matched = True, pd_action = ActReview,
              pd_requires_review = True, pd_create_case = False\<rparr>]
          else []
      | None \<Rightarrow>
          [\<lparr>pd_rule = ''allow:'' @ pre_tool a, pd_matched = True, pd_action = ActBlock,
            pd_requires_review = False, pd_create_case = False\<rparr>])"

text \<open>Collecting optional results in order: the first that throws ends the loop.\<close>

fun collect_some :: "('a \<Rightarrow> 'b option) \<Rightarrow> 'a list \<Rightarrow> 'b list option" where
  "collect_some f [] = Some []"
| "collect_some f (x # xs) = Option.bind (f x) (\<lambda>y. map_option ((#) y) (collect_some f xs))"

definition evaluate_policy ::
  "runtime \<Rightarrow> loop_spec \<Rightarrow> agent_output \<Rightarrow> prepared_action list \<Rightarrow> policy_decision list option" where
  "evaluate_policy R spec out prepared =
     map_option (\<lambda>escalations. map (forbidden_decision out) (sp_forbidden spec) @ escalations @
          concat (map (prepared_decisions spec) prepared))
       (collect_some (escalation_decision R out) (sp_escalations spec))"

definition should_create_escalation_case :: "policy_decision list \<Rightarrow> bool" where
  "should_create_escalation_case ds = list_ex (\<lambda>d. pd_matched d \<and> pd_create_case d) ds"

definition prepare_actions_from_proposed :: "runtime \<Rightarrow> proposed_action list \<Rightarrow> prepared_action list" where
  "prepare_actions_from_proposed R proposed =
     map (\<lambda>a. \<lparr>pre_id = ''prepared_'' @ pa_id a, pre_tool = pa_tool a, pre_label = pa_label a,
            pre_payload = pa_input a, pre_fingerprint = content_hash R (Some (JObj (pa_input a))),
            pre_risk = pa_risk a, pre_requires_approval = pa_requires_approval a,
            pre_customer_facing = pa_customer_facing a, pre_proposed_id = pa_id a\<rparr>) proposed"

subsection \<open>Escalation cases\<close>

text \<open>The service level \<open>/^(\d+)(m|h)$/\<close>; anything else is an hour.\<close>

definition parse_sla_ms :: "str option \<Rightarrow> int" where
  "parse_sla_ms sla =
     (case sla of None \<Rightarrow> 3600000
      | Some s \<Rightarrow>
          if s = [] \<or> butlast s = [] then 3600000
          else (case digits_val 0 (butlast s) of None \<Rightarrow> 3600000
                | Some n \<Rightarrow> if last s = CHR ''h'' then int n * 3600000
                            else if last s = CHR ''m'' then int n * 60000 else 3600000))"

definition build_escalation_case ::
  "loop_spec \<Rightarrow> str \<Rightarrow> agent_output \<Rightarrow> prepared_action list \<Rightarrow> policy_decision list \<Rightarrow> instant \<Rightarrow> escalation_case option" where
  "build_escalation_case spec runId out prepared ds simulatedAt =
     (case find (\<lambda>r. list_ex (\<lambda>d. pd_rule d = xrule_id r \<and> pd_matched d \<and> pd_create_case d) ds) (sp_escalations spec) of
        None \<Rightarrow> None
      | Some r \<Rightarrow>
          (case xrule_case r of
             None \<Rightarrow> None
           | Some (category, sev) \<Rightarrow>
               Some \<lparr>ec_id = ''case_'' @ drop (length runId - 12) runId, ec_run = runId, ec_loop = sp_id spec,
                 ec_created_at = simulatedAt, ec_category = category, ec_severity = opt_or sev P1,
                 ec_confidence = value_or (JNum (17/20)) (policy_input_value out ''confidence''),
                 ec_summary = ao_summary out, ec_evidence = ao_evidence out, ec_actions = ao_actions out,
                 ec_decisions = map (\<lambda>(i, q). (''decision_'' @ nat_text (i + 1), q, xrule_owner r))
                    (zip [0..<length (xrule_decisions r)] (xrule_decisions r)),
                 ec_owner = xrule_owner r, ec_reviewers = xrule_reviewers r, ec_informed = [],
                 ec_deadline = simulatedAt + parse_sla_ms (xrule_sla r),
                 ec_internal_actions = filter (\<lambda>a. \<not> pre_customer_facing a) prepared,
                 ec_customer_draft = find pre_customer_facing prepared,
                 ec_status = CaseOpen, ec_outcome = None\<rparr>))"

datatype case_error = EvidenceMissing | OwnerMissing | DeadlineMissing | DecisionsMissing

text \<open>A deadline is always an instant here, never the empty text.\<close>

definition validate_escalation_case_invariants :: "escalation_case \<Rightarrow> case_error list" where
  "validate_escalation_case_invariants c =
     (if ec_severity c \<in> {P0, P1}
      then (if ec_evidence c = [] then [EvidenceMissing] else []) @
           (if ec_owner c = [] then [OwnerMissing] else []) @
           (if ec_decisions c = [] then [DecisionsMissing] else [])
      else [])"

subsection \<open>What the decisions say\<close>

lemma collect_some_set:
  "collect_some f xs = Some ys \<Longrightarrow> set ys = {y. \<exists>x\<in>set xs. f x = Some y} \<and> (\<forall>x\<in>set xs. f x \<noteq> None)"
  by (induction xs arbitrary: ys) (auto simp: bind_eq_Some_conv)

lemma evaluate_policy_set:
  "evaluate_policy R spec out prepared = Some ds \<Longrightarrow>
   set ds = forbidden_decision out ` set (sp_forbidden spec) \<union>
     {d. \<exists>r\<in>set (sp_escalations spec). escalation_decision R out r = Some d} \<union>
     (\<Union>a\<in>set prepared. set (prepared_decisions spec a))"
  by (auto simp: evaluate_policy_def collect_some_set)

definition tool_forbidden :: "loop_spec \<Rightarrow> agent_output \<Rightarrow> bool" where
  "tool_forbidden spec out \<longleftrightarrow> (\<exists>f\<in>set (sp_forbidden spec). \<exists>a\<in>set (ao_actions out). pa_tool a = fa_tool f)"

definition tool_allowed :: "loop_spec \<Rightarrow> str \<Rightarrow> bool" where
  "tool_allowed spec tool \<longleftrightarrow> (\<exists>p. action_policy_for spec tool = Some p \<and> ap_allowed p)"

definition approval_needed :: "loop_spec \<Rightarrow> prepared_action \<Rightarrow> bool" where
  "approval_needed spec a \<longleftrightarrow>
     pre_requires_approval a \<or> (\<exists>p. action_policy_for spec (pre_tool a) = Some p \<and> ap_requires_approval p)"

definition escalation_review :: "runtime \<Rightarrow> loop_spec \<Rightarrow> agent_output \<Rightarrow> bool" where
  "escalation_review R spec out \<longleftrightarrow>
     (\<exists>r\<in>set (sp_escalations spec). matches_when R (xrule_when r) out = Some True \<and> xrule_approvals r \<noteq> [])"

lemma prepared_block:
  "(\<exists>d\<in>set (prepared_decisions spec a). pd_matched d \<and> pd_action d = ActBlock) \<longleftrightarrow> \<not> tool_allowed spec (pre_tool a)"
  by (auto simp: prepared_decisions_def tool_allowed_def split: option.splits)

lemma prepared_review:
  "tool_allowed spec (pre_tool a) \<Longrightarrow>
   (\<exists>d\<in>set (prepared_decisions spec a). pd_requires_review d) \<longleftrightarrow> approval_needed spec a"
  by (auto simp: prepared_decisions_def tool_allowed_def approval_needed_def split: option.splits)

lemma prepared_review_imp:
  "d \<in> set (prepared_decisions spec a) \<Longrightarrow> pd_requires_review d \<Longrightarrow> approval_needed spec a"
  by (auto simp: prepared_decisions_def approval_needed_def split: option.splits if_splits)

lemma escalation_decision_not_block: "escalation_decision R out r = Some d \<Longrightarrow> pd_action d \<noteq> ActBlock"
  by (auto simp: escalation_decision_def split: if_splits)

lemma escalation_decision_review:
  "escalation_decision R out r = Some d \<Longrightarrow>
   pd_requires_review d \<longleftrightarrow> matches_when R (xrule_when r) out = Some True \<and> xrule_approvals r \<noteq> []"
  by (auto simp: escalation_decision_def)

lemma forbidden_decision_block:
  "(pd_matched (forbidden_decision out f) \<and> pd_action (forbidden_decision out f) = ActBlock) \<longleftrightarrow>
   (\<exists>a\<in>set (ao_actions out). pa_tool a = fa_tool f)"
  "\<not> pd_requires_review (forbidden_decision out f)"
  by (auto simp: forbidden_decision_def Let_def list_ex_iff)

text \<open>The policy blocks exactly the runs that propose a forbidden tool or prepare one that is not allowed.\<close>

lemma policy_blocks_iff:
  assumes "evaluate_policy R spec out prepared = Some ds"
  shows "(\<exists>d\<in>set ds. pd_matched d \<and> pd_action d = ActBlock) \<longleftrightarrow>
         tool_forbidden spec out \<or> (\<exists>a\<in>set prepared. \<not> tool_allowed spec (pre_tool a))"
proof -
  have "(\<exists>d\<in>set ds. pd_matched d \<and> pd_action d = ActBlock) \<longleftrightarrow>
    (\<exists>f\<in>set (sp_forbidden spec). pd_matched (forbidden_decision out f) \<and>
       pd_action (forbidden_decision out f) = ActBlock) \<or>
    (\<exists>a\<in>set prepared. \<exists>d\<in>set (prepared_decisions spec a). pd_matched d \<and> pd_action d = ActBlock)"
    unfolding evaluate_policy_set [OF assms] using escalation_decision_not_block by blast
  then show ?thesis by (simp add: forbidden_decision_block prepared_block tool_forbidden_def)
qed

lemma policy_review_iff:
  assumes "evaluate_policy R spec out prepared = Some ds"
    and "\<forall>a\<in>set prepared. tool_allowed spec (pre_tool a)"
  shows "(\<exists>d\<in>set ds. pd_requires_review d) \<longleftrightarrow>
         escalation_review R spec out \<or> (\<exists>a\<in>set prepared. approval_needed spec a)"
proof -
  have esc: "escalation_decision R out r \<noteq> None" if "r \<in> set (sp_escalations spec)" for r
    using assms(1) that by (auto simp: evaluate_policy_def dest: collect_some_set)
  have "(\<exists>d\<in>set ds. pd_requires_review d) \<longleftrightarrow>
    (\<exists>r\<in>set (sp_escalations spec). \<exists>d. escalation_decision R out r = Some d \<and> pd_requires_review d) \<or>
    (\<exists>a\<in>set prepared. \<exists>d\<in>set (prepared_decisions spec a). pd_requires_review d)"
    unfolding evaluate_policy_set [OF assms(1)] using forbidden_decision_block(2) by blast
  moreover have "(\<exists>d. escalation_decision R out r = Some d \<and> pd_requires_review d) \<longleftrightarrow>
      matches_when R (xrule_when r) out = Some True \<and> xrule_approvals r \<noteq> []" if "r \<in> set (sp_escalations spec)" for r
    using esc [OF that] escalation_decision_review [of R out r] by blast
  ultimately show ?thesis
    using assms(2) prepared_review by (simp add: escalation_review_def)
qed

end
