(* ===== verification/RunMachine.thy ===== *)
theory RunMachine imports LoopTypes begin

text \<open>
  The state machine of a run (runtime/state-machine.ts): the table of allowed transitions, the
  check the runner makes, and what the table means for the life of a run.
\<close>

fun transitions :: "run_status \<Rightarrow> run_status list" where
  "transitions DRAFT = [VALIDATED, FAILED_VALIDATION]"
| "transitions VALIDATED = [READY]"
| "transitions READY = [SIMULATING]"
| "transitions SIMULATING = [PROPOSED_ACTIONS, FAILED_VALIDATION]"
| "transitions PROPOSED_ACTIONS = [VERIFYING]"
| "transitions VERIFYING = [WAITING_FOR_REVIEW, COMPLETED, FAILED_VERIFICATION, BLOCKED_BY_POLICY, ESCALATED]"
| "transitions WAITING_FOR_REVIEW = [APPROVED, REJECTED, CANCELLED]"
| "transitions APPROVED = [COMMITTED]"
| "transitions COMMITTED = [COMPLETED]"
| "transitions COMPLETED = []"
| "transitions FAILED_VALIDATION = []"
| "transitions FAILED_VERIFICATION = []"
| "transitions ESCALATED = [WAITING_FOR_REVIEW, COMPLETED]"
| "transitions REJECTED = []"
| "transitions BLOCKED_BY_POLICY = []"
| "transitions CANCELLED = []"

definition can_transition :: "run_status \<Rightarrow> run_status \<Rightarrow> bool" where
  "can_transition from to = (to \<in> set (transitions from))"

datatype transition_error = InvalidTransition run_status run_status

definition assert_transition :: "run_status \<Rightarrow> run_status \<Rightarrow> transition_error + unit" where
  "assert_transition from to = require (can_transition from to) (InvalidTransition from to)"

definition terminal_statuses :: "run_status list" where
  "terminal_statuses = [COMPLETED, FAILED_VALIDATION, FAILED_VERIFICATION, REJECTED, BLOCKED_BY_POLICY, CANCELLED]"

subsection \<open>Lives of a run\<close>

inductive run_path :: "run_status \<Rightarrow> run_status list \<Rightarrow> run_status \<Rightarrow> bool" where
  path_end: "run_path s [] s"
| path_step: "can_transition s t \<Longrightarrow> run_path t ts u \<Longrightarrow> run_path s (t # ts) u"

inductive_simps run_path_Nil: "run_path s [] u"
inductive_simps run_path_Cons: "run_path s (t # ts) u"

lemma run_path_append: "run_path s (xs @ ys) u \<longleftrightarrow> (\<exists>t. run_path s xs t \<and> run_path t ys u)"
  by (induction xs arbitrary: s) (auto simp: run_path_Nil run_path_Cons)

text \<open>The longest way from a status to the end, one less at every transition: the table has no cycle.\<close>

fun distance :: "run_status \<Rightarrow> nat" where
  "distance DRAFT = 10"
| "distance VALIDATED = 9"
| "distance READY = 8"
| "distance SIMULATING = 7"
| "distance PROPOSED_ACTIONS = 6"
| "distance VERIFYING = 5"
| "distance ESCALATED = 4"
| "distance WAITING_FOR_REVIEW = 3"
| "distance APPROVED = 2"
| "distance COMMITTED = 1"
| "distance _ = 0"

lemma transition_closer: "can_transition s t \<Longrightarrow> distance t < distance s"
  by (cases s) (auto simp: can_transition_def)

lemma run_path_length: "run_path s ts u \<Longrightarrow> length ts + distance u \<le> distance s"
  by (induction rule: run_path.induct) (auto dest: transition_closer)

lemma terminal_iff: "s \<in> set terminal_statuses \<longleftrightarrow> (\<forall>t. \<not> can_transition s t)"
  by (cases s) (auto simp: terminal_statuses_def can_transition_def)

lemma leads_to_terminal: "\<exists>ts u. run_path s ts u \<and> u \<in> set terminal_statuses"
proof (induction "distance s" arbitrary: s rule: less_induct)
  case less
  show ?case
  proof (cases "s \<in> set terminal_statuses")
    case True
    then show ?thesis using path_end by blast
  next
    case False
    then obtain t where t: "can_transition s t" by (auto simp: terminal_iff)
    from less [OF transition_closer [OF t]] show ?thesis using path_step [OF t] by blast
  qed
qed

text \<open>
  C40: a run ends. The statuses without a successor are exactly the terminal ones, no run takes more
  than ten transitions from its draft, and from every status some terminal status can be reached.
\<close>

theorem runs_terminate:
  "(s \<in> set terminal_statuses \<longleftrightarrow> (\<forall>t. \<not> can_transition s t)) \<and>
   (run_path DRAFT ts s \<longrightarrow> length ts \<le> 10) \<and>
   (\<exists>ts u. run_path s ts u \<and> u \<in> set terminal_statuses)"
  using run_path_length [of DRAFT ts s] terminal_iff [of s] leads_to_terminal [of s] by auto

theorem runs_terminate_witness:
  "length [VALIDATED, READY, SIMULATING, PROPOSED_ACTIONS, VERIFYING, WAITING_FOR_REVIEW, APPROVED, COMMITTED, COMPLETED] \<le> 10"
proof -
  have "run_path DRAFT [VALIDATED, READY, SIMULATING, PROPOSED_ACTIONS, VERIFYING, WAITING_FOR_REVIEW,
      APPROVED, COMMITTED, COMPLETED] COMPLETED"
    by (simp add: run_path_Cons run_path_Nil can_transition_def)
  with runs_terminate [of COMPLETED "[VALIDATED, READY, SIMULATING, PROPOSED_ACTIONS, VERIFYING,
      WAITING_FOR_REVIEW, APPROVED, COMMITTED, COMPLETED]"] show ?thesis by blast
qed

text \<open>Every way to a commit goes through a review.\<close>

lemma committed_after_approval:
  assumes "run_path s ts u" "u = COMMITTED" "s \<notin> {APPROVED, COMMITTED}"
  shows "APPROVED \<in> set ts"
  using assms
proof (induction rule: run_path.induct)
  case (path_step s t ts u)
  then show ?case by (cases s) (auto simp: can_transition_def)
qed simp

lemma approval_after_review:
  assumes "run_path s ts u" "u = APPROVED" "s \<notin> {APPROVED, WAITING_FOR_REVIEW}"
  shows "WAITING_FOR_REVIEW \<in> set ts"
  using assms
proof (induction rule: run_path.induct)
  case (path_step s t ts u)
  then show ?case by (cases s) (auto simp: can_transition_def)
qed simp

end
