(* ===== verification/LoopRunner.thy ===== *)
theory LoopRunner imports RunStorage Policy RunMachine begin

text \<open>
  Running a loop: the context snapshot (runtime/context-compiler.ts), the verifiers
  (runtime/verifier-runner.ts), \<open>runLoop\<close> (runtime/loop-runner.ts) and \<open>simulateLoop\<close>
  (runtime/simulator.ts). The integration adapters a context source reads and the assessment
  provider that produces the agent's output are external: the functions \<open>read_variable\<close> and
  \<open>generate\<close>, arguments of the definitions.
\<close>

subsection \<open>Context\<close>

type_synonym variable_reader = "run_mode \<Rightarrow> str \<Rightarrow> (str \<Rightarrow> json \<times> bool \<times> freshness) option"

definition source_type_text :: "source_type \<Rightarrow> str" where
  "source_type_text t = (case t of SrcPolicy \<Rightarrow> ''policy'' | SrcFixture \<Rightarrow> ''fixture''
     | SrcIntegration \<Rightarrow> ''integration'' | SrcMemory \<Rightarrow> ''memory'' | SrcEvent \<Rightarrow> ''event'' | SrcTrace \<Rightarrow> ''trace'')"

definition freshness_text :: "freshness \<Rightarrow> str" where
  "freshness_text f = (case f of Realtime \<Rightarrow> ''realtime'' | Hourly \<Rightarrow> ''hourly'' | Daily \<Rightarrow> ''daily''
     | Manual \<Rightarrow> ''manual'' | FromFixture \<Rightarrow> ''fixture'')"

definition source_value ::
  "variable_reader \<Rightarrow> run_mode \<Rightarrow> context_source \<Rightarrow> json \<times> bool \<times> freshness" where
  "source_value read_variable mode s =
     (let default = (if mode = ModeExecute then Realtime else FromFixture)
      in case (if truthy_str (cs_adapter s) then read_variable mode (the (cs_adapter s)) else None) of
           Some read \<Rightarrow>
             if truthy_str (cs_variable s) then read (the (cs_variable s))
             else if cs_type s = SrcPolicy
               then (JObj [(''note'', JStr ''Global system policy''), (''untrustedInstructionIgnored'', JBool True)], True, default)
             else (JNull, cs_trusted s, default)
         | None \<Rightarrow>
             if cs_type s = SrcPolicy
               then (JObj [(''note'', JStr ''Global system policy''), (''untrustedInstructionIgnored'', JBool True)], True, default)
             else (JNull, cs_trusted s, default))"

definition context_entry_for ::
  "runtime \<Rightarrow> variable_reader \<Rightarrow> run_mode \<Rightarrow> redaction_policy \<Rightarrow> instant \<Rightarrow> context_source \<Rightarrow> context_entry" where
  "context_entry_for R read_variable mode redaction simulatedAt s =
     (let (v, trusted, fresh) = source_value read_variable mode s
      in \<lparr>ce_source = cs_id s, ce_type = cs_type s, ce_title = cs_title s, ce_value = v,
          ce_retrieved_at = simulatedAt, ce_freshness = fresh, ce_sensitivity = cs_sensitivity s,
          ce_trusted = trusted,
          ce_redacted = (cs_sensitivity s = Restricted \<and> redaction \<noteq> RedactNone),
          ce_hash = content_hash R (Some v), ce_precedence = cs_precedence s\<rparr>)"

definition context_entry_json :: "context_entry \<Rightarrow> json" where
  "context_entry_json e = jobj
     [(''sourceId'', jstr (ce_source e)), (''sourceType'', jstr (source_type_text (ce_type e))),
      (''title'', jstr (ce_title e)), (''value'', Some (ce_value e)),
      (''retrievedAt'', jstr (iso_instant (ce_retrieved_at e))),
      (''freshness'', jstr (freshness_text (ce_freshness e))),
      (''sensitivity'', jstr (sensitivity_text (ce_sensitivity e))),
      (''trusted'', Some (JBool (ce_trusted e))), (''redactionApplied'', Some (JBool (ce_redacted e))),
      (''contentHash'', jstr (ce_hash e)), (''precedence'', Some (JNum (of_nat (ce_precedence e))))]"

definition compile_context_snapshot ::
  "runtime \<Rightarrow> variable_reader \<Rightarrow> loop_spec \<Rightarrow> run_mode \<Rightarrow> instant \<Rightarrow> context_snapshot" where
  "compile_context_snapshot R read_variable spec mode simulatedAt =
     (let entries = js_sort (\<lambda>a b. int (ce_precedence a) - int (ce_precedence b))
            (map (context_entry_for R read_variable mode (sp_redaction spec) simulatedAt) (sp_sources spec));
          body = jobj [(''loopId'', jstr (sp_id spec)), (''loopSpecVersion'', jstr (sp_version spec)),
            (''createdAt'', jstr (iso_instant simulatedAt)), (''entries'', Some (JArr (map context_entry_json entries)))]
      in \<lparr>cx_id = ''ctx_'' @ content_hash R (Some body), cx_loop = sp_id spec, cx_version = sp_version spec,
          cx_created_at = simulatedAt, cx_hash = content_hash R (Some body),
          cx_token_estimate = sum_list (map (\<lambda>e. length (stringify R (value_or (JStr []) (Some (ce_value e))))) entries),
          cx_entries = entries,
          cx_prompt = js_join [CHR 0x0A, CHR 0x0A]
            (map (\<lambda>e. ''# '' @ ce_title e @ [CHR 0x0A] @ stringify R (ce_value e)) entries)\<rparr>)"

subsection \<open>Verifiers\<close>

definition compare_numeric :: "rat \<Rightarrow> rat \<Rightarrow> str \<Rightarrow> bool" where
  "compare_numeric v t op =
     (if op = ''>'' then v > t else if op = ''>='' then v \<ge> t else if op = ''<'' then v < t
      else if op = ''<='' then v \<le> t else if op = ''=='' then v = t else v \<ge> t)"

definition config_value :: "verifier_binding \<Rightarrow> str \<Rightarrow> json option" where
  "config_value v key = Option.bind (vb_config v) (\<lambda>c. map_of c key)"

definition evidence_needed :: "agent_output \<Rightarrow> bool" where
  "evidence_needed out =
     ((case ao_escalation out of None \<Rightarrow> False | Some x \<Rightarrow> esr_required x) \<or>
      list_ex (\<lambda>a. pa_risk a = RiskHigh \<or> pa_risk a = RiskCritical) (ao_actions out))"

definition run_verifier ::
  "runtime \<Rightarrow> loop_spec \<Rightarrow> agent_output \<Rightarrow> prepared_action list \<Rightarrow> verifier_binding \<Rightarrow> verification_result" where
  "run_verifier R spec out prepared v =
     (case vb_type v of
        VSchema \<Rightarrow> \<lparr>vr_verifier = vb_id v, vr_passed = (ao_summary out \<noteq> []), vr_confidence = 1\<rparr>
      | VPolicy \<Rightarrow>
          \<lparr>vr_verifier = vb_id v,
           vr_passed = (\<not> list_ex (\<lambda>a. find (\<lambda>p. ap_tool p = pre_tool a \<and> ap_allowed p) (sp_allowed spec) = None) prepared),
           vr_confidence = 1\<rparr>
      | VEvidence \<Rightarrow>
          (let passed = (\<not> evidence_needed out \<or> ao_evidence out \<noteq> [])
           in \<lparr>vr_verifier = vb_id v, vr_passed = passed, vr_confidence = (if passed then 1 else 2/5)\<rparr>)
      | VApprovalRequired \<Rightarrow> \<lparr>vr_verifier = vb_id v, vr_passed = True, vr_confidence = 1\<rparr>
      | VNumericThreshold \<Rightarrow>
          (let key = js_string R (value_or (JStr []) (config_value v ''policyInputKey''));
               op = js_string R (value_or (JStr ''>='') (config_value v ''operator''));
               threshold = (case config_value v ''threshold'' of None \<Rightarrow> None | Some JNull \<Rightarrow> None
                            | Some w \<Rightarrow> js_number R (Some w));
               passed = (case (js_number R (policy_input_value out key), threshold) of
                           (Some x, Some t) \<Rightarrow> compare_numeric x t op | _ \<Rightarrow> False)
           in \<lparr>vr_verifier = vb_id v, vr_passed = passed, vr_confidence = (if passed then 1 else 1/2)\<rparr>)
      | VMockJudge \<Rightarrow> \<lparr>vr_verifier = vb_id v, vr_passed = True, vr_confidence = 7/10\<rparr>)"

definition run_verifiers ::
  "runtime \<Rightarrow> loop_spec \<Rightarrow> agent_output \<Rightarrow> prepared_action list \<Rightarrow> verification_result list" where
  "run_verifiers R spec out prepared = map (run_verifier R spec out prepared) (sp_verification spec)"

definition all_verifiers_passed :: "verification_result list \<Rightarrow> bool" where
  "all_verifiers_passed rs = list_all (\<lambda>r. vr_passed r \<or> contains_text (vr_verifier r) ''mock_judge'') rs"

subsection \<open>The run\<close>

record run_input =
  rn_spec :: loop_spec
  rn_mode :: run_mode
  rn_payload :: "(str \<times> json) list"
  rn_event :: str
  rn_started_at :: instant
  rn_simulated_at :: instant
  rn_provenance :: "provenance option"

type_synonym assessment = "loop_spec \<Rightarrow> context_snapshot \<Rightarrow> (str \<times> json) list \<Rightarrow> agent_output option"

definition mode_text :: "run_mode \<Rightarrow> str" where
  "mode_text m = (case m of ModeValidate \<Rightarrow> ''validate'' | ModeSimulate \<Rightarrow> ''simulate''
     | ModeDryRun \<Rightarrow> ''dry-run'' | ModeExecute \<Rightarrow> ''execute'')"

definition check_transition :: "run_status \<Rightarrow> run_status \<Rightarrow> unit run_action" where
  "check_transition from to =
     act_lift (case assert_transition from to of Inl e \<Rightarrow> Inl (BadTransition from to) | Inr u \<Rightarrow> Inr u)"

definition trace_id_for :: "runtime \<Rightarrow> loop_spec \<Rightarrow> str \<Rightarrow> str" where
  "trace_id_for R spec eventId =
     run_id R (loop_spec_hash R spec) (idempotency_key R (sp_version spec) (sp_trigger_source spec) eventId)"

definition initial_call :: "run_mode \<Rightarrow> instant \<Rightarrow> prepared_action \<Rightarrow> tool_call" where
  "initial_call mode startedAt a =
     \<lparr>tc_id = ''tool_'' @ pre_id a, tc_tool = pre_tool a, tc_input = pre_payload a,
      tc_output = Some (JObj [(''mock'', JBool (mode = ModeSimulate))]),
      tc_status = (if pre_requires_approval a then CallPending
                   else if mode = ModeSimulate then CallMockCommitted else CallPending),
      tc_started_at = startedAt,
      tc_completed_at = (if mode = ModeSimulate \<and> \<not> pre_requires_approval a then Some startedAt else None)\<rparr>"

definition run_outcome :: "policy_decision list \<Rightarrow> prepared_action list \<Rightarrow> verification_result list \<Rightarrow> run_status" where
  "run_outcome decisions prepared verifications =
     (if list_ex (\<lambda>d. pd_matched d \<and> pd_action d = ActBlock) decisions then BLOCKED_BY_POLICY
      else if \<not> all_verifiers_passed verifications then FAILED_VERIFICATION
      else if list_ex pd_requires_review decisions \<or> list_ex pre_requires_approval prepared then WAITING_FOR_REVIEW
      else COMPLETED)"

definition default_provenance :: "run_mode \<Rightarrow> loop_spec \<Rightarrow> provenance" where
  "default_provenance mode spec =
     \<lparr>prov_invocation = \<lparr>inv_actor = (if mode = ModeSimulate then ''local-simulator'' else ''loop-runner''),
        inv_source = Some (''loopgraph.'' @ mode_text mode), inv_user = None, inv_session = None,
        inv_attempt = None, inv_commit = None\<rparr>,
      prov_approval = Some (apol_fingerprint (sp_approval spec), apol_separate (sp_approval spec),
        map review_role_text (apol_roles (sp_approval spec))),
      prov_gate_reasons = None\<rparr>"

definition run_trace_for ::
  "runtime \<Rightarrow> run_input \<Rightarrow> context_snapshot \<Rightarrow> agent_output \<Rightarrow> prepared_action list \<Rightarrow> policy_decision list \<Rightarrow>
   verification_result list \<Rightarrow> escalation_case option \<Rightarrow> run_trace" where
  "run_trace_for R i ctx out prepared decisions verifications escalation =
     \<lparr>tr_id = trace_id_for R (rn_spec i) (rn_event i), tr_loop = sp_id (rn_spec i),
      tr_version = sp_version (rn_spec i), tr_hash = loop_spec_hash R (rn_spec i), tr_mode = rn_mode i,
      tr_status = run_outcome decisions prepared verifications, tr_event = rn_event i,
      tr_idempotency = idempotency_key R (sp_version (rn_spec i)) (sp_trigger_source (rn_spec i)) (rn_event i),
      tr_context = ctx, tr_inputs = take 5 (rn_payload i), tr_output = Some out, tr_proposed = ao_actions out,
      tr_prepared = prepared, tr_calls = map (initial_call (rn_mode i) (rn_started_at i)) prepared,
      tr_decisions = decisions, tr_verifications = verifications,
      tr_cases = (case escalation of None \<Rightarrow> [] | Some c \<Rightarrow> [ec_id c]), tr_reviews = [],
      tr_outputs = [(''output_1'', ''assessment'')], tr_tasks = None, tr_metrics = [], tr_errors = [],
      tr_provenance = Some (opt_or (rn_provenance i) (default_provenance (rn_mode i) (rn_spec i))),
      tr_started_at = rn_started_at i, tr_completed_at = Some (rn_started_at i)\<rparr>"

definition escalation_for ::
  "run_input \<Rightarrow> str \<Rightarrow> agent_output \<Rightarrow> prepared_action list \<Rightarrow> policy_decision list \<Rightarrow> escalation_case option" where
  "escalation_for i traceId out prepared decisions =
     (if should_create_escalation_case decisions \<or>
         (case ao_escalation out of None \<Rightarrow> False | Some x \<Rightarrow> esr_required x)
      then build_escalation_case (rn_spec i) traceId out prepared decisions (rn_started_at i) else None)"

definition run_loop ::
  "runtime \<Rightarrow> variable_reader \<Rightarrow> assessment \<Rightarrow> run_input \<Rightarrow> (run_trace \<times> escalation_case option) run_action" where
  "run_loop R read_variable generate i =
     act_bind (check_transition DRAFT VALIDATED) (\<lambda>_.
     act_bind (check_transition VALIDATED READY) (\<lambda>_.
     act_bind (check_transition READY SIMULATING) (\<lambda>_.
     (let spec = rn_spec i; ctx = compile_context_snapshot R read_variable spec (rn_mode i) (rn_simulated_at i)
      in act_bind (act_lift (case generate spec ctx (rn_payload i) of None \<Rightarrow> Inl AssessmentFailed | Some out \<Rightarrow> Inr out)) (\<lambda>out.
         (let prepared = prepare_actions_from_proposed R (ao_actions out)
          in act_bind (act_lift (case evaluate_policy R spec out prepared of None \<Rightarrow> Inl PolicyThrew | Some ds \<Rightarrow> Inr ds)) (\<lambda>ds.
             (let verifications = run_verifiers R spec out prepared;
                  escalation = escalation_for i (trace_id_for R spec (rn_event i)) out prepared ds;
                  trace = run_trace_for R i ctx out prepared ds verifications escalation
              in act_bind (case escalation of None \<Rightarrow> act_return () | Some c \<Rightarrow> save_escalation_case c) (\<lambda>_.
                 act_bind (save_run trace) (\<lambda>_. act_return (trace, escalation)))))))))))"

text \<open>\<open>simulateLoop\<close>: the run of a fixture, with its event and time.\<close>

definition simulate_loop ::
  "runtime \<Rightarrow> variable_reader \<Rightarrow> assessment \<Rightarrow> loop_spec \<Rightarrow> (str \<times> json) list \<Rightarrow> str \<Rightarrow> instant \<Rightarrow> provenance option \<Rightarrow>
   (run_trace \<times> escalation_case option) run_action" where
  "simulate_loop R read_variable generate spec fixture eventId simulatedAt prov =
     run_loop R read_variable generate
       \<lparr>rn_spec = spec, rn_mode = ModeSimulate, rn_payload = fixture, rn_event = eventId,
        rn_started_at = simulatedAt, rn_simulated_at = simulatedAt, rn_provenance = prov\<rparr>"

subsection \<open>What a run establishes\<close>

lemma check_transition_ok [simp]: "can_transition from to \<Longrightarrow> check_transition from to s = (Inr (), s)"
  by (simp add: check_transition_def assert_transition_def require_def)

lemma run_loop_Inr:
  assumes "run_loop R read_variable generate i s = (Inr (t, c), s')"
  defines "ctx \<equiv> compile_context_snapshot R read_variable (rn_spec i) (rn_mode i) (rn_simulated_at i)"
  obtains out ds s1 where
    "generate (rn_spec i) ctx (rn_payload i) = Some out"
    "evaluate_policy R (rn_spec i) out (prepare_actions_from_proposed R (ao_actions out)) = Some ds"
    "t = run_trace_for R i ctx out (prepare_actions_from_proposed R (ao_actions out)) ds
       (run_verifiers R (rn_spec i) out (prepare_actions_from_proposed R (ao_actions out))) c"
    "case c of None \<Rightarrow> s1 = s | Some x \<Rightarrow> save_escalation_case x s = (Inr (), s1)"
    "save_run t s1 = (Inr (), s')"
proof -
  have steps: "can_transition DRAFT VALIDATED" "can_transition VALIDATED READY" "can_transition READY SIMULATING"
    by (simp_all add: can_transition_def)
  from assms(1) show ?thesis
    unfolding run_loop_def Let_def ctx_def [symmetric]
    by (auto simp: act_bind_Inr steps split: option.splits intro: that)
qed

lemma prepared_fields:
  "a \<in> set (prepare_actions_from_proposed R acts) \<Longrightarrow>
   \<exists>p\<in>set acts. pre_tool a = pa_tool p \<and> pre_requires_approval a = pa_requires_approval p \<and>
     pre_fingerprint a = content_hash R (Some (JObj (pre_payload a)))"
  by (auto simp: prepare_actions_from_proposed_def)


lemma run_loop_saves:
  assumes "run_loop R read_variable generate i s = (Inr (t, c), s')" "storage_wf s"
  shows "storage_wf s' \<and> get_run s' (tr_id t) = Some t"
  using assms(1)
proof (cases rule: run_loop_Inr)
  case (1 out ds s1)
  have wf: "storage_wf s1"
    using 1(4) assms(2) save_case_wf [OF assms(2)] by (cases c) (auto, metis snd_conv)
  from 1(5) have "safe_record_id (tr_id t)" "s' = snd (save_run t s1)"
    by (auto simp: save_run_run split: if_splits)
  with wf show ?thesis by (simp add: runs.get_saved save_run_wf)
qed

definition run_blocked :: "loop_spec \<Rightarrow> agent_output \<Rightarrow> bool" where
  "run_blocked spec out \<longleftrightarrow> tool_forbidden spec out \<or> (\<exists>a\<in>set (ao_actions out). \<not> tool_allowed spec (pa_tool a))"

definition review_required :: "runtime \<Rightarrow> loop_spec \<Rightarrow> agent_output \<Rightarrow> bool" where
  "review_required R spec out \<longleftrightarrow> escalation_review R spec out \<or>
     (\<exists>a\<in>set (ao_actions out). pa_requires_approval a \<or>
        (\<exists>p. action_policy_for spec (pa_tool a) = Some p \<and> ap_requires_approval p))"

lemma run_outcome_cases:
  assumes ev: "evaluate_policy R spec out prepared = Some ds"
    and prep: "prepared = prepare_actions_from_proposed R (ao_actions out)"
  shows "run_outcome ds prepared vs =
    (if run_blocked spec out then BLOCKED_BY_POLICY
     else if \<not> all_verifiers_passed vs then FAILED_VERIFICATION
     else if review_required R spec out then WAITING_FOR_REVIEW else COMPLETED)"
proof -
  have tools: "(\<exists>a\<in>set prepared. Q (pre_tool a) (pre_requires_approval a)) \<longleftrightarrow>
      (\<exists>a\<in>set (ao_actions out). Q (pa_tool a) (pa_requires_approval a))" for Q
    by (simp add: prep prepare_actions_from_proposed_def)
  have blocked: "list_ex (\<lambda>d. pd_matched d \<and> pd_action d = ActBlock) ds \<longleftrightarrow> run_blocked spec out"
    unfolding list_ex_iff policy_blocks_iff [OF ev] run_blocked_def
    using tools [of "\<lambda>t _. \<not> tool_allowed spec t"] by simp
  have review: "(list_ex pd_requires_review ds \<or> list_ex pre_requires_approval prepared) \<longleftrightarrow> review_required R spec out"
    if "\<not> run_blocked spec out"
  proof -
    have "\<forall>a\<in>set prepared. tool_allowed spec (pre_tool a)"
      using that tools [of "\<lambda>t _. \<not> tool_allowed spec t"] by (auto simp: run_blocked_def)
    from policy_review_iff [OF ev this] show ?thesis
      using tools [of "\<lambda>t r. r \<or> (\<exists>p. action_policy_for spec t = Some p \<and> ap_requires_approval p)"]
      by (auto simp: list_ex_iff review_required_def approval_needed_def)
  qed
  show ?thesis
    unfolding run_outcome_def blocked using review by simp
qed

text \<open>
  C32: what a run concludes. A run that succeeds is stored under its identifier; it is blocked
  exactly when it proposes a forbidden tool or one its policy does not allow, and otherwise fails
  verification exactly when a verifier failed, waits for a review exactly when an action or a
  matching escalation rule asks for approval, and is complete exactly in the remaining case; the
  table of transitions allows the whole path from the draft to that status.
\<close>

theorem run_loop_outcome:
  assumes "run_loop R read_variable generate i s = (Inr (t, c), s')" and "storage_wf s"
  shows "get_run s' (tr_id t) = Some t \<and> tr_id t = trace_id_for R (rn_spec i) (rn_event i) \<and>
    run_path DRAFT [VALIDATED, READY, SIMULATING, PROPOSED_ACTIONS, VERIFYING, tr_status t] (tr_status t) \<and>
    (\<exists>out. tr_output t = Some out \<and>
       tr_status t =
         (if run_blocked (rn_spec i) out then BLOCKED_BY_POLICY
          else if \<not> all_verifiers_passed (tr_verifications t) then FAILED_VERIFICATION
          else if review_required R (rn_spec i) out then WAITING_FOR_REVIEW else COMPLETED))"
  using assms(1)
proof (cases rule: run_loop_Inr)
  case (1 out ds s1)
  have st: "tr_status t = (if run_blocked (rn_spec i) out then BLOCKED_BY_POLICY
      else if \<not> all_verifiers_passed (tr_verifications t) then FAILED_VERIFICATION
      else if review_required R (rn_spec i) out then WAITING_FOR_REVIEW else COMPLETED)"
    using run_outcome_cases [OF 1(2) refl] by (simp add: 1(3) run_trace_for_def)
  have "run_path DRAFT [VALIDATED, READY, SIMULATING, PROPOSED_ACTIONS, VERIFYING, tr_status t] (tr_status t)"
    unfolding st by (simp add: run_path_Cons run_path_Nil can_transition_def)
  moreover have "tr_output t = Some out" "tr_id t = trace_id_for R (rn_spec i) (rn_event i)"
    by (simp_all add: 1(3) run_trace_for_def)
  ultimately show ?thesis using run_loop_saves [OF assms] st by blast
qed

text \<open>
  C33: no action that needs approval is committed by a run. In the trace of a run every tool call
  whose prepared action requires approval is pending, a run in execute mode commits nothing at all,
  and a completed run contains no action that requires approval.
\<close>

theorem run_commits_nothing_unapproved:
  assumes "run_loop R read_variable generate i s = (Inr (t, c), s')"
  shows "length (tr_calls t) = length (tr_prepared t) \<and>
    (\<forall>(a, k)\<in>set (zip (tr_prepared t) (tr_calls t)). tc_tool k = pre_tool a \<and> tc_input k = pre_payload a \<and>
       (pre_requires_approval a \<or> tr_mode t = ModeExecute \<longrightarrow> tc_status k = CallPending)) \<and>
    (tr_status t = COMPLETED \<longrightarrow> (\<forall>a\<in>set (tr_prepared t). \<not> pre_requires_approval a))"
  using assms
proof (cases rule: run_loop_Inr)
  case (1 out ds s1)
  let ?p = "prepare_actions_from_proposed R (ao_actions out)"
  have "tr_calls t = map (initial_call (tr_mode t) (rn_started_at i)) (tr_prepared t)"
    "tr_status t = run_outcome ds (tr_prepared t) (tr_verifications t)"
    by (simp_all add: 1(3) run_trace_for_def)
  then show ?thesis
    by (auto simp: zip_map2 zip_same_conv_map initial_call_def run_outcome_def list_ex_iff split: if_splits)
qed

lemma distinct_filter_one:
  "distinct (map f xs) \<Longrightarrow> x \<in> set xs \<Longrightarrow> length (filter (\<lambda>y. f y = f x) xs) = 1"
proof (induction xs)
  case (Cons a xs)
  show ?case
  proof (cases "x = a")
    case True
    then have "filter (\<lambda>y. f y = f x) xs = []" using Cons.prems(1) by (auto simp: filter_empty_conv image_iff)
    with True show ?thesis by simp
  next
    case False
    with Cons show ?thesis by auto
  qed
qed simp

text \<open>
  Running the same event again is the same run. The identifier of a run depends only on the
  specification and the event, so the second run of an event replaces the trace of the first and
  the storage never holds two runs of one event and specification.
\<close>

theorem rerun_replaces_trace:
  assumes "run_loop R rv gen i s = (Inr (t, c), s1)" and "run_loop R rv' gen' i' s1 = (Inr (t', c'), s2)"
    and "rn_spec i' = rn_spec i" and "rn_event i' = rn_event i" and "storage_wf s"
  shows "tr_id t' = tr_id t \<and> get_run s2 (tr_id t) = Some t' \<and>
    length (filter (\<lambda>x. ri_id x = tr_id t) (list_runs s2)) = 1"
proof -
  have wf1: "storage_wf s1" using run_loop_saves [OF assms(1,5)] by simp
  have s2: "storage_wf s2" "get_run s2 (tr_id t') = Some t'" using run_loop_saves [OF assms(2) wf1] by simp_all
  have id: "tr_id t' = tr_id t"
    using assms(1-4) by (auto elim!: run_loop_Inr simp: run_trace_for_def)
  have "t' \<in> set (stored_runs s2)" using s2 by (simp add: runs.get_iff)
  then have "\<lparr>ri_id = tr_id t', ri_loop = tr_loop t', ri_status = tr_status t'\<rparr> \<in> set (list_runs s2)"
    using s2(1) by (auto simp: storage_wf_def list_runs_def)
  moreover have "distinct (map ri_id (list_runs s2))"
    using s2(1) by (simp add: storage_wf_def list_runs_def)
  ultimately have "length (filter (\<lambda>x. ri_id x = tr_id t) (list_runs s2)) = 1"
    using id distinct_filter_one [of ri_id "list_runs s2"] by fastforce
  with id s2(2) show ?thesis by simp
qed

end
