(* ===== verification/ExecutionGate.thy ===== *)
theory ExecutionGate imports LoopSpecRules LoopRunner begin

text \<open>
  The live execution gate (runtime/executor.ts): the activation mode, the entry of webhooks, the
  policy of every write-capable tool and allowed action, and the connections the loop needs; and
  \<open>executeLoop\<close>, which runs a loop only through the gate. The connection plan is the argument
  \<open>plan\<close> (given, or built from the project: \<open>None\<close> when there is no project either). A reason is
  a constructor with the parts its message is made of, so reasons are equal when their texts are.
\<close>

datatype required_for = ForDesign | ForSimulation | ForExecution | ForRouting

datatype capability_status = CapMissing | CapManualFallback | CapConnected | CapDegraded

datatype connection_environment = ConnSimulate | ConnSandbox | ConnLive

record compatible_connection =
  cc_instance :: str
  cc_manifest :: str
  cc_status :: capability_status
  cc_environment :: connection_environment

record plan_item =
  pli_capability :: str
  pli_status :: capability_status
  pli_connections :: "compatible_connection list"

datatype gate_reason =
    RoutingContractRequired
  | ActivationModeNotLive activation_mode
  | WebhooksMustEnterThroughHermes str
  | WriteToolPolicyMissing str
  | AutonomousWriteRiskTooHigh str risk_level
  | AutonomousCustomerFacingBlocked str
  | RiskyWriteRequiresApproval str risk_level
  | CustomerFacingRequiresApproval str
  | FingerprintApprovalRequired str
  | CustomerFacingSeparationRequired str
  | ActionMissingApproval str
  | AutonomousPolicyRiskTooHigh str risk_level
  | CustomerFacingPolicySeparationRequired str
  | RiskyPolicyRequiresApproval str risk_level
  | ProjectRootRequired
  | RequirementMissingFromPlan required_for str
  | ConnectionNotReady str capability_status "connection_environment list"

record connector_check =
  chk_capability :: str
  chk_required_for :: required_for
  chk_status :: capability_status
  chk_instances :: "(str \<times> str \<times> connection_environment) list"

record gate_result =
  gate_allowed :: bool
  gate_mode :: "activation_mode option"
  gate_checked_at :: instant
  gate_reasons :: "gate_reason list"
  gate_checks :: "connector_check list"

subsection \<open>Policy of the actions\<close>

definition risk_index :: "risk_level \<Rightarrow> nat" where
  "risk_index r = (case r of RiskLow \<Rightarrow> 0 | RiskMedium \<Rightarrow> 1 | RiskHigh \<Rightarrow> 2 | RiskCritical \<Rightarrow> 3)"

definition highest_risk :: "risk_level \<Rightarrow> risk_level option \<Rightarrow> risk_level" where
  "highest_risk left right =
     (case right of None \<Rightarrow> left | Some r \<Rightarrow> if risk_index left > risk_index r then left else r)"

definition tool_gate_reasons :: "loop_spec \<Rightarrow> activation_mode option \<Rightarrow> tool_binding \<Rightarrow> gate_reason list" where
  "tool_gate_reasons spec mode t =
     (let policy = map_by ap_tool (sp_allowed spec) (tb_key t);
          risk = highest_risk (tb_risk t) (map_option ap_risk policy)
      in case policy of
           None \<Rightarrow> [WriteToolPolicyMissing (tb_key t)]
         | Some p \<Rightarrow>
             if \<not> ap_allowed p then [WriteToolPolicyMissing (tb_key t)]
             else
               (if mode = Some AutonomousLowRisk \<and> risk \<noteq> RiskLow
                then [AutonomousWriteRiskTooHigh (tb_key t) risk] else []) @
               (if mode = Some AutonomousLowRisk \<and> ap_customer_facing p
                then [AutonomousCustomerFacingBlocked (tb_key t)] else []) @
               (if risk \<noteq> RiskLow \<and> \<not> ap_requires_approval p
                then [RiskyWriteRequiresApproval (tb_key t) risk] else []) @
               (if ap_customer_facing p \<and> \<not> ap_requires_approval p
                then [CustomerFacingRequiresApproval (tb_key t)] else []) @
               (if ap_requires_approval p \<and> \<not> apol_fingerprint (sp_approval spec)
                then [FingerprintApprovalRequired (tb_key t)] else []) @
               (if ap_customer_facing p \<and> \<not> apol_separate (sp_approval spec)
                then [CustomerFacingSeparationRequired (tb_key t)] else []))"

definition action_gate_reasons :: "loop_spec \<Rightarrow> activation_mode option \<Rightarrow> action_policy \<Rightarrow> gate_reason list" where
  "action_gate_reasons spec mode a =
     (if mode = Some ExecuteWithApproval \<and> \<not> ap_requires_approval a then [ActionMissingApproval (ap_tool a)] else []) @
     (if mode = Some AutonomousLowRisk \<and> ap_risk a \<noteq> RiskLow
      then [AutonomousPolicyRiskTooHigh (ap_tool a) (ap_risk a)] else []) @
     (if ap_customer_facing a \<and> \<not> apol_separate (sp_approval spec)
      then [CustomerFacingPolicySeparationRequired (ap_tool a)] else []) @
     (if ap_risk a \<noteq> RiskLow \<and> \<not> ap_requires_approval a
      then [RiskyPolicyRequiresApproval (ap_tool a) (ap_risk a)] else [])"

definition evaluate_action_policy_gate :: "loop_spec \<Rightarrow> activation_mode option \<Rightarrow> gate_reason list" where
  "evaluate_action_policy_gate spec mode =
     uniq (concat (map (tool_gate_reasons spec mode) (filter tb_write_capable (sp_tools spec))) @
           concat (map (action_gate_reasons spec mode) (filter ap_allowed (sp_allowed spec))))"

subsection \<open>Connections\<close>

definition parse_required_for :: "json option \<Rightarrow> required_for option" where
  "parse_required_for v =
     (if v = Some (JStr ''design'') then Some ForDesign
      else if v = Some (JStr ''simulation'') then Some ForSimulation
      else if v = Some (JStr ''execution'') then Some ForExecution
      else if v = Some (JStr ''routing'') then Some ForRouting else None)"

definition design_requirement :: "json option \<times> json option \<Rightarrow> (str \<times> required_for) list" where
  "design_requirement = (\<lambda>(capability, requiredFor).
     (let c = (case capability of Some (JStr s) \<Rightarrow> js_trim s | _ \<Rightarrow> []);
          f = opt_or (parse_required_for requiredFor) ForExecution
      in if c = [] \<or> f = ForDesign \<or> f = ForSimulation then [] else [(c, f)]))"

definition live_connection_requirements :: "loop_spec \<Rightarrow> (str \<times> required_for) list" where
  "live_connection_requirements spec =
     uniq (map (\<lambda>c. (c, ForRouting)) (case sp_routing spec of None \<Rightarrow> [] | Some c \<Rightarrow> ct_required_connections c) @
           concat (map design_requirement (sp_connector_requirements spec)))"

definition runtime_instances :: "plan_item option \<Rightarrow> (str \<times> str \<times> connection_environment) list" where
  "runtime_instances item =
     (case item of None \<Rightarrow> []
      | Some x \<Rightarrow> map (\<lambda>c. (cc_instance c, cc_manifest c, cc_environment c))
          (filter (\<lambda>c. cc_status c = CapConnected \<and> cc_environment c \<noteq> ConnSimulate) (pli_connections x)))"

definition requirement_reasons :: "plan_item list \<Rightarrow> str \<times> required_for \<Rightarrow> gate_reason list" where
  "requirement_reasons items = (\<lambda>(capability, requiredFor).
     (case map_by pli_capability items capability of
        None \<Rightarrow> [RequirementMissingFromPlan requiredFor capability]
      | Some x \<Rightarrow>
          if pli_status x \<noteq> CapConnected \<or> runtime_instances (Some x) = []
          then [ConnectionNotReady capability (pli_status x) (map cc_environment (pli_connections x))] else []))"

definition requirement_check :: "plan_item list \<Rightarrow> str \<times> required_for \<Rightarrow> connector_check" where
  "requirement_check items = (\<lambda>(capability, requiredFor).
     (let item = map_by pli_capability items capability
      in \<lparr>chk_capability = capability, chk_required_for = requiredFor,
          chk_status = opt_or (map_option pli_status item) CapMissing, chk_instances = runtime_instances item\<rparr>))"

definition evaluate_connection_gate ::
  "loop_spec \<Rightarrow> plan_item list option \<Rightarrow> gate_reason list \<times> connector_check list" where
  "evaluate_connection_gate spec plan =
     (let requirements = live_connection_requirements spec
      in if requirements = [] then ([], [])
         else (case plan of
             None \<Rightarrow> ([ProjectRootRequired],
               map (\<lambda>(c, f). \<lparr>chk_capability = c, chk_required_for = f, chk_status = CapMissing, chk_instances = []\<rparr>) requirements)
           | Some items \<Rightarrow> (uniq (concat (map (requirement_reasons items) requirements)),
               map (requirement_check items) requirements)))"

subsection \<open>The gate\<close>

definition is_hermes_source :: "str \<Rightarrow> bool" where
  "is_hermes_source s =
     (js_lower (js_trim s) \<in> {''hermes'', ''hermes_agent'', ''hermes-agent'', ''loopgraph-hermes''})"

definition live_mode :: "activation_mode \<Rightarrow> bool" where
  "live_mode m = (m \<in> {ExecuteWithApproval, AutonomousLowRisk})"

definition evaluate_live_execution_gate :: "loop_spec \<Rightarrow> plan_item list option \<Rightarrow> instant \<Rightarrow> gate_result" where
  "evaluate_live_execution_gate spec plan now =
     (let mode = map_option ct_activation (sp_routing spec);
          (connectionReasons, checks) = evaluate_connection_gate spec plan;
          reasons =
            (case mode of None \<Rightarrow> [RoutingContractRequired]
             | Some m \<Rightarrow> if \<not> live_mode m then [ActivationModeNotLive m] else []) @
            (if sp_trigger_type spec = TrigWebhook \<and> \<not> is_hermes_source (sp_trigger_source spec)
             then [WebhooksMustEnterThroughHermes (sp_trigger_source spec)] else []) @
            evaluate_action_policy_gate spec mode @ connectionReasons
      in \<lparr>gate_allowed = (reasons = []), gate_mode = mode, gate_checked_at = now, gate_reasons = reasons,
          gate_checks = checks\<rparr>)"

datatype execute_error = ExecuteDisabled | GateFailed "gate_reason list" | RunFailed run_failure

record invocation_input =
  ivi_actor :: "str option"
  ivi_source :: "str option"
  ivi_user :: "str option"
  ivi_session :: "str option"
  ivi_attempt :: "str option"
  ivi_commit :: "str option"

definition nonempty :: "str option \<Rightarrow> str option" where
  "nonempty s = (if truthy_str s then s else None)"

text \<open>\<open>reason_code\<close> stands for the texts of the codes; one name per constructor.\<close>

definition build_execution_provenance ::
  "(gate_reason \<Rightarrow> str) \<Rightarrow> loop_spec \<Rightarrow> gate_result \<Rightarrow> invocation_input option \<Rightarrow> provenance" where
  "build_execution_provenance reason_code spec gate by =
     \<lparr>prov_invocation =
        \<lparr>inv_actor = opt_or (Option.bind by ivi_actor) ''cli'',
         inv_source = Some (opt_or (Option.bind by ivi_source) ''loopgraph.execute''),
         inv_user = nonempty (Option.bind by ivi_user), inv_session = nonempty (Option.bind by ivi_session),
         inv_attempt = nonempty (Option.bind by ivi_attempt), inv_commit = nonempty (Option.bind by ivi_commit)\<rparr>,
      prov_approval = Some (apol_fingerprint (sp_approval spec), apol_separate (sp_approval spec),
        map review_role_text (apol_roles (sp_approval spec))),
      prov_gate_reasons = Some (map reason_code (gate_reasons gate))\<rparr>"

record execute_input =
  xi_spec :: loop_spec
  xi_payload :: "(str \<times> json) list"
  xi_event :: str
  xi_started_at :: instant
  xi_now :: instant
  xi_plan :: "plan_item list option"
  xi_invoked_by :: "invocation_input option"

definition execute_loop ::
  "runtime \<Rightarrow> variable_reader \<Rightarrow> assessment \<Rightarrow> (gate_reason \<Rightarrow> str) \<Rightarrow> bool \<Rightarrow> execute_input \<Rightarrow>
   (run_storage, execute_error, run_trace \<times> escalation_case option) action" where
  "execute_loop R rv generate reason_code enabled i =
     act_bind (act_lift (require enabled ExecuteDisabled)) (\<lambda>_.
     (let gate = evaluate_live_execution_gate (xi_spec i) (xi_plan i) (xi_now i)
      in act_bind (act_lift (require (gate_allowed gate) (GateFailed (gate_reasons gate)))) (\<lambda>_.
         \<lambda>s. (case run_loop R rv generate
             \<lparr>rn_spec = xi_spec i, rn_mode = ModeExecute, rn_payload = xi_payload i, rn_event = xi_event i,
              rn_started_at = xi_started_at i, rn_simulated_at = xi_now i,
              rn_provenance = Some (build_execution_provenance reason_code (xi_spec i) gate (xi_invoked_by i))\<rparr> s of
             (Inl e, s') \<Rightarrow> (Inl (RunFailed e), s') | (Inr r, s') \<Rightarrow> (Inr r, s')))))"

subsection \<open>What the gate lets through\<close>

definition write_tool_safe :: "loop_spec \<Rightarrow> activation_mode \<Rightarrow> tool_binding \<Rightarrow> bool" where
  "write_tool_safe spec mode t \<longleftrightarrow>
     (\<exists>p. map_by ap_tool (sp_allowed spec) (tb_key t) = Some p \<and> ap_allowed p \<and>
        (mode = AutonomousLowRisk \<longrightarrow> tb_risk t = RiskLow \<and> ap_risk p = RiskLow \<and> \<not> ap_customer_facing p) \<and>
        (tb_risk t \<noteq> RiskLow \<or> ap_risk p \<noteq> RiskLow \<or> ap_customer_facing p \<longrightarrow> ap_requires_approval p) \<and>
        (ap_requires_approval p \<longrightarrow> apol_fingerprint (sp_approval spec)) \<and>
        (ap_customer_facing p \<longrightarrow> apol_separate (sp_approval spec)))"

definition allowed_action_safe :: "loop_spec \<Rightarrow> activation_mode \<Rightarrow> action_policy \<Rightarrow> bool" where
  "allowed_action_safe spec mode a \<longleftrightarrow>
     (mode = ExecuteWithApproval \<longrightarrow> ap_requires_approval a) \<and>
     (mode = AutonomousLowRisk \<longrightarrow> ap_risk a = RiskLow) \<and>
     (ap_customer_facing a \<longrightarrow> apol_separate (sp_approval spec)) \<and>
     (ap_risk a \<noteq> RiskLow \<longrightarrow> ap_requires_approval a)"

definition requirement_connected :: "plan_item list \<Rightarrow> str \<Rightarrow> bool" where
  "requirement_connected items capability \<longleftrightarrow>
     (\<exists>x. map_by pli_capability items capability = Some x \<and> pli_status x = CapConnected \<and>
        (\<exists>c\<in>set (pli_connections x). cc_status c = CapConnected \<and> cc_environment c \<noteq> ConnSimulate))"

lemma highest_risk_low:
  "highest_risk l r = RiskLow \<longleftrightarrow> l = RiskLow \<and> (\<forall>x. r = Some x \<longrightarrow> x = RiskLow)"
proof (cases r)
  case (Some x)
  then show ?thesis by (cases l; cases x) (simp_all add: highest_risk_def risk_index_def)
qed (simp add: highest_risk_def)

lemma tool_gate_Nil: "tool_gate_reasons spec (Some mode) t = [] \<longleftrightarrow> write_tool_safe spec mode t"
proof (cases "map_by ap_tool (sp_allowed spec) (tb_key t)")
  case (Some p)
  have low: "highest_risk (tb_risk t) (Some (ap_risk p)) = RiskLow \<longleftrightarrow> tb_risk t = RiskLow \<and> ap_risk p = RiskLow"
    by (simp add: highest_risk_low)
  show ?thesis
    unfolding tool_gate_reasons_def write_tool_safe_def Let_def Some option.map option.case
    using low by (cases "highest_risk (tb_risk t) (Some (ap_risk p)) = RiskLow") auto
qed (simp add: tool_gate_reasons_def write_tool_safe_def)

lemma action_gate_Nil: "action_gate_reasons spec (Some mode) a = [] \<longleftrightarrow> allowed_action_safe spec mode a"
  by (auto simp: action_gate_reasons_def allowed_action_safe_def)

lemma runtime_instances_Nil:
  "runtime_instances (Some x) \<noteq> [] \<longleftrightarrow>
   (\<exists>c\<in>set (pli_connections x). cc_status c = CapConnected \<and> cc_environment c \<noteq> ConnSimulate)"
  by (auto simp: runtime_instances_def filter_empty_conv)

lemma requirement_Nil: "requirement_reasons items (c, f) = [] \<longleftrightarrow> requirement_connected items c"
  unfolding requirement_reasons_def requirement_connected_def prod.case
  using runtime_instances_Nil by (auto split: option.splits)

lemma connection_gate_Nil:
  "fst (evaluate_connection_gate spec plan) = [] \<longleftrightarrow>
   live_connection_requirements spec = [] \<or>
   (\<exists>items. plan = Some items \<and> (\<forall>(c, f)\<in>set (live_connection_requirements spec). requirement_connected items c))"
  by (auto simp: evaluate_connection_gate_def Let_def requirement_Nil concat_map_nil
      simp del: concat_eq_Nil_conv split: option.splits)

text \<open>
  C28: the gate is exactly the safety policy. Live execution is allowed if and only if the loop has a
  routing contract in a live mode, its webhooks come in through Hermes, every write-capable tool
  and every allowed action satisfies the rules of its risk (approval for anything risky or
  customer-facing, bound to the fingerprint, separate for customers; only low-risk internal writes
  when autonomous), and every connection it needs is connected outside simulation.
\<close>

theorem gate_allows_iff:
  "gate_allowed (evaluate_live_execution_gate spec plan now) \<longleftrightarrow>
     (\<exists>c. sp_routing spec = Some c \<and> live_mode (ct_activation c) \<and>
        (sp_trigger_type spec = TrigWebhook \<longrightarrow> is_hermes_source (sp_trigger_source spec)) \<and>
        (\<forall>t\<in>set (sp_tools spec). tb_write_capable t \<longrightarrow> write_tool_safe spec (ct_activation c) t) \<and>
        (\<forall>a\<in>set (sp_allowed spec). ap_allowed a \<longrightarrow> allowed_action_safe spec (ct_activation c) a) \<and>
        (live_connection_requirements spec = [] \<or>
         (\<exists>items. plan = Some items \<and>
            (\<forall>(k, f)\<in>set (live_connection_requirements spec). requirement_connected items k))))"
proof (cases "sp_routing spec")
  case None
  then show ?thesis by (simp add: evaluate_live_execution_gate_def Let_def split: prod.split)
next
  case (Some c)
  have policy: "evaluate_action_policy_gate spec (Some (ct_activation c)) = [] \<longleftrightarrow>
      (\<forall>t\<in>set (sp_tools spec). tb_write_capable t \<longrightarrow> write_tool_safe spec (ct_activation c) t) \<and>
      (\<forall>a\<in>set (sp_allowed spec). ap_allowed a \<longrightarrow> allowed_action_safe spec (ct_activation c) a)"
    unfolding evaluate_action_policy_gate_def uniq_Nil_iff append_is_Nil_conv concat_map_nil tool_gate_Nil action_gate_Nil
    by auto
  obtain reasons checks where g: "evaluate_connection_gate spec plan = (reasons, checks)" by fastforce
  with connection_gate_Nil [of spec plan]
  have conn: "reasons = [] \<longleftrightarrow> live_connection_requirements spec = [] \<or>
      (\<exists>items. plan = Some items \<and> (\<forall>(k, f)\<in>set (live_connection_requirements spec). requirement_connected items k))"
    by simp
  show ?thesis
    unfolding evaluate_live_execution_gate_def Let_def g prod.case gate_result.simps
    by (simp add: Some policy conn)
qed

text \<open>
  C23: nothing executes past a closed gate. When execution succeeds, it was enabled and the gate
  was open; the stored run carries the provenance of that gate, and no tool call of it is committed
  (an action waits for its approval or for the autonomous commit of the worker). When execution is
  disabled or the gate is closed, the storage is unchanged.
\<close>

theorem execute_loop_gated:
  assumes "execute_loop R rv generate reason_code enabled i s = (out, s')"
  shows "(\<forall>t c. out = Inr (t, c) \<longrightarrow>
      enabled \<and> gate_allowed (evaluate_live_execution_gate (xi_spec i) (xi_plan i) (xi_now i)) \<and>
      tr_provenance t = Some (build_execution_provenance reason_code (xi_spec i)
        (evaluate_live_execution_gate (xi_spec i) (xi_plan i) (xi_now i)) (xi_invoked_by i)) \<and>
      (\<forall>k\<in>set (tr_calls t). tc_status k = CallPending)) \<and>
    (\<not> enabled \<or> \<not> gate_allowed (evaluate_live_execution_gate (xi_spec i) (xi_plan i) (xi_now i)) \<longrightarrow> s' = s)"
proof -
  let ?g = "evaluate_live_execution_gate (xi_spec i) (xi_plan i) (xi_now i)"
  let ?i = "\<lparr>rn_spec = xi_spec i, rn_mode = ModeExecute, rn_payload = xi_payload i, rn_event = xi_event i,
      rn_started_at = xi_started_at i, rn_simulated_at = xi_now i,
      rn_provenance = Some (build_execution_provenance reason_code (xi_spec i) ?g (xi_invoked_by i))\<rparr>"
  have closed: "s' = s" if "\<not> enabled \<or> \<not> gate_allowed ?g"
    using that assms by (cases enabled) (auto simp: execute_loop_def Let_def act_bind_run require_def)
  have "enabled \<and> gate_allowed ?g \<and> tr_provenance t = rn_provenance ?i \<and> (\<forall>k\<in>set (tr_calls t). tc_status k = CallPending)"
    if "out = Inr (t, c)" for t c
  proof -
    from that assms have en: "enabled" "gate_allowed ?g" and run: "run_loop R rv generate ?i s = (Inr (t, c), s')"
      by (auto simp: execute_loop_def Let_def act_bind_run require_def split: if_splits sum.splits prod.splits)
    from run show ?thesis
    proof (cases rule: run_loop_Inr)
      case (1 out ds s1)
      with en show ?thesis by (auto simp: run_trace_for_def initial_call_def)
    qed
  qed
  with closed show ?thesis by auto
qed

end
