(* ===== verification/RoutingSubmit.thy ===== *)
theory RoutingSubmit imports RoutingStore begin

text \<open>
  Submission of a routing decision (\<open>submitRoutingDecision\<close> of runtime/routing-store.ts and the
  functions it calls): the decision is validated against the recorded event and the catalog, the
  problem it names is created or updated, and every selected loop gets a commit and a job.
\<close>

subsection \<open>The canonical problem of a decision\<close>

definition canonical_problem_type :: "routing_decision \<Rightarrow> routing_card list \<Rightarrow> str" where
  "canonical_problem_type d cards =
     (let proposed = (case dec_problem d of None \<Rightarrow> [] | Some p \<Rightarrow> pp_problem_types p);
          fromCard = find (\<lambda>t. proposed = [] \<or> t \<in> set proposed) (concat (map rc_problem_types cards))
      in opt_or (opt_first fromCard (case proposed of [] \<Rightarrow> None | t # _ \<Rightarrow> Some t)) ''unhandled_business_problem'')"

definition canonical_problem_dedupe_key ::
  "runtime \<Rightarrow> event \<Rightarrow> routing_decision \<Rightarrow> routing_card list \<Rightarrow> str" where
  "canonical_problem_dedupe_key R e d cards =
     (let subject = (case dec_problem d of None \<Rightarrow> ev_subject e | Some p \<Rightarrow> pp_subject p);
          inputs = (case dec_problem d of None \<Rightarrow> [] | Some p \<Rightarrow> pp_dedupe_key_inputs p)
      in create_problem_dedupe_key R (ev_workspace e) (canonical_problem_type d cards)
           (sub_type subject) (sub_id subject)
           (if inputs \<noteq> [] then Some (content_hash R (jstrs inputs)) else None))"

definition status_for_decision_action :: "decision_action \<Rightarrow> problem_status" where
  "status_for_decision_action a =
     (case a of RequestHuman \<Rightarrow> NeedsHuman | Unhandled \<Rightarrow> UnhandledProblem | Defer \<Rightarrow> Waiting
      | Route \<Rightarrow> Routed | _ \<Rightarrow> Detected)"

subsection \<open>Checks against the store\<close>

definition committed_open_problem :: "event \<Rightarrow> str \<Rightarrow> business_problem \<Rightarrow> bool" where
  "committed_open_problem e key p =
     (bp_dedupe_key p = key \<and> bp_status p \<notin> {Resolved, Closed} \<and> bp_route_commit_ids p \<noteq> [] \<and>
      ev_id e \<notin> set (bp_evidence_event_ids p))"

definition existing_problem_errors :: "routing_store \<Rightarrow> event \<Rightarrow> str option \<Rightarrow> validation_error list" where
  "existing_problem_errors st e existingId =
     (case existingId of
        None \<Rightarrow> []
      | Some pid \<Rightarrow>
          if pid = [] then []
          else (case get_business_problem st pid of
              None \<Rightarrow> [ExistingProblemNotFound pid]
            | Some p \<Rightarrow>
                if bp_workspace p \<noteq> ev_workspace e \<or> bp_company p \<noteq> ev_company e then [ExistingProblemForeign pid]
                else if sub_type (bp_subject p) \<noteq> sub_type (ev_subject e) \<or>
                        sub_id (bp_subject p) \<noteq> sub_id (ev_subject e) then [ExistingProblemOtherSubject pid]
                else []))"

definition collect_submission_errors ::
  "runtime \<Rightarrow> routing_store \<Rightarrow> event \<Rightarrow> routing_decision \<Rightarrow> routing_card list \<Rightarrow> validation_error list" where
  "collect_submission_errors R st e d cards =
     (if dec_action d \<in> {Route, RequestHuman, Unhandled, Defer} \<and> dec_problem d = None
      then [ProblemRequired (dec_action d)] else []) @
     (if dec_action d = AppendEvidence
      then (if \<not> truthy_str (dec_existing_problem d) then [ExistingProblemRequired] else []) @
           (if dec_selected d \<noteq> [] then [AppendWithSelection] else [])
      else []) @
     existing_problem_errors st e (dec_existing_problem d) @
     (case dec_problem d of
        Some p \<Rightarrow>
          if dec_action d = Route
          then concat (map (\<lambda>c. if pp_problem_types p \<noteq> [] \<and> \<not> list_ex (\<lambda>t. t \<in> set (pp_problem_types p)) (rc_problem_types c)
                              then [ProblemTypeNotSolved (rc_loop_id c)] else []) cards) @
               (case find (committed_open_problem e (canonical_problem_dedupe_key R e d cards)) (list_business_problems st) of
                  None \<Rightarrow> []
                | Some q \<Rightarrow> [OpenProblemHasWork (bp_id q)])
          else []
      | None \<Rightarrow> [])"

subsection \<open>The problem\<close>

definition append_evidence_to :: "business_problem \<Rightarrow> event \<Rightarrow> instant \<Rightarrow> business_problem" where
  "append_evidence_to p e now =
     p\<lparr>bp_evidence_event_ids := uniq (bp_evidence_event_ids p @ [ev_id e]), bp_updated_at := now\<rparr>"

definition problem_for_decision ::
  "runtime \<Rightarrow> event \<Rightarrow> routing_decision \<Rightarrow> problem_proposal \<Rightarrow> routing_card list \<Rightarrow> business_problem option \<Rightarrow> instant \<Rightarrow> business_problem" where
  "problem_for_decision R e d proposal cards existing now =
     (let key = canonical_problem_dedupe_key R e d cards
      in \<lparr>bp_id = opt_or (map_option bp_id existing) key,
          bp_workspace = ev_workspace e, bp_company = ev_company e,
          bp_problem_type = canonical_problem_type d cards,
          bp_subject = pp_subject proposal, bp_summary = pp_summary proposal,
          bp_severity = pp_severity proposal, bp_status = status_for_decision_action (dec_action d),
          bp_correlation = opt_or (map_option bp_correlation existing) (ev_correlation e),
          bp_dedupe_key = key,
          bp_evidence_event_ids = uniq (opt_or (map_option bp_evidence_event_ids existing) [] @ [ev_id e]),
          bp_primary_loop = Option.bind existing bp_primary_loop,
          bp_supporting_loops = opt_or (map_option bp_supporting_loops existing) [],
          bp_route_commit_ids = opt_or (map_option bp_route_commit_ids existing) [],
          bp_owner = Option.bind existing bp_owner,
          bp_sla_due_at = Option.bind existing bp_sla_due_at,
          bp_outcome_refs = opt_or (map_option bp_outcome_refs existing) [],
          bp_opened_at = opt_or (map_option bp_opened_at existing) now,
          bp_updated_at = now,
          bp_resolved_at = Option.bind existing bp_resolved_at\<rparr>)"

definition upsert_problem_for_decision ::
  "runtime \<Rightarrow> event \<Rightarrow> routing_decision \<Rightarrow> routing_card list \<Rightarrow> instant \<Rightarrow> business_problem store_action" where
  "upsert_problem_for_decision R e d cards now =
     (if dec_action d = AppendEvidence \<and> truthy_str (dec_existing_problem d)
      then act_bind (act_read (\<lambda>st. get_business_problem st (the (dec_existing_problem d)))) (\<lambda>existing.
        (case existing of
           None \<Rightarrow> act_throw (ExistingProblemMissing (the (dec_existing_problem d)))
         | Some p \<Rightarrow>
             (let updated = append_evidence_to p e now
              in act_bind (save_business_problem updated) (\<lambda>_. act_return updated))))
      else (case dec_problem d of
          None \<Rightarrow> act_throw (ProposalRequired (dec_action d))
        | Some proposal \<Rightarrow>
            act_bind (act_read (\<lambda>st.
                opt_first
                  (if truthy_str (dec_existing_problem d)
                   then get_business_problem st (the (dec_existing_problem d)) else None)
                  (find (\<lambda>p. bp_dedupe_key p = canonical_problem_dedupe_key R e d cards)
                    (list_business_problems st)))) (\<lambda>existing.
            (let problem = problem_for_decision R e d proposal cards existing now
             in act_bind (save_business_problem problem) (\<lambda>_. act_return problem)))))"

subsection \<open>Commits and jobs\<close>

text \<open>The environment variables \<open>LOOPGRAPH_HERMES_EXECUTION_ENVIRONMENT\<close> and \<open>NODE_ENV\<close>.\<close>

record process_env =
  env_hermes_environment :: "str option"
  env_node_env :: "str option"

definition environment_named :: "str \<Rightarrow> exec_environment option" where
  "environment_named s =
     (if s = ''local'' then Some EnvLocal else if s = ''sandbox'' then Some EnvSandbox
      else if s = ''staging'' then Some EnvStaging else if s = ''production'' then Some EnvProduction
      else None)"

definition route_execution_target :: "process_env \<Rightarrow> activation_mode \<Rightarrow> str list \<Rightarrow> execution_target" where
  "route_execution_target env mode capabilities =
     (if mode \<in> {ExecuteWithApproval, AutonomousLowRisk}
      then \<lparr>et_runtime = Hermes,
            et_environment =
              (case environment_named (opt_or (env_hermes_environment env) []) of
                 Some x \<Rightarrow> x
               | None \<Rightarrow> if env_node_env env = Some ''production'' then EnvProduction else EnvLocal),
            et_capabilities = capabilities, et_preferred_agent = None\<rparr>
      else \<lparr>et_runtime = LoopgraphLocal, et_environment = EnvLocal,
            et_capabilities = capabilities, et_preferred_agent = None\<rparr>)"

definition run_id_for_commit :: "runtime \<Rightarrow> str \<Rightarrow> str" where
  "run_id_for_commit R commitId = ''run_'' @ hash_obj R [(''commitId'', jstr commitId)]"

definition new_route_job ::
  "runtime \<Rightarrow> process_env \<Rightarrow> event \<Rightarrow> route_commit \<Rightarrow> activation_mode \<Rightarrow> str list \<Rightarrow> instant \<Rightarrow> route_job" where
  "new_route_job R env e c mode capabilities now =
     \<lparr>job_id = create_route_job_id R (rcm_event_id c) (rcm_loop_id c) (rcm_loop_spec_hash c),
      job_idempotency_key = hash_obj R [(''eventId'', jstr (rcm_event_id c)), (''loopId'', jstr (rcm_loop_id c)),
         (''loopSpecHash'', jstr (rcm_loop_spec_hash c))],
      job_event_id = rcm_event_id c, job_problem_id = rcm_problem_id c, job_commit_id = rcm_id c,
      job_attempt_id = rcm_attempt_id c, job_loop_id = rcm_loop_id c,
      job_loop_spec_hash = rcm_loop_spec_hash c,
      job_run_id = opt_or (rcm_run_id c) (run_id_for_commit R (rcm_id c)),
      job_activation = mode, job_target = route_execution_target env mode capabilities,
      job_status = Queued, job_correlation = ev_correlation e, job_attempts = 0, job_max_attempts = 3,
      job_retry = \<lparr>base_delay_seconds = 30, max_delay_seconds = 3600, backoff_multiplier = 2\<rparr>,
      job_next_run_at = now, job_lease = None, job_result = None, job_last_error = None,
      job_dead_letter_reason = None, job_created_at = now, job_updated_at = now\<rparr>"

definition upsert_route_job_for_commit ::
  "runtime \<Rightarrow> process_env \<Rightarrow> event \<Rightarrow> route_commit \<Rightarrow> activation_mode \<Rightarrow> str list \<Rightarrow> instant \<Rightarrow> route_job store_action" where
  "upsert_route_job_for_commit R env e c mode capabilities now =
     act_bind (act_read (\<lambda>st. get_route_job st
        (create_route_job_id R (rcm_event_id c) (rcm_loop_id c) (rcm_loop_spec_hash c)))) (\<lambda>existing.
     (case existing of
        Some j \<Rightarrow> act_return j
      | None \<Rightarrow>
          (let j = new_route_job R env e c mode capabilities now
           in act_bind (save_route_job j) (\<lambda>_. act_return j))))"

definition commit_id_for :: "runtime \<Rightarrow> event \<Rightarrow> str \<Rightarrow> routing_card \<Rightarrow> str" where
  "commit_id_for R e problemId chosen =
     ''route_'' @ hash_obj R [(''eventId'', jstr (ev_id e)), (''problemId'', jstr problemId),
       (''loopId'', jstr (rc_loop_id chosen)), (''loopSpecHash'', jstr (rc_loop_spec_hash chosen))]"

definition commit_status_for :: "activation_mode \<Rightarrow> commit_status" where
  "commit_status_for mode = (if mode = Shadow \<or> mode = Recommend then CShadow else CQueued)"

definition commit_for_card ::
  "runtime \<Rightarrow> event \<Rightarrow> str \<Rightarrow> str \<Rightarrow> route_commit option \<Rightarrow> routing_card \<Rightarrow> instant \<Rightarrow> route_commit" where
  "commit_for_card R e problemId attemptId existing chosen now =
     (let commitId = commit_id_for R e problemId chosen; status = commit_status_for (rc_activation chosen)
      in \<lparr>rcm_id = commitId, rcm_event_id = ev_id e, rcm_problem_id = problemId,
          rcm_loop_id = rc_loop_id chosen, rcm_loop_spec_hash = rc_loop_spec_hash chosen,
          rcm_attempt_id = attemptId,
          rcm_run_id = (if status = CQueued then Some (run_id_for_commit R commitId) else None),
          rcm_status = opt_or (map_option rcm_status existing) status,
          rcm_input_mapping = map_routing_card_inputs e chosen,
          rcm_committed_at = opt_or (map_option rcm_committed_at existing) now\<rparr>)"

text \<open>One round of the loop over the selected cards.\<close>

definition commit_card ::
  "runtime \<Rightarrow> process_env \<Rightarrow> event \<Rightarrow> str \<Rightarrow> str \<Rightarrow> route_commit list \<Rightarrow> instant \<Rightarrow> routing_card \<Rightarrow> (route_commit \<times> route_job) store_action" where
  "commit_card R env e problemId attemptId existingCommits now chosen =
     (let existing = find (\<lambda>c. rcm_id c = commit_id_for R e problemId chosen) existingCommits;
          c = commit_for_card R e problemId attemptId existing chosen now
      in act_bind (save_route_commit c) (\<lambda>_.
         act_bind (upsert_route_job_for_commit R env e c (rc_activation chosen) (rc_required_connections chosen) now)
           (\<lambda>j. act_return (c, j))))"

definition routed_problem :: "business_problem \<Rightarrow> routing_decision \<Rightarrow> route_commit list \<Rightarrow> instant \<Rightarrow> business_problem" where
  "routed_problem p d commits now =
     (let primary = opt_first (find (\<lambda>r. sr_role r = Primary) (dec_selected d))
            (case dec_selected d of [] \<Rightarrow> None | r # _ \<Rightarrow> Some r);
          supporting = map sr_loop_id (filter (\<lambda>r. sr_role r = Supporting) (dec_selected d))
      in p\<lparr>bp_status := Routed,
          bp_primary_loop := opt_first (bp_primary_loop p) (map_option sr_loop_id primary),
          bp_supporting_loops := uniq (bp_supporting_loops p @ supporting),
          bp_route_commit_ids := uniq (bp_route_commit_ids p @ map rcm_id commits),
          bp_updated_at := now\<rparr>)"

subsection \<open>Submission\<close>

record submission_result =
  res_attempt :: routing_attempt
  res_valid :: bool
  res_errors :: "validation_error list"
  res_problem :: "business_problem option"
  res_commits :: "route_commit list"
  res_jobs :: "route_job list"
  res_alternatives :: "route_alternative list"

record submission_input =
  in_decision :: routing_decision
  in_cards :: "routing_card list"
  in_catalog_version :: str
  in_metadata :: "(str \<times> json) list"
  in_binding :: "learning_binding option"

definition attempt_for :: "runtime \<Rightarrow> submission_input \<Rightarrow> instant \<Rightarrow> attempt_status \<Rightarrow> validation_error list \<Rightarrow> routing_attempt" where
  "attempt_for R i now status errors =
     (let d = in_decision i
      in \<lparr>att_id = ''attempt_'' @ hash_obj R [(''eventId'', jstr (dec_event_id d)),
             (''decision'', Some (decision_json d)), (''at'', jstr (iso_instant now))],
          att_event_id = dec_event_id d, att_catalog_version = dec_catalog_version d,
          att_action = Some (dec_action d), att_status = status, att_decision = Some d,
          att_errors = errors, att_metadata = in_metadata i, att_binding = in_binding i,
          att_created_at = now\<rparr>)"

definition human_alternatives :: "routing_decision \<Rightarrow> route_alternative list" where
  "human_alternatives d = (if dec_action d = RequestHuman then dec_alternatives d else [])"

definition save_parsed_attempt :: "runtime \<Rightarrow> routing_attempt \<Rightarrow> unit store_action" where
  "save_parsed_attempt R a =
     act_bind (act_lift (require (attempt_ok R a) SchemaError)) (\<lambda>_. save_routing_attempt R a)"

definition stale_binding_errors :: "learning_binding option \<Rightarrow> validation_error list" where
  "stale_binding_errors b =
     (case b of None \<Rightarrow> []
      | Some x \<Rightarrow> if truthy_str (lb_acknowledged_digest x) \<and> \<not> lb_acknowledged x then [StaleLearningContext] else [])"

definition submission_errors ::
  "runtime \<Rightarrow> routing_store \<Rightarrow> submission_input \<Rightarrow> event \<Rightarrow> validation_error list" where
  "submission_errors R st i e =
     (let validation = validate_routing_decision R e (in_decision i) (in_cards i) (in_catalog_version i)
      in dv_errors validation @
         collect_submission_errors R st e (in_decision i) (dv_cards validation) @
         stale_binding_errors (in_binding i))"

definition reject_submission ::
  "runtime \<Rightarrow> submission_input \<Rightarrow> instant \<Rightarrow> validation_error list \<Rightarrow> route_alternative list \<Rightarrow> submission_result store_action" where
  "reject_submission R i now errors alternatives =
     (let attempt = attempt_for R i now AttRejected errors
      in act_bind (save_parsed_attempt R attempt) (\<lambda>_.
         act_return \<lparr>res_attempt = attempt, res_valid = False, res_errors = errors, res_problem = None,
           res_commits = [], res_jobs = [], res_alternatives = alternatives\<rparr>))"

definition route_submission ::
  "runtime \<Rightarrow> process_env \<Rightarrow> submission_input \<Rightarrow> instant \<Rightarrow> event \<Rightarrow> routing_card list \<Rightarrow> routing_attempt \<Rightarrow> business_problem \<Rightarrow> submission_result store_action" where
  "route_submission R env i now e cards attempt problem =
     act_bind (act_read (\<lambda>st. list_route_commits st (Some (bp_id problem)))) (\<lambda>existingCommits.
     act_bind (act_each (commit_card R env e (bp_id problem) (att_id attempt) existingCommits now) cards) (\<lambda>rounds.
     (let updated = routed_problem problem (in_decision i) (map fst rounds) now
      in act_bind (save_business_problem updated) (\<lambda>_.
         act_return \<lparr>res_attempt = attempt, res_valid = True, res_errors = [], res_problem = Some updated,
           res_commits = map fst rounds, res_jobs = map snd rounds, res_alternatives = []\<rparr>))))"

definition accept_submission ::
  "runtime \<Rightarrow> process_env \<Rightarrow> submission_input \<Rightarrow> instant \<Rightarrow> event \<Rightarrow> routing_card list \<Rightarrow> submission_result store_action" where
  "accept_submission R env i now e cards =
     (let d = in_decision i;
          attempt = attempt_for R i now (if dec_action d = Ignore then AttValidated else AttCommitted) []
      in act_bind (save_parsed_attempt R attempt) (\<lambda>_.
         if dec_action d = Ignore
         then act_return \<lparr>res_attempt = attempt, res_valid = True, res_errors = [], res_problem = None,
                res_commits = [], res_jobs = [], res_alternatives = []\<rparr>
         else act_bind (upsert_problem_for_decision R e d cards now) (\<lambda>problem.
           if dec_action d \<in> {AppendEvidence, RequestHuman, Unhandled, Defer}
           then act_return \<lparr>res_attempt = attempt, res_valid = True, res_errors = [],
                  res_problem = Some problem, res_commits = [], res_jobs = [],
                  res_alternatives = human_alternatives d\<rparr>
           else route_submission R env i now e cards attempt problem)))"

definition submit_routing_decision ::
  "runtime \<Rightarrow> process_env \<Rightarrow> submission_input \<Rightarrow> instant \<Rightarrow> submission_result store_action" where
  "submit_routing_decision R env i now =
     act_bind (act_lift (require (decision_ok (in_decision i)) SchemaError)) (\<lambda>_.
     act_bind (act_read (\<lambda>st. get_event_receipt st (dec_event_id (in_decision i)))) (\<lambda>receipt.
     (case receipt of
        None \<Rightarrow> reject_submission R i now [ReceiptNotFound] []
      | Some r \<Rightarrow>
          act_bind (act_read (\<lambda>st. submission_errors R st i (rcp_event r))) (\<lambda>errors.
            if errors \<noteq> [] then reject_submission R i now errors (human_alternatives (in_decision i))
            else accept_submission R env i now (rcp_event r)
              (dv_cards (validate_routing_decision R (rcp_event r) (in_decision i) (in_cards i)
                 (in_catalog_version i)))))))"


subsection \<open>What a submission changes\<close>

lemma save_runs [act_simps]:
  "save_business_problem p st =
     (if problem_ok p then (Inr (), st_problems_update (coll_put (bp_id p) p) st) else (Inl SchemaError, st))"
  "save_routing_attempt R a st =
     (if attempt_ok R a then (Inr (), st_attempts_update (coll_put (att_id a) a) st) else (Inl SchemaError, st))"
  "save_route_commit c st =
     (if commit_ok c then (Inr (), st_commits_update (coll_put (rcm_id c) c) st) else (Inl SchemaError, st))"
  "save_route_job j st =
     (if job_ok j then (Inr (), st_jobs_update (coll_put (job_id j) j) st) else (Inl SchemaError, st))"
  by (simp_all add: save_defs record_save_run)

lemma save_parsed_attempt_run [act_simps]:
  "save_parsed_attempt R a st =
     (if attempt_ok R a then (Inr (), st_attempts_update (coll_put (att_id a) a) st) else (Inl SchemaError, st))"
  by (simp add: save_parsed_attempt_def require_def act_bind_def save_runs)

lemma reject_submission_run:
  assumes "reject_submission R i now errors alts st = (Inr res, st')"
  shows "\<not> res_valid res \<and> res_errors res = errors \<and> res_commits res = [] \<and> res_jobs res = [] \<and>
    res_problem res = None \<and> att_status (res_attempt res) = AttRejected \<and> att_errors (res_attempt res) = errors \<and>
    st' = st_attempts_update (coll_put (att_id (res_attempt res)) (res_attempt res)) st"
  using assms by (auto simp: reject_submission_def act_simps attempt_for_def Let_def split: if_splits)

lemma accept_submission_valid:
  "accept_submission R env i now e cards st = (Inr res, st') \<Longrightarrow> res_valid res"
  by (auto simp: accept_submission_def route_submission_def act_bind_Inr Let_def split: if_splits)

lemma submit_cases:
  assumes "submit_routing_decision R env i now st = (Inr res, st')"
  obtains (no_receipt) "get_event_receipt st (dec_event_id (in_decision i)) = None"
      "reject_submission R i now [ReceiptNotFound] [] st = (Inr res, st')"
  | (errors) r where "get_event_receipt st (dec_event_id (in_decision i)) = Some r"
      "submission_errors R st i (rcp_event r) \<noteq> []"
      "reject_submission R i now (submission_errors R st i (rcp_event r)) (human_alternatives (in_decision i)) st = (Inr res, st')"
  | (accepted) r where "get_event_receipt st (dec_event_id (in_decision i)) = Some r"
      "submission_errors R st i (rcp_event r) = []"
      "accept_submission R env i now (rcp_event r)
         (dv_cards (validate_routing_decision R (rcp_event r) (in_decision i) (in_cards i) (in_catalog_version i))) st =
         (Inr res, st')"
  using assms
  by (cases "get_event_receipt st (dec_event_id (in_decision i))")
    (auto simp: submit_routing_decision_def act_bind_Inr require_def split: if_splits)

lemma submission_errors_Nil:
  "submission_errors R st i e = [] \<longleftrightarrow>
     decision_admissible R e (in_decision i) (in_cards i) (in_catalog_version i) \<and>
     collect_submission_errors R st e (in_decision i)
       (map (\<lambda>s. the (map_by rc_loop_id (in_cards i) (sr_loop_id s))) (dec_selected (in_decision i))) = [] \<and>
     stale_binding_errors (in_binding i) = []"
proof -
  let ?v = "validate_routing_decision R e (in_decision i) (in_cards i) (in_catalog_version i)"
  have "dv_valid ?v \<longleftrightarrow> dv_errors ?v = []"
    by (simp add: validate_routing_decision_def Let_def)
  then show ?thesis
    using valid_iff_admissible [of R e "in_decision i" "in_cards i" "in_catalog_version i"]
      valid_decision_cards [of R e "in_decision i" "in_cards i" "in_catalog_version i"]
    by (auto simp: submission_errors_def Let_def)
qed

text \<open>
  C20: a rejected decision has no effect beyond its recorded attempt. When a submission returns an
  invalid result, the attempt is stored as rejected with the reported errors (there is at least
  one), no problem, commit or job is returned, and every other record of the store is unchanged.
\<close>

theorem rejected_submission_inert:
  assumes "submit_routing_decision R env i now st = (Inr res, st')" and "\<not> res_valid res"
  shows "res_errors res \<noteq> [] \<and> att_status (res_attempt res) = AttRejected \<and>
    att_errors (res_attempt res) = res_errors res \<and>
    res_problem res = None \<and> res_commits res = [] \<and> res_jobs res = [] \<and>
    st' = st\<lparr>st_attempts := coll_put (att_id (res_attempt res)) (res_attempt res) (st_attempts st)\<rparr>"
  using assms(1)
proof (cases rule: submit_cases)
  case no_receipt
  from reject_submission_run [OF no_receipt(2)] show ?thesis by simp
next
  case (errors r)
  from reject_submission_run [OF errors(3)] errors(2) show ?thesis by simp
next
  case (accepted r)
  from accept_submission_valid [OF accepted(3)] assms(2) show ?thesis by simp
qed

text \<open>
  C19: a submission is accepted only for a recorded event, with a decision that is admissible for
  the event as it was recorded (not as it is submitted), that passes the checks against the stored
  problems, and whose learning context, if acknowledged at all, is the current one.
\<close>

theorem accepted_submission_sound:
  assumes "submit_routing_decision R env i now st = (Inr res, st')" and "res_valid res"
  shows "\<exists>r. get_event_receipt st (dec_event_id (in_decision i)) = Some r \<and>
    decision_admissible R (rcp_event r) (in_decision i) (in_cards i) (in_catalog_version i) \<and>
    collect_submission_errors R st (rcp_event r) (in_decision i)
      (map (\<lambda>s. the (map_by rc_loop_id (in_cards i) (sr_loop_id s))) (dec_selected (in_decision i))) = [] \<and>
    (\<forall>b. in_binding i = Some b \<longrightarrow> truthy_str (lb_acknowledged_digest b) \<longrightarrow> lb_acknowledged b)"
  using assms(1)
proof (cases rule: submit_cases)
  case no_receipt
  from reject_submission_run [OF no_receipt(2)] assms(2) show ?thesis by simp
next
  case (errors r)
  from reject_submission_run [OF errors(3)] assms(2) show ?thesis by simp
next
  case (accepted r)
  then show ?thesis
    by (auto simp: submission_errors_Nil stale_binding_errors_def split: option.splits if_splits)
qed


subsection \<open>Existing jobs are left alone\<close>

text \<open>
  The invariant of a submission from \<open>st\<close>: the store is well formed, every job of \<open>st\<close> is as it
  was and every other job is freshly queued.
\<close>

definition queued_fresh :: "route_job \<Rightarrow> bool" where
  "queued_fresh j \<longleftrightarrow> job_status j = Queued \<and> job_attempts j = 0 \<and> job_max_attempts j = 3 \<and> job_lease j = None"

definition jobs_kept :: "routing_store \<Rightarrow> routing_store \<Rightarrow> bool" where
  "jobs_kept st st' \<longleftrightarrow>
     store_wf st' \<and> (\<forall>k j. get_route_job st k = Some j \<longrightarrow> get_route_job st' k = Some j) \<and>
     (\<forall>k j. get_route_job st' k = Some j \<longrightarrow> get_route_job st k = None \<longrightarrow> queued_fresh j)"

lemma jobs_kept_refl: "store_wf st \<Longrightarrow> jobs_kept st st"
  by (simp add: jobs_kept_def)

lemma jobs_kept_trans:
  assumes "jobs_kept st st1" "jobs_kept st1 st2"
  shows "jobs_kept st st2"
proof -
  have "queued_fresh j" if "get_route_job st2 k = Some j" "get_route_job st k = None" for k j
  proof (cases "get_route_job st1 k")
    case None
    with assms(2) that show ?thesis by (simp add: jobs_kept_def)
  next
    case (Some x)
    with assms that have "x = j" "queued_fresh x" by (auto simp: jobs_kept_def)
    then show ?thesis by simp
  qed
  with assms show ?thesis by (simp add: jobs_kept_def)
qed

lemma keeps_jobs_frame:
  assumes "keeps store_wf m" "\<And>st. st_jobs (snd (m st)) = st_jobs st"
  shows "keeps (jobs_kept st) m"
  using assms by (simp add: keeps_def jobs_kept_def get_route_job_def)

lemma keeps_jobs_saves [keeps_rules]:
  "keeps (jobs_kept st) (save_business_problem p)"
  "keeps (jobs_kept st) (save_routing_attempt R a)"
  "keeps (jobs_kept st) (save_route_commit c)"
  by (rule keeps_jobs_frame, rule problems.save_keeps attempts.save_keeps commits.save_keeps,
      simp add: save_runs)+

lemma keeps_jobs_attempt [keeps_rules]: "keeps (jobs_kept st) (save_parsed_attempt R a)"
  unfolding save_parsed_attempt_def by (intro keeps_rules)

lemma upsert_job_run:
  "upsert_route_job_for_commit R env e c mode caps now st =
    (let k = create_route_job_id R (rcm_event_id c) (rcm_loop_id c) (rcm_loop_spec_hash c);
         j = new_route_job R env e c mode caps now
     in case get_route_job st k of
          Some x \<Rightarrow> (Inr x, st)
        | None \<Rightarrow> if job_ok j then (Inr j, st_jobs_update (coll_put k j) st) else (Inl SchemaError, st))"
  by (auto simp: upsert_route_job_for_commit_def Let_def act_simps new_route_job_def split: option.splits)

lemma keeps_jobs_upsert [keeps_rules]:
  "keeps (jobs_kept st) (upsert_route_job_for_commit R env e c mode caps now)"
proof (rule keepsI)
  fix s r s'
  assume s: "jobs_kept st s" and run: "upsert_route_job_for_commit R env e c mode caps now s = (r, s')"
  let ?k = "create_route_job_id R (rcm_event_id c) (rcm_loop_id c) (rcm_loop_spec_hash c)"
  let ?j = "new_route_job R env e c mode caps now"
  have key: "job_id ?j = ?k" by (simp add: new_route_job_def)
  show "jobs_kept st s'"
  proof (cases "s' = s")
    case False
    with run have none: "get_route_job s ?k = None" and s': "s' = snd (save_route_job ?j s)"
      by (auto simp: upsert_job_run Let_def save_runs key split: option.splits if_splits)
    have wf: "store_wf s" using s by (simp add: jobs_kept_def)
    have "get_route_job s' k = Some j" if "get_route_job st k = Some j" for k j
    proof -
      from that s have j: "get_route_job s k = Some j" by (simp add: jobs_kept_def)
      with none key have "k \<noteq> job_id ?j" by auto
      from jobs.get_other [OF wf this] j show ?thesis by (simp add: s')
    qed
    moreover have "queued_fresh j" if j: "get_route_job s' k = Some j" "get_route_job st k = None" for k j
    proof (cases "k = ?k")
      case True
      from run none s' have "job_ok ?j"
        using \<open>s' \<noteq> s\<close> by (auto simp: save_runs split: if_splits)
      from jobs.get_saved [OF wf this] True j(1) have "j = ?j" by (simp add: s' key)
      then show ?thesis by (simp add: queued_fresh_def new_route_job_def)
    next
      case False
      with j(1) key jobs.get_other [OF wf] have "get_route_job s k = Some j" by (simp add: s')
      with s j(2) show ?thesis by (simp add: jobs_kept_def)
    qed
    ultimately show ?thesis using jobs.save_inv [OF wf] by (simp add: jobs_kept_def s')
  qed (use s in simp)
qed

lemma keeps_jobs_upsert_problem [keeps_rules]:
  "keeps (jobs_kept st) (upsert_problem_for_decision R e d cards now)"
  unfolding upsert_problem_for_decision_def Let_def by (intro keeps_rules)

lemma keeps_jobs_submit: "keeps (jobs_kept st) (submit_routing_decision R env i now)"
  unfolding submit_routing_decision_def accept_submission_def route_submission_def
    reject_submission_def commit_card_def Let_def
  by (intro keeps_rules)

text \<open>
  A submission never disturbs a job that is already queued, leased or running: whatever the
  decision, and even when the submission throws part-way, every job that was in the store is
  unchanged, every job it adds is freshly queued, and the store stays well formed.
\<close>

theorem submission_keeps_jobs:
  assumes "store_wf st"
  shows "store_wf (snd (submit_routing_decision R env i now st)) \<and>
    (\<forall>k j. get_route_job st k = Some j \<longrightarrow>
       get_route_job (snd (submit_routing_decision R env i now st)) k = Some j) \<and>
    (\<forall>k j. get_route_job (snd (submit_routing_decision R env i now st)) k = Some j \<longrightarrow>
       get_route_job st k = None \<longrightarrow> queued_fresh j)"
proof -
  have "jobs_kept st st" by (rule jobs_kept_refl [OF assms(1)])
  with keeps_jobs_submit have "jobs_kept st (snd (submit_routing_decision R env i now st))"
    unfolding keeps_def by blast
  then show ?thesis by (simp add: jobs_kept_def)
qed

subsection \<open>What an accepted route commits\<close>

lemma commit_card_run:
  assumes "commit_card R env e problemId attemptId existingCommits now c st = (Inr (cm, j), st')"
  shows "cm = commit_for_card R e problemId attemptId
           (find (\<lambda>x. rcm_id x = commit_id_for R e problemId c) existingCommits) c now \<and>
         commit_ok cm \<and> upsert_route_job_for_commit R env e cm (rc_activation c) (rc_required_connections c) now
           (snd (save_route_commit cm st)) = (Inr j, st')"
  using assms by (auto simp: commit_card_def Let_def act_bind_Inr save_runs split: if_splits)

text \<open>The relation between a commit and the job stored for it.\<close>

definition job_of_commit :: "runtime \<Rightarrow> routing_store \<Rightarrow> route_commit \<Rightarrow> route_job \<Rightarrow> bool" where
  "job_of_commit R st c j \<longleftrightarrow>
     get_route_job st (create_route_job_id R (rcm_event_id c) (rcm_loop_id c) (rcm_loop_spec_hash c)) = Some j"

definition fresh_job_for :: "runtime \<Rightarrow> route_commit \<Rightarrow> route_job \<Rightarrow> bool" where
  "fresh_job_for R c j \<longleftrightarrow>
     job_status j = Queued \<and> job_attempts j = 0 \<and> job_lease j = None \<and>
     job_event_id j = rcm_event_id c \<and> job_problem_id j = rcm_problem_id c \<and> job_commit_id j = rcm_id c \<and>
     job_attempt_id j = rcm_attempt_id c \<and> job_loop_id j = rcm_loop_id c \<and>
     job_loop_spec_hash j = rcm_loop_spec_hash c \<and> job_run_id j = run_id_for_commit R (rcm_id c)"

lemma upsert_job_result:
  assumes wf: "store_wf st"
    and run: "upsert_route_job_for_commit R env e c mode caps now st = (Inr j, st')"
    and rid: "rcm_run_id c = None \<or> rcm_run_id c = Some (run_id_for_commit R (rcm_id c))"
  shows "job_of_commit R st' c j \<and>
    (get_route_job st (create_route_job_id R (rcm_event_id c) (rcm_loop_id c) (rcm_loop_spec_hash c)) = None \<longrightarrow>
     fresh_job_for R c j)"
proof (cases "get_route_job st (create_route_job_id R (rcm_event_id c) (rcm_loop_id c) (rcm_loop_spec_hash c))")
  case None
  let ?j = "new_route_job R env e c mode caps now"
  have key: "create_route_job_id R (rcm_event_id c) (rcm_loop_id c) (rcm_loop_spec_hash c) = job_id ?j"
    by (simp add: new_route_job_def)
  from None run have j: "j = ?j" "job_ok ?j" "st' = snd (save_route_job ?j st)"
    by (auto simp: upsert_job_run Let_def save_runs key split: if_splits)
  have "job_of_commit R st' c j"
    unfolding job_of_commit_def key j(1,3) by (rule jobs.get_saved [OF wf j(2)])
  moreover have "fresh_job_for R c j"
    using rid by (auto simp: j(1) fresh_job_for_def new_route_job_def)
  ultimately show ?thesis by simp
next
  case (Some x)
  with run show ?thesis by (auto simp: upsert_job_run Let_def job_of_commit_def)
qed


definition job_key :: "runtime \<Rightarrow> route_commit \<Rightarrow> str" where
  "job_key R c = create_route_job_id R (rcm_event_id c) (rcm_loop_id c) (rcm_loop_spec_hash c)"

definition commit_ids :: "routing_store \<Rightarrow> str set" where
  "commit_ids st = rcm_id ` set (list_route_commits st None)"

lemma upsert_job_effect:
  assumes wf: "store_wf st"
    and run: "upsert_route_job_for_commit R env e c mode caps now st = (Inr j, st')"
    and rid: "rcm_run_id c = None \<or> rcm_run_id c = Some (run_id_for_commit R (rcm_id c))"
  shows "store_wf st' \<and> jobs_kept st st' \<and> st_commits st' = st_commits st \<and> st_problems st' = st_problems st \<and>
    get_route_job st' (job_key R c) = Some j \<and>
    (get_route_job st (job_key R c) = Some j \<or> fresh_job_for R c j) \<and>
    (\<forall>k x. get_route_job st' k = Some x \<longrightarrow> get_route_job st k = Some x \<or> k = job_key R c \<and> x = j)"
proof -
  have kept: "jobs_kept st st'"
    by (rule keepsD [OF keeps_jobs_upsert jobs_kept_refl [OF wf] run])
  have res: "get_route_job st' (job_key R c) = Some j"
    "get_route_job st (job_key R c) = None \<Longrightarrow> fresh_job_for R c j"
    using upsert_job_result [OF wf run rid] by (auto simp: job_of_commit_def job_key_def)
  have frame: "st_commits st' = st_commits st \<and> st_problems st' = st_problems st"
    using run by (auto simp: upsert_job_run Let_def split: option.splits if_splits)
  have only: "get_route_job st k = Some x \<or> k = job_key R c \<and> x = j" if "get_route_job st' k = Some x" for k x
  proof (cases "k = job_key R c")
    case False
    then have "get_route_job st' k = get_route_job st k"
      using run jobs.get_other [OF wf, of k "new_route_job R env e c mode caps now"]
      by (auto simp: upsert_job_run Let_def save_runs new_route_job_def job_key_def split: option.splits if_splits)
    with that show ?thesis by simp
  qed (use that res(1) in simp)
  have "get_route_job st (job_key R c) = Some j \<or> fresh_job_for R c j"
    using res kept by (cases "get_route_job st (job_key R c)") (auto simp: jobs_kept_def)
  with kept frame res(1) only show ?thesis by (auto simp: jobs_kept_def)
qed

text \<open>What a round of the loop establishes for its commit and job, relative to the store before the loop.\<close>

definition round_ok ::
  "runtime \<Rightarrow> routing_store \<Rightarrow> routing_store \<Rightarrow> route_commit list \<Rightarrow> str \<Rightarrow> str \<Rightarrow> str \<Rightarrow> route_commit \<times> route_job \<Rightarrow> bool" where
  "round_ok R st st' commits eventId problemId attemptId = (\<lambda>(c, j).
     rcm_event_id c = eventId \<and> rcm_problem_id c = problemId \<and> rcm_attempt_id c = attemptId \<and>
     rcm_id c \<in> commit_ids st' \<and> get_route_job st' (job_key R c) = Some j \<and>
     (get_route_job st (job_key R c) = Some j \<or>
      (\<exists>c'\<in>set commits. job_key R c' = job_key R c \<and> fresh_job_for R c' j)))"

lemma commit_card_effect:
  assumes wf: "store_wf st"
    and run: "commit_card R env e pid aid existingCommits now rc st = (Inr (c, j), st')"
  shows "store_wf st' \<and> jobs_kept st st' \<and> commit_ids st' = insert (rcm_id c) (commit_ids st) \<and>
    st_problems st' = st_problems st \<and> rcm_loop_id c = rc_loop_id rc \<and>
    round_ok R st st' [c] (ev_id e) pid aid (c, j) \<and>
    (\<forall>k x. get_route_job st' k = Some x \<longrightarrow> get_route_job st k = Some x \<or> k = job_key R c \<and> x = j)"
proof -
  let ?st = "snd (save_route_commit c st)"
  from commit_card_run [OF run] have c: "commit_ok c" "rcm_loop_id c = rc_loop_id rc" "rcm_event_id c = ev_id e"
      "rcm_problem_id c = pid" "rcm_attempt_id c = aid"
      "rcm_run_id c = None \<or> rcm_run_id c = Some (run_id_for_commit R (rcm_id c))"
    and job: "upsert_route_job_for_commit R env e c (rc_activation rc) (rc_required_connections rc) now ?st = (Inr j, st')"
    by (auto simp: commit_for_card_def Let_def)
  have wf1: "store_wf ?st" by (rule commits.save_inv [OF wf])
  have same: "get_route_job ?st k = get_route_job st k" "st_problems ?st = st_problems st" for k
    using c(1) by (simp_all add: save_runs get_route_job_def)
  have ids: "commit_ids ?st = insert (rcm_id c) (commit_ids st)"
    unfolding commit_ids_def commits.all_save [OF wf c(1)] by auto
  note eff = upsert_job_effect [OF wf1 job c(6)]
  have "commit_ids st' = commit_ids ?st"
    using eff by (simp add: commit_ids_def list_route_commits_def)
  with eff ids c same show ?thesis
    unfolding round_ok_def jobs_kept_def by auto
qed

lemma round_ok_mono:
  assumes "round_ok R st st1 cs eid pid aid x" "jobs_kept st1 st2" "commit_ids st1 \<subseteq> commit_ids st2"
    "set cs \<subseteq> set cs'"
  shows "round_ok R st st2 cs' eid pid aid x"
  using assms by (auto simp: round_ok_def jobs_kept_def split: prod.splits)

lemma round_ok_earlier:
  assumes r: "round_ok R st1 st2 cs eid pid aid x" "set cs \<subseteq> set cs'"
    and ok: "round_ok R st st1 [c] eid pid aid (c, j)" and cin: "c \<in> set cs'"
    and only: "\<forall>k y. get_route_job st1 k = Some y \<longrightarrow> get_route_job st k = Some y \<or> k = job_key R c \<and> y = j"
  shows "round_ok R st st2 cs' eid pid aid x"
proof -
  obtain a b where x: "x = (a, b)" by (cases x)
  from r(1) x have "get_route_job st1 (job_key R a) = Some b \<or>
      (\<exists>c'\<in>set cs. job_key R c' = job_key R a \<and> fresh_job_for R c' b)"
    by (simp add: round_ok_def)
  then have "get_route_job st (job_key R a) = Some b \<or>
      (\<exists>c'\<in>set cs'. job_key R c' = job_key R a \<and> fresh_job_for R c' b)"
  proof
    assume "get_route_job st1 (job_key R a) = Some b"
    with only have "get_route_job st (job_key R a) = Some b \<or> job_key R a = job_key R c \<and> b = j" by blast
    with ok cin show ?thesis by (auto simp: round_ok_def)
  qed (use r(2) in blast)
  with r(1) x show ?thesis by (simp add: round_ok_def)
qed

lemma commit_cards_effect:
  assumes "store_wf st"
    and "act_each (commit_card R env e pid aid existingCommits now) rcs st = (Inr rounds, st')"
  shows "store_wf st' \<and> jobs_kept st st' \<and> commit_ids st \<subseteq> commit_ids st' \<and> st_problems st' = st_problems st \<and>
    map (rcm_loop_id \<circ> fst) rounds = map rc_loop_id rcs \<and>
    (\<forall>x\<in>set rounds. round_ok R st st' (map fst rounds) (ev_id e) pid aid x)"
  using assms
proof (induction rcs arbitrary: st rounds)
  case (Cons rc rcs)
  from Cons.prems(2) obtain c j st1 rest where
    head: "commit_card R env e pid aid existingCommits now rc st = (Inr (c, j), st1)" and
    tail: "act_each (commit_card R env e pid aid existingCommits now) rcs st1 = (Inr rest, st')" and
    rounds: "rounds = (c, j) # rest"
    by (auto simp: act_bind_Inr)
  have h: "store_wf st1" "jobs_kept st st1" "commit_ids st1 = insert (rcm_id c) (commit_ids st)"
    "st_problems st1 = st_problems st" "rcm_loop_id c = rc_loop_id rc" "round_ok R st st1 [c] (ev_id e) pid aid (c, j)"
    "\<forall>k y. get_route_job st1 k = Some y \<longrightarrow> get_route_job st k = Some y \<or> k = job_key R c \<and> y = j"
    using commit_card_effect [OF Cons.prems(1) head] by blast+
  have t: "store_wf st'" "jobs_kept st1 st'" "commit_ids st1 \<subseteq> commit_ids st'" "st_problems st' = st_problems st1"
    "map (rcm_loop_id \<circ> fst) rest = map rc_loop_id rcs"
    "\<forall>x\<in>set rest. round_ok R st1 st' (map fst rest) (ev_id e) pid aid x"
    using Cons.IH [OF h(1) tail] by blast+
  have hd_ok: "round_ok R st st' (map fst rounds) (ev_id e) pid aid (c, j)"
    by (rule round_ok_mono [OF h(6) t(2,3)]) (simp add: rounds)
  have "round_ok R st st' (map fst rounds) (ev_id e) pid aid x" if "x \<in> set rest" for x
    by (rule round_ok_earlier [OF t(6) [THEN bspec, OF that] _ h(6) _ h(7)]) (auto simp: rounds)
  then have rounds_ok: "\<forall>x\<in>set rounds. round_ok R st st' (map fst rounds) (ev_id e) pid aid x"
    using hd_ok by (simp add: rounds)
  have "jobs_kept st st'" by (rule jobs_kept_trans [OF h(2) t(2)])
  moreover have "commit_ids st \<subseteq> commit_ids st'" using h(3) t(3) by blast
  moreover have "map (rcm_loop_id \<circ> fst) rounds = map rc_loop_id (rc # rcs)"
    using h(5) t(5) by (simp add: rounds)
  moreover have "store_wf st'" "st_problems st' = st_problems st" using t(1,4) h(4) by simp_all
  ultimately show ?case using rounds_ok by blast
qed (simp add: jobs_kept_def)

lemma valid_decision_loops:
  assumes "decision_admissible R e d cards v"
  shows "map rc_loop_id (dv_cards (validate_routing_decision R e d cards v)) = map sr_loop_id (dec_selected d)"
proof -
  have "dv_valid (validate_routing_decision R e d cards v)" using assms by (simp add: valid_iff_admissible)
  note cards = valid_decision_cards [OF this]
  have "rc_loop_id (the (map_by rc_loop_id cards (sr_loop_id s))) = sr_loop_id s" if "s \<in> set (dec_selected d)" for s
  proof -
    from assms that have "route_admissible R e cards s" by (simp add: decision_admissible_def)
    then obtain c where c: "map_by rc_loop_id cards (sr_loop_id s) = Some c"
      unfolding route_admissible_def by blast
    with map_by_Some [OF c] show ?thesis by simp
  qed
  then show ?thesis by (simp add: cards)
qed

lemma upsert_problem_effect:
  assumes wf: "store_wf st" and run: "upsert_problem_for_decision R e d cards now st = (Inr p, st')"
  shows "store_wf st' \<and> st_jobs st' = st_jobs st \<and> st_commits st' = st_commits st \<and>
    get_business_problem st' (bp_id p) = Some p \<and> ev_id e \<in> set (bp_evidence_event_ids p)"
proof -
  from run have st': "st' = snd (save_business_problem p st)" "problem_ok p"
    by (auto simp: upsert_problem_for_decision_def Let_def act_bind_Inr save_runs split: if_splits option.splits)
  from run have "ev_id e \<in> set (bp_evidence_event_ids p)"
    by (auto simp: upsert_problem_for_decision_def problem_for_decision_def append_evidence_to_def Let_def
        act_bind_Inr split: if_splits option.splits)
  moreover have "store_wf st'" "get_business_problem st' (bp_id p) = Some p"
    unfolding st'(1) by (rule problems.save_inv [OF wf], rule problems.get_saved [OF wf st'(2)])
  moreover have "st_jobs st' = st_jobs st" "st_commits st' = st_commits st"
    using st' by (simp_all add: save_runs)
  ultimately show ?thesis by simp
qed


end
