(* ===== verification/RouteJobs.thy ===== *)
theory RouteJobs imports RoutingSubmit begin

text \<open>
  The route-job queue (the second half of runtime/routing-store.ts): claiming due jobs and jobs
  that wait for a review under a lease, the lease-fenced mutations (status changes, failure with
  back-off, renewal, manual retry, cancellation) and their laws. One call is one action: the file
  store runs each under its queue lock (theory FileLock).
\<close>

subsection \<open>Claims\<close>

record claim_input =
  cl_by :: str
  cl_now :: instant
  cl_lease_seconds :: nat
  cl_limit :: nat

definition lease_free :: "instant \<Rightarrow> route_job \<Rightarrow> bool" where
  "lease_free now j = (case job_lease j of None \<Rightarrow> True | Some l \<Rightarrow> ls_expires_at l \<le> now)"

definition due_job :: "instant \<Rightarrow> route_job \<Rightarrow> bool" where
  "due_job now j =
     (job_status j \<in> {Queued, Failed, Claimed, Running} \<and> job_next_run_at j \<le> now \<and> lease_free now j \<and>
      job_attempts j < job_max_attempts j)"

definition due_order :: "route_job \<Rightarrow> route_job \<Rightarrow> int" where
  "due_order a b =
     cmp_then (cmp_of (job_next_run_at a) (job_next_run_at b)) (cmp_of (job_created_at a) (job_created_at b))"

definition due_candidates :: "claim_input \<Rightarrow> route_job list \<Rightarrow> route_job list" where
  "due_candidates i js = take (cl_limit i) (js_sort due_order (filter (due_job (cl_now i)) js))"

definition new_lease :: "claim_input \<Rightarrow> str \<Rightarrow> job_lease" where
  "new_lease i token =
     \<lparr>ls_claimed_by = cl_by i, ls_token = Some token, ls_claimed_at = cl_now i,
      ls_expires_at = cl_now i + int (cl_lease_seconds i) * 1000, ls_heartbeat_at = Some (cl_now i)\<rparr>"

definition due_lease_token :: "runtime \<Rightarrow> claim_input \<Rightarrow> route_job \<Rightarrow> str" where
  "due_lease_token R i j = hash_obj R [(''jobId'', jstr (job_id j)), (''claimedBy'', jstr (cl_by i)),
     (''claimedAt'', jstr (iso_instant (cl_now i))), (''attemptCount'', Some (JNum (of_nat (job_attempts j + 1))))]"

definition claimed_job :: "runtime \<Rightarrow> claim_input \<Rightarrow> route_job \<Rightarrow> route_job" where
  "claimed_job R i j =
     j\<lparr>job_status := Claimed, job_attempts := job_attempts j + 1,
       job_lease := Some (new_lease i (due_lease_token R i j)), job_updated_at := cl_now i\<rparr>"

definition save_claimed :: "route_job \<Rightarrow> route_job store_action" where
  "save_claimed j =
     act_bind (act_lift (require (job_ok j) SchemaError)) (\<lambda>_. act_bind (save_route_job j) (\<lambda>_. act_return j))"

definition claim_route_job_candidates :: "runtime \<Rightarrow> claim_input \<Rightarrow> route_job list \<Rightarrow> route_job list store_action" where
  "claim_route_job_candidates R i js = act_each (\<lambda>j. save_claimed (claimed_job R i j)) (due_candidates i js)"

definition claim_due_route_jobs :: "runtime \<Rightarrow> claim_input \<Rightarrow> route_job list store_action" where
  "claim_due_route_jobs R i =
     act_bind (act_read (\<lambda>st. list_route_jobs st no_filters)) (claim_route_job_candidates R i)"

definition waiting_candidates :: "claim_input \<Rightarrow> route_job list \<Rightarrow> route_job list" where
  "waiting_candidates i js =
     take (cl_limit i) (js_sort (\<lambda>a b. cmp_of (job_updated_at a) (job_updated_at b))
       (filter (\<lambda>j. job_status j = WaitingReview \<and> lease_free (cl_now i) j) js))"

definition waiting_lease_token :: "runtime \<Rightarrow> claim_input \<Rightarrow> route_job \<Rightarrow> str" where
  "waiting_lease_token R i j = hash_obj R [(''purpose'', jstr ''review_reconciliation''),
     (''jobId'', jstr (job_id j)), (''claimedBy'', jstr (cl_by i)),
     (''claimedAt'', jstr (iso_instant (cl_now i))),
     (''previousLeaseToken'', jopt (Option.bind (job_lease j) ls_token)),
     (''previousUpdatedAt'', jstr (iso_instant (job_updated_at j)))]"

definition claimed_waiting :: "runtime \<Rightarrow> claim_input \<Rightarrow> route_job \<Rightarrow> route_job" where
  "claimed_waiting R i j =
     j\<lparr>job_lease := Some (new_lease i (waiting_lease_token R i j)), job_updated_at := cl_now i\<rparr>"

definition claim_waiting_candidates :: "runtime \<Rightarrow> claim_input \<Rightarrow> route_job list \<Rightarrow> route_job list store_action" where
  "claim_waiting_candidates R i js = act_each (\<lambda>j. save_claimed (claimed_waiting R i j)) (waiting_candidates i js)"

definition claim_waiting_review_route_jobs :: "runtime \<Rightarrow> claim_input \<Rightarrow> route_job list store_action" where
  "claim_waiting_review_route_jobs R i =
     act_bind (act_read (\<lambda>st. list_route_jobs st (no_filters\<lparr>jf_status := Some WaitingReview\<rparr>)))
       (claim_waiting_candidates R i)"

subsection \<open>Fenced mutations\<close>

definition lease_token :: "route_job \<Rightarrow> str option" where
  "lease_token j = Option.bind (job_lease j) ls_token"

definition mutate_route_job ::
  "str \<Rightarrow> str option \<Rightarrow> (route_job \<Rightarrow> store_error + route_job) \<Rightarrow> route_job store_action" where
  "mutate_route_job jobId expected update =
     act_bind (act_read (\<lambda>st. get_route_job st jobId)) (\<lambda>job.
     (case job of
        None \<Rightarrow> act_throw (JobNotFound jobId)
      | Some j \<Rightarrow>
          if truthy_str expected \<and> lease_token j \<noteq> expected then act_throw (JobLeaseLost jobId)
          else act_bind (act_lift (update j)) (\<lambda>updated.
               act_bind (act_lift (require (job_ok updated) SchemaError)) (\<lambda>_.
               act_bind (save_route_job updated) (\<lambda>_. act_return updated)))))"

record status_update =
  su_status :: job_status
  su_clear_lease :: bool
  su_token :: "str option"
  su_result :: "job_result option"
  su_run_id :: "str option"

definition apply_status :: "status_update \<Rightarrow> instant \<Rightarrow> route_job \<Rightarrow> route_job" where
  "apply_status u now j =
     j\<lparr>job_status := su_status u,
       job_run_id := (if truthy_str (su_run_id u) then the (su_run_id u) else job_run_id j),
       job_result := opt_first (su_result u) (job_result j),
       job_lease := (if su_clear_lease u then None else job_lease j),
       job_updated_at := now\<rparr>"

definition update_route_job_status :: "str \<Rightarrow> status_update \<Rightarrow> instant \<Rightarrow> route_job store_action" where
  "update_route_job_status jobId u now =
     mutate_route_job jobId (su_token u) (\<lambda>j.
       res_bind (require (job_ok (apply_status u now j)) SchemaError) (\<lambda>_. Inr (apply_status u now j)))"

definition mark_route_job_running :: "str \<Rightarrow> str option \<Rightarrow> str option \<Rightarrow> instant \<Rightarrow> route_job store_action" where
  "mark_route_job_running jobId token runId now =
     update_route_job_status jobId \<lparr>su_status = Running, su_clear_lease = False, su_token = token,
       su_result = None, su_run_id = None\<rparr> now"

definition mark_route_job_waiting_review :: "str \<Rightarrow> str option \<Rightarrow> str option \<Rightarrow> instant \<Rightarrow> route_job store_action" where
  "mark_route_job_waiting_review jobId token runId now =
     update_route_job_status jobId \<lparr>su_status = WaitingReview, su_clear_lease = True, su_token = token,
       su_result = None, su_run_id = runId\<rparr> now"

definition mark_route_job_completed ::
  "str \<Rightarrow> str option \<Rightarrow> job_result option \<Rightarrow> str option \<Rightarrow> instant \<Rightarrow> route_job store_action" where
  "mark_route_job_completed jobId token result runId now =
     update_route_job_status jobId \<lparr>su_status = Completed, su_clear_lease = True, su_token = token,
       su_result = result, su_run_id = runId\<rparr> now"

text \<open>
  The back-off delay. \<open>Math.round\<close> rounds halves up. The sources compute in doubles; for the
  integral multiplier the store writes (2) every delay below the cap is exact.
\<close>

definition route_job_retry_delay_seconds :: "route_job \<Rightarrow> nat" where
  "route_job_retry_delay_seconds j =
     (let multiplier = max 1 (backoff_multiplier (job_retry j));
          exponent = job_attempts j - 1;
          delay = nat \<lfloor>of_nat (base_delay_seconds (job_retry j)) * multiplier ^ exponent + 1 / 2\<rfloor>
      in min (max_delay_seconds (job_retry j)) delay)"

definition failed_job :: "str option \<Rightarrow> str \<Rightarrow> instant \<Rightarrow> route_job \<Rightarrow> route_job" where
  "failed_job code message now j =
     (let retry = job_attempts j < job_max_attempts j
      in j\<lparr>job_status := (if retry then Failed else DeadLetter), job_lease := None,
           job_next_run_at := (if retry then now + int (route_job_retry_delay_seconds j) * 1000 else job_next_run_at j),
           job_last_error := Some \<lparr>je_code = code, je_message = message, je_at = now\<rparr>,
           job_dead_letter_reason := (if retry then None else Some message),
           job_updated_at := now\<rparr>)"

definition fail_route_job :: "str \<Rightarrow> str option \<Rightarrow> str option \<Rightarrow> str \<Rightarrow> instant \<Rightarrow> route_job store_action" where
  "fail_route_job jobId token code message now =
     mutate_route_job jobId token (\<lambda>j.
       res_bind (require (job_ok (failed_job code message now j)) SchemaError)
         (\<lambda>_. Inr (failed_job code message now j)))"

definition renewed_job :: "nat \<Rightarrow> instant \<Rightarrow> route_job \<Rightarrow> job_lease \<Rightarrow> route_job" where
  "renewed_job seconds now j l =
     j\<lparr>job_lease := Some (l\<lparr>ls_heartbeat_at := Some now, ls_expires_at := now + int seconds * 1000\<rparr>),
       job_updated_at := now\<rparr>"

definition renew_route_job_lease :: "str \<Rightarrow> str \<Rightarrow> nat \<Rightarrow> instant \<Rightarrow> route_job store_action" where
  "renew_route_job_lease jobId token seconds now =
     mutate_route_job jobId (Some token) (\<lambda>j.
       (case job_lease j of
          None \<Rightarrow> Inl (JobNotLeased (job_id j))
        | Some l \<Rightarrow> res_bind (require (job_ok (renewed_job seconds now j l)) SchemaError)
                     (\<lambda>_. Inr (renewed_job seconds now j l))))"

definition retried_job :: "str \<Rightarrow> str \<Rightarrow> instant \<Rightarrow> route_job \<Rightarrow> route_job" where
  "retried_job requestedBy reason now j =
     j\<lparr>job_status := Queued, job_attempts := 0, job_lease := None, job_next_run_at := now,
       job_dead_letter_reason := None,
       job_last_error := Some \<lparr>je_code = Some ''MANUAL_RETRY_REQUESTED'',
         je_message = reason @ '' (requested by '' @ requestedBy @ '')'', je_at = now\<rparr>,
       job_updated_at := now\<rparr>"

definition retry_route_job :: "str \<Rightarrow> str \<Rightarrow> str \<Rightarrow> instant \<Rightarrow> route_job store_action" where
  "retry_route_job jobId requestedBy reason now =
     mutate_route_job jobId None (\<lambda>j.
       if job_status j \<notin> {Failed, DeadLetter} then Inl (JobCannotBeRetried (job_id j) (job_status j))
       else res_bind (require (job_ok (retried_job requestedBy reason now j)) SchemaError)
              (\<lambda>_. Inr (retried_job requestedBy reason now j)))"

definition cancelled_job :: "str \<Rightarrow> str \<Rightarrow> instant \<Rightarrow> route_job \<Rightarrow> route_job" where
  "cancelled_job cancelledBy reason now j =
     j\<lparr>job_status := Cancelled, job_lease := None,
       job_last_error := Some \<lparr>je_code = Some ''CANCELLED_BY_OPERATOR'',
         je_message = reason @ '' (cancelled by '' @ cancelledBy @ '')'', je_at = now\<rparr>,
       job_updated_at := now\<rparr>"

definition cancel_route_job :: "str \<Rightarrow> str \<Rightarrow> str \<Rightarrow> instant \<Rightarrow> route_job store_action" where
  "cancel_route_job jobId cancelledBy reason now =
     mutate_route_job jobId None (\<lambda>j.
       if job_status j = Completed then Inl (CompletedJobNotCancelled (job_id j))
       else (case job_lease j of
           Some l \<Rightarrow>
             if ls_expires_at l > now then Inl (JobActivelyLeased (job_id j) (ls_claimed_by l))
             else res_bind (require (job_ok (cancelled_job cancelledBy reason now j)) SchemaError)
                    (\<lambda>_. Inr (cancelled_job cancelledBy reason now j))
         | None \<Rightarrow> res_bind (require (job_ok (cancelled_job cancelledBy reason now j)) SchemaError)
                    (\<lambda>_. Inr (cancelled_job cancelledBy reason now j))))"


subsection \<open>Running a claim\<close>

lemma save_claimed_run:
  "save_claimed j st = (if job_ok j then (Inr j, st_jobs_update (coll_put (job_id j) j) st) else (Inl SchemaError, st))"
  by (simp add: save_claimed_def require_def act_bind_def save_runs)

text \<open>The jobs a claim loop rewrites, and only those.\<close>

definition jobs_rewritten :: "(route_job \<Rightarrow> route_job) \<Rightarrow> route_job list \<Rightarrow> routing_store \<Rightarrow> routing_store \<Rightarrow> bool" where
  "jobs_rewritten f js st st' \<longleftrightarrow>
     store_wf st' \<and> (\<forall>j\<in>set js. get_route_job st' (job_id j) = Some (f j)) \<and>
     (\<forall>k. k \<notin> job_id ` set js \<longrightarrow> get_route_job st' k = get_route_job st k) \<and>
     st' = st\<lparr>st_jobs := st_jobs st'\<rparr>"

lemma claim_loop_run:
  assumes "store_wf st" "\<And>j. job_id (f j) = job_id j" "\<forall>j\<in>set js. job_ok (f j)" "distinct (map job_id js)"
  shows "\<exists>st'. act_each (\<lambda>j. save_claimed (f j)) js st = (Inr (map f js), st') \<and> jobs_rewritten f js st st'"
  using assms(1,3,4)
proof (induction js arbitrary: st)
  case Nil
  then show ?case by (simp add: jobs_rewritten_def)
next
  case (Cons j js)
  let ?st = "snd (save_route_job (f j) st)"
  have ok: "job_ok (f j)" using Cons.prems by simp
  have wf: "store_wf ?st" by (rule jobs.save_inv [OF Cons.prems(1)])
  have "\<forall>x\<in>set js. job_ok (f x)" "distinct (map job_id js)" using Cons.prems by simp_all
  from Cons.IH [OF wf this] obtain st' where
    run: "act_each (\<lambda>j. save_claimed (f j)) js ?st = (Inr (map f js), st')" and
    rw: "jobs_rewritten f js ?st st'" by blast
  have notin: "job_id j \<notin> job_id ` set js" using Cons.prems(3) by auto
  have "get_route_job st' (job_id j) = Some (f j)"
    using rw notin jobs.get_saved [OF Cons.prems(1) ok] assms(2) by (simp add: jobs_rewritten_def)
  moreover have "get_route_job st' k = get_route_job st k" if "k \<notin> insert (job_id j) (job_id ` set js)" for k
    using that rw jobs.get_other [OF Cons.prems(1), of k "f j"] assms(2) by (simp add: jobs_rewritten_def)
  moreover have "st' = st\<lparr>st_jobs := st_jobs st'\<rparr>"
  proof -
    have "st' = ?st\<lparr>st_jobs := st_jobs st'\<rparr>" using rw unfolding jobs_rewritten_def by blast
    also have "\<dots> = st\<lparr>st_jobs := st_jobs st'\<rparr>" using ok by (simp add: save_runs)
    finally show ?thesis .
  qed
  ultimately have "jobs_rewritten f (j # js) st st'"
    using rw unfolding jobs_rewritten_def by auto
  moreover have "act_each (\<lambda>j. save_claimed (f j)) (j # js) st = (Inr (map f (j # js)), st')"
    using ok run by (simp add: act_bind_def save_claimed_run save_runs)
  ultimately show ?case by blast
qed

lemma listed_jobs: "store_wf st \<Longrightarrow> j \<in> set (list_route_jobs st no_filters) \<longleftrightarrow> get_route_job st (job_id j) = Some j"
  by (simp add: jobs.get_iff)

lemma waiting_jobs:
  "list_route_jobs st (no_filters\<lparr>jf_status := Some WaitingReview\<rparr>) =
   filter (\<lambda>j. job_status j = WaitingReview) (list_route_jobs st no_filters)"
  by (simp add: list_route_jobs_def no_filters_def)

lemma distinct_candidates:
  assumes "distinct (map f js)"
  shows "distinct (map f (take n (js_sort cmp (filter P js))))"
  using assms by (simp add: take_map [symmetric] distinct_map_filter)

lemma due_candidates_set:
  assumes "store_wf st"
  shows "distinct (map job_id (due_candidates i (list_route_jobs st no_filters)))"
    "j \<in> set (due_candidates i (list_route_jobs st no_filters)) \<Longrightarrow>
       due_job (cl_now i) j \<and> get_route_job st (job_id j) = Some j"
  using distinct_candidates [OF jobs.all_distinct [OF assms]] listed_jobs [OF assms]
  by (auto simp: due_candidates_def dest!: in_set_takeD)

definition waiting_claim :: "claim_input \<Rightarrow> routing_store \<Rightarrow> route_job list" where
  "waiting_claim i st = waiting_candidates i (list_route_jobs st (no_filters\<lparr>jf_status := Some WaitingReview\<rparr>))"

lemma waiting_candidates_set:
  assumes "store_wf st"
  shows "distinct (map job_id (waiting_claim i st))"
    "j \<in> set (waiting_claim i st) \<Longrightarrow>
       job_status j = WaitingReview \<and> lease_free (cl_now i) j \<and> get_route_job st (job_id j) = Some j"
proof -
  show "distinct (map job_id (waiting_claim i st))"
    unfolding waiting_claim_def waiting_jobs waiting_candidates_def
    by (intro distinct_candidates distinct_map_filter jobs.all_distinct [OF assms])
  assume "j \<in> set (waiting_claim i st)"
  then have "job_status j = WaitingReview \<and> lease_free (cl_now i) j \<and> j \<in> set (list_route_jobs st no_filters)"
    unfolding waiting_claim_def waiting_jobs waiting_candidates_def by (auto dest!: in_set_takeD)
  then show "job_status j = WaitingReview \<and> lease_free (cl_now i) j \<and> get_route_job st (job_id j) = Some j"
    by (simp add: listed_jobs [OF assms])
qed

lemma lease_tokens_not_Nil:
  "digest_runtime R \<Longrightarrow> due_lease_token R i j \<noteq> []" "digest_runtime R \<Longrightarrow> waiting_lease_token R i j \<noteq> []"
  by (simp_all add: due_lease_token_def waiting_lease_token_def hash_obj_def content_hash_not_Nil)

lemma claimed_job_ok:
  "digest_runtime R \<Longrightarrow> cl_by i \<noteq> [] \<Longrightarrow> job_ok j \<Longrightarrow> job_ok (claimed_job R i j)"
  "digest_runtime R \<Longrightarrow> cl_by i \<noteq> [] \<Longrightarrow> job_ok j \<Longrightarrow> job_ok (claimed_waiting R i j)"
  by (simp_all add: job_ok_def claimed_job_def claimed_waiting_def new_lease_def lease_ok_def lease_tokens_not_Nil)

lemma claimed_job_id [simp]: "job_id (claimed_job R i j) = job_id j" "job_id (claimed_waiting R i j) = job_id j"
  by (simp_all add: claimed_job_def claimed_waiting_def)

lemma claim_due_run:
  assumes "store_wf st" "digest_runtime R" "cl_by i \<noteq> []"
  shows "\<exists>st'. claim_due_route_jobs R i st =
      (Inr (map (claimed_job R i) (due_candidates i (list_route_jobs st no_filters))), st') \<and>
    jobs_rewritten (claimed_job R i) (due_candidates i (list_route_jobs st no_filters)) st st'"
  unfolding claim_due_route_jobs_def claim_route_job_candidates_def act_bind_read
  using due_candidates_set [OF assms(1)] claimed_job_ok(1) [OF assms(2,3)] jobs.get_ok [OF assms(1)]
  by (intro claim_loop_run [OF assms(1)]) (simp, blast, blast)

lemma claim_waiting_run:
  assumes "store_wf st" "digest_runtime R" "cl_by i \<noteq> []"
  shows "\<exists>st'. claim_waiting_review_route_jobs R i st =
      (Inr (map (claimed_waiting R i) (waiting_claim i st)), st') \<and>
    jobs_rewritten (claimed_waiting R i) (waiting_claim i st) st st'"
  unfolding claim_waiting_review_route_jobs_def claim_waiting_candidates_def act_bind_read
    waiting_claim_def [symmetric]
  using waiting_candidates_set [OF assms(1)] claimed_job_ok(2) [OF assms(2,3)] jobs.get_ok [OF assms(1)]
  by (intro claim_loop_run [OF assms(1)]) (simp, blast, blast)

interpretation due_comparator: comparator due_order
  by unfold_locales (auto simp: due_order_def cmp_then_def cmp_of_def split: if_splits)

subsection \<open>What a claim returns\<close>

definition due_jobs :: "instant \<Rightarrow> routing_store \<Rightarrow> route_job list" where
  "due_jobs now st = filter (due_job now) (list_route_jobs st no_filters)"



subsection \<open>Fencing\<close>

lemma mutate_run:
  "mutate_route_job k expected f st =
    (case get_route_job st k of
       None \<Rightarrow> (Inl (JobNotFound k), st)
     | Some j \<Rightarrow>
         if truthy_str expected \<and> lease_token j \<noteq> expected then (Inl (JobLeaseLost k), st)
         else (case f j of Inl e \<Rightarrow> (Inl e, st)
               | Inr u \<Rightarrow> if job_ok u then (Inr u, st_jobs_update (coll_put (job_id u) u) st)
                          else (Inl SchemaError, st)))"
  by (auto simp: mutate_route_job_def act_bind_def require_def save_runs split: option.splits sum.splits)

definition id_kept :: "(route_job \<Rightarrow> store_error + route_job) \<Rightarrow> bool" where
  "id_kept f \<longleftrightarrow> (\<forall>j u. f j = Inr u \<longrightarrow> job_id u = job_id j)"

lemma mutate_effect:
  assumes wf: "store_wf st" and f: "id_kept f"
  shows "store_wf (snd (mutate_route_job k expected f st))"
    and "k' \<noteq> k \<Longrightarrow> get_route_job (snd (mutate_route_job k expected f st)) k' = get_route_job st k'"
    and "get_route_job (snd (mutate_route_job k expected f st)) k =
      (case get_route_job st k of None \<Rightarrow> None
       | Some j \<Rightarrow> if truthy_str expected \<and> lease_token j \<noteq> expected then Some j
                  else (case f j of Inl e \<Rightarrow> Some j | Inr u \<Rightarrow> if job_ok u then Some u else Some j))"
proof -
  have st: "snd (mutate_route_job k expected f st) = st \<or>
    (\<exists>j u. get_route_job st k = Some j \<and> f j = Inr u \<and> job_ok u \<and>
       snd (mutate_route_job k expected f st) = snd (save_route_job u st))"
    by (auto simp: mutate_run save_runs split: option.splits sum.splits)
  then show "store_wf (snd (mutate_route_job k expected f st))"
    using wf jobs.save_inv [OF wf] by auto
  have key: "job_id u = k" if "get_route_job st k = Some j" "f j = Inr u" for j u
    using that f jobs.get_ok [OF wf] by (metis id_kept_def)
  show "k' \<noteq> k \<Longrightarrow> get_route_job (snd (mutate_route_job k expected f st)) k' = get_route_job st k'"
    using st key jobs.get_other [OF wf] by metis
  have put: "get_route_job (st_jobs_update (coll_put (job_id u) u) st) k = Some u"
    if "get_route_job st k = Some j" "f j = Inr u" "job_ok u" for j u
    using jobs.get_saved [OF wf that(3)] key [OF that(1,2)] that(3) by (simp add: save_runs)
  show "get_route_job (snd (mutate_route_job k expected f st)) k =
      (case get_route_job st k of None \<Rightarrow> None
       | Some j \<Rightarrow> if truthy_str expected \<and> lease_token j \<noteq> expected then Some j
                  else (case f j of Inl e \<Rightarrow> Some j | Inr u \<Rightarrow> if job_ok u then Some u else Some j))"
    by (auto simp: mutate_run put split: option.splits sum.splits)
qed

lemma mutate_holds:
  assumes "store_wf st" "id_kept f" "get_route_job st k = Some j"
    and "k' = k \<Longrightarrow> truthy_str expected \<and> lease_token j \<noteq> expected \<or> (\<exists>e. f j = Inl e)"
  shows "store_wf (snd (mutate_route_job k' expected f st)) \<and>
         get_route_job (snd (mutate_route_job k' expected f st)) k = Some j"
proof (cases "k' = k")
  case True
  then show ?thesis
    using mutate_effect(1,3) [OF assms(1,2), of k' expected] assms(3,4) by auto
next
  case False
  then show ?thesis
    using mutate_effect(1) [OF assms(1,2)] mutate_effect(2) [OF assms(1,2), where k = k' and k' = k] assms(3)
    by auto
qed

lemma id_kept_updates:
  "id_kept (\<lambda>j. res_bind (require (job_ok (apply_status u now j)) SchemaError) (\<lambda>_. Inr (apply_status u now j)))"
  "id_kept (\<lambda>j. res_bind (require (job_ok (failed_job code message now j)) SchemaError)
      (\<lambda>_. Inr (failed_job code message now j)))"
  "id_kept (\<lambda>j. case job_lease j of None \<Rightarrow> Inl (JobNotLeased (job_id j))
      | Some l \<Rightarrow> res_bind (require (job_ok (renewed_job seconds now j l)) SchemaError)
          (\<lambda>_. Inr (renewed_job seconds now j l)))"
  "id_kept (\<lambda>j. if job_status j \<notin> {Failed, DeadLetter} then Inl (JobCannotBeRetried (job_id j) (job_status j))
      else res_bind (require (job_ok (retried_job by reason now j)) SchemaError)
             (\<lambda>_. Inr (retried_job by reason now j)))"
  "id_kept (\<lambda>j. if job_status j = Completed then Inl (CompletedJobNotCancelled (job_id j))
       else (case job_lease j of
           Some l \<Rightarrow>
             if ls_expires_at l > now then Inl (JobActivelyLeased (job_id j) (ls_claimed_by l))
             else res_bind (require (job_ok (cancelled_job by reason now j)) SchemaError)
                    (\<lambda>_. Inr (cancelled_job by reason now j))
         | None \<Rightarrow> res_bind (require (job_ok (cancelled_job by reason now j)) SchemaError)
                    (\<lambda>_. Inr (cancelled_job by reason now j))))"
  by (auto simp: id_kept_def res_bind_Inr_iff apply_status_def failed_job_def renewed_job_def retried_job_def
      cancelled_job_def Let_def split: option.splits if_splits)

text \<open>
  A stale lease token cannot write. A status change, a failure report or a renewal that presents
  a token other than the one the job is leased under is refused with \<open>JobLeaseLost\<close>, and the
  store is exactly as before.
\<close>

theorem stale_token_refused:
  assumes "get_route_job st k = Some j" "tok \<noteq> []" "lease_token j \<noteq> Some tok"
  shows "update_route_job_status k (u\<lparr>su_token := Some tok\<rparr>) now st = (Inl (JobLeaseLost k), st) \<and>
    fail_route_job k (Some tok) code message now st = (Inl (JobLeaseLost k), st) \<and>
    renew_route_job_lease k tok seconds now st = (Inl (JobLeaseLost k), st)"
  using assms by (simp add: update_route_job_status_def fail_route_job_def renew_route_job_lease_def mutate_run)

text \<open>
  The steps of everybody but the holder of a job's lease: submissions, claims of either kind,
  manual retries and cancellations, and mutations under a token that is not the holder's.
\<close>

inductive foreign_step :: "runtime \<Rightarrow> str \<Rightarrow> instant \<Rightarrow> routing_store \<Rightarrow> routing_store \<Rightarrow> bool"
  for R :: runtime and token :: str and now :: instant where
  fs_ingest: "event_ok e \<Longrightarrow> foreign_step R token now st (snd (ingest_routing_event R None e cards replay now st))"
| fs_submit: "foreign_step R token now st (snd (submit_routing_decision R env i now st))"
| fs_claim: "cl_now i = now \<Longrightarrow> cl_by i \<noteq> [] \<Longrightarrow> foreign_step R token now st (snd (claim_due_route_jobs R i st))"
| fs_claim_waiting: "cl_now i = now \<Longrightarrow> cl_by i \<noteq> [] \<Longrightarrow>
    foreign_step R token now st (snd (claim_waiting_review_route_jobs R i st))"
| fs_status: "su_token u = Some t \<Longrightarrow> t \<noteq> [] \<Longrightarrow> t \<noteq> token \<Longrightarrow>
    foreign_step R token now st (snd (update_route_job_status k u now st))"
| fs_fail: "t \<noteq> [] \<Longrightarrow> t \<noteq> token \<Longrightarrow>
    foreign_step R token now st (snd (fail_route_job k (Some t) code message now st))"
| fs_renew: "t \<noteq> [] \<Longrightarrow> t \<noteq> token \<Longrightarrow>
    foreign_step R token now st (snd (renew_route_job_lease k t seconds now st))"
| fs_retry: "foreign_step R token now st (snd (retry_route_job k who reason now st))"
| fs_cancel: "foreign_step R token now st (snd (cancel_route_job k who reason now st))"

text \<open>A run of such steps, each taken before the instant \<open>T\<close>.\<close>

inductive foreign_run :: "runtime \<Rightarrow> str \<Rightarrow> instant \<Rightarrow> routing_store \<Rightarrow> routing_store \<Rightarrow> bool"
  for R :: runtime and token :: str and T :: instant where
  fr_refl: "foreign_run R token T st st"
| fr_step: "foreign_run R token T st st1 \<Longrightarrow> now < T \<Longrightarrow> foreign_step R token now st1 st2 \<Longrightarrow>
    foreign_run R token T st st2"

definition held_until :: "route_job \<Rightarrow> str \<Rightarrow> instant \<Rightarrow> bool" where
  "held_until j token T \<longleftrightarrow>
     (\<exists>l. job_lease j = Some l \<and> ls_token l = Some token \<and> ls_expires_at l = T) \<and>
     job_status j \<notin> {Failed, DeadLetter}"

lemma held_not_free: "held_until j token T \<Longrightarrow> now < T \<Longrightarrow> \<not> lease_free now j"
  by (auto simp: held_until_def lease_free_def)

lemma held_token: "held_until j token T \<Longrightarrow> lease_token j = Some token"
  by (auto simp: held_until_def lease_token_def)

lemma rewritten_others:
  "jobs_rewritten f js st st' \<Longrightarrow> get_route_job st k = Some j \<Longrightarrow> j \<notin> set js \<Longrightarrow>
   (\<And>x. x \<in> set js \<Longrightarrow> get_route_job st (job_id x) = Some x) \<Longrightarrow> get_route_job st' k = Some j"
proof -
  assume rw: "jobs_rewritten f js st st'" and j: "get_route_job st k = Some j" "j \<notin> set js"
    and js: "\<And>x. x \<in> set js \<Longrightarrow> get_route_job st (job_id x) = Some x"
  have "k \<notin> job_id ` set js"
  proof
    assume "k \<in> job_id ` set js"
    then obtain x where "x \<in> set js" "k = job_id x" by blast
    with js j show False by simp
  qed
  with rw j(1) show ?thesis unfolding jobs_rewritten_def by simp
qed

lemma ingest_keeps_jobs:
  assumes "event_ok e" "digest_runtime R" "store_wf st"
  shows "jobs_kept st (snd (ingest_routing_event R None e cards replay now st))"
proof -
  have "keeps (jobs_kept st) (save_event_receipt (written_receipt R e replay now st))"
    by (rule keeps_jobs_frame) (auto intro!: receipts.save_keeps simp: save_event_receipt_run)
  with jobs_kept_refl [OF assms(3)] show ?thesis
    by (simp add: keeps_def ingest_writes(1) [OF assms(1,2)])
qed

lemma foreign_step_holds:
  assumes "foreign_step R token now st st'" "digest_runtime R" "store_wf st"
    and j: "get_route_job st k = Some j" "held_until j token T" "now < T"
  shows "store_wf st' \<and> get_route_job st' k = Some j"
  using assms(1)
proof cases
  case (fs_ingest e cards replay)
  have "jobs_kept st st'"
    unfolding fs_ingest(1) by (rule ingest_keeps_jobs [OF fs_ingest(2) assms(2,3)])
  with j(1) show ?thesis by (simp add: jobs_kept_def)
next
  case (fs_submit env i)
  have "jobs_kept st st" by (rule jobs_kept_refl [OF assms(3)])
  then have "jobs_kept st st'" using keeps_jobs_submit unfolding fs_submit keeps_def by blast
  with j(1) show ?thesis by (simp add: jobs_kept_def)
next
  case (fs_claim i)
  obtain s where s: "snd (claim_due_route_jobs R i st) = s"
    "jobs_rewritten (claimed_job R i) (due_candidates i (list_route_jobs st no_filters)) st s"
    using claim_due_run [OF assms(3,2) fs_claim(3)] by fastforce
  have "j \<notin> set (due_candidates i (list_route_jobs st no_filters))"
    using due_candidates_set(2) [OF assms(3), of j i] held_not_free [OF j(2,3)] fs_claim(2)
    by (auto simp: due_job_def)
  from rewritten_others [OF s(2) j(1) this] due_candidates_set(2) [OF assms(3)]
  have "get_route_job s k = Some j" by blast
  with s fs_claim(1) show ?thesis by (simp add: jobs_rewritten_def)
next
  case (fs_claim_waiting i)
  obtain s where s: "snd (claim_waiting_review_route_jobs R i st) = s"
    "jobs_rewritten (claimed_waiting R i) (waiting_claim i st) st s"
    using claim_waiting_run [OF assms(3,2) fs_claim_waiting(3)] by fastforce
  have "j \<notin> set (waiting_claim i st)"
    using waiting_candidates_set(2) [OF assms(3), of j i] held_not_free [OF j(2,3)] fs_claim_waiting(2)
    by auto
  from rewritten_others [OF s(2) j(1) this] waiting_candidates_set(2) [OF assms(3)]
  have "get_route_job s k = Some j" by blast
  with s fs_claim_waiting(1) show ?thesis by (simp add: jobs_rewritten_def)
next
  case (fs_status u t k')
  then show ?thesis
    using held_token [OF j(2)] unfolding fs_status update_route_job_status_def
    by (intro mutate_holds [OF assms(3) id_kept_updates(1) j(1)]) simp
next
  case (fs_fail t k')
  then show ?thesis
    using held_token [OF j(2)] unfolding fs_fail fail_route_job_def
    by (intro mutate_holds [OF assms(3) id_kept_updates(2) j(1)]) simp
next
  case (fs_renew t k')
  then show ?thesis
    using held_token [OF j(2)] unfolding fs_renew renew_route_job_lease_def
    by (intro mutate_holds [OF assms(3) id_kept_updates(3) j(1)]) simp
next
  case (fs_retry k')
  show ?thesis
    using j(2) unfolding fs_retry retry_route_job_def
    by (intro mutate_holds [OF assms(3) id_kept_updates(4) j(1)]) (auto simp: held_until_def)
next
  case (fs_cancel k')
  show ?thesis
    using j(2,3) unfolding fs_cancel cancel_route_job_def
    by (intro mutate_holds [OF assms(3) id_kept_updates(5) j(1)]) (auto simp: held_until_def)
qed

text \<open>
  C1: a lease is exclusive. While a job that has not failed is leased under a token, nothing anybody
  else does before the lease ends (ingest events, submit decisions, claim due jobs or reviews, report or renew
  under other tokens, retry or cancel by hand, in any order and number) changes that job at all:
  it is not claimed a second time and keeps its holder, status and attempt count.
\<close>

theorem lease_is_exclusive:
  assumes "foreign_run R token T st st'" and "digest_runtime R" and "store_wf st"
    and "get_route_job st k = Some j" and "held_until j token T"
  shows "get_route_job st' k = Some j"
proof -
  from assms(1) have "store_wf st' \<and> get_route_job st' k = Some j"
    using assms(2-)
    by (induction rule: foreign_run.induct) (auto dest: foreign_step_holds)
  then show ?thesis ..
qed


subsection \<open>The life of a job\<close>

text \<open>
  The state machine of one job: what the operations above may do to it. The callers never set the
  status \<open>claimed\<close> by a status change; only a claim does.
\<close>

definition fence_open :: "str option \<Rightarrow> route_job \<Rightarrow> bool" where
  "fence_open expected j \<longleftrightarrow> (truthy_str expected \<longrightarrow> lease_token j = expected)"

inductive job_move :: "runtime \<Rightarrow> instant \<Rightarrow> route_job \<Rightarrow> route_job \<Rightarrow> bool" for R :: runtime where
  jm_none: "job_move R now j j"
| jm_claim: "due_job (cl_now i) j \<Longrightarrow> cl_by i \<noteq> [] \<Longrightarrow> job_move R (cl_now i) j (claimed_job R i j)"
| jm_review: "job_status j = WaitingReview \<Longrightarrow> lease_free (cl_now i) j \<Longrightarrow> cl_by i \<noteq> [] \<Longrightarrow>
    job_move R (cl_now i) j (claimed_waiting R i j)"
| jm_status: "su_status u \<noteq> Claimed \<Longrightarrow> fence_open (su_token u) j \<Longrightarrow> job_move R now j (apply_status u now j)"
| jm_fail: "fence_open tok j \<Longrightarrow> job_move R now j (failed_job code message now j)"
| jm_renew: "job_lease j = Some l \<Longrightarrow> fence_open (Some t) j \<Longrightarrow> job_move R now j (renewed_job seconds now j l)"
| jm_retry: "job_status j \<in> {Failed, DeadLetter} \<Longrightarrow> job_move R now j (retried_job who reason now j)"
| jm_cancel: "job_status j \<noteq> Completed \<Longrightarrow> lease_free now j \<Longrightarrow> job_move R now j (cancelled_job who reason now j)"

inductive_cases job_moveE: "job_move R now j j'"

inductive queue_step :: "runtime \<Rightarrow> instant \<Rightarrow> routing_store \<Rightarrow> routing_store \<Rightarrow> bool" for R :: runtime where
  qs_ingest: "event_ok e \<Longrightarrow> queue_step R now st (snd (ingest_routing_event R None e cards replay now st))"
| qs_submit: "queue_step R now st (snd (submit_routing_decision R env i now st))"
| qs_claim: "cl_by i \<noteq> [] \<Longrightarrow> queue_step R (cl_now i) st (snd (claim_due_route_jobs R i st))"
| qs_claim_waiting: "cl_by i \<noteq> [] \<Longrightarrow> queue_step R (cl_now i) st (snd (claim_waiting_review_route_jobs R i st))"
| qs_status: "su_status u \<noteq> Claimed \<Longrightarrow> queue_step R now st (snd (update_route_job_status k u now st))"
| qs_fail: "queue_step R now st (snd (fail_route_job k tok code message now st))"
| qs_renew: "queue_step R now st (snd (renew_route_job_lease k t seconds now st))"
| qs_retry: "queue_step R now st (snd (retry_route_job k who reason now st))"
| qs_cancel: "queue_step R now st (snd (cancel_route_job k who reason now st))"

inductive queue_run :: "runtime \<Rightarrow> routing_store \<Rightarrow> routing_store \<Rightarrow> bool" for R :: runtime where
  qr_refl: "queue_run R st st"
| qr_step: "queue_run R st st1 \<Longrightarrow> queue_step R now st1 st2 \<Longrightarrow> queue_run R st st2"

text \<open>Every operation on the store is, on each stored job, one move of that job.\<close>

definition jobs_move :: "runtime \<Rightarrow> instant \<Rightarrow> routing_store \<Rightarrow> routing_store \<Rightarrow> bool" where
  "jobs_move R now st st' \<longleftrightarrow> store_wf st' \<and>
     (\<forall>k j. get_route_job st k = Some j \<longrightarrow> (\<exists>j'. get_route_job st' k = Some j' \<and> job_move R now j j')) \<and>
     (\<forall>k j. get_route_job st' k = Some j \<longrightarrow> get_route_job st k = None \<longrightarrow> queued_fresh j)"

lemma mutate_moves:
  assumes wf: "store_wf st" and f: "id_kept f"
    and move: "\<And>j u. f j = Inr u \<Longrightarrow> fence_open expected j \<Longrightarrow> job_move R now j u"
  shows "jobs_move R now st (snd (mutate_route_job k expected f st))"
proof -
  let ?st = "snd (mutate_route_job k expected f st)"
  note eff = mutate_effect [OF wf f]
  have "\<exists>j'. get_route_job ?st k' = Some j' \<and> job_move R now j j'" if j: "get_route_job st k' = Some j" for k' j
  proof (cases "k' = k")
    case True
    show ?thesis
      using j eff(3) [of k expected] move [of j] jm_none [of R now j]
      by (auto simp: True fence_open_def split: if_splits sum.splits)
  next
    case False
    with eff(2) j show ?thesis using jm_none by auto
  qed
  moreover have "get_route_job ?st k' = None" if "get_route_job st k' = None" for k'
    using that eff(2) [of k' k expected] eff(3) [of k expected] by (cases "k' = k") simp_all
  ultimately show ?thesis using eff(1) unfolding jobs_move_def by fastforce
qed

lemma rewritten_moves:
  assumes rw: "jobs_rewritten f js st st'"
    and js: "\<And>x. x \<in> set js \<Longrightarrow> get_route_job st (job_id x) = Some x \<and> job_move R now x (f x)"
  shows "jobs_move R now st st'"
proof -
  have "\<exists>j'. get_route_job st' k = Some j' \<and> job_move R now j j'" if j: "get_route_job st k = Some j" for k j
  proof (cases "k \<in> job_id ` set js")
    case True
    then obtain x where x: "x \<in> set js" "k = job_id x" by blast
    with js j have "x = j" by simp
    with x js [OF x(1)] rw show ?thesis by (auto simp: jobs_rewritten_def)
  next
    case False
    with rw j show ?thesis using jm_none by (auto simp: jobs_rewritten_def)
  qed
  moreover have "get_route_job st' k = None" if none: "get_route_job st k = None" for k
  proof -
    have "k \<notin> job_id ` set js" using js none by force
    with rw none show ?thesis by (simp add: jobs_rewritten_def)
  qed
  moreover have "store_wf st'" using rw by (simp add: jobs_rewritten_def)
  ultimately show ?thesis unfolding jobs_move_def by fastforce
qed

lemma queue_step_moves:
  assumes "queue_step R now st st'" "digest_runtime R" "store_wf st"
  shows "jobs_move R now st st'"
  using assms(1)
proof cases
  case (qs_ingest e cards replay)
  have "jobs_kept st st'"
    unfolding qs_ingest(1) by (rule ingest_keeps_jobs [OF qs_ingest(2) assms(2,3)])
  then show ?thesis using jm_none by (auto simp: jobs_kept_def jobs_move_def)
next
  case (qs_submit env i)
  have "jobs_kept st st'"
    using keeps_jobs_submit jobs_kept_refl [OF assms(3)] unfolding qs_submit keeps_def by blast
  then show ?thesis using jm_none by (auto simp: jobs_kept_def jobs_move_def)
next
  case (qs_claim i)
  obtain s where s: "snd (claim_due_route_jobs R i st) = s"
    "jobs_rewritten (claimed_job R i) (due_candidates i (list_route_jobs st no_filters)) st s"
    using claim_due_run [OF assms(3,2) qs_claim(3)] by fastforce
  show ?thesis unfolding qs_claim(1,2) s(1)
    by (rule rewritten_moves [OF s(2)]) (auto dest!: due_candidates_set(2) [OF assms(3)] intro: jm_claim [OF _ qs_claim(3)])
next
  case (qs_claim_waiting i)
  obtain s where s: "snd (claim_waiting_review_route_jobs R i st) = s"
    "jobs_rewritten (claimed_waiting R i) (waiting_claim i st) st s"
    using claim_waiting_run [OF assms(3,2) qs_claim_waiting(3)] by fastforce
  show ?thesis unfolding qs_claim_waiting(1,2) s(1)
    by (rule rewritten_moves [OF s(2)])
      (auto dest!: waiting_candidates_set(2) [OF assms(3)] intro: jm_review [OF _ _ qs_claim_waiting(3)])
next
  case (qs_status u k)
  show ?thesis unfolding qs_status(1) update_route_job_status_def
    by (rule mutate_moves [OF assms(3) id_kept_updates(1)])
      (auto simp: res_bind_Inr_iff intro: jm_status [OF qs_status(2)])
next
  case (qs_fail k tok code message)
  show ?thesis unfolding qs_fail(1) fail_route_job_def
    by (rule mutate_moves [OF assms(3) id_kept_updates(2)]) (auto simp: res_bind_Inr_iff intro: jm_fail)
next
  case (qs_renew k t seconds)
  show ?thesis unfolding qs_renew(1) renew_route_job_lease_def
    by (rule mutate_moves [OF assms(3) id_kept_updates(3)])
      (auto simp: res_bind_Inr_iff split: option.splits intro: jm_renew)
next
  case (qs_retry k who reason)
  show ?thesis unfolding qs_retry(1) retry_route_job_def
    by (rule mutate_moves [OF assms(3) id_kept_updates(4)])
      (auto simp: res_bind_Inr_iff split: if_splits intro: jm_retry)
next
  case (qs_cancel k who reason)
  show ?thesis unfolding qs_cancel(1) cancel_route_job_def
    by (rule mutate_moves [OF assms(3) id_kept_updates(5)])
      (auto simp: res_bind_Inr_iff lease_free_def not_less split: if_splits option.splits intro!: jm_cancel)
qed


text \<open>What never changes about a job, and the bounds every reachable job satisfies.\<close>

definition same_binding :: "route_job \<Rightarrow> route_job \<Rightarrow> bool" where
  "same_binding j j' \<longleftrightarrow>
     job_id j' = job_id j \<and> job_idempotency_key j' = job_idempotency_key j \<and>
     job_event_id j' = job_event_id j \<and> job_problem_id j' = job_problem_id j \<and>
     job_commit_id j' = job_commit_id j \<and> job_attempt_id j' = job_attempt_id j \<and>
     job_loop_id j' = job_loop_id j \<and> job_loop_spec_hash j' = job_loop_spec_hash j \<and>
     job_activation j' = job_activation j \<and> job_target j' = job_target j \<and>
     job_correlation j' = job_correlation j \<and> job_max_attempts j' = job_max_attempts j \<and>
     job_created_at j' = job_created_at j"

lemma move_binding: "job_move R now j j' \<Longrightarrow> same_binding j j'"
  by (erule job_moveE) (auto simp: same_binding_def claimed_job_def claimed_waiting_def apply_status_def
    failed_job_def renewed_job_def retried_job_def cancelled_job_def Let_def)

definition job_bounds :: "route_job \<Rightarrow> bool" where
  "job_bounds j \<longleftrightarrow> job_attempts j \<le> job_max_attempts j \<and>
     (job_status j = Claimed \<longrightarrow> job_lease j \<noteq> None \<and> 1 \<le> job_attempts j)"

lemma move_bounds: "job_move R now j j' \<Longrightarrow> job_bounds j \<Longrightarrow> job_bounds j'"
  by (erule job_moveE) (auto simp: job_bounds_def claimed_job_def claimed_waiting_def apply_status_def due_job_def
    failed_job_def renewed_job_def retried_job_def cancelled_job_def Let_def split: if_splits)

lemma queue_run_jobs:
  assumes "queue_run R st st'" "digest_runtime R" "store_wf st"
  shows "store_wf st' \<and> (\<forall>k j. get_route_job st k = Some j \<longrightarrow> (\<exists>j'. get_route_job st' k = Some j' \<and> same_binding j j'))"
  using assms(1,3)
proof (induction rule: queue_run.induct)
  case (qr_refl st)
  then show ?case by (auto simp: same_binding_def)
next
  case (qr_step st st1 now st2)
  then have wf: "store_wf st1" by simp
  from queue_step_moves [OF qr_step.hyps(2) assms(2) wf] have m: "jobs_move R now st1 st2" .
  have "\<exists>j'. get_route_job st2 k = Some j' \<and> same_binding j j'" if "get_route_job st k = Some j" for k j
  proof -
    from qr_step.IH [OF qr_step.prems] that obtain x where x: "get_route_job st1 k = Some x" "same_binding j x" by blast
    with m obtain y where "get_route_job st2 k = Some y" "job_move R now x y" unfolding jobs_move_def by blast
    with x(2) move_binding [of R now x y] show ?thesis by (auto simp: same_binding_def)
  qed
  with m show ?case by (simp add: jobs_move_def)
qed

text \<open>
  C38: a job is never lost and never rebound. Through any sequence of ingestions, submissions, claims, status
  changes, failures, renewals, retries and cancellations, a stored job stays stored under its
  identifier, for the same event, problem, commit, attempt, loop, specification, activation mode,
  execution target and correlation.
\<close>

theorem job_binding_is_permanent:
  assumes "queue_run R st st'" and "digest_runtime R" and "store_wf st"
    and "get_route_job st k = Some j"
  shows "\<exists>j'. get_route_job st' k = Some j' \<and> same_binding j j'"
  using queue_run_jobs [OF assms(1-3)] assms(4) by blast

text \<open>
  C3: attempts are bounded. In every store reached from the empty one, no job has made more attempts
  than its maximum, and a claimed job is under a lease and has made at least one attempt.
\<close>

theorem reachable_attempts_bounded:
  assumes "queue_run R empty_store st" and "digest_runtime R" and "get_route_job st k = Some j"
  shows "job_attempts j \<le> job_max_attempts j \<and>
    (job_status j = Claimed \<longrightarrow> job_lease j \<noteq> None \<and> 1 \<le> job_attempts j)"
proof -
  have "store_wf st \<and> (\<forall>k j. get_route_job st k = Some j \<longrightarrow> job_bounds j)"
    using assms(1)
  proof (induction "empty_store" st)
    case qr_refl
    then show ?case
      by (simp add: empty_store_wf get_route_job_def record_get_def) (simp add: empty_store_def)
  next
    case (qr_step st1 now st2)
    then have wf: "store_wf st1" and b: "\<And>k j. get_route_job st1 k = Some j \<Longrightarrow> job_bounds j" by auto
    from queue_step_moves [OF qr_step.hyps(3) assms(2) wf] have m: "jobs_move R now st1 st2" .
    have "job_bounds j" if j: "get_route_job st2 k = Some j" for k j
    proof (cases "get_route_job st1 k")
      case None
      with m j have "queued_fresh j" by (simp add: jobs_move_def)
      then show ?thesis by (simp add: queued_fresh_def job_bounds_def)
    next
      case (Some x)
      with m j have "job_move R now x j" unfolding jobs_move_def by fastforce
      with b [OF Some] show ?thesis using move_bounds by blast
    qed
    with m show ?case by (simp add: jobs_move_def)
  qed
  with assms(3) have "job_bounds j" by blast
  then show ?thesis by (simp add: job_bounds_def)
qed

subsection \<open>Retries\<close>

lemma retry_delay_mono_attempts:
  assumes "job_retry j' = job_retry j" "job_attempts j \<le> job_attempts j'"
  shows "route_job_retry_delay_seconds j \<le> route_job_retry_delay_seconds j'"
proof -
  let ?m = "max 1 (backoff_multiplier (job_retry j))" and ?b = "of_nat (base_delay_seconds (job_retry j)) :: rat"
  have "?m ^ (job_attempts j - 1) \<le> ?m ^ (job_attempts j' - 1)"
    using assms(2) by (intro power_increasing) auto
  then have "?b * ?m ^ (job_attempts j - 1) \<le> ?b * ?m ^ (job_attempts j' - 1)"
    by (intro mult_left_mono) auto
  then have "nat \<lfloor>?b * ?m ^ (job_attempts j - 1) + 1 / 2\<rfloor> \<le> nat \<lfloor>?b * ?m ^ (job_attempts j' - 1) + 1 / 2\<rfloor>"
    by (intro nat_mono floor_mono) simp
  then show ?thesis
    unfolding route_job_retry_delay_seconds_def Let_def assms(1) by (intro min.mono order_refl)
qed

lemma retry_delay_ge:
  "min (max_delay_seconds (job_retry j)) (base_delay_seconds (job_retry j)) \<le> route_job_retry_delay_seconds j"
proof -
  let ?m = "max 1 (backoff_multiplier (job_retry j))" and ?b = "base_delay_seconds (job_retry j)"
  have "of_nat ?b * 1 \<le> (of_nat ?b * ?m ^ (job_attempts j - 1) :: rat)"
    by (intro mult_left_mono one_le_power) auto
  then have "?b \<le> nat \<lfloor>of_nat ?b * ?m ^ (job_attempts j - 1) + 1 / 2\<rfloor>"
    by (simp add: le_nat_iff le_floor_iff)
  then show ?thesis by (simp add: route_job_retry_delay_seconds_def Let_def)
qed

text \<open>
  A failure is retried with bounded back-off until the attempts are used up. A failure report
  that passes the fence clears the lease; with attempts left the job waits at least its base delay
  (or its maximum delay, when that is less) and at most its maximum, and is not due before; on the last
  attempt it becomes a dead letter, with the error as its reason, and is never due again.
\<close>

theorem failure_backs_off:
  assumes "store_wf st" and "get_route_job st k = Some j" and "fence_open tok j" and "message \<noteq> []"
  shows "\<exists>j' st'. fail_route_job k tok code message now st = (Inr j', st') \<and> get_route_job st' k = Some j' \<and>
    job_lease j' = None \<and>
    (if job_attempts j < job_max_attempts j
     then job_status j' = Failed \<and>
       (\<exists>d. job_next_run_at j' = now + int d * 1000 \<and> d \<le> max_delay_seconds (job_retry j) \<and>
            min (max_delay_seconds (job_retry j)) (base_delay_seconds (job_retry j)) \<le> d) \<and>
       (\<forall>t. due_job t j' \<longleftrightarrow> job_next_run_at j' \<le> t)
     else job_status j' = DeadLetter \<and> job_dead_letter_reason j' = Some message \<and> (\<forall>t. \<not> due_job t j'))"
proof -
  let ?j = "failed_job code message now j"
  have ok: "job_ok ?j"
    using jobs.get_ok [OF assms(1,2)] assms(4) by (auto simp: job_ok_def failed_job_def Let_def)
  have key: "job_id ?j = k"
    using jobs.get_ok [OF assms(1,2)] by (simp add: failed_job_def Let_def)
  have run: "fail_route_job k tok code message now st = (Inr ?j, snd (save_route_job ?j st))"
    using assms(2,3) ok by (auto simp: fail_route_job_def mutate_run fence_open_def require_def save_runs)
  have "get_route_job (snd (save_route_job ?j st)) k = Some ?j"
    using jobs.get_saved [OF assms(1) ok] key by simp
  moreover have "route_job_retry_delay_seconds j \<le> max_delay_seconds (job_retry j)"
    by (simp add: route_job_retry_delay_seconds_def Let_def)
  ultimately show ?thesis
    using run retry_delay_ge [of j]
    by (intro exI [of _ ?j] exI [of _ "snd (save_route_job ?j st)"])
      (auto simp: failed_job_def due_job_def lease_free_def Let_def)
qed

subsection \<open>Two ways a job misses its schedule\<close>

text \<open>
  A job whose worker dies on the last attempt is stuck. Once a claimed or running job has used
  its last attempt, no claim takes it up at any later time, although its lease has long expired:
  it is neither retried nor moved to the dead letters by the queue.
\<close>

theorem last_attempt_never_reclaimed:
  assumes "store_wf st" and "digest_runtime R" and "cl_by i \<noteq> []"
    and "get_route_job st k = Some j" and "job_status j \<in> {Claimed, Running}"
    and "job_attempts j = job_max_attempts j"
  shows "get_route_job (snd (claim_due_route_jobs R i st)) k = Some j \<and>
    get_route_job (snd (claim_waiting_review_route_jobs R i st)) k = Some j \<and>
    fst (retry_route_job k who reason now st) = Inl (JobCannotBeRetried (job_id j) (job_status j))"
proof -
  obtain s where s: "snd (claim_due_route_jobs R i st) = s"
    "jobs_rewritten (claimed_job R i) (due_candidates i (list_route_jobs st no_filters)) st s"
    using claim_due_run [OF assms(1-3)] by fastforce
  have "j \<notin> set (due_candidates i (list_route_jobs st no_filters))"
    using due_candidates_set(2) [OF assms(1), of j i] assms(6) by (auto simp: due_job_def)
  from rewritten_others [OF s(2) assms(4) this] due_candidates_set(2) [OF assms(1)]
  have due: "get_route_job s k = Some j" by blast
  obtain s' where s': "snd (claim_waiting_review_route_jobs R i st) = s'"
    "jobs_rewritten (claimed_waiting R i) (waiting_claim i st) st s'"
    using claim_waiting_run [OF assms(1-3)] by fastforce
  have "j \<notin> set (waiting_claim i st)"
    using waiting_candidates_set(2) [OF assms(1), of j i] assms(5) by auto
  from rewritten_others [OF s'(2) assms(4) this] waiting_candidates_set(2) [OF assms(1)]
  have "get_route_job s' k = Some j" by blast
  with due s(1) s'(1) assms(4,5) show ?thesis
    by (auto simp: retry_route_job_def mutate_run)
qed


text \<open>
  Starting a job that was dispatched to Hermes makes it due again. The started callback marks the
  job running without a lease, and a running job without a lease and with attempts left is due at
  every later instant: the next claim takes the job up and dispatches the same work once more while
  Hermes is still executing it.
\<close>

theorem started_dispatch_is_due_again:
  assumes "store_wf st" and "get_route_job st k = Some j" and "job_status j = Dispatched"
    and "job_lease j = None" and "job_attempts j < job_max_attempts j" and "job_next_run_at j \<le> t"
  shows "\<exists>j' st'. mark_route_job_running k None runId now st = (Inr j', st') \<and>
    get_route_job st' k = Some j' \<and> job_status j' = Running \<and> due_job t j'"
proof -
  let ?u = "\<lparr>su_status = Running, su_clear_lease = False, su_token = None, su_result = None, su_run_id = None\<rparr>"
  let ?j = "apply_status ?u now j"
  have j: "job_ok j" "job_id j = k" using jobs.get_ok [OF assms(1,2)] by auto
  have ok: "job_ok ?j" using j by (simp add: job_ok_def apply_status_def)
  have id: "job_id ?j = k" using j by (simp add: apply_status_def)
  have "mark_route_job_running k None runId now st = (Inr ?j, snd (save_route_job ?j st))"
    using assms(2) ok by (simp add: mark_route_job_running_def update_route_job_status_def mutate_run require_def save_runs)
  moreover have "get_route_job (snd (save_route_job ?j st)) k = Some ?j"
    using jobs.get_saved [OF assms(1) ok] id by simp
  moreover have "job_status ?j = Running" "due_job t ?j"
    using assms(4-6) by (simp_all add: apply_status_def due_job_def lease_free_def)
  ultimately show ?thesis by blast
qed

end
