(* ===== verification/HermesOps.thy ===== *)
theory HermesOps imports RoutingRules Actions begin

text \<open>
  Hermes agents and their execution events (core/hermes-operations.ts and
  runtime/hermes-operations-store.ts): the records with what their schemas accept, the file store
  with its idempotent append, and the choice of the agent that executes a job. An event file is
  named by the digest of the event's idempotency key.
\<close>

datatype agent_status = AgentOnline | AgentDegraded | AgentOffline | AgentDisabled

record hermes_agent =
  ag_id :: str
  ag_workspace :: str
  ag_organization :: "str option"
  ag_name :: str
  ag_environment :: exec_environment
  ag_status :: agent_status
  ag_runtime_version :: str
  ag_capabilities :: "str list"
  ag_assigned_loops :: "str list"
  ag_default_router :: bool
  ag_public_key :: "str option"
  ag_labels :: "(str \<times> str) list"
  ag_heartbeat_at :: instant
  ag_registered_at :: instant
  ag_updated_at :: instant

datatype hermes_event_type =
    AssignmentReceived | RunStarted | TaskStarted | TaskCompletedEvent | TaskFailedEvent
  | ToolStarted | ToolCompleted | ToolFailed | ApprovalRequested | ApprovalResolved
  | OutputCreated | OutcomeObserved | RunCompleted | RunFailedEvent

datatype approval_state = AppRequested | AppApproved | AppRejected | AppExpired

record event_task =
  et_id :: str
  et_label :: str
  et_owner :: "str option"
  et_summary :: "str option"

record event_tool =
  eo_call :: str
  eo_tool :: str
  eo_input_ref :: "str option"
  eo_output_ref :: "str option"

record event_approval =
  ea_id :: str
  ea_status :: approval_state
  ea_role :: "str option"
  ea_by :: "str option"
  ea_reason :: "str option"

record event_output =
  eu_id :: str
  eu_type :: str
  eu_label :: str
  eu_ref :: "str option"

record event_outcome =
  ec_metric :: str
  ec_value :: rat
  ec_unit :: "str option"
  ec_ref :: "str option"

record event_error =
  ee_code :: str
  ee_message :: str
  ee_retryable :: bool

record hermes_event =
  he_id :: str
  he_key :: str
  he_workspace :: str
  he_organization :: "str option"
  he_company :: str
  he_agent :: str
  he_type :: hermes_event_type
  he_job :: str
  he_commit :: str
  he_attempt :: str
  he_event :: str
  he_problem :: str
  he_loop :: str
  he_loop_spec_hash :: str
  he_run :: str
  he_correlation :: str
  he_sequence :: nat
  he_task :: "event_task option"
  he_tool :: "event_tool option"
  he_approval :: "event_approval option"
  he_output :: "event_output option"
  he_outcome :: "event_outcome option"
  he_error :: "event_error option"
  he_summary :: "str option"
  he_occurred_at :: instant
  he_recorded_at :: instant

subsection \<open>Schemas\<close>

definition len_ok :: "nat \<Rightarrow> str \<Rightarrow> bool" where
  "len_ok n s = (s \<noteq> [] \<and> length s \<le> n)"

definition opt_len_ok :: "nat \<Rightarrow> str option \<Rightarrow> bool" where
  "opt_len_ok n s = (case s of None \<Rightarrow> True | Some x \<Rightarrow> len_ok n x)"

definition opt_max_ok :: "nat \<Rightarrow> str option \<Rightarrow> bool" where
  "opt_max_ok n s = (case s of None \<Rightarrow> True | Some x \<Rightarrow> length x \<le> n)"

definition agent_ok :: "hermes_agent \<Rightarrow> bool" where
  "agent_ok a =
     (len_ok 160 (ag_id a) \<and> len_ok 160 (ag_workspace a) \<and> opt_len_ok 160 (ag_organization a) \<and>
      len_ok 200 (ag_name a) \<and> len_ok 100 (ag_runtime_version a) \<and>
      list_all (len_ok 160) (ag_capabilities a) \<and> length (ag_capabilities a) \<le> 250 \<and>
      list_all (len_ok 200) (ag_assigned_loops a) \<and> length (ag_assigned_loops a) \<le> 500 \<and>
      opt_len_ok 200 (ag_public_key a) \<and>
      list_all (\<lambda>(k, v). length k \<le> 100 \<and> length v \<le> 500) (ag_labels a))"

definition task_ok :: "event_task \<Rightarrow> bool" where
  "task_ok t = (len_ok 200 (et_id t) \<and> len_ok 300 (et_label t) \<and> opt_len_ok 200 (et_owner t) \<and> opt_max_ok 2000 (et_summary t))"

definition tool_ok :: "event_tool \<Rightarrow> bool" where
  "tool_ok t = (len_ok 200 (eo_call t) \<and> len_ok 200 (eo_tool t) \<and> opt_len_ok 500 (eo_input_ref t) \<and> opt_len_ok 500 (eo_output_ref t))"

definition approval_ok :: "event_approval \<Rightarrow> bool" where
  "approval_ok a = (len_ok 200 (ea_id a) \<and> opt_len_ok 160 (ea_role a) \<and> opt_len_ok 200 (ea_by a) \<and> opt_max_ok 2000 (ea_reason a))"

definition output_ok :: "event_output \<Rightarrow> bool" where
  "output_ok x = (len_ok 200 (eu_id x) \<and> len_ok 160 (eu_type x) \<and> len_ok 300 (eu_label x) \<and> opt_len_ok 500 (eu_ref x))"

definition outcome_ok :: "event_outcome \<Rightarrow> bool" where
  "outcome_ok x = (len_ok 200 (ec_metric x) \<and> opt_len_ok 80 (ec_unit x) \<and> opt_len_ok 500 (ec_ref x))"

definition error_ok :: "event_error \<Rightarrow> bool" where
  "error_ok x = (len_ok 160 (ee_code x) \<and> len_ok 4000 (ee_message x))"

definition opt_ok :: "('a \<Rightarrow> bool) \<Rightarrow> 'a option \<Rightarrow> bool" where
  "opt_ok p x = (case x of None \<Rightarrow> True | Some a \<Rightarrow> p a)"

text \<open>The refinement: an event carries the part its type is about.\<close>

definition event_parts_ok :: "hermes_event \<Rightarrow> bool" where
  "event_parts_ok e =
     ((he_type e \<in> {TaskStarted, TaskCompletedEvent, TaskFailedEvent} \<longrightarrow> he_task e \<noteq> None) \<and>
      (he_type e \<in> {ToolStarted, ToolCompleted, ToolFailed} \<longrightarrow> he_tool e \<noteq> None) \<and>
      (he_type e \<in> {ApprovalRequested, ApprovalResolved} \<longrightarrow> he_approval e \<noteq> None) \<and>
      (he_type e = OutputCreated \<longrightarrow> he_output e \<noteq> None) \<and>
      (he_type e = OutcomeObserved \<longrightarrow> he_outcome e \<noteq> None) \<and>
      (he_type e \<in> {RunFailedEvent, TaskFailedEvent, ToolFailed} \<longrightarrow> he_error e \<noteq> None))"

definition hermes_event_ok :: "hermes_event \<Rightarrow> bool" where
  "hermes_event_ok e =
     (list_all (len_ok 200) [he_id e, he_job e, he_commit e, he_attempt e, he_event e, he_problem e, he_loop e,
        he_loop_spec_hash e, he_run e, he_correlation e] \<and>
      len_ok 250 (he_key e) \<and> list_all (len_ok 160) [he_workspace e, he_company e, he_agent e] \<and>
      opt_len_ok 160 (he_organization e) \<and> opt_ok task_ok (he_task e) \<and> opt_ok tool_ok (he_tool e) \<and>
      opt_ok approval_ok (he_approval e) \<and> opt_ok output_ok (he_output e) \<and> opt_ok outcome_ok (he_outcome e) \<and>
      opt_ok error_ok (he_error e) \<and> opt_max_ok 4000 (he_summary e) \<and> event_parts_ok e)"

subsection \<open>The text of an event\<close>

definition event_type_text :: "hermes_event_type \<Rightarrow> str" where
  "event_type_text t = (case t of AssignmentReceived \<Rightarrow> ''assignment.received'' | RunStarted \<Rightarrow> ''run.started''
     | TaskStarted \<Rightarrow> ''task.started'' | TaskCompletedEvent \<Rightarrow> ''task.completed'' | TaskFailedEvent \<Rightarrow> ''task.failed''
     | ToolStarted \<Rightarrow> ''tool.started'' | ToolCompleted \<Rightarrow> ''tool.completed'' | ToolFailed \<Rightarrow> ''tool.failed''
     | ApprovalRequested \<Rightarrow> ''approval.requested'' | ApprovalResolved \<Rightarrow> ''approval.resolved''
     | OutputCreated \<Rightarrow> ''output.created'' | OutcomeObserved \<Rightarrow> ''outcome.observed''
     | RunCompleted \<Rightarrow> ''run.completed'' | RunFailedEvent \<Rightarrow> ''run.failed'')"

definition approval_state_text :: "approval_state \<Rightarrow> str" where
  "approval_state_text a = (case a of AppRequested \<Rightarrow> ''requested'' | AppApproved \<Rightarrow> ''approved''
     | AppRejected \<Rightarrow> ''rejected'' | AppExpired \<Rightarrow> ''expired'')"

definition hermes_event_json :: "hermes_event \<Rightarrow> json" where
  "hermes_event_json e = jobj
     [(''schemaVersion'', jstr ''hermes-execution-event/v1alpha1''), (''id'', jstr (he_id e)),
      (''idempotencyKey'', jstr (he_key e)), (''workspaceId'', jstr (he_workspace e)),
      (''organizationId'', jopt (he_organization e)), (''companyId'', jstr (he_company e)),
      (''agentInstanceId'', jstr (he_agent e)), (''eventType'', jstr (event_type_text (he_type e))),
      (''routeJobId'', jstr (he_job e)), (''routeCommitId'', jstr (he_commit e)),
      (''routeAttemptId'', jstr (he_attempt e)), (''eventId'', jstr (he_event e)),
      (''problemId'', jstr (he_problem e)), (''loopId'', jstr (he_loop e)),
      (''loopSpecHash'', jstr (he_loop_spec_hash e)), (''runId'', jstr (he_run e)),
      (''correlationId'', jstr (he_correlation e)), (''sequence'', Some (JNum (of_nat (he_sequence e)))),
      (''task'', map_option (\<lambda>t. jobj [(''id'', jstr (et_id t)), (''label'', jstr (et_label t)),
         (''owner'', jopt (et_owner t)), (''summary'', jopt (et_summary t))]) (he_task e)),
      (''tool'', map_option (\<lambda>t. jobj [(''callId'', jstr (eo_call t)), (''toolKey'', jstr (eo_tool t)),
         (''inputRef'', jopt (eo_input_ref t)), (''outputRef'', jopt (eo_output_ref t))]) (he_tool e)),
      (''approval'', map_option (\<lambda>a. jobj [(''id'', jstr (ea_id a)),
         (''status'', jstr (approval_state_text (ea_status a))), (''requestedRole'', jopt (ea_role a)),
         (''resolvedBy'', jopt (ea_by a)), (''reason'', jopt (ea_reason a))]) (he_approval e)),
      (''output'', map_option (\<lambda>x. jobj [(''id'', jstr (eu_id x)), (''type'', jstr (eu_type x)),
         (''label'', jstr (eu_label x)), (''artifactRef'', jopt (eu_ref x))]) (he_output e)),
      (''outcome'', map_option (\<lambda>x. jobj [(''metricKey'', jstr (ec_metric x)), (''value'', Some (JNum (ec_value x))),
         (''unit'', jopt (ec_unit x)), (''evidenceRef'', jopt (ec_ref x))]) (he_outcome e)),
      (''error'', map_option (\<lambda>x. jobj [(''code'', jstr (ee_code x)), (''message'', jstr (ee_message x)),
         (''retryable'', Some (JBool (ee_retryable x)))]) (he_error e)),
      (''summary'', jopt (he_summary e)), (''occurredAt'', jstr (iso_instant (he_occurred_at e))),
      (''recordedAt'', jstr (iso_instant (he_recorded_at e)))]"

text \<open>
  The assignment a job is handed to an agent with (the constant \<open>schemaVersion\<close> left out). The URL
  of the callback is one the platform's parser accepts: \<open>callbackUrl\<close> is kept as the text given.
\<close>

record hermes_assignment =
  as_id :: str
  as_workspace :: str
  as_company :: str
  as_agent :: str
  as_job :: str
  as_commit :: str
  as_attempt :: str
  as_event :: str
  as_problem :: str
  as_loop :: str
  as_loop_spec_hash :: str
  as_run :: str
  as_correlation :: str
  as_activation :: activation_mode
  as_capabilities :: "str list"
  as_event_ref :: str
  as_callback :: "str option"
  as_inputs :: "(str \<times> json) list"
  as_issued_at :: instant

definition assignment_ok :: "hermes_assignment \<Rightarrow> bool" where
  "assignment_ok a =
     (len_ok 200 (as_id a) \<and> len_ok 160 (as_workspace a) \<and> len_ok 160 (as_company a) \<and> len_ok 160 (as_agent a) \<and>
      len_ok 200 (as_job a) \<and> len_ok 200 (as_commit a) \<and> len_ok 200 (as_attempt a) \<and> len_ok 200 (as_event a) \<and>
      len_ok 200 (as_problem a) \<and> len_ok 200 (as_loop a) \<and> len_ok 200 (as_loop_spec_hash a) \<and>
      len_ok 200 (as_run a) \<and> len_ok 200 (as_correlation a) \<and>
      as_activation a \<in> {ExecuteWithApproval, AutonomousLowRisk} \<and> list_all (len_ok 160) (as_capabilities a) \<and>
      length (as_capabilities a) \<le> 250 \<and> len_ok 500 (as_event_ref a))"

subsection \<open>The store\<close>

record hermes_ops =
  ho_agents :: "hermes_agent coll"
  ho_events :: "hermes_event coll"

datatype ops_error = OpsSchemaError | EventUnreadable str | EventConflict str

definition empty_ops :: hermes_ops where
  "empty_ops = \<lparr>ho_agents = [], ho_events = []\<rparr>"

definition save_agent :: "hermes_agent \<Rightarrow> (hermes_ops, ops_error, unit) action" where
  "save_agent a =
     act_bind (act_lift (require (agent_ok a) OpsSchemaError)) (\<lambda>_.
       act_write (\<lambda>s. s\<lparr>ho_agents := coll_put (ag_id a) a (ho_agents s)\<rparr>))"

definition get_agent :: "hermes_ops \<Rightarrow> str \<Rightarrow> hermes_agent option" where
  "get_agent s i = (case coll_get (ho_agents s) i of None \<Rightarrow> None | Some a \<Rightarrow> if agent_ok a then Some a else None)"

record agent_filters =
  af_workspace :: "str option"
  af_organization :: "str option"
  af_environment :: "exec_environment option"
  af_status :: "agent_status option"

definition list_agents :: "runtime \<Rightarrow> hermes_ops \<Rightarrow> agent_filters \<Rightarrow> hermes_agent list" where
  "list_agents R s f =
     js_sort (\<lambda>a b. locale_compare R (ag_name a) (ag_name b))
       (filter (\<lambda>a. (\<not> truthy_str (af_workspace f) \<or> Some (ag_workspace a) = af_workspace f) \<and>
            (\<not> truthy_str (af_organization f) \<or> ag_organization a = af_organization f) \<and>
            (af_environment f = None \<or> Some (ag_environment a) = af_environment f) \<and>
            (af_status f = None \<or> Some (ag_status a) = af_status f))
         (filter agent_ok (coll_values (ho_agents s))))"

definition event_file :: "runtime \<Rightarrow> str \<Rightarrow> str" where
  "event_file R key = content_hash R (jstr key)"

definition event_hash :: "runtime \<Rightarrow> hermes_event \<Rightarrow> str" where
  "event_hash R e = content_hash R (Some (hermes_event_json e))"

text \<open>The exclusive write: the event is new, equal to the stored one, or in conflict with it.\<close>

definition append_execution_event ::
  "runtime \<Rightarrow> hermes_event \<Rightarrow> (hermes_ops, ops_error, hermes_event \<times> bool) action" where
  "append_execution_event R e =
     act_bind (act_lift (require (hermes_event_ok e) OpsSchemaError)) (\<lambda>_.
     act_bind (act_read (\<lambda>s. coll_get (ho_events s) (event_file R (he_key e)))) (\<lambda>found.
     (case found of
        None \<Rightarrow>
          act_bind (act_write (\<lambda>s. s\<lparr>ho_events := coll_put (event_file R (he_key e)) e (ho_events s)\<rparr>)) (\<lambda>_.
            act_return (e, True))
      | Some x \<Rightarrow>
          if \<not> hermes_event_ok x then act_throw (EventUnreadable (he_key e))
          else if event_hash R x \<noteq> event_hash R e then act_throw (EventConflict (he_key e))
          else act_return (x, False))))"

record event_filters =
  ef_workspace :: "str option"
  ef_organization :: "str option"
  ef_company :: "str option"
  ef_agent :: "str option"
  ef_job :: "str option"
  ef_run :: "str option"
  ef_correlation :: "str option"
  ef_type :: "hermes_event_type option"
  ef_limit :: "nat option"

definition no_event_filters :: event_filters where
  "no_event_filters = \<lparr>ef_workspace = None, ef_organization = None, ef_company = None, ef_agent = None,
     ef_job = None, ef_run = None, ef_correlation = None, ef_type = None, ef_limit = None\<rparr>"

definition text_filter :: "str option \<Rightarrow> str \<Rightarrow> bool" where
  "text_filter f x = (\<not> truthy_str f \<or> f = Some x)"

definition event_selected :: "event_filters \<Rightarrow> hermes_event \<Rightarrow> bool" where
  "event_selected f e =
     (text_filter (ef_workspace f) (he_workspace e) \<and>
      (\<not> truthy_str (ef_organization f) \<or> he_organization e = ef_organization f) \<and>
      text_filter (ef_company f) (he_company e) \<and> text_filter (ef_agent f) (he_agent e) \<and>
      text_filter (ef_job f) (he_job e) \<and> text_filter (ef_run f) (he_run e) \<and>
      text_filter (ef_correlation f) (he_correlation e) \<and>
      (ef_type f = None \<or> ef_type f = Some (he_type e)))"

definition event_order :: "hermes_event \<Rightarrow> hermes_event \<Rightarrow> int" where
  "event_order a b = cmp_then (cmp_of (he_occurred_at a) (he_occurred_at b)) (int (he_sequence a) - int (he_sequence b))"

definition list_execution_events :: "hermes_ops \<Rightarrow> event_filters \<Rightarrow> hermes_event list" where
  "list_execution_events s f =
     (let found = js_sort event_order (filter (event_selected f) (filter hermes_event_ok (coll_values (ho_events s))))
      in case ef_limit f of None \<Rightarrow> found | Some n \<Rightarrow> if n = 0 then found else drop (length found - n) found)"

subsection \<open>The agent that executes a job\<close>

record agent_request =
  aq_workspace :: str
  aq_environment :: exec_environment
  aq_capabilities :: "str list"
  aq_loop :: "str option"
  aq_preferred :: "str option"
  aq_now :: instant
  aq_ttl_seconds :: nat

definition agent_eligible :: "agent_request \<Rightarrow> hermes_agent \<Rightarrow> bool" where
  "agent_eligible q a =
     (ag_status a \<in> {AgentOnline, AgentDegraded} \<and>
      aq_now q - ag_heartbeat_at a \<le> int (aq_ttl_seconds q) * 1000 \<and>
      (ag_assigned_loops a = [] \<or> \<not> truthy_str (aq_loop q) \<or> the (aq_loop q) \<in> set (ag_assigned_loops a)) \<and>
      list_all (\<lambda>c. c \<in> set (ag_capabilities a)) (aq_capabilities q))"

definition agent_order :: "hermes_agent \<Rightarrow> hermes_agent \<Rightarrow> int" where
  "agent_order a b =
     (if ag_default_router a \<noteq> ag_default_router b then if ag_default_router a then -1 else 1
      else if ag_status a \<noteq> ag_status b then if ag_status a = AgentOnline then -1 else 1
      else cmp_of (ag_heartbeat_at b) (ag_heartbeat_at a))"

definition select_agent :: "runtime \<Rightarrow> hermes_ops \<Rightarrow> agent_request \<Rightarrow> hermes_agent option" where
  "select_agent R s q =
     (let agents = list_agents R s \<lparr>af_workspace = Some (aq_workspace q), af_organization = None,
            af_environment = Some (aq_environment q), af_status = None\<rparr>;
          eligible = filter (agent_eligible q) agents
      in if truthy_str (aq_preferred q) then find (\<lambda>a. Some (ag_id a) = aq_preferred q) eligible
         else (case js_sort agent_order eligible of [] \<Rightarrow> None | a # _ \<Rightarrow> Some a))"

subsection \<open>Laws of the event log\<close>

lemma append_new_run:
  "hermes_event_ok e \<Longrightarrow> coll_get (ho_events s) (event_file R (he_key e)) = None \<Longrightarrow>
   append_execution_event R e s = (Inr (e, True), s\<lparr>ho_events := coll_put (event_file R (he_key e)) e (ho_events s)\<rparr>)"
  by (simp add: append_execution_event_def act_bind_def require_def)

lemma append_known_run:
  "hermes_event_ok e \<Longrightarrow> coll_get (ho_events s) (event_file R (he_key e)) = Some x \<Longrightarrow>
   append_execution_event R e s =
     (if \<not> hermes_event_ok x then (Inl (EventUnreadable (he_key e)), s)
      else if event_hash R x \<noteq> event_hash R e then (Inl (EventConflict (he_key e)), s)
      else (Inr (x, False), s))"
  by (simp add: append_execution_event_def act_bind_def require_def)

lemma append_invalid_run: "\<not> hermes_event_ok e \<Longrightarrow> append_execution_event R e s = (Inl OpsSchemaError, s)"
  by (simp add: append_execution_event_def act_bind_def require_def)

lemma append_Inr:
  assumes "append_execution_event R e s = (Inr (x, created), s')"
  shows "hermes_event_ok e \<and> hermes_event_ok x \<and> event_hash R x = event_hash R e \<and>
    coll_get (ho_events s') (event_file R (he_key e)) = Some x \<and> ho_agents s' = ho_agents s \<and>
    (created \<longrightarrow> x = e) \<and> (\<not> created \<longrightarrow> s' = s)"
proof (cases "hermes_event_ok e")
  case True
  with assms show ?thesis
    by (cases "coll_get (ho_events s) (event_file R (he_key e))")
      (auto simp: append_new_run append_known_run split: if_splits)
qed (use assms in \<open>simp add: append_invalid_run\<close>)

text \<open>
  C39: the event log is append-only and idempotent. Once an event is accepted under an idempotency
  key, appending it again returns the stored event and changes nothing, and an event with the same
  key and another content is refused.
\<close>

theorem append_event_once:
  assumes "append_execution_event R e s = (Inr (x, created), s')"
  shows "append_execution_event R e s' = (Inr (x, False), s') \<and>
    (\<forall>f. hermes_event_ok f \<longrightarrow> he_key f = he_key e \<longrightarrow> event_hash R f \<noteq> event_hash R e \<longrightarrow>
       append_execution_event R f s' = (Inl (EventConflict (he_key e)), s'))"
proof -
  from append_Inr [OF assms] have ok: "hermes_event_ok e" "hermes_event_ok x" "event_hash R x = event_hash R e"
    and got: "coll_get (ho_events s') (event_file R (he_key e)) = Some x" by auto
  from append_known_run [OF ok(1) got] ok have "append_execution_event R e s' = (Inr (x, False), s')" by simp
  moreover have "append_execution_event R f s' = (Inl (EventConflict (he_key e)), s')"
    if "hermes_event_ok f" "he_key f = he_key e" "event_hash R f \<noteq> event_hash R e" for f
    using append_known_run [OF that(1), of s' R x] got ok that by auto
  ultimately show ?thesis by blast
qed

subsection \<open>The chosen agent\<close>

text \<open>The order of the choice as a key: routers first, then online agents, then the latest heartbeat.\<close>

definition agent_key :: "hermes_agent \<Rightarrow> bool \<times> bool \<times> int" where
  "agent_key a = (\<not> ag_default_router a, ag_status a \<noteq> AgentOnline, - ag_heartbeat_at a)"

interpretation agent_comparator: comparator "\<lambda>a b. cmp_of (agent_key a) (agent_key b)"
  by unfold_locales (auto simp: cmp_of_def split: if_splits)

lemma agent_order_key:
  assumes "ag_status a \<in> {AgentOnline, AgentDegraded}" "ag_status b \<in> {AgentOnline, AgentDegraded}"
  shows "agent_order a b = cmp_of (agent_key a) (agent_key b)"
  using assms by (auto simp: agent_order_def agent_key_def cmp_of_def less_prod_def' less_bool_def)

lemma select_agent_candidates:
  "a \<in> set (list_agents R s f) \<longleftrightarrow>
     a \<in> set (coll_values (ho_agents s)) \<and> agent_ok a \<and>
     (truthy_str (af_workspace f) \<longrightarrow> Some (ag_workspace a) = af_workspace f) \<and>
     (truthy_str (af_organization f) \<longrightarrow> ag_organization a = af_organization f) \<and>
     (af_environment f = None \<or> Some (ag_environment a) = af_environment f) \<and>
     (af_status f = None \<or> Some (ag_status a) = af_status f)"
  by (auto simp: list_agents_def)

definition may_execute :: "hermes_ops \<Rightarrow> agent_request \<Rightarrow> hermes_agent \<Rightarrow> bool" where
  "may_execute s q a \<longleftrightarrow> a \<in> set (coll_values (ho_agents s)) \<and> agent_ok a \<and>
     (aq_workspace q \<noteq> [] \<longrightarrow> ag_workspace a = aq_workspace q) \<and> ag_environment a = aq_environment q \<and>
     agent_eligible q a"

text \<open>
  Jobs go to the best live agent. The chosen agent is stored, healthy, with a recent heartbeat, in
  the workspace and environment of the job, allowed to run the loop and able to do all it requires;
  a preferred agent is chosen by its identifier only; otherwise no agent that may execute the job
  comes before it (default router, then online, then latest heartbeat). There is a choice exactly
  when some agent may execute the job (and is the preferred one, if one is preferred).
\<close>

theorem select_agent_spec:
  "(case select_agent R s q of
      Some a \<Rightarrow> may_execute s q a \<and>
        (if truthy_str (aq_preferred q) then Some (ag_id a) = aq_preferred q
         else \<forall>b. may_execute s q b \<longrightarrow> agent_key a \<le> agent_key b)
    | None \<Rightarrow> \<not> (\<exists>a. may_execute s q a \<and> (truthy_str (aq_preferred q) \<longrightarrow> Some (ag_id a) = aq_preferred q)))"
proof -
  define es where "es = filter (agent_eligible q) (list_agents R s \<lparr>af_workspace = Some (aq_workspace q),
    af_organization = None, af_environment = Some (aq_environment q), af_status = None\<rparr>)"
  have mem: "a \<in> set es \<longleftrightarrow> may_execute s q a" for a
    by (auto simp: es_def select_agent_candidates may_execute_def)
  have st: "ag_status a \<in> {AgentOnline, AgentDegraded}" if "a \<in> set es" for a
    using that by (simp add: es_def agent_eligible_def)
  have sort: "js_sort agent_order es = js_sort (\<lambda>a b. cmp_of (agent_key a) (agent_key b)) es"
    by (intro js_sort_cong agent_order_key st)
  have pick: "select_agent R s q = (if truthy_str (aq_preferred q) then find (\<lambda>a. Some (ag_id a) = aq_preferred q) es
      else (case js_sort agent_order es of [] \<Rightarrow> None | a # _ \<Rightarrow> Some a))"
    by (simp add: select_agent_def es_def Let_def)
  show ?thesis
  proof (cases "truthy_str (aq_preferred q)")
    case True
    show ?thesis
    proof (cases "find (\<lambda>a. Some (ag_id a) = aq_preferred q) es")
      case None
      with True find_miss [OF None] show ?thesis by (auto simp: pick mem)
    next
      case (Some a)
      with True find_hit [OF Some] show ?thesis by (simp add: pick mem)
    qed
  next
    case False
    show ?thesis
    proof (cases "js_sort agent_order es")
      case Nil
      then have "set es = {}" using set_js_sort [of agent_order es] by simp
      with False Nil show ?thesis by (simp add: pick mem [symmetric])
    next
      case (Cons a as)
      have "a \<in> set es" using set_js_sort [of agent_order es] Cons by auto
      moreover have "agent_key a \<le> agent_key b" if "b \<in> set es" for b
      proof -
        from that have "b \<in> set (a # as)" using set_js_sort [of agent_order es] Cons by auto
        moreover have "sorted_wrt (\<lambda>x y. cmp_of (agent_key x) (agent_key y) \<le> 0) (a # as)"
          using agent_comparator.sorted_sort [of es] sort Cons by simp
        ultimately show ?thesis by (auto simp: cmp_of_def split: if_splits)
      qed
      ultimately show ?thesis using False Cons by (simp add: pick mem)
    qed
  qed
qed

end
