(* ===== verification/Lifecycle.thy ===== *)
theory Lifecycle imports LoopRunner RoutingStore begin

text \<open>
  The notices Loopgraph sends to Hermes about what its loops do (runtime/lifecycle-events.ts): an
  accepted route, a started run, the end of a run, an escalation case, a recorded outcome. A notice
  is an event of the source \<open>loopgraph\<close>, signed and written to the delivery directory under an
  identifier derived from what it announces. The guard against cycles refuses to announce anything
  about an event that is itself a notice, or that is already three hops from the outside.

  The directory and the project-local signing key are the state \<open>lifecycle_state\<close>. The environment
  variable with the shared secret, the random key that is generated when there is none and
  HMAC-SHA256 of node:crypto are the record \<open>lifecycle_env\<close>. The constant parts of a delivery
  (\<open>notificationOnly\<close>, the signature's algorithm and header, the target) are left out. A file of
  the directory is named by the percent-encoded identifier, which is one-to-one, so the identifier
  is the key.
\<close>

subsection \<open>Texts\<close>

definition commit_status_text :: "commit_status \<Rightarrow> str" where
  "commit_status_text s = (case s of CShadow \<Rightarrow> ''shadow'' | CQueued \<Rightarrow> ''queued'' | CRunning \<Rightarrow> ''running''
     | CWaitingReview \<Rightarrow> ''waiting_review'' | CCompleted \<Rightarrow> ''completed'' | CFailed \<Rightarrow> ''failed''
     | CCancelled \<Rightarrow> ''cancelled'')"

definition problem_status_text :: "problem_status \<Rightarrow> str" where
  "problem_status_text s = (case s of Detected \<Rightarrow> ''detected'' | NeedsHuman \<Rightarrow> ''needs_human'' | Routed \<Rightarrow> ''routed''
     | InProgress \<Rightarrow> ''in_progress'' | Waiting \<Rightarrow> ''waiting'' | Resolved \<Rightarrow> ''resolved'' | Closed \<Rightarrow> ''closed''
     | UnhandledProblem \<Rightarrow> ''unhandled'')"

definition case_status_text :: "case_status \<Rightarrow> str" where
  "case_status_text s = (case s of CaseOpen \<Rightarrow> ''open'' | CaseUnderReview \<Rightarrow> ''under_review''
     | CaseApproved \<Rightarrow> ''approved'' | CaseInProgress \<Rightarrow> ''in_progress'' | CaseResolved \<Rightarrow> ''resolved''
     | CaseClosed \<Rightarrow> ''closed'' | CaseRejected \<Rightarrow> ''rejected'')"

definition case_severity_text :: "case_severity \<Rightarrow> str" where
  "case_severity_text s = (case s of P0 \<Rightarrow> ''P0'' | P1 \<Rightarrow> ''P1'' | P2 \<Rightarrow> ''P2'' | P3 \<Rightarrow> ''P3'')"

datatype lifecycle_event_type = RouteAccepted | LoopRunStarted | LoopRunCompleted | ReviewRequired
  | LoopRunFailed | EscalationCreated | OutcomeRecorded | ProblemUnhandled

definition lifecycle_type_text :: "lifecycle_event_type \<Rightarrow> str" where
  "lifecycle_type_text t = (case t of RouteAccepted \<Rightarrow> ''loop.route.accepted'' | LoopRunStarted \<Rightarrow> ''loop.run.started''
     | LoopRunCompleted \<Rightarrow> ''loop.run.completed'' | ReviewRequired \<Rightarrow> ''loop.review.required''
     | LoopRunFailed \<Rightarrow> ''loop.run.failed'' | EscalationCreated \<Rightarrow> ''loop.escalation.created''
     | OutcomeRecorded \<Rightarrow> ''loop.outcome.recorded'' | ProblemUnhandled \<Rightarrow> ''loop.problem.unhandled'')"

subsection \<open>Deliveries\<close>

datatype delivery_status = DeliveryPending | DeliverySent | DeliveryFailed

record lifecycle_delivery =
  ld_id :: str
  ld_event :: event
  ld_event_hash :: str
  ld_status :: delivery_status
  ld_signature :: str
  ld_key_ref :: str
  ld_created_at :: instant
  ld_warnings :: "str list"

definition delivery_ok :: "lifecycle_delivery \<Rightarrow> bool" where
  "delivery_ok d = (ld_id d \<noteq> [] \<and> event_ok (ld_event d) \<and> ld_event_hash d \<noteq> [] \<and> ld_signature d \<noteq> [] \<and>
     ld_key_ref d \<noteq> [])"

record lifecycle_state =
  lf_deliveries :: "lifecycle_delivery coll"
  lf_key :: "str option"

record lifecycle_env =
  le_env_secret :: "str option"
  le_generated :: str
  le_hmac :: "str \<Rightarrow> str \<Rightarrow> str"

datatype lifecycle_failure = NoticeInvalid | EmptySigningKey | DeliveryInvalid

datatype cycle_reason = OwnEvent | NotificationEvent | HopLimit nat

datatype emit_result = Emitted lifecycle_delivery | Skipped cycle_reason

type_synonym 'a lifecycle_action = "(lifecycle_state, lifecycle_failure, 'a) action"

definition empty_lifecycle :: lifecycle_state where
  "empty_lifecycle = \<lparr>lf_deliveries = [], lf_key = None\<rparr>"

definition save_lifecycle_delivery :: "lifecycle_delivery \<Rightarrow> unit lifecycle_action" where
  "save_lifecycle_delivery d =
     act_bind (act_lift (require (delivery_ok d) DeliveryInvalid)) (\<lambda>_.
       act_write (\<lambda>s. s\<lparr>lf_deliveries := coll_put (ld_id d) d (lf_deliveries s)\<rparr>))"

text \<open>\<open>localeCompare\<close> orders the ISO texts of the instants as the instants.\<close>

definition list_lifecycle_deliveries :: "lifecycle_state \<Rightarrow> lifecycle_delivery list" where
  "list_lifecycle_deliveries s =
     js_sort (\<lambda>a b. cmp_of (ld_created_at b) (ld_created_at a)) (filter delivery_ok (coll_values (lf_deliveries s)))"

subsection \<open>The cycle guard\<close>

definition max_hop_count :: nat where
  "max_hop_count = 3"

definition loopgraph_route :: str where
  "loopgraph_route = ''loopgraph.lifecycle''"

definition notification_only :: "event \<Rightarrow> bool" where
  "notification_only e = (map_of (ev_payload e) ''notificationOnly'' = Some (JBool True))"

definition lifecycle_cycle_guard :: "event \<Rightarrow> cycle_reason option" where
  "lifecycle_cycle_guard e =
     (if ev_source e = ''loopgraph'' \<or> ev_source_route e = loopgraph_route then Some OwnEvent
      else if notification_only e then Some NotificationEvent
      else if max_hop_count \<le> ev_hop_count e then Some (HopLimit (ev_hop_count e))
      else None)"

definition lifecycle_event_type_for_trace :: "run_trace \<Rightarrow> business_problem option \<Rightarrow> lifecycle_event_type" where
  "lifecycle_event_type_for_trace t problem =
     (if map_option bp_status problem = Some UnhandledProblem then ProblemUnhandled
      else if tr_status t = WAITING_FOR_REVIEW then ReviewRequired
      else if tr_status t = COMPLETED then LoopRunCompleted
      else LoopRunFailed)"

subsection \<open>Signing\<close>

definition local_key_warning :: str where
  "local_key_warning = ''Using a project-local lifecycle signing key; configure '' @
     ''LOOPGRAPH_HERMES_LIFECYCLE_SECRET for a shared Hermes delivery environment.''"

text \<open>The secret, the reference to its key, and the warning: given, from the environment, or local.\<close>

definition resolve_lifecycle_signing ::
  "lifecycle_env \<Rightarrow> str option \<times> str option \<Rightarrow> (str \<times> str \<times> str list) lifecycle_action" where
  "resolve_lifecycle_signing E = (\<lambda>(secret, keyRef).
     (if truthy_str secret then act_return (the secret, opt_or keyRef ''caller-provided'', [])
      else if truthy_str (le_env_secret E)
      then act_return (the (le_env_secret E), opt_or keyRef ''env:LOOPGRAPH_HERMES_LIFECYCLE_SECRET'', [])
      else act_bind (act_read lf_key) (\<lambda>stored.
        act_bind
          (case stored of
             Some content \<Rightarrow>
               if js_trim content \<noteq> [] then act_return (js_trim content) else act_throw EmptySigningKey
           | None \<Rightarrow>
               act_bind (act_write (\<lambda>s. s\<lparr>lf_key := Some (le_generated E @ [CHR 0x0A])\<rparr>)) (\<lambda>_. act_return (le_generated E)))
          (\<lambda>local. act_return (local, opt_or keyRef ''project:.loopgraph/hermes/lifecycle-signing.key'',
             [local_key_warning])))))"

definition sign_lifecycle_event :: "runtime \<Rightarrow> lifecycle_env \<Rightarrow> event \<Rightarrow> str \<Rightarrow> str" where
  "sign_lifecycle_event R E e secret = ''sha256='' @ le_hmac E secret (stable_stringify R (event_json e))"

subsection \<open>One notice\<close>

text \<open>What the five emitters differ in: the event they build and the parts of the delivery identifier.\<close>

record notice =
  nt_type :: lifecycle_event_type
  nt_delivery :: str
  nt_occurred_at :: instant
  nt_subject :: subject
  nt_payload :: "(str \<times> json option) list"
  nt_evidence :: "str list"
  nt_identity :: "(str \<times> json option) list"

definition present :: "(str \<times> json option) list \<Rightarrow> (str \<times> json) list" where
  "present kvs = concat (map (\<lambda>(k, v). case v of None \<Rightarrow> [] | Some w \<Rightarrow> [(k, w)]) kvs)"

definition notice_event :: "runtime \<Rightarrow> event \<Rightarrow> notice \<Rightarrow> instant \<Rightarrow> event" where
  "notice_event R source n now =
     \<lparr>ev_id = create_event_envelope_id R (ev_workspace source) ''loopgraph'' (nt_delivery n) (lifecycle_type_text (nt_type n)),
      ev_workspace = ev_workspace source, ev_company = ev_company source, ev_source = ''loopgraph'',
      ev_source_route = loopgraph_route, ev_delivery = nt_delivery n, ev_type = lifecycle_type_text (nt_type n),
      ev_occurred_at = nt_occurred_at n, ev_received_at = now, ev_subject = nt_subject n,
      ev_correlation = ev_correlation source, ev_causation = Some (ev_id source), ev_parent = Some (ev_id source),
      ev_hop_count = ev_hop_count source + 1,
      ev_payload = present ((''notificationOnly'', Some (JBool True)) # (''sourceEventId'', jstr (ev_id source)) # nt_payload n),
      ev_raw_payload = None, ev_evidence_refs = nt_evidence n,
      ev_trust = \<lparr>signature_verified = True, signer = Some ''loopgraph'', untrusted_fields = []\<rparr>,
      ev_sensitivity = ev_sensitivity source\<rparr>"

definition notice_delivery :: "runtime \<Rightarrow> lifecycle_env \<Rightarrow> event \<Rightarrow> notice \<Rightarrow> instant \<Rightarrow> str \<times> str \<times> str list \<Rightarrow> lifecycle_delivery" where
  "notice_delivery R E e n now = (\<lambda>(secret, keyRef, warnings).
     \<lparr>ld_id = ''lifecycle_'' @ hash_obj R ((''eventId'', jstr (ev_id e)) # nt_identity n), ld_event = e,
      ld_event_hash = content_hash R (Some (event_json e)), ld_status = DeliveryPending,
      ld_signature = sign_lifecycle_event R E e secret, ld_key_ref = keyRef, ld_created_at = now, ld_warnings = warnings\<rparr>)"

definition emit_notice ::
  "runtime \<Rightarrow> lifecycle_env \<Rightarrow> str option \<times> str option \<Rightarrow> event \<Rightarrow> notice \<Rightarrow> instant \<Rightarrow> emit_result lifecycle_action" where
  "emit_notice R E keys source n now =
     (case lifecycle_cycle_guard source of
        Some reason \<Rightarrow> act_return (Skipped reason)
      | None \<Rightarrow>
          (let e = notice_event R source n now
           in act_bind (act_lift (require (event_ok e) NoticeInvalid)) (\<lambda>_.
              act_bind (resolve_lifecycle_signing E keys) (\<lambda>signing.
              act_bind (save_lifecycle_delivery (notice_delivery R E e n now signing)) (\<lambda>_.
              act_return (Emitted (notice_delivery R E e n now signing)))))))"

definition binding_fields :: "route_commit \<Rightarrow> (str \<times> json option) list" where
  "binding_fields c = [(''routeCommitId'', jstr (rcm_id c)), (''routeAttemptId'', jstr (rcm_attempt_id c)),
     (''problemId'', jstr (rcm_problem_id c))]"

definition problem_status_field :: "business_problem option \<Rightarrow> str \<times> json option" where
  "problem_status_field problem = (''problemStatus'', map_option (\<lambda>p. JStr (problem_status_text (bp_status p))) problem)"

definition outcome_refs_field :: "business_problem option \<Rightarrow> str \<times> json option" where
  "outcome_refs_field problem = (''outcomeRefs'', jstrs (case problem of None \<Rightarrow> [] | Some p \<Rightarrow> bp_outcome_refs p))"

definition problem_evidence :: "business_problem option \<Rightarrow> str list" where
  "problem_evidence problem = (case problem of None \<Rightarrow> [] | Some p \<Rightarrow> [''problem:'' @ bp_id p])"

definition run_evidence :: "run_trace \<Rightarrow> route_commit \<Rightarrow> str list" where
  "run_evidence t c = [''trace:'' @ tr_id t, ''route_commit:'' @ rcm_id c]"

subsection \<open>The emitters\<close>

definition loop_run_notice :: "route_commit \<Rightarrow> run_trace \<Rightarrow> business_problem option \<Rightarrow> instant \<Rightarrow> notice" where
  "loop_run_notice c t problem now =
     (let type = lifecycle_event_type_for_trace t problem
      in \<lparr>nt_type = type, nt_delivery = tr_id t @ '':'' @ lifecycle_type_text type,
          nt_occurred_at = opt_or (tr_completed_at t) now,
          nt_subject = \<lparr>sub_type = ''loop_run'', sub_id = tr_id t,
            sub_display = Some (tr_loop t @ '' '' @ run_status_text (tr_status t))\<rparr>,
          nt_payload = binding_fields c @
            [(''loopId'', jstr (tr_loop t)), (''runId'', jstr (tr_id t)),
             (''runStatus'', jstr (run_status_text (tr_status t))),
             (''routeCommitStatus'', jstr (commit_status_text (rcm_status c))),
             (''reviewRequired'', Some (JBool (tr_status t = WAITING_FOR_REVIEW))),
             (''escalationCaseIds'', jstrs (tr_cases t)), problem_status_field problem, outcome_refs_field problem],
          nt_evidence = run_evidence t c @ problem_evidence problem,
          nt_identity = [(''routeCommitId'', jstr (rcm_id c)), (''runId'', jstr (tr_id t))]\<rparr>)"

definition emit_loop_run ::
  "runtime \<Rightarrow> lifecycle_env \<Rightarrow> str option \<times> str option \<Rightarrow> event \<Rightarrow> route_commit \<Rightarrow> run_trace \<Rightarrow> business_problem option \<Rightarrow>
   instant \<Rightarrow> emit_result lifecycle_action" where
  "emit_loop_run R E keys source c t problem now = emit_notice R E keys source (loop_run_notice c t problem now) now"

definition run_started_notice :: "route_commit \<Rightarrow> run_trace \<Rightarrow> business_problem option \<Rightarrow> notice" where
  "run_started_notice c t problem =
     \<lparr>nt_type = LoopRunStarted, nt_delivery = tr_id t @ '':'' @ lifecycle_type_text LoopRunStarted,
      nt_occurred_at = tr_started_at t,
      nt_subject = \<lparr>sub_type = ''loop_run'', sub_id = tr_id t, sub_display = Some (tr_loop t @ '' started'')\<rparr>,
      nt_payload = binding_fields c @
        [(''loopId'', jstr (tr_loop t)), (''loopSpecHash'', jstr (tr_hash t)), (''runId'', jstr (tr_id t)),
         (''runStatus'', jstr ''STARTED''), (''routeCommitStatus'', jstr (commit_status_text (rcm_status c))),
         problem_status_field problem, (''startedAt'', jstr (iso_instant (tr_started_at t)))],
      nt_evidence = run_evidence t c @ problem_evidence problem,
      nt_identity = [(''routeCommitId'', jstr (rcm_id c)), (''runId'', jstr (tr_id t)),
        (''eventType'', jstr (lifecycle_type_text LoopRunStarted))]\<rparr>"

definition emit_loop_run_started ::
  "runtime \<Rightarrow> lifecycle_env \<Rightarrow> str option \<times> str option \<Rightarrow> event \<Rightarrow> route_commit \<Rightarrow> run_trace \<Rightarrow> business_problem option \<Rightarrow>
   instant \<Rightarrow> emit_result lifecycle_action" where
  "emit_loop_run_started R E keys source c t problem now = emit_notice R E keys source (run_started_notice c t problem) now"

definition route_accepted_notice :: "event \<Rightarrow> route_commit \<Rightarrow> business_problem option \<Rightarrow> notice" where
  "route_accepted_notice source c problem =
     \<lparr>nt_type = RouteAccepted, nt_delivery = rcm_id c @ '':'' @ lifecycle_type_text RouteAccepted,
      nt_occurred_at = rcm_committed_at c,
      nt_subject = \<lparr>sub_type = ''route_commit'', sub_id = rcm_id c, sub_display = Some (rcm_loop_id c @ '' route accepted'')\<rparr>,
      nt_payload = binding_fields c @
        [(''loopId'', jstr (rcm_loop_id c)), (''loopSpecHash'', jstr (rcm_loop_spec_hash c)),
         (''runId'', jopt (rcm_run_id c)), (''routeCommitStatus'', jstr (commit_status_text (rcm_status c))),
         problem_status_field problem, (''acceptedAt'', jstr (iso_instant (rcm_committed_at c))),
         outcome_refs_field problem],
      nt_evidence = [''event:'' @ ev_id source, ''route_commit:'' @ rcm_id c] @ problem_evidence problem,
      nt_identity = [(''routeCommitId'', jstr (rcm_id c)), (''eventType'', jstr (lifecycle_type_text RouteAccepted))]\<rparr>"

definition emit_route_accepted ::
  "runtime \<Rightarrow> lifecycle_env \<Rightarrow> str option \<times> str option \<Rightarrow> event \<Rightarrow> route_commit \<Rightarrow> business_problem option \<Rightarrow>
   instant \<Rightarrow> emit_result lifecycle_action" where
  "emit_route_accepted R E keys source c problem now = emit_notice R E keys source (route_accepted_notice source c problem) now"

definition run_fields :: "route_commit \<Rightarrow> run_trace \<Rightarrow> business_problem option \<Rightarrow> (str \<times> json option) list" where
  "run_fields c t problem = binding_fields c @
     [(''loopId'', jstr (tr_loop t)), (''loopSpecHash'', jstr (tr_hash t)), (''runId'', jstr (tr_id t)),
      (''runStatus'', jstr (run_status_text (tr_status t))),
      (''routeCommitStatus'', jstr (commit_status_text (rcm_status c))), problem_status_field problem]"

definition case_fields :: "escalation_case \<Rightarrow> (str \<times> json option) list" where
  "case_fields x = [(''escalationCaseId'', jstr (ec_id x)), (''escalationStatus'', jstr (case_status_text (ec_status x))),
     (''escalationSeverity'', jstr (case_severity_text (ec_severity x))), (''escalationCategory'', jstr (ec_category x))]"

definition case_identity :: "route_commit \<Rightarrow> run_trace \<Rightarrow> escalation_case \<Rightarrow> lifecycle_event_type \<Rightarrow> (str \<times> json option) list" where
  "case_identity c t x type = [(''routeCommitId'', jstr (rcm_id c)), (''runId'', jstr (tr_id t)),
     (''escalationCaseId'', jstr (ec_id x)), (''eventType'', jstr (lifecycle_type_text type))]"

definition escalation_notice :: "route_commit \<Rightarrow> run_trace \<Rightarrow> escalation_case \<Rightarrow> business_problem option \<Rightarrow> notice" where
  "escalation_notice c t x problem =
     \<lparr>nt_type = EscalationCreated, nt_delivery = ec_id x @ '':'' @ lifecycle_type_text EscalationCreated,
      nt_occurred_at = ec_created_at x,
      nt_subject = \<lparr>sub_type = ''escalation_case'', sub_id = ec_id x,
        sub_display = Some (case_severity_text (ec_severity x) @ '' '' @ ec_category x)\<rparr>,
      nt_payload = run_fields c t problem @ case_fields x @
        [(''escalationConfidence'', Some (ec_confidence x)), (''escalationSummary'', jstr (ec_summary x)),
         (''primaryOwnerRole'', jstr (ec_owner x)), (''reviewerRoles'', jstrs (ec_reviewers x)),
         (''informedRoles'', jstrs (ec_informed x)), (''escalationDeadline'', jstr (iso_instant (ec_deadline x))),
         (''decisionCount'', Some (JNum (of_nat (length (ec_decisions x))))),
         (''recommendedActionCount'', Some (JNum (of_nat (length (ec_actions x))))),
         (''createdAt'', jstr (iso_instant (ec_created_at x)))],
      nt_evidence = run_evidence t c @ [''escalation_case:'' @ ec_id x] @
        map (\<lambda>r. source_type_text (er_source_type r) @ '':'' @ er_source r @ ''#'' @ er_id r) (ec_evidence x) @
        problem_evidence problem,
      nt_identity = case_identity c t x EscalationCreated\<rparr>"

definition emit_escalation_created ::
  "runtime \<Rightarrow> lifecycle_env \<Rightarrow> str option \<times> str option \<Rightarrow> event \<Rightarrow> route_commit \<Rightarrow> run_trace \<Rightarrow> escalation_case \<Rightarrow>
   business_problem option \<Rightarrow> instant \<Rightarrow> emit_result lifecycle_action" where
  "emit_escalation_created R E keys source c t x problem now =
     emit_notice R E keys source (escalation_notice c t x problem) now"

definition outcome_notice ::
  "route_commit \<Rightarrow> run_trace \<Rightarrow> escalation_case \<Rightarrow> case_outcome \<Rightarrow> business_problem option \<Rightarrow> instant \<Rightarrow> notice" where
  "outcome_notice c t x out problem now =
     (let recordedAt = opt_or (co_resolved_at out) now
      in \<lparr>nt_type = OutcomeRecorded,
          nt_delivery = ec_id x @ '':'' @ lifecycle_type_text OutcomeRecorded @ '':'' @ iso_instant recordedAt,
          nt_occurred_at = recordedAt,
          nt_subject = \<lparr>sub_type = ''case_outcome'', sub_id = ''case_outcome_'' @ ec_id x, sub_display = Some (co_summary out)\<rparr>,
          nt_payload = run_fields c t problem @ case_fields x @
            [(''outcomeRef'', jstr (''case_outcome:'' @ ec_id x)), (''outcomeType'', jstr ''case_resolution''),
             (''resolutionSummary'', jstr (co_summary out)), (''resolvedAt'', jstr (iso_instant recordedAt)),
             (''businessResult'', jopt (co_business out)), (''customerResult'', jopt (co_customer out)),
             (''classificationCorrect'', map_option JBool (co_classification out)),
             (''followUpRequired'', map_option JBool (co_follow_up out))],
          nt_evidence = run_evidence t c @ [''escalation_case:'' @ ec_id x, ''case_outcome:'' @ ec_id x] @
            problem_evidence problem,
          nt_identity = case_identity c t x OutcomeRecorded\<rparr>)"

definition emit_outcome_recorded ::
  "runtime \<Rightarrow> lifecycle_env \<Rightarrow> str option \<times> str option \<Rightarrow> event \<Rightarrow> route_commit \<Rightarrow> run_trace \<Rightarrow> escalation_case \<Rightarrow>
   case_outcome \<Rightarrow> business_problem option \<Rightarrow> instant \<Rightarrow> emit_result lifecycle_action" where
  "emit_outcome_recorded R E keys source c t x out problem now =
     emit_notice R E keys source (outcome_notice c t x out problem now) now"

subsection \<open>Notices do not chain\<close>

lemma notice_event_simps [simp]:
  "ev_source (notice_event R source n now) = ''loopgraph''"
  "ev_source_route (notice_event R source n now) = loopgraph_route"
  "ev_hop_count (notice_event R source n now) = ev_hop_count source + 1"
  "ev_causation (notice_event R source n now) = Some (ev_id source)"
  "ev_correlation (notice_event R source n now) = ev_correlation source"
  "ev_sensitivity (notice_event R source n now) = ev_sensitivity source"
  "ev_workspace (notice_event R source n now) = ev_workspace source"
  "notification_only (notice_event R source n now)"
  by (simp_all add: notice_event_def notification_only_def present_def)

lemma notice_delivery_simps [simp]:
  "ld_event (notice_delivery R E e n now signing) = e"
  "ld_status (notice_delivery R E e n now signing) = DeliveryPending"
  "ld_id (notice_delivery R E e n now signing) = ''lifecycle_'' @ hash_obj R ((''eventId'', jstr (ev_id e)) # nt_identity n)"
  by (simp_all add: notice_delivery_def case_prod_unfold)

lemma guarded_skips: "lifecycle_cycle_guard source = Some r \<Longrightarrow> emit_notice R E keys source n now s = (Inr (Skipped r), s)"
  by (simp add: emit_notice_def)

lemma resolve_signing_frame:
  "resolve_lifecycle_signing E keys s = (out, s') \<Longrightarrow> lf_deliveries s' = lf_deliveries s"
  by (cases keys) (auto simp: resolve_lifecycle_signing_def act_bind_run split: if_splits option.splits prod.splits sum.splits)

lemma save_delivery_run [act_simps]:
  "save_lifecycle_delivery d s =
     (if delivery_ok d then (Inr (), s\<lparr>lf_deliveries := coll_put (ld_id d) d (lf_deliveries s)\<rparr>) else (Inl DeliveryInvalid, s))"
  by (simp add: save_lifecycle_delivery_def act_bind_run require_def)

lemma emit_notice_Emitted:
  assumes "emit_notice R E keys source n now s = (Inr (Emitted d), s')"
  obtains signing where "lifecycle_cycle_guard source = None" "event_ok (notice_event R source n now)"
    "d = notice_delivery R E (notice_event R source n now) n now signing" "delivery_ok d"
    "lf_deliveries s' = coll_put (ld_id d) d (lf_deliveries s)"
  using assms unfolding emit_notice_def Let_def
  by (auto simp: act_bind_Inr save_delivery_run dest!: resolve_signing_frame split: option.splits if_splits)

text \<open>The five ways a notice about an event is sent.\<close>

inductive emission :: "runtime \<Rightarrow> lifecycle_env \<Rightarrow> event \<Rightarrow> lifecycle_state \<Rightarrow> lifecycle_delivery \<Rightarrow> lifecycle_state \<Rightarrow> bool"
  for R :: runtime and E :: lifecycle_env and source :: event where
  em_run: "emit_loop_run R E keys source c t problem now s = (Inr (Emitted d), s') \<Longrightarrow> emission R E source s d s'"
| em_started: "emit_loop_run_started R E keys source c t problem now s = (Inr (Emitted d), s') \<Longrightarrow> emission R E source s d s'"
| em_accepted: "emit_route_accepted R E keys source c problem now s = (Inr (Emitted d), s') \<Longrightarrow> emission R E source s d s'"
| em_escalation: "emit_escalation_created R E keys source c t x problem now s = (Inr (Emitted d), s') \<Longrightarrow>
    emission R E source s d s'"
| em_outcome: "emit_outcome_recorded R E keys source c t x out problem now s = (Inr (Emitted d), s') \<Longrightarrow>
    emission R E source s d s'"

lemmas emitter_defs = emit_loop_run_def emit_loop_run_started_def emit_route_accepted_def
  emit_escalation_created_def emit_outcome_recorded_def

lemma emission_notice:
  assumes "emission R E source s d s'"
  obtains keys n now where "emit_notice R E keys source n now s = (Inr (Emitted d), s')"
  using assms by (cases rule: emission.cases) (auto simp: emitter_defs)

lemma guarded_emits_nothing: "lifecycle_cycle_guard source \<noteq> None \<Longrightarrow> \<not> emission R E source s d s'"
  by (auto elim!: emission_notice simp: emit_notice_def)

text \<open>
  C35: notices never chain. A notice is sent only about an event from outside, less than three hops
  away; it is an event of Loopgraph itself, marked as a notification, one hop further, caused by and
  correlated with the event it is about and of the same sensitivity; it is written as pending under
  its identifier and nothing else of the directory changes; and no notice can ever be sent about it.
\<close>

theorem notices_never_chain:
  assumes "emission R E source s d s'"
  shows "ev_source source \<noteq> ''loopgraph'' \<and> \<not> notification_only source \<and> ev_hop_count source < max_hop_count \<and>
    ev_source (ld_event d) = ''loopgraph'' \<and> notification_only (ld_event d) \<and>
    ev_hop_count (ld_event d) = ev_hop_count source + 1 \<and> ev_causation (ld_event d) = Some (ev_id source) \<and>
    ev_correlation (ld_event d) = ev_correlation source \<and> ev_sensitivity (ld_event d) = ev_sensitivity source \<and>
    ld_status d = DeliveryPending \<and>
    (\<forall>k. coll_get (lf_deliveries s') k = (if k = ld_id d then Some d else coll_get (lf_deliveries s) k)) \<and>
    \<not> emission R E (ld_event d) s1 d' s2"
proof -
  from assms obtain keys n now where "emit_notice R E keys source n now s = (Inr (Emitted d), s')"
    by (rule emission_notice)
  then obtain signing where guard: "lifecycle_cycle_guard source = None"
    and d: "d = notice_delivery R E (notice_event R source n now) n now signing"
    and put: "lf_deliveries s' = coll_put (ld_id d) d (lf_deliveries s)"
    by (rule emit_notice_Emitted)
  have "lifecycle_cycle_guard (ld_event d) \<noteq> None" by (simp add: d lifecycle_cycle_guard_def)
  then have "\<not> emission R E (ld_event d) s1 d' s2" by (rule guarded_emits_nothing)
  with guard put show ?thesis
    by (auto simp: lifecycle_cycle_guard_def d split: if_splits)
qed

end
