(* ===== verification/OutcomeStore.thy ===== *)
theory OutcomeStore imports RunStorage RoutingStore begin

text \<open>
  Measured outcomes: the records of core/outcome.ts (metric samples, observed outcomes, entries of
  the value ledger), the metric definitions of core/metric-definition.ts and the store of
  runtime/outcome-store.ts, which keeps one file per record. A record is written once: saving it
  again answers with the stored one, and saving another content under its identifier is an error.
  The contract of the three collections is the locale \<open>write_once\<close>.

  Numbers are exact rationals; the sources compute in doubles, whose rounding is not modelled. The
  constant \<open>schemaVersion\<close> and \<open>calculationVersion\<close> fields appear only where a record is hashed.
\<close>

subsection \<open>Enumerations\<close>

datatype evidence_truth = TruthObserved | TruthModeled | TruthIncomplete

datatype sample_source_type = FromIntegration | FromTrace | FromHumanReview | FromManual | FromModel

datatype quality_status = QVerified | QEstimated | QStale | QMissing | QRejected

datatype outcome_status = OImproved | OUnchanged | ORegressed | OTargetMet | OIncomplete

datatype direction = Increase | Decrease | TowardsTarget | Maintain

datatype metric_type = MCount | MRate | MDuration | MCurrency | MScore | MBoolean | MComposite

definition truth_text :: "evidence_truth \<Rightarrow> str" where
  "truth_text t = (case t of TruthObserved \<Rightarrow> ''observed'' | TruthModeled \<Rightarrow> ''modeled'' | TruthIncomplete \<Rightarrow> ''incomplete'')"

definition sample_source_text :: "sample_source_type \<Rightarrow> str" where
  "sample_source_text t = (case t of FromIntegration \<Rightarrow> ''integration'' | FromTrace \<Rightarrow> ''trace''
     | FromHumanReview \<Rightarrow> ''human_review'' | FromManual \<Rightarrow> ''manual'' | FromModel \<Rightarrow> ''modeled'')"

definition quality_text :: "quality_status \<Rightarrow> str" where
  "quality_text q = (case q of QVerified \<Rightarrow> ''verified'' | QEstimated \<Rightarrow> ''estimated'' | QStale \<Rightarrow> ''stale''
     | QMissing \<Rightarrow> ''missing'' | QRejected \<Rightarrow> ''rejected'')"

definition outcome_status_text :: "outcome_status \<Rightarrow> str" where
  "outcome_status_text s = (case s of OImproved \<Rightarrow> ''improved'' | OUnchanged \<Rightarrow> ''unchanged''
     | ORegressed \<Rightarrow> ''regressed'' | OTargetMet \<Rightarrow> ''target_met'' | OIncomplete \<Rightarrow> ''incomplete'')"

definition direction_text :: "direction \<Rightarrow> str" where
  "direction_text d = (case d of Increase \<Rightarrow> ''increase'' | Decrease \<Rightarrow> ''decrease'' | TowardsTarget \<Rightarrow> ''target''
     | Maintain \<Rightarrow> ''maintain'')"

subsection \<open>Metric samples\<close>

record measurement_window =
  win_start :: instant
  win_end :: instant

definition window_ok :: "measurement_window \<Rightarrow> bool" where
  "window_ok w = (win_start w \<le> win_end w)"

definition window_json :: "measurement_window \<Rightarrow> json" where
  "window_json w = jobj [(''start'', jstr (iso_instant (win_start w))), (''end'', jstr (iso_instant (win_end w)))]"

record sample_source =
  src_type :: sample_source_type
  src_ref :: str
  src_connector :: "str option"
  src_run :: "str option"
  src_review :: "str option"

record sample_quality =
  ql_status :: quality_status
  ql_reason :: "str option"
  ql_deadline :: "instant option"

record metric_sample =
  ms_id :: str
  ms_key :: str
  ms_workspace :: str
  ms_company :: str
  ms_department :: "str option"
  ms_loop :: "str option"
  ms_metric :: str
  ms_metric_key :: str
  ms_value :: rat
  ms_unit :: str
  ms_window :: measurement_window
  ms_observed_at :: instant
  ms_recorded_at :: instant
  ms_truth :: evidence_truth
  ms_source :: sample_source
  ms_quality :: sample_quality
  ms_evidence :: "str list"

definition bounded_text :: "nat \<Rightarrow> str \<Rightarrow> bool" where
  "bounded_text n s = (s \<noteq> [] \<and> length s \<le> n)"

definition not_empty :: "str option \<Rightarrow> bool" where
  "not_empty s = (s \<noteq> Some [])"

definition metric_sample_ok :: "metric_sample \<Rightarrow> bool" where
  "metric_sample_ok m =
     (ms_id m \<noteq> [] \<and> ms_key m \<noteq> [] \<and> ms_workspace m \<noteq> [] \<and> ms_company m \<noteq> [] \<and> not_empty (ms_department m) \<and>
      not_empty (ms_loop m) \<and> ms_metric m \<noteq> [] \<and> ms_metric_key m \<noteq> [] \<and> bounded_text 64 (ms_unit m) \<and>
      window_ok (ms_window m) \<and> bounded_text 512 (src_ref (ms_source m)) \<and> not_empty (src_connector (ms_source m)) \<and>
      not_empty (src_run (ms_source m)) \<and> not_empty (src_review (ms_source m)) \<and>
      (case ql_reason (ms_quality m) of None \<Rightarrow> True | Some r \<Rightarrow> bounded_text 1000 r) \<and>
      list_all (bounded_text 512) (ms_evidence m) \<and> length (ms_evidence m) \<le> 100 \<and>
      \<not> (ms_truth m = TruthObserved \<and> ql_status (ms_quality m) \<in> {QEstimated, QMissing, QRejected}) \<and>
      \<not> (ms_truth m = TruthModeled \<and> src_type (ms_source m) \<noteq> FromModel))"

definition jtime :: "instant option \<Rightarrow> json option" where
  "jtime t = map_option (\<lambda>x. JStr (iso_instant x)) t"

definition jnum :: "rat option \<Rightarrow> json option" where
  "jnum q = map_option JNum q"

text \<open>The sample as the store compares it: without \<open>recordedAt\<close>.\<close>

definition metric_sample_json :: "metric_sample \<Rightarrow> json" where
  "metric_sample_json m = jobj
     [(''schemaVersion'', jstr ''metric-sample/v1alpha1''), (''id'', jstr (ms_id m)), (''idempotencyKey'', jstr (ms_key m)),
      (''workspaceId'', jstr (ms_workspace m)), (''companyId'', jstr (ms_company m)),
      (''departmentId'', jopt (ms_department m)), (''loopId'', jopt (ms_loop m)),
      (''metricDefinitionId'', jstr (ms_metric m)), (''metricKey'', jstr (ms_metric_key m)),
      (''value'', Some (JNum (ms_value m))), (''unit'', jstr (ms_unit m)), (''window'', Some (window_json (ms_window m))),
      (''observedAt'', jstr (iso_instant (ms_observed_at m))), (''truthStatus'', jstr (truth_text (ms_truth m))),
      (''source'', Some (jobj [(''type'', jstr (sample_source_text (src_type (ms_source m)))),
         (''sourceRef'', jstr (src_ref (ms_source m))), (''connectorInstanceId'', jopt (src_connector (ms_source m))),
         (''runId'', jopt (src_run (ms_source m))), (''reviewId'', jopt (src_review (ms_source m)))])),
      (''quality'', Some (jobj [(''status'', jstr (quality_text (ql_status (ms_quality m)))),
         (''reason'', jopt (ql_reason (ms_quality m))), (''freshnessDeadline'', jtime (ql_deadline (ms_quality m)))])),
      (''evidenceRefs'', jstrs (ms_evidence m))]"

subsection \<open>Observed outcomes\<close>

record measurement =
  mm_value :: rat
  mm_samples :: "str list"

record guardrail =
  gr_metric :: str
  gr_label :: str
  gr_passed :: bool
  gr_evidence :: "str list"

record observed_outcome =
  oo_id :: str
  oo_workspace :: str
  oo_company :: str
  oo_department :: "str option"
  oo_loop :: str
  oo_metric :: str
  oo_metric_key :: str
  oo_unit :: str
  oo_direction :: direction
  oo_window :: measurement_window
  oo_baseline :: "measurement option"
  oo_observed :: "measurement option"
  oo_target :: "rat option"
  oo_absolute_delta :: "rat option"
  oo_relative_delta :: "rat option"
  oo_status :: outcome_status
  oo_truth :: evidence_truth
  oo_confidence :: rat
  oo_sufficient :: bool
  oo_reasons :: "str list"
  oo_guardrails :: "guardrail list"
  oo_runs :: "str list"
  oo_problems :: "str list"
  oo_evidence :: "str list"
  oo_evaluated_at :: instant

definition measurement_ok :: "measurement \<Rightarrow> bool" where
  "measurement_ok m = (mm_samples m \<noteq> [] \<and> list_all (\<lambda>s. s \<noteq> []) (mm_samples m))"

definition guardrail_ok :: "guardrail \<Rightarrow> bool" where
  "guardrail_ok g = (gr_metric g \<noteq> [] \<and> gr_label g \<noteq> [] \<and> list_all (\<lambda>s. s \<noteq> []) (gr_evidence g))"

definition observed_outcome_ok :: "observed_outcome \<Rightarrow> bool" where
  "observed_outcome_ok x =
     (oo_id x \<noteq> [] \<and> oo_workspace x \<noteq> [] \<and> oo_company x \<noteq> [] \<and> not_empty (oo_department x) \<and> oo_loop x \<noteq> [] \<and>
      oo_metric x \<noteq> [] \<and> oo_metric_key x \<noteq> [] \<and> bounded_text 64 (oo_unit x) \<and> window_ok (oo_window x) \<and>
      pred_option measurement_ok (oo_baseline x) \<and> pred_option measurement_ok (oo_observed x) \<and>
      0 \<le> oo_confidence x \<and> oo_confidence x \<le> 1 \<and> list_all (\<lambda>s. s \<noteq> []) (oo_reasons x) \<and>
      list_all guardrail_ok (oo_guardrails x) \<and> list_all (\<lambda>s. s \<noteq> []) (oo_runs x) \<and>
      list_all (\<lambda>s. s \<noteq> []) (oo_problems x) \<and> list_all (bounded_text 512) (oo_evidence x) \<and>
      length (oo_evidence x) \<le> 200 \<and>
      \<not> (oo_status x \<noteq> OIncomplete \<and> (oo_baseline x = None \<or> oo_observed x = None)) \<and>
      \<not> (oo_truth x = TruthObserved \<and> \<not> oo_sufficient x))"

definition measurement_json :: "measurement \<Rightarrow> json" where
  "measurement_json m = jobj [(''value'', Some (JNum (mm_value m))), (''sampleIds'', jstrs (mm_samples m))]"

definition guardrail_json :: "guardrail \<Rightarrow> json" where
  "guardrail_json g = jobj [(''metricDefinitionId'', jstr (gr_metric g)), (''label'', jstr (gr_label g)),
     (''passed'', Some (JBool (gr_passed g))), (''evidenceRefs'', jstrs (gr_evidence g))]"

text \<open>The outcome as the store compares it: without \<open>evaluatedAt\<close>.\<close>

definition observed_outcome_json :: "observed_outcome \<Rightarrow> json" where
  "observed_outcome_json x = jobj
     [(''schemaVersion'', jstr ''observed-outcome/v1alpha1''), (''id'', jstr (oo_id x)),
      (''workspaceId'', jstr (oo_workspace x)), (''companyId'', jstr (oo_company x)),
      (''departmentId'', jopt (oo_department x)), (''loopId'', jstr (oo_loop x)),
      (''metricDefinitionId'', jstr (oo_metric x)), (''metricKey'', jstr (oo_metric_key x)), (''unit'', jstr (oo_unit x)),
      (''desiredDirection'', jstr (direction_text (oo_direction x))), (''evaluationWindow'', Some (window_json (oo_window x))),
      (''baseline'', map_option measurement_json (oo_baseline x)), (''observed'', map_option measurement_json (oo_observed x)),
      (''target'', jnum (oo_target x)), (''absoluteDelta'', jnum (oo_absolute_delta x)),
      (''relativeDeltaPct'', jnum (oo_relative_delta x)), (''status'', jstr (outcome_status_text (oo_status x))),
      (''truthStatus'', jstr (truth_text (oo_truth x))), (''confidence'', Some (JNum (oo_confidence x))),
      (''evidenceSufficiency'', Some (jobj [(''sufficient'', Some (JBool (oo_sufficient x))), (''reasons'', jstrs (oo_reasons x))])),
      (''guardrails'', Some (JArr (map guardrail_json (oo_guardrails x)))), (''runIds'', jstrs (oo_runs x)),
      (''problemIds'', jstrs (oo_problems x)), (''evidenceRefs'', jstrs (oo_evidence x))]"

subsection \<open>The value ledger\<close>

record hidden_costs =
  hc_review :: rat
  hc_rework :: rat
  hc_botsitting :: rat
  hc_escalation :: rat
  hc_governance :: rat

record operating_costs =
  oc_connectors :: rat
  oc_supervision :: rat
  oc_change :: rat

record monetary_value =
  mv_currency :: str
  mv_gross :: rat
  mv_cost :: rat
  mv_net :: rat

record ledger_entry =
  le_id :: str
  le_workspace :: str
  le_company :: str
  le_department :: "str option"
  le_loop :: str
  le_window :: measurement_window
  le_gross :: rat
  le_hidden :: hidden_costs
  le_operating :: "operating_costs option"
  le_cost :: rat
  le_net :: rat
  le_monetary :: "monetary_value option"
  le_truth :: evidence_truth
  le_outcomes :: "str list"
  le_runs :: "str list"
  le_reviews :: "str list"
  le_evidence :: "str list"
  le_recorded_at :: instant

definition hidden_total :: "hidden_costs \<Rightarrow> rat" where
  "hidden_total h = hc_review h + hc_rework h + hc_botsitting h + hc_escalation h + hc_governance h"

definition operating_total :: "operating_costs option \<Rightarrow> rat" where
  "operating_total c = (case c of None \<Rightarrow> 0 | Some x \<Rightarrow> oc_connectors x + oc_supervision x + oc_change x)"

definition hidden_ok :: "hidden_costs \<Rightarrow> bool" where
  "hidden_ok h = (0 \<le> hc_review h \<and> 0 \<le> hc_rework h \<and> 0 \<le> hc_botsitting h \<and> 0 \<le> hc_escalation h \<and> 0 \<le> hc_governance h)"

definition operating_ok :: "operating_costs \<Rightarrow> bool" where
  "operating_ok c = (0 \<le> oc_connectors c \<and> 0 \<le> oc_supervision c \<and> 0 \<le> oc_change c)"

definition monetary_ok :: "monetary_value \<Rightarrow> bool" where
  "monetary_ok m = (length (mv_currency m) = 3 \<and> 0 \<le> mv_gross m \<and> 0 \<le> mv_cost m)"

definition ledger_entry_ok :: "ledger_entry \<Rightarrow> bool" where
  "ledger_entry_ok x =
     (le_id x \<noteq> [] \<and> le_workspace x \<noteq> [] \<and> le_company x \<noteq> [] \<and> not_empty (le_department x) \<and> le_loop x \<noteq> [] \<and>
      window_ok (le_window x) \<and> 0 \<le> le_gross x \<and> hidden_ok (le_hidden x) \<and> pred_option operating_ok (le_operating x) \<and>
      0 \<le> le_cost x \<and> pred_option monetary_ok (le_monetary x) \<and> list_all (\<lambda>s. s \<noteq> []) (le_outcomes x) \<and>
      list_all (\<lambda>s. s \<noteq> []) (le_runs x) \<and> list_all (\<lambda>s. s \<noteq> []) (le_reviews x) \<and>
      list_all (bounded_text 512) (le_evidence x) \<and> length (le_evidence x) \<le> 200 \<and>
      \<bar>hidden_total (le_hidden x) + operating_total (le_operating x) - le_cost x\<bar> \<le> 1 / 1000000 \<and>
      \<bar>le_gross x - le_cost x - le_net x\<bar> \<le> 1 / 1000000 \<and>
      \<not> (le_truth x = TruthObserved \<and> le_outcomes x = []))"

definition hidden_json :: "hidden_costs \<Rightarrow> json" where
  "hidden_json h = jobj [(''review'', Some (JNum (hc_review h))), (''rework'', Some (JNum (hc_rework h))),
     (''botsitting'', Some (JNum (hc_botsitting h))), (''escalation'', Some (JNum (hc_escalation h))),
     (''governance'', Some (JNum (hc_governance h)))]"

definition operating_json :: "operating_costs \<Rightarrow> json" where
  "operating_json c = jobj [(''connectorOperations'', Some (JNum (oc_connectors c))),
     (''supervision'', Some (JNum (oc_supervision c))), (''organizationalChange'', Some (JNum (oc_change c)))]"

definition monetary_json :: "monetary_value \<Rightarrow> json" where
  "monetary_json m = jobj [(''currency'', jstr (mv_currency m)), (''grossAmount'', Some (JNum (mv_gross m))),
     (''observedCostAmount'', Some (JNum (mv_cost m))), (''netAmount'', Some (JNum (mv_net m)))]"

text \<open>The entry as the store compares it: without \<open>recordedAt\<close>.\<close>

definition ledger_entry_json :: "ledger_entry \<Rightarrow> json" where
  "ledger_entry_json x = jobj
     [(''schemaVersion'', jstr ''value-ledger-entry/v1alpha1''), (''id'', jstr (le_id x)),
      (''workspaceId'', jstr (le_workspace x)), (''companyId'', jstr (le_company x)),
      (''departmentId'', jopt (le_department x)), (''loopId'', jstr (le_loop x)), (''window'', Some (window_json (le_window x))),
      (''grossSavedMinutes'', Some (JNum (le_gross x))), (''hiddenCostMinutes'', Some (hidden_json (le_hidden x))),
      (''operatingCostMinutes'', map_option operating_json (le_operating x)),
      (''observedCostMinutes'', Some (JNum (le_cost x))), (''netSavedMinutes'', Some (JNum (le_net x))),
      (''monetaryValue'', map_option monetary_json (le_monetary x)), (''truthStatus'', jstr (truth_text (le_truth x))),
      (''calculationVersion'', jstr ''loop-value/v1alpha1''), (''observedOutcomeIds'', jstrs (le_outcomes x)),
      (''runIds'', jstrs (le_runs x)), (''reviewIds'', jstrs (le_reviews x)), (''evidenceRefs'', jstrs (le_evidence x))]"

subsection \<open>Metric definitions\<close>

record metric_definition =
  md_id :: str
  md_company :: str
  md_department :: "str option"
  md_loop :: "str option"
  md_key :: str
  md_type :: metric_type
  md_unit :: "str option"
  md_direction :: "direction option"
  md_target :: "rat option"
  md_window_days :: "nat option"
  md_value_minutes :: "rat option"
  md_value_amount :: "rat option"
  md_value_currency :: "str option"

subsection \<open>The store\<close>

record outcome_store =
  os_samples :: "metric_sample coll"
  os_outcomes :: "observed_outcome coll"
  os_ledger :: "ledger_entry coll"

datatype outcome_error = OutcomeSchemaError | OutcomeIdInvalid | IdempotencyConflict str

type_synonym 'a outcome_action = "(outcome_store, outcome_error, 'a) action"

definition empty_outcomes :: outcome_store where
  "empty_outcomes = \<lparr>os_samples = [], os_outcomes = [], os_ledger = []\<rparr>"

definition outcomes_wf :: "outcome_store \<Rightarrow> bool" where
  "outcomes_wf s = (coll_wf ms_id (os_samples s) \<and> coll_wf oo_id (os_outcomes s) \<and> coll_wf le_id (os_ledger s))"

definition read_valid :: "('r \<Rightarrow> bool) \<Rightarrow> 'r coll \<Rightarrow> str \<Rightarrow> 'r option" where
  "read_valid ok c i = (case coll_get c i of None \<Rightarrow> None | Some r \<Rightarrow> if ok r then Some r else None)"

text \<open>\<open>saveIdempotentRecord\<close>: the record returned, and whether it was there before.\<close>

definition save_idempotent_record ::
  "runtime \<Rightarrow> ('r \<Rightarrow> bool) \<Rightarrow> ('r \<Rightarrow> str) \<Rightarrow> ('r \<Rightarrow> json) \<Rightarrow> ('s \<Rightarrow> 'r coll) \<Rightarrow> (('r coll \<Rightarrow> 'r coll) \<Rightarrow> 's \<Rightarrow> 's) \<Rightarrow>
   'r \<Rightarrow> ('s, outcome_error, 'r \<times> bool) action" where
  "save_idempotent_record R ok key comparable sel upd r =
     act_bind (act_lift (require (ok r) OutcomeSchemaError)) (\<lambda>_.
     act_bind (act_lift (require (safe_record_id (key r)) OutcomeIdInvalid)) (\<lambda>_.
     act_bind (act_read (\<lambda>s. read_valid ok (sel s) (key r))) (\<lambda>existing.
     (case existing of
        Some x \<Rightarrow>
          if content_hash R (Some (comparable x)) \<noteq> content_hash R (Some (comparable r))
          then act_throw (IdempotencyConflict (key r))
          else act_return (x, True)
      | None \<Rightarrow> act_bind (act_write (upd (coll_put (key r) r))) (\<lambda>_. act_return (r, False))))))"

definition save_metric_sample :: "runtime \<Rightarrow> metric_sample \<Rightarrow> (metric_sample \<times> bool) outcome_action" where
  "save_metric_sample R = save_idempotent_record R metric_sample_ok ms_id metric_sample_json os_samples os_samples_update"

definition save_observed_outcome :: "runtime \<Rightarrow> observed_outcome \<Rightarrow> (observed_outcome \<times> bool) outcome_action" where
  "save_observed_outcome R =
     save_idempotent_record R observed_outcome_ok oo_id observed_outcome_json os_outcomes os_outcomes_update"

definition save_value_ledger_entry :: "runtime \<Rightarrow> ledger_entry \<Rightarrow> (ledger_entry \<times> bool) outcome_action" where
  "save_value_ledger_entry R = save_idempotent_record R ledger_entry_ok le_id ledger_entry_json os_ledger os_ledger_update"

text \<open>Reading under an identifier that cannot name a file throws.\<close>

definition get_metric_sample :: "str \<Rightarrow> outcome_store \<Rightarrow> outcome_error + metric_sample option" where
  "get_metric_sample i s =
     res_bind (require (safe_record_id i) OutcomeIdInvalid) (\<lambda>_. Inr (read_valid metric_sample_ok (os_samples s) i))"

definition get_observed_outcome :: "str \<Rightarrow> outcome_store \<Rightarrow> outcome_error + observed_outcome option" where
  "get_observed_outcome i s =
     res_bind (require (safe_record_id i) OutcomeIdInvalid) (\<lambda>_. Inr (read_valid observed_outcome_ok (os_outcomes s) i))"

definition get_value_ledger_entry :: "str \<Rightarrow> outcome_store \<Rightarrow> outcome_error + ledger_entry option" where
  "get_value_ledger_entry i s =
     res_bind (require (safe_record_id i) OutcomeIdInvalid) (\<lambda>_. Inr (read_valid ledger_entry_ok (os_ledger s) i))"

record sample_filters =
  sf_workspace :: "str option"
  sf_company :: "str option"
  sf_department :: "str option"
  sf_loop :: "str option"
  sf_metric :: "str option"
  sf_metric_key :: "str option"
  sf_start :: "instant option"
  sf_end :: "instant option"

definition keeps_filter :: "str option \<Rightarrow> str option \<Rightarrow> bool" where
  "keeps_filter f x = (\<not> truthy_str f \<or> x = f)"

definition sample_selected :: "sample_filters \<Rightarrow> metric_sample \<Rightarrow> bool" where
  "sample_selected f m =
     (keeps_filter (sf_workspace f) (Some (ms_workspace m)) \<and> keeps_filter (sf_company f) (Some (ms_company m)) \<and>
      keeps_filter (sf_department f) (ms_department m) \<and> keeps_filter (sf_loop f) (ms_loop m) \<and>
      keeps_filter (sf_metric f) (Some (ms_metric m)) \<and> keeps_filter (sf_metric_key f) (Some (ms_metric_key m)) \<and>
      (case sf_start f of None \<Rightarrow> True | Some t \<Rightarrow> t < win_end (ms_window m)) \<and>
      (case sf_end f of None \<Rightarrow> True | Some t \<Rightarrow> win_start (ms_window m) < t))"

definition sample_order :: "runtime \<Rightarrow> metric_sample \<Rightarrow> metric_sample \<Rightarrow> int" where
  "sample_order R a b = cmp_then (cmp_of (ms_observed_at b) (ms_observed_at a)) (locale_compare R (ms_id a) (ms_id b))"

text \<open>Files are read in the order of their names, which are the identifiers (derived ones need no encoding).\<close>

definition file_order :: "'r coll \<Rightarrow> 'r list" where
  "file_order c = map snd (sort_key fst c)"

definition list_metric_samples :: "runtime \<Rightarrow> sample_filters \<Rightarrow> outcome_store \<Rightarrow> metric_sample list" where
  "list_metric_samples R f s =
     js_sort (sample_order R) (filter (sample_selected f) (filter metric_sample_ok (file_order (os_samples s))))"

record outcome_filters =
  of_workspace :: "str option"
  of_company :: "str option"
  of_department :: "str option"
  of_loop :: "str option"
  of_metric :: "str option"
  of_status :: "outcome_status option"

definition outcome_selected :: "outcome_filters \<Rightarrow> observed_outcome \<Rightarrow> bool" where
  "outcome_selected f x =
     (keeps_filter (of_workspace f) (Some (oo_workspace x)) \<and> keeps_filter (of_company f) (Some (oo_company x)) \<and>
      keeps_filter (of_department f) (oo_department x) \<and> keeps_filter (of_loop f) (Some (oo_loop x)) \<and>
      keeps_filter (of_metric f) (Some (oo_metric x)) \<and> (case of_status f of None \<Rightarrow> True | Some q \<Rightarrow> oo_status x = q))"

definition list_observed_outcomes :: "runtime \<Rightarrow> outcome_filters \<Rightarrow> outcome_store \<Rightarrow> observed_outcome list" where
  "list_observed_outcomes R f s =
     js_sort (\<lambda>a b. cmp_then (cmp_of (oo_evaluated_at b) (oo_evaluated_at a)) (locale_compare R (oo_id a) (oo_id b)))
       (filter (outcome_selected f) (filter observed_outcome_ok (file_order (os_outcomes s))))"

record ledger_filters =
  lf_workspace :: "str option"
  lf_company :: "str option"
  lf_department :: "str option"
  lf_loop :: "str option"
  lf_start :: "instant option"
  lf_end :: "instant option"

definition ledger_selected :: "ledger_filters \<Rightarrow> ledger_entry \<Rightarrow> bool" where
  "ledger_selected f x =
     (keeps_filter (lf_workspace f) (Some (le_workspace x)) \<and> keeps_filter (lf_company f) (Some (le_company x)) \<and>
      keeps_filter (lf_department f) (le_department x) \<and> keeps_filter (lf_loop f) (Some (le_loop x)) \<and>
      (case lf_start f of None \<Rightarrow> True | Some t \<Rightarrow> t \<le> win_end (le_window x)) \<and>
      (case lf_end f of None \<Rightarrow> True | Some t \<Rightarrow> win_start (le_window x) \<le> t))"

definition list_value_ledger_entries :: "runtime \<Rightarrow> ledger_filters \<Rightarrow> outcome_store \<Rightarrow> ledger_entry list" where
  "list_value_ledger_entries R f s =
     js_sort (\<lambda>a b. cmp_then (cmp_of (win_end (le_window b)) (win_end (le_window a))) (locale_compare R (le_id a) (le_id b)))
       (filter (ledger_selected f) (filter ledger_entry_ok (file_order (os_ledger s))))"

text \<open>\<open>pruneMetricSamples\<close>: old samples are deleted unless a stored outcome cites them.\<close>

record prune_result =
  pn_removed :: "str list"
  pn_preserved :: "str list"

definition no_outcome_filters :: outcome_filters where
  "no_outcome_filters = \<lparr>of_workspace = None, of_company = None, of_department = None, of_loop = None,
     of_metric = None, of_status = None\<rparr>"

definition no_sample_filters :: sample_filters where
  "no_sample_filters = \<lparr>sf_workspace = None, sf_company = None, sf_department = None, sf_loop = None,
     sf_metric = None, sf_metric_key = None, sf_start = None, sf_end = None\<rparr>"

definition cited_samples :: "observed_outcome \<Rightarrow> str list" where
  "cited_samples x =
     (case oo_baseline x of None \<Rightarrow> [] | Some m \<Rightarrow> mm_samples m) @ (case oo_observed x of None \<Rightarrow> [] | Some m \<Rightarrow> mm_samples m)"

definition prune_metric_samples :: "runtime \<Rightarrow> instant \<Rightarrow> bool \<Rightarrow> prune_result outcome_action" where
  "prune_metric_samples R cutoff preserve =
     act_bind (act_read (\<lambda>s. (list_metric_samples R no_sample_filters s, list_observed_outcomes R no_outcome_filters s)))
       (\<lambda>(samples, outcomes).
     (let referenced = (if preserve then concat (map cited_samples outcomes) else []);
          old = map ms_id (filter (\<lambda>m. ms_observed_at m < cutoff) samples);
          removed = filter (\<lambda>i. i \<notin> set referenced) old
      in act_bind (act_write (os_samples_update (filter (\<lambda>(k, m). k \<notin> set removed)))) (\<lambda>_.
           act_return \<lparr>pn_removed = sort removed, pn_preserved = sort (filter (\<lambda>i. i \<in> set referenced) old)\<rparr>)))"

subsection \<open>The contract of a write-once collection\<close>

text \<open>What a service relies on: the first record saved under an identifier stays, whatever is saved later.\<close>

locale write_once =
  fixes key :: "'r \<Rightarrow> str"
    and same :: "'r \<Rightarrow> 'r \<Rightarrow> bool"
    and save :: "'r \<Rightarrow> 's \<Rightarrow> ('e + 'r \<times> bool) \<times> 's"
    and get :: "'s \<Rightarrow> str \<Rightarrow> 'r option"
  assumes saved: "save r s = (Inr (x, dup), s') \<Longrightarrow>
      get s' (key r) = Some x \<and> dup = (get s (key r) \<noteq> None) \<and> (if dup then same x r \<and> s' = s else x = r)"
    and refused: "save r s = (Inl e, s') \<Longrightarrow> s' = s"
    and known: "get s (key r) = Some x \<Longrightarrow> snd (save r s) = s"
    and others: "k \<noteq> key r \<Longrightarrow> get (snd (save r s)) k = get s k"
begin

lemma kept: "get s k = Some x \<Longrightarrow> get (snd (save r s)) k = Some x"
proof (cases "k = key r")
  case True
  assume "get s k = Some x"
  with True known [of s r x] show ?thesis by simp
next
  case False
  assume "get s k = Some x"
  with False others [of k r s] show ?thesis by simp
qed

lemma saved_kept: "get s k = Some x \<Longrightarrow> save r s = (out, s') \<Longrightarrow> get s' k = Some x"
  using kept [of s k x r] by simp

lemma save_twice:
  assumes "save r s = (Inr (x, dup), s1)" and "save r' s1 = (Inr (x', dup'), s2)" and "key r' = key r"
  shows "dup' \<and> x' = x \<and> s2 = s1"
  using saved [OF assms(1)] saved [OF assms(2)] assms(3) by (auto split: if_splits)

end

lemma save_idempotent_run:
  "save_idempotent_record R ok key comparable sel upd r s =
    (if \<not> ok r then (Inl OutcomeSchemaError, s)
     else if \<not> safe_record_id (key r) then (Inl OutcomeIdInvalid, s)
     else (case read_valid ok (sel s) (key r) of
         Some x \<Rightarrow> if content_hash R (Some (comparable x)) \<noteq> content_hash R (Some (comparable r))
                   then (Inl (IdempotencyConflict (key r)), s) else (Inr (x, True), s)
       | None \<Rightarrow> (Inr (r, False), upd (coll_put (key r) r) s)))"
  by (simp add: save_idempotent_record_def act_bind_run require_def split: option.splits)

lemma save_idempotent_write_once:
  assumes "\<And>f s. sel (upd f s) = f (sel s)"
  shows "write_once key (\<lambda>x r. content_hash R (Some (comparable x)) = content_hash R (Some (comparable r)))
    (save_idempotent_record R ok key comparable sel upd) (\<lambda>s k. if safe_record_id k then read_valid ok (sel s) k else None)"
  by unfold_locales
    (auto simp: save_idempotent_run read_valid_def assms split: if_splits option.splits)

interpretation samples: write_once ms_id
  "\<lambda>x r. content_hash R (Some (metric_sample_json x)) = content_hash R (Some (metric_sample_json r))"
  "save_metric_sample R" "\<lambda>s k. if safe_record_id k then read_valid metric_sample_ok (os_samples s) k else None" for R
  unfolding save_metric_sample_def by (rule save_idempotent_write_once) simp

interpretation outcomes: write_once oo_id
  "\<lambda>x r. content_hash R (Some (observed_outcome_json x)) = content_hash R (Some (observed_outcome_json r))"
  "save_observed_outcome R" "\<lambda>s k. if safe_record_id k then read_valid observed_outcome_ok (os_outcomes s) k else None" for R
  unfolding save_observed_outcome_def by (rule save_idempotent_write_once) simp

interpretation ledger: write_once le_id
  "\<lambda>x r. content_hash R (Some (ledger_entry_json x)) = content_hash R (Some (ledger_entry_json r))"
  "save_value_ledger_entry R" "\<lambda>s k. if safe_record_id k then read_valid ledger_entry_ok (os_ledger s) k else None" for R
  unfolding save_value_ledger_entry_def by (rule save_idempotent_write_once) simp

end
