(* ===== verification/OutcomeService.thy ===== *)
theory OutcomeService imports OutcomeStore Policy begin

text \<open>
  Measuring the value of a loop (runtime/outcome-service.ts): recording metric samples, also those a
  run trace carries, evaluating a measurement window against its baseline, and entering the minutes
  and money a loop saved into the value ledger. The texts of the reasons an evaluation is
  insufficient are kept; averages, differences and percentages are exact rationals.
\<close>

text \<open>\<open>unique\<close>: the non-empty texts, once each, sorted.\<close>

definition unique_texts :: "str list \<Rightarrow> str list" where
  "unique_texts xs = sort (uniq (filter (\<lambda>s. s \<noteq> []) xs))"

lemma set_unique_texts [simp]: "set (unique_texts xs) = set xs - {[]}"
  by (auto simp: unique_texts_def)

lemma unique_texts_not_Nil: "unique_texts xs \<noteq> [] \<longleftrightarrow> (\<exists>x\<in>set xs. x \<noteq> [])"
proof -
  have "unique_texts xs \<noteq> [] \<longleftrightarrow> set (unique_texts xs) \<noteq> {}" by (simp del: set_unique_texts)
  then show ?thesis by auto
qed

subsection \<open>Samples\<close>

record sample_input =
  si_workspace :: str
  si_company :: str
  si_department :: "str option"
  si_loop :: "str option"
  si_metric :: str
  si_metric_key :: str
  si_value :: rat
  si_unit :: str
  si_window :: measurement_window
  si_observed_at :: instant
  si_source :: sample_source
  si_quality :: sample_quality
  si_evidence :: "str list"
  si_truth :: "evidence_truth option"
  si_recorded_at :: "instant option"

definition infer_sample_truth :: "sample_input \<Rightarrow> evidence_truth" where
  "infer_sample_truth i =
     (if src_type (si_source i) = FromModel then TruthModeled
      else if ql_status (si_quality i) \<in> {QMissing, QRejected, QEstimated} then TruthIncomplete
      else TruthObserved)"

definition sample_key :: "runtime \<Rightarrow> sample_input \<Rightarrow> str" where
  "sample_key R i = ''metric_sample_'' @ hash_obj R
     [(''workspaceId'', jstr (si_workspace i)), (''companyId'', jstr (si_company i)), (''loopId'', jopt (si_loop i)),
      (''metricDefinitionId'', jstr (si_metric i)), (''sourceType'', jstr (sample_source_text (src_type (si_source i)))),
      (''sourceRef'', jstr (src_ref (si_source i))), (''window'', Some (window_json (si_window i)))]"

definition sample_of :: "runtime \<Rightarrow> sample_input \<Rightarrow> instant \<Rightarrow> metric_sample" where
  "sample_of R i now =
     \<lparr>ms_id = ''sample_'' @ hash_obj R [(''idempotencyKey'', jstr (sample_key R i))], ms_key = sample_key R i,
      ms_workspace = si_workspace i, ms_company = si_company i, ms_department = si_department i, ms_loop = si_loop i,
      ms_metric = si_metric i, ms_metric_key = si_metric_key i, ms_value = si_value i, ms_unit = si_unit i,
      ms_window = si_window i, ms_observed_at = si_observed_at i, ms_recorded_at = opt_or (si_recorded_at i) now,
      ms_truth = opt_or (si_truth i) (infer_sample_truth i), ms_source = si_source i, ms_quality = si_quality i,
      ms_evidence = unique_texts (si_evidence i)\<rparr>"

definition record_metric_sample :: "runtime \<Rightarrow> sample_input \<Rightarrow> instant \<Rightarrow> (metric_sample \<times> bool) outcome_action" where
  "record_metric_sample R i now = save_metric_sample R (sample_of R i now)"

definition default_metric_unit :: "metric_type \<Rightarrow> str" where
  "default_metric_unit t = (case t of MDuration \<Rightarrow> ''minutes'' | MCurrency \<Rightarrow> ''currency'' | MRate \<Rightarrow> ''percent''
     | MBoolean \<Rightarrow> ''boolean'' | _ \<Rightarrow> ''count'')"

definition trace_metric_definition :: "metric_definition list \<Rightarrow> run_trace \<Rightarrow> metric_update \<Rightarrow> metric_definition option" where
  "trace_metric_definition defs t m =
     find (\<lambda>d. md_key d = mu_name m \<and> (\<not> truthy_str (md_loop d) \<or> md_loop d = Some (tr_loop t))) defs"

definition trace_sample_input :: "str \<Rightarrow> str \<Rightarrow> run_trace \<Rightarrow> metric_update \<Rightarrow> metric_definition \<Rightarrow> sample_input" where
  "trace_sample_input workspace company t m d =
     (let completedAt = opt_or (tr_completed_at t) (tr_started_at t)
      in \<lparr>si_workspace = workspace, si_company = company, si_department = md_department d, si_loop = Some (tr_loop t),
          si_metric = md_id d, si_metric_key = md_key d, si_value = mu_value m,
          si_unit = opt_or (opt_first (mu_unit m) (md_unit d)) (default_metric_unit (md_type d)),
          si_window = \<lparr>win_start = tr_started_at t, win_end = completedAt\<rparr>, si_observed_at = completedAt,
          si_source = \<lparr>src_type = FromTrace, src_ref = ''trace:'' @ tr_id t @ '':metric:'' @ mu_name m, src_connector = None,
            src_run = Some (tr_id t), src_review = None\<rparr>,
          si_quality = (if mu_observed m then \<lparr>ql_status = QVerified, ql_reason = None, ql_deadline = None\<rparr>
            else \<lparr>ql_status = QEstimated, ql_reason = Some ''The run emitted this metric without marking it observed.'',
                  ql_deadline = None\<rparr>),
          si_evidence = [''trace:'' @ tr_id t],
          si_truth = Some (if mu_observed m then TruthObserved else TruthIncomplete), si_recorded_at = None\<rparr>)"

definition defined_metrics :: "metric_definition list \<Rightarrow> run_trace \<Rightarrow> (metric_update \<times> metric_definition) list" where
  "defined_metrics defs t = concat (map (\<lambda>m. case trace_metric_definition defs t m of None \<Rightarrow> [] | Some d \<Rightarrow> [(m, d)]) (tr_metrics t))"

definition record_trace_metric_samples ::
  "runtime \<Rightarrow> str \<Rightarrow> str \<Rightarrow> run_trace \<Rightarrow> metric_definition list \<Rightarrow> instant \<Rightarrow> (metric_sample \<times> bool) list outcome_action" where
  "record_trace_metric_samples R workspace company t defs now =
     act_each (\<lambda>(m, d). record_metric_sample R (trace_sample_input workspace company t m d) now) (defined_metrics defs t)"

subsection \<open>Evaluating an outcome\<close>

record outcome_input =
  oi_workspace :: str
  oi_company :: str
  oi_department :: "str option"
  oi_loop :: str
  oi_metric :: metric_definition
  oi_baseline :: measurement_window
  oi_evaluation :: measurement_window
  oi_direction :: "direction option"
  oi_min_baseline :: nat
  oi_min_observed :: nat
  oi_tolerance :: rat
  oi_guardrails :: "guardrail list"
  oi_runs :: "str list"
  oi_problems :: "str list"
  oi_now :: instant

definition desired_direction :: "outcome_input \<Rightarrow> direction" where
  "desired_direction i =
     opt_or (opt_first (oi_direction i) (md_direction (oi_metric i)))
       (if md_target (oi_metric i) = None then Increase else TowardsTarget)"

definition usable_samples :: "metric_sample list \<Rightarrow> measurement_window \<Rightarrow> metric_sample list" where
  "usable_samples xs w =
     filter (\<lambda>m. ql_status (ms_quality m) \<notin> {QMissing, QRejected})
       (filter (\<lambda>m. win_start w < win_end (ms_window m) \<and> win_start (ms_window m) < win_end w) xs)"

definition window_samples :: "runtime \<Rightarrow> outcome_input \<Rightarrow> measurement_window \<Rightarrow> outcome_store \<Rightarrow> metric_sample list" where
  "window_samples R i w s =
     usable_samples (list_metric_samples R
       \<lparr>sf_workspace = Some (oi_workspace i), sf_company = Some (oi_company i), sf_department = None,
        sf_loop = Some (oi_loop i), sf_metric = Some (md_id (oi_metric i)), sf_metric_key = None,
        sf_start = Some (win_start w), sf_end = Some (win_end w)\<rparr> s) w"

definition average :: "metric_sample list \<Rightarrow> rat option" where
  "average xs = (if xs = [] then None else Some (sum_list (map ms_value xs) / of_nat (length xs)))"

definition outcome_truth :: "metric_sample list \<Rightarrow> metric_sample list \<Rightarrow> bool \<Rightarrow> evidence_truth" where
  "outcome_truth baseline observed sufficient =
     (if \<not> sufficient then TruthIncomplete
      else if list_ex (\<lambda>m. ms_truth m = TruthIncomplete \<or> ql_status (ms_quality m) = QStale) (baseline @ observed)
      then TruthIncomplete
      else if list_ex (\<lambda>m. ms_truth m = TruthModeled) (baseline @ observed) then TruthModeled
      else TruthObserved)"

definition number_epsilon :: rat where
  "number_epsilon = 1 / 2 ^ 52"

definition tolerance :: "rat \<Rightarrow> rat \<Rightarrow> rat" where
  "tolerance v pct = max number_epsilon (\<bar>v\<bar> * (max 0 pct / 100))"

definition target_met :: "direction \<Rightarrow> rat \<Rightarrow> rat \<Rightarrow> rat \<Rightarrow> bool" where
  "target_met d observed target pct =
     (case d of Decrease \<Rightarrow> observed \<le> target | Maintain \<Rightarrow> \<bar>observed - target\<bar> \<le> tolerance target pct
      | _ \<Rightarrow> target \<le> observed)"

definition classify_outcome :: "rat \<Rightarrow> rat \<Rightarrow> direction \<Rightarrow> rat option \<Rightarrow> rat \<Rightarrow> outcome_status" where
  "classify_outcome baseline observed d target pct =
     (if (case target of None \<Rightarrow> False | Some g \<Rightarrow> target_met d observed g pct) then OTargetMet
      else (let delta = observed - baseline
            in if \<bar>delta\<bar> \<le> tolerance baseline pct then OUnchanged
               else if d = Decrease then (if delta < 0 then OImproved else ORegressed)
               else if d = Maintain then ORegressed
               else if delta > 0 then OImproved else ORegressed))"

definition insufficiency :: "outcome_input \<Rightarrow> metric_sample list \<Rightarrow> metric_sample list \<Rightarrow> str list" where
  "insufficiency i baseline observed =
     (if length baseline < oi_min_baseline i
      then [''Need '' @ nat_text (oi_min_baseline i) @ '' baseline sample(s); found '' @ nat_text (length baseline) @ ''.''] else []) @
     (if length observed < oi_min_observed i
      then [''Need '' @ nat_text (oi_min_observed i) @ '' observed sample(s); found '' @ nat_text (length observed) @ ''.''] else [])"

text \<open>With a minimum of zero the ratio is infinite, and its minimum with 1 is 1.\<close>

definition coverage :: "nat \<Rightarrow> nat \<Rightarrow> rat" where
  "coverage n least = (if least = 0 then 1 else min 1 (of_nat n / of_nat least))"

definition round3 :: "rat \<Rightarrow> rat" where
  "round3 q = of_int \<lfloor>q * 1000 + 1 / 2\<rfloor> / 1000"

definition sample_ids :: "metric_sample list \<Rightarrow> str list" where
  "sample_ids xs = sort (map ms_id xs)"

definition outcome_id :: "runtime \<Rightarrow> outcome_input \<Rightarrow> metric_sample list \<Rightarrow> metric_sample list \<Rightarrow> str" where
  "outcome_id R i baseline observed = ''outcome_'' @ hash_obj R
     [(''workspaceId'', jstr (oi_workspace i)), (''companyId'', jstr (oi_company i)), (''loopId'', jstr (oi_loop i)),
      (''metricDefinitionId'', jstr (md_id (oi_metric i))), (''evaluationWindow'', Some (window_json (oi_evaluation i))),
      (''baselineSampleIds'', jstrs (sample_ids baseline)), (''observedSampleIds'', jstrs (sample_ids observed))]"

definition measured :: "metric_sample list \<Rightarrow> measurement option" where
  "measured xs = map_option (\<lambda>v. \<lparr>mm_value = v, mm_samples = sample_ids xs\<rparr>) (average xs)"

definition sufficient_evidence :: "outcome_input \<Rightarrow> metric_sample list \<Rightarrow> metric_sample list \<Rightarrow> bool" where
  "sufficient_evidence i baseline observed =
     (insufficiency i baseline observed = [] \<and> average baseline \<noteq> None \<and> average observed \<noteq> None)"

definition absolute_delta :: "metric_sample list \<Rightarrow> metric_sample list \<Rightarrow> rat" where
  "absolute_delta baseline observed = the (average observed) - the (average baseline)"

definition relative_delta :: "metric_sample list \<Rightarrow> metric_sample list \<Rightarrow> rat option" where
  "relative_delta baseline observed =
     (if the (average baseline) \<noteq> 0 then Some (absolute_delta baseline observed / \<bar>the (average baseline)\<bar> * 100) else None)"

definition outcome_unit :: "outcome_input \<Rightarrow> metric_sample list \<Rightarrow> metric_sample list \<Rightarrow> str" where
  "outcome_unit i baseline observed =
     (case md_unit (oi_metric i) of Some u \<Rightarrow> u
      | None \<Rightarrow> (case observed @ baseline of m # _ \<Rightarrow> ms_unit m | [] \<Rightarrow> default_metric_unit (md_type (oi_metric i))))"

definition outcome_of :: "runtime \<Rightarrow> outcome_input \<Rightarrow> metric_sample list \<Rightarrow> metric_sample list \<Rightarrow> observed_outcome" where
  "outcome_of R i baseline observed =
     (let sufficient = sufficient_evidence i baseline observed
      in \<lparr>oo_id = outcome_id R i baseline observed, oo_workspace = oi_workspace i, oo_company = oi_company i,
          oo_department = opt_first (oi_department i) (md_department (oi_metric i)), oo_loop = oi_loop i,
          oo_metric = md_id (oi_metric i), oo_metric_key = md_key (oi_metric i),
          oo_unit = outcome_unit i baseline observed, oo_direction = desired_direction i, oo_window = oi_evaluation i,
          oo_baseline = measured baseline, oo_observed = measured observed, oo_target = md_target (oi_metric i),
          oo_absolute_delta = (if sufficient then Some (absolute_delta baseline observed) else None),
          oo_relative_delta = (if sufficient then relative_delta baseline observed else None),
          oo_status = (if sufficient then classify_outcome (the (average baseline)) (the (average observed))
             (desired_direction i) (md_target (oi_metric i)) (oi_tolerance i) else OIncomplete),
          oo_truth = outcome_truth baseline observed sufficient,
          oo_confidence = (if sufficient then round3 (min (coverage (length baseline) (oi_min_baseline i))
             (coverage (length observed) (oi_min_observed i))) else 0),
          oo_sufficient = sufficient, oo_reasons = insufficiency i baseline observed, oo_guardrails = oi_guardrails i,
          oo_runs = unique_texts (oi_runs i), oo_problems = unique_texts (oi_problems i),
          oo_evidence = unique_texts (map (\<lambda>m. ''metric_sample:'' @ ms_id m) baseline @
             map (\<lambda>m. ''metric_sample:'' @ ms_id m) observed),
          oo_evaluated_at = oi_now i\<rparr>)"

definition evaluate_observed_outcome :: "runtime \<Rightarrow> outcome_input \<Rightarrow> (observed_outcome \<times> bool) outcome_action" where
  "evaluate_observed_outcome R i =
     act_bind (act_read (\<lambda>s. (window_samples R i (oi_baseline i) s, window_samples R i (oi_evaluation i) s)))
       (\<lambda>(baseline, observed). save_observed_outcome R (outcome_of R i baseline observed))"

subsection \<open>The value ledger\<close>

datatype ledger_failure = LedgerStoreError outcome_error | OutcomeMissing | OutcomeNotFound str | OutcomeNotOfLoop

type_synonym 'a ledger_action = "(outcome_store, ledger_failure, 'a) action"

record money_input =
  mi_currency :: str
  mi_gross :: rat
  mi_cost :: rat

record ledger_input =
  li_workspace :: str
  li_company :: str
  li_department :: "str option"
  li_loop :: str
  li_window :: measurement_window
  li_gross :: "rat option"
  li_modeled_gross :: "rat option"
  li_hidden :: hidden_costs
  li_operating :: "operating_costs option"
  li_outcomes :: "str list"
  li_runs :: "str list"
  li_reviews :: "str list"
  li_evidence :: "str list"
  li_money :: "money_input option"
  li_now :: instant

definition value_truth :: "bool \<Rightarrow> bool \<Rightarrow> observed_outcome list \<Rightarrow> evidence_truth" where
  "value_truth hasObserved hasModeled outcomes =
     (if hasObserved \<and> outcomes \<noteq> [] \<and> list_all (\<lambda>x. oo_truth x = TruthObserved) outcomes then TruthObserved
      else if (hasModeled \<or> hasObserved) \<and> outcomes \<noteq> [] \<and> list_all (\<lambda>x. oo_truth x \<noteq> TruthIncomplete) outcomes then TruthModeled
      else TruthIncomplete)"

definition observed_cost :: "ledger_input \<Rightarrow> rat" where
  "observed_cost i = hidden_total (li_hidden i) + operating_total (li_operating i)"

definition gross_saved :: "ledger_input \<Rightarrow> rat" where
  "gross_saved i = opt_or (opt_first (li_gross i) (li_modeled_gross i)) 0"

definition upper_char :: "char \<Rightarrow> char" where
  "upper_char c = (let n = (of_char c :: nat) in if 97 \<le> n \<and> n \<le> 122 then char_of (n - 32) else c)"

definition entry_of :: "runtime \<Rightarrow> ledger_input \<Rightarrow> observed_outcome list \<Rightarrow> ledger_entry" where
  "entry_of R i outcomes =
     (let ids = unique_texts (li_outcomes i)
      in \<lparr>le_id = ''value_'' @ hash_obj R
            [(''workspaceId'', jstr (li_workspace i)), (''companyId'', jstr (li_company i)), (''loopId'', jstr (li_loop i)),
             (''window'', Some (window_json (li_window i))), (''outcomeIds'', jstrs ids),
             (''runIds'', jstrs (unique_texts (li_runs i)))],
          le_workspace = li_workspace i, le_company = li_company i, le_department = li_department i, le_loop = li_loop i,
          le_window = li_window i, le_gross = gross_saved i, le_hidden = li_hidden i, le_operating = li_operating i,
          le_cost = observed_cost i, le_net = gross_saved i - observed_cost i,
          le_monetary = map_option (\<lambda>m. \<lparr>mv_currency = map upper_char (mi_currency m), mv_gross = mi_gross m,
            mv_cost = mi_cost m, mv_net = mi_gross m - mi_cost m\<rparr>) (li_money i),
          le_truth = value_truth (li_gross i \<noteq> None) (li_modeled_gross i \<noteq> None) outcomes,
          le_outcomes = ids, le_runs = unique_texts (li_runs i), le_reviews = unique_texts (li_reviews i),
          le_evidence = unique_texts (li_evidence i), le_recorded_at = li_now i\<rparr>)"

definition read_outcome :: "str \<Rightarrow> observed_outcome option ledger_action" where
  "read_outcome k = (\<lambda>s. case get_observed_outcome k s of Inl e \<Rightarrow> (Inl (LedgerStoreError e), s) | Inr x \<Rightarrow> (Inr x, s))"

definition record_value_ledger_entry :: "runtime \<Rightarrow> ledger_input \<Rightarrow> (ledger_entry \<times> bool) ledger_action" where
  "record_value_ledger_entry R i =
     act_bind (act_each read_outcome (unique_texts (li_outcomes i))) (\<lambda>found.
     (let outcomes = concat (map (\<lambda>x. case x of None \<Rightarrow> [] | Some y \<Rightarrow> [y]) found)
      in act_bind (act_lift (require (length outcomes = length (unique_texts (li_outcomes i))) OutcomeMissing)) (\<lambda>_.
         act_zoom (\<lambda>s. s) (\<lambda>f s. f s) LedgerStoreError (save_value_ledger_entry R (entry_of R i outcomes)))))"

datatype value_proof = Unproven | ProvenPositive | ProvenNonPositive

definition assess_value_proof :: "ledger_entry \<Rightarrow> value_proof" where
  "assess_value_proof x =
     (if \<not> (le_truth x = TruthObserved \<and> le_outcomes x \<noteq> [] \<and> le_evidence x \<noteq> []) \<or> le_operating x = None then Unproven
      else if le_net x > 0 then ProvenPositive else ProvenNonPositive)"

definition missing_evidence :: "ledger_entry \<Rightarrow> str list" where
  "missing_evidence x =
     (if le_truth x \<noteq> TruthObserved then [''observed before/after outcome''] else []) @
     (if le_outcomes x = [] then [''observed outcome reference''] else []) @
     (if le_evidence x = [] then [''evidence references''] else []) @
     (if le_operating x = None then [''connector operations, supervision, and organizational change costs''] else [])"

subsection \<open>Deriving an entry from an outcome and the reviewed runs\<close>

definition beneficial_units :: "observed_outcome \<Rightarrow> rat" where
  "beneficial_units x =
     (if oo_status x \<in> {OIncomplete, ORegressed, OUnchanged} then 0
      else (let delta = opt_or (oo_absolute_delta x) 0
            in if oo_direction x = Decrease then max 0 (- delta) else max 0 delta))"

record derive_input =
  di_workspace :: str
  di_company :: str
  di_department :: "str option"
  di_loop :: str
  di_metric :: metric_definition
  di_outcome :: str
  di_traces :: "run_trace list"
  di_window :: measurement_window
  di_now :: instant

definition review_total :: "(review_minutes \<Rightarrow> rat option) \<Rightarrow> human_review list \<Rightarrow> rat" where
  "review_total f rs = sum_list (map (\<lambda>r. opt_or (f (hr_minutes r)) 0) rs)"

definition hidden_costs_of :: "human_review list \<Rightarrow> hidden_costs" where
  "hidden_costs_of rs =
     \<lparr>hc_review = review_total rm_review rs, hc_rework = review_total rm_rework rs,
      hc_botsitting = review_total rm_botsitting rs, hc_escalation = review_total rm_escalation rs,
      hc_governance = review_total rm_governance rs\<rparr>"

definition derived_input :: "derive_input \<Rightarrow> observed_outcome \<Rightarrow> ledger_input" where
  "derived_input i x =
     (let units = beneficial_units x; reviews = concat (map tr_reviews (di_traces i));
          minutes = map_option (\<lambda>v. units * v) (md_value_minutes (di_metric i));
          gross = (if oo_truth x = TruthObserved then minutes else None)
      in \<lparr>li_workspace = di_workspace i, li_company = di_company i,
          li_department = opt_first (di_department i) (md_department (di_metric i)), li_loop = di_loop i,
          li_window = di_window i, li_gross = gross,
          li_modeled_gross = (if oo_truth x \<noteq> TruthIncomplete \<and> gross = None then minutes else None),
          li_hidden = hidden_costs_of reviews, li_operating = None, li_outcomes = [oo_id x],
          li_runs = map tr_id (di_traces i), li_reviews = map hr_id reviews,
          li_evidence = (''observed_outcome:'' @ oo_id x) # map (\<lambda>t. ''trace:'' @ tr_id t) (di_traces i),
          li_money = (case md_value_amount (di_metric i) of None \<Rightarrow> None
             | Some v \<Rightarrow> if truthy_str (md_value_currency (di_metric i))
                 then Some \<lparr>mi_currency = the (md_value_currency (di_metric i)), mi_gross = units * v, mi_cost = 0\<rparr> else None),
          li_now = di_now i\<rparr>)"

definition derive_loop_value_ledger_entry :: "runtime \<Rightarrow> derive_input \<Rightarrow> (ledger_entry \<times> bool) ledger_action" where
  "derive_loop_value_ledger_entry R i =
     act_bind (read_outcome (di_outcome i)) (\<lambda>found.
     (case found of
        None \<Rightarrow> act_throw (OutcomeNotFound (di_outcome i))
      | Some x \<Rightarrow>
          act_bind (act_lift (require (oo_loop x = di_loop i \<and> oo_metric x = md_id (di_metric i)) OutcomeNotOfLoop)) (\<lambda>_.
            record_value_ledger_entry R (derived_input i x))))"

subsection \<open>Which samples count\<close>

text \<open>The samples an evaluation rests on: of this loop and metric, usable, and overlapping the window.\<close>

definition sample_counts :: "outcome_input \<Rightarrow> measurement_window \<Rightarrow> metric_sample \<Rightarrow> bool" where
  "sample_counts i w m \<longleftrightarrow>
     keeps_filter (Some (oi_workspace i)) (Some (ms_workspace m)) \<and> keeps_filter (Some (oi_company i)) (Some (ms_company m)) \<and>
     keeps_filter (Some (oi_loop i)) (ms_loop m) \<and> keeps_filter (Some (md_id (oi_metric i))) (Some (ms_metric m)) \<and>
     win_start w < win_end (ms_window m) \<and> win_start (ms_window m) < win_end w \<and>
     ql_status (ms_quality m) \<notin> {QMissing, QRejected}"

lemma set_file_order [simp]: "set (file_order c) = set (coll_values c)"
  by (simp add: file_order_def coll_values_def)

lemma window_samples_iff:
  assumes "outcomes_wf s"
  shows "m \<in> set (window_samples R i w s) \<longleftrightarrow>
    metric_sample_ok m \<and> coll_get (os_samples s) (ms_id m) = Some m \<and> sample_counts i w m"
  using coll_values_iff [of ms_id "os_samples s" m] assms
  by (auto simp: window_samples_def usable_samples_def list_metric_samples_def sample_selected_def sample_counts_def
      outcomes_wf_def keeps_filter_def)

lemma mset_file_order [simp]: "mset (file_order c) = mset (coll_values c)"
  by (simp add: file_order_def coll_values_def)

lemma window_samples_distinct:
  assumes "outcomes_wf s"
  shows "distinct (window_samples R i w s)"
proof -
  from assms have "distinct (map ms_id (coll_values (os_samples s)))"
    by (simp add: outcomes_wf_def coll_values_distinct)
  then have "distinct (map ms_id (file_order (os_samples s)))"
    by (metis mset_file_order mset_map mset_eq_imp_distinct_iff)
  then have "distinct (map ms_id (window_samples R i w s))"
    by (simp add: window_samples_def usable_samples_def list_metric_samples_def distinct_map_filter)
  then show ?thesis by (rule distinct_map [THEN iffD1, THEN conjunct1])
qed

lemma stored_sample:
  assumes "outcomes_wf s" and "m \<in> set (window_samples R i w s @ window_samples R i w' s)"
  shows "coll_get (os_samples s) (ms_id m) = Some m"
proof -
  from assms(2) have "m \<in> set (window_samples R i w s) \<or> m \<in> set (window_samples R i w' s)" by simp
  then show ?thesis by (simp only: window_samples_iff [OF assms(1)]) blast
qed

lemma window_samples_frame: "os_samples s' = os_samples s \<Longrightarrow> window_samples R i w s' = window_samples R i w s"
  by (simp add: window_samples_def list_metric_samples_def)

lemma average_None [simp]: "average xs = None \<longleftrightarrow> xs = []"
  by (simp add: average_def)

lemma insufficiency_Nil:
  "insufficiency i baseline observed = [] \<longleftrightarrow> oi_min_baseline i \<le> length baseline \<and> oi_min_observed i \<le> length observed"
  by (auto simp: insufficiency_def)

lemma sufficient_iff:
  "sufficient_evidence i baseline observed \<longleftrightarrow>
     max 1 (oi_min_baseline i) \<le> length baseline \<and> max 1 (oi_min_observed i) \<le> length observed"
  unfolding sufficient_evidence_def insufficiency_Nil average_None by (cases baseline; cases observed) auto

lemma classify_not_incomplete: "classify_outcome b v d t p \<noteq> OIncomplete"
  by (simp add: classify_outcome_def Let_def)

lemma outcome_truth_observed:
  "outcome_truth baseline observed sufficient = TruthObserved \<longleftrightarrow>
     sufficient \<and> (\<forall>m\<in>set (baseline @ observed). ms_truth m = TruthObserved \<and> ql_status (ms_quality m) \<noteq> QStale)"
proof -
  have "ms_truth m = TruthObserved \<longleftrightarrow> ms_truth m \<noteq> TruthIncomplete \<and> ms_truth m \<noteq> TruthModeled" for m :: metric_sample
    by (cases "ms_truth m") simp_all
  then show ?thesis by (auto simp: outcome_truth_def list_ex_iff)
qed

lemma outcome_of_simps [simp]:
  "oo_id (outcome_of R i b ob) = outcome_id R i b ob"
  "oo_sufficient (outcome_of R i b ob) = sufficient_evidence i b ob"
  "oo_truth (outcome_of R i b ob) = outcome_truth b ob (sufficient_evidence i b ob)"
  "oo_absolute_delta (outcome_of R i b ob) = (if sufficient_evidence i b ob then Some (absolute_delta b ob) else None)"
  "oo_status (outcome_of R i b ob) = (if sufficient_evidence i b ob then classify_outcome (the (average b)) (the (average ob))
     (desired_direction i) (md_target (oi_metric i)) (oi_tolerance i) else OIncomplete)"
  "oo_evidence (outcome_of R i b ob) = unique_texts (map (\<lambda>m. ''metric_sample:'' @ ms_id m) b @
     map (\<lambda>m. ''metric_sample:'' @ ms_id m) ob)"
  by (simp_all add: outcome_of_def Let_def)

lemma evaluate_run:
  "evaluate_observed_outcome R i s =
     save_observed_outcome R (outcome_of R i (window_samples R i (oi_baseline i) s) (window_samples R i (oi_evaluation i) s)) s"
  by (simp add: evaluate_observed_outcome_def)

lemma save_outcome_frame: "save_observed_outcome R x s = (out, s') \<Longrightarrow> os_samples s' = os_samples s \<and> os_ledger s' = os_ledger s"
  by (auto simp: save_observed_outcome_def save_idempotent_run split: if_splits option.splits)

text \<open>
  C36: an outcome claims no more than its evidence. A newly stored outcome is sufficient exactly when
  both windows hold at least one, and at least the required number of, samples that are stored, of this
  loop and metric, inside the window and neither missing nor rejected. It has a verdict exactly when
  it is sufficient, its difference is the difference of the two averages, and it is called observed
  exactly when it is sufficient and every sample behind it is observed and none is stale.
\<close>

theorem outcome_evidence:
  assumes "outcomes_wf s" and "evaluate_observed_outcome R i s = (Inr (x, False), s')"
  shows "\<exists>b ob. distinct b \<and> distinct ob \<and>
    (\<forall>m. m \<in> set b \<longleftrightarrow> metric_sample_ok m \<and> coll_get (os_samples s) (ms_id m) = Some m \<and> sample_counts i (oi_baseline i) m) \<and>
    (\<forall>m. m \<in> set ob \<longleftrightarrow> metric_sample_ok m \<and> coll_get (os_samples s) (ms_id m) = Some m \<and> sample_counts i (oi_evaluation i) m) \<and>
    oo_sufficient x = (max 1 (oi_min_baseline i) \<le> length b \<and> max 1 (oi_min_observed i) \<le> length ob) \<and>
    (oo_status x = OIncomplete \<longleftrightarrow> \<not> oo_sufficient x) \<and>
    (oo_truth x = TruthObserved \<longleftrightarrow>
       oo_sufficient x \<and> (\<forall>m\<in>set (b @ ob). ms_truth m = TruthObserved \<and> ql_status (ms_quality m) \<noteq> QStale)) \<and>
    oo_absolute_delta x =
      (if oo_sufficient x then Some (sum_list (map ms_value ob) / of_nat (length ob) - sum_list (map ms_value b) / of_nat (length b))
       else None) \<and>
    get_observed_outcome (oo_id x) s' = Inr (Some x)"
proof -
  let ?b = "window_samples R i (oi_baseline i) s" and ?o = "window_samples R i (oi_evaluation i) s"
  from assms(2) have run: "save_observed_outcome R (outcome_of R i ?b ?o) s = (Inr (x, False), s')"
    by (simp add: evaluate_run)
  note sv = outcomes.saved [OF run]
  from sv have x: "x = outcome_of R i ?b ?o" by simp
  from conjunct1 [OF sv] have
    got: "(if safe_record_id (oo_id x) then read_valid observed_outcome_ok (os_outcomes s') (oo_id x) else None) = Some x"
    by (simp only: x)
  have "get_observed_outcome (oo_id x) s' = Inr (Some x)"
    using got by (simp add: get_observed_outcome_def require_def split: if_splits)
  moreover have "absolute_delta ?b ?o = sum_list (map ms_value ?o) / of_nat (length ?o) - sum_list (map ms_value ?b) / of_nat (length ?b)"
    if "sufficient_evidence i ?b ?o"
    using that by (auto simp: absolute_delta_def average_def sufficient_evidence_def split: if_splits)
  ultimately show ?thesis
    by (intro exI [of _ ?b] exI [of _ ?o])
      (auto simp: x window_samples_iff [OF assms(1)] window_samples_distinct [OF assms(1)] sufficient_iff outcome_truth_observed classify_not_incomplete)
qed

text \<open>
  An evaluation is never revised. Evaluating the same windows of the same loop and metric again,
  under whatever target, direction, tolerance, guardrails or run list, changes nothing: the answer is
  the stored outcome as it was first evaluated, or an error.
\<close>

theorem outcome_is_frozen:
  assumes "evaluate_observed_outcome R i s = (Inr (x, dup), s1)" and "evaluate_observed_outcome R i' s1 = (out, s2)"
    and "oi_workspace i' = oi_workspace i" "oi_company i' = oi_company i" "oi_loop i' = oi_loop i"
    and "md_id (oi_metric i') = md_id (oi_metric i)" "oi_baseline i' = oi_baseline i" "oi_evaluation i' = oi_evaluation i"
  shows "s2 = s1 \<and> (\<forall>y d. out = Inr (y, d) \<longrightarrow> y = x)"
proof -
  have same: "window_samples R i' w s1 = window_samples R i w s" for w
    using save_outcome_frame [OF assms(1) [unfolded evaluate_run]] assms(3-6)
    by (simp add: window_samples_def list_metric_samples_def)
  let ?b = "window_samples R i (oi_baseline i) s" and ?o = "window_samples R i (oi_evaluation i) s"
  have ids: "oo_id (outcome_of R i' ?b ?o) = oo_id (outcome_of R i ?b ?o)"
    using assms(3-8) by (simp add: outcome_id_def)
  have first: "save_observed_outcome R (outcome_of R i ?b ?o) s = (Inr (x, dup), s1)"
    using assms(1) by (simp add: evaluate_run)
  have second: "save_observed_outcome R (outcome_of R i' ?b ?o) s1 = (out, s2)"
    using assms(2,7,8) by (simp add: evaluate_run same)
  show ?thesis
  proof (cases out)
    case (Inl e)
    with second outcomes.refused [of R _ s1 e s2] show ?thesis by simp
  next
    case (Inr r)
    obtain y d where r: "r = (y, d)" by fastforce
    from outcomes.save_twice [OF first second [unfolded Inr r] ids] show ?thesis by (simp add: Inr r)
  qed
qed

lemma evidence_count:
  assumes "\<forall>m\<in>set xs. ms_id m \<noteq> []"
  shows "length (unique_texts (map (\<lambda>m. ''metric_sample:'' @ ms_id m) xs)) = card (ms_id ` set xs)"
proof -
  have "distinct (unique_texts (map (\<lambda>m. ''metric_sample:'' @ ms_id m) xs))" by (simp add: unique_texts_def)
  then have "length (unique_texts (map (\<lambda>m. ''metric_sample:'' @ ms_id m) xs)) =
      card (set (unique_texts (map (\<lambda>m. ''metric_sample:'' @ ms_id m) xs)))" by (rule distinct_card [symmetric])
  also have "set (unique_texts (map (\<lambda>m. ''metric_sample:'' @ ms_id m) xs)) = (\<lambda>k. ''metric_sample:'' @ k) ` (ms_id ` set xs)"
    by auto
  also have "card \<dots> = card (ms_id ` set xs)" by (rule card_image) (simp add: inj_on_def)
  finally show ?thesis .
qed

text \<open>
  More than 200 samples cannot be evaluated. When the two windows together hold more than 200
  different samples, the evaluation throws and stores nothing, because the outcome may cite at most
  200 pieces of evidence.
\<close>

theorem too_many_samples_rejected:
  assumes "outcomes_wf s"
    and "200 < card {m. metric_sample_ok m \<and> coll_get (os_samples s) (ms_id m) = Some m \<and>
      (sample_counts i (oi_baseline i) m \<or> sample_counts i (oi_evaluation i) m)}"
  shows "evaluate_observed_outcome R i s = (Inl OutcomeSchemaError, s)"
proof -
  let ?xs = "window_samples R i (oi_baseline i) s @ window_samples R i (oi_evaluation i) s"
  have eq: "{m. metric_sample_ok m \<and> coll_get (os_samples s) (ms_id m) = Some m \<and>
      (sample_counts i (oi_baseline i) m \<or> sample_counts i (oi_evaluation i) m)} = set ?xs"
    by (auto simp: window_samples_iff [OF assms(1)])
  have inj: "inj_on ms_id (set ?xs)"
  proof (rule inj_onI)
    fix m n
    assume mn: "m \<in> set ?xs" "n \<in> set ?xs" and ids: "ms_id m = ms_id n"
    from mn(1) have "coll_get (os_samples s) (ms_id m) = Some m" by (rule stored_sample [OF assms(1)])
    moreover from mn(2) have "coll_get (os_samples s) (ms_id n) = Some n" by (rule stored_sample [OF assms(1)])
    ultimately show "m = n" unfolding ids by simp
  qed
  have "\<forall>m\<in>set ?xs. ms_id m \<noteq> []" by (auto simp: window_samples_iff [OF assms(1)] metric_sample_ok_def)
  from evidence_count [OF this] have "200 < length (unique_texts (map (\<lambda>m. ''metric_sample:'' @ ms_id m) ?xs))"
    using assms(2) card_image [OF inj] by (simp add: eq)
  then have "\<not> length (oo_evidence (outcome_of R i (window_samples R i (oi_baseline i) s) (window_samples R i (oi_evaluation i) s))) \<le> 200"
    by simp
  then have "\<not> observed_outcome_ok (outcome_of R i (window_samples R i (oi_baseline i) s) (window_samples R i (oi_evaluation i) s))"
    unfolding observed_outcome_ok_def by blast
  then show ?thesis by (simp add: evaluate_run save_observed_outcome_def save_idempotent_run)
qed

subsection \<open>What the ledger claims\<close>

lemma read_outcome_run:
  "read_outcome k s = (if safe_record_id k then (Inr (read_valid observed_outcome_ok (os_outcomes s) k), s)
     else (Inl (LedgerStoreError OutcomeIdInvalid), s))"
  by (simp add: read_outcome_def get_observed_outcome_def require_def)

lemma read_outcomes_Inr:
  "act_each read_outcome ks s = (Inr found, s') \<Longrightarrow>
   s' = s \<and> found = map (read_valid observed_outcome_ok (os_outcomes s)) ks \<and> list_all safe_record_id ks"
  by (induction ks arbitrary: found s') (auto simp: act_bind_Inr read_outcome_run split: if_splits)

lemma all_found:
  "length (concat (map (\<lambda>x. case x of None \<Rightarrow> [] | Some y \<Rightarrow> [y]) xs)) = length xs \<longleftrightarrow> None \<notin> set xs"
proof -
  have le: "length (concat (map (\<lambda>x. case x of None \<Rightarrow> [] | Some y \<Rightarrow> [y]) xs)) \<le> length xs" for xs :: "'a option list"
    by (induction xs) (auto split: option.splits)
  show ?thesis
  proof (induction xs)
    case (Cons x xs)
    with le [of xs] show ?case by (cases x) auto
  qed simp
qed

lemma no_gaps: "None \<notin> set xs \<Longrightarrow> xs = map Some (concat (map (\<lambda>x. case x of None \<Rightarrow> [] | Some y \<Rightarrow> [y]) xs))"
proof (induction xs)
  case (Cons x xs)
  then show ?case by (cases x) auto
qed simp

lemma record_ledger_Inr:
  assumes "record_value_ledger_entry R i s = (Inr (x, dup), s')"
  obtains outcomes where
    "map (read_valid observed_outcome_ok (os_outcomes s)) (unique_texts (li_outcomes i)) = map Some outcomes"
    "\<forall>k\<in>set (unique_texts (li_outcomes i)). safe_record_id k"
    "save_value_ledger_entry R (entry_of R i outcomes) s = (Inr (x, dup), s')"
proof -
  let ?found = "map (read_valid observed_outcome_ok (os_outcomes s)) (unique_texts (li_outcomes i))"
  let ?out = "concat (map (\<lambda>x. case x of None \<Rightarrow> [] | Some y \<Rightarrow> [y]) ?found)"
  from assms have len: "length ?out = length (unique_texts (li_outcomes i))"
    and safe: "\<forall>k\<in>set (unique_texts (li_outcomes i)). safe_record_id k"
    and save: "save_value_ledger_entry R (entry_of R i ?out) s = (Inr (x, dup), s')"
    unfolding record_value_ledger_entry_def Let_def
    by (auto simp: act_bind_Inr act_zoom_Inr list_all_iff dest!: read_outcomes_Inr)
  from len have "None \<notin> set ?found" using all_found [of ?found] by simp
  then have "?found = map Some ?out" by (rule no_gaps)
  with safe save show ?thesis by (intro that)
qed

lemma entry_of_simps [simp]:
  "le_outcomes (entry_of R i os) = unique_texts (li_outcomes i)" "le_operating (entry_of R i os) = li_operating i"
  "le_net (entry_of R i os) = gross_saved i - observed_cost i" "le_cost (entry_of R i os) = observed_cost i"
  "le_gross (entry_of R i os) = gross_saved i" "le_evidence (entry_of R i os) = unique_texts (li_evidence i)"
  "le_truth (entry_of R i os) = value_truth (li_gross i \<noteq> None) (li_modeled_gross i \<noteq> None) os"
  by (simp_all add: entry_of_def Let_def)

text \<open>
  C37: the ledger balances and claims no more than its outcomes. A newly recorded entry refers to
  stored outcomes only; what it says was saved is the gross minutes given less every hidden and
  operating cost; and it proves a positive value exactly when the gross minutes were observed, there
  is at least one outcome, every outcome behind it is observed, evidence is cited, the operating costs
  are complete, and something is left after the costs.
\<close>

theorem ledger_claims_no_more:
  assumes "record_value_ledger_entry R i s = (Inr (x, False), s')"
  shows "le_net x = gross_saved i - (hidden_total (li_hidden i) + operating_total (li_operating i)) \<and>
    (\<forall>k\<in>set (li_outcomes i). k \<noteq> [] \<longrightarrow> (\<exists>y. get_observed_outcome k s = Inr (Some y))) \<and>
    (assess_value_proof x = ProvenPositive \<longleftrightarrow>
       li_gross i \<noteq> None \<and> (\<exists>k\<in>set (li_outcomes i). k \<noteq> []) \<and>
       (\<forall>k\<in>set (li_outcomes i). k \<noteq> [] \<longrightarrow>
          (\<exists>y. get_observed_outcome k s = Inr (Some y) \<and> oo_truth y = TruthObserved)) \<and>
       (\<exists>k\<in>set (li_evidence i). k \<noteq> []) \<and> li_operating i \<noteq> None \<and>
       gross_saved i > hidden_total (li_hidden i) + operating_total (li_operating i)) \<and>
    get_value_ledger_entry (le_id x) s' = Inr (Some x)"
proof -
  from assms obtain os where
    os: "map (read_valid observed_outcome_ok (os_outcomes s)) (unique_texts (li_outcomes i)) = map Some os"
    and safe: "\<forall>k\<in>set (unique_texts (li_outcomes i)). safe_record_id k"
    and save: "save_value_ledger_entry R (entry_of R i os) s = (Inr (x, False), s')"
    by (rule record_ledger_Inr)
  note sv = ledger.saved [OF save]
  from sv have x: "x = entry_of R i os" by simp
  from conjunct1 [OF sv] have "(if safe_record_id (le_id x) then read_valid ledger_entry_ok (os_ledger s') (le_id x) else None) = Some x"
    by (simp only: x)
  then have got: "get_value_ledger_entry (le_id x) s' = Inr (Some x)"
    by (simp add: get_value_ledger_entry_def require_def split: if_splits)
  let ?get = "read_valid observed_outcome_ok (os_outcomes s)"
  have found: "get_observed_outcome k s = Inr (?get k)" if "k \<in> set (unique_texts (li_outcomes i))" for k
    using safe that by (simp add: get_observed_outcome_def require_def)
  have img: "?get ` set (unique_texts (li_outcomes i)) = Some ` set os" using arg_cong [OF os, of set] by simp
  then have some: "\<exists>y. ?get k = Some y" if "k \<in> set (unique_texts (li_outcomes i))" for k using that by blast
  have all: "list_all P os \<longleftrightarrow> (\<forall>k\<in>set (unique_texts (li_outcomes i)). \<exists>y. ?get k = Some y \<and> P y)" for P
  proof -
    have "list_all P os \<longleftrightarrow> (\<forall>z\<in>Some ` set os. \<exists>y. z = Some y \<and> P y)" by (auto simp: list_all_iff)
    also have "\<dots> \<longleftrightarrow> (\<forall>k\<in>set (unique_texts (li_outcomes i)). \<exists>y. ?get k = Some y \<and> P y)"
      unfolding img [symmetric] by blast
    finally show ?thesis .
  qed
  have len: "os = [] \<longleftrightarrow> unique_texts (li_outcomes i) = []" using arg_cong [OF os, of length] by auto
  have proof_iff: "assess_value_proof x = ProvenPositive \<longleftrightarrow>
      li_gross i \<noteq> None \<and> unique_texts (li_outcomes i) \<noteq> [] \<and> list_all (\<lambda>y. oo_truth y = TruthObserved) os \<and>
      unique_texts (li_evidence i) \<noteq> [] \<and> li_operating i \<noteq> None \<and> 0 < gross_saved i - observed_cost i"
    using len by (auto simp: assess_value_proof_def x value_truth_def)
  have "le_net x = gross_saved i - (hidden_total (li_hidden i) + operating_total (li_operating i))"
    by (simp add: x observed_cost_def)
  moreover have "\<forall>k\<in>set (li_outcomes i). k \<noteq> [] \<longrightarrow> (\<exists>y. get_observed_outcome k s = Inr (Some y))"
    using found some by simp
  moreover have "list_all P os \<longleftrightarrow> (\<forall>k\<in>set (li_outcomes i). k \<noteq> [] \<longrightarrow>
      (\<exists>y. get_observed_outcome k s = Inr (Some y) \<and> P y))" for P
    unfolding all using found by auto
  ultimately show ?thesis using got by (simp add: proof_iff unique_texts_not_Nil observed_cost_def)
qed

text \<open>
  A derived value is never proved. An entry newly derived from an outcome and the reviewed runs is
  unproven whatever the outcome says, because the derivation states no operating costs.
\<close>

theorem derived_value_never_proved:
  assumes "derive_loop_value_ledger_entry R i s = (Inr (x, False), s')"
  shows "assess_value_proof x = Unproven \<and>
    last (missing_evidence x) = ''connector operations, supervision, and organizational change costs''"
proof -
  from assms obtain y where "record_value_ledger_entry R (derived_input i y) s = (Inr (x, False), s')"
    unfolding derive_loop_value_ledger_entry_def by (auto simp: act_bind_Inr read_outcome_run split: option.splits if_splits)
  then obtain os where "save_value_ledger_entry R (entry_of R (derived_input i y) os) s = (Inr (x, False), s')"
    by (rule record_ledger_Inr)
  with ledger.saved [OF this] have "le_operating x = None" by (simp add: derived_input_def Let_def)
  then show ?thesis by (simp add: assess_value_proof_def missing_evidence_def)
qed

end
