(* ===== verification/World.thy ===== *)
theory World imports ExecutionGate RouteJobs HermesOps Lifecycle OutcomeService begin

text \<open>
  The state the services work on: the routing store, the storage of runs, the Hermes operations
  store, the lifecycle deliveries, the measured outcomes, a log of the prepared actions handed to
  integration adapters, and a log of the assignments handed to Hermes. \<open>project\<close>
  is what the services read of the project's files: the identifier of the workspace, its registered
  specifications (identifier and path), the resolution of a path inside the project
  (\<open>resolveExistingProjectPath\<close>), the loaded specification or the text of its errors
  (\<open>loadLoopSpecFromPath\<close>), the connection plan and the metric definitions. An adapter is the function its \<open>commitPreparedAction\<close> computes (\<open>None\<close> when it throws).
\<close>

record world =
  w_store :: routing_store
  w_runs :: run_storage
  w_sent :: "(str \<times> prepared_action) list"
  w_ops :: hermes_ops
  w_life :: lifecycle_state
  w_outcomes :: outcome_store
  w_assigned :: "hermes_assignment list"

definition in_store :: "(store_error \<Rightarrow> 'f) \<Rightarrow> 'a store_action \<Rightarrow> (world, 'f, 'a) action" where
  "in_store f m = act_zoom w_store w_store_update f m"

definition in_runs :: "(run_failure \<Rightarrow> 'f) \<Rightarrow> 'a run_action \<Rightarrow> (world, 'f, 'a) action" where
  "in_runs f m = act_zoom w_runs w_runs_update f m"

definition in_ops :: "(ops_error \<Rightarrow> 'f) \<Rightarrow> (hermes_ops, ops_error, 'a) action \<Rightarrow> (world, 'f, 'a) action" where
  "in_ops f m = act_zoom w_ops w_ops_update f m"

definition in_life :: "(lifecycle_failure \<Rightarrow> 'f) \<Rightarrow> 'a lifecycle_action \<Rightarrow> (world, 'f, 'a) action" where
  "in_life f m = act_zoom w_life w_life_update f m"

definition in_outcomes :: "(outcome_error \<Rightarrow> 'f) \<Rightarrow> 'a outcome_action \<Rightarrow> (world, 'f, 'a) action" where
  "in_outcomes f m = act_zoom w_outcomes w_outcomes_update f m"

record project =
  pj_root_id :: str
  pj_registered :: "(str \<times> str) list"
  pj_resolve :: "str \<Rightarrow> str option"
  pj_load :: "str \<Rightarrow> str + loop_spec"
  pj_plan :: "plan_item list option"
  pj_metrics :: "metric_definition list"

subsection \<open>Adapters (sdk/adapters.ts, sdk/adapters/mock-adapters.ts)\<close>

datatype action_status = MockCommitted | RejectedByAdapter

record action_result =
  ares_status :: action_status
  ares_message :: str
  ares_fingerprint :: str

type_synonym adapter = "prepared_action \<Rightarrow> str list \<Rightarrow> action_result option"
type_synonym adapters = "str \<Rightarrow> adapter option"

definition action_result_json :: "action_result \<Rightarrow> json" where
  "action_result_json r = jobj
     [(''status'', jstr (case ares_status r of MockCommitted \<Rightarrow> ''mock_committed'' | RejectedByAdapter \<Rightarrow> ''rejected'')),
      (''message'', jstr (ares_message r)), (''fingerprint'', jstr (ares_fingerprint r))]"

text \<open>Every mock adapter answers with the fingerprint check alone.\<close>

definition mock_adapter :: adapter where
  "mock_adapter prepared approved =
     (let ok = pre_fingerprint prepared \<in> set approved
      in Some \<lparr>ares_status = (if ok then MockCommitted else RejectedByAdapter),
               ares_message = (if ok then ''Mock commit recorded'' else ''Fingerprint mismatch''),
               ares_fingerprint = pre_fingerprint prepared\<rparr>)"

subsection \<open>Loading the registered specification\<close>

text \<open>The specification registered for a loop: not registered, outside the project, invalid, or loaded.\<close>

datatype spec_lookup = NotRegistered | OutsideProject | InvalidSpec str | LoadedSpec loop_spec

definition registered_spec :: "project \<Rightarrow> str \<Rightarrow> spec_lookup" where
  "registered_spec pj loopId =
     (case find (\<lambda>(i, p). i = loopId) (pj_registered pj) of
        None \<Rightarrow> NotRegistered
      | Some (i, p) \<Rightarrow>
          (case pj_resolve pj p of
             None \<Rightarrow> OutsideProject
           | Some path \<Rightarrow> (case pj_load pj path of Inl e \<Rightarrow> InvalidSpec e | Inr spec \<Rightarrow> LoadedSpec spec)))"

lemma in_store_Inr:
  "in_store f m w = (Inr a, w') \<longleftrightarrow> (\<exists>s. m (w_store w) = (Inr a, s) \<and> w' = w\<lparr>w_store := s\<rparr>)"
  by (simp add: in_store_def act_zoom_Inr)

lemma in_runs_Inr:
  "in_runs f m w = (Inr a, w') \<longleftrightarrow> (\<exists>s. m (w_runs w) = (Inr a, s) \<and> w' = w\<lparr>w_runs := s\<rparr>)"
  by (simp add: in_runs_def act_zoom_Inr)

lemma in_ops_Inr:
  "in_ops f m w = (Inr a, w') \<longleftrightarrow> (\<exists>s. m (w_ops w) = (Inr a, s) \<and> w' = w\<lparr>w_ops := s\<rparr>)"
  by (simp add: in_ops_def act_zoom_Inr)

lemma in_ops_Inl:
  "in_ops f m w = (Inl e', w') \<longleftrightarrow> (\<exists>e s. m (w_ops w) = (Inl e, s) \<and> e' = f e \<and> w' = w\<lparr>w_ops := s\<rparr>)"
  by (simp add: in_ops_def act_zoom_Inl)

lemma in_store_Inl:
  "in_store f m w = (Inl e', w') \<longleftrightarrow> (\<exists>e s. m (w_store w) = (Inl e, s) \<and> e' = f e \<and> w' = w\<lparr>w_store := s\<rparr>)"
  by (simp add: in_store_def act_zoom_Inl)

lemma in_runs_Inl:
  "in_runs f m w = (Inl e', w') \<longleftrightarrow> (\<exists>e s. m (w_runs w) = (Inl e, s) \<and> e' = f e \<and> w' = w\<lparr>w_runs := s\<rparr>)"
  by (simp add: in_runs_def act_zoom_Inl)

lemma in_life_Inr:
  "in_life f m w = (Inr a, w') \<longleftrightarrow> (\<exists>s. m (w_life w) = (Inr a, s) \<and> w' = w\<lparr>w_life := s\<rparr>)"
  by (simp add: in_life_def act_zoom_Inr)

lemma in_life_Inl:
  "in_life f m w = (Inl e', w') \<longleftrightarrow> (\<exists>e s. m (w_life w) = (Inl e, s) \<and> e' = f e \<and> w' = w\<lparr>w_life := s\<rparr>)"
  by (simp add: in_life_def act_zoom_Inl)

lemma in_outcomes_Inr:
  "in_outcomes f m w = (Inr a, w') \<longleftrightarrow> (\<exists>s. m (w_outcomes w) = (Inr a, s) \<and> w' = w\<lparr>w_outcomes := s\<rparr>)"
  by (simp add: in_outcomes_def act_zoom_Inr)

lemma in_outcomes_Inl:
  "in_outcomes f m w = (Inl e', w') \<longleftrightarrow> (\<exists>e s. m (w_outcomes w) = (Inl e, s) \<and> e' = f e \<and> w' = w\<lparr>w_outcomes := s\<rparr>)"
  by (simp add: in_outcomes_def act_zoom_Inl)

lemma in_store_frame [simp]:
  "w_runs (snd (in_store f m w)) = w_runs w" "w_sent (snd (in_store f m w)) = w_sent w"
  "w_ops (snd (in_store f m w)) = w_ops w" "w_life (snd (in_store f m w)) = w_life w"
  "w_outcomes (snd (in_store f m w)) = w_outcomes w" "w_assigned (snd (in_store f m w)) = w_assigned w"
  by (auto simp: in_store_def act_zoom_run split: prod.splits sum.splits)

lemma in_runs_frame [simp]:
  "w_store (snd (in_runs f m w)) = w_store w" "w_sent (snd (in_runs f m w)) = w_sent w"
  "w_ops (snd (in_runs f m w)) = w_ops w" "w_life (snd (in_runs f m w)) = w_life w"
  "w_outcomes (snd (in_runs f m w)) = w_outcomes w" "w_assigned (snd (in_runs f m w)) = w_assigned w"
  by (auto simp: in_runs_def act_zoom_run split: prod.splits sum.splits)

lemma keeps_in_store [keeps_rules]:
  "keeps J m \<Longrightarrow> keeps (\<lambda>w. J (w_store w)) (in_store f m)"
  unfolding in_store_def by (rule keeps_zoom [where J = J]) auto

lemma keeps_in_runs [keeps_rules]:
  "keeps J m \<Longrightarrow> keeps (\<lambda>w. J (w_runs w)) (in_runs f m)"
  unfolding in_runs_def by (rule keeps_zoom [where J = J]) auto

subsection \<open>Successful job updates\<close>

definition job_put :: "route_job \<Rightarrow> routing_store \<Rightarrow> routing_store" where
  "job_put j st = snd (save_route_job j st)"

lemma job_put_fields [simp]:
  "st_events (job_put j st) = st_events st" "st_problems (job_put j st) = st_problems st"
  "st_commits (job_put j st) = st_commits st" "st_attempts (job_put j st) = st_attempts st"
  by (simp_all add: job_put_def save_runs)

lemma job_put_wf: "store_wf st \<Longrightarrow> store_wf (job_put j st)"
  unfolding job_put_def by (rule jobs.save_inv)

lemma get_job_put: "store_wf st \<Longrightarrow> job_ok j \<Longrightarrow> get_route_job (job_put j st) k = (if k = job_id j then Some j else get_route_job st k)"
  using jobs.get_saved [of st j] jobs.get_other [of st k j] by (simp add: job_put_def)

lemma mutate_Inr:
  assumes "mutate_route_job k expected f st = (Inr u, st')"
  obtains j where "get_route_job st k = Some j" "truthy_str expected \<longrightarrow> lease_token j = expected" "f j = Inr u"
    "job_ok u" "st' = job_put u st"
  using assms by (auto simp: mutate_run job_put_def save_runs split: option.splits if_splits sum.splits)

lemma update_status_Inr:
  assumes "update_route_job_status k u now st = (Inr j', st')"
  obtains j where "get_route_job st k = Some j" "truthy_str (su_token u) \<longrightarrow> lease_token j = su_token u"
    "j' = apply_status u now j" "job_ok j'" "st' = job_put j' st"
  using assms unfolding update_route_job_status_def by (elim mutate_Inr) (auto simp: res_bind_Inr_iff)

lemma fail_job_Inr:
  assumes "fail_route_job k token code message now st = (Inr j', st')"
  obtains j where "get_route_job st k = Some j" "truthy_str token \<longrightarrow> lease_token j = token"
    "j' = failed_job code message now j" "job_ok j'" "st' = job_put j' st"
  using assms unfolding fail_route_job_def by (elim mutate_Inr) (auto simp: res_bind_Inr_iff)

text \<open>Writing a commit and a problem leaves the jobs alone.\<close>

lemma save_commit_frame:
  "st_jobs (snd (save_route_commit c st)) = st_jobs st" "st_events (snd (save_route_commit c st)) = st_events st"
  "st_problems (snd (save_route_commit c st)) = st_problems st"
  by (simp_all add: save_runs)

lemma save_problem_frame:
  "st_jobs (snd (save_business_problem p st)) = st_jobs st" "st_events (snd (save_business_problem p st)) = st_events st"
  "st_commits (snd (save_business_problem p st)) = st_commits st"
  by (simp_all add: save_runs)

lemma get_job_frame: "st_jobs st' = st_jobs st \<Longrightarrow> get_route_job st' = get_route_job st"
  by (simp add: get_route_job_def fun_eq_iff)

lemma list_commits_frame: "st_commits st' = st_commits st \<Longrightarrow> list_route_commits st' = list_route_commits st"
  by (simp add: list_route_commits_def fun_eq_iff)

end
