(* ===== verification/Reviews.thy ===== *)
theory Reviews imports World begin

text \<open>
  Review decisions on a run (runtime/review-service.ts): who may decide, which prepared actions an
  approval may name, the revalidation of a routed run against its commit, its job and the registered
  specification, the commit of the approved actions through the integration adapters, and the final
  status. The improvement item of a review (runtime/improvement-service.ts) is modelled as the output
  entry it adds to the trace. Not modelled: the best-effort trigger of the loop controller, which
  writes to a store of its own after the decision is stored.
\<close>

datatype review_decision = DApproved | DRejected | DNeedsChanges | DRequestEvidence | DReassigned

record review_input =
  rvi_run :: str
  rvi_status :: review_decision
  rvi_approved :: "str list option"
  rvi_reviewer :: str
  rvi_role :: review_role
  rvi_comment :: "str option"
  rvi_feedback :: "str option"
  rvi_minutes :: review_minutes
  rvi_reassigned :: "str option"

text \<open>\<open>options.projectRoot\<close> is given or not; the project behind it, the time, the adapters.\<close>

record review_env =
  re_root :: bool
  re_project :: project
  re_now :: instant
  re_adapters :: adapters

datatype review_error =
    RunStorageError run_failure
  | ReviewerMissing
  | TraceNotFound str
  | NotWaitingForReview str run_status
  | NoRolePolicy
  | RoleNotAllowed review_role
  | UnknownFingerprint str
  | MixedApproval
  | InternalNotApproved
  | SameReviewer
  | ProjectRootMissing
  | CommitMissing str
  | CommitIsCancelled str
  | CommitNotWaiting str commit_status
  | AttemptBindingChanged str
  | RunBindingMismatch str
  | JobMissing str
  | JobIsCancelled str
  | JobNotWaiting str job_status
  | JobBindingChanged str
  | SpecNotRegistered str
  | SpecPathInvalid
  | SpecInvalid str
  | SpecChanged str
  | ActivationChanged str
  | GateClosed "gate_reason list"
  | InternalPending
  | NothingSelected
  | AdapterThrew str

definition map_review_status :: "review_decision \<Rightarrow> review_status" where
  "map_review_status d = (case d of DApproved \<Rightarrow> RvApproved | DRejected \<Rightarrow> RvRejected
     | DNeedsChanges \<Rightarrow> RvNeedsChanges | DRequestEvidence \<Rightarrow> RvRequestEvidence | DReassigned \<Rightarrow> RvReassigned)"

definition map_ui_decision :: "str \<Rightarrow> review_decision" where
  "map_ui_decision s =
     (if s = ''approved'' then DApproved else if s = ''rejected'' then DRejected
      else if s = ''edited'' then DNeedsChanges else if s = ''escalated'' then DRequestEvidence
      else DNeedsChanges)"

subsection \<open>Who may approve what\<close>

definition approved_reviews :: "run_trace \<Rightarrow> human_review list" where
  "approved_reviews t = filter (\<lambda>r. hr_status r = RvApproved) (tr_reviews t)"

definition cumulative_approved :: "run_trace \<Rightarrow> str list" where
  "cumulative_approved t = uniq (concat (map hr_approved (approved_reviews t)))"

definition assert_valid_selection :: "run_trace \<Rightarrow> str list \<Rightarrow> review_error + unit" where
  "assert_valid_selection t approved =
     (case find (\<lambda>f. \<not> list_ex (\<lambda>a. pre_fingerprint a = f) (tr_prepared t)) approved of
        None \<Rightarrow> Inr () | Some f \<Rightarrow> Inl (UnknownFingerprint f))"

definition assert_reviewer_role :: "run_trace \<Rightarrow> review_role \<Rightarrow> review_error + unit" where
  "assert_reviewer_role t role =
     (if trace_allowed_roles t = [] then Inl NoRolePolicy
      else require (review_role_text role \<in> set (trace_allowed_roles t)) (RoleNotAllowed role))"

definition internal_reviewers :: "run_trace \<Rightarrow> str list" where
  "internal_reviewers t =
     concat (map (\<lambda>r. if truthy_str (hr_reviewer r) then [the (hr_reviewer r)] else [])
       (filter (\<lambda>r. list_ex (\<lambda>f. list_ex (\<lambda>a. pre_fingerprint a = f \<and> \<not> pre_customer_facing a) (tr_prepared t))
            (hr_approved r)) (approved_reviews t)))"

definition pending_actions :: "bool \<Rightarrow> run_trace \<Rightarrow> str list \<Rightarrow> bool" where
  "pending_actions customerFacing t approved =
     list_ex (\<lambda>a. pre_requires_approval a \<and> pre_customer_facing a = customerFacing \<and>
       \<not> validate_approval_binding a approved) (tr_prepared t)"

definition assert_separated_approval :: "run_trace \<Rightarrow> str list \<Rightarrow> str \<Rightarrow> review_error + unit" where
  "assert_separated_approval t approved reviewerId =
     (if \<not> trace_separate_approval t then Inr ()
      else (let selected = filter (\<lambda>a. pre_fingerprint a \<in> set approved) (tr_prepared t);
                customer = list_ex pre_customer_facing selected;
                internal = list_ex (\<lambda>a. \<not> pre_customer_facing a) selected
            in if customer \<and> internal then Inl MixedApproval
               else if \<not> customer then Inr ()
               else if pending_actions False t (concat (map hr_approved (approved_reviews t))) then Inl InternalNotApproved
               else require (reviewerId \<notin> set (internal_reviewers t)) SameReviewer))"

subsection \<open>The routed context\<close>

definition job_bound_to_commit :: "route_job \<Rightarrow> route_commit \<Rightarrow> bool" where
  "job_bound_to_commit j c =
     (job_event_id j = rcm_event_id c \<and> job_problem_id j = rcm_problem_id c \<and>
      job_attempt_id j = rcm_attempt_id c \<and> job_loop_id j = rcm_loop_id c \<and>
      job_loop_spec_hash j = rcm_loop_spec_hash c)"

definition check_review_spec ::
  "runtime \<Rightarrow> review_env \<Rightarrow> run_trace \<Rightarrow> route_commit \<Rightarrow> route_job \<Rightarrow> review_error + loop_spec" where
  "check_review_spec R E t c j =
     (case registered_spec (re_project E) (job_loop_id j) of
        NotRegistered \<Rightarrow> Inl (SpecNotRegistered (job_loop_id j))
      | OutsideProject \<Rightarrow> Inl SpecPathInvalid
      | InvalidSpec e \<Rightarrow> Inl (SpecInvalid e)
      | LoadedSpec spec \<Rightarrow>
          if loop_spec_hash R spec \<noteq> job_loop_spec_hash j \<or> loop_spec_hash R spec \<noteq> rcm_loop_spec_hash c
          then Inl (SpecChanged (rcm_id c))
          else if map_option ct_activation (sp_routing spec) \<noteq> Some (job_activation j)
          then Inl (ActivationChanged (rcm_id c))
          else if tr_mode t = ModeExecute
          then (let gate = evaluate_live_execution_gate spec (pj_plan (re_project E)) (re_now E)
                in res_bind (require (gate_allowed gate) (GateClosed (gate_reasons gate))) (\<lambda>_. Inr spec))
          else Inr spec)"

definition check_review_job ::
  "runtime \<Rightarrow> review_env \<Rightarrow> routing_store \<Rightarrow> run_trace \<Rightarrow> route_commit \<Rightarrow> review_error + loop_spec" where
  "check_review_job R E st t c =
     (case find (\<lambda>j. job_run_id j = tr_id t) (list_route_jobs st (no_filters\<lparr>jf_commit := Some (rcm_id c)\<rparr>)) of
        None \<Rightarrow> Inl (JobMissing (tr_id t))
      | Some j \<Rightarrow>
          if job_status j = Cancelled then Inl (JobIsCancelled (job_id j))
          else if job_status j \<noteq> WaitingReview then Inl (JobNotWaiting (job_id j) (job_status j))
          else if \<not> job_bound_to_commit j c then Inl (JobBindingChanged (job_id j))
          else check_review_spec R E t c j)"

definition validate_review_context ::
  "runtime \<Rightarrow> review_env \<Rightarrow> routing_store \<Rightarrow> run_trace \<Rightarrow> review_error + loop_spec option" where
  "validate_review_context R E st t =
     (if \<not> truthy_str (trace_commit_id t) then Inr None
      else if \<not> re_root E then Inl ProjectRootMissing
      else (let commitId = the (trace_commit_id t)
            in case find (\<lambda>c. rcm_id c = commitId) (list_route_commits st None) of
                 None \<Rightarrow> Inl (CommitMissing commitId)
               | Some c \<Rightarrow>
                   if rcm_status c = CCancelled then Inl (CommitIsCancelled commitId)
                   else if rcm_status c \<noteq> CWaitingReview then Inl (CommitNotWaiting commitId (rcm_status c))
                   else if truthy_str (trace_attempt_id t) \<and> trace_attempt_id t \<noteq> Some (rcm_attempt_id c)
                   then Inl (AttemptBindingChanged commitId)
                   else if tr_loop t \<noteq> rcm_loop_id c \<or> tr_hash t \<noteq> rcm_loop_spec_hash c
                   then Inl (RunBindingMismatch commitId)
                   else res_bind (check_review_job R E st t c) (\<lambda>spec. Inr (Some spec))))"

subsection \<open>Committing prepared actions\<close>

definition obj_set :: "str \<Rightarrow> json \<Rightarrow> (str \<times> json) list \<Rightarrow> (str \<times> json) list" where
  "obj_set k v kvs = (if k \<in> set (map fst kvs) then map (\<lambda>(k', v'). (k', if k' = k then v else v')) kvs else kvs @ [(k, v)])"

text \<open>The properties \<open>{...x}\<close> copies from a tool call's output when it is an object.\<close>

definition spread_output :: "json option \<Rightarrow> (str \<times> json) list" where
  "spread_output out =
     (case out of Some (JObj kvs) \<Rightarrow> kvs | Some (JArr xs) \<Rightarrow> zip (map nat_text [0..<length xs]) xs | _ \<Rightarrow> [])"

definition adapter_id_for :: "loop_spec option \<Rightarrow> run_mode \<Rightarrow> prepared_action \<Rightarrow> str" where
  "adapter_id_for spec mode a =
     (case Option.bind spec (\<lambda>s. find (\<lambda>t. tb_key t = pre_tool a) (sp_tools s)) of
        Some t \<Rightarrow> tb_adapter t
      | None \<Rightarrow>
          if contains_text (pre_tool a) ''github'' \<or> pre_tool a = ''propose_labels'' \<or> pre_tool a = ''draft_response''
          then if mode = ModeExecute then ''github'' else ''mock-github''
          else ''mock-github'')"

text \<open>The prepared action a call is committed with: the first one of its tool.\<close>

definition prepared_for_call :: "run_trace \<Rightarrow> tool_call \<Rightarrow> prepared_action option" where
  "prepared_for_call t call = find (\<lambda>a. pre_tool a = tc_tool call) (tr_prepared t)"

definition committed_call :: "tool_call \<Rightarrow> action_result \<Rightarrow> tool_call" where
  "committed_call call r =
     call\<lparr>tc_status := (if ares_status r = MockCommitted then CallMockCommitted else CallFailed),
       tc_output := Some (JObj (obj_set ''commitResult'' (action_result_json r) (spread_output (tc_output call))))\<rparr>"

definition commit_call ::
  "adapters \<Rightarrow> loop_spec option \<Rightarrow> run_trace \<Rightarrow> str list \<Rightarrow> tool_call \<Rightarrow> (world, review_error, tool_call) action" where
  "commit_call adapters spec t approved call =
     (if tc_status call \<in> {CallMockCommitted, CallCompleted} then act_return call
      else (case prepared_for_call t call of
          None \<Rightarrow> act_return call
        | Some a \<Rightarrow>
            if pre_requires_approval a \<and> \<not> validate_approval_binding a approved
            then act_return (call\<lparr>tc_status := CallFailed\<rparr>)
            else (case adapters (adapter_id_for spec (tr_mode t) a) of
                None \<Rightarrow> act_return (call\<lparr>tc_status := CallMockCommitted\<rparr>)
              | Some commit \<Rightarrow>
                  act_bind (act_write (\<lambda>w. w\<lparr>w_sent := w_sent w @ [(adapter_id_for spec (tr_mode t) a, a)]\<rparr>)) (\<lambda>_.
                  (case commit a approved of
                     None \<Rightarrow> act_throw (AdapterThrew (adapter_id_for spec (tr_mode t) a))
                   | Some r \<Rightarrow> act_return (committed_call call r))))))"

definition commit_prepared_actions ::
  "adapters \<Rightarrow> instant \<Rightarrow> run_trace \<Rightarrow> str list \<Rightarrow> loop_spec option \<Rightarrow> (world, review_error, run_trace) action" where
  "commit_prepared_actions adapters now t approved spec =
     act_bind (act_each (commit_call adapters spec t approved) (tr_calls t)) (\<lambda>calls.
       act_return (t\<lparr>tr_calls := calls,
         tr_status := (if list_ex (\<lambda>c. tc_status c = CallFailed) calls then FAILED_VERIFICATION else COMPLETED),
         tr_completed_at := Some now\<rparr>))"

subsection \<open>Applying a decision\<close>

definition review_record :: "review_env \<Rightarrow> review_input \<Rightarrow> run_trace \<Rightarrow> human_review" where
  "review_record E i t =
     \<lparr>hr_id = ''review_'' @ rvi_run i @ ''_'' @ nat_text (length (tr_reviews t) + 1), hr_run = rvi_run i,
      hr_status = map_review_status (rvi_status i), hr_reviewer = Some (rvi_reviewer i), hr_role = rvi_role i,
      hr_approved = opt_or (rvi_approved i) [],
      hr_rejected = (if rvi_status i = DRejected
                     then map pre_fingerprint (filter pre_requires_approval (tr_prepared t)) else []),
      hr_comment = rvi_comment i, hr_feedback = rvi_feedback i, hr_minutes = rvi_minutes i,
      hr_reassigned_to = rvi_reassigned i,
      hr_created_at = tr_started_at t, hr_decided_at = Some (re_now E)\<rparr>"

text \<open>The approved branch, on the trace that already carries the review.\<close>

definition approve_trace ::
  "review_env \<Rightarrow> str list \<Rightarrow> loop_spec option \<Rightarrow> run_trace \<Rightarrow> (world, review_error, run_trace) action" where
  "approve_trace E approved spec t =
     (let cumulative = cumulative_approved t;
          pendingCustomer = pending_actions True t cumulative;
          pendingInternal = pending_actions False t cumulative
      in act_bind (act_lift (require (\<not> (pendingInternal \<and> approved \<noteq> [])) InternalPending)) (\<lambda>_.
         act_bind (act_lift (require (\<not> (approved = [] \<and> list_ex pre_requires_approval (tr_prepared t))) NothingSelected)) (\<lambda>_.
         act_bind (commit_prepared_actions (re_adapters E) (re_now E) t cumulative spec) (\<lambda>t'.
         act_return (t'\<lparr>tr_status := (if pendingCustomer \<or> pendingInternal then WAITING_FOR_REVIEW else COMPLETED)\<rparr>)))))"

definition decide_trace ::
  "review_env \<Rightarrow> review_input \<Rightarrow> loop_spec option \<Rightarrow> run_trace \<Rightarrow> (world, review_error, run_trace) action" where
  "decide_trace E i spec t =
     (case rvi_status i of
        DApproved \<Rightarrow> approve_trace E (opt_or (rvi_approved i) []) spec t
      | DRejected \<Rightarrow> act_return (t\<lparr>tr_status := REJECTED\<rparr>)
      | _ \<Rightarrow> act_return (t\<lparr>tr_status := WAITING_FOR_REVIEW\<rparr>))"

definition improvement_wanted :: "human_review \<Rightarrow> bool" where
  "improvement_wanted r = (hr_status r \<in> {RvRejected, RvNeedsChanges, RvRequestEvidence})"

definition store_review :: "run_trace \<Rightarrow> human_review \<Rightarrow> (world, review_error, run_trace \<times> human_review) action" where
  "store_review t r =
     act_bind (in_runs RunStorageError (save_review r)) (\<lambda>_.
     act_bind (in_runs RunStorageError (save_run t)) (\<lambda>_.
     (if improvement_wanted r
      then (let t' = t\<lparr>tr_outputs := tr_outputs t @ [(''improvement_'' @ hr_id r, ''improvement_signal'')]\<rparr>
            in act_bind (in_runs RunStorageError (save_run t')) (\<lambda>_. act_return (t', r)))
      else act_return (t, r))))"

definition approval_guards :: "review_input \<Rightarrow> run_trace \<Rightarrow> review_error + unit" where
  "approval_guards i t =
     (if rvi_status i = DApproved
      then res_bind (assert_valid_selection t (opt_or (rvi_approved i) []))
             (\<lambda>_. assert_separated_approval t (opt_or (rvi_approved i) []) (rvi_reviewer i))
      else Inr ())"

definition review_guards :: "review_input \<Rightarrow> run_storage \<Rightarrow> review_error + run_trace" where
  "review_guards i s =
     res_bind (require (js_trim (rvi_reviewer i) \<noteq> []) ReviewerMissing) (\<lambda>_.
     (case get_run s (rvi_run i) of
        None \<Rightarrow> Inl (TraceNotFound (rvi_run i))
      | Some t \<Rightarrow>
          res_bind (require (tr_status t = WAITING_FOR_REVIEW \<or> rvi_status i \<noteq> DApproved)
              (NotWaitingForReview (rvi_run i) (tr_status t))) (\<lambda>_.
          res_bind (assert_reviewer_role t (rvi_role i)) (\<lambda>_.
          res_bind (approval_guards i t) (\<lambda>_. Inr t)))))"

definition apply_review_decision ::
  "runtime \<Rightarrow> review_env \<Rightarrow> review_input \<Rightarrow> (world, review_error, run_trace \<times> human_review) action" where
  "apply_review_decision R E i =
     act_bind (act_read w_runs) (\<lambda>s.
     act_bind (act_lift (review_guards i s)) (\<lambda>t.
     act_bind (act_read w_store) (\<lambda>st.
     act_bind (act_lift (if rvi_status i = DApproved then validate_review_context R E st t else Inr None)) (\<lambda>spec.
     (let r = review_record E i t
      in act_bind (decide_trace E i spec (t\<lparr>tr_reviews := tr_reviews t @ [r]\<rparr>)) (\<lambda>t'.
         store_review t' r))))))"

subsection \<open>What reaches the adapters\<close>

text \<open>Nothing but the log changes, and the log grows by actions of the run that may be committed.\<close>

definition sends :: "run_trace \<Rightarrow> str list \<Rightarrow> world \<Rightarrow> world \<Rightarrow> bool" where
  "sends t approved w w' \<longleftrightarrow> w_store w' = w_store w \<and> w_runs w' = w_runs w \<and>
     (\<exists>new. w_sent w' = w_sent w @ new \<and>
       (\<forall>(k, a)\<in>set new. find (\<lambda>b. pre_tool b = pre_tool a) (tr_prepared t) = Some a \<and>
          (pre_requires_approval a \<longrightarrow> pre_fingerprint a \<in> set approved)))"

lemma sends_refl: "sends t approved w w"
  by (simp add: sends_def)

lemma sends_sent:
  assumes "sends t approved w w1" "find (\<lambda>b. pre_tool b = pre_tool a) (tr_prepared t) = Some a"
    "pre_requires_approval a \<longrightarrow> pre_fingerprint a \<in> set approved"
  shows "sends t approved w (w1\<lparr>w_sent := w_sent w1 @ [(k, a)]\<rparr>)"
  using assms by (auto simp: sends_def)

lemma prepared_for_call_tool: "prepared_for_call t call = Some a \<Longrightarrow> pre_tool a = tc_tool call"
  by (auto simp: prepared_for_call_def find_Some_iff)

lemma prepared_for_call_first:
  "prepared_for_call t call = Some a \<Longrightarrow> find (\<lambda>b. pre_tool b = pre_tool a) (tr_prepared t) = Some a"
  using prepared_for_call_tool [of t call a] by (simp add: prepared_for_call_def)

lemma commit_call_sends: "keeps (sends t approved w) (commit_call A spec t approved call)"
  unfolding commit_call_def keeps_def
  by (auto simp: act_bind_def validate_approval_binding_def intro!: sends_sent prepared_for_call_first
      split: option.splits)

lemma commit_sends: "keeps (sends t approved w) (commit_prepared_actions A now t approved spec)"
  unfolding commit_prepared_actions_def by (intro keeps_rules commit_call_sends)

lemma commit_trace:
  assumes "commit_prepared_actions A now t approved spec w = (Inr t', w')"
  shows "\<exists>calls. length calls = length (tr_calls t) \<and> t' = t\<lparr>tr_calls := calls,
      tr_status := (if list_ex (\<lambda>c. tc_status c = CallFailed) calls then FAILED_VERIFICATION else COMPLETED),
      tr_completed_at := Some now\<rparr>"
  using assms by (auto simp: commit_prepared_actions_def act_bind_Inr dest: act_each_length)

subsection \<open>The parts of a decision\<close>

definition reviewed :: "review_env \<Rightarrow> review_input \<Rightarrow> run_trace \<Rightarrow> run_trace" where
  "reviewed E i t = t\<lparr>tr_reviews := tr_reviews t @ [review_record E i t]\<rparr>"

lemma reviewed_simps [simp]:
  "tr_prepared (reviewed E i t) = tr_prepared t" "tr_id (reviewed E i t) = tr_id t"
  "tr_calls (reviewed E i t) = tr_calls t" "tr_reviews (reviewed E i t) = tr_reviews t @ [review_record E i t]"
  by (simp_all add: reviewed_def)

lemma cumulative_reviewed:
  "set (cumulative_approved (reviewed E i t)) =
   set (cumulative_approved t) \<union> (if rvi_status i = DApproved then set (opt_or (rvi_approved i) []) else {})"
  by (cases "rvi_status i") (auto simp: cumulative_approved_def approved_reviews_def review_record_def map_review_status_def)

lemma decide_sends:
  assumes "decide_trace E i spec (reviewed E i t) w = (out, w')"
  shows "sends t (cumulative_approved (reviewed E i t)) w w' \<and> (rvi_status i \<noteq> DApproved \<longrightarrow> w' = w)"
proof (cases "rvi_status i = DApproved")
  case True
  have "keeps (sends (reviewed E i t) (cumulative_approved (reviewed E i t)) w)
      (approve_trace E (opt_or (rvi_approved i) []) spec (reviewed E i t))"
    unfolding approve_trace_def Let_def by (intro keeps_rules commit_sends)
  moreover have "decide_trace E i spec (reviewed E i t) = approve_trace E (opt_or (rvi_approved i) []) spec (reviewed E i t)"
    using True by (simp add: decide_trace_def)
  ultimately have "sends (reviewed E i t) (cumulative_approved (reviewed E i t)) w w'"
    using assms keepsD sends_refl by metis
  with True show ?thesis by (simp add: sends_def)
next
  case False
  with assms have "w' = w" by (auto simp: decide_trace_def split: review_decision.splits)
  then show ?thesis by (simp add: sends_refl)
qed

lemma review_guards_Inr:
  "review_guards i s = Inr t \<longleftrightarrow>
     js_trim (rvi_reviewer i) \<noteq> [] \<and> get_run s (rvi_run i) = Some t \<and>
     (tr_status t = WAITING_FOR_REVIEW \<or> rvi_status i \<noteq> DApproved) \<and>
     assert_reviewer_role t (rvi_role i) = Inr () \<and> approval_guards i t = Inr ()"
  by (auto simp: review_guards_def res_bind_Inr_iff split: option.splits)

lemma reviewed_fold: "t\<lparr>tr_reviews := tr_reviews t @ [review_record E i t]\<rparr> = reviewed E i t"
  by (simp add: reviewed_def)

lemma apply_review_Inr:
  assumes "apply_review_decision R E i w = (Inr (t', r), w')"
  obtains t spec t1 w1 where "review_guards i (w_runs w) = Inr t"
    "rvi_status i = DApproved \<longrightarrow> validate_review_context R E (w_store w) t = Inr spec"
    "decide_trace E i spec (reviewed E i t) w = (Inr t1, w1)"
    "store_review t1 (review_record E i t) w1 = (Inr (t', r), w')"
  using assms unfolding apply_review_decision_def Let_def reviewed_fold
  by (auto simp: act_bind_Inr split: if_splits)

lemma apply_review_cases:
  assumes "apply_review_decision R E i w = (out, w')"
  obtains (refused) e where "out = Inl e" "w' = w"
  | (failed) t spec e where "review_guards i (w_runs w) = Inr t"
      "decide_trace E i spec (reviewed E i t) w = (Inl e, w')" "out = Inl e"
  | (stored) t spec t1 w1 where "review_guards i (w_runs w) = Inr t"
      "decide_trace E i spec (reviewed E i t) w = (Inr t1, w1)"
      "store_review t1 (review_record E i t) w1 = (out, w')"
proof (cases "review_guards i (w_runs w)")
  case (Inl e)
  with assms refused show thesis by (auto simp: apply_review_decision_def act_bind_run)
next
  case (Inr t)
  show thesis
  proof (cases "if rvi_status i = DApproved then validate_review_context R E (w_store w) t else Inr None")
    case (Inl e)
    with assms \<open>review_guards i (w_runs w) = Inr t\<close> refused show thesis
      by (auto simp: apply_review_decision_def act_bind_run)
  next
    case (Inr spec)
    then have run: "act_bind (decide_trace E i spec (reviewed E i t))
        (\<lambda>t'. store_review t' (review_record E i t)) w = (out, w')"
      using assms \<open>review_guards i (w_runs w) = Inr t\<close>
      by (simp add: apply_review_decision_def act_bind_run Let_def reviewed_fold)
    show thesis
    proof (cases "decide_trace E i spec (reviewed E i t) w")
      case (Pair o1 w1)
      with run \<open>review_guards i (w_runs w) = Inr t\<close> failed stored show thesis
        by (cases o1) (auto simp: act_bind_run)
    qed
  qed
qed

lemma sends_allowed:
  assumes "sends t approved w w'" "w_sent w' = w_sent w @ new" "(k, a) \<in> set new"
  shows "a \<in> set (tr_prepared t) \<and> find (\<lambda>b. pre_tool b = pre_tool a) (tr_prepared t) = Some a \<and>
    (pre_requires_approval a \<longrightarrow> pre_fingerprint a \<in> set approved)"
  using assms by (fastforce simp: sends_def find_Some_iff)

lemma decide_log:
  assumes "decide_trace E i spec (reviewed E i t) w = (out, w')"
  obtains new where "w_store w' = w_store w" "w_runs w' = w_runs w" "w_sent w' = w_sent w @ new"
    "\<And>k a. (k, a) \<in> set new \<Longrightarrow> rvi_status i = DApproved \<and> a \<in> set (tr_prepared t) \<and>
       find (\<lambda>b. pre_tool b = pre_tool a) (tr_prepared t) = Some a \<and>
       (pre_requires_approval a \<longrightarrow>
          pre_fingerprint a \<in> set (opt_or (rvi_approved i) []) \<union> set (cumulative_approved t))"
proof -
  from decide_sends [OF assms] obtain new where new: "w_sent w' = w_sent w @ new"
    and sd: "sends t (cumulative_approved (reviewed E i t)) w w'" and idle: "rvi_status i \<noteq> DApproved \<longrightarrow> w' = w"
    by (auto simp: sends_def)
  show thesis
  proof (rule that [OF _ _ new])
    fix k a
    assume a: "(k, a) \<in> set new"
    with idle new have "rvi_status i = DApproved" by auto
    with sends_allowed [OF sd new a] cumulative_reviewed [of E i t]
    show "rvi_status i = DApproved \<and> a \<in> set (tr_prepared t) \<and>
       find (\<lambda>b. pre_tool b = pre_tool a) (tr_prepared t) = Some a \<and>
       (pre_requires_approval a \<longrightarrow>
          pre_fingerprint a \<in> set (opt_or (rvi_approved i) []) \<union> set (cumulative_approved t))" by auto
  qed (use sd in \<open>simp_all add: sends_def\<close>)
qed

lemma store_review_frame:
  "w_store (snd (store_review t r w)) = w_store w \<and> w_sent (snd (store_review t r w)) = w_sent w"
  by (simp add: store_review_def act_bind_def in_runs_def act_zoom_run Let_def save_review_run save_run_run)

subsection \<open>What a decision guarantees\<close>

lemma role_ok: "assert_reviewer_role t role = Inr () \<longleftrightarrow> review_role_text role \<in> set (trace_allowed_roles t)"
  by (auto simp: assert_reviewer_role_def)

lemma selection_ok: "assert_valid_selection t fs = Inr () \<longleftrightarrow> set fs \<subseteq> pre_fingerprint ` set (tr_prepared t)"
proof (cases "find (\<lambda>f. \<not> list_ex (\<lambda>a. pre_fingerprint a = f) (tr_prepared t)) fs")
  case None
  then have "set fs \<subseteq> pre_fingerprint ` set (tr_prepared t)" by (auto simp: find_None_iff list_ex_iff)
  with None show ?thesis by (simp add: assert_valid_selection_def)
next
  case (Some f)
  then have "f \<in> set fs" "f \<notin> pre_fingerprint ` set (tr_prepared t)"
    by (auto simp: find_Some_iff list_ex_iff)
  with Some show ?thesis by (auto simp: assert_valid_selection_def)
qed

text \<open>The reviewers of the approved reviews that name an internal action.\<close>

definition approved_internal :: "run_trace \<Rightarrow> human_review \<Rightarrow> bool" where
  "approved_internal t r \<longleftrightarrow> r \<in> set (tr_reviews t) \<and> hr_status r = RvApproved \<and>
     (\<exists>f\<in>set (hr_approved r). \<exists>a\<in>set (tr_prepared t). pre_fingerprint a = f \<and> \<not> pre_customer_facing a)"

lemma internal_reviewers_set:
  "set (internal_reviewers t) = {x. x \<noteq> [] \<and> (\<exists>r. approved_internal t r \<and> hr_reviewer r = Some x)}"
proof -
  have "set (filter (\<lambda>r. list_ex (\<lambda>f. list_ex (\<lambda>a. pre_fingerprint a = f \<and> \<not> pre_customer_facing a) (tr_prepared t))
            (hr_approved r)) (approved_reviews t)) = {r. approved_internal t r}"
    by (auto simp: approved_internal_def approved_reviews_def list_ex_iff)
  then have "set (internal_reviewers t) =
      (\<Union>r\<in>{r. approved_internal t r}. if truthy_str (hr_reviewer r) then {the (hr_reviewer r)} else {})"
    unfolding internal_reviewers_def set_concat set_map by auto
  then show ?thesis by (auto simp: truthy_str_def split: option.splits if_splits)
qed

definition separated :: "run_trace \<Rightarrow> str list \<Rightarrow> str \<Rightarrow> bool" where
  "separated t approved reviewer \<longleftrightarrow>
     (\<forall>a\<in>set (tr_prepared t). pre_fingerprint a \<in> set approved \<longrightarrow> pre_customer_facing a \<longrightarrow>
        (\<forall>b\<in>set (tr_prepared t). pre_fingerprint b \<in> set approved \<longrightarrow> pre_customer_facing b) \<and>
        (\<forall>b\<in>set (tr_prepared t). pre_requires_approval b \<and> \<not> pre_customer_facing b \<longrightarrow>
           (\<exists>r\<in>set (tr_reviews t). hr_status r = RvApproved \<and> pre_fingerprint b \<in> set (hr_approved r))) \<and>
        (\<forall>r. approved_internal t r \<longrightarrow> hr_reviewer r \<noteq> Some reviewer))"

lemma pending_iff:
  "pending_actions cf t fs \<longleftrightarrow> (\<exists>a\<in>set (tr_prepared t). pre_requires_approval a \<and> pre_customer_facing a = cf \<and>
     pre_fingerprint a \<notin> set fs)"
  by (auto simp: pending_actions_def list_ex_iff validate_approval_binding_def)

lemma separated_ok:
  assumes "trace_separate_approval t" "reviewer \<noteq> []"
  shows "assert_separated_approval t approved reviewer = Inr () \<longleftrightarrow> separated t approved reviewer"
proof -
  let ?in = "\<lambda>a. a \<in> set (tr_prepared t) \<and> pre_fingerprint a \<in> set approved"
  have prev: "set (concat (map hr_approved (approved_reviews t))) =
      {f. \<exists>r\<in>set (tr_reviews t). hr_status r = RvApproved \<and> f \<in> set (hr_approved r)}"
    by (auto simp: approved_reviews_def)
  have rev: "reviewer \<notin> set (internal_reviewers t) \<longleftrightarrow> (\<forall>r. approved_internal t r \<longrightarrow> hr_reviewer r \<noteq> Some reviewer)"
    using assms(2) by (auto simp: internal_reviewers_set)
  have "assert_separated_approval t approved reviewer = Inr () \<longleftrightarrow>
      ((\<exists>a. ?in a \<and> pre_customer_facing a) \<longrightarrow>
        (\<forall>a. ?in a \<longrightarrow> pre_customer_facing a) \<and>
        \<not> pending_actions False t (concat (map hr_approved (approved_reviews t))) \<and>
        reviewer \<notin> set (internal_reviewers t))"
    using assms(1) by (auto simp: assert_separated_approval_def Let_def list_ex_iff)
  then show ?thesis unfolding rev pending_iff prev separated_def by blast
qed

text \<open>
  C31: only the run's policy admits a review. A decision is stored only for a named reviewer in one of
  the roles the run's own approval policy allows; an approval only for a run that waits for review,
  of fingerprints the run prepared; and when the policy separates customer approvals, a customer-
  facing action is never approved together with an internal one, nor before every required
  internal action was approved, nor by a reviewer who approved an internal action.
\<close>

theorem review_admission:
  assumes "apply_review_decision R E i w = (Inr (t', r), w')"
  shows "\<exists>t. get_run (w_runs w) (rvi_run i) = Some t \<and> js_trim (rvi_reviewer i) \<noteq> [] \<and>
    review_role_text (rvi_role i) \<in> set (trace_allowed_roles t) \<and>
    (rvi_status i = DApproved \<longrightarrow>
       tr_status t = WAITING_FOR_REVIEW \<and>
       set (opt_or (rvi_approved i) []) \<subseteq> pre_fingerprint ` set (tr_prepared t) \<and>
       (trace_separate_approval t \<longrightarrow> separated t (opt_or (rvi_approved i) []) (rvi_reviewer i)))"
proof -
  from assms obtain t where g: "review_guards i (w_runs w) = Inr t" by (rule apply_review_Inr)
  then have "rvi_reviewer i \<noteq> []" by (auto simp: review_guards_Inr js_trim_def)
  with g show ?thesis
    by (auto simp: review_guards_Inr role_ok approval_guards_def res_bind_Inr_iff selection_ok [symmetric] separated_ok)
qed

text \<open>
  C22: an adapter only sees approved actions. Whatever a decision does, refused and failing ones
  included, it hands prepared actions to adapters only when it is an approval, only actions the run
  prepared, and an action that requires approval only when its fingerprint is approved by this
  decision or by an approved review of the run. The routing store is not touched.
\<close>

theorem review_sends_only_approved:
  assumes "apply_review_decision R E i w = (out, w')"
  shows "w_store w' = w_store w \<and> (\<exists>new. w_sent w' = w_sent w @ new \<and>
    (\<forall>(k, a)\<in>set new. rvi_status i = DApproved \<and>
       (\<exists>t. get_run (w_runs w) (rvi_run i) = Some t \<and> a \<in> set (tr_prepared t) \<and>
          (pre_requires_approval a \<longrightarrow>
             pre_fingerprint a \<in> set (opt_or (rvi_approved i) []) \<union> set (cumulative_approved t)))))"
  using assms
proof (cases rule: apply_review_cases)
  case (failed t spec e)
  from failed(2) show ?thesis by (rule decide_log) (use failed(1) in \<open>auto simp: review_guards_Inr\<close>)
next
  case (stored t spec t1 w1)
  note st = store_review_frame [of t1 "review_record E i t" w1, unfolded stored(3) snd_conv]
  from stored(2) show ?thesis by (rule decide_log) (use stored(1) st in \<open>auto simp: review_guards_Inr\<close>)
qed auto

text \<open>
  Of two actions of one tool only the first can be committed. The commit looks a call's action up
  by its tool, so an action that is not the first the run prepared for its tool never reaches an
  adapter, approved or not; the first one is sent once per call of the tool instead.
\<close>

theorem second_action_of_tool_never_sent:
  assumes "apply_review_decision R E i w = (out, w')" and "get_run (w_runs w) (rvi_run i) = Some t"
    and "find (\<lambda>x. pre_tool x = pre_tool b) (tr_prepared t) = Some a" and "b \<noteq> a"
  shows "(k, b) \<notin> set (drop (length (w_sent w)) (w_sent w'))"
  using assms(1)
proof (cases rule: apply_review_cases)
  case (failed t2 spec e)
  from failed(2) show ?thesis
    by (rule decide_log) (use failed(1) assms(2-4) in \<open>auto simp: review_guards_Inr\<close>)
next
  case (stored t2 spec t1 w1)
  note st = store_review_frame [of t1 "review_record E i t2" w1, unfolded stored(3) snd_conv]
  from stored(2) show ?thesis
    by (rule decide_log) (use stored(1) assms(2-4) st in \<open>auto simp: review_guards_Inr\<close>)
qed auto

subsection \<open>The outcome\<close>

text \<open>The status a decision leaves: whatever the run's status was and whatever the adapters answered.\<close>

definition decided_status :: "review_input \<Rightarrow> run_trace \<Rightarrow> run_status" where
  "decided_status i t =
     (case rvi_status i of
        DApproved \<Rightarrow>
          if list_ex (\<lambda>a. pre_requires_approval a \<and> pre_fingerprint a \<notin> set (opt_or (rvi_approved i) []) \<and>
               pre_fingerprint a \<notin> set (cumulative_approved t)) (tr_prepared t)
          then WAITING_FOR_REVIEW else COMPLETED
      | DRejected \<Rightarrow> REJECTED
      | _ \<Rightarrow> WAITING_FOR_REVIEW)"

lemma decide_trace_Inr:
  assumes "decide_trace E i spec (reviewed E i t) w = (Inr t1, w1)"
  shows "tr_id t1 = tr_id t \<and> tr_prepared t1 = tr_prepared t \<and>
    tr_reviews t1 = tr_reviews t @ [review_record E i t] \<and> tr_status t1 = decided_status i t"
proof (cases "rvi_status i = DApproved")
  case True
  have pend: "pending_actions True (reviewed E i t) (cumulative_approved (reviewed E i t)) \<or>
      pending_actions False (reviewed E i t) (cumulative_approved (reviewed E i t)) \<longleftrightarrow>
      list_ex (\<lambda>a. pre_requires_approval a \<and> pre_fingerprint a \<notin> set (opt_or (rvi_approved i) []) \<and>
               pre_fingerprint a \<notin> set (cumulative_approved t)) (tr_prepared t)"
    unfolding pending_iff cumulative_reviewed using True by (auto simp: list_ex_iff)
  from assms True obtain t2 where
    "commit_prepared_actions (re_adapters E) (re_now E) (reviewed E i t) (cumulative_approved (reviewed E i t)) spec w = (Inr t2, w1)"
    and t1: "t1 = t2\<lparr>tr_status := (if pending_actions True (reviewed E i t) (cumulative_approved (reviewed E i t)) \<or>
      pending_actions False (reviewed E i t) (cumulative_approved (reviewed E i t)) then WAITING_FOR_REVIEW else COMPLETED)\<rparr>"
    by (auto simp: decide_trace_def approve_trace_def Let_def act_bind_Inr)
  from commit_trace [OF this(1)] t1 True show ?thesis
    unfolding pend by (auto simp: decided_status_def)
next
  case False
  with assms show ?thesis by (cases "rvi_status i") (auto simp: decide_trace_def decided_status_def)
qed

lemma store_review_cases:
  assumes "safe_record_id (tr_id t)" "store_review t r w = (out, w')"
  shows "(out = Inl (RunStorageError (InvalidRecordId (hr_id r))) \<and> w' = w) \<or>
    (\<exists>t'. out = Inr (t', r) \<and> tr_status t' = tr_status t \<and> tr_reviews t' = tr_reviews t \<and> tr_calls t' = tr_calls t \<and>
       tr_id t' = tr_id t \<and> get_run (w_runs w') (tr_id t) = Some t')"
proof (cases "safe_record_id (hr_id r)")
  case True
  with assms show ?thesis
    by (auto simp: store_review_def act_bind_def in_runs_def act_zoom_run Let_def save_review_run save_run_run get_run_def
        split: if_splits)
next
  case False
  with assms show ?thesis
    by (auto simp: store_review_def act_bind_def in_runs_def act_zoom_run save_review_run)
qed

text \<open>
  The outcome of a decision. The stored run carries the decision as its last review and its
  status is a function of the decision and of what is still unapproved: an approval completes the
  run as soon as every required action is approved, even when an adapter rejected the commit (the
  \<open>FAILED_VERIFICATION\<close> of the commit is overwritten); a rejection rejects it; every other decision
  puts it back to waiting, even a run that was already completed, rejected or blocked.
\<close>

theorem review_outcome:
  assumes "storage_wf (w_runs w)" and "apply_review_decision R E i w = (Inr (t', r), w')"
    and "get_run (w_runs w) (rvi_run i) = Some t"
  shows "tr_status t' = decided_status i t \<and> tr_reviews t' = tr_reviews t @ [r] \<and> r = review_record E i t \<and>
    get_run (w_runs w') (rvi_run i) = Some t'"
proof -
  from assms(2) obtain t2 spec t1 w1 where g: "review_guards i (w_runs w) = Inr t2"
    and d: "decide_trace E i spec (reviewed E i t2) w = (Inr t1, w1)"
    and st: "store_review t1 (review_record E i t2) w1 = (Inr (t', r), w')"
    by (rule apply_review_Inr)
  from g assms(3) have [simp]: "t2 = t" by (simp add: review_guards_Inr)
  from decide_trace_Inr [OF d] have t1: "tr_id t1 = tr_id t" "tr_status t1 = decided_status i t"
    "tr_reviews t1 = tr_reviews t @ [review_record E i t]" by auto
  from get_run_id [OF assms(1,3)] t1(1) have i: "tr_id t1 = rvi_run i" "safe_record_id (tr_id t1)" by auto
  from store_review_cases [OF i(2) st] i(1) t1(2,3) show ?thesis by auto
qed

text \<open>
  A refused decision changes nothing. Whenever a decision throws, the stored runs, reviews, cases
  and routing records are those of before; actions reached adapters only when an adapter itself
  threw, or when the identifier of the review is too long for a file (the review is written after
  the actions are committed).
\<close>

theorem refused_review_inert:
  assumes "storage_wf (w_runs w)" and "apply_review_decision R E i w = (Inl e, w')"
  shows "w_runs w' = w_runs w \<and> w_store w' = w_store w \<and>
    (w_sent w' = w_sent w \<or> (\<exists>k. e = AdapterThrew k) \<or>
     (\<exists>t. get_run (w_runs w) (rvi_run i) = Some t \<and> e = RunStorageError (InvalidRecordId (hr_id (review_record E i t)))))"
  using assms(2)
proof (cases rule: apply_review_cases)
  case (failed t spec e)
  from failed(2) have log: "w_runs w' = w_runs w" "w_store w' = w_store w" by (auto elim: decide_log)
  have call: "\<exists>k. x = AdapterThrew k" if "commit_call A sp u ap c v = (Inl x, v')" for A sp u ap c v v' x
    using that by (auto simp: commit_call_def act_bind_run split: if_splits option.splits)
  have calls: "\<exists>k. x = AdapterThrew k" if "act_each (commit_call A sp u ap) cs v = (Inl x, v')" for A sp u ap cs v v' x
    using that by (induction cs arbitrary: v) (auto simp: act_bind_Inl dest: call)
  have "w' = w \<or> (\<exists>k. e = AdapterThrew k)"
    using failed(2) calls
    by (auto simp: decide_trace_def approve_trace_def Let_def act_bind_Inl commit_prepared_actions_def
        split: review_decision.splits)
  with log failed(3) show ?thesis by auto
next
  case (stored t spec t1 w1)
  from get_run_id [OF assms(1)] stored(1) decide_trace_Inr [OF stored(2)]
  have "safe_record_id (tr_id t1)" by (auto simp: review_guards_Inr)
  from store_review_cases [OF this stored(3)] have "w' = w1" "e = RunStorageError (InvalidRecordId (hr_id (review_record E i t)))"
    by auto
  moreover from stored(2) have "w_runs w1 = w_runs w" "w_store w1 = w_store w" by (auto elim: decide_log)
  ultimately show ?thesis using stored(1) by (auto simp: review_guards_Inr)
qed auto

end
