(* ===== verification/Cases.thy ===== *)
theory Cases imports Reviews begin

text \<open>
  Escalation cases after they are created (runtime/case-service.ts): a status change, the resolution
  of a case with its outcome written to the source run, and the resolution of the business problem
  behind the run's route commit, announced by a lifecycle notice (theory Lifecycle).
\<close>

datatype case_failure =
    CaseStorageError run_failure
  | CaseRoutingError store_error
  | CaseNotFound str
  | CaseLifecycleError lifecycle_failure

definition transition_case_status ::
  "str \<Rightarrow> case_status \<Rightarrow> case_outcome option \<Rightarrow> (world, case_failure, escalation_case) action" where
  "transition_case_status caseId status outcome =
     act_bind (act_read (\<lambda>w. get_escalation_case (w_runs w) caseId)) (\<lambda>found.
     (case found of
        None \<Rightarrow> act_throw (CaseNotFound caseId)
      | Some c \<Rightarrow>
          (let updated = c\<lparr>ec_status := status, ec_outcome := opt_first outcome (ec_outcome c)\<rparr>
           in act_bind (in_runs CaseStorageError (save_escalation_case updated)) (\<lambda>_. act_return updated))))"

definition case_outcome_id :: "escalation_case \<Rightarrow> str" where
  "case_outcome_id c = ''case_outcome_'' @ ec_id c"

definition case_improvement_id :: "escalation_case \<Rightarrow> str" where
  "case_improvement_id c = ''improvement_case_'' @ ec_id c"

definition outcome_outputs :: "escalation_case \<Rightarrow> (str \<times> str) list \<Rightarrow> (str \<times> str) list" where
  "outcome_outputs c outputs =
     filter (\<lambda>(i, _). i \<noteq> case_outcome_id c) outputs @
     [(case_outcome_id c, ''case_outcome''), (case_improvement_id c, ''improvement_signal'')]"

definition write_case_outcome_to_trace :: "escalation_case \<Rightarrow> (world, case_failure, run_trace option) action" where
  "write_case_outcome_to_trace c =
     act_bind (act_read (\<lambda>w. get_run (w_runs w) (ec_run c))) (\<lambda>found.
     (case found of
        None \<Rightarrow> act_return None
      | Some t \<Rightarrow>
          (let t' = t\<lparr>tr_outputs := outcome_outputs c (tr_outputs t)\<rparr>
           in act_bind (in_runs CaseStorageError (save_run t')) (\<lambda>_. act_return (Some t')))))"

text \<open>\<open>routeCommitIdFromTrace\<close>: the first input \<open>routing\<close> that is an object with a commit id.\<close>

fun commit_id_of_inputs :: "(str \<times> json) list \<Rightarrow> str option" where
  "commit_id_of_inputs [] = None"
| "commit_id_of_inputs ((k, v) # rest) =
     (if k \<noteq> ''routing'' then commit_id_of_inputs rest
      else (case v of
          JObj kvs \<Rightarrow> (case map_of kvs ''routeCommitId'' of
              Some (JStr s) \<Rightarrow> if s \<noteq> [] then Some s else commit_id_of_inputs rest
            | _ \<Rightarrow> commit_id_of_inputs rest)
        | _ \<Rightarrow> commit_id_of_inputs rest))"

record lifecycle_options =
  lo_store :: bool
  lo_event :: "event option"
  lo_commit :: "route_commit option"
  lo_trace :: "run_trace option"
  lo_problem :: "business_problem option"
  lo_now :: instant
  lo_keys :: "str option \<times> str option"

definition resolved_problem :: "str \<Rightarrow> case_outcome \<Rightarrow> instant \<Rightarrow> business_problem \<Rightarrow> business_problem" where
  "resolved_problem caseId outcome now p =
     p\<lparr>bp_status := Resolved, bp_updated_at := now, bp_resolved_at := Some (opt_or (co_resolved_at outcome) now),
       bp_outcome_refs := uniq (bp_outcome_refs p @ [''case_outcome:'' @ caseId])\<rparr>"

definition resolve_problem_for_outcome ::
  "business_problem option \<Rightarrow> route_commit \<Rightarrow> case_outcome \<Rightarrow> str \<Rightarrow> instant \<Rightarrow>
   (world, case_failure, business_problem option) action" where
  "resolve_problem_for_outcome explicit commit outcome caseId now =
     act_bind (act_read (\<lambda>w. opt_first explicit (get_business_problem (w_store w) (rcm_problem_id commit)))) (\<lambda>problem.
     (case problem of
        None \<Rightarrow> act_return None
      | Some p \<Rightarrow>
          act_bind (in_store CaseRoutingError (save_business_problem (resolved_problem caseId outcome now p))) (\<lambda>_.
            act_return (Some (resolved_problem caseId outcome now p)))))"

datatype case_warning = RunNotFound str | ReceiptNotFound str | CommitNotFound "str option"

definition find_commit :: "routing_store \<Rightarrow> str option \<Rightarrow> route_commit option" where
  "find_commit st commitId =
     (if truthy_str commitId then find (\<lambda>c. Some (rcm_id c) = commitId) (list_route_commits st None) else None)"

definition emit_outcome_if_possible ::
  "runtime \<Rightarrow> lifecycle_env \<Rightarrow> escalation_case \<Rightarrow> case_outcome \<Rightarrow> run_trace option \<Rightarrow> lifecycle_options \<Rightarrow>
   (world, case_failure, business_problem option \<times> emit_result option \<times> case_warning list) action" where
  "emit_outcome_if_possible R L c outcome written opts =
     (case opt_first (lo_trace opts) written of
        None \<Rightarrow> act_return (None, None, [])
      | Some t \<Rightarrow>
          if \<not> lo_store opts then act_return (None, None, [])
          else act_bind (act_read w_store) (\<lambda>st.
            (let commitId = opt_first (map_option rcm_id (lo_commit opts)) (commit_id_of_inputs (tr_inputs t));
                 eventId = (case lo_event opts of Some e \<Rightarrow> ev_id e | None \<Rightarrow> tr_event t);
                 sourceEvent = opt_first (lo_event opts) (map_option rcp_event (get_event_receipt st eventId));
                 routeCommit = opt_first (lo_commit opts) (find_commit st commitId)
             in case (sourceEvent, routeCommit) of
                  (None, _) \<Rightarrow> act_return (None, None, [ReceiptNotFound eventId])
                | (Some e, None) \<Rightarrow> act_return (None, None, [CommitNotFound commitId])
                | (Some e, Some rc) \<Rightarrow>
                    act_bind (resolve_problem_for_outcome (lo_problem opts) rc outcome (ec_id c) (lo_now opts)) (\<lambda>problem.
                    act_bind (in_life CaseLifecycleError (emit_outcome_recorded R L (lo_keys opts) e rc t c outcome problem (lo_now opts)))
                      (\<lambda>delivery. act_return (problem, Some delivery, []))))))"

record case_resolution =
  cres_case :: escalation_case
  cres_trace :: "run_trace option"
  cres_problem :: "business_problem option"
  cres_delivered :: "emit_result option"
  cres_warnings :: "case_warning list"

definition resolve_case_with_lifecycle ::
  "runtime \<Rightarrow> lifecycle_env \<Rightarrow> str \<Rightarrow> case_outcome \<Rightarrow> lifecycle_options \<Rightarrow> (world, case_failure, case_resolution) action" where
  "resolve_case_with_lifecycle R L caseId outcome opts =
     act_bind (transition_case_status caseId CaseResolved (Some outcome)) (\<lambda>c.
     act_bind (write_case_outcome_to_trace c) (\<lambda>t.
     (let warnings = (case t of None \<Rightarrow> [RunNotFound (ec_run c)] | Some _ \<Rightarrow> [])
      in act_bind (emit_outcome_if_possible R L c outcome t opts) (\<lambda>(problem, delivered, more).
         act_return \<lparr>cres_case = c, cres_trace = t, cres_problem = problem, cres_delivered = delivered,
           cres_warnings = warnings @ more\<rparr>))))"

definition resolve_case ::
  "runtime \<Rightarrow> lifecycle_env \<Rightarrow> str \<Rightarrow> case_outcome \<Rightarrow> lifecycle_options \<Rightarrow> (world, case_failure, escalation_case) action" where
  "resolve_case R L caseId outcome opts =
     act_bind (resolve_case_with_lifecycle R L caseId outcome opts) (\<lambda>r. act_return (cres_case r))"

subsection \<open>What a resolution leaves\<close>

lemma transition_Inr:
  assumes "transition_case_status caseId status outcome w = (Inr c', w')"
  obtains c where "get_escalation_case (w_runs w) caseId = Some c"
    "c' = c\<lparr>ec_status := status, ec_outcome := opt_first outcome (ec_outcome c)\<rparr>"
    "safe_record_id (ec_id c)"
    "w' = w\<lparr>w_runs := snd (save_escalation_case c' (w_runs w))\<rparr>"
  using assms unfolding transition_case_status_def
  by (auto simp: act_bind_Inr in_runs_Inr Let_def save_escalation_case_run split: option.splits if_splits)

lemma write_outcome_Inr:
  assumes "write_case_outcome_to_trace c w = (Inr t', w')"
  shows "(get_run (w_runs w) (ec_run c) = None \<and> t' = None \<and> w' = w) \<or>
    (\<exists>t. get_run (w_runs w) (ec_run c) = Some t \<and> safe_record_id (tr_id t) \<and>
       t' = Some (t\<lparr>tr_outputs := outcome_outputs c (tr_outputs t)\<rparr>) \<and>
       w' = w\<lparr>w_runs := snd (save_run (the t') (w_runs w))\<rparr>)"
  using assms unfolding write_case_outcome_to_trace_def
  by (auto simp: act_bind_Inr in_runs_Inr Let_def save_run_run split: option.splits if_splits)

lemma emit_frame:
  assumes "emit_outcome_if_possible R L c outcome t opts w = (out, w')"
  shows "w_runs w' = w_runs w \<and> w_sent w' = w_sent w"
  using assms unfolding emit_outcome_if_possible_def resolve_problem_for_outcome_def Let_def
  by (auto simp: act_bind_run in_store_def in_life_def act_zoom_run split: option.splits prod.splits sum.splits if_splits)

text \<open>
  A resolved case and its run tell the same story. Resolving a case stores it as resolved with
  its outcome and leaves every other case alone; its source run, if there is one, keeps everything
  but its outputs, which then hold exactly one entry of this case's outcome, however often the case
  is resolved, and one improvement signal more than before (a second resolution duplicates the
  signal's identifier).
\<close>

theorem resolve_case_spec:
  assumes "storage_wf (w_runs w)" and "resolve_case_with_lifecycle R L caseId outcome opts w = (Inr r, w')"
  shows "\<exists>c. get_escalation_case (w_runs w) caseId = Some c \<and>
    cres_case r = c\<lparr>ec_status := CaseResolved, ec_outcome := Some outcome\<rparr> \<and>
    get_escalation_case (w_runs w') caseId = Some (cres_case r) \<and>
    (\<forall>k. k \<noteq> caseId \<longrightarrow> get_escalation_case (w_runs w') k = get_escalation_case (w_runs w) k) \<and>
    (case get_run (w_runs w) (ec_run c) of
       None \<Rightarrow> rs_traces (w_runs w') = rs_traces (w_runs w)
     | Some t \<Rightarrow> \<exists>outs. get_run (w_runs w') (ec_run c) = Some (t\<lparr>tr_outputs := outs\<rparr>) \<and>
         length (filter (\<lambda>(i, _). i = case_outcome_id c) outs) = 1 \<and>
         length (filter (\<lambda>(i, _). i = case_improvement_id c) outs) =
           length (filter (\<lambda>(i, _). i = case_improvement_id c) (tr_outputs t)) + 1)"
proof -
  from assms(2) obtain c1 w1 t w2 where tr: "transition_case_status caseId CaseResolved (Some outcome) w = (Inr c1, w1)"
    and wr: "write_case_outcome_to_trace c1 w1 = (Inr t, w2)" and r: "cres_case r = c1"
    and em: "\<exists>x. emit_outcome_if_possible R L c1 outcome t opts w2 = (x, w')"
    unfolding resolve_case_with_lifecycle_def Let_def by (auto simp: act_bind_Inr)
  from tr obtain c where c: "get_escalation_case (w_runs w) caseId = Some c" "safe_record_id (ec_id c)"
    and c1: "c1 = c\<lparr>ec_status := CaseResolved, ec_outcome := Some outcome\<rparr>"
    and w1: "w1 = w\<lparr>w_runs := snd (save_escalation_case c1 (w_runs w))\<rparr>"
    by (rule transition_Inr) simp
  from get_case_id [OF assms(1) c(1)] have id: "ec_id c = caseId" by simp
  have cases1: "get_escalation_case (w_runs w1) k = (if k = caseId then Some c1 else get_escalation_case (w_runs w) k)" for k
    using c(2) id by (simp add: w1 c1 get_escalation_case_def save_escalation_case_run)
  have runs1: "rs_traces (w_runs w1) = rs_traces (w_runs w)" using c(2) by (simp add: w1 c1 save_escalation_case_run)
  then have get1: "get_run (w_runs w1) k = get_run (w_runs w) k" for k by (simp add: get_run_def)
  from em have w': "w_runs w' = w_runs w2" by (auto dest: emit_frame)
  have cases2: "get_escalation_case (w_runs w2) k = get_escalation_case (w_runs w1) k" for k
    using write_outcome_Inr [OF wr] by (auto simp: get_escalation_case_def save_run_run)
  have ids: "case_outcome_id c1 = case_outcome_id c" "case_improvement_id c1 = case_improvement_id c" "ec_run c1 = ec_run c"
    by (simp_all add: c1 case_outcome_id_def case_improvement_id_def)
  have neq: "case_improvement_id c \<noteq> case_outcome_id c" by (simp add: case_improvement_id_def case_outcome_id_def)
  have one: "length (filter (\<lambda>(i, _). i = case_outcome_id c) (outcome_outputs c1 os)) = 1" for os
    using neq by (simp add: outcome_outputs_def ids filter_filter case_prod_unfold conj_commute)
  have two: "length (filter (\<lambda>(i, _). i = case_improvement_id c) (outcome_outputs c1 os)) =
      length (filter (\<lambda>(i, _). i = case_improvement_id c) os) + 1" for os
  proof -
    have "filter (\<lambda>x. fst x = case_improvement_id c \<and> fst x \<noteq> case_outcome_id c) os =
        filter (\<lambda>x. fst x = case_improvement_id c) os"
      using neq by (intro filter_cong) auto
    with neq show ?thesis by (simp add: outcome_outputs_def ids case_prod_unfold conj_commute)
  qed
  have "case get_run (w_runs w) (ec_run c) of
       None \<Rightarrow> rs_traces (w_runs w') = rs_traces (w_runs w)
     | Some t \<Rightarrow> \<exists>outs. get_run (w_runs w') (ec_run c) = Some (t\<lparr>tr_outputs := outs\<rparr>) \<and>
         length (filter (\<lambda>(i, _). i = case_outcome_id c) outs) = 1 \<and>
         length (filter (\<lambda>(i, _). i = case_improvement_id c) outs) =
           length (filter (\<lambda>(i, _). i = case_improvement_id c) (tr_outputs t)) + 1"
  proof (cases "get_run (w_runs w) (ec_run c)")
    case None
    with write_outcome_Inr [OF wr] runs1 w' show ?thesis by (auto simp: ids get1)
  next
    case (Some t0)
    with write_outcome_Inr [OF wr] have
      w2: "w2 = w1\<lparr>w_runs := snd (save_run (t0\<lparr>tr_outputs := outcome_outputs c1 (tr_outputs t0)\<rparr>) (w_runs w1))\<rparr>"
      and safe: "safe_record_id (tr_id t0)" by (auto simp: ids get1)
    from get_run_id [OF assms(1) Some] have "tr_id t0 = ec_run c" by simp
    with w2 safe w' have "get_run (w_runs w') (ec_run c) = Some (t0\<lparr>tr_outputs := outcome_outputs c1 (tr_outputs t0)\<rparr>)"
      by (auto simp: get_run_def save_run_run)
    with one two show ?thesis by (auto simp: Some)
  qed
  with c(1) c1 r cases1 cases2 w' show ?thesis by auto
qed

end
