(* ===== verification/HermesExecution.thy ===== *)
theory HermesExecution imports World begin

text \<open>
  Ingesting the execution events of Hermes agents (runtime/hermes-execution-service.ts): the binding
  of an event to its job, the projection of the event into the run's trace, and the projection into
  the job, the route commit and the business problem. The reads before the first write are one
  state. A trace built from Hermes events carries no rendered prompt (\<open>cx_prompt\<close> is empty).
\<close>

datatype hermes_failure =
    HermesOpsError ops_error
  | HermesRoutingError store_error
  | HermesRunError run_failure
  | HJobNotFound str
  | HAgentNotFound str
  | HReceiptNotFound str
  | HBindingMismatch "str list"
  | HNotHermesJob str
  | HSequenceConflict str nat
  | HCommitNotFound str

definition binding_mismatches :: "hermes_event \<Rightarrow> route_job \<Rightarrow> str \<Rightarrow> str list" where
  "binding_mismatches e j workspace =
     concat (map (\<lambda>(k, actual, expected). if actual \<noteq> expected then [k] else [])
       [(''workspaceId'', he_workspace e, workspace), (''routeCommitId'', he_commit e, job_commit_id j),
        (''routeAttemptId'', he_attempt e, job_attempt_id j), (''eventId'', he_event e, job_event_id j),
        (''problemId'', he_problem e, job_problem_id j), (''loopId'', he_loop e, job_loop_id j),
        (''loopSpecHash'', he_loop_spec_hash e, job_loop_spec_hash j), (''runId'', he_run e, job_run_id j),
        (''correlationId'', he_correlation e, job_correlation j)])"

definition validate_execution_binding :: "hermes_event \<Rightarrow> route_job \<Rightarrow> str \<Rightarrow> hermes_failure + unit" where
  "validate_execution_binding e j workspace =
     (let mismatches = binding_mismatches e j workspace
      in if mismatches \<noteq> [] then Inl (HBindingMismatch mismatches)
         else require (et_runtime (job_target j) = Hermes) (HNotHermesJob (job_id j)))"

subsection \<open>The trace\<close>

definition trace_status_for :: "hermes_event \<Rightarrow> run_status \<Rightarrow> run_status" where
  "trace_status_for e current =
     (if he_type e = ApprovalRequested then WAITING_FOR_REVIEW
      else if he_type e = ApprovalResolved \<and> map_option ea_status (he_approval e) = Some AppRejected then REJECTED
      else if he_type e = RunCompleted then COMPLETED
      else if he_type e = RunFailedEvent then FAILED_VERIFICATION
      else if he_type e \<in> {RunStarted, TaskStarted, TaskCompletedEvent, ToolStarted, ToolCompleted, OutputCreated,
                           OutcomeObserved} then COMMITTED
      else current)"

definition upsert_by :: "('a \<Rightarrow> 'k) \<Rightarrow> 'a list \<Rightarrow> 'a \<Rightarrow> 'a list" where
  "upsert_by key xs x = filter (\<lambda>y. key y \<noteq> key x) xs @ [x]"

definition upsert_task :: "hermes_event \<Rightarrow> event_task \<Rightarrow> task_run list \<Rightarrow> task_run list" where
  "upsert_task e t tasks =
     (let existing = find (\<lambda>k. tk_id k = et_id t) tasks
      in upsert_by tk_id tasks
        \<lparr>tk_id = et_id t, tk_label = et_label t, tk_owner = nonempty (et_owner t),
         tk_status = (case he_type e of TaskStarted \<Rightarrow> TaskRunning | TaskCompletedEvent \<Rightarrow> TaskCompleted
            | TaskFailedEvent \<Rightarrow> TaskFailed | _ \<Rightarrow> opt_or (map_option tk_status existing) TaskPending),
         tk_summary = nonempty (et_summary t),
         tk_started_at = (if he_type e = TaskStarted then Some (he_occurred_at e)
                          else Option.bind existing tk_started_at),
         tk_completed_at = (if he_type e \<in> {TaskCompletedEvent, TaskFailedEvent} then Some (he_occurred_at e) else None),
         tk_error = map_option (\<lambda>x. (ee_code x, ee_message x)) (he_error e)\<rparr>)"

definition upsert_tool_call :: "hermes_event \<Rightarrow> event_tool \<Rightarrow> tool_call list \<Rightarrow> tool_call list" where
  "upsert_tool_call e t calls =
     (let existing = find (\<lambda>c. tc_id c = eo_call t) calls;
          status = (case he_type e of ToolCompleted \<Rightarrow> CallCompleted | ToolFailed \<Rightarrow> CallFailed | _ \<Rightarrow> CallPending)
      in upsert_by tc_id calls
        \<lparr>tc_id = eo_call t, tc_tool = eo_tool t,
         tc_input = (if truthy_str (eo_input_ref t) then [(''ref'', JStr (the (eo_input_ref t)))] else []),
         tc_output = (if truthy_str (eo_output_ref t) then Some (JObj [(''ref'', JStr (the (eo_output_ref t)))])
                      else Option.bind existing tc_output),
         tc_status = status, tc_started_at = opt_or (map_option tc_started_at existing) (he_occurred_at e),
         tc_completed_at = (if status \<noteq> CallPending then Some (he_occurred_at e) else None)\<rparr>)"

definition role_for_approval :: "str option \<Rightarrow> review_role" where
  "role_for_approval role =
     opt_or (find (\<lambda>r. Some (review_role_text r) = role)
       [Approver, Reviewer, Owner, Teacher, Executor, AccountabilityHolder]) Approver"

definition upsert_approval :: "hermes_event \<Rightarrow> event_approval \<Rightarrow> human_review list \<Rightarrow> human_review list" where
  "upsert_approval e a reviews =
     (let existing = find (\<lambda>r. hr_id r = ea_id a) reviews
      in upsert_by hr_id reviews
        \<lparr>hr_id = ea_id a, hr_run = he_run e,
         hr_status = (case ea_status a of AppRequested \<Rightarrow> RvOpen | AppApproved \<Rightarrow> RvApproved
            | AppRejected \<Rightarrow> RvRejected | AppExpired \<Rightarrow> RvExpired),
         hr_reviewer = nonempty (ea_by a), hr_role = role_for_approval (ea_role a), hr_approved = [], hr_rejected = [],
         hr_comment = nonempty (ea_reason a), hr_feedback = None, hr_minutes = no_minutes, hr_reassigned_to = None,
         hr_created_at = opt_or (map_option hr_created_at existing) (he_occurred_at e),
         hr_decided_at = (if ea_status a \<noteq> AppRequested then Some (he_occurred_at e) else None)\<rparr>)"

definition upsert_error :: "run_error list \<Rightarrow> run_error \<Rightarrow> run_error list" where
  "upsert_error errors x =
     (if list_ex (\<lambda>y. rne_code y = rne_code x \<and> rne_at y = rne_at x) errors then errors else errors @ [x])"

definition hermes_context :: "runtime \<Rightarrow> hermes_event \<Rightarrow> route_job \<Rightarrow> event \<Rightarrow> context_snapshot" where
  "hermes_context R e j source =
     \<lparr>cx_id = ''ctx_'' @ hash_obj R [(''runId'', jstr (job_run_id j)), (''eventId'', jstr (ev_id source))],
      cx_loop = job_loop_id j, cx_version = ''bound-by-hash'', cx_created_at = he_recorded_at e,
      cx_hash = hash_obj R [(''eventId'', jstr (ev_id source)), (''loopSpecHash'', jstr (job_loop_spec_hash j))],
      cx_token_estimate = 0,
      cx_entries = [\<lparr>ce_source = ev_id source, ce_type = SrcEvent, ce_title = ev_source source @ '': '' @ ev_type source,
        ce_value = JObj [(''eventRef'', JStr (ev_id source))], ce_retrieved_at = he_recorded_at e,
        ce_freshness = Realtime, ce_sensitivity = Internal, ce_trusted = True, ce_redacted = True,
        ce_hash = content_hash R (jstr (ev_id source)), ce_precedence = 0\<rparr>],
      cx_prompt = []\<rparr>"

definition create_hermes_trace :: "runtime \<Rightarrow> hermes_event \<Rightarrow> route_job \<Rightarrow> event \<Rightarrow> run_trace" where
  "create_hermes_trace R e j source =
     \<lparr>tr_id = job_run_id j, tr_loop = job_loop_id j, tr_version = ''bound-by-hash'',
      tr_hash = job_loop_spec_hash j, tr_mode = ModeExecute, tr_status = COMMITTED, tr_event = ev_id source,
      tr_idempotency = job_idempotency_key j, tr_context = hermes_context R e j source, tr_inputs = [],
      tr_output = None, tr_proposed = [], tr_prepared = [], tr_calls = [], tr_decisions = [],
      tr_verifications = [], tr_cases = [], tr_reviews = [], tr_outputs = [], tr_tasks = Some [], tr_metrics = [],
      tr_errors = [],
      tr_provenance = Some \<lparr>prov_invocation = \<lparr>inv_actor = he_agent e, inv_source = Some ''hermes.execution'',
          inv_user = None, inv_session = None, inv_attempt = Some (he_attempt e), inv_commit = Some (he_commit e)\<rparr>,
        prov_approval = None, prov_gate_reasons = None\<rparr>,
      tr_started_at = he_occurred_at e, tr_completed_at = None\<rparr>"

definition project_parts :: "hermes_event \<Rightarrow> run_trace \<Rightarrow> run_trace" where
  "project_parts e t =
     t\<lparr>tr_status := trace_status_for e (tr_status t),
       tr_tasks := (case he_task e of None \<Rightarrow> tr_tasks t | Some k \<Rightarrow> Some (upsert_task e k (opt_or (tr_tasks t) []))),
       tr_calls := (case he_tool e of None \<Rightarrow> tr_calls t | Some k \<Rightarrow> upsert_tool_call e k (tr_calls t)),
       tr_reviews := (case he_approval e of None \<Rightarrow> tr_reviews t | Some a \<Rightarrow> upsert_approval e a (tr_reviews t)),
       tr_outputs := (case he_output e of None \<Rightarrow> tr_outputs t | Some x \<Rightarrow> upsert_by fst (tr_outputs t) (eu_id x, eu_type x)),
       tr_metrics := (case he_outcome e of None \<Rightarrow> tr_metrics t
          | Some x \<Rightarrow> upsert_by mu_name (tr_metrics t)
              \<lparr>mu_name = ec_metric x, mu_value = ec_value x, mu_unit = nonempty (ec_unit x), mu_observed = True\<rparr>),
       tr_errors := (case he_error e of None \<Rightarrow> tr_errors t
          | Some x \<Rightarrow> upsert_error (tr_errors t)
              \<lparr>rne_code = ee_code x, rne_message = ee_message x, rne_at = he_occurred_at e\<rparr>),
       tr_completed_at := (if he_type e \<in> {RunCompleted, RunFailedEvent} then Some (he_occurred_at e)
                           else tr_completed_at t)\<rparr>"

definition project_event_to_trace ::
  "runtime \<Rightarrow> hermes_event \<Rightarrow> route_job \<Rightarrow> event \<Rightarrow> run_trace option \<Rightarrow> run_trace" where
  "project_event_to_trace R e j source existing =
     project_parts e (opt_or existing (create_hermes_trace R e j source))"

subsection \<open>The job, the commit and the problem\<close>

definition update_problem :: "str \<Rightarrow> problem_status \<Rightarrow> instant \<Rightarrow> instant option \<Rightarrow> unit store_action" where
  "update_problem problemId status now resolvedAt =
     act_bind (act_read (\<lambda>st. get_business_problem st problemId)) (\<lambda>found.
     (case found of
        None \<Rightarrow> act_return ()
      | Some p \<Rightarrow> save_business_problem (p\<lparr>bp_status := status, bp_updated_at := now,
          bp_resolved_at := opt_first resolvedAt (bp_resolved_at p)\<rparr>)))"

definition project_step ::
  "hermes_event \<Rightarrow> route_job \<Rightarrow> route_commit \<Rightarrow> commit_status \<Rightarrow> problem_status \<Rightarrow> instant \<Rightarrow> instant option \<Rightarrow>
   route_job store_action \<Rightarrow> route_job store_action" where
  "project_step e j c commitStatus problemStatus now resolvedAt update =
     act_bind (save_route_commit (c\<lparr>rcm_status := commitStatus, rcm_run_id := Some (he_run e)\<rparr>)) (\<lambda>_.
     act_bind (update_problem (job_problem_id j) problemStatus now resolvedAt) (\<lambda>_. update))"

definition project_execution_state ::
  "hermes_event \<Rightarrow> route_job \<Rightarrow> route_commit \<Rightarrow> run_trace \<Rightarrow> instant \<Rightarrow> route_job store_action" where
  "project_execution_state e j c t now =
     (if he_type e = RunStarted then
        project_step e j c CRunning InProgress now None (mark_route_job_running (job_id j) None None now)
      else if he_type e = ApprovalRequested then
        project_step e j c CWaitingReview Waiting now None
          (mark_route_job_waiting_review (job_id j) None (Some (he_run e)) now)
      else if he_type e = ApprovalResolved \<and> map_option ea_status (he_approval e) = Some AppApproved then
        project_step e j c CRunning InProgress now None
          (update_route_job_status (job_id j) \<lparr>su_status = Running, su_clear_lease = False, su_token = None,
             su_result = None, su_run_id = Some (he_run e)\<rparr> now)
      else if he_type e = RunCompleted then
        project_step e j c CCompleted Resolved now (Some now)
          (mark_route_job_completed (job_id j) None
             (Some \<lparr>jr_trace_status = run_status_text (tr_status t), jr_completed_at = Some (he_occurred_at e),
                jr_delivery_ids = [], jr_metric_sample_ids = []\<rparr>) (Some (he_run e)) now)
      else if he_type e = RunFailedEvent then
        project_step e j c CFailed Waiting now None
          (fail_route_job (job_id j) None (map_option ee_code (he_error e))
             (opt_or (map_option ee_message (he_error e)) ''Hermes run failed'') now)
      else act_read (\<lambda>st. opt_or (get_route_job st (job_id j)) j))"

subsection \<open>Ingestion\<close>

record hermes_ingest =
  hi_event :: hermes_event
  hi_created :: bool
  hi_job :: route_job
  hi_trace :: run_trace

definition sequence_taken :: "hermes_ops \<Rightarrow> hermes_event \<Rightarrow> bool" where
  "sequence_taken s e =
     list_ex (\<lambda>x. he_sequence x = he_sequence e \<and> he_key x \<noteq> he_key e)
       (list_execution_events s (no_event_filters\<lparr>ef_run := Some (he_run e)\<rparr>))"

text \<open>Everything checked before the event is appended.\<close>

definition hermes_guards :: "hermes_event \<Rightarrow> world \<Rightarrow> hermes_failure + route_job \<times> event_receipt" where
  "hermes_guards e w =
     res_bind (require (hermes_event_ok e) (HermesOpsError OpsSchemaError)) (\<lambda>_.
     (case get_route_job (w_store w) (he_job e) of
        None \<Rightarrow> Inl (HJobNotFound (he_job e))
      | Some j \<Rightarrow>
     (case get_agent (w_ops w) (he_agent e) of
        None \<Rightarrow> Inl (HAgentNotFound (he_agent e))
      | Some a \<Rightarrow>
     (case get_event_receipt (w_store w) (he_event e) of
        None \<Rightarrow> Inl (HReceiptNotFound (he_event e))
      | Some r \<Rightarrow>
          res_bind (validate_execution_binding e j (ag_workspace a)) (\<lambda>_.
          res_bind (require (\<not> sequence_taken (w_ops w) e) (HSequenceConflict (he_run e) (he_sequence e))) (\<lambda>_.
            Inr (j, r)))))))"

definition ingest_hermes_event ::
  "runtime \<Rightarrow> instant option \<Rightarrow> hermes_event \<Rightarrow> (world, hermes_failure, hermes_ingest) action" where
  "ingest_hermes_event R now e =
     act_bind (act_read (\<lambda>w. (hermes_guards e w, list_route_commits (w_store w) None))) (\<lambda>(guards, commits).
     act_bind (act_lift guards) (\<lambda>(j, r).
     act_bind (in_ops HermesOpsError (append_execution_event R e)) (\<lambda>(stored, created).
     (case find (\<lambda>c. rcm_id c = job_commit_id j) commits of
        None \<Rightarrow> act_throw (HCommitNotFound (job_commit_id j))
      | Some c \<Rightarrow>
          act_bind (act_read (\<lambda>w. get_run (w_runs w) (job_run_id j))) (\<lambda>existing.
          (let t = project_event_to_trace R stored j (rcp_event r) existing
           in act_bind (in_runs HermesRunError (save_run t)) (\<lambda>_.
              act_bind (in_store HermesRoutingError
                  (project_execution_state stored j c t (opt_or now (he_recorded_at e)))) (\<lambda>projected.
              act_return \<lparr>hi_event = stored, hi_created = created, hi_job = projected, hi_trace = t\<rparr>))))))))"

subsection \<open>Only bound events are accepted\<close>

definition event_bound :: "hermes_event \<Rightarrow> route_job \<Rightarrow> hermes_agent \<Rightarrow> bool" where
  "event_bound e j a \<longleftrightarrow> he_workspace e = ag_workspace a \<and> he_commit e = job_commit_id j \<and>
     he_attempt e = job_attempt_id j \<and> he_event e = job_event_id j \<and> he_problem e = job_problem_id j \<and>
     he_loop e = job_loop_id j \<and> he_loop_spec_hash e = job_loop_spec_hash j \<and> he_run e = job_run_id j \<and>
     he_correlation e = job_correlation j"

lemma binding_ok:
  "validate_execution_binding e j (ag_workspace a) = Inr () \<longleftrightarrow> event_bound e j a \<and> et_runtime (job_target j) = Hermes"
proof -
  have "binding_mismatches e j (ag_workspace a) = [] \<longleftrightarrow> event_bound e j a"
    by (simp add: binding_mismatches_def event_bound_def)
  then show ?thesis by (simp add: validate_execution_binding_def Let_def)
qed

lemma sequence_taken_iff:
  assumes "he_run e \<noteq> []"
  shows "sequence_taken s e \<longleftrightarrow> (\<exists>x\<in>set (coll_values (ho_events s)). hermes_event_ok x \<and> he_run x = he_run e \<and>
     he_sequence x = he_sequence e \<and> he_key x \<noteq> he_key e)"
  using assms
  by (auto simp: sequence_taken_def list_execution_events_def event_selected_def text_filter_def no_event_filters_def
      list_ex_iff Let_def)

lemma hermes_guards_Inr:
  "hermes_guards e w = Inr (j, r) \<longleftrightarrow>
     hermes_event_ok e \<and> get_route_job (w_store w) (he_job e) = Some j \<and>
     get_event_receipt (w_store w) (he_event e) = Some r \<and>
     (\<exists>a. get_agent (w_ops w) (he_agent e) = Some a \<and> event_bound e j a) \<and>
     et_runtime (job_target j) = Hermes \<and> \<not> sequence_taken (w_ops w) e"
  unfolding hermes_guards_def
  by (auto simp: res_bind_Inr_iff binding_ok split: option.splits)

lemma ingest_hermes_Inr:
  assumes "ingest_hermes_event R now e w = (Inr x, w')"
  obtains j r c ops runs st where
    "hermes_guards e w = Inr (j, r)"
    "append_execution_event R e (w_ops w) = (Inr (hi_event x, hi_created x), ops)"
    "find (\<lambda>c. rcm_id c = job_commit_id j) (list_route_commits (w_store w) None) = Some c"
    "hi_trace x = project_event_to_trace R (hi_event x) j (rcp_event r) (get_run (w_runs w) (job_run_id j))"
    "save_run (hi_trace x) (w_runs w) = (Inr (), runs)"
    "project_execution_state (hi_event x) j c (hi_trace x) (opt_or now (he_recorded_at e)) (w_store w) = (Inr (hi_job x), st)"
    "w' = w\<lparr>w_ops := ops, w_runs := runs, w_store := st\<rparr>"
  using assms unfolding ingest_hermes_event_def Let_def
  by (auto simp: act_bind_Inr in_ops_Inr in_runs_Inr in_store_Inr split: option.splits)

text \<open>
  C34: an execution event acts only on the job it was assigned to. An event is accepted only when its
  job is stored and assigned to Hermes, its agent is registered in the event's workspace, its nine
  binding fields equal the job's, and no other event of the run holds its sequence number; an event
  that fails any of these leaves everything unchanged.
\<close>

theorem hermes_event_is_bound:
  assumes "ingest_hermes_event R now e w = (out, w')"
  shows "(\<forall>x. out = Inr x \<longrightarrow> (\<exists>j a. get_route_job (w_store w) (he_job e) = Some j \<and>
      et_runtime (job_target j) = Hermes \<and> get_agent (w_ops w) (he_agent e) = Some a \<and> event_bound e j a \<and>
      \<not> (\<exists>y\<in>set (coll_values (ho_events (w_ops w))). hermes_event_ok y \<and> he_run y = he_run e \<and>
           he_sequence y = he_sequence e \<and> he_key y \<noteq> he_key e))) \<and>
    ((\<forall>j r. hermes_guards e w \<noteq> Inr (j, r)) \<longrightarrow> (\<exists>f. out = Inl f) \<and> w' = w)"
proof -
  have run: "he_run e \<noteq> []" if "hermes_event_ok e" using that by (simp add: hermes_event_ok_def len_ok_def)
  have "\<exists>j a. get_route_job (w_store w) (he_job e) = Some j \<and>
      et_runtime (job_target j) = Hermes \<and> get_agent (w_ops w) (he_agent e) = Some a \<and> event_bound e j a \<and>
      \<not> (\<exists>y\<in>set (coll_values (ho_events (w_ops w))). hermes_event_ok y \<and> he_run y = he_run e \<and>
           he_sequence y = he_sequence e \<and> he_key y \<noteq> he_key e)" if "out = Inr x" for x
  proof -
    from assms that have "ingest_hermes_event R now e w = (Inr x, w')" by simp
    then obtain j r where "hermes_guards e w = Inr (j, r)" by (rule ingest_hermes_Inr)
    with run show ?thesis unfolding hermes_guards_Inr by (auto simp: sequence_taken_iff)
  qed
  moreover have "(\<exists>f. out = Inl f) \<and> w' = w" if "\<forall>j r. hermes_guards e w \<noteq> Inr (j, r)"
  proof (cases "hermes_guards e w")
    case (Inl f)
    with assms show ?thesis by (auto simp: ingest_hermes_event_def act_bind_run)
  next
    case (Inr y)
    with that show ?thesis by (cases y) auto
  qed
  ultimately show ?thesis by blast
qed

subsection \<open>What an accepted event does\<close>

text \<open>The commit status and the job statuses of the events that move the job.\<close>

definition hermes_effect :: "hermes_event \<Rightarrow> (commit_status \<times> job_status set) option" where
  "hermes_effect e =
     (case he_type e of
        RunStarted \<Rightarrow> Some (CRunning, {Running})
      | ApprovalRequested \<Rightarrow> Some (CWaitingReview, {WaitingReview})
      | ApprovalResolved \<Rightarrow> if map_option ea_status (he_approval e) = Some AppApproved
                           then Some (CRunning, {Running}) else None
      | RunCompleted \<Rightarrow> Some (CCompleted, {Completed})
      | RunFailedEvent \<Rightarrow> Some (CFailed, {Failed, DeadLetter})
      | _ \<Rightarrow> None)"

lemma project_step_Inr:
  assumes "project_step e j c cs ps now res update st = (Inr u, st')"
  obtains st2 where "commit_ok (c\<lparr>rcm_status := cs, rcm_run_id := Some (he_run e)\<rparr>)"
    "st_jobs st2 = st_jobs st" "st_events st2 = st_events st"
    "st_commits st2 = st_commits (snd (save_route_commit (c\<lparr>rcm_status := cs, rcm_run_id := Some (he_run e)\<rparr>) st))"
    "store_wf st \<longrightarrow> store_wf st2" "update st2 = (Inr u, st')"
proof -
  let ?c = "c\<lparr>rcm_status := cs, rcm_run_id := Some (he_run e)\<rparr>"
  from assms obtain st1 st2 where ok: "commit_ok ?c" and st1: "st1 = snd (save_route_commit ?c st)"
    and up: "update_problem (job_problem_id j) ps now res st1 = (Inr (), st2)" and u: "update st2 = (Inr u, st')"
    unfolding project_step_def by (auto simp: act_bind_Inr save_runs split: if_splits)
  from up have "st2 = st1 \<or> (\<exists>p. save_business_problem p st1 = (Inr (), st2))"
    by (auto simp: update_problem_def split: option.splits)
  then have st2: "st2 = st1 \<or> (\<exists>p. st2 = snd (save_business_problem p st1))" by (metis snd_conv)
  have "store_wf st2" if "store_wf st"
    using st2 commits.save_inv [OF that, of ?c] problems.save_inv by (auto simp: st1)
  then show thesis
    by (intro that [OF ok _ _ _ _ u]) (use st2 in \<open>auto simp: st1 save_commit_frame save_problem_frame\<close>)
qed

lemma project_state_cases:
  assumes "project_execution_state e j c t now st = (Inr u, st')"
  obtains (none) "hermes_effect e = None" "st' = st" "u = opt_or (get_route_job st (job_id j)) j"
  | (moved) cs js ps res f where "hermes_effect e = Some (cs, js)"
      "project_step e j c cs ps now res (mutate_route_job (job_id j) None f) st = (Inr u, st')" "id_kept f"
      "\<And>y v. f y = Inr v \<Longrightarrow> job_status v \<in> js"
proof -
  note upd = update_route_job_status_def mark_route_job_running_def mark_route_job_waiting_review_def
    mark_route_job_completed_def fail_route_job_def
  have st: "job_status v = su_status s" if "res_bind (require (job_ok (apply_status s now y)) SchemaError)
      (\<lambda>_. Inr (apply_status s now y)) = Inr v" for s y v
    using that by (auto simp: res_bind_Inr_iff apply_status_def)
  have fl: "job_status v \<in> {Failed, DeadLetter}" if "res_bind (require (job_ok (failed_job a m now y)) SchemaError)
      (\<lambda>_. Inr (failed_job a m now y)) = Inr v" for a m y v
    using that by (auto simp: res_bind_Inr_iff failed_job_def Let_def split: if_splits)
  show thesis
  proof (cases "hermes_effect e")
    case None
    then have "st' = st" "u = opt_or (get_route_job st (job_id j)) j"
      using assms by (auto simp: project_execution_state_def hermes_effect_def split: hermes_event_type.splits if_splits)
    with None none show thesis by blast
  next
    case (Some p)
    then obtain cs js where eff: "hermes_effect e = Some (cs, js)" by (cases p) simp
    let ?upd = "\<lambda>u y. res_bind (require (job_ok (apply_status u now y)) SchemaError) (\<lambda>_. Inr (apply_status u now y))"
    have mv: thesis
      if "project_step e j c cs ps now res (mutate_route_job (job_id j) None (?upd s)) st = (Inr u, st')" "su_status s \<in> js"
      for s ps res
      using that by (intro moved [OF eff that(1)] id_kept_updates) (auto dest!: st)
    have mvf: thesis
      if "project_step e j c cs ps now res (fail_route_job (job_id j) None a m now) st = (Inr u, st')" "{Failed, DeadLetter} \<subseteq> js"
      for a m ps res
      using that(2) by (intro moved [OF eff that(1) [unfolded upd]] id_kept_updates) (auto dest!: fl)
    show thesis
      using assms eff unfolding project_execution_state_def hermes_effect_def
      by (auto simp: upd split: hermes_event_type.splits if_splits intro: mv mvf [unfolded upd])
  qed
qed

lemma projected_fields [simp]:
  "tr_id (project_event_to_trace R e j source existing) = tr_id (opt_or existing (create_hermes_trace R e j source))"
  "tr_status (project_event_to_trace R e j source existing) =
     trace_status_for e (tr_status (opt_or existing (create_hermes_trace R e j source)))"
  by (simp_all add: project_event_to_trace_def project_parts_def)

lemma created_fields [simp]:
  "tr_id (create_hermes_trace R e j source) = job_run_id j" "tr_status (create_hermes_trace R e j source) = COMMITTED"
  by (simp_all add: create_hermes_trace_def)

text \<open>
  An accepted event moves its job, its run and its commit together. The run's stored trace takes
  the status of the event; a start, an approval request, a granted approval, a completion and a
  failure set the job and the route commit to the matching statuses, every other event leaves the
  routing store alone; no other job is touched.
\<close>

theorem hermes_event_moves_job:
  assumes wf: "store_wf (w_store w)" "storage_wf (w_runs w)" and run: "ingest_hermes_event R now e w = (Inr x, w')"
  shows "\<exists>j. get_route_job (w_store w) (he_job e) = Some j \<and>
    get_run (w_runs w') (job_run_id j) = Some (hi_trace x) \<and>
    tr_status (hi_trace x) = trace_status_for (hi_event x)
      (case get_run (w_runs w) (job_run_id j) of None \<Rightarrow> COMMITTED | Some t \<Rightarrow> tr_status t) \<and>
    get_route_job (w_store w') (he_job e) = Some (hi_job x) \<and>
    (\<forall>k. k \<noteq> he_job e \<longrightarrow> get_route_job (w_store w') k = get_route_job (w_store w) k) \<and>
    (case hermes_effect (hi_event x) of
       None \<Rightarrow> w_store w' = w_store w
     | Some (cs, js) \<Rightarrow> job_status (hi_job x) \<in> js \<and>
         (\<exists>c\<in>set (list_route_commits (w_store w') None). rcm_id c = job_commit_id j \<and> rcm_status c = cs))"
  using run
proof (cases rule: ingest_hermes_Inr)
  case (1 j r c ops runs st)
  from 1(1) have j: "get_route_job (w_store w) (he_job e) = Some j" by (simp add: hermes_guards_Inr)
  from jobs.get_ok [OF wf(1) j] have jid: "job_id j = he_job e" by simp
  have tid: "tr_id (hi_trace x) = job_run_id j"
    using get_run_id [OF wf(2), of "job_run_id j"] 1(4) by (cases "get_run (w_runs w) (job_run_id j)") auto
  have got: "get_run runs (job_run_id j) = Some (hi_trace x)"
    using 1(5) tid by (auto simp: save_run_run get_run_def split: if_splits)
  have status: "tr_status (hi_trace x) = trace_status_for (hi_event x)
      (case get_run (w_runs w) (job_run_id j) of None \<Rightarrow> COMMITTED | Some t \<Rightarrow> tr_status t)"
    using 1(4) by (cases "get_run (w_runs w) (job_run_id j)") simp_all
  from 1(6) have key: "get_route_job st (he_job e) = Some (hi_job x) \<and>
      (\<forall>k. k \<noteq> he_job e \<longrightarrow> get_route_job st k = get_route_job (w_store w) k) \<and>
      (case hermes_effect (hi_event x) of None \<Rightarrow> st = w_store w
       | Some (cs, js) \<Rightarrow> job_status (hi_job x) \<in> js \<and>
           (\<exists>c\<in>set (list_route_commits st None). rcm_id c = job_commit_id j \<and> rcm_status c = cs))"
  proof (cases rule: project_state_cases)
    case none
    with j jid show ?thesis by simp
  next
    case (moved cs js ps res f)
    let ?c = "c\<lparr>rcm_status := cs, rcm_run_id := Some (he_run (hi_event x))\<rparr>"
    from moved(2) obtain st2 where ok: "commit_ok ?c" and st2: "st_jobs st2 = st_jobs (w_store w)" "store_wf st2"
      "st_commits st2 = st_commits (snd (save_route_commit ?c (w_store w)))"
      and mut: "mutate_route_job (job_id j) None f st2 = (Inr (hi_job x), st)"
      by (rule project_step_Inr) (use wf in simp)
    from mut obtain y where y: "get_route_job st2 (job_id j) = Some y" "f y = Inr (hi_job x)" "job_ok (hi_job x)"
      "st = job_put (hi_job x) st2" by (rule mutate_Inr)
    have id: "job_id (hi_job x) = he_job e"
      using moved(3) y(1,2) jobs.get_ok [OF st2(2) y(1)] jid by (auto simp: id_kept_def)
    have c: "rcm_id c = job_commit_id j" using find_hit [OF 1(3)] by simp
    have "?c \<in> set (list_route_commits st None)"
      using commits.saved_listed [OF wf(1) ok] st2(3) list_commits_frame [of st] y(4) list_commits_frame [of st2]
      by (simp add: list_route_commits_def)
    with c have "\<exists>c\<in>set (list_route_commits st None). rcm_id c = job_commit_id j \<and> rcm_status c = cs"
      by (intro bexI [of _ ?c]) auto
    moreover have "job_status (hi_job x) \<in> js" using moved(4) y(2) by blast
    moreover have "get_route_job st k = (if k = he_job e then Some (hi_job x) else get_route_job (w_store w) k)" for k
      using get_job_put [OF st2(2) y(3)] id get_job_frame [OF st2(1)] by (simp add: y(4))
    ultimately show ?thesis by (simp add: moved(1))
  qed
  have w': "w_store w' = st" "w_runs w' = runs" using 1(7) by simp_all
  show ?thesis
    unfolding w'
    by (intro exI [of _ j] conjI j got status key [THEN conjunct1] key [THEN conjunct2, THEN conjunct1]
        key [THEN conjunct2, THEN conjunct2])
qed

lemma update_problem_ok: "store_wf st \<Longrightarrow> fst (update_problem k ps now res st) = Inr ()"
proof (cases "get_business_problem st k")
  case (Some p)
  assume "store_wf st"
  from problems.get_ok [OF this Some] have "problem_ok p" by simp
  with Some show ?thesis by (simp add: update_problem_def save_runs problem_ok_def)
qed (simp add: update_problem_def)

text \<open>
  A repeated start event reopens finished work. An event that is already in the log is projected
  again: delivering the stored \<open>run.started\<close> once more, after the run ended in whatever way, sets the
  run back to \<open>COMMITTED\<close> and the job, the route commit and the problem to running, and the job is due
  again as soon as it has no lease and attempts left.
\<close>

theorem repeated_start_reopens_job:
  assumes wf: "store_wf (w_store w)" "storage_wf (w_runs w)"
    and logged: "coll_get (ho_events (w_ops w)) (event_file R (he_key e)) = Some e" and start: "he_type e = RunStarted"
    and bound: "hermes_guards e w = Inr (j, r)"
    and commit: "find (\<lambda>c. rcm_id c = job_commit_id j) (list_route_commits (w_store w) None) = Some c"
    and safe: "safe_record_id (job_run_id j)"
  shows "\<exists>x w'. ingest_hermes_event R now e w = (Inr x, w') \<and> \<not> hi_created x \<and>
    get_route_job (w_store w') (he_job e) = Some (hi_job x) \<and> job_status (hi_job x) = Running \<and>
    tr_status (hi_trace x) = COMMITTED \<and>
    (job_lease j = None \<and> job_attempts j < job_max_attempts j \<and> job_next_run_at j \<le> t \<longrightarrow> due_job t (hi_job x))"
proof -
  from bound have ok: "hermes_event_ok e" and j: "get_route_job (w_store w) (he_job e) = Some j"
    by (simp_all add: hermes_guards_Inr)
  from jobs.get_ok [OF wf(1) j] have jok: "job_ok j" "job_id j = he_job e" by auto
  have app: "append_execution_event R e (w_ops w) = (Inr (e, False), w_ops w)"
    using append_known_run [OF ok logged] ok by simp
  let ?old = "get_run (w_runs w) (job_run_id j)"
  let ?t = "project_event_to_trace R e j (rcp_event r) ?old"
  let ?now = "opt_or now (he_recorded_at e)"
  have tid: "tr_id ?t = job_run_id j" using get_run_id [OF wf(2), of "job_run_id j"] by (cases ?old) auto
  then obtain runs where runs: "save_run ?t (w_runs w) = (Inr (), runs)" using safe by (auto simp: save_run_run)
  let ?c = "c\<lparr>rcm_status := CRunning, rcm_run_id := Some (he_run e)\<rparr>"
  have "commit_ok c" using find_hit [OF commit] commits.all_ok [OF wf(1)] by simp
  then have cok: "commit_ok ?c" by (simp add: commit_ok_def)
  define st1 where "st1 = snd (save_route_commit ?c (w_store w))"
  have sc: "save_route_commit ?c (w_store w) = (Inr (), st1)" using cok by (simp add: st1_def save_runs)
  have wf1: "store_wf st1" unfolding st1_def by (rule commits.save_inv [OF wf(1)])
  define st2 where "st2 = snd (update_problem (job_problem_id j) InProgress ?now None st1)"
  have up: "update_problem (job_problem_id j) InProgress ?now None st1 = (Inr (), st2)"
    using update_problem_ok [OF wf1] by (simp add: st2_def prod_eq_iff)
  have st2: "st_jobs st2 = st_jobs (w_store w)" "store_wf st2"
    using problems.save_inv [OF wf1] wf1
    by (auto simp: st2_def update_problem_def st1_def save_commit_frame save_problem_frame split: option.splits)
  let ?u = "\<lparr>su_status = Running, su_clear_lease = False, su_token = None, su_result = None, su_run_id = None\<rparr>"
  let ?j = "apply_status ?u ?now j"
  have jok': "job_ok ?j" using jok by (simp add: job_ok_def apply_status_def)
  have mark: "mark_route_job_running (job_id j) None None ?now st2 = (Inr ?j, job_put ?j st2)"
    using j jok jok' get_job_frame [OF st2(1)]
    by (simp add: mark_route_job_running_def update_route_job_status_def mutate_run job_put_def save_runs require_def)
  have proj: "project_execution_state e j c ?t ?now (w_store w) = (Inr ?j, job_put ?j st2)"
    using start by (simp add: project_execution_state_def project_step_def act_bind_run sc up mark)
  let ?x = "\<lparr>hi_event = e, hi_created = False, hi_job = ?j, hi_trace = ?t\<rparr>"
  have ing: "ingest_hermes_event R now e w =
      (Inr ?x, w\<lparr>w_ops := w_ops w, w_runs := runs, w_store := job_put ?j st2\<rparr>)"
    by (simp add: ingest_hermes_event_def act_bind_run bound in_ops_def in_runs_def in_store_def act_zoom_run app commit
        runs proj Let_def)
  have "get_route_job (job_put ?j st2) (he_job e) = Some ?j"
    using get_job_put [OF st2(2) jok'] jok by (simp add: apply_status_def)
  moreover have "tr_status ?t = COMMITTED" using start by (simp add: trace_status_for_def)
  moreover have "job_status ?j = Running" by (simp add: apply_status_def)
  moreover have "job_lease j = None \<and> job_attempts j < job_max_attempts j \<and> job_next_run_at j \<le> t \<longrightarrow> due_job t ?j"
    by (simp add: apply_status_def due_job_def lease_free_def)
  ultimately show ?thesis using ing by (intro exI [of _ ?x] exI conjI) auto
qed

end
