(* ===== verification/Samples.thy ===== *)
theory Samples imports Reviews Cases HermesExecution begin

text \<open>
  Concrete data for the witnesses: a stand-in for the platform whose digest is constant, the sample
  event of theory RoutingRules received and routed to the sample card, a small store and a small run.
\<close>

definition flat_runtime :: runtime where
  "flat_runtime = \<lparr>sha256_hex = (\<lambda>s. replicate 64 CHR ''a''), number_text = (\<lambda>q. ''0''),
     locale_compare = cmp_of, parse_number = (\<lambda>s. None), regex_test_i = (\<lambda>p s. Some (p = s))\<rparr>"

definition flat_hash :: str where
  "flat_hash = ''aaaaaaaaaaaaaaaa''"

lemma flat_hash_not_Nil [simp]: "flat_hash \<noteq> []"
  by (simp add: flat_hash_def)

lemma content_hash_flat [simp]: "content_hash flat_runtime v = flat_hash"
  by (simp add: content_hash_def content_digest_def flat_runtime_def flat_hash_def numeral_eq_Suc)

lemma hash_obj_flat [simp]: "hash_obj flat_runtime v = flat_hash"
  by (simp add: hash_obj_def)

lemma hash_weak_cong [cong]:
  "R = R' \<Longrightarrow> content_hash R v = content_hash R' v" "R = R' \<Longrightarrow> hash_obj R w = hash_obj R' w"
  by simp_all

lemma digest_flat: "digest_runtime flat_runtime"
  by (simp add: digest_runtime_def hex_digest_text_def flat_runtime_def list_all_iff)

subsection \<open>A received event and a routing decision\<close>

definition smp_receipt :: event_receipt where
  "smp_receipt = ingest_receipt flat_runtime sample_event False 2000"

definition smp_store :: routing_store where
  "smp_store = empty_store\<lparr>st_events := [(''receipt_evt_1'', smp_receipt)]\<rparr>"

definition smp_proposal :: problem_proposal where
  "smp_proposal = \<lparr>pp_summary = ''stalled deal'', pp_problem_types = [''stalled''], pp_subject = ev_subject sample_event,
     pp_severity = SevLow, pp_dedupe_key_inputs = []\<rparr>"

definition smp_decision :: "str \<Rightarrow> routing_decision" where
  "smp_decision catalog = \<lparr>dec_event_id = ''evt_1'', dec_catalog_version = catalog, dec_action = Route,
     dec_existing_problem = None, dec_problem = Some smp_proposal,
     dec_selected = [\<lparr>sr_loop_id = ''loop_a'', sr_role = Primary, sr_confidence = 1, sr_reason = ''fits'',
        sr_evidence_refs = [], sr_input_mapping = [], sr_priority = 0\<rparr>],
     dec_alternatives = [], dec_fanout_reason = None, dec_model_metadata = [], dec_policy_version = ''p1''\<rparr>"

definition smp_input :: "str \<Rightarrow> submission_input" where
  "smp_input catalog = \<lparr>in_decision = smp_decision catalog, in_cards = [sample_card], in_catalog_version = ''v1'',
     in_metadata = [], in_binding = None\<rparr>"

lemma smp_fields [simp]:
  "in_decision (smp_input c) = smp_decision c" "in_cards (smp_input c) = [sample_card]"
  "in_catalog_version (smp_input c) = ''v1''" "in_binding (smp_input c) = None"
  "dec_event_id (smp_decision c) = ''evt_1''" "dec_action (smp_decision c) = Route"
  "dec_existing_problem (smp_decision c) = None" "dec_problem (smp_decision c) = Some smp_proposal"
  "ev_id sample_event = ''evt_1''" "rcp_event smp_receipt = sample_event"
  by (simp_all add: smp_input_def smp_decision_def sample_event_def smp_receipt_def ingest_receipt_def)

definition smp_env :: process_env where
  "smp_env = \<lparr>env_hermes_environment = None, env_node_env = None\<rparr>"

lemma smp_store_wf: "store_wf smp_store"
  by (simp add: store_wf_def smp_store_def empty_store_def smp_receipt_def coll_wf_def ingest_receipt_def
      sample_event_def)

lemma sample_event_ok: "event_ok sample_event" "starts_with (ev_id sample_event) ''evt_''"
  by (simp_all add: event_ok_def sample_event_def subject_ok_def)

lemma smp_receipt_ok: "receipt_ok smp_receipt"
  unfolding smp_receipt_def by (rule ingest_receipt_ok [OF sample_event_ok(1) digest_flat])

lemma smp_receipt_got: "get_event_receipt smp_store ''evt_1'' = Some smp_receipt"
  using smp_receipt_ok
  by (simp add: get_event_receipt_def list_event_receipts_def record_list_def smp_store_def coll_values_def)
    (simp add: smp_receipt_def ingest_receipt_def sample_event_def)

lemma empty_receipts: "get_event_receipt empty_store e = None"
  by (simp add: get_event_receipt_def list_event_receipts_def record_list_def empty_store_def)

lemma smp_ingested: "snd (ingest_routing_event flat_runtime None sample_event cards False 2000 empty_store) = smp_store"
  by (simp add: ingest_run [OF sample_event_ok(1) digest_flat] empty_receipts smp_receipt_def [symmetric] Let_def)
    (simp add: smp_store_def empty_store_def smp_receipt_def ingest_receipt_def sample_event_def)

lemma smp_eligible: "el_eligible (evaluate_routing_eligibility sample_event sample_card)"
  unfolding eligible_char using sample_accepts sample_required sample_excludes
  by (simp add: sample_card_def sample_event_def)

lemma smp_admissible: "decision_admissible flat_runtime sample_event (smp_decision ''v1'') [sample_card] ''v1''"
  using smp_eligible
  by (simp add: decision_admissible_def smp_decision_def smp_proposal_def sample_event_def route_admissible_def
      map_by_def subject_identity_matches_def sample_card_def)

lemma smp_no_errors: "submission_errors flat_runtime smp_store (smp_input ''v1'') sample_event = []"
  unfolding submission_errors_Nil
  using smp_admissible
  by (simp add: smp_input_def smp_decision_def smp_proposal_def collect_submission_errors_def existing_problem_errors_def
      stale_binding_errors_def map_by_def sample_card_def smp_store_def empty_store_def list_business_problems_def
      record_list_def)

lemma smp_decision_ok: "decision_ok (smp_decision catalog) \<longleftrightarrow> catalog \<noteq> []"
  by (simp add: decision_ok_def smp_decision_def smp_proposal_def sample_event_def selected_route_ok_def proposal_ok_def
      subject_ok_def)

lemma smp_attempt_ok:
  "attempt_ok flat_runtime (attempt_for flat_runtime (smp_input ''v1'') now status errors)"
  using smp_decision_ok [of "''v1''"]
  by (simp add: attempt_ok_def attempt_for_def Let_def smp_input_def smp_decision_def)

lemma smp_accepted:
  "submit_routing_decision flat_runtime smp_env (smp_input ''v1'') 2000 smp_store =
   accept_submission flat_runtime smp_env (smp_input ''v1'') 2000 sample_event [sample_card] smp_store"
proof -
  have "dv_valid (validate_routing_decision flat_runtime sample_event (smp_decision ''v1'') [sample_card] ''v1'')"
    using smp_admissible by (simp add: valid_iff_admissible)
  from valid_decision_cards [OF this]
  have "dv_cards (validate_routing_decision flat_runtime sample_event (smp_decision ''v1'') [sample_card] ''v1'') = [sample_card]"
    by (simp add: smp_decision_def map_by_def sample_card_def)
  then show ?thesis
    using smp_no_errors smp_decision_ok [of "''v1''"] smp_receipt_got
    by (simp add: submit_routing_decision_def act_bind_run require_def)
qed

lemma smp_routed:
  "\<exists>res st' j. submit_routing_decision flat_runtime smp_env (smp_input ''v1'') 2000 smp_store = (Inr res, st') \<and>
     res_valid res \<and> get_route_job st' (job_id j) = Some j"
proof -
  note attempt = smp_attempt_ok [of 2000 AttCommitted "[]"]
  have type: "canonical_problem_type (smp_decision ''v1'') [sample_card] = ''stalled''"
    by (simp add: canonical_problem_type_def smp_decision_def smp_proposal_def sample_card_def)
  define p0 where "p0 = problem_for_decision flat_runtime sample_event (smp_decision ''v1'') smp_proposal [sample_card] None 2000"
  have p0_ok: "problem_ok p0" and p0_id: "bp_id p0 \<noteq> []"
    by (simp_all add: p0_def problem_for_decision_def Let_def problem_ok_def type canonical_problem_dedupe_key_def
        create_problem_dedupe_key_def smp_proposal_def sample_event_def subject_ok_def)
  define s1 where "s1 = st_attempts_update (coll_put (att_id (attempt_for flat_runtime (smp_input ''v1'') 2000 AttCommitted []))
      (attempt_for flat_runtime (smp_input ''v1'') 2000 AttCommitted [])) smp_store"
  have none: "list_business_problems s1 = []" "st_commits s1 = []" "st_jobs s1 = []"
    by (simp_all add: s1_def smp_store_def empty_store_def list_business_problems_def record_list_def)
  have up: "upsert_problem_for_decision flat_runtime sample_event (smp_decision ''v1'') [sample_card] 2000 s1 =
      (Inr p0, snd (save_business_problem p0 s1))"
    using p0_ok by (simp add: upsert_problem_for_decision_def none act_bind_run p0_def [symmetric] save_runs Let_def)
  define c where "c = commit_for_card flat_runtime sample_event (bp_id p0)
      (att_id (attempt_for flat_runtime (smp_input ''v1'') 2000 AttCommitted [])) None sample_card 2000"
  have c_ok: "commit_ok c"
    using p0_id by (simp add: c_def commit_ok_def commit_for_card_def Let_def commit_id_for_def attempt_for_def
        sample_card_def)
  define j where "j = new_route_job flat_runtime smp_env sample_event c Simulate [] 2000"
  have j_ok: "job_ok j"
    using c_ok by (simp add: j_def job_ok_def new_route_job_def commit_ok_def create_route_job_id_def opt_or_def
        run_id_for_commit_def c_def commit_for_card_def Let_def route_execution_target_def execution_target_ok_def
        sample_event_def sample_card_def commit_status_for_def)
  have upd_ok: "problem_ok (routed_problem p0 (smp_decision ''v1'') [c] 2000)"
    using p0_ok by (simp add: problem_ok_def routed_problem_def Let_def)
  have card: "rc_activation sample_card = Simulate" "rc_required_connections sample_card = []"
    by (simp_all add: sample_card_def)
  have jid: "job_id j = create_route_job_id flat_runtime (rcm_event_id c) (rcm_loop_id c) (rcm_loop_spec_hash c)"
    by (simp add: j_def new_route_job_def)
  have "\<exists>res st'. submit_routing_decision flat_runtime smp_env (smp_input ''v1'') 2000 smp_store = (Inr res, st') \<and>
      res_valid res \<and> st_jobs st' = [(job_id j, j)]"
    unfolding smp_accepted
    by (simp add: accept_submission_def Let_def act_bind_run save_parsed_attempt_run attempt s1_def [symmetric] up
        route_submission_def list_route_commits_def save_runs p0_ok p0_id none record_list_def commit_card_def
        c_def [symmetric] c_ok upsert_job_run get_route_job_def record_get_def j_def [symmetric] j_ok card upd_ok)
      (simp add: jid)
  then obtain res st' where "submit_routing_decision flat_runtime smp_env (smp_input ''v1'') 2000 smp_store = (Inr res, st')"
    "res_valid res" "st_jobs st' = [(job_id j, j)]" by blast
  moreover from this(3) have "get_route_job st' (job_id j) = Some j"
    using j_ok by (simp add: get_route_job_def record_get_def coll_get_def)
  ultimately show ?thesis by blast
qed

subsection \<open>Jobs\<close>

definition smp_job :: route_job where
  "smp_job = \<lparr>job_id = ''job_1'', job_idempotency_key = ''key'', job_event_id = ''evt_1'', job_problem_id = ''p'',
     job_commit_id = ''commit_1'', job_attempt_id = ''a'', job_loop_id = ''loop_a'', job_loop_spec_hash = ''h'',
     job_run_id = ''run_1'', job_activation = Simulate,
     job_target = \<lparr>et_runtime = Hermes, et_environment = EnvLocal, et_capabilities = [], et_preferred_agent = None\<rparr>,
     job_status = Queued, job_correlation = ''k'', job_attempts = 0, job_max_attempts = 3,
     job_retry = \<lparr>base_delay_seconds = 30, max_delay_seconds = 900, backoff_multiplier = 2\<rparr>,
     job_next_run_at = 1000, job_lease = None, job_result = None, job_last_error = None,
     job_dead_letter_reason = None, job_created_at = 1000, job_updated_at = 1000\<rparr>"

definition smp_lease :: job_lease where
  "smp_lease = \<lparr>ls_claimed_by = ''w1'', ls_token = Some ''token'', ls_claimed_at = 1000, ls_expires_at = 9000,
     ls_heartbeat_at = Some 1000\<rparr>"

definition store_of_jobs :: "route_job list \<Rightarrow> routing_store" where
  "store_of_jobs js = empty_store\<lparr>st_jobs := map (\<lambda>j. (job_id j, j)) js\<rparr>"

definition smp_claim :: claim_input where
  "smp_claim = \<lparr>cl_by = ''w2'', cl_now = 5000, cl_lease_seconds = 60, cl_limit = 1\<rparr>"

lemma smp_job_ok: "job_ok smp_job" "job_ok (smp_job\<lparr>job_lease := Some smp_lease, job_status := Claimed\<rparr>)"
  by (simp_all add: job_ok_def smp_job_def smp_lease_def execution_target_ok_def lease_ok_def)

lemma store_of_jobs_wf: "distinct (map job_id js) \<Longrightarrow> store_wf (store_of_jobs js)"
  by (simp add: store_wf_def store_of_jobs_def empty_store_def coll_wf_def list_all_iff o_def)

lemma store_of_job_got: "job_ok j \<Longrightarrow> k = job_id j \<Longrightarrow> get_route_job (store_of_jobs [j]) k = Some j"
  by (simp add: get_route_job_def record_get_def store_of_jobs_def coll_get_def)

lemma store_of_job_due: "job_ok j \<Longrightarrow> due_jobs now (store_of_jobs [j]) = (if due_job now j then [j] else [])"
  by (simp add: due_jobs_def list_route_jobs_def record_list_def store_of_jobs_def no_filters_def coll_values_def
      filter_field_def)

lemma smp_job_due: "due_job 5000 smp_job"
  by (simp add: due_job_def lease_free_def smp_job_def)

lemma smp_claim_fields [simp]: "cl_by smp_claim = ''w2''" "cl_now smp_claim = 5000" "cl_limit smp_claim = 1"
  by (simp_all add: smp_claim_def)

text \<open>A store reached from the empty one that holds a job.\<close>

lemma smp_queue_run:
  obtains st j where "queue_run flat_runtime empty_store st" "get_route_job st (job_id j) = Some j"
proof -
  obtain res st' j where sub:
    "submit_routing_decision flat_runtime smp_env (smp_input ''v1'') 2000 smp_store = (Inr res, st')"
    "get_route_job st' (job_id j) = Some j"
    using smp_routed by blast
  have "queue_run flat_runtime empty_store smp_store"
    using qr_step [OF qr_refl qs_ingest [OF sample_event_ok(1), of flat_runtime 2000 empty_store "[sample_card]" False]]
    by (simp add: smp_ingested)
  from qr_step [OF this qs_submit [of _ 2000 _ smp_env "smp_input ''v1''"]]
  have "queue_run flat_runtime empty_store st'" by (simp add: sub(1))
  with sub(2) that show thesis by blast
qed

end
