(* ===== verification/RoutingWitnesses.thy ===== *)
theory RoutingWitnesses imports Samples begin

text \<open>
  Instances of the routing and queue properties on concrete stores: each discharges the hypotheses
  of one theorem, so that none of them is vacuous.
\<close>

subsection \<open>Content and ingestion\<close>

theorem content_hash_key_order_witness:
  "content_hash flat_runtime (Some (JObj [(''b'', JNull), (''a'', JBool True)])) =
   content_hash flat_runtime (Some (JObj [(''a'', JBool True), (''b'', JNull)]))"
proof (rule content_hash_key_order [of "JObj [(''b'', JNull), (''a'', JBool True)]"])
  have "list_all2 (rel_prod (=) same_json) [(''b'', JNull), (''a'', JBool True)] [(''b'', JNull), (''a'', JBool True)]"
    by (simp add: same_json.same_refl)
  then show "same_json (JObj [(''b'', JNull), (''a'', JBool True)]) (JObj [(''a'', JBool True), (''b'', JNull)])"
    by (rule same_json.same_obj [rotated]) (simp_all add: add_mset_commute)
qed

theorem ingest_once_witness:
  "\<exists>res st'. ingest_routing_event flat_runtime None sample_event [sample_card] False 2000 empty_store = (Inr res, st') \<and>
     \<not> ing_duplicate res \<and> store_inv st'"
proof -
  obtain out st' where "ingest_routing_event flat_runtime None sample_event [sample_card] False 2000 empty_store = (out, st')"
    by (meson surj_pair)
  with ingest_once [OF empty_store_inv sample_event_ok digest_flat this] empty_receipts show ?thesis by auto
qed

subsection \<open>Submission\<close>

theorem rejected_submission_inert_witness:
  "\<exists>res. submit_routing_decision flat_runtime smp_env (smp_input ''v1'') 2000 empty_store =
      (Inr res, empty_store\<lparr>st_attempts := coll_put (att_id (res_attempt res)) (res_attempt res) []\<rparr>) \<and>
     res_commits res = [] \<and> res_jobs res = [] \<and> res_errors res \<noteq> []"
proof -
  let ?i = "smp_input ''v1''"
  have "\<exists>res st'. submit_routing_decision flat_runtime smp_env ?i 2000 empty_store = (Inr res, st') \<and> \<not> res_valid res"
    using smp_decision_ok [of "''v1''"] smp_attempt_ok
    by (simp add: submit_routing_decision_def act_bind_run require_def empty_receipts save_parsed_attempt_run
        reject_submission_def Let_def)
  then obtain res st' where
    run: "submit_routing_decision flat_runtime smp_env ?i 2000 empty_store = (Inr res, st')" "\<not> res_valid res" by blast
  from rejected_submission_inert [OF this] run(1) show ?thesis by (auto simp: empty_store_def)
qed

theorem accepted_submission_sound_witness:
  "decision_admissible flat_runtime sample_event (smp_decision ''v1'') [sample_card] ''v1''"
proof -
  obtain res st' where
    "submit_routing_decision flat_runtime smp_env (smp_input ''v1'') 2000 smp_store = (Inr res, st')" "res_valid res"
    using smp_routed by blast
  from accepted_submission_sound [OF this] smp_receipt_got show ?thesis by simp
qed

theorem submission_keeps_jobs_witness:
  "store_wf (snd (submit_routing_decision flat_runtime smp_env (smp_input ''v1'') 2000 (store_of_jobs [smp_job]))) \<and>
   get_route_job (snd (submit_routing_decision flat_runtime smp_env (smp_input ''v1'') 2000 (store_of_jobs [smp_job])))
     ''job_1'' = Some smp_job"
proof -
  have "store_wf (store_of_jobs [smp_job])" by (rule store_of_jobs_wf) simp
  moreover have "get_route_job (store_of_jobs [smp_job]) ''job_1'' = Some smp_job"
    by (rule store_of_job_got [OF smp_job_ok(1)]) (simp add: smp_job_def)
  ultimately show ?thesis
    using submission_keeps_jobs [of "store_of_jobs [smp_job]" flat_runtime smp_env "smp_input ''v1''" 2000] by blast
qed


subsection \<open>The queue\<close>


theorem stale_token_refused_witness:
  "fst (fail_route_job ''job_1'' (Some ''old'') None ''boom'' 5000
     (store_of_jobs [smp_job\<lparr>job_lease := Some smp_lease, job_status := Claimed\<rparr>])) = Inl (JobLeaseLost ''job_1'')"
proof -
  let ?j = "smp_job\<lparr>job_lease := Some smp_lease, job_status := Claimed\<rparr>"
  have "get_route_job (store_of_jobs [?j]) ''job_1'' = Some ?j"
    by (rule store_of_job_got [OF smp_job_ok(2)]) (simp add: smp_job_def)
  from stale_token_refused [OF this, of "''old''"] show ?thesis by (simp add: lease_token_def smp_lease_def)
qed

theorem lease_is_exclusive_witness:
  "get_route_job (snd (claim_due_route_jobs flat_runtime smp_claim
     (store_of_jobs [smp_job\<lparr>job_lease := Some smp_lease, job_status := Claimed\<rparr>]))) ''job_1'' =
   Some (smp_job\<lparr>job_lease := Some smp_lease, job_status := Claimed\<rparr>)"
proof -
  let ?j = "smp_job\<lparr>job_lease := Some smp_lease, job_status := Claimed\<rparr>"
  let ?st = "store_of_jobs [?j]"
  have "foreign_step flat_runtime ''token'' 5000 ?st (snd (claim_due_route_jobs flat_runtime smp_claim ?st))"
    by (rule fs_claim) simp_all
  from fr_step [OF fr_refl _ this, of 9000]
  have "foreign_run flat_runtime ''token'' 9000 ?st (snd (claim_due_route_jobs flat_runtime smp_claim ?st))" by simp
  moreover have "store_wf ?st" by (rule store_of_jobs_wf) simp
  moreover have "get_route_job ?st ''job_1'' = Some ?j"
    by (rule store_of_job_got [OF smp_job_ok(2)]) (simp add: smp_job_def)
  moreover have "held_until ?j ''token'' 9000" by (simp add: held_until_def smp_lease_def)
  ultimately show ?thesis by (rule lease_is_exclusive [OF _ digest_flat])
qed

theorem job_binding_is_permanent_witness:
  "\<exists>j'. get_route_job (snd (claim_due_route_jobs flat_runtime smp_claim (store_of_jobs [smp_job]))) ''job_1'' = Some j' \<and>
     same_binding smp_job j'"
proof -
  have "queue_run flat_runtime (store_of_jobs [smp_job])
      (snd (claim_due_route_jobs flat_runtime smp_claim (store_of_jobs [smp_job])))"
    by (rule qr_step [OF qr_refl qs_claim]) simp
  moreover have "store_wf (store_of_jobs [smp_job])" by (rule store_of_jobs_wf) simp
  moreover have "get_route_job (store_of_jobs [smp_job]) ''job_1'' = Some smp_job"
    by (rule store_of_job_got [OF smp_job_ok(1)]) (simp add: smp_job_def)
  ultimately show ?thesis by (rule job_binding_is_permanent [OF _ digest_flat])
qed

theorem reachable_attempts_bounded_witness:
  "\<exists>st j. queue_run flat_runtime empty_store st \<and> get_route_job st (job_id j) = Some j \<and>
     job_attempts j \<le> job_max_attempts j"
proof -
  obtain st j where st: "queue_run flat_runtime empty_store st" "get_route_job st (job_id j) = Some j"
    by (rule smp_queue_run)
  with reachable_attempts_bounded [OF st(1) digest_flat st(2)] show ?thesis by blast
qed

theorem failure_backs_off_witness:
  "\<exists>j' st'. fail_route_job ''job_1'' (Some ''token'') None ''boom'' 5000
     (store_of_jobs [smp_job\<lparr>job_lease := Some smp_lease, job_status := Claimed\<rparr>]) = (Inr j', st') \<and>
   job_status j' = Failed \<and> 35000 \<le> job_next_run_at j' \<and> job_next_run_at j' \<le> 905000"
proof -
  let ?j = "smp_job\<lparr>job_lease := Some smp_lease, job_status := Claimed\<rparr>"
  let ?st = "store_of_jobs [?j]"
  have f: "job_attempts ?j < job_max_attempts ?j" "base_delay_seconds (job_retry ?j) = 30"
    "max_delay_seconds (job_retry ?j) = 900" by (simp_all add: smp_job_def)
  have "store_wf ?st" by (rule store_of_jobs_wf) simp
  moreover have "get_route_job ?st ''job_1'' = Some ?j"
    by (rule store_of_job_got [OF smp_job_ok(2)]) (simp add: smp_job_def)
  moreover have "fence_open (Some ''token'') ?j" by (simp add: fence_open_def lease_token_def smp_lease_def)
  ultimately obtain j' st' where
    run: "fail_route_job ''job_1'' (Some ''token'') None ''boom'' 5000 ?st = (Inr j', st')" and
    res: "if job_attempts ?j < job_max_attempts ?j
     then job_status j' = Failed \<and>
       (\<exists>d. job_next_run_at j' = 5000 + int d * 1000 \<and> d \<le> max_delay_seconds (job_retry ?j) \<and>
            min (max_delay_seconds (job_retry ?j)) (base_delay_seconds (job_retry ?j)) \<le> d) \<and>
       (\<forall>t. due_job t j' \<longleftrightarrow> job_next_run_at j' \<le> t)
     else job_status j' = DeadLetter \<and> job_dead_letter_reason j' = Some ''boom'' \<and> (\<forall>t. \<not> due_job t j')"
    using failure_backs_off [of ?st "''job_1''" ?j "Some ''token''" "''boom''" None 5000] by auto
  from res obtain d where "job_status j' = Failed" "job_next_run_at j' = 5000 + int d * 1000" "d \<le> 900" "min 900 30 \<le> d"
    unfolding f(2,3) if_P [OF f(1)] by blast
  then have "job_status j' = Failed \<and> 35000 \<le> job_next_run_at j' \<and> job_next_run_at j' \<le> 905000" by simp
  with run show ?thesis by blast
qed

theorem last_attempt_never_reclaimed_witness:
  "get_route_job (snd (claim_due_route_jobs flat_runtime smp_claim
     (store_of_jobs [smp_job\<lparr>job_attempts := 3, job_status := Running\<rparr>]))) ''job_1'' =
   Some (smp_job\<lparr>job_attempts := 3, job_status := Running\<rparr>)"
proof -
  let ?j = "smp_job\<lparr>job_attempts := 3, job_status := Running\<rparr>"
  have "job_ok ?j" using smp_job_ok(1) by (simp add: job_ok_def)
  then have "get_route_job (store_of_jobs [?j]) ''job_1'' = Some ?j"
    by (rule store_of_job_got) (simp add: smp_job_def)
  moreover have "store_wf (store_of_jobs [?j])" by (rule store_of_jobs_wf) simp
  moreover have "job_attempts ?j = job_max_attempts ?j" by (simp add: smp_job_def)
  moreover have "cl_by smp_claim \<noteq> []" "job_status ?j \<in> {Claimed, Running}" by simp_all
  ultimately show ?thesis by (intro conjunct1 [OF last_attempt_never_reclaimed] digest_flat)
qed

theorem started_dispatch_is_due_again_witness:
  "\<exists>j' st'. mark_route_job_running ''job_1'' None (Some ''run_1'') 2000
     (store_of_jobs [smp_job\<lparr>job_attempts := 1, job_status := Dispatched\<rparr>]) = (Inr j', st') \<and> due_job 3000 j'"
proof -
  let ?j = "smp_job\<lparr>job_attempts := 1, job_status := Dispatched\<rparr>"
  have "job_ok ?j" using smp_job_ok(1) by (simp add: job_ok_def)
  then have "get_route_job (store_of_jobs [?j]) ''job_1'' = Some ?j"
    by (rule store_of_job_got) (simp add: smp_job_def)
  moreover have "store_wf (store_of_jobs [?j])" by (rule store_of_jobs_wf) simp
  moreover have "job_lease ?j = None" "job_attempts ?j < job_max_attempts ?j" "job_next_run_at ?j \<le> 3000"
    by (simp_all add: smp_job_def)
  ultimately show ?thesis
    using started_dispatch_is_due_again [of "store_of_jobs [?j]" "''job_1''" ?j 3000 "Some ''run_1''" 2000] by auto
qed

end
