(* ===== verification/LeaseTable.thy ===== *)
theory LeaseTable imports Prelude begin

text \<open>
  What a queue with leases promises, without the code: a table with one row per entry, which counts
  how often the entry was taken and says who holds it until when. The job queue and the trigger
  queue both refine it (locale \<open>leased_table\<close>). A step happens at a time; a row can be taken or
  held only when nobody holds it or the lease has run out, a lease can be prolonged under its own
  token, given up, or reset by an operator.
\<close>

record lease_row =
  lr_owner :: "(str option \<times> instant) option"
  lr_used :: nat

definition fresh_row :: lease_row where
  "fresh_row = \<lparr>lr_owner = None, lr_used = 0\<rparr>"

definition row_free :: "instant \<Rightarrow> lease_row \<Rightarrow> bool" where
  "row_free now r = (case lr_owner r of None \<Rightarrow> True | Some (t, e) \<Rightarrow> e \<le> now)"

inductive row_step :: "instant \<Rightarrow> lease_row \<Rightarrow> lease_row \<Rightarrow> bool" where
  rw_stay: "row_step now r r"
| rw_take: "row_free now r \<Longrightarrow> row_step now r \<lparr>lr_owner = Some (Some t, e), lr_used = lr_used r + 1\<rparr>"
| rw_hold: "row_free now r \<Longrightarrow> row_step now r (r\<lparr>lr_owner := Some (Some t, e)\<rparr>)"
| rw_extend: "lr_owner r = Some (t, e) \<Longrightarrow> row_step now r (r\<lparr>lr_owner := Some (t, e')\<rparr>)"
| rw_release: "row_step now r (r\<lparr>lr_owner := None\<rparr>)"
| rw_reset: "row_step now r fresh_row"

inductive_cases row_stepE: "row_step now r r'"

type_synonym lease_table = "str \<Rightarrow> lease_row option"

definition table_step :: "instant \<Rightarrow> lease_table \<Rightarrow> lease_table \<Rightarrow> bool" where
  "table_step now T T' \<longleftrightarrow>
     (\<forall>k. case T k of
        None \<Rightarrow> T' k \<in> {None, Some fresh_row}
      | Some r \<Rightarrow> (case T' k of None \<Rightarrow> False | Some r' \<Rightarrow> row_step now r r'))"

inductive table_run :: "lease_table \<Rightarrow> lease_table \<Rightarrow> bool" where
  tb_refl: "table_run T T"
| tb_step: "table_run T T1 \<Longrightarrow> table_step now T1 T2 \<Longrightarrow> table_run T T2"

lemma table_stepI:
  assumes "\<And>k r. T k = Some r \<Longrightarrow> \<exists>r'. T' k = Some r' \<and> row_step now r r'"
    and "\<And>k r. T k = None \<Longrightarrow> T' k = Some r \<Longrightarrow> r = fresh_row"
  shows "table_step now T T'"
  unfolding table_step_def
proof
  fix k
  show "case T k of None \<Rightarrow> T' k \<in> {None, Some fresh_row}
      | Some r \<Rightarrow> (case T' k of None \<Rightarrow> False | Some r' \<Rightarrow> row_step now r r')"
    using assms(1) [of k] assms(2) [of k] by (cases "T k"; cases "T' k") auto
qed

subsection \<open>What the table guarantees\<close>

lemma table_step_row: "table_step now T T' \<Longrightarrow> T k = Some r \<Longrightarrow> \<exists>r'. T' k = Some r' \<and> row_step now r r'"
  unfolding table_step_def by (drule spec [of _ k]) (auto split: option.splits)

text \<open>A lease passes to another token only once it has run out.\<close>

lemma row_handover:
  "row_step now r r' \<Longrightarrow> lr_owner r = Some (t, e) \<Longrightarrow> lr_owner r' = Some (t', e') \<Longrightarrow> t' \<noteq> t \<Longrightarrow> e \<le> now"
  by (erule row_stepE) (auto simp: row_free_def fresh_row_def)

text \<open>The count goes up by one with a new lease, stays, or is reset with the lease.\<close>

lemma row_count:
  "row_step now r r' \<Longrightarrow> lr_used r' = lr_used r \<or> lr_used r' = lr_used r + 1 \<and> row_free now r \<and> lr_owner r' \<noteq> None \<or>
     r' = fresh_row"
  by (erule row_stepE) auto

lemma table_run_rows: "table_run T T' \<Longrightarrow> T k = Some r \<Longrightarrow> \<exists>r'. T' k = Some r'"
proof (induction rule: table_run.induct)
  case (tb_step T T1 now T2)
  then show ?case using table_step_row by blast
qed simp

subsection \<open>Refinement\<close>

locale leased_table =
  fixes rows :: "'s \<Rightarrow> lease_table" and step :: "instant \<Rightarrow> 's \<Rightarrow> 's \<Rightarrow> bool" and good :: "'s \<Rightarrow> bool"
  assumes step_good: "good s \<Longrightarrow> step now s s' \<Longrightarrow> good s'"
    and step_table: "good s \<Longrightarrow> step now s s' \<Longrightarrow> table_step now (rows s) (rows s')"
begin

inductive run :: "'s \<Rightarrow> 's \<Rightarrow> bool" where
  run_refl: "run s s"
| run_step: "run s s1 \<Longrightarrow> step now s1 s2 \<Longrightarrow> run s s2"

lemma run_table: "run s s' \<Longrightarrow> good s \<Longrightarrow> good s' \<and> table_run (rows s) (rows s')"
proof (induction rule: run.induct)
  case (run_step s s1 now s2)
  then have "good s1" "table_run (rows s) (rows s1)" by simp_all
  with run_step.hyps(2) show ?case using step_good step_table tb_step by blast
qed (auto intro: tb_refl)

lemma handover:
  assumes "good s" "step now s s'" "rows s k = Some r" "rows s' k = Some r'"
    and "lr_owner r = Some (t, e)" "lr_owner r' = Some (t', e')" "t' \<noteq> t"
  shows "e \<le> now"
proof -
  have "row_step now r r'" using table_step_row [OF step_table [OF assms(1,2)] assms(3)] assms(4) by simp
  then show ?thesis by (rule row_handover [OF _ assms(5-7)])
qed

lemma entries_stay: "run s s' \<Longrightarrow> good s \<Longrightarrow> rows s k = Some r \<Longrightarrow> \<exists>r'. rows s' k = Some r'"
  using run_table table_run_rows by blast

end

end
