(* ===== verification/QueueLaws.thy ===== *)
theory QueueLaws imports RouteJobs LeaseTable begin

text \<open>
  Three laws of the job queue as a whole: it refines the lease table, every record it writes parses
  again, and successive claims leave no due job behind.
\<close>

subsection \<open>The queue is a lease table\<close>

definition job_row :: "route_job \<Rightarrow> lease_row" where
  "job_row j = \<lparr>lr_owner = map_option (\<lambda>l. (ls_token l, ls_expires_at l)) (job_lease j), lr_used = job_attempts j\<rparr>"

definition job_rows :: "routing_store \<Rightarrow> lease_table" where
  "job_rows st k = map_option job_row (get_route_job st k)"

lemma free_row: "row_free now (job_row j) = lease_free now j"
  by (simp add: row_free_def job_row_def lease_free_def split: option.splits)

lemma move_row:
  assumes "job_move R now j j'"
  shows "row_step now (job_row j) (job_row j')"
  using assms
proof cases
  case (jm_claim i)
  have "row_free (cl_now i) (job_row j)" using jm_claim by (simp add: free_row due_job_def)
  from rw_take [OF this, of "due_lease_token R i j" "cl_now i + int (cl_lease_seconds i) * 1000"]
  show ?thesis unfolding jm_claim(1,2) by (simp add: job_row_def claimed_job_def new_lease_def)
next
  case (jm_review i)
  have "row_free (cl_now i) (job_row j)" using jm_review by (simp add: free_row)
  from rw_hold [OF this, of "waiting_lease_token R i j" "cl_now i + int (cl_lease_seconds i) * 1000"]
  show ?thesis unfolding jm_review(1,2) by (simp add: job_row_def claimed_waiting_def new_lease_def)
next
  case (jm_status u)
  then show ?thesis using rw_stay [of now "job_row j"] rw_release [of now "job_row j"]
    by (simp add: job_row_def apply_status_def)
next
  case (jm_renew l t seconds)
  then show ?thesis using rw_extend [of "job_row j" "ls_token l" "ls_expires_at l" now]
    by (simp add: job_row_def renewed_job_def)
next
  case (jm_retry who reason)
  then show ?thesis using rw_reset [of now "job_row j"] by (simp add: job_row_def retried_job_def fresh_row_def)
qed (use rw_stay rw_release [of now "job_row j"] in \<open>simp_all add: job_row_def failed_job_def cancelled_job_def Let_def\<close>)

lemma step_rows:
  assumes "store_wf st" "digest_runtime R" "queue_step R now st st'"
  shows "table_step now (job_rows st) (job_rows st')"
proof (rule table_stepI)
  have m: "jobs_move R now st st'" by (rule queue_step_moves [OF assms(3,2,1)])
  fix k r
  show "\<exists>r'. job_rows st' k = Some r' \<and> row_step now r r'" if "job_rows st k = Some r"
    using that m move_row by (fastforce simp: job_rows_def jobs_move_def)
  show "r = fresh_row" if "job_rows st k = None" "job_rows st' k = Some r"
    using that m by (auto simp: job_rows_def jobs_move_def queued_fresh_def job_row_def fresh_row_def)
qed

interpretation queue: leased_table job_rows "queue_step R" "\<lambda>st. store_wf st \<and> digest_runtime R"
proof
  fix now st st'
  assume "store_wf st \<and> digest_runtime R" and "queue_step R now st st'"
  then show "store_wf st' \<and> digest_runtime R" "table_step now (job_rows st) (job_rows st')"
    using queue_step_moves [of R now st st'] step_rows [of st R now st'] by (simp_all add: jobs_move_def)
qed

lemma queue_run_run: "queue_run R st st' = queue.run R st st'"
proof
  show "queue_run R st st' \<Longrightarrow> queue.run R st st'"
    by (induction rule: queue_run.induct) (auto intro: queue.run.intros)
  show "queue.run R st st' \<Longrightarrow> queue_run R st st'"
    by (induction rule: queue.run.induct) (auto intro: queue_run.intros)
qed


subsection \<open>What is written parses\<close>

definition all_parse :: "('r \<Rightarrow> bool) \<Rightarrow> 'r coll \<Rightarrow> bool" where
  "all_parse ok c = list_all (\<lambda>(k, r). ok r) c"

lemma all_parse_put: "all_parse ok c \<Longrightarrow> ok r \<Longrightarrow> all_parse ok (coll_put k r c)"
  unfolding all_parse_def by (induction k r c rule: coll_put.induct) auto

lemma all_parse_list: "all_parse ok c \<Longrightarrow> record_list ok c = coll_values c"
  by (auto simp: all_parse_def record_list_def coll_values_def list_all_iff filter_id_conv)

definition store_typed :: "runtime \<Rightarrow> routing_store \<Rightarrow> bool" where
  "store_typed R st =
     (all_parse receipt_ok (st_events st) \<and> all_parse problem_ok (st_problems st) \<and>
      all_parse (attempt_ok R) (st_attempts st) \<and> all_parse commit_ok (st_commits st) \<and> all_parse job_ok (st_jobs st) \<and>
      all_parse correction_ok (st_corrections st) \<and> all_parse evaluation_ok (st_evaluations st))"

lemma empty_store_typed: "store_typed R empty_store"
  by (simp add: store_typed_def empty_store_def all_parse_def)

lemma keeps_typed_saves [keeps_rules]:
  "keeps (store_typed R) (save_event_receipt r)"
  "keeps (store_typed R) (save_business_problem p)"
  "keeps (store_typed R) (save_routing_attempt R a)"
  "keeps (store_typed R) (save_parsed_attempt R a)"
  "keeps (store_typed R) (save_route_commit c)"
  "keeps (store_typed R) (save_route_job j)"
  by (simp_all add: keeps_def store_typed_def all_parse_put act_simps)

lemma keeps_typed_ingest: "keeps (store_typed R) (ingest_routing_event R None e cards replay now)"
  unfolding ingest_routing_event_def ingest_new_event_def Let_def
  by (intro keeps_rules) (auto intro: keeps_rules split: prod.splits)

lemma keeps_typed_submit: "keeps (store_typed R) (submit_routing_decision R env i now)"
  unfolding submit_routing_decision_def accept_submission_def route_submission_def reject_submission_def
    commit_card_def upsert_problem_for_decision_def upsert_route_job_for_commit_def Let_def
  by (intro keeps_rules)

lemma keeps_typed_claims:
  "keeps (store_typed R) (claim_due_route_jobs R i)"
  "keeps (store_typed R) (claim_waiting_review_route_jobs R i)"
  unfolding claim_due_route_jobs_def claim_route_job_candidates_def claim_waiting_review_route_jobs_def
    claim_waiting_candidates_def save_claimed_def
  by (intro keeps_rules)+

lemma keeps_typed_mutate: "keeps (store_typed R) (mutate_route_job k expected f)"
  unfolding mutate_route_job_def by (intro keeps_rules)

lemma step_typed: "queue_step R now st st' \<Longrightarrow> store_typed R st \<Longrightarrow> store_typed R st'"
proof (induction rule: queue_step.induct)
  case (qs_ingest e st cards replay now)
  then show ?case using keeps_typed_ingest by (simp add: keeps_def)
next
  case (qs_submit st env i now)
  then show ?case using keeps_typed_submit by (simp add: keeps_def)
qed (use keeps_typed_claims keeps_typed_mutate in \<open>simp_all add: keeps_def update_route_job_status_def
  fail_route_job_def renew_route_job_lease_def retry_route_job_def cancel_route_job_def\<close>)


subsection \<open>No due job is left behind\<close>

fun claim_rounds :: "runtime \<Rightarrow> claim_input list \<Rightarrow> routing_store \<Rightarrow> routing_store" where
  "claim_rounds R [] st = st"
| "claim_rounds R (i # is) st = claim_rounds R is (snd (claim_due_route_jobs R i st))"

definition fair_claim :: "instant \<Rightarrow> claim_input \<Rightarrow> bool" where
  "fair_claim now i \<longleftrightarrow> cl_now i = now \<and> cl_by i \<noteq> [] \<and> 1 \<le> cl_limit i \<and> 1 \<le> cl_lease_seconds i"

lemma due_jobs_iff: "store_wf st \<Longrightarrow> j \<in> set (due_jobs now st) \<longleftrightarrow> get_route_job st (job_id j) = Some j \<and> due_job now j"
  by (auto simp: due_jobs_def listed_jobs)

lemma claimed_not_due: "fair_claim now i \<Longrightarrow> \<not> due_job now (claimed_job R i j)"
  by (simp add: fair_claim_def due_job_def claimed_job_def new_lease_def lease_free_def)

lemma claim_round:
  assumes "store_wf st" "digest_runtime R" "fair_claim now i"
  shows "\<exists>js. set js \<subseteq> set (due_jobs now st) \<and> (due_jobs now st \<noteq> [] \<longrightarrow> js \<noteq> []) \<and>
    jobs_rewritten (claimed_job R i) js st (snd (claim_due_route_jobs R i st)) \<and>
    set (due_jobs now (snd (claim_due_route_jobs R i st))) = set (due_jobs now st) - set js"
proof -
  let ?js = "due_candidates i (list_route_jobs st no_filters)" and ?st = "snd (claim_due_route_jobs R i st)"
  have i: "cl_now i = now" "cl_by i \<noteq> []" "1 \<le> cl_limit i" using assms(3) by (simp_all add: fair_claim_def)
  from claim_due_run [OF assms(1,2) i(2)] have rw: "jobs_rewritten (claimed_job R i) ?js st ?st" by auto
  then have wf: "store_wf ?st" by (simp add: jobs_rewritten_def)
  have js: "set ?js \<subseteq> set (due_jobs now st)"
    using due_candidates_set(2) [OF assms(1), of _ i] i(1) by (auto simp: due_jobs_iff [OF assms(1)])
  have "x \<in> set (due_jobs now ?st) \<longleftrightarrow> x \<in> set (due_jobs now st) - set ?js" for x
  proof (cases "job_id x \<in> job_id ` set ?js")
    case True
    then obtain y where y: "y \<in> set ?js" "job_id y = job_id x" by auto
    then have "get_route_job ?st (job_id x) = Some (claimed_job R i y)"
      using rw unfolding jobs_rewritten_def by metis
    then have "x \<notin> set (due_jobs now ?st)" using claimed_not_due [OF assms(3), of R y] by (auto simp: due_jobs_iff [OF wf])
    moreover have "x \<in> set ?js" if "x \<in> set (due_jobs now st)"
      using that js y by (metis due_jobs_iff [OF assms(1)] option.inject subsetD)
    ultimately show ?thesis by blast
  next
    case False
    then have "get_route_job ?st (job_id x) = get_route_job st (job_id x)" using rw by (simp add: jobs_rewritten_def)
    with False show ?thesis by (auto simp: due_jobs_iff [OF wf] due_jobs_iff [OF assms(1)])
  qed
  moreover have "?js \<noteq> []" if "due_jobs now st \<noteq> []"
    using that i by (cases "cl_limit i") (auto simp: due_candidates_def due_jobs_def simp flip: length_greater_0_conv)
  ultimately show ?thesis using js rw by blast
qed

lemma rounds_keep:
  assumes "store_wf st" "digest_runtime R" "\<forall>i\<in>set is. fair_claim now i" "get_route_job st k = Some x" "\<not> due_job now x"
  shows "get_route_job (claim_rounds R is st) k = Some x"
  using assms(1,3,4)
proof (induction "is" arbitrary: st)
  case (Cons i "is")
  from Cons.prems have fair: "fair_claim now i" by simp
  obtain js where js: "set js \<subseteq> set (due_jobs now st)"
    "jobs_rewritten (claimed_job R i) js st (snd (claim_due_route_jobs R i st))"
    using claim_round [OF Cons.prems(1) assms(2) fair] by blast
  have "k \<notin> job_id ` set js"
    using js(1) Cons.prems(1,3) assms(5) by (auto simp: due_jobs_iff dest!: subsetD)
  with js(2) Cons.prems show ?case by (simp add: Cons.IH jobs_rewritten_def)
qed simp

text \<open>
  C5: no due job starves. When at one instant as many claims are made as there are jobs due, by
  whomever and whatever their limits (at least one job, for at least a second), then afterwards
  no job is due any more and every job that was due has been claimed exactly once.
\<close>

theorem no_due_job_starves:
  assumes "store_wf st" and "digest_runtime R" and "\<forall>i\<in>set is. fair_claim now i"
    and "length (due_jobs now st) \<le> length is"
  shows "due_jobs now (claim_rounds R is st) = [] \<and>
    (\<forall>j\<in>set (due_jobs now st). \<exists>i\<in>set is. get_route_job (claim_rounds R is st) (job_id j) = Some (claimed_job R i j))"
proof -
  have "card (set (due_jobs now st)) \<le> length is" using assms(4) card_length le_trans by blast
  with assms(1,3) have "set (due_jobs now (claim_rounds R is st)) = {} \<and>
    (\<forall>j\<in>set (due_jobs now st). \<exists>i\<in>set is. get_route_job (claim_rounds R is st) (job_id j) = Some (claimed_job R i j))"
  proof (induction "is" arbitrary: st)
    case (Cons i "is")
    then have fair: "fair_claim now i" by simp
    let ?st = "snd (claim_due_route_jobs R i st)"
    obtain js where js: "set js \<subseteq> set (due_jobs now st)" "due_jobs now st \<noteq> [] \<longrightarrow> js \<noteq> []"
      "jobs_rewritten (claimed_job R i) js st ?st" "set (due_jobs now ?st) = set (due_jobs now st) - set js"
      using claim_round [OF Cons.prems(1) assms(2) fair] by blast
    have wf: "store_wf ?st" using js(3) by (simp add: jobs_rewritten_def)
    have "card (set (due_jobs now ?st)) \<le> length is"
    proof (cases "due_jobs now st = []")
      case False
      with js(1,2) have "set (due_jobs now ?st) \<subset> set (due_jobs now st)" unfolding js(4) by (cases js) auto
      with Cons.prems(3) psubset_card_mono [OF finite_set this] show ?thesis by simp
    qed (use js(4) in simp)
    with Cons.IH [OF wf] Cons.prems(2) have rest: "set (due_jobs now (claim_rounds R is ?st)) = {}"
      "\<And>j. j \<in> set (due_jobs now ?st) \<Longrightarrow> \<exists>i\<in>set is. get_route_job (claim_rounds R is ?st) (job_id j) = Some (claimed_job R i j)"
      by auto
    have "\<exists>i'\<in>set (i # is). get_route_job (claim_rounds R is ?st) (job_id j) = Some (claimed_job R i' j)"
      if "j \<in> set (due_jobs now st)" for j
    proof (cases "j \<in> set js")
      case True
      then have "get_route_job ?st (job_id j) = Some (claimed_job R i j)" using js(3) by (simp add: jobs_rewritten_def)
      with rounds_keep [OF wf assms(2) _ this claimed_not_due [OF fair]] Cons.prems(2) show ?thesis by auto
    qed (use that js(4) rest(2) in auto)
    with rest(1) show ?case by simp
  qed simp
  then show ?thesis by simp
qed

end
