(* ===== verification/QueueWitnesses.thy ===== *)
theory QueueWitnesses imports QueueLaws Samples begin



theorem no_due_job_starves_witness:
  "get_route_job (claim_rounds flat_runtime [smp_claim] (store_of_jobs [smp_job])) ''job_1'' =
   Some (claimed_job flat_runtime smp_claim smp_job)"
proof -
  have due: "due_jobs 5000 (store_of_jobs [smp_job]) = [smp_job]"
    using smp_job_ok(1) smp_job_due by (simp add: store_of_job_due)
  have "store_wf (store_of_jobs [smp_job])" by (rule store_of_jobs_wf) simp
  from no_due_job_starves [OF this digest_flat, of "[smp_claim]" 5000] due
  have "get_route_job (claim_rounds flat_runtime [smp_claim] (store_of_jobs [smp_job])) (job_id smp_job) =
      Some (claimed_job flat_runtime smp_claim smp_job)"
    by (auto simp: fair_claim_def smp_claim_def)
  then show ?thesis by (simp add: smp_job_def)
qed

end
