(* ===== verification/RunSamples.thy ===== *)
theory RunSamples imports Samples begin

text \<open>
  Concrete loops, runs, reviews, cases and Hermes events for the witnesses: one loop with one tool
  whose use needs an approval, the run that proposes it, and the world that stores that run.
\<close>

subsection \<open>A loop and its run\<close>

definition smp_contract :: routing_contract where
  "smp_contract = \<lparr>ct_problem_types = [''stalled''], ct_accepts = rc_accepts sample_card, ct_excludes = [],
     ct_input_mapping = [], ct_priority = 0, ct_minimum_confidence = 1/2, ct_ambiguity = AmbiguityRequestHuman,
     ct_no_match = NoMatchUnhandled, ct_fanout = rc_fanout sample_card, ct_supporting = [],
     ct_cooldown = rc_cooldown sample_card, ct_concurrency = rc_concurrency sample_card,
     ct_activation = ExecuteWithApproval, ct_lifecycle_events = [], ct_required_connections = [],
     ct_should_route = [], ct_should_not_route = []\<rparr>"

definition smp_spec :: loop_spec where
  "smp_spec = \<lparr>sp_document = [], sp_id = ''loop_a'', sp_name = ''A'', sp_version = ''1'', sp_description = None,
     sp_lifecycle_status = None, sp_department = None, sp_trigger_type = TrigManual, sp_trigger_source = ''crm'',
     sp_trigger_event = ''deal.stalled'', sp_output_properties = [], sp_sources = [],
     sp_redaction = RedactNone,
     sp_tools = [\<lparr>tb_key = ''draft'', tb_adapter = ''mock'', tb_label = ''Draft'', tb_write_capable = True, tb_risk = RiskLow\<rparr>],
     sp_allowed = [\<lparr>ap_tool = ''draft'', ap_allowed = True, ap_requires_approval = True, ap_customer_facing = False,
        ap_risk = RiskLow\<rparr>],
     sp_forbidden = [\<lparr>fa_tool = ''erase'', fa_reason = ''x''\<rparr>], sp_escalations = [], sp_verification = [],
     sp_approval = \<lparr>apol_fingerprint = True, apol_separate = True, apol_roles = [Approver]\<rparr>,
     sp_evidence_required = False, sp_routing = Some smp_contract, sp_connector_requirements = []\<rparr>"

definition smp_output :: agent_output where
  "smp_output = \<lparr>ao_summary = ''s'', ao_assumptions = [],
     ao_actions = [\<lparr>pa_id = ''1'', pa_tool = ''draft'', pa_label = ''Draft'', pa_input = [(''text'', JStr ''hi'')],
        pa_risk = RiskLow, pa_requires_approval = True, pa_customer_facing = False\<rparr>],
     ao_evidence = [], ao_policy_inputs = [], ao_verification_required = False, ao_escalation = None\<rparr>"

definition smp_generate :: assessment where
  "smp_generate spec ctx payload = Some smp_output"

definition smp_reader :: variable_reader where
  "smp_reader mode adapter = None"

definition smp_run :: "run_mode \<Rightarrow> provenance option \<Rightarrow> run_input" where
  "smp_run mode prov = \<lparr>rn_spec = smp_spec, rn_mode = mode, rn_payload = [], rn_event = ''evt_1'', rn_started_at = 2000,
     rn_simulated_at = 2000, rn_provenance = prov\<rparr>"

definition smp_action :: prepared_action where
  "smp_action = \<lparr>pre_id = ''prepared_1'', pre_tool = ''draft'', pre_label = ''Draft'',
     pre_payload = [(''text'', JStr ''hi'')], pre_fingerprint = flat_hash, pre_risk = RiskLow,
     pre_requires_approval = True, pre_customer_facing = False, pre_proposed_id = ''1''\<rparr>"

definition smp_decisions :: "policy_decision list" where
  "smp_decisions = [\<lparr>pd_rule = ''forbidden:erase'', pd_matched = False, pd_action = ActAllow,
       pd_requires_review = False, pd_create_case = False\<rparr>,
     \<lparr>pd_rule = ''approval:draft'', pd_matched = True, pd_action = ActReview, pd_requires_review = True,
       pd_create_case = False\<rparr>]"

definition smp_trace :: "run_mode \<Rightarrow> provenance option \<Rightarrow> run_trace" where
  "smp_trace mode prov = run_trace_for flat_runtime (smp_run mode prov)
     (compile_context_snapshot flat_runtime smp_reader smp_spec mode 2000) smp_output [smp_action] smp_decisions [] None"

lemma smp_prepared: "prepare_actions_from_proposed flat_runtime (ao_actions smp_output) = [smp_action]"
  by (simp add: prepare_actions_from_proposed_def smp_output_def smp_action_def)

lemma smp_policy: "evaluate_policy flat_runtime smp_spec smp_output [smp_action] = Some smp_decisions"
  by (simp add: evaluate_policy_def smp_spec_def smp_output_def smp_action_def smp_decisions_def forbidden_decision_def
      prepared_decisions_def action_policy_for_def)

definition smp_run_id :: str where
  "smp_run_id = ''run_'' @ flat_hash"

lemma smp_trace_fields [simp]:
  "tr_id (smp_trace mode prov) = smp_run_id" "tr_status (smp_trace mode prov) = WAITING_FOR_REVIEW"
  "tr_prepared (smp_trace mode prov) = [smp_action]" "tr_reviews (smp_trace mode prov) = []"
  "tr_calls (smp_trace mode prov) = [initial_call mode 2000 smp_action]" "tr_mode (smp_trace mode prov) = mode"
  "tr_loop (smp_trace mode prov) = ''loop_a''"
  "tr_provenance (smp_trace mode prov) = Some (opt_or prov (default_provenance mode smp_spec))"
  by (simp_all add: smp_trace_def run_trace_for_def smp_run_def trace_id_for_def run_id_def smp_run_id_def
      smp_decisions_def run_outcome_def all_verifiers_passed_def smp_spec_def smp_action_def)

lemma smp_run_id_safe [simp]: "safe_record_id smp_run_id"
  by (simp add: smp_run_id_def flat_hash_def safe_record_id_def control_char_def)

lemma smp_run_saves:
  "run_loop flat_runtime smp_reader smp_generate (smp_run mode prov) s =
     (Inr (smp_trace mode prov, None), snd (save_run (smp_trace mode prov) s))"
proof -
  have steps: "can_transition DRAFT VALIDATED" "can_transition VALIDATED READY" "can_transition READY SIMULATING"
    by (simp_all add: can_transition_def)
  have spec: "rn_spec (smp_run mode prov) = smp_spec" "rn_mode (smp_run mode prov) = mode"
    "rn_simulated_at (smp_run mode prov) = 2000" by (simp_all add: smp_run_def)
  have no_case: "escalation_for (smp_run mode prov) x smp_output [smp_action] smp_decisions = None" for x
    by (simp add: escalation_for_def should_create_escalation_case_def smp_decisions_def smp_output_def)
  have vs: "run_verifiers flat_runtime smp_spec smp_output [smp_action] = []"
    by (simp add: run_verifiers_def smp_spec_def)
  show ?thesis
    by (simp add: run_loop_def Let_def act_bind_run steps spec smp_generate_def smp_prepared smp_policy no_case vs
        smp_trace_def [symmetric] save_run_run)
qed

lemma smp_storage_wf: "storage_wf (snd (save_run (smp_trace mode prov) empty_storage))"
  by (rule save_run_wf [OF empty_storage_wf])

lemma smp_get_run:
  "tr_id t = smp_run_id \<Longrightarrow> get_run (snd (save_run t empty_storage)) smp_run_id = Some t"
  by (simp add: get_run_def save_run_run)

subsection \<open>Reviews\<close>

definition smp_world :: "run_trace \<Rightarrow> world" where
  "smp_world t = \<lparr>w_store = empty_store, w_runs = snd (save_run t empty_storage), w_sent = [], w_ops = empty_ops,
     w_life = empty_lifecycle, w_outcomes = empty_outcomes, w_assigned = []\<rparr>"

definition smp_project :: project where
  "smp_project = \<lparr>pj_root_id = ''root'', pj_registered = [], pj_resolve = (\<lambda>p. None), pj_load = (\<lambda>p. Inl ''missing''), pj_plan = None,
     pj_metrics = []\<rparr>"

definition smp_lifecycle :: lifecycle_env where
  "smp_lifecycle = \<lparr>le_env_secret = Some ''secret'', le_generated = ''generated'', le_hmac = (\<lambda>k t. ''mac'')\<rparr>"

definition smp_review_env :: review_env where
  "smp_review_env = \<lparr>re_root = False, re_project = smp_project, re_now = 3000, re_adapters = (\<lambda>k. Some mock_adapter)\<rparr>"

lemma smp_adapters [simp]: "re_adapters smp_review_env k = Some mock_adapter"
  by (simp add: smp_review_env_def)

definition smp_review :: review_input where
  "smp_review = \<lparr>rvi_run = smp_run_id, rvi_status = DApproved, rvi_approved = Some [flat_hash], rvi_reviewer = ''ann'',
     rvi_role = Approver, rvi_comment = None, rvi_feedback = None, rvi_minutes = no_minutes, rvi_reassigned = None\<rparr>"

lemma smp_review_fields [simp]:
  "rvi_run smp_review = smp_run_id" "rvi_status smp_review = DApproved" "rvi_approved smp_review = Some [flat_hash]"
  "rvi_reviewer smp_review = ''ann''" "rvi_role smp_review = Approver"
  by (simp_all add: smp_review_def)

lemma smp_world_fields [simp]:
  "w_runs (smp_world t) = snd (save_run t empty_storage)" "w_sent (smp_world t) = []" "w_store (smp_world t) = empty_store"
  by (simp_all add: smp_world_def)

text \<open>The stored run, and a variant whose second action uses the same tool as the first.\<close>

definition smp_waiting :: run_trace where
  "smp_waiting = smp_trace ModeSimulate None"

definition smp_second :: prepared_action where
  "smp_second = smp_action\<lparr>pre_id := ''prepared_2'', pre_payload := [(''text'', JStr ''bye'')]\<rparr>"

definition smp_twice :: run_trace where
  "smp_twice = smp_waiting\<lparr>tr_prepared := [smp_action, smp_second],
     tr_calls := [initial_call ModeSimulate 2000 smp_action, initial_call ModeSimulate 2000 smp_second]\<rparr>"

lemma smp_waiting_fields [simp]:
  "tr_id smp_waiting = smp_run_id" "tr_status smp_waiting = WAITING_FOR_REVIEW"
  "tr_prepared smp_waiting = [smp_action]" "tr_reviews smp_waiting = []"
  "tr_calls smp_waiting = [initial_call ModeSimulate 2000 smp_action]" "tr_mode smp_waiting = ModeSimulate"
  "trace_commit_id smp_waiting = None" "trace_allowed_roles smp_waiting = [''approver'']"
  by (simp_all add: smp_waiting_def trace_commit_id_def trace_allowed_roles_def default_provenance_def smp_spec_def
      review_role_text_def)

lemma smp_action_fields [simp]:
  "pre_fingerprint smp_action = flat_hash" "pre_requires_approval smp_action" "\<not> pre_customer_facing smp_action"
  "pre_tool smp_action = ''draft''"
  by (simp_all add: smp_action_def)

lemma smp_review_id_safe: "safe_record_id (hr_id (review_record smp_review_env smp_review smp_waiting))"
  by (simp add: review_record_def smp_run_id_def flat_hash_def safe_record_id_def control_char_def nat_text.simps
      digit_char_def)

lemma smp_reviewed:
  "\<exists>t' r w'. apply_review_decision flat_runtime smp_review_env smp_review (smp_world smp_waiting) = (Inr (t', r), w')"
proof -
  have found: "get_run (snd (save_run smp_waiting empty_storage)) smp_run_id = Some smp_waiting"
    by (rule smp_get_run) simp
  have guards: "review_guards smp_review (snd (save_run smp_waiting empty_storage)) = Inr smp_waiting"
    by (simp add: review_guards_def found require_def js_trim_def js_space_def assert_reviewer_role_def
        review_role_text_def approval_guards_def assert_valid_selection_def assert_separated_approval_def)
  let ?r = "review_record smp_review_env smp_review smp_waiting"
  have r: "hr_approved ?r = [flat_hash]" "hr_status ?r = RvApproved"
    by (simp_all add: review_record_def map_review_status_def)
  have call: "tc_status (initial_call ModeSimulate 2000 smp_action) = CallPending"
    "tc_tool (initial_call ModeSimulate 2000 smp_action) = ''draft''"
    by (simp_all add: initial_call_def)
  have "\<exists>t' w'. decide_trace smp_review_env smp_review None (smp_waiting\<lparr>tr_reviews := [?r]\<rparr>) (smp_world smp_waiting) =
      (Inr t', w') \<and> w_runs w' = snd (save_run smp_waiting empty_storage) \<and> tr_id t' = smp_run_id"
    by (simp add: decide_trace_def approve_trace_def Let_def require_def cumulative_approved_def approved_reviews_def r
        pending_actions_def validate_approval_binding_def act_bind_run commit_prepared_actions_def commit_call_def call
        prepared_for_call_def mock_adapter_def)
  then obtain t' w' where d: "decide_trace smp_review_env smp_review None (smp_waiting\<lparr>tr_reviews := [?r]\<rparr>)
      (smp_world smp_waiting) = (Inr t', w')" and t': "tr_id t' = smp_run_id" by blast
  have "\<not> improvement_wanted ?r" by (simp add: improvement_wanted_def r)
  then have "\<exists>w''. store_review t' ?r w' = (Inr (t', ?r), w'')"
    using smp_review_id_safe t'
    by (simp add: store_review_def act_bind_run in_runs_def act_zoom_run save_review_run save_run_run)
  then obtain w'' where "store_review t' ?r w' = (Inr (t', ?r), w'')" by blast
  then show ?thesis
    using d guards
    by (simp add: apply_review_decision_def act_bind_run validate_review_context_def Let_def)
qed

subsection \<open>An escalation case\<close>

definition smp_case :: escalation_case where
  "smp_case = \<lparr>ec_id = ''case_1'', ec_run = smp_run_id, ec_loop = ''loop_a'', ec_created_at = 2000,
     ec_category = ''stalled'', ec_severity = P1, ec_confidence = JNum 1, ec_summary = ''s'', ec_evidence = [],
     ec_actions = [], ec_decisions = [], ec_owner = ''ann'', ec_reviewers = [], ec_informed = [], ec_deadline = 9000,
     ec_internal_actions = [], ec_customer_draft = None, ec_status = CaseOpen, ec_outcome = None\<rparr>"

definition smp_case_world :: world where
  "smp_case_world = (smp_world smp_waiting)\<lparr>w_runs :=
     snd (save_escalation_case smp_case (snd (save_run smp_waiting empty_storage)))\<rparr>"

definition smp_outcome :: case_outcome where
  "smp_outcome = \<lparr>co_summary = ''done'', co_resolved_at = None, co_business = None, co_customer = None,
     co_classification = None, co_follow_up = None\<rparr>"

definition smp_options :: lifecycle_options where
  "smp_options = \<lparr>lo_store = False, lo_event = None, lo_commit = None, lo_trace = None, lo_problem = None, lo_now = 4000,
     lo_keys = (None, None)\<rparr>"

lemma smp_case_safe [simp]: "safe_record_id ''case_1''"
  by (simp add: safe_record_id_def control_char_def)

lemma smp_case_found: "get_escalation_case (w_runs smp_case_world) ''case_1'' = Some smp_case"
  by (simp add: smp_case_world_def get_escalation_case_def save_escalation_case_run) (simp add: smp_case_def)

lemma smp_case_run_found: "get_run (w_runs smp_case_world) smp_run_id = Some smp_waiting"
  by (simp add: smp_case_world_def get_run_def save_escalation_case_run save_run_run)

lemma smp_case_wf: "storage_wf (w_runs smp_case_world)"
  by (simp add: smp_case_world_def save_case_wf save_run_wf empty_storage_wf)

subsection \<open>A Hermes agent, its job and an event\<close>

definition smp_agent :: hermes_agent where
  "smp_agent = \<lparr>ag_id = ''agent_1'', ag_workspace = ''w'', ag_organization = None, ag_name = ''A'',
     ag_environment = EnvLocal, ag_status = AgentOnline, ag_runtime_version = ''1'', ag_capabilities = [''crm''],
     ag_assigned_loops = [], ag_default_router = True, ag_public_key = None, ag_labels = [],
     ag_heartbeat_at = 1000, ag_registered_at = 500, ag_updated_at = 1000\<rparr>"

definition smp_dispatched :: route_job where
  "smp_dispatched = smp_job\<lparr>job_status := Dispatched, job_attempts := 1\<rparr>"

definition smp_commit :: route_commit where
  "smp_commit = \<lparr>rcm_id = ''commit_1'', rcm_event_id = ''evt_1'', rcm_problem_id = ''p'', rcm_loop_id = ''loop_a'',
     rcm_loop_spec_hash = ''h'', rcm_attempt_id = ''a'', rcm_run_id = None, rcm_status = CQueued,
     rcm_input_mapping = [], rcm_committed_at = 1000\<rparr>"

definition smp_event :: hermes_event where
  "smp_event = \<lparr>he_id = ''he_1'', he_key = ''key_1'', he_workspace = ''w'', he_organization = None, he_company = ''c'',
     he_agent = ''agent_1'', he_type = RunStarted, he_job = ''job_1'', he_commit = ''commit_1'', he_attempt = ''a'',
     he_event = ''evt_1'', he_problem = ''p'', he_loop = ''loop_a'', he_loop_spec_hash = ''h'', he_run = ''run_1'',
     he_correlation = ''k'', he_sequence = 1, he_task = None, he_tool = None, he_approval = None, he_output = None,
     he_outcome = None, he_error = None, he_summary = None, he_occurred_at = 3000, he_recorded_at = 3000\<rparr>"

definition smp_hermes_store :: routing_store where
  "smp_hermes_store = smp_store\<lparr>st_jobs := [(''job_1'', smp_dispatched)], st_commits := [(''commit_1'', smp_commit)]\<rparr>"

definition smp_hermes_world :: "(str \<times> hermes_event) list \<Rightarrow> world" where
  "smp_hermes_world events = \<lparr>w_store = smp_hermes_store, w_runs = empty_storage, w_sent = [],
     w_ops = \<lparr>ho_agents = [(''agent_1'', smp_agent)], ho_events = events\<rparr>, w_life = empty_lifecycle, w_outcomes = empty_outcomes, w_assigned = []\<rparr>"

lemma smp_event_ok: "hermes_event_ok smp_event"
  by (simp add: hermes_event_ok_def smp_event_def len_ok_def opt_len_ok_def opt_max_ok_def opt_ok_def event_parts_ok_def)

lemma smp_agent_ok: "agent_ok smp_agent"
  by (simp add: agent_ok_def smp_agent_def len_ok_def opt_len_ok_def)

lemma smp_dispatched_ok: "job_ok smp_dispatched"
  using smp_job_ok(1) by (simp add: job_ok_def smp_dispatched_def)

lemma smp_commit_ok: "commit_ok (smp_commit\<lparr>rcm_status := s, rcm_run_id := r\<rparr>)" "commit_ok smp_commit"
  by (simp_all add: commit_ok_def smp_commit_def)

lemma smp_hermes_wf: "store_wf smp_hermes_store"
  using smp_store_wf
  by (simp add: store_wf_def smp_hermes_store_def coll_wf_def) (simp add: smp_dispatched_def smp_job_def smp_commit_def)

lemma smp_hermes_found:
  "get_route_job smp_hermes_store ''job_1'' = Some smp_dispatched"
  "get_event_receipt smp_hermes_store ''evt_1'' = Some smp_receipt"
  "list_route_commits smp_hermes_store None = [smp_commit]"
proof -
  show "get_route_job smp_hermes_store ''job_1'' = Some smp_dispatched"
    using smp_dispatched_ok by (simp add: get_route_job_def record_get_def smp_hermes_store_def coll_get_def)
  have "get_event_receipt smp_hermes_store e = get_event_receipt smp_store e" for e
    by (simp add: get_event_receipt_def list_event_receipts_def smp_hermes_store_def)
  then show "get_event_receipt smp_hermes_store ''evt_1'' = Some smp_receipt" by (simp add: smp_receipt_got)
  show "list_route_commits smp_hermes_store None = [smp_commit]"
    using smp_commit_ok(2) by (simp add: list_route_commits_def record_list_def smp_hermes_store_def coll_values_def)
qed

lemma smp_bound:
  assumes "events = [] \<or> events = [(event_file flat_runtime ''key_1'', smp_event)]"
  shows "hermes_guards smp_event (smp_hermes_world events) = Inr (smp_dispatched, smp_receipt)"
proof -
  have "event_bound smp_event smp_dispatched smp_agent"
    by (simp add: event_bound_def smp_event_def smp_dispatched_def smp_job_def smp_agent_def)
  moreover have "he_run smp_event \<noteq> []" by (simp add: smp_event_def)
  ultimately show ?thesis
    using assms smp_agent_ok smp_event_ok smp_hermes_found
    by (auto simp: hermes_guards_Inr smp_hermes_world_def get_agent_def coll_get_def sequence_taken_iff coll_values_def)
      (simp_all add: smp_event_def smp_dispatched_def smp_job_def smp_agent_def)
qed

lemma smp_started:
  "\<exists>x w'. ingest_hermes_event flat_runtime None smp_event (smp_hermes_world []) = (Inr x, w') \<and> hi_event x = smp_event"
proof -
  let ?w = "smp_hermes_world []"
  have w: "w_store ?w = smp_hermes_store" "w_runs ?w = empty_storage" "ho_events (w_ops ?w) = []"
    by (simp_all add: smp_hermes_world_def)
  obtain ops where appended: "append_execution_event flat_runtime smp_event (w_ops ?w) = (Inr (smp_event, True), ops)"
    using append_new_run [OF smp_event_ok, of "w_ops ?w" flat_runtime] by (simp add: w(3))
  have ids: "job_run_id smp_dispatched = ''run_1''" "job_commit_id smp_dispatched = ''commit_1''"
    "rcm_id smp_commit = ''commit_1''" "job_id smp_dispatched = ''job_1''" "he_type smp_event = RunStarted"
    by (simp_all add: smp_dispatched_def smp_job_def smp_commit_def smp_event_def)
  have fresh: "get_run empty_storage k = None" for k by (simp add: get_run_def empty_storage_def)
  have safe: "safe_record_id ''run_1''" by (simp add: safe_record_id_def control_char_def)
  define t where "t = project_event_to_trace flat_runtime smp_event smp_dispatched sample_event None"
  have t: "tr_id t = ''run_1''" by (simp add: t_def ids)
  let ?c = "smp_commit\<lparr>rcm_status := CRunning, rcm_run_id := Some (he_run smp_event)\<rparr>"
  let ?st = "snd (save_route_commit ?c smp_hermes_store)"
  have job: "get_route_job ?st ''job_1'' = Some smp_dispatched"
    using get_job_frame [OF save_commit_frame(1)] smp_hermes_found(1) by simp
  have problem: "get_business_problem ?st k = None" for k
    by (simp add: get_business_problem_def record_get_def save_problem_frame save_commit_frame smp_hermes_store_def
        smp_store_def empty_store_def)
  have run_ok: "job_ok (apply_status \<lparr>su_status = Running, su_clear_lease = False, su_token = None, su_result = None,
      su_run_id = None\<rparr> now smp_dispatched)" for now
    using smp_dispatched_ok by (simp add: job_ok_def apply_status_def)
  have "\<exists>j st. project_execution_state smp_event smp_dispatched smp_commit t now smp_hermes_store = (Inr j, st)" for now
    using smp_commit_ok job problem run_ok
    by (simp add: project_execution_state_def ids project_step_def act_bind_run save_runs update_problem_def
        mark_route_job_running_def update_route_job_status_def mutate_run require_def)
  then obtain j st where "project_execution_state smp_event smp_dispatched smp_commit t (he_recorded_at smp_event)
      smp_hermes_store = (Inr j, st)" by blast
  then show ?thesis
    using appended
    by (simp add: ingest_hermes_event_def act_bind_run smp_bound in_ops_def in_runs_def in_store_def act_zoom_run w ids
        smp_hermes_found fresh t_def [symmetric] save_run_run t safe Let_def)
qed

end
