(* ===== verification/RunWitnesses.thy ===== *)
theory RunWitnesses imports RunSamples begin

text \<open>
  Instances of the properties of runs, the live gate, reviews, cases and Hermes events on concrete
  worlds: each discharges the hypotheses of one theorem.
\<close>

subsection \<open>Runs\<close>

theorem run_index_consistent_witness:
  "list_runs (snd (save_run (smp_trace ModeSimulate None) empty_storage)) =
     [\<lparr>ri_id = smp_run_id, ri_loop = ''loop_a'', ri_status = WAITING_FOR_REVIEW\<rparr>] \<and>
   (\<exists>t. get_run (snd (save_run (smp_trace ModeSimulate None) empty_storage)) smp_run_id = Some t \<and>
     tr_status t = WAITING_FOR_REVIEW)"
proof -
  let ?s = "snd (save_run (smp_trace ModeSimulate None) empty_storage)"
  have "storage_run empty_storage ?s"
    by (rule sr_run [OF sr_refl])
  note index = run_index_consistent [OF this]
  have l: "list_runs ?s = [\<lparr>ri_id = smp_run_id, ri_loop = ''loop_a'', ri_status = WAITING_FOR_REVIEW\<rparr>]"
    by (simp add: list_runs_def save_run_run index_run_def empty_storage_def)
  from index [THEN conjunct2, THEN spec, of "\<lparr>ri_id = smp_run_id, ri_loop = ''loop_a'', ri_status = WAITING_FOR_REVIEW\<rparr>"]
  show ?thesis unfolding l by auto
qed

theorem run_loop_outcome_witness:
  "fst (run_loop flat_runtime smp_reader smp_generate (smp_run ModeSimulate None) empty_storage) =
     Inr (smp_trace ModeSimulate None, None) \<and>
   run_path DRAFT [VALIDATED, READY, SIMULATING, PROPOSED_ACTIONS, VERIFYING, WAITING_FOR_REVIEW] WAITING_FOR_REVIEW"
  using run_loop_outcome [OF smp_run_saves [of ModeSimulate None] empty_storage_wf]
  by (simp add: smp_run_saves)

theorem run_commits_nothing_unapproved_witness:
  "tc_status ` set (tr_calls (smp_trace ModeSimulate None)) \<subseteq> {CallPending}"
  using run_commits_nothing_unapproved [OF smp_run_saves [of ModeSimulate None empty_storage]]
  by (auto simp: smp_action_def)

theorem rerun_replaces_trace_witness:
  "length (filter (\<lambda>x. ri_id x = smp_run_id)
     (list_runs (snd (save_run (smp_trace ModeDryRun None) (snd (save_run (smp_trace ModeSimulate None) empty_storage)))))) = 1"
proof -
  have "rn_spec (smp_run ModeDryRun None) = rn_spec (smp_run ModeSimulate None)"
    "rn_event (smp_run ModeDryRun None) = rn_event (smp_run ModeSimulate None)" by (simp_all add: smp_run_def)
  from rerun_replaces_trace [OF smp_run_saves smp_run_saves this empty_storage_wf] show ?thesis by simp
qed

subsection \<open>The live gate\<close>

lemma smp_gate_requirements: "live_connection_requirements smp_spec = []"
  by (simp add: live_connection_requirements_def smp_spec_def smp_contract_def)

theorem gate_allows_iff_witness: "gate_allowed (evaluate_live_execution_gate smp_spec None 2000)"
  unfolding gate_allows_iff [of smp_spec None 2000]
proof (intro exI [of _ smp_contract] conjI)
  show "live_connection_requirements smp_spec = [] \<or>
    (\<exists>items. None = Some items \<and> (\<forall>(k, f)\<in>set (live_connection_requirements smp_spec). requirement_connected items k))"
    by (simp add: smp_gate_requirements)
qed (simp_all add: smp_spec_def smp_contract_def live_mode_def write_tool_safe_def allowed_action_safe_def map_by_def
    highest_risk_def risk_index_def)

definition smp_execute :: execute_input where
  "smp_execute = \<lparr>xi_spec = smp_spec, xi_payload = [], xi_event = ''evt_1'', xi_started_at = 2000, xi_now = 2000,
     xi_plan = None, xi_invoked_by = None\<rparr>"

lemma smp_gate_open: "gate_allowed (evaluate_live_execution_gate smp_spec None now)"
  by (simp add: evaluate_live_execution_gate_def evaluate_connection_gate_def smp_gate_requirements Let_def
      evaluate_action_policy_gate_def)
    (simp add: smp_spec_def smp_contract_def live_mode_def tool_gate_reasons_def action_gate_reasons_def map_by_def
      highest_risk_def risk_index_def)

theorem execute_loop_gated_witness:
  "\<exists>t c s'. execute_loop flat_runtime smp_reader smp_generate (\<lambda>_. []) True smp_execute empty_storage = (Inr (t, c), s') \<and>
     (\<forall>k\<in>set (tr_calls t). tc_status k = CallPending)"
proof -
  have "\<exists>t c s'. execute_loop flat_runtime smp_reader smp_generate (\<lambda>_. []) True smp_execute empty_storage = (Inr (t, c), s')"
    by (simp add: execute_loop_def smp_execute_def smp_gate_open require_def act_bind_run Let_def
        smp_run_saves [unfolded smp_run_def])
  then obtain t c s' where
    run: "execute_loop flat_runtime smp_reader smp_generate (\<lambda>_. []) True smp_execute empty_storage = (Inr (t, c), s')"
    by blast
  from execute_loop_gated [OF this] run show ?thesis by blast
qed

subsection \<open>Reviews\<close>

theorem review_admission_witness:
  "review_role_text (rvi_role smp_review) \<in> set (trace_allowed_roles smp_waiting) \<and>
   tr_status smp_waiting = WAITING_FOR_REVIEW"
proof -
  obtain t' r w' where "apply_review_decision flat_runtime smp_review_env smp_review (smp_world smp_waiting) = (Inr (t', r), w')"
    using smp_reviewed by blast
  from review_admission [OF this] smp_get_run [of smp_waiting] show ?thesis by auto
qed

theorem review_sends_only_approved_witness:
  "snd ` set (w_sent (snd (apply_review_decision flat_runtime smp_review_env smp_review (smp_world smp_waiting))))
     \<subseteq> {smp_action}"
proof -
  obtain out w' where run: "apply_review_decision flat_runtime smp_review_env smp_review (smp_world smp_waiting) = (out, w')"
    by (meson surj_pair)
  from review_sends_only_approved [OF run] smp_get_run [of smp_waiting] run show ?thesis by auto
qed

theorem second_action_of_tool_never_sent_witness:
  "smp_second \<notin> snd ` set (w_sent (snd (apply_review_decision flat_runtime smp_review_env smp_review (smp_world smp_twice))))"
proof -
  obtain out w' where run: "apply_review_decision flat_runtime smp_review_env smp_review (smp_world smp_twice) = (out, w')"
    by (meson surj_pair)
  have "get_run (w_runs (smp_world smp_twice)) (rvi_run smp_review) = Some smp_twice"
    by (simp add: smp_get_run smp_twice_def)
  moreover have "find (\<lambda>x. pre_tool x = pre_tool smp_second) (tr_prepared smp_twice) = Some smp_action"
    by (simp add: smp_twice_def smp_second_def)
  moreover have "smp_second \<noteq> smp_action" by (simp add: smp_second_def smp_action_def)
  ultimately show ?thesis using second_action_of_tool_never_sent [OF run] run by force
qed

theorem review_outcome_witness:
  "\<exists>t'. get_run (w_runs (snd (apply_review_decision flat_runtime smp_review_env smp_review (smp_world smp_waiting))))
      smp_run_id = Some t' \<and> tr_status t' = COMPLETED"
proof -
  obtain t' r w' where run:
    "apply_review_decision flat_runtime smp_review_env smp_review (smp_world smp_waiting) = (Inr (t', r), w')"
    using smp_reviewed by blast
  have found: "get_run (w_runs (smp_world smp_waiting)) (rvi_run smp_review) = Some smp_waiting"
    by (simp add: smp_get_run)
  have "storage_wf (w_runs (smp_world smp_waiting))" by (simp add: save_run_wf empty_storage_wf)
  from review_outcome [OF this run found]
  have "tr_status t' = decided_status smp_review smp_waiting" "get_run (w_runs w') smp_run_id = Some t'" by simp_all
  moreover have "decided_status smp_review smp_waiting = COMPLETED"
    by (simp add: decided_status_def pending_actions_def validate_approval_binding_def cumulative_approved_def
        approved_reviews_def)
  ultimately show ?thesis using run by simp
qed

theorem refused_review_inert_witness:
  "w_runs (snd (apply_review_decision flat_runtime smp_review_env (smp_review\<lparr>rvi_reviewer := []\<rparr>) (smp_world smp_waiting))) =
   w_runs (smp_world smp_waiting)"
proof -
  have "apply_review_decision flat_runtime smp_review_env (smp_review\<lparr>rvi_reviewer := []\<rparr>) (smp_world smp_waiting) =
      (Inl ReviewerMissing, smp_world smp_waiting)"
    by (simp add: apply_review_decision_def review_guards_def js_trim_def require_def act_bind_run)
  moreover have "storage_wf (w_runs (smp_world smp_waiting))" by (simp add: save_run_wf empty_storage_wf)
  ultimately show ?thesis using refused_review_inert by (metis snd_conv)
qed

subsection \<open>Cases\<close>

theorem resolve_case_spec_witness:
  "\<exists>r w'. resolve_case_with_lifecycle flat_runtime smp_lifecycle ''case_1'' smp_outcome smp_options smp_case_world = (Inr r, w') \<and>
     get_escalation_case (w_runs w') ''case_1'' = Some (smp_case\<lparr>ec_status := CaseResolved, ec_outcome := Some smp_outcome\<rparr>)"
proof -
  have ids: "ec_id smp_case = ''case_1''" "ec_run smp_case = smp_run_id" by (simp_all add: smp_case_def)
  have "\<exists>r w'. resolve_case_with_lifecycle flat_runtime smp_lifecycle ''case_1'' smp_outcome smp_options smp_case_world = (Inr r, w')"
    using smp_case_found smp_case_run_found
    by (simp add: resolve_case_with_lifecycle_def transition_case_status_def write_case_outcome_to_trace_def act_bind_run
        ids in_runs_def act_zoom_run save_run_run save_escalation_case_run get_run_def Let_def
        emit_outcome_if_possible_def smp_options_def)
  then obtain r w' where
    run: "resolve_case_with_lifecycle flat_runtime smp_lifecycle ''case_1'' smp_outcome smp_options smp_case_world = (Inr r, w')"
    by blast
  from resolve_case_spec [OF smp_case_wf run] smp_case_found
  have "get_escalation_case (w_runs w') ''case_1'' = Some (smp_case\<lparr>ec_status := CaseResolved, ec_outcome := Some smp_outcome\<rparr>)"
    by auto
  with run show ?thesis by blast
qed

subsection \<open>Hermes\<close>

theorem append_event_once_witness:
  "\<exists>s. append_execution_event flat_runtime smp_event empty_ops = (Inr (smp_event, True), s) \<and>
     append_execution_event flat_runtime smp_event s = (Inr (smp_event, False), s)"
proof -
  have "coll_get (ho_events empty_ops) (event_file flat_runtime (he_key smp_event)) = None" by (simp add: empty_ops_def)
  from append_new_run [OF smp_event_ok this]
  obtain s where s: "append_execution_event flat_runtime smp_event empty_ops = (Inr (smp_event, True), s)" by blast
  from append_event_once [OF s] s show ?thesis by blast
qed

theorem select_agent_spec_witness:
  "select_agent flat_runtime (w_ops (smp_hermes_world [])) \<lparr>aq_workspace = ''w'', aq_environment = EnvLocal,
     aq_capabilities = [''crm''], aq_loop = Some ''loop_a'', aq_preferred = None, aq_now = 2000, aq_ttl_seconds = 60\<rparr> =
   Some smp_agent"
proof -
  let ?s = "w_ops (smp_hermes_world [])"
  let ?q = "\<lparr>aq_workspace = ''w'', aq_environment = EnvLocal, aq_capabilities = [''crm''], aq_loop = Some ''loop_a'',
     aq_preferred = None, aq_now = 2000, aq_ttl_seconds = 60\<rparr>"
  have may: "may_execute ?s ?q a \<longleftrightarrow> a = smp_agent" for a
    using smp_agent_ok
    by (auto simp: may_execute_def smp_hermes_world_def coll_values_def agent_eligible_def)
      (auto simp: smp_agent_def)
  show ?thesis
    using select_agent_spec [where R = flat_runtime and s = ?s and q = ?q] may by (auto split: option.splits)
qed

theorem hermes_event_is_bound_witness:
  "\<exists>x w'. ingest_hermes_event flat_runtime None smp_event (smp_hermes_world []) = (Inr x, w') \<and>
     event_bound smp_event smp_dispatched smp_agent"
proof -
  obtain x w' where run: "ingest_hermes_event flat_runtime None smp_event (smp_hermes_world []) = (Inr x, w')"
    using smp_started by blast
  have e: "he_job smp_event = ''job_1''" "he_agent smp_event = ''agent_1''" by (simp_all add: smp_event_def)
  from hermes_event_is_bound [OF run, THEN conjunct1, THEN spec, of x]
  have "\<exists>j a. get_route_job (w_store (smp_hermes_world [])) ''job_1'' = Some j \<and>
      get_agent (w_ops (smp_hermes_world [])) ''agent_1'' = Some a \<and> event_bound smp_event j a"
    unfolding e by blast
  then have "event_bound smp_event smp_dispatched smp_agent"
    using smp_hermes_found smp_agent_ok by (simp add: smp_hermes_world_def get_agent_def coll_get_def)
  with run show ?thesis by blast
qed

theorem hermes_event_moves_job_witness:
  "\<exists>x w'. ingest_hermes_event flat_runtime None smp_event (smp_hermes_world []) = (Inr x, w') \<and>
     get_route_job (w_store w') ''job_1'' = Some (hi_job x) \<and> job_status (hi_job x) = Running"
proof -
  obtain x w' where run: "ingest_hermes_event flat_runtime None smp_event (smp_hermes_world []) = (Inr x, w')"
    and ev: "hi_event x = smp_event"
    using smp_started by blast
  have e: "he_job smp_event = ''job_1''" "hermes_effect smp_event = Some (CRunning, {Running})"
    by (simp_all add: smp_event_def hermes_effect_def)
  have "store_wf (w_store (smp_hermes_world []))" "storage_wf (w_runs (smp_hermes_world []))"
    using smp_hermes_wf empty_storage_wf by (simp_all add: smp_hermes_world_def)
  from hermes_event_moves_job [OF this run] show ?thesis
    using run unfolding ev e by auto
qed

theorem repeated_start_reopens_job_witness:
  "\<exists>x w'. ingest_hermes_event flat_runtime None smp_event
       (smp_hermes_world [(event_file flat_runtime ''key_1'', smp_event)]) = (Inr x, w') \<and>
     \<not> hi_created x \<and> job_status (hi_job x) = Running \<and> due_job 5000 (hi_job x)"
proof -
  let ?w = "smp_hermes_world [(event_file flat_runtime ''key_1'', smp_event)]"
  have e: "he_key smp_event = ''key_1''" "he_type smp_event = RunStarted" by (simp_all add: smp_event_def)
  have wf: "store_wf (w_store ?w)" "storage_wf (w_runs ?w)"
    using smp_hermes_wf empty_storage_wf by (simp_all add: smp_hermes_world_def)
  have logged: "coll_get (ho_events (w_ops ?w)) (event_file flat_runtime (he_key smp_event)) = Some smp_event"
    by (simp add: smp_hermes_world_def coll_get_def e)
  have commit: "find (\<lambda>c. rcm_id c = job_commit_id smp_dispatched) (list_route_commits (w_store ?w) None) = Some smp_commit"
    using smp_hermes_found(3) by (simp add: smp_hermes_world_def) (simp add: smp_commit_def smp_dispatched_def smp_job_def)
  have safe: "safe_record_id (job_run_id smp_dispatched)"
    by (simp add: smp_dispatched_def smp_job_def safe_record_id_def control_char_def)
  have j: "job_lease smp_dispatched = None" "job_attempts smp_dispatched < job_max_attempts smp_dispatched"
    "job_next_run_at smp_dispatched \<le> 5000" by (simp_all add: smp_dispatched_def smp_job_def)
  have bound: "hermes_guards smp_event ?w = Inr (smp_dispatched, smp_receipt)" by (rule smp_bound) simp
  from repeated_start_reopens_job [OF wf logged e(2) bound commit safe, of None 5000] j
  show ?thesis by blast
qed

end
