(* ===== verification/OutcomeWitnesses.thy ===== *)
theory OutcomeWitnesses imports RunSamples begin

text \<open>
  Instances of the properties of lifecycle notices, observed outcomes and the value ledger on concrete
  stores: a loop whose metric rose from 10 to 20, and a store with more samples than one outcome can cite.
\<close>

subsection \<open>Notices\<close>

definition smp_route_commit :: route_commit where
  "smp_route_commit = smp_commit\<lparr>rcm_status := CQueued\<rparr>"

lemma smp_accepted_notice:
  "\<exists>d s'. emit_route_accepted flat_runtime smp_lifecycle (None, None) sample_event smp_route_commit None 3000 empty_lifecycle =
     (Inr (Emitted d), s')"
proof -
  let ?n = "route_accepted_notice sample_event smp_route_commit None"
  let ?e = "notice_event flat_runtime sample_event ?n 3000"
  have ok: "event_ok ?e"
    by (simp add: event_ok_def notice_event_def route_accepted_notice_def sample_event_def subject_ok_def
        create_event_envelope_id_def smp_route_commit_def smp_commit_def binding_fields_def loopgraph_route_def
        lifecycle_type_text_def problem_evidence_def)
  have del: "delivery_ok (notice_delivery flat_runtime smp_lifecycle ?e ?n 3000 (s, k, ws))" if "k \<noteq> []" for s k ws
    using ok that by (simp add: delivery_ok_def notice_delivery_def notice_event_def create_event_envelope_id_def
        sign_lifecycle_event_def)
  have "lifecycle_cycle_guard sample_event = None"
    by (simp add: lifecycle_cycle_guard_def sample_event_def loopgraph_route_def notification_only_def max_hop_count_def)
  then show ?thesis
    using ok del by (simp add: emit_route_accepted_def emit_notice_def resolve_lifecycle_signing_def smp_lifecycle_def
        act_bind_run save_delivery_run require_def opt_or_def Let_def)
qed

theorem notices_never_chain_witness:
  "\<exists>d s'. emit_route_accepted flat_runtime smp_lifecycle (None, None) sample_event smp_route_commit None 3000 empty_lifecycle =
     (Inr (Emitted d), s') \<and> coll_get (lf_deliveries s') (ld_id d) = Some d \<and> ev_hop_count (ld_event d) = 1 \<and>
     \<not> emission flat_runtime smp_lifecycle (ld_event d) s' d s'"
proof -
  obtain d s' where run: "emit_route_accepted flat_runtime smp_lifecycle (None, None) sample_event smp_route_commit None 3000
      empty_lifecycle = (Inr (Emitted d), s')" using smp_accepted_notice by blast
  then have "emission flat_runtime smp_lifecycle sample_event empty_lifecycle d s'" by (rule em_accepted)
  from notices_never_chain [OF this, of s' d s'] run show ?thesis by (auto simp: sample_event_def)
qed

subsection \<open>Outcomes\<close>

definition smp_sample :: "str \<Rightarrow> rat \<Rightarrow> measurement_window \<Rightarrow> metric_sample" where
  "smp_sample k v w =
     \<lparr>ms_id = k, ms_key = k, ms_workspace = ''w'', ms_company = ''c'', ms_department = None, ms_loop = Some ''loop_a'',
      ms_metric = ''m_1'', ms_metric_key = ''won'', ms_value = v, ms_unit = ''count'', ms_window = w, ms_observed_at = 0,
      ms_recorded_at = 0, ms_truth = TruthObserved,
      ms_source = \<lparr>src_type = FromIntegration, src_ref = ''crm'', src_connector = None, src_run = None, src_review = None\<rparr>,
      ms_quality = \<lparr>ql_status = QVerified, ql_reason = None, ql_deadline = None\<rparr>, ms_evidence = []\<rparr>"

definition smp_before :: measurement_window where
  "smp_before = \<lparr>win_start = 0, win_end = 100\<rparr>"

definition smp_after :: measurement_window where
  "smp_after = \<lparr>win_start = 200, win_end = 300\<rparr>"

definition smp_metric :: metric_definition where
  "smp_metric = \<lparr>md_id = ''m_1'', md_company = ''c'', md_department = None, md_loop = Some ''loop_a'', md_key = ''won'',
     md_type = MCount, md_unit = None, md_direction = Some Increase, md_target = None, md_window_days = None,
     md_value_minutes = Some 3, md_value_amount = None, md_value_currency = None\<rparr>"

definition smp_evaluation :: "rat option \<Rightarrow> outcome_input" where
  "smp_evaluation target = \<lparr>oi_workspace = ''w'', oi_company = ''c'', oi_department = None, oi_loop = ''loop_a'',
     oi_metric = smp_metric\<lparr>md_target := target\<rparr>, oi_baseline = smp_before, oi_evaluation = smp_after,
     oi_direction = None, oi_min_baseline = 1, oi_min_observed = 1, oi_tolerance = 0, oi_guardrails = [], oi_runs = [],
     oi_problems = [], oi_now = 400\<rparr>"

definition smp_outcomes :: outcome_store where
  "smp_outcomes = empty_outcomes\<lparr>os_samples :=
     [(''s_1'', smp_sample ''s_1'' 10 smp_before), (''s_2'', smp_sample ''s_2'' 20 smp_after)]\<rparr>"

lemma smp_outcomes_wf: "outcomes_wf smp_outcomes"
  by (simp add: outcomes_wf_def coll_wf_def smp_outcomes_def empty_outcomes_def smp_sample_def)

lemma smp_sample_ok: "k \<noteq> [] \<Longrightarrow> w \<in> {smp_before, smp_after} \<Longrightarrow> metric_sample_ok (smp_sample k v w)"
  by (auto simp: metric_sample_ok_def smp_sample_def smp_before_def smp_after_def window_ok_def not_empty_def
      bounded_text_def)

lemma smp_sample_counts:
  "sample_counts (smp_evaluation t) smp_before (smp_sample k v w) \<longleftrightarrow> 0 < win_end w \<and> win_start w < 100"
  "sample_counts (smp_evaluation t) smp_after (smp_sample k v w) \<longleftrightarrow> 200 < win_end w \<and> win_start w < 300"
  by (auto simp: sample_counts_def smp_evaluation_def smp_sample_def smp_before_def smp_after_def keeps_filter_def
      smp_metric_def)

lemma smp_window_samples:
  "window_samples flat_runtime (smp_evaluation t) smp_before smp_outcomes = [smp_sample ''s_1'' 10 smp_before]"
  "window_samples flat_runtime (smp_evaluation t) smp_after smp_outcomes = [smp_sample ''s_2'' 20 smp_after]"
  using smp_sample_ok
  by (simp_all add: window_samples_def usable_samples_def list_metric_samples_def file_order_def smp_outcomes_def
      empty_outcomes_def sample_selected_def keeps_filter_def smp_evaluation_def)
    (simp_all add: smp_sample_def smp_before_def smp_after_def smp_metric_def)

definition smp_observed :: "rat option \<Rightarrow> observed_outcome" where
  "smp_observed t = outcome_of flat_runtime (smp_evaluation t) [smp_sample ''s_1'' 10 smp_before] [smp_sample ''s_2'' 20 smp_after]"

definition smp_outcome_id :: str where
  "smp_outcome_id = ''outcome_'' @ flat_hash"

lemma smp_outcome_id_safe [simp]: "safe_record_id smp_outcome_id"
  by (simp add: smp_outcome_id_def flat_hash_def safe_record_id_def control_char_def)

lemma smp_observed_id [simp]: "oo_id (smp_observed t) = smp_outcome_id"
  by (simp add: smp_observed_def outcome_id_def smp_outcome_id_def)

lemma smp_observed_truth: "oo_truth (smp_observed t) = TruthObserved"
  by (simp add: smp_observed_def outcome_truth_observed sufficient_iff smp_evaluation_def) (simp add: smp_sample_def)

lemma smp_sufficient: "sufficient_evidence (smp_evaluation t) [a] [b]"
  by (simp add: sufficient_iff smp_evaluation_def)

lemma length_unique_texts: "length (unique_texts xs) \<le> length xs"
proof -
  have "length (unique_texts xs) = card (set (unique_texts xs))"
    by (rule distinct_card [symmetric]) (simp add: unique_texts_def)
  also have "\<dots> \<le> card (set xs)" by (rule card_mono) auto
  also have "\<dots> \<le> length xs" by (rule card_length)
  finally show ?thesis .
qed

lemma smp_fields_of_evaluation:
  "oi_workspace (smp_evaluation t) = ''w''" "oi_company (smp_evaluation t) = ''c''" "oi_department (smp_evaluation t) = None"
  "oi_loop (smp_evaluation t) = ''loop_a''" "oi_metric (smp_evaluation t) = smp_metric\<lparr>md_target := t\<rparr>"
  "oi_baseline (smp_evaluation t) = smp_before" "oi_evaluation (smp_evaluation t) = smp_after"
  "oi_guardrails (smp_evaluation t) = []" "oi_runs (smp_evaluation t) = []" "oi_problems (smp_evaluation t) = []"
  "oi_min_baseline (smp_evaluation t) = 1" "oi_min_observed (smp_evaluation t) = 1"
  by (simp_all add: smp_evaluation_def)

lemma smp_observed_ok: "observed_outcome_ok (smp_observed t)"
proof -
  let ?a = "smp_sample ''s_1'' 10 smp_before" and ?b = "smp_sample ''s_2'' 20 smp_after"
  have ids: "ms_id ?a = ''s_1''" "ms_id ?b = ''s_2''" by (simp_all add: smp_sample_def)
  have ev: "list_all (bounded_text 512) (oo_evidence (smp_observed t))" "length (oo_evidence (smp_observed t)) \<le> 200"
    using length_unique_texts [of "[''metric_sample:s_1'', ''metric_sample:s_2'']"]
    by (simp_all add: smp_observed_def ids list_all_iff bounded_text_def)
  have "\<lfloor>2001 / 2 :: rat\<rfloor> = 1000" by (rule floor_unique) simp_all
  then have conf: "oo_confidence (smp_observed t) = 1"
    using smp_sufficient by (simp add: smp_observed_def outcome_of_def Let_def smp_fields_of_evaluation coverage_def round3_def)
  have unit: "oo_unit (smp_observed t) = ''count''"
    by (simp add: smp_observed_def outcome_of_def Let_def smp_fields_of_evaluation outcome_unit_def smp_metric_def smp_sample_def)
  have ms: "oo_baseline (smp_observed t) = Some \<lparr>mm_value = 10, mm_samples = [''s_1'']\<rparr>"
    "oo_observed (smp_observed t) = Some \<lparr>mm_value = 20, mm_samples = [''s_2'']\<rparr>"
    by (simp_all add: smp_observed_def outcome_of_def Let_def measured_def average_def sample_ids_def smp_sample_def)
  have none: "oo_reasons (smp_observed t) = []" "oo_guardrails (smp_observed t) = []" "oo_runs (smp_observed t) = []"
    "oo_problems (smp_observed t) = []" "oo_department (smp_observed t) = None"
    by (simp_all add: smp_observed_def outcome_of_def Let_def smp_fields_of_evaluation insufficiency_def unique_texts_def
        smp_metric_def opt_first_def)
  have texts: "oo_workspace (smp_observed t) = ''w''" "oo_company (smp_observed t) = ''c''" "oo_loop (smp_observed t) = ''loop_a''"
    "oo_metric (smp_observed t) = ''m_1''" "oo_metric_key (smp_observed t) = ''won''" "oo_window (smp_observed t) = smp_after"
    by (simp_all add: smp_observed_def outcome_of_def Let_def smp_fields_of_evaluation smp_metric_def)
  have "oo_sufficient (smp_observed t)" using smp_sufficient by (simp add: smp_observed_def)
  then show ?thesis
    using ev
    by (simp add: observed_outcome_ok_def conf unit ms none texts smp_outcome_id_def not_empty_def bounded_text_def
        window_ok_def smp_after_def measurement_ok_def)
qed

lemma smp_evaluated:
  "evaluate_observed_outcome flat_runtime (smp_evaluation t) smp_outcomes =
     (Inr (smp_observed t, False), smp_outcomes\<lparr>os_outcomes := [(smp_outcome_id, smp_observed t)]\<rparr>)"
proof -
  have "read_valid observed_outcome_ok (os_outcomes smp_outcomes) k = None" "os_outcomes smp_outcomes = []" for k
    by (simp_all add: read_valid_def smp_outcomes_def empty_outcomes_def)
  then show ?thesis
    using smp_observed_ok
    by (simp add: evaluate_run smp_fields_of_evaluation smp_window_samples smp_observed_def [symmetric]
        save_observed_outcome_def save_idempotent_run)
qed

theorem outcome_evidence_witness:
  "get_observed_outcome smp_outcome_id (snd (evaluate_observed_outcome flat_runtime (smp_evaluation None) smp_outcomes)) =
     Inr (Some (smp_observed None)) \<and>
   oo_sufficient (smp_observed None) \<and> oo_absolute_delta (smp_observed None) = Some 10"
proof -
  from outcome_evidence [OF smp_outcomes_wf smp_evaluated [of None]]
  have "get_observed_outcome smp_outcome_id (smp_outcomes\<lparr>os_outcomes := [(smp_outcome_id, smp_observed None)]\<rparr>) =
      Inr (Some (smp_observed None))" by (elim exE conjE) simp
  moreover have "oo_sufficient (smp_observed None)" using smp_sufficient by (simp add: smp_observed_def)
  moreover have "oo_absolute_delta (smp_observed None) = Some 10"
    using smp_sufficient by (simp add: smp_observed_def absolute_delta_def average_def) (simp add: smp_sample_def)
  ultimately show ?thesis by (simp add: smp_evaluated)
qed

theorem outcome_is_frozen_witness:
  "snd (evaluate_observed_outcome flat_runtime (smp_evaluation (Some 50))
     (snd (evaluate_observed_outcome flat_runtime (smp_evaluation None) smp_outcomes))) =
   snd (evaluate_observed_outcome flat_runtime (smp_evaluation None) smp_outcomes)"
proof -
  let ?s1 = "smp_outcomes\<lparr>os_outcomes := [(smp_outcome_id, smp_observed None)]\<rparr>"
  obtain out s2 where again: "evaluate_observed_outcome flat_runtime (smp_evaluation (Some 50)) ?s1 = (out, s2)"
    by fastforce
  from outcome_is_frozen [OF smp_evaluated [of None] again] have "s2 = ?s1"
    by (simp add: smp_fields_of_evaluation)
  with again show ?thesis by (simp add: smp_evaluated)
qed

definition smp_many_id :: "nat \<Rightarrow> str" where
  "smp_many_id n = ''s'' @ replicate n CHR ''1''"

definition smp_many :: "nat \<Rightarrow> metric_sample" where
  "smp_many n = smp_sample (smp_many_id n) 1 smp_before"

definition smp_crowd :: outcome_store where
  "smp_crowd = empty_outcomes\<lparr>os_samples := map (\<lambda>n. (smp_many_id n, smp_many n)) [0..<201]\<rparr>"

lemma smp_many_id_eq [simp]: "smp_many_id n = smp_many_id k \<longleftrightarrow> n = k"
  by (simp add: smp_many_id_def)

lemma smp_many_ids [simp]: "ms_id (smp_many n) = smp_many_id n"
  by (simp add: smp_many_def smp_sample_def)

lemma smp_crowd_wf: "outcomes_wf smp_crowd"
  by (simp add: outcomes_wf_def coll_wf_def smp_crowd_def empty_outcomes_def o_def distinct_map inj_on_def list_all_iff
      del: upt_rec_numeral upt_conv_Cons)

lemma smp_crowd_got: "n < 201 \<Longrightarrow> coll_get (os_samples smp_crowd) (smp_many_id n) = Some (smp_many n)"
  using coll_values_iff [of ms_id "os_samples smp_crowd" "smp_many n"] smp_crowd_wf
  by (auto simp: outcomes_wf_def smp_crowd_def coll_values_def o_def image_iff simp del: upt_rec_numeral upt_conv_Cons)

lemma smp_many_ok: "metric_sample_ok (smp_many n)"
  unfolding smp_many_def by (rule smp_sample_ok) (simp_all add: smp_many_id_def)

lemma smp_many_counts: "sample_counts (smp_evaluation t) smp_before (smp_many n)"
  unfolding smp_many_def smp_sample_counts by (simp add: smp_before_def)

theorem too_many_samples_rejected_witness:
  "evaluate_observed_outcome flat_runtime (smp_evaluation None) smp_crowd = (Inl OutcomeSchemaError, smp_crowd)"
proof -
  let ?all = "{m. metric_sample_ok m \<and> coll_get (os_samples smp_crowd) (ms_id m) = Some m \<and>
      (sample_counts (smp_evaluation None) smp_before m \<or> sample_counts (smp_evaluation None) smp_after m)}"
  have sub: "smp_many ` {..<201} \<subseteq> ?all"
    using smp_crowd_got smp_many_ok smp_many_counts by auto
  have "coll_wf ms_id (os_samples smp_crowd)" using smp_crowd_wf by (simp add: outcomes_wf_def)
  then have "?all \<subseteq> set (coll_values (os_samples smp_crowd))" by (auto simp: coll_values_iff [of ms_id])
  then have "finite ?all" by (rule finite_subset) simp
  from card_mono [OF this sub] have "card (smp_many ` {..<201}) \<le> card ?all" .
  moreover have "inj_on smp_many {..<201}"
    by (rule inj_onI) (metis smp_many_ids smp_many_id_eq)
  then have "card (smp_many ` {..<201}) = 201" by (simp add: card_image)
  ultimately have "200 < card ?all" by linarith
  then show ?thesis
    by (intro too_many_samples_rejected [OF smp_crowd_wf]) (simp add: smp_fields_of_evaluation)
qed

subsection \<open>The ledger\<close>

definition smp_measured :: outcome_store where
  "smp_measured = smp_outcomes\<lparr>os_outcomes := [(smp_outcome_id, smp_observed None)]\<rparr>"

definition smp_ledger :: ledger_input where
  "smp_ledger = \<lparr>li_workspace = ''w'', li_company = ''c'', li_department = None, li_loop = ''loop_a'', li_window = smp_after,
     li_gross = Some 60, li_modeled_gross = None,
     li_hidden = \<lparr>hc_review = 5, hc_rework = 0, hc_botsitting = 0, hc_escalation = 0, hc_governance = 0\<rparr>,
     li_operating = Some \<lparr>oc_connectors = 10, oc_supervision = 5, oc_change = 0\<rparr>, li_outcomes = [smp_outcome_id],
     li_runs = [''run_1''], li_reviews = [], li_evidence = [''trace:run_1''], li_money = None, li_now = 500\<rparr>"

definition smp_entry :: ledger_entry where
  "smp_entry = entry_of flat_runtime smp_ledger [smp_observed None]"

definition smp_value_id :: str where
  "smp_value_id = ''value_'' @ flat_hash"

lemma smp_value_id_safe [simp]: "safe_record_id smp_value_id"
  by (simp add: smp_value_id_def flat_hash_def safe_record_id_def control_char_def)

lemma smp_outcome_found:
  "read_outcome smp_outcome_id smp_measured = (Inr (Some (smp_observed None)), smp_measured)"
  using smp_observed_ok by (simp add: read_outcome_run read_valid_def smp_measured_def coll_get_def)

lemma unique_texts_single: "x \<noteq> [] \<Longrightarrow> unique_texts [x] = [x]"
  by (simp add: unique_texts_def)

lemma smp_outcome_id_not_Nil [simp]: "smp_outcome_id \<noteq> []"
  by (simp add: smp_outcome_id_def)

lemma smp_entry_ok: "ledger_entry_ok smp_entry" "le_id smp_entry = smp_value_id"
  by (simp_all add: ledger_entry_ok_def smp_entry_def entry_of_def Let_def smp_ledger_def unique_texts_def smp_after_def
      window_ok_def not_empty_def hidden_ok_def operating_ok_def observed_cost_def gross_saved_def hidden_total_def
      operating_total_def opt_or_def opt_first_def bounded_text_def smp_value_id_def)

theorem ledger_claims_no_more_witness:
  "fst (record_value_ledger_entry flat_runtime smp_ledger smp_measured) = Inr (smp_entry, False) \<and>
   assess_value_proof smp_entry = ProvenPositive \<and> le_net smp_entry = 40"
proof -
  have outs: "unique_texts (li_outcomes smp_ledger) = [smp_outcome_id]"
    by (simp add: smp_ledger_def unique_texts_single)
  have "os_ledger smp_measured = []" by (simp add: smp_measured_def smp_outcomes_def empty_outcomes_def)
  then have run: "record_value_ledger_entry flat_runtime smp_ledger smp_measured =
      (Inr (smp_entry, False), smp_measured\<lparr>os_ledger := [(smp_value_id, smp_entry)]\<rparr>)"
    using smp_entry_ok
    by (simp add: record_value_ledger_entry_def outs smp_outcome_found act_bind_run Let_def require_def
        smp_entry_def [symmetric] save_value_ledger_entry_def save_idempotent_run act_zoom_run read_valid_def)
  from ledger_claims_no_more [OF run]
  have "le_net smp_entry = 40" "assess_value_proof smp_entry = ProvenPositive"
    using smp_observed_ok smp_observed_truth
    by (simp_all add: smp_ledger_def gross_saved_def hidden_total_def operating_total_def opt_or_def opt_first_def
        get_observed_outcome_def require_def read_valid_def smp_measured_def coll_get_def)
  with run show ?thesis by simp
qed

definition smp_derivation :: derive_input where
  "smp_derivation = \<lparr>di_workspace = ''w'', di_company = ''c'', di_department = None, di_loop = ''loop_a'',
     di_metric = smp_metric, di_outcome = smp_outcome_id, di_traces = [], di_window = smp_after, di_now = 500\<rparr>"

theorem derived_value_never_proved_witness:
  "\<exists>x s'. derive_loop_value_ledger_entry flat_runtime smp_derivation smp_measured = (Inr (x, False), s') \<and>
     le_net x = 30 \<and> le_truth x = TruthObserved \<and> assess_value_proof x = Unproven"
proof -
  have loop: "oo_loop (smp_observed None) = di_loop smp_derivation"
    "oo_metric (smp_observed None) = md_id (di_metric smp_derivation)"
    by (simp_all add: smp_observed_def outcome_of_def Let_def smp_fields_of_evaluation smp_derivation_def smp_metric_def)
  let ?i = "derived_input smp_derivation (smp_observed None)"
  have ten: "oo_absolute_delta (smp_observed None) = Some 10"
    using smp_sufficient by (simp add: smp_observed_def absolute_delta_def average_def) (simp add: smp_sample_def)
  have st: "oo_status (smp_observed None) = OImproved" and dir: "oo_direction (smp_observed None) = Increase"
    using smp_sufficient
    by (simp_all add: smp_observed_def outcome_of_def Let_def average_def smp_fields_of_evaluation smp_metric_def
        classify_outcome_def desired_direction_def tolerance_def number_epsilon_def opt_or_def opt_first_def)
      (simp_all add: smp_evaluation_def smp_sample_def)
  have units: "beneficial_units (smp_observed None) = 10"
    by (simp add: beneficial_units_def st dir ten Let_def opt_or_def)
  have outs: "unique_texts (li_outcomes ?i) = [smp_outcome_id]"
    by (simp add: derived_input_def Let_def unique_texts_single)
  define x where "x = entry_of flat_runtime ?i [smp_observed None]"
  have x: "le_net x = 30" "le_truth x = TruthObserved"
    by (simp_all add: x_def derived_input_def Let_def smp_observed_truth units smp_derivation_def smp_metric_def
        gross_saved_def observed_cost_def hidden_total_def operating_total_def hidden_costs_of_def review_total_def
        opt_or_def opt_first_def value_truth_def)
  have ok: "ledger_entry_ok x" "le_id x = smp_value_id"
    by (simp_all add: ledger_entry_ok_def x_def entry_of_def Let_def derived_input_def unique_texts_def smp_after_def
        window_ok_def not_empty_def hidden_ok_def observed_cost_def gross_saved_def hidden_total_def smp_observed_truth
        operating_total_def opt_or_def opt_first_def bounded_text_def smp_value_id_def smp_derivation_def smp_metric_def
        units hidden_costs_of_def review_total_def smp_outcome_id_def flat_hash_def)
  have "os_ledger smp_measured = []" by (simp add: smp_measured_def smp_outcomes_def empty_outcomes_def)
  then have "derive_loop_value_ledger_entry flat_runtime smp_derivation smp_measured =
      (Inr (x, False), smp_measured\<lparr>os_ledger := [(smp_value_id, x)]\<rparr>)"
    using ok smp_outcome_found loop
    by (simp add: derive_loop_value_ledger_entry_def smp_derivation_def [THEN arg_cong, of di_outcome]
        record_value_ledger_entry_def outs act_bind_run Let_def require_def
        x_def [symmetric] save_value_ledger_entry_def save_idempotent_run act_zoom_run read_valid_def)
  with x derived_value_never_proved [OF this] show ?thesis by blast
qed

end
