(* ===== verification/RouteFixture.thy ===== *)
theory RouteFixture imports Lifecycle begin

text \<open>
  What the simulation of an accepted route is given (runtime/routing-tools.ts,
  \<open>buildRouteCommitSimulationFixture\<close>): the event, the route, and the assessment the fixture
  provider answers with (runtime/fixture-provider.ts). The assessment is a component of its own, the
  other properties are the payload of the run.
\<close>

record route_fixture =
  fx_event :: str
  fx_simulated_at :: instant
  fx_payload :: "(str \<times> json) list"
  fx_assessment :: agent_output

definition first_item :: "'a list \<Rightarrow> 'a option" where
  "first_item xs = (case xs of [] \<Rightarrow> None | x # _ \<Rightarrow> Some x)"

text \<open>The allowed action the preview is made from, and its tool.\<close>

definition preview_policy :: "loop_spec \<Rightarrow> action_policy option" where
  "preview_policy spec = opt_first (find ap_allowed (sp_allowed spec)) (first_item (sp_allowed spec))"

definition preview_tool :: "loop_spec \<Rightarrow> tool_binding option" where
  "preview_tool spec =
     (case preview_policy spec of
        Some p \<Rightarrow> find (\<lambda>t. tb_key t = ap_tool p) (sp_tools spec)
      | None \<Rightarrow> first_item (sp_tools spec))"

definition preview_action :: "loop_spec \<Rightarrow> event_receipt \<Rightarrow> route_commit \<Rightarrow> tool_binding \<Rightarrow> proposed_action" where
  "preview_action spec r c t =
     \<lparr>pa_id = ''act_route_commit_preview'', pa_tool = tb_key t, pa_label = ''Prepare '' @ tb_label t,
      pa_input = [(''routeCommitId'', JStr (rcm_id c)), (''eventId'', JStr (rcp_event_id r)),
        (''correlationId'', JStr (ev_correlation (rcp_event r))),
        (''subject'', subject_json (safe_event_subject (rcp_event r))),
        (''mappedInputs'', JObj (rcm_input_mapping c)), (''normalizedPayload'', JObj (ev_payload (rcp_event r)))],
      pa_risk = opt_or (map_option ap_risk (preview_policy spec)) (tb_risk t),
      pa_requires_approval = opt_or (map_option ap_requires_approval (preview_policy spec)) False,
      pa_customer_facing = opt_or (map_option ap_customer_facing (preview_policy spec)) False\<rparr>"

definition route_commit_expected_assessment :: "loop_spec \<Rightarrow> event_receipt \<Rightarrow> route_commit \<Rightarrow> agent_output" where
  "route_commit_expected_assessment spec r c =
     (let e = rcp_event r;
          actions = (case preview_tool spec of None \<Rightarrow> [] | Some t \<Rightarrow> [preview_action spec r c t])
      in \<lparr>ao_summary = ''Local simulation for Hermes route '' @ rcm_id c @ '': '' @ sp_name spec @ '' is handling '' @
            ev_type e @ '' for '' @ safe_event_subject_label e @ ''.'',
          ao_assumptions = [(''assumption_route_commit'',
            ''Hermes already selected this loop through a validated RoutingDecision; '' @
            ''this run uses only the normalized EventEnvelope.'', 1)],
          ao_actions = actions,
          ao_evidence = [\<lparr>er_id = ''evidence_event'', er_source = ''event:'' @ rcp_event_id r, er_source_type = SrcEvent,
            er_excerpt = ev_source e @ ''/'' @ ev_type e @ '' for '' @ sub_type (ev_subject e) @ '':'' @ sub_id (ev_subject e),
            er_field_path = None, er_trusted = signature_verified (ev_trust e)\<rparr>],
          ao_policy_inputs =
            [\<lparr>pi_key = ''routeCommit.id'', pi_value = Some (JStr (rcm_id c)), pi_source = ''loopgraph-routing-store''\<rparr>,
             \<lparr>pi_key = ''event.correlationId'', pi_value = Some (JStr (ev_correlation e)), pi_source = ''event-envelope''\<rparr>,
             \<lparr>pi_key = ''event.sensitivity'', pi_value = Some (JStr (sensitivity_text (ev_sensitivity e))),
              pi_source = ''event-envelope''\<rparr>],
          ao_verification_required = list_ex pa_requires_approval actions,
          ao_escalation = Some \<lparr>esr_required = False, esr_category = None, esr_severity = None, esr_rationale = None\<rparr>\<rparr>)"

definition build_route_commit_simulation_fixture ::
  "loop_spec \<Rightarrow> event_receipt \<Rightarrow> route_commit \<Rightarrow> instant \<Rightarrow> str option \<Rightarrow> route_fixture" where
  "build_route_commit_simulation_fixture spec r c simulatedAt simulatedBy =
     (let e = rcp_event r
      in \<lparr>fx_event = rcp_event_id r, fx_simulated_at = simulatedAt,
          fx_payload = present
            [(''eventId'', jstr (rcp_event_id r)), (''simulatedAt'', jstr (iso_instant simulatedAt)),
             (''trigger'', Some (event_json e)),
             (''routing'', Some (jobj [(''routeCommitId'', jstr (rcm_id c)), (''routeAttemptId'', jstr (rcm_attempt_id c)),
                (''problemId'', jstr (rcm_problem_id c)), (''loopId'', jstr (rcm_loop_id c)),
                (''correlationId'', jstr (ev_correlation e)), (''causationId'', jopt (ev_causation e)),
                (''inputMapping'', Some (JObj (rcm_input_mapping c))),
                (''simulatedBy'', jstr (opt_or simulatedBy ''operator''))])),
             (''event'', Some (jobj [(''source'', jstr (ev_source e)), (''sourceRoute'', jstr (ev_source_route e)),
                (''eventType'', jstr (ev_type e)), (''subject'', Some (subject_json (ev_subject e))),
                (''normalizedPayload'', Some (JObj (ev_payload e))), (''evidenceRefs'', jstrs (ev_evidence_refs e)),
                (''trust'', Some (trust_json (ev_trust e))), (''sensitivity'', jstr (sensitivity_text (ev_sensitivity e)))]))],
          fx_assessment = route_commit_expected_assessment spec r c\<rparr>)"

text \<open>
  \<open>simulateLoop\<close> on such a fixture: the fixture provider answers with the expected assessment. The
  first five properties of the fixture, which the trace keeps as its inputs, are the payload.
\<close>

definition simulate_fixture ::
  "runtime \<Rightarrow> variable_reader \<Rightarrow> loop_spec \<Rightarrow> route_fixture \<Rightarrow> provenance option \<Rightarrow>
   (run_trace \<times> escalation_case option) run_action" where
  "simulate_fixture R read_variable spec fx prov =
     simulate_loop R read_variable (\<lambda>_ _ _. Some (fx_assessment fx)) spec (fx_payload fx) (fx_event fx)
       (fx_simulated_at fx) prov"

end
