(* ===== verification/RouteWorker.thy ===== *)
theory RouteWorker imports Reviews RouteFixture begin

text \<open>
  The worker of the route-job queue (runtime/route-job-worker.ts): it claims due jobs, checks their
  context again, runs them or hands them to Hermes, and finalizes them from the trace of the run. The
  jobs that wait for a review are finalized when their run has ended.

  The worker's surroundings are the record \<open>worker_env\<close>: the files of the project or the
  specification registry, the runners \<open>simulate\<close> and \<open>execute\<close> and the transport to Hermes, which the
  sources take as options, the adapters, and the clock. While one job is processed, all readings of
  the clock are \<open>we_clock\<close> of the job and the heartbeat timer fires at \<open>we_ticks\<close> of it. A loop runs
  on the storage of runs and the heartbeat on the routing store, so the two are run one after the other.
\<close>

datatype worker_failure =
    WorkerStoreError store_error
  | WorkerRunError run_failure
  | WorkerExecuteError execute_error
  | WorkerCommitError review_error
  | WorkerLifecycleError lifecycle_failure
  | WorkerOutcomeError outcome_error
  | JobNotProtected str
  | ReceiptIsMissing str
  | ReentryBlocked
  | ProblemIsMissing str
  | RouteCommitIsMissing str
  | RouteCommitIsCancelled str
  | RouteCommitIsCompleted str
  | RouteBindingsDiffer "str list"
  | LoopNotRegistered str
  | LoopPathEscapes
  | LoopSpecInvalid str
  | LoopHashDiffers str str
  | ActivationDiffers "activation_mode option" activation_mode
  | TransportMissing
  | AgentUnavailable exec_environment
  | AssignmentInvalid
  | DispatchThrew str
  | DispatchRefused "str option"
  | RunNotBound str str
  | FinalJobMissing str
  | JobNotFinalizable str job_status
  | FinalLeaseLost str
  | FinalLeaseExpired str

type_synonym 'a worker_action = "(world, worker_failure, 'a) action"

record spec_registry =
  rg_root_id :: str
  rg_active :: "str \<Rightarrow> loop_spec option"

datatype dispatch_answer = AssignmentAccepted | AssignmentRefused "str option" | TransportThrew str

record worker_env =
  we_project :: project
  we_registry :: "spec_registry option"
  we_lifecycle :: lifecycle_env
  we_simulate :: "loop_spec \<Rightarrow> route_fixture \<Rightarrow> provenance option \<Rightarrow> (run_trace \<times> escalation_case option) run_action"
  we_execute :: "execute_input \<Rightarrow> (run_storage, execute_error, run_trace \<times> escalation_case option) action"
  we_adapters :: adapters
  we_dispatch :: "(hermes_assignment \<Rightarrow> dispatch_answer) option"
  we_callback_origin :: "str option"
  we_clock :: "route_job \<Rightarrow> instant"
  we_ticks :: "route_job \<Rightarrow> instant list"
  we_message :: "worker_failure \<Rightarrow> str"

subsection \<open>Errors\<close>

text \<open>The code the worker gives its own errors; errors from the services have none.\<close>

definition failure_code :: "worker_failure \<Rightarrow> str option" where
  "failure_code e =
     (case e of
        ReceiptIsMissing _ \<Rightarrow> Some ''EVENT_RECEIPT_MISSING'' | ReentryBlocked \<Rightarrow> Some ''LIFECYCLE_REENTRY_BLOCKED''
      | ProblemIsMissing _ \<Rightarrow> Some ''BUSINESS_PROBLEM_MISSING'' | RouteCommitIsMissing _ \<Rightarrow> Some ''ROUTE_COMMIT_MISSING''
      | RouteCommitIsCancelled _ \<Rightarrow> Some ''ROUTE_COMMIT_CANCELLED''
      | RouteCommitIsCompleted _ \<Rightarrow> Some ''ROUTE_COMMIT_ALREADY_COMPLETED''
      | RouteBindingsDiffer _ \<Rightarrow> Some ''ROUTE_JOB_BINDING_MISMATCH'' | LoopNotRegistered _ \<Rightarrow> Some ''LOOP_SPEC_NOT_REGISTERED''
      | LoopPathEscapes \<Rightarrow> Some ''LOOP_SPEC_PATH_ESCAPE'' | LoopSpecInvalid _ \<Rightarrow> Some ''LOOP_SPEC_INVALID''
      | LoopHashDiffers _ _ \<Rightarrow> Some ''LOOP_SPEC_HASH_MISMATCH'' | ActivationDiffers _ _ \<Rightarrow> Some ''ACTIVATION_MODE_MISMATCH''
      | TransportMissing \<Rightarrow> Some ''HERMES_EXECUTION_TRANSPORT_MISSING'' | AgentUnavailable _ \<Rightarrow> Some ''HERMES_AGENT_UNAVAILABLE''
      | DispatchRefused _ \<Rightarrow> Some ''HERMES_EXECUTION_DISPATCH_FAILED'' | RunNotBound _ _ \<Rightarrow> Some ''RUN_BINDING_MISMATCH''
      | FinalJobMissing _ \<Rightarrow> Some ''ROUTE_JOB_MISSING'' | JobNotFinalizable _ _ \<Rightarrow> Some ''ROUTE_JOB_NOT_FINALIZABLE''
      | FinalLeaseLost _ \<Rightarrow> Some ''ROUTE_JOB_LEASE_LOST'' | FinalLeaseExpired _ \<Rightarrow> Some ''ROUTE_JOB_LEASE_EXPIRED''
      | _ \<Rightarrow> None)"

text \<open>\<open>workerError\<close> for a run that ended without success, as \<open>normalizeWorkerError\<close> reads it.\<close>

definition unsuccessful_message :: "run_trace \<Rightarrow> str" where
  "unsuccessful_message t = ''Run '' @ tr_id t @ '' ended with status '' @ run_status_text (tr_status t)"

subsection \<open>The context of a job\<close>

record route_context =
  rx_receipt :: event_receipt
  rx_problem :: business_problem
  rx_commit :: route_commit
  rx_spec :: loop_spec

definition find_route_commit :: "routing_store \<Rightarrow> str \<Rightarrow> route_commit option" where
  "find_route_commit st commitId = find (\<lambda>c. rcm_id c = commitId) (list_route_commits st None)"

definition assert_route_job_bindings ::
  "route_job \<Rightarrow> route_commit \<Rightarrow> event_receipt \<Rightarrow> business_problem \<Rightarrow> worker_failure + unit" where
  "assert_route_job_bindings j c r p =
     (let mismatches =
            (if job_event_id j \<noteq> rcm_event_id c \<or> job_event_id j \<noteq> rcp_event_id r then [''eventId''] else []) @
            (if job_problem_id j \<noteq> rcm_problem_id c \<or> job_problem_id j \<noteq> bp_id p then [''problemId''] else []) @
            (if job_attempt_id j \<noteq> rcm_attempt_id c then [''routeAttemptId''] else []) @
            (if job_loop_id j \<noteq> rcm_loop_id c then [''loopId''] else []) @
            (if job_loop_spec_hash j \<noteq> rcm_loop_spec_hash c then [''loopSpecHash''] else [])
      in require (mismatches = []) (RouteBindingsDiffer mismatches))"

definition check_bound_spec :: "runtime \<Rightarrow> route_job \<Rightarrow> route_commit \<Rightarrow> loop_spec \<Rightarrow> worker_failure + loop_spec" where
  "check_bound_spec R j c spec =
     (let hash = loop_spec_hash R spec
      in if hash \<noteq> job_loop_spec_hash j \<or> hash \<noteq> rcm_loop_spec_hash c
         then Inl (LoopHashDiffers hash (job_loop_spec_hash j))
         else if map_option ct_activation (sp_routing spec) \<noteq> Some (job_activation j)
         then Inl (ActivationDiffers (map_option ct_activation (sp_routing spec)) (job_activation j))
         else Inr spec)"

definition bound_spec :: "runtime \<Rightarrow> worker_env \<Rightarrow> route_job \<Rightarrow> route_commit \<Rightarrow> worker_failure + loop_spec" where
  "bound_spec R E j c =
     (case we_registry E of
        Some rg \<Rightarrow>
          (case rg_active rg (job_loop_id j) of
             None \<Rightarrow> Inl (LoopNotRegistered (job_loop_id j))
           | Some spec \<Rightarrow> check_bound_spec R j c spec)
      | None \<Rightarrow>
          (case registered_spec (we_project E) (job_loop_id j) of
             NotRegistered \<Rightarrow> Inl (LoopNotRegistered (job_loop_id j))
           | OutsideProject \<Rightarrow> Inl LoopPathEscapes
           | InvalidSpec e \<Rightarrow> Inl (LoopSpecInvalid e)
           | LoadedSpec spec \<Rightarrow> check_bound_spec R j c spec))"

definition validate_route_job_context ::
  "runtime \<Rightarrow> worker_env \<Rightarrow> bool \<Rightarrow> route_job \<Rightarrow> routing_store \<Rightarrow> worker_failure + route_context" where
  "validate_route_job_context R E allowCompleted j st =
     (case get_event_receipt st (job_event_id j) of
        None \<Rightarrow> Inl (ReceiptIsMissing (job_event_id j))
      | Some r \<Rightarrow>
          if ev_source (rcp_event r) = ''loopgraph'' \<or> notification_only (rcp_event r) then Inl ReentryBlocked
          else (case get_business_problem st (job_problem_id j) of
              None \<Rightarrow> Inl (ProblemIsMissing (job_problem_id j))
            | Some p \<Rightarrow>
                (case find_route_commit st (job_commit_id j) of
                   None \<Rightarrow> Inl (RouteCommitIsMissing (job_commit_id j))
                 | Some c \<Rightarrow>
                     if rcm_status c = CCancelled then Inl (RouteCommitIsCancelled (rcm_id c))
                     else if rcm_status c = CCompleted \<and> \<not> allowCompleted then Inl (RouteCommitIsCompleted (rcm_id c))
                     else res_bind (assert_route_job_bindings j c r p) (\<lambda>_.
                          res_bind (bound_spec R E j c) (\<lambda>spec.
                            Inr \<lparr>rx_receipt = r, rx_problem = p, rx_commit = c, rx_spec = spec\<rparr>)))))"

subsection \<open>Running a job\<close>

definition worker_actor :: "route_job \<Rightarrow> str option" where
  "worker_actor j = map_option ls_claimed_by (job_lease j)"

definition run_job_by_activation_mode ::
  "worker_env \<Rightarrow> route_job \<Rightarrow> loop_spec \<Rightarrow> event_receipt \<Rightarrow> route_commit \<Rightarrow> instant \<Rightarrow>
   (run_trace \<times> escalation_case option) worker_action" where
  "run_job_by_activation_mode E j spec r c now =
     (let actor = opt_or (worker_actor j) ''route-job-worker''
      in if job_activation j \<in> {Shadow, Recommend, Simulate} then
           in_runs WorkerRunError (we_simulate E spec
             (build_route_commit_simulation_fixture spec r c now (Some (''route-job:'' @ opt_or (worker_actor j) ''worker'')))
             (Some \<lparr>prov_invocation = \<lparr>inv_actor = actor, inv_source = Some ''loopgraph.route-job-worker'', inv_user = None,
                 inv_session = None, inv_attempt = Some (job_attempt_id j), inv_commit = Some (job_commit_id j)\<rparr>,
               prov_approval = Some (apol_fingerprint (sp_approval spec), apol_separate (sp_approval spec),
                 map review_role_text (apol_roles (sp_approval spec))),
               prov_gate_reasons = None\<rparr>))
         else
           act_zoom w_runs w_runs_update WorkerExecuteError (we_execute E
             \<lparr>xi_spec = spec,
              xi_payload = [(''event'', event_json (rcp_event r)), (''mappedInputs'', JObj (rcm_input_mapping c)),
                (''routeCommitId'', JStr (rcm_id c)), (''problemId'', JStr (rcm_problem_id c))],
              xi_event = ev_id (rcp_event r), xi_started_at = now, xi_now = we_clock E j,
              xi_plan = pj_plan (we_project E),
              xi_invoked_by = Some \<lparr>ivi_actor = Some actor, ivi_source = Some ''loopgraph.route-job-worker'',
                ivi_user = None, ivi_session = None, ivi_attempt = Some (job_attempt_id j),
                ivi_commit = Some (job_commit_id j)\<rparr>\<rparr>))"

text \<open>\<open>Math.round\<close> of the seconds of the lease, at least 30.\<close>

definition route_job_lease_seconds :: "route_job \<Rightarrow> nat" where
  "route_job_lease_seconds j =
     (case job_lease j of
        None \<Rightarrow> 300
      | Some l \<Rightarrow> nat (max 30 ((ls_expires_at l - ls_claimed_at l + 500) div 1000)))"

text \<open>The renewals of the timer: the first that fails is remembered and ends them.\<close>

fun heartbeats :: "route_job \<Rightarrow> str \<Rightarrow> instant list \<Rightarrow> (world, worker_failure, worker_failure option) action" where
  "heartbeats j token [] = act_return None"
| "heartbeats j token (t # ts) =
     act_bind (act_catch
         (act_bind (in_store WorkerStoreError (renew_route_job_lease (job_id j) token (route_job_lease_seconds j) t))
           (\<lambda>_. act_return None))
         (\<lambda>e. act_return (Some e)))
       (\<lambda>failed. case failed of None \<Rightarrow> heartbeats j token ts | Some e \<Rightarrow> act_return (Some e))"

definition with_route_job_heartbeat :: "worker_env \<Rightarrow> route_job \<Rightarrow> str \<Rightarrow> 'a worker_action \<Rightarrow> 'a worker_action" where
  "with_route_job_heartbeat E j token operation =
     act_bind (heartbeats j token (we_ticks E j)) (\<lambda>failed.
     act_bind operation (\<lambda>result.
     act_bind (case failed of None \<Rightarrow> act_return () | Some e \<Rightarrow> act_throw e) (\<lambda>_.
     act_bind (in_store WorkerStoreError
         (renew_route_job_lease (job_id j) token (route_job_lease_seconds j) (we_clock E j))) (\<lambda>_.
     act_return result))))"

subsection \<open>Finalizing a job\<close>

record worker_item =
  wi_job :: str
  wi_commit :: str
  wi_status :: job_status
  wi_run :: "str option"
  wi_trace :: "str option"
  wi_duplicate :: bool
  wi_deliveries :: "str list"
  wi_samples :: "str list"
  wi_error :: "(str \<times> str) option"

definition route_commit_status_for_trace :: "run_status \<Rightarrow> commit_status" where
  "route_commit_status_for_trace s =
     (if s = WAITING_FOR_REVIEW then CWaitingReview else if s = COMPLETED then CCompleted
      else if s \<in> {BLOCKED_BY_POLICY, FAILED_VERIFICATION, REJECTED, CANCELLED} then CFailed else CRunning)"

definition problem_status_for_trace :: "activation_mode \<Rightarrow> run_status \<Rightarrow> problem_status" where
  "problem_status_for_trace m s =
     (if s = WAITING_FOR_REVIEW then Waiting else if s \<noteq> COMPLETED then Waiting
      else if m \<in> {AutonomousLowRisk, ExecuteWithApproval} then Resolved else Routed)"

definition is_terminal_trace :: "run_trace \<Rightarrow> bool" where
  "is_terminal_trace t = (tr_status t \<in>
     {WAITING_FOR_REVIEW, COMPLETED, FAILED_VERIFICATION, BLOCKED_BY_POLICY, REJECTED, CANCELLED})"

definition assert_route_job_finalize_lease :: "str \<Rightarrow> str \<Rightarrow> instant \<Rightarrow> routing_store \<Rightarrow> worker_failure + unit" where
  "assert_route_job_finalize_lease jobId token now st =
     (case get_route_job st jobId of
        None \<Rightarrow> Inl (FinalJobMissing jobId)
      | Some current \<Rightarrow>
          if job_status current \<notin> {Claimed, Running, WaitingReview} then Inl (JobNotFinalizable jobId (job_status current))
          else (case job_lease current of
              None \<Rightarrow> Inl (FinalLeaseLost jobId)
            | Some l \<Rightarrow>
                if ls_token l \<noteq> Some token then Inl (FinalLeaseLost jobId)
                else require (now < ls_expires_at l) (FinalLeaseExpired jobId)))"

definition emit_worker_lifecycle ::
  "runtime \<Rightarrow> worker_env \<Rightarrow> event_receipt \<Rightarrow> route_commit \<Rightarrow> business_problem \<Rightarrow> run_trace \<Rightarrow> escalation_case option \<Rightarrow>
   instant \<Rightarrow> emit_result list lifecycle_action" where
  "emit_worker_lifecycle R E r c p t escalation now =
     (let L = we_lifecycle E; e = rcp_event r; problem = Some p
      in act_bind (emit_loop_run_started R L (None, None) e c t problem now) (\<lambda>started.
         act_bind (case escalation of
             None \<Rightarrow> act_return []
           | Some x \<Rightarrow> act_bind (emit_escalation_created R L (None, None) e c t x problem now) (\<lambda>d. act_return [d])) (\<lambda>cases.
         act_bind (emit_loop_run R L (None, None) e c t problem now) (\<lambda>ended.
         act_return (started # cases @ [ended])))))"

definition delivery_ids :: "emit_result list \<Rightarrow> str list" where
  "delivery_ids rs = concat (map (\<lambda>r. case r of Emitted d \<Rightarrow> [ld_id d] | Skipped _ \<Rightarrow> []) rs)"

definition workspace_id :: "worker_env \<Rightarrow> str" where
  "workspace_id E = (case we_registry E of Some rg \<Rightarrow> rg_root_id rg | None \<Rightarrow> pj_root_id (we_project E))"

definition finalized_commit :: "route_commit \<Rightarrow> run_trace \<Rightarrow> route_commit" where
  "finalized_commit c t = c\<lparr>rcm_run_id := Some (tr_id t), rcm_status := route_commit_status_for_trace (tr_status t)\<rparr>"

definition finalized_problem :: "route_job \<Rightarrow> business_problem \<Rightarrow> run_trace \<Rightarrow> instant \<Rightarrow> business_problem" where
  "finalized_problem j p t now =
     p\<lparr>bp_status := problem_status_for_trace (job_activation j) (tr_status t), bp_updated_at := now,
       bp_resolved_at := (if job_activation j = AutonomousLowRisk \<and> tr_status t = COMPLETED then Some now
         else bp_resolved_at p)\<rparr>"

text \<open>The job's last step: waiting, completed, or failed.\<close>

definition settle_job :: "route_job \<Rightarrow> run_trace \<Rightarrow> str option \<Rightarrow> str list \<Rightarrow> str list \<Rightarrow> instant \<Rightarrow> route_job store_action" where
  "settle_job j t token deliveries samples now =
     (if tr_status t = WAITING_FOR_REVIEW then mark_route_job_waiting_review (job_id j) token (Some (tr_id t)) now
      else if tr_status t = COMPLETED then
        mark_route_job_completed (job_id j) token
          (Some \<lparr>jr_trace_status = run_status_text (tr_status t), jr_completed_at = Some (opt_or (tr_completed_at t) now),
             jr_delivery_ids = deliveries, jr_metric_sample_ids = samples\<rparr>) (Some (tr_id t)) now
      else fail_route_job (job_id j) token (Some ''RUN_NOT_SUCCESSFUL'') (unsuccessful_message t) now)"

definition finalize_route_job_from_trace ::
  "runtime \<Rightarrow> worker_env \<Rightarrow> route_job \<Rightarrow> route_context \<Rightarrow> run_trace \<Rightarrow> escalation_case option \<Rightarrow> instant \<Rightarrow> str option \<Rightarrow>
   bool \<Rightarrow> worker_item worker_action" where
  "finalize_route_job_from_trace R E j x t escalation now token duplicate =
     act_bind (act_read w_store) (\<lambda>st.
     act_bind (act_lift (if truthy_str token then assert_route_job_finalize_lease (job_id j) (the token) now st else Inr ())) (\<lambda>_.
     act_bind (in_outcomes WorkerOutcomeError (record_trace_metric_samples R (workspace_id E)
         (ev_company (rcp_event (rx_receipt x))) t (pj_metrics (we_project E)) now)) (\<lambda>samples.
     (let sampleIds = map (\<lambda>(m, dup). ms_id m) samples; c = finalized_commit (rx_commit x) t;
          p = finalized_problem j (rx_problem x) t now
      in act_bind (in_store WorkerStoreError (save_route_commit c)) (\<lambda>_.
         act_bind (in_store WorkerStoreError (save_business_problem p)) (\<lambda>_.
         act_bind (in_life WorkerLifecycleError (emit_worker_lifecycle R E (rx_receipt x) c p t escalation now)) (\<lambda>emitted.
         act_bind (in_store WorkerStoreError (settle_job j t token (delivery_ids emitted) sampleIds now)) (\<lambda>final.
         act_return \<lparr>wi_job = job_id final, wi_commit = job_commit_id final, wi_status = job_status final,
           wi_run = Some (tr_id t), wi_trace = Some (run_status_text (tr_status t)), wi_duplicate = duplicate,
           wi_deliveries = delivery_ids emitted, wi_samples = sampleIds,
           wi_error = (if tr_status t \<in> {WAITING_FOR_REVIEW, COMPLETED} then None
             else Some (''RUN_NOT_SUCCESSFUL'', unsuccessful_message t))\<rparr>))))))))"

subsection \<open>Handing a job to Hermes\<close>

text \<open>\<open>encodeURIComponent\<close>: unreserved characters stay, the others are percent-encoded as UTF-8.\<close>

definition uri_unreserved :: "char \<Rightarrow> bool" where
  "uri_unreserved c = (let n = (of_char c :: nat) in
     48 \<le> n \<and> n \<le> 57 \<or> 65 \<le> n \<and> n \<le> 90 \<or> 97 \<le> n \<and> n \<le> 122 \<or> c \<in> set ''-_.!~*()'' \<or> n = 39)"

definition percent_byte :: "nat \<Rightarrow> str" where
  "percent_byte n = CHR 0x25 # map upper_char [hex_char (n div 16), hex_char (n mod 16)]"

definition encode_uri_component :: "str \<Rightarrow> str" where
  "encode_uri_component s = concat (map (\<lambda>c.
     if uri_unreserved c then [c]
     else (let n = (of_char c :: nat)
           in if n < 128 then percent_byte n else percent_byte (192 + n div 64) @ percent_byte (128 + n mod 64))) s)"

definition strip_slashes :: "str \<Rightarrow> str" where
  "strip_slashes s = rev (dropWhile (\<lambda>c. c = CHR ''/'') (rev s))"

definition assignment_for ::
  "runtime \<Rightarrow> worker_env \<Rightarrow> route_job \<Rightarrow> route_context \<Rightarrow> hermes_agent \<Rightarrow> instant \<Rightarrow> hermes_assignment" where
  "assignment_for R E j x a now =
     (let e = rcp_event (rx_receipt x); origin = map_option strip_slashes (we_callback_origin E)
      in \<lparr>as_id = ''assignment_'' @ hash_obj R [(''routeJobId'', jstr (job_id j)), (''agentInstanceId'', jstr (ag_id a))],
          as_workspace = ev_workspace e, as_company = ev_company e, as_agent = ag_id a, as_job = job_id j,
          as_commit = job_commit_id j, as_attempt = job_attempt_id j, as_event = job_event_id j,
          as_problem = job_problem_id j, as_loop = job_loop_id j, as_loop_spec_hash = job_loop_spec_hash j,
          as_run = job_run_id j, as_correlation = job_correlation j, as_activation = job_activation j,
          as_capabilities = et_capabilities (job_target j),
          as_event_ref = ''loopgraph://events/'' @ encode_uri_component (job_event_id j),
          as_callback = (if truthy_str origin then Some (the origin @ ''/api/hermes/executions/events'') else None),
          as_inputs = rcm_input_mapping (rx_commit x), as_issued_at = now\<rparr>)"

definition agent_request_for :: "route_job \<Rightarrow> route_context \<Rightarrow> instant \<Rightarrow> agent_request" where
  "agent_request_for j x now =
     \<lparr>aq_workspace = ev_workspace (rcp_event (rx_receipt x)), aq_environment = et_environment (job_target j),
      aq_capabilities = et_capabilities (job_target j), aq_loop = Some (job_loop_id j),
      aq_preferred = et_preferred_agent (job_target j), aq_now = now, aq_ttl_seconds = 180\<rparr>"

definition hand_out :: "(hermes_assignment \<Rightarrow> dispatch_answer) \<Rightarrow> hermes_assignment \<Rightarrow> unit worker_action" where
  "hand_out dispatch a =
     act_bind (act_write (\<lambda>w. w\<lparr>w_assigned := w_assigned w @ [a]\<rparr>)) (\<lambda>_.
     (case dispatch a of
        AssignmentAccepted \<Rightarrow> act_return ()
      | AssignmentRefused e \<Rightarrow> act_throw (DispatchRefused e)
      | TransportThrew e \<Rightarrow> act_throw (DispatchThrew e)))"

definition dispatch_route_job_to_hermes ::
  "runtime \<Rightarrow> worker_env \<Rightarrow> route_job \<Rightarrow> route_context \<Rightarrow> str \<Rightarrow> instant \<Rightarrow> worker_item worker_action" where
  "dispatch_route_job_to_hermes R E j x token now =
     (case we_dispatch E of
        None \<Rightarrow> act_throw TransportMissing
      | Some dispatch \<Rightarrow>
          act_bind (act_read (\<lambda>w. select_agent R (w_ops w) (agent_request_for j x now))) (\<lambda>agent.
          (case agent of
             None \<Rightarrow> act_throw (AgentUnavailable (et_environment (job_target j)))
           | Some a \<Rightarrow>
               act_bind (act_lift (require (assignment_ok (assignment_for R E j x a now)) AssignmentInvalid)) (\<lambda>_.
               act_bind (hand_out dispatch (assignment_for R E j x a now)) (\<lambda>_.
               act_bind (in_store WorkerStoreError (update_route_job_status (job_id j)
                   \<lparr>su_status = Dispatched, su_clear_lease = True, su_token = Some token, su_result = None, su_run_id = None\<rparr> now))
                 (\<lambda>final.
               act_bind (in_store WorkerStoreError (save_route_commit
                   ((rx_commit x)\<lparr>rcm_status := CQueued, rcm_run_id := Some (job_run_id j)\<rparr>))) (\<lambda>_.
               act_bind (in_store WorkerStoreError (save_business_problem
                   ((rx_problem x)\<lparr>bp_status := Routed, bp_updated_at := now\<rparr>))) (\<lambda>_.
               act_return \<lparr>wi_job = job_id final, wi_commit = job_commit_id final, wi_status = job_status final,
                 wi_run = Some (job_run_id final), wi_trace = Some ''DISPATCHED'', wi_duplicate = False, wi_deliveries = [],
                 wi_samples = [], wi_error = None\<rparr>))))))))"

subsection \<open>One claimed job\<close>

text \<open>
  What the guarded part of \<open>processClaimedRouteJob\<close> ends with. The promises of the finalization and
  of the dispatch are returned without being awaited, so their errors pass the handler by.
\<close>

datatype job_step =
    FinishExisting route_context run_trace
  | HandToHermes route_context
  | FinishRun route_context run_trace "escalation_case option"

definition autonomous_commit :: "worker_env \<Rightarrow> route_job \<Rightarrow> loop_spec \<Rightarrow> run_trace \<Rightarrow> run_trace worker_action" where
  "autonomous_commit E j spec t =
     (if job_activation j = AutonomousLowRisk \<and> tr_status t = COMPLETED \<and>
         list_ex (\<lambda>k. tc_status k = CallPending) (tr_calls t)
      then act_bind (act_zoom (\<lambda>w. w) (\<lambda>f w. f w) WorkerCommitError
             (commit_prepared_actions (we_adapters E) (we_clock E j) t (map pre_fingerprint (tr_prepared t)) (Some spec))) (\<lambda>t'.
           act_bind (in_runs WorkerRunError (save_run t')) (\<lambda>_. act_return t'))
      else act_return t)"

definition run_claimed_job ::
  "runtime \<Rightarrow> worker_env \<Rightarrow> route_job \<Rightarrow> route_context \<Rightarrow> str \<Rightarrow> instant \<Rightarrow> job_step worker_action" where
  "run_claimed_job R E j x token now =
     act_bind (in_store WorkerStoreError (mark_route_job_running (job_id j) (Some token) None now)) (\<lambda>_.
     (let c = (rx_commit x)\<lparr>rcm_status := CRunning\<rparr>;
          p = (rx_problem x)\<lparr>bp_status := InProgress, bp_updated_at := now\<rparr>
      in act_bind (in_store WorkerStoreError (save_route_commit c)) (\<lambda>_.
         act_bind (in_store WorkerStoreError (save_business_problem p)) (\<lambda>_.
         act_bind (with_route_job_heartbeat E j token
             (run_job_by_activation_mode E j (rx_spec x) (rx_receipt x) c now)) (\<lambda>(t, escalation).
         act_bind (act_lift (require (tr_loop t = job_loop_id j \<and> tr_hash t = job_loop_spec_hash j)
             (RunNotBound (tr_id t) (job_id j)))) (\<lambda>_.
         act_bind (autonomous_commit E j (rx_spec x) t) (\<lambda>t'.
         act_return (FinishRun (x\<lparr>rx_commit := c, rx_problem := p\<rparr>) t' escalation))))))))"

definition guarded_part :: "runtime \<Rightarrow> worker_env \<Rightarrow> route_job \<Rightarrow> str \<Rightarrow> instant \<Rightarrow> job_step worker_action" where
  "guarded_part R E j token now =
     act_bind (act_read (\<lambda>w. validate_route_job_context R E False j (w_store w))) (\<lambda>checked.
     act_bind (act_lift checked) (\<lambda>x.
     act_bind (act_read (\<lambda>w. get_run (w_runs w) (job_run_id j))) (\<lambda>existing.
     (case existing of
        Some t \<Rightarrow>
          if is_terminal_trace t then act_return (FinishExisting x t)
          else if et_runtime (job_target j) = Hermes then act_return (HandToHermes x)
          else run_claimed_job R E j x token now
      | None \<Rightarrow>
          if et_runtime (job_target j) = Hermes then act_return (HandToHermes x)
          else run_claimed_job R E j x token now))))"

text \<open>The handler: the job is failed with its back-off, and commit and problem follow.\<close>

definition record_failure :: "worker_env \<Rightarrow> route_job \<Rightarrow> instant \<Rightarrow> worker_failure \<Rightarrow> route_job \<Rightarrow> worker_item worker_action" where
  "record_failure E j now e failed =
     act_bind (act_read (\<lambda>w. find_route_commit (w_store w) (job_commit_id j))) (\<lambda>commit.
     act_bind (case commit of None \<Rightarrow> act_return ()
       | Some c \<Rightarrow> in_store WorkerStoreError (save_route_commit
           (c\<lparr>rcm_status := (if job_status failed = DeadLetter then CFailed else CQueued)\<rparr>))) (\<lambda>_.
     act_bind (act_read (\<lambda>w. get_business_problem (w_store w) (job_problem_id j))) (\<lambda>problem.
     act_bind (case problem of None \<Rightarrow> act_return ()
       | Some p \<Rightarrow> in_store WorkerStoreError (save_business_problem (p\<lparr>bp_status := Waiting, bp_updated_at := now\<rparr>))) (\<lambda>_.
     act_return \<lparr>wi_job = job_id failed, wi_commit = job_commit_id failed, wi_status = job_status failed,
       wi_run = Some (job_run_id failed), wi_trace = None, wi_duplicate = False, wi_deliveries = [], wi_samples = [],
       wi_error = Some (opt_or (failure_code e) ''ROUTE_JOB_FAILED'', we_message E e)\<rparr>))))"

definition lease_lost_item :: "route_job \<Rightarrow> worker_item" where
  "lease_lost_item current =
     \<lparr>wi_job = job_id current, wi_commit = job_commit_id current, wi_status = job_status current,
      wi_run = Some (job_run_id current), wi_trace = None, wi_duplicate = False, wi_deliveries = [], wi_samples = [],
      wi_error = Some (''ROUTE_JOB_LEASE_LOST'', ''Worker no longer owns route job '' @ job_id current @
        ''; no stale completion was written.'')\<rparr>"

definition handle_failure :: "worker_env \<Rightarrow> route_job \<Rightarrow> str \<Rightarrow> instant \<Rightarrow> worker_failure \<Rightarrow> worker_item worker_action" where
  "handle_failure E j token now e =
     act_bind (act_catch
         (act_bind (in_store WorkerStoreError (fail_route_job (job_id j) (Some token) (failure_code e) (we_message E e) now))
           (\<lambda>failed. act_return (Inr failed)))
         (\<lambda>e2. act_bind (act_read (\<lambda>w. get_route_job (w_store w) (job_id j))) (\<lambda>found.
            (case found of None \<Rightarrow> act_throw e2 | Some current \<Rightarrow> act_return (Inl (lease_lost_item current))))))
       (\<lambda>result. case result of Inl item \<Rightarrow> act_return item | Inr failed \<Rightarrow> record_failure E j now e failed)"

definition finish_step :: "runtime \<Rightarrow> worker_env \<Rightarrow> route_job \<Rightarrow> str \<Rightarrow> instant \<Rightarrow> job_step \<Rightarrow> worker_item worker_action" where
  "finish_step R E j token now s =
     (case s of
        FinishExisting x t \<Rightarrow> finalize_route_job_from_trace R E j x t None now (Some token) True
      | HandToHermes x \<Rightarrow> dispatch_route_job_to_hermes R E j x token now
      | FinishRun x t escalation \<Rightarrow> finalize_route_job_from_trace R E j x t escalation now (Some token) False)"

definition process_claimed_route_job :: "runtime \<Rightarrow> worker_env \<Rightarrow> instant \<Rightarrow> route_job \<Rightarrow> worker_item worker_action" where
  "process_claimed_route_job R E now j =
     (if \<not> truthy_str (lease_token j) then act_throw (JobNotProtected (job_id j))
      else (let token = the (lease_token j)
            in act_bind (act_catch
                   (act_bind (guarded_part R E j token now) (\<lambda>s. act_return (Inr s)))
                   (\<lambda>e. act_bind (handle_failure E j token now e) (\<lambda>item. act_return (Inl item))))
                 (\<lambda>result. case result of Inl item \<Rightarrow> act_return item | Inr s \<Rightarrow> finish_step R E j token now s)))"

subsection \<open>A run of the worker\<close>

record worker_options =
  wo_worker :: str
  wo_now :: instant
  wo_lease_seconds :: "nat option"
  wo_limit :: "nat option"

definition worker_claim :: "worker_options \<Rightarrow> str \<Rightarrow> claim_input" where
  "worker_claim opts by = \<lparr>cl_by = by, cl_now = wo_now opts, cl_lease_seconds = opt_or (wo_lease_seconds opts) 300,
     cl_limit = opt_or (wo_limit opts) 10\<rparr>"

definition reconcile_job :: "runtime \<Rightarrow> worker_env \<Rightarrow> instant \<Rightarrow> route_job \<Rightarrow> worker_item list worker_action" where
  "reconcile_job R E now j =
     act_bind (act_read (\<lambda>w. get_run (w_runs w) (job_run_id j))) (\<lambda>found.
     (case (case found of Some t \<Rightarrow> if is_terminal_trace t then Some t else None | None \<Rightarrow> None) of
        None \<Rightarrow>
          act_bind (in_store WorkerStoreError (update_route_job_status (job_id j)
              \<lparr>su_status = WaitingReview, su_clear_lease = True, su_token = lease_token j, su_result = None, su_run_id = None\<rparr> now))
            (\<lambda>_. act_return [])
      | Some t \<Rightarrow>
          act_bind (act_read (\<lambda>w. validate_route_job_context R E True j (w_store w))) (\<lambda>checked.
          act_bind (act_lift checked) (\<lambda>x.
          act_bind (finalize_route_job_from_trace R E j x t None now (lease_token j) True) (\<lambda>item. act_return [item])))))"

definition reconcile_reviewed_route_jobs :: "runtime \<Rightarrow> worker_env \<Rightarrow> worker_options \<Rightarrow> worker_item list worker_action" where
  "reconcile_reviewed_route_jobs R E opts =
     act_bind (in_store WorkerStoreError
         (claim_waiting_review_route_jobs R (worker_claim opts (wo_worker opts @ '':review-reconciler'')))) (\<lambda>waiting.
     act_bind (act_each (reconcile_job R E (wo_now opts)) waiting) (\<lambda>items. act_return (concat items)))"

record worker_result =
  wr_claimed :: nat
  wr_completed :: nat
  wr_dispatched :: nat
  wr_waiting :: nat
  wr_failed :: nat
  wr_dead :: nat
  wr_reconciled :: nat
  wr_items :: "worker_item list"

definition items_in :: "job_status \<Rightarrow> worker_item list \<Rightarrow> nat" where
  "items_in s items = length (filter (\<lambda>x. wi_status x = s) items)"

definition run_route_job_worker :: "runtime \<Rightarrow> worker_env \<Rightarrow> worker_options \<Rightarrow> worker_result worker_action" where
  "run_route_job_worker R E opts =
     act_bind (reconcile_reviewed_route_jobs R E opts) (\<lambda>reconciled.
     act_bind (in_store WorkerStoreError (claim_due_route_jobs R (worker_claim opts (wo_worker opts)))) (\<lambda>claimed.
     act_bind (act_each (process_claimed_route_job R E (wo_now opts)) claimed) (\<lambda>items.
     act_return \<lparr>wr_claimed = length claimed, wr_completed = items_in Completed items, wr_dispatched = items_in Dispatched items,
       wr_waiting = items_in WaitingReview items, wr_failed = items_in Failed items, wr_dead = items_in DeadLetter items,
       wr_reconciled = length reconciled, wr_items = reconciled @ items\<rparr>)))"

end
