(* ===== verification/RouteWorkerLaws.thy ===== *)
theory RouteWorkerLaws imports RouteWorker begin

text \<open>
  What the worker of the route-job queue guarantees: which jobs it runs, what it may send, what a
  worker that lost its lease can still do, and how a job is settled.
\<close>

subsection \<open>The checked context\<close>

lemma bindings_Inr:
  "assert_route_job_bindings j c r p = Inr u \<longleftrightarrow>
     job_bound_to_commit j c \<and> rcp_event_id r = job_event_id j \<and> bp_id p = job_problem_id j"
  by (auto simp: assert_route_job_bindings_def Let_def job_bound_to_commit_def)

text \<open>The specification in force: of the registry, or of the file the project registers.\<close>

definition active_spec :: "worker_env \<Rightarrow> str \<Rightarrow> loop_spec option" where
  "active_spec E loopId =
     (case we_registry E of Some rg \<Rightarrow> rg_active rg loopId
      | None \<Rightarrow> (case registered_spec (we_project E) loopId of LoadedSpec spec \<Rightarrow> Some spec | _ \<Rightarrow> None))"

lemma check_bound_spec_Inr:
  "check_bound_spec R j c spec = Inr s \<longleftrightarrow> s = spec \<and> loop_spec_hash R spec = job_loop_spec_hash j \<and>
     loop_spec_hash R spec = rcm_loop_spec_hash c \<and> map_option ct_activation (sp_routing spec) = Some (job_activation j)"
  by (auto simp: check_bound_spec_def Let_def)

lemma bound_spec_Inr:
  "bound_spec R E j c = Inr s \<longleftrightarrow> active_spec E (job_loop_id j) = Some s \<and>
     loop_spec_hash R s = job_loop_spec_hash j \<and> loop_spec_hash R s = rcm_loop_spec_hash c \<and>
     map_option ct_activation (sp_routing s) = Some (job_activation j)"
  by (auto simp: bound_spec_def active_spec_def check_bound_spec_Inr split: option.splits spec_lookup.splits)

lemma find_commit_id: "find_route_commit st k = Some c \<Longrightarrow> rcm_id c = k"
  by (auto simp: find_route_commit_def find_Some_iff)

text \<open>
  C27: exactly the intact routes are worked on. The context of a job is accepted if and only if its
  event was ingested and is no notice of Loopgraph, problem and commit exist, the commit is not
  cancelled (nor completed, unless a review is being reconciled), event, problem, attempt, loop and
  specification of job, commit, receipt and problem agree, and the specification in force has the
  hash and the activation mode the job was committed with.
\<close>

theorem job_context_valid_iff:
  "validate_route_job_context R E allowCompleted j st = Inr x \<longleftrightarrow>
     get_event_receipt st (job_event_id j) = Some (rx_receipt x) \<and>
     ev_source (rcp_event (rx_receipt x)) \<noteq> ''loopgraph'' \<and> \<not> notification_only (rcp_event (rx_receipt x)) \<and>
     get_business_problem st (job_problem_id j) = Some (rx_problem x) \<and> bp_id (rx_problem x) = job_problem_id j \<and>
     find_route_commit st (job_commit_id j) = Some (rx_commit x) \<and>
     rcm_status (rx_commit x) \<notin> (if allowCompleted then {CCancelled} else {CCancelled, CCompleted}) \<and> job_bound_to_commit j (rx_commit x) \<and>
     active_spec E (job_loop_id j) = Some (rx_spec x) \<and> loop_spec_hash R (rx_spec x) = job_loop_spec_hash j \<and>
     map_option ct_activation (sp_routing (rx_spec x)) = Some (job_activation j)"
proof -
  have receipt: "get_event_receipt st k = Some r \<Longrightarrow> rcp_event_id r = k" for k r
    by (auto simp: get_event_receipt_def find_Some_iff)
  have bound: "job_bound_to_commit j c \<Longrightarrow> rcm_loop_spec_hash c = job_loop_spec_hash j" for c
    by (simp add: job_bound_to_commit_def)
  show ?thesis
    by (cases x)
      (auto simp: validate_route_job_context_def res_bind_Inr_iff bindings_Inr bound_spec_Inr dest: receipt bound
        split: option.splits if_splits)
qed

lemma context_spec:
  "validate_route_job_context R E allowCompleted j st = Inr x \<Longrightarrow>
     active_spec E (job_loop_id j) = Some (rx_spec x) \<and> loop_spec_hash R (rx_spec x) = job_loop_spec_hash j"
  by (cases x)
    (auto simp: validate_route_job_context_def res_bind_Inr_iff bound_spec_Inr split: option.splits if_splits)

subsection \<open>A worker without its lease\<close>

lemma fenced_off:
  assumes "get_route_job st k = Some j0" and "truthy_str tok" and "lease_token j0 \<noteq> tok"
  shows "mutate_route_job k tok f st = (Inl (JobLeaseLost k), st)"
  using assms by (simp add: mutate_run)

lemma stale_store_calls:
  assumes "get_route_job (w_store w) k = Some j0" and "truthy_str (Some token)" and "lease_token j0 \<noteq> Some token"
  shows "in_store F (update_route_job_status k \<lparr>su_status = s, su_clear_lease = b, su_token = Some token,
      su_result = res, su_run_id = rid\<rparr> now) w = (Inl (F (JobLeaseLost k)), w)"
    "in_store F (mark_route_job_running k (Some token) run now) w = (Inl (F (JobLeaseLost k)), w)"
    "in_store F (fail_route_job k (Some token) code message now) w = (Inl (F (JobLeaseLost k)), w)"
  using fenced_off [OF assms]
  by (simp_all add: in_store_def act_zoom_run update_route_job_status_def mark_route_job_running_def fail_route_job_def)

lemma finalize_without_lease:
  assumes "truthy_str (Some token)" and "assert_route_job_finalize_lease (job_id j) token now (w_store w) = Inl e"
  shows "finalize_route_job_from_trace R E j x t escalation now (Some token) dup w = (Inl e, w)"
  using assms by (simp add: finalize_route_job_from_trace_def act_bind_run)

lemma stale_handler:
  assumes "get_route_job (w_store w) (job_id j) = Some j0" and "truthy_str (Some token)" and "lease_token j0 \<noteq> Some token"
  shows "handle_failure E j token now e w = (Inr (lease_lost_item j0), w)"
  using assms by (simp add: handle_failure_def act_bind_run act_catch_def stale_store_calls)

lemma run_claimed_step:
  "run_claimed_job R E j x token now w = (Inr s, w') \<Longrightarrow> \<exists>x' t escalation. s = FinishRun x' t escalation"
  by (auto simp: run_claimed_job_def Let_def act_bind_Inr)

lemma stale_guarded_part:
  assumes "get_route_job (w_store w) (job_id j) = Some j0" and "truthy_str (Some token)" and "lease_token j0 \<noteq> Some token"
  shows "(\<exists>e. guarded_part R E j token now w = (Inl e, w)) \<or>
    (\<exists>x t. guarded_part R E j token now w = (Inr (FinishExisting x t), w)) \<or>
    (\<exists>x. guarded_part R E j token now w = (Inr (HandToHermes x), w))"
proof -
  have "run_claimed_job R E j x token now w = (Inl (WorkerStoreError (JobLeaseLost (job_id j))), w)" for x
    by (simp add: run_claimed_job_def act_bind_run stale_store_calls(2) [OF assms])
  then show ?thesis
    by (auto simp: guarded_part_def act_bind_run split: sum.splits option.splits)
qed

lemma stale_dispatch:
  assumes "get_route_job (w_store w) (job_id j) = Some j0" and "truthy_str (Some token)" and "lease_token j0 \<noteq> Some token"
    and "dispatch_route_job_to_hermes R E j x token now w = (out, w')"
  shows "(\<exists>e. out = Inl e) \<and> (w' = w \<or> (\<exists>a. w' = w\<lparr>w_assigned := w_assigned w @ [a]\<rparr>))"
proof -
  have "in_store WorkerStoreError (update_route_job_status (job_id j) \<lparr>su_status = Dispatched, su_clear_lease = True,
      su_token = Some token, su_result = None, su_run_id = None\<rparr> now) (w\<lparr>w_assigned := as\<rparr>) =
      (Inl (WorkerStoreError (JobLeaseLost (job_id j))), w\<lparr>w_assigned := as\<rparr>)" for as
    using stale_store_calls(1) [of "w\<lparr>w_assigned := as\<rparr>" "job_id j" j0 token] assms(1-3) by simp
  with assms(4) show ?thesis
    unfolding dispatch_route_job_to_hermes_def hand_out_def
    by (fastforce simp: act_bind_run require_def split: option.splits if_splits dispatch_answer.splits)
qed

lemma process_run:
  assumes "lease_token j = Some token" and "truthy_str (Some token)"
  shows "process_claimed_route_job R E now j w =
    (case guarded_part R E j token now w of
       (Inl e, w1) \<Rightarrow> handle_failure E j token now e w1
     | (Inr s, w1) \<Rightarrow> finish_step R E j token now s w1)"
  using assms
  by (simp add: process_claimed_route_job_def act_bind_run act_catch_def split: prod.splits sum.splits)

text \<open>
  C25: a worker that lost its lease writes nothing. When the stored job is leased under another token,
  or under none, processing the claimed copy changes neither routing store nor runs, notices,
  outcomes or Hermes events, sends no action, and reports the stored job as lost or throws; all it
  can still do is hand out one assignment to Hermes.
\<close>

theorem stale_worker_inert:
  assumes "process_claimed_route_job R E now j w = (out, w')"
    and "get_route_job (w_store w) (job_id j) = Some j0" and "lease_token j0 \<noteq> lease_token j"
  shows "(w' = w \<or> et_runtime (job_target j) = Hermes \<and> (\<exists>a. w' = w\<lparr>w_assigned := w_assigned w @ [a]\<rparr>)) \<and>
    (\<forall>item. out = Inr item \<longrightarrow> item = lease_lost_item j0)"
proof (cases "truthy_str (lease_token j)")
  case False
  with assms(1) show ?thesis by (auto simp: process_claimed_route_job_def)
next
  case True
  then obtain token where token: "lease_token j = Some token" by (cases "lease_token j") auto
  with True have truthy: "truthy_str (Some token)" by simp
  note stale = assms(2) truthy assms(3) [unfolded token]
  have fin: "\<exists>e. assert_route_job_finalize_lease (job_id j) token now (w_store w) = Inl e"
    using stale by (auto simp: assert_route_job_finalize_lease_def lease_token_def split: option.splits)
  note run = assms(1) [unfolded process_run [OF token truthy]]
  consider e where "guarded_part R E j token now w = (Inl e, w)"
    | x t where "guarded_part R E j token now w = (Inr (FinishExisting x t), w)"
    | x where "guarded_part R E j token now w = (Inr (HandToHermes x), w)"
    using stale_guarded_part [OF stale, of R E now] by blast
  then show ?thesis
  proof cases
    case 1
    with run stale_handler [OF stale] show ?thesis by auto
  next
    case 2
    with run fin finalize_without_lease [OF truthy] show ?thesis by (auto simp: finish_step_def)
  next
    case (3 x)
    then have "et_runtime (job_target j) = Hermes"
      by (auto simp: guarded_part_def act_bind_run dest!: run_claimed_step split: sum.splits option.splits if_splits)
    moreover from 3 run have "dispatch_route_job_to_hermes R E j x token now w = (out, w')" by (simp add: finish_step_def)
    ultimately show ?thesis using stale_dispatch [OF stale] by blast
  qed
qed

subsection \<open>Calls that only touch the routing store\<close>

lemma keeps_store_part [keeps_rules]: "keeps (\<lambda>w. w\<lparr>w_store := st\<rparr> = v) (in_store f m)"
  by (rule keepsI) (auto simp: in_store_def act_zoom_run split: prod.splits sum.splits)

lemma keeps_sum [keeps_rules]:
  "(\<And>a. x = Inl a \<Longrightarrow> keeps I (f a)) \<Longrightarrow> (\<And>b. x = Inr b \<Longrightarrow> keeps I (g b)) \<Longrightarrow>
   keeps I (case x of Inl a \<Rightarrow> f a | Inr b \<Rightarrow> g b)"
  by (cases x) auto

lemma handler_store_part: "keeps (\<lambda>w. w\<lparr>w_store := st\<rparr> = v) (handle_failure E j token now e)"
  unfolding handle_failure_def record_failure_def by (intro keeps_rules)

lemma handler_frame:
  assumes "handle_failure E j token now e w = (out, w')"
  shows "w' = w\<lparr>w_store := w_store w'\<rparr>"
proof -
  from keepsD [OF handler_store_part _ assms, of "w_store w'" "w\<lparr>w_store := w_store w'\<rparr>"]
  have "w'\<lparr>w_store := w_store w'\<rparr> = w\<lparr>w_store := w_store w'\<rparr>" by simp
  then show ?thesis by simp
qed

lemma record_failure_item:
  "record_failure E j now e failed w = (Inr item, w') \<Longrightarrow>
     wi_error item = Some (opt_or (failure_code e) ''ROUTE_JOB_FAILED'', we_message E e)"
  by (auto simp: record_failure_def act_bind_Inr)

lemma handler_item:
  assumes "handle_failure E j token now e w = (Inr item, w')"
  shows "(\<exists>j0. item = lease_lost_item j0) \<or> wi_error item = Some (opt_or (failure_code e) ''ROUTE_JOB_FAILED'', we_message E e)"
  using assms
  by (auto simp: handle_failure_def act_bind_run act_catch_def dest: record_failure_item
      split: sum.splits prod.splits option.splits)

text \<open>
  A notice never starts work. Whatever job is bound to the event of a notice Loopgraph itself sent,
  processing it runs nothing, sends nothing, emits no notice and records no sample; only the routing
  store can change, by failing the job, and a reported job is reported as blocked or as lost.
\<close>

theorem notices_never_run:
  assumes "emission R' L source s d s'" and "get_event_receipt (w_store w) (job_event_id j) = Some r"
    and "rcp_event r = ld_event d" and "process_claimed_route_job R E now j w = (out, w')"
  shows "w' = w\<lparr>w_store := w_store w'\<rparr> \<and>
    (\<forall>item. out = Inr item \<longrightarrow>
       (\<exists>j0. item = lease_lost_item j0) \<or> wi_error item = Some (''LIFECYCLE_REENTRY_BLOCKED'', we_message E ReentryBlocked))"
proof (cases "truthy_str (lease_token j)")
  case False
  with assms(4) show ?thesis by (auto simp: process_claimed_route_job_def)
next
  case True
  then obtain token where token: "lease_token j = Some token" by (cases "lease_token j") auto
  from assms(1) obtain keys n t where "emit_notice R' L keys source n t s = (Inr (Emitted d), s')"
    by (rule emission_notice)
  then obtain signing where d: "d = notice_delivery R' L (notice_event R' source n t) n t signing" by (rule emit_notice_Emitted)
  have "ev_source (rcp_event r) = ''loopgraph''" using assms(3) by (simp add: d)
  then have "guarded_part R E j token now w = (Inl ReentryBlocked, w)"
    using assms(2) by (simp add: guarded_part_def validate_route_job_context_def act_bind_run)
  with assms(4) True token have "handle_failure E j token now ReentryBlocked w = (out, w')"
    by (simp add: process_run)
  with handler_frame [OF this] handler_item [of E j token now ReentryBlocked w _ w'] show ?thesis
    by (auto simp: failure_code_def opt_or_def)
qed

subsection \<open>What the worker sends\<close>

definition local_runners ::
  "runtime \<Rightarrow> variable_reader \<Rightarrow> assessment \<Rightarrow> (gate_reason \<Rightarrow> str) \<Rightarrow> bool \<Rightarrow> worker_env \<Rightarrow> bool" where
  "local_runners R read_variable generate reason_code enabled E \<longleftrightarrow>
     we_simulate E = simulate_fixture R read_variable \<and>
     we_execute E = execute_loop R read_variable generate reason_code enabled"

lemma completed_run_unapproved:
  assumes "run_loop R read_variable generate i s = (Inr (t, c), s')" and "tr_status t = COMPLETED" and "a \<in> set (tr_prepared t)"
  shows "\<not> pre_requires_approval a"
  using assms(1)
proof (cases rule: run_loop_Inr)
  case 1
  with assms(2,3) show ?thesis by (auto simp: run_trace_for_def run_outcome_def list_ex_iff split: if_splits)
qed

lemma executed_gate:
  assumes "execute_loop R read_variable generate reason_code enabled i s = (Inr (t, c), s')"
  shows "enabled \<and> gate_allowed (evaluate_live_execution_gate (xi_spec i) (xi_plan i) (xi_now i)) \<and>
    (tr_status t = COMPLETED \<longrightarrow> (\<forall>a\<in>set (tr_prepared t). \<not> pre_requires_approval a))"
  using assms
  by (auto simp: execute_loop_def Let_def act_bind_run require_def dest: completed_run_unapproved
      split: if_splits sum.splits prod.splits)

lemma heartbeat_Inr:
  assumes "with_route_job_heartbeat E j token operation w = (Inr a, w')"
  obtains w1 w2 where "operation w1 = (Inr a, w2)"
  using assms unfolding with_route_job_heartbeat_def by (auto simp: act_bind_Inr)

lemma autonomous_run:
  assumes "local_runners R read_variable generate reason_code enabled E" and "job_activation j = AutonomousLowRisk"
    and "run_job_by_activation_mode E j spec r c now w = (Inr (t, escalation), w')"
  shows "enabled \<and> gate_allowed (evaluate_live_execution_gate spec (pj_plan (we_project E)) (we_clock E j)) \<and>
    (tr_status t = COMPLETED \<longrightarrow> (\<forall>a\<in>set (tr_prepared t). \<not> pre_requires_approval a))"
proof -
  from assms obtain i s s' where "execute_loop R read_variable generate reason_code enabled i s = (Inr (t, escalation), s')"
    and "xi_spec i = spec" "xi_plan i = pj_plan (we_project E)" "xi_now i = we_clock E j"
    by (auto simp: run_job_by_activation_mode_def local_runners_def Let_def act_zoom_Inr)
  with executed_gate [OF this(1)] show ?thesis by simp
qed

text \<open>Calls that send nothing.\<close>

definition silent :: "'a worker_action \<Rightarrow> bool" where
  "silent m \<longleftrightarrow> (\<forall>v. keeps (\<lambda>w. w_sent w = v) m)"

lemma silentD: "silent m \<Longrightarrow> m w = (r, w') \<Longrightarrow> w_sent w' = w_sent w"
  by (auto simp: silent_def dest: keepsD)

lemma keeps_sent_zooms [keeps_rules]:
  "keeps (\<lambda>w. w_sent w = v) (in_store f1 m1)" "keeps (\<lambda>w. w_sent w = v) (in_runs f2 m2)"
  "keeps (\<lambda>w. w_sent w = v) (in_life f3 m3)" "keeps (\<lambda>w. w_sent w = v) (in_outcomes f4 m4)"
  by (rule keepsI; auto simp: in_store_def in_runs_def in_life_def in_outcomes_def act_zoom_run split: prod.splits sum.splits)+

lemma keeps_sent_hand_out [keeps_rules]: "keeps (\<lambda>w. w_sent w = v) (hand_out dispatch a)"
  by (rule keepsI) (auto simp: hand_out_def act_bind_run split: dispatch_answer.splits)

lemma keeps_sent_execute [keeps_rules]: "keeps (\<lambda>w. w_sent w = v) (act_zoom w_runs w_runs_update f m)"
  by (rule keepsI) (auto simp: act_zoom_run split: prod.splits sum.splits)

lemma keeps_heartbeats: "keeps (\<lambda>w. w_sent w = v) (heartbeats j token ts)"
proof (induction ts)
  case Nil
  show ?case unfolding heartbeats.simps by (rule keeps_return)
next
  case (Cons t ts)
  show ?case unfolding heartbeats.simps by (intro keeps_rules Cons.IH)
qed

lemma silent_calls:
  "silent (in_store f m)" "silent (handle_failure E j token now e)"
  "silent (with_route_job_heartbeat E j token (run_job_by_activation_mode E j spec r c now))"
  "silent (finalize_route_job_from_trace R E j x t escalation now k dup)"
  "silent (dispatch_route_job_to_hermes R E j x token now)"
  unfolding silent_def handle_failure_def record_failure_def with_route_job_heartbeat_def run_job_by_activation_mode_def
    finalize_route_job_from_trace_def dispatch_route_job_to_hermes_def Let_def
  by (intro allI keeps_rules keeps_heartbeats; simp)+

lemma bind_silent:
  assumes "silent m" and "act_bind m f w = (r, w1)"
  obtains e where "r = Inl e" "w_sent w1 = w_sent w"
  | a w2 where "m w = (Inr a, w2)" "w_sent w2 = w_sent w" "f a w2 = (r, w1)"
proof (cases "m w")
  case (Pair q w2)
  then show ?thesis using assms that silentD [OF assms(1) Pair] by (cases q) (auto simp: act_bind_run)
qed

lemma autonomous_commit_sends:
  assumes "autonomous_commit E j spec t w = (out, w')"
  obtains new where "w_sent w' = w_sent w @ new"
    "\<forall>(k, a)\<in>set new. a \<in> set (tr_prepared t) \<and> job_activation j = AutonomousLowRisk \<and> tr_status t = COMPLETED"
proof (cases "job_activation j = AutonomousLowRisk \<and> tr_status t = COMPLETED")
  case False
  with assms that [of "[]"] show ?thesis by (auto simp: autonomous_commit_def)
next
  case True
  let ?m = "commit_prepared_actions (we_adapters E) (we_clock E j) t (map pre_fingerprint (tr_prepared t)) (Some spec)"
  obtain q w1 where m: "?m w = (q, w1)" by fastforce
  have "sends t (map pre_fingerprint (tr_prepared t)) w w1" by (rule keepsD [OF commit_sends sends_refl m])
  then obtain new where new: "w_sent w1 = w_sent w @ new"
    "\<forall>(k, a)\<in>set new. find (\<lambda>b. pre_tool b = pre_tool a) (tr_prepared t) = Some a"
    by (auto simp: sends_def)
  have mem: "\<forall>(k, a)\<in>set new. a \<in> set (tr_prepared t)"
    using new(2) by (fastforce simp: find_Some_iff)
  have "w_sent w' = w_sent w \<or> w_sent w' = w_sent w1"
    using assms m
    by (auto simp: autonomous_commit_def act_bind_run act_zoom_run in_runs_def split: if_splits sum.splits prod.splits)
  then show ?thesis using that [of new] that [of "[]"] new(1) mem True by auto
qed

lemma run_claimed_sends:
  assumes "local_runners R read_variable generate reason_code enabled E"
    and "run_claimed_job R E j x token now w = (q, w1)"
  shows "\<exists>new. w_sent w1 = w_sent w @ new \<and>
    (\<forall>(k, a)\<in>set new. \<not> pre_requires_approval a \<and> job_activation j = AutonomousLowRisk \<and> enabled \<and>
       gate_allowed (evaluate_live_execution_gate (rx_spec x) (pj_plan (we_project E)) (we_clock E j)))"
proof -
  have "w_sent w1 = w_sent w \<or> (\<exists>t escalation v1 v2 v3 q'.
      run_job_by_activation_mode E j (rx_spec x) (rx_receipt x) ((rx_commit x)\<lparr>rcm_status := CRunning\<rparr>) now v1 =
        (Inr (t, escalation), v2) \<and>
      autonomous_commit E j (rx_spec x) t v3 = (q', w1) \<and> w_sent v3 = w_sent w)"
    using assms(2) unfolding run_claimed_job_def Let_def
  proof (elim bind_silent [OF silent_calls(1)] bind_silent [OF silent_calls(3)], goal_cases)
    case 5
    then show ?case
      by (fastforce simp: act_bind_run require_def elim: heartbeat_Inr split: if_splits sum.splits prod.splits)
  qed simp_all
  then show ?thesis
  proof (elim disjE exE conjE)
    fix t escalation v1 v2 v3 q'
    assume op: "run_job_by_activation_mode E j (rx_spec x) (rx_receipt x) ((rx_commit x)\<lparr>rcm_status := CRunning\<rparr>) now v1 =
        (Inr (t, escalation), v2)"
      and commit: "autonomous_commit E j (rx_spec x) t v3 = (q', w1)" and same: "w_sent v3 = w_sent w"
    from commit obtain new where new: "w_sent w1 = w_sent w @ new"
      "\<forall>(k, a)\<in>set new. a \<in> set (tr_prepared t) \<and> job_activation j = AutonomousLowRisk \<and> tr_status t = COMPLETED"
      unfolding same [symmetric] by (rule autonomous_commit_sends)
    with autonomous_run [OF assms(1) _ op] show ?thesis by (intro exI [of _ new]) fastforce
  qed simp
qed

lemma guarded_part_sends:
  assumes "local_runners R read_variable generate reason_code enabled E"
    and "guarded_part R E j token now w = (q, w1)"
  shows "\<exists>new. w_sent w1 = w_sent w @ new \<and>
    (\<forall>(k, a)\<in>set new. \<not> pre_requires_approval a \<and> job_activation j = AutonomousLowRisk \<and> enabled \<and>
       (\<exists>spec. active_spec E (job_loop_id j) = Some spec \<and> loop_spec_hash R spec = job_loop_spec_hash j \<and>
          gate_allowed (evaluate_live_execution_gate spec (pj_plan (we_project E)) (we_clock E j))))"
proof (cases "w_sent w1 = w_sent w")
  case False
  with assms(2) obtain x where "validate_route_job_context R E False j (w_store w) = Inr x"
    and "run_claimed_job R E j x token now w = (q, w1)"
    by (auto simp: guarded_part_def act_bind_run split: sum.splits option.splits if_splits)
  with run_claimed_sends [OF assms(1) this(2)] context_spec [OF this(1)] show ?thesis by fastforce
qed simp

text \<open>
  C24: on its own the worker sends only what needs no approval. With the runners of the repository,
  every action the processing of a job hands to an adapter belongs to an autonomous job, needs no
  approval, and was sent after a run of the specification the job is bound to, with live execution
  enabled and through an open gate; everything else waits for a review.
\<close>

theorem worker_sends_only_autonomous:
  assumes "local_runners R read_variable generate reason_code enabled E"
    and "process_claimed_route_job R E now j w = (out, w')"
  shows "\<exists>new. w_sent w' = w_sent w @ new \<and>
    (\<forall>(k, a)\<in>set new. \<not> pre_requires_approval a \<and> job_activation j = AutonomousLowRisk \<and> enabled \<and>
       (\<exists>spec. active_spec E (job_loop_id j) = Some spec \<and> loop_spec_hash R spec = job_loop_spec_hash j \<and>
          gate_allowed (evaluate_live_execution_gate spec (pj_plan (we_project E)) (we_clock E j))))"
proof (cases "truthy_str (lease_token j)")
  case False
  with assms(2) show ?thesis by (auto simp: process_claimed_route_job_def)
next
  case True
  then obtain token where token: "lease_token j = Some token" by (cases "lease_token j") auto
  define ok :: "prepared_action \<Rightarrow> bool" where "ok a \<longleftrightarrow> \<not> pre_requires_approval a \<and> job_activation j = AutonomousLowRisk \<and> enabled \<and>
       (\<exists>spec. active_spec E (job_loop_id j) = Some spec \<and> loop_spec_hash R spec = job_loop_spec_hash j \<and>
          gate_allowed (evaluate_live_execution_gate spec (pj_plan (we_project E)) (we_clock E j)))" for a
  obtain q w1 where g: "guarded_part R E j token now w = (q, w1)" by fastforce
  have "\<exists>new. w_sent w1 = w_sent w @ new \<and> (\<forall>(k, a)\<in>set new. ok a)"
    by (rule guarded_part_sends [OF assms(1) g, folded ok_def])
  moreover have "w_sent w' = w_sent w1"
  proof -
    have "(case q of Inl e \<Rightarrow> handle_failure E j token now e w1 | Inr s \<Rightarrow> finish_step R E j token now s w1) = (out, w')"
      using assms(2) True token g by (auto simp: process_run split: sum.splits)
    then show ?thesis
      by (auto simp: finish_step_def split: sum.splits job_step.splits dest: silentD [OF silent_calls(2)]
          silentD [OF silent_calls(4)] silentD [OF silent_calls(5)])
  qed
  ultimately show ?thesis unfolding ok_def by simp
qed

subsection \<open>How a job is settled\<close>

definition settled_status :: "run_trace \<Rightarrow> route_job \<Rightarrow> job_status" where
  "settled_status t j =
     (if tr_status t = WAITING_FOR_REVIEW then WaitingReview else if tr_status t = COMPLETED then Completed
      else if job_attempts j < job_max_attempts j then Failed else DeadLetter)"

lemma settle_job_Inr:
  assumes "settle_job j t token deliveries samples now st = (Inr j', st')"
  obtains j0 where "get_route_job st (job_id j) = Some j0" "job_status j' = settled_status t j0" "job_lease j' = None"
    "job_id j' = job_id j0" "job_ok j'" "st' = job_put j' st"
  using assms unfolding settle_job_def mark_route_job_waiting_review_def mark_route_job_completed_def
  by (auto elim!: update_status_Inr fail_job_Inr
      simp: apply_status_def failed_job_def Let_def settled_status_def split: if_splits)

lemma save_commit_Inr: "save_route_commit c st = (Inr u, st') \<Longrightarrow> commit_ok c \<and> st' = snd (save_route_commit c st)"
  by (auto simp: save_runs split: if_splits)

lemma save_problem_Inr: "save_business_problem p st = (Inr u, st') \<Longrightarrow> problem_ok p \<and> st' = snd (save_business_problem p st)"
  by (auto simp: save_runs split: if_splits)

lemma record_trace_samples_frame:
  "in_outcomes f m w = (out, w') \<Longrightarrow> w_store w' = w_store w \<and> w_runs w' = w_runs w \<and> w_ops w' = w_ops w"
  "in_life g n w = (out2, w') \<Longrightarrow> w_store w' = w_store w \<and> w_runs w' = w_runs w \<and> w_ops w' = w_ops w"
  by (auto simp: in_outcomes_def in_life_def act_zoom_run split: sum.splits prod.splits)

text \<open>The job is claimed, running or waiting, under an unexpired lease with this token.\<close>

definition holds_job :: "routing_store \<Rightarrow> str \<Rightarrow> str \<Rightarrow> instant \<Rightarrow> bool" where
  "holds_job st k token now \<longleftrightarrow>
     (case get_route_job st k of None \<Rightarrow> False
      | Some j \<Rightarrow> job_status j \<in> {Claimed, Running, WaitingReview} \<and>
          (case job_lease j of None \<Rightarrow> False | Some l \<Rightarrow> ls_token l = Some token \<and> now < ls_expires_at l))"

lemma finalize_lease_Inr: "assert_route_job_finalize_lease k token now st = Inr u \<longleftrightarrow> holds_job st k token now"
  by (auto simp: assert_route_job_finalize_lease_def holds_job_def split: option.splits)


lemma record_failure_run:
  assumes "find_route_commit (w_store w) (job_commit_id j) = Some c"
    and "in_store WorkerStoreError (save_route_commit
      (c\<lparr>rcm_status := (if job_status f = DeadLetter then CFailed else CQueued)\<rparr>)) w = (Inr (), w2)"
    and "get_business_problem (w_store w2) (job_problem_id j) = Some p"
    and "in_store WorkerStoreError (save_business_problem (p\<lparr>bp_status := Waiting, bp_updated_at := now\<rparr>)) w2 = (Inr (), w')"
  shows "\<exists>item. record_failure E j now e f w = (Inr item, w') \<and> wi_status item = job_status f"
  using assms by (simp add: record_failure_def act_bind_run)

text \<open>
  A cancelled route comes back. A held job whose commit was cancelled is refused and failed, but the
  handler of the failure also sets the stored commit back to queued (or to failed, on the last
  attempt), so the cancellation is forgotten and the next attempt runs the route.
\<close>

theorem cancelled_commit_revived:
  assumes "store_wf (w_store w)" and "get_route_job (w_store w) (job_id j) = Some j0" and "lease_token j0 = lease_token j"
    and "lease_token j = Some token" and "token \<noteq> []"
    and "get_event_receipt (w_store w) (job_event_id j) = Some r" and "ev_source (rcp_event r) \<noteq> ''loopgraph''"
    and "\<not> notification_only (rcp_event r)" and "get_business_problem (w_store w) (job_problem_id j) = Some p"
    and "find_route_commit (w_store w) (job_commit_id j) = Some c" and "rcm_status c = CCancelled"
    and "we_message E (RouteCommitIsCancelled (rcm_id c)) \<noteq> []"
  shows "\<exists>item w'. process_claimed_route_job R E now j w = (Inr item, w') \<and>
    wi_error item = Some (''ROUTE_COMMIT_CANCELLED'', we_message E (RouteCommitIsCancelled (rcm_id c))) \<and>
    wi_status item = (if job_attempts j0 < job_max_attempts j0 then Failed else DeadLetter) \<and>
    c\<lparr>rcm_status := (if job_attempts j0 < job_max_attempts j0 then CQueued else CFailed)\<rparr> \<in>
      set (list_route_commits (w_store w') None)"
proof -
  let ?e = "RouteCommitIsCancelled (rcm_id c)"
  let ?f = "failed_job (failure_code ?e) (we_message E ?e) now j0"
  have g: "guarded_part R E j token now w = (Inl ?e, w)"
    using assms(6-11) by (simp add: guarded_part_def validate_route_job_context_def act_bind_run)
  have ok0: "job_ok j0" using jobs.get_ok [OF assms(1,2)] by simp
  have ok: "job_ok ?f" using ok0 assms(12) by (simp add: job_ok_def failed_job_def Let_def)
  have failed: "fail_route_job (job_id j) (Some token) (failure_code ?e) (we_message E ?e) now (w_store w) =
      (Inr ?f, job_put ?f (w_store w))"
    using assms(2-5) ok by (simp add: fail_route_job_def mutate_run require_def job_put_def save_runs)
  let ?w1 = "w\<lparr>w_store := job_put ?f (w_store w)\<rparr>"
  let ?c = "c\<lparr>rcm_status := (if job_attempts j0 < job_max_attempts j0 then CQueued else CFailed)\<rparr>"
  have wf1: "store_wf (w_store ?w1)" using job_put_wf [OF assms(1)] by simp
  have find1: "find_route_commit (w_store ?w1) (job_commit_id j) = Some c"
    using assms(10) list_commits_frame [of "job_put ?f (w_store w)" "w_store w"] by (simp add: find_route_commit_def)
  have c_ok: "commit_ok c"
    using assms(10) commits.all_ok [OF assms(1)] by (auto simp: find_route_commit_def find_Some_iff)
  have st: "job_status ?f = (if job_attempts j0 < job_max_attempts j0 then Failed else DeadLetter)"
    by (simp add: failed_job_def Let_def)
  have "(c\<lparr>rcm_status := (if job_status ?f = DeadLetter then CFailed else CQueued)\<rparr>) = ?c" by (simp add: st)
  note upd = this
  let ?w2 = "?w1\<lparr>w_store := snd (save_route_commit ?c (w_store ?w1))\<rparr>"
  have c_ok': "commit_ok ?c" using c_ok by (simp add: commit_ok_def)
  have wf2: "store_wf (w_store ?w2)" using commits.save_inv [OF wf1] by simp
  have listed: "?c \<in> set (list_route_commits (w_store ?w2) None)"
    using commits.saved_listed [OF wf1 c_ok'] by simp
  have prob: "get_business_problem (w_store ?w2) (job_problem_id j) = Some p"
    using assms(9) by (simp add: get_business_problem_def save_commit_frame)
  have p_ok: "problem_ok (p\<lparr>bp_status := Waiting, bp_updated_at := now\<rparr>)"
    using problems.get_ok [OF assms(1,9)] by (auto simp: problem_ok_def)
  have save_c: "in_store WorkerStoreError (save_route_commit ?c) ?w1 = (Inr (), ?w2)"
    using c_ok' by (simp add: in_store_def act_zoom_run save_runs)
  have "\<exists>w'. in_store WorkerStoreError (save_business_problem (p\<lparr>bp_status := Waiting, bp_updated_at := now\<rparr>)) ?w2 = (Inr (), w') \<and>
      list_route_commits (w_store w') None = list_route_commits (w_store ?w2) None"
    using p_ok list_commits_frame [OF save_problem_frame(3) [of _ "w_store ?w2"]]
    by (simp add: in_store_def act_zoom_run save_runs list_route_commits_def)
  then obtain w' where save_p: "in_store WorkerStoreError
      (save_business_problem (p\<lparr>bp_status := Waiting, bp_updated_at := now\<rparr>)) ?w2 = (Inr (), w')"
    and same: "list_route_commits (w_store w') None = list_route_commits (w_store ?w2) None" by blast
  have save_c': "in_store WorkerStoreError (save_route_commit
      (c\<lparr>rcm_status := (if job_status ?f = DeadLetter then CFailed else CQueued)\<rparr>)) ?w1 = (Inr (), ?w2)"
    by (simp only: upd save_c)
  from record_failure_run [OF find1 save_c' prob save_p]
  obtain item where item: "record_failure E j now ?e ?f ?w1 = (Inr item, w')" "wi_status item = job_status ?f" by blast
  from record_failure_item [OF item(1)]
  have code: "wi_error item = Some (''ROUTE_COMMIT_CANCELLED'', we_message E ?e)" by (simp add: failure_code_def opt_or_def)
  have "handle_failure E j token now ?e w = (Inr item, w')"
    using failed item(1) by (simp add: handle_failure_def act_bind_run act_catch_def in_store_def act_zoom_run)
  then have "process_claimed_route_job R E now j w = (Inr item, w')"
    using assms(4,5) g by (simp add: process_run)
  with item(2) code st same listed show ?thesis by metis
qed

end
