(* ===== verification/WorkerWitnesses.thy ===== *)
theory WorkerWitnesses imports OutcomeWitnesses RouteWorkerLaws begin

text \<open>
  Instances of the properties of the route-job worker on a small world: one job of a simulated loop,
  its event, problem and commit.
\<close>

definition smp_held :: route_job where
  "smp_held = smp_job\<lparr>job_lease := Some smp_lease, job_status := Claimed, job_attempts := 1,
     job_target := \<lparr>et_runtime = LoopgraphLocal, et_environment = EnvLocal, et_capabilities = [], et_preferred_agent = None\<rparr>\<rparr>"

definition smp_problem :: business_problem where
  "smp_problem = \<lparr>bp_id = ''p'', bp_workspace = ''w'', bp_company = ''c'', bp_problem_type = ''stalled'',
     bp_subject = ev_subject sample_event, bp_summary = ''stalled deal'', bp_severity = SevLow, bp_status = Routed,
     bp_correlation = ''k'', bp_dedupe_key = ''d'', bp_evidence_event_ids = [''evt_1''], bp_primary_loop = Some ''loop_a'',
     bp_supporting_loops = [], bp_route_commit_ids = [''commit_1''], bp_owner = None, bp_sla_due_at = None,
     bp_outcome_refs = [], bp_opened_at = 1000, bp_updated_at = 1000, bp_resolved_at = None\<rparr>"

definition smp_worker_world :: "event_receipt \<Rightarrow> route_commit \<Rightarrow> route_job \<Rightarrow> world" where
  "smp_worker_world r c j =
     \<lparr>w_store = empty_store\<lparr>st_events := [(rcp_id r, r)], st_problems := [(''p'', smp_problem)],
        st_commits := [(rcm_id c, c)], st_jobs := [(job_id j, j)]\<rparr>,
      w_runs = empty_storage, w_sent = [], w_ops = empty_ops, w_life = empty_lifecycle, w_outcomes = empty_outcomes,
      w_assigned = []\<rparr>"

definition smp_worker :: worker_env where
  "smp_worker = \<lparr>we_project = smp_project, we_registry = None, we_lifecycle = smp_lifecycle,
     we_simulate = simulate_fixture flat_runtime smp_reader,
     we_execute = execute_loop flat_runtime smp_reader smp_generate (\<lambda>_. ''gate'') False, we_adapters = (\<lambda>k. Some mock_adapter),
     we_dispatch = None, we_callback_origin = None, we_clock = (\<lambda>_. 3000), we_ticks = (\<lambda>_. []), we_message = (\<lambda>_. ''failed'')\<rparr>"

lemma smp_worker_local: "local_runners flat_runtime smp_reader smp_generate (\<lambda>_. ''gate'') False smp_worker"
  by (simp add: local_runners_def smp_worker_def)

lemma smp_worker_wf: "store_wf (w_store (smp_worker_world r c j))"
  by (simp add: smp_worker_world_def store_wf_def empty_store_def coll_wf_def smp_problem_def)

lemma smp_held_ok: "job_ok smp_held"
  using smp_job_ok(2) by (simp add: smp_held_def job_ok_def execution_target_ok_def)

lemma smp_held_token: "lease_token smp_held = Some ''token''"
  by (simp add: smp_held_def lease_token_def smp_lease_def)

lemma smp_problem_ok: "problem_ok smp_problem"
  by (simp add: problem_ok_def smp_problem_def sample_event_def subject_ok_def)

lemma smp_worker_found:
  "job_ok j \<Longrightarrow> get_route_job (w_store (smp_worker_world r c j)) (job_id j) = Some j"
  "get_business_problem (w_store (smp_worker_world r c j)) ''p'' = Some smp_problem"
  "commit_ok c \<Longrightarrow> find_route_commit (w_store (smp_worker_world r c j)) (rcm_id c) = Some c"
  "receipt_ok r \<Longrightarrow> rcp_status r = Received \<Longrightarrow>
     get_event_receipt (w_store (smp_worker_world r c j)) (rcp_event_id r) = Some r"
  using smp_problem_ok
  by (simp_all add: smp_worker_world_def get_route_job_def get_business_problem_def record_get_def coll_get_def
      find_route_commit_def list_route_commits_def record_list_def coll_values_def get_event_receipt_def
      list_event_receipts_def)

theorem stale_worker_inert_witness:
  "snd (process_claimed_route_job flat_runtime smp_worker 2000 smp_held
      (smp_worker_world smp_receipt smp_commit (smp_held\<lparr>job_lease := None\<rparr>))) =
    smp_worker_world smp_receipt smp_commit (smp_held\<lparr>job_lease := None\<rparr>)"
proof -
  let ?j0 = "smp_held\<lparr>job_lease := None\<rparr>"
  let ?w = "smp_worker_world smp_receipt smp_commit ?j0"
  obtain out w' where run: "process_claimed_route_job flat_runtime smp_worker 2000 smp_held ?w = (out, w')" by fastforce
  have "job_ok ?j0" using smp_held_ok by (simp add: job_ok_def)
  from smp_worker_found(1) [OF this, of smp_receipt smp_commit]
  have "get_route_job (w_store ?w) (job_id smp_held) = Some ?j0" by (simp add: smp_held_def)
  moreover have "lease_token ?j0 \<noteq> lease_token smp_held" by (simp add: smp_held_token) (simp add: lease_token_def)
  moreover have "et_runtime (job_target smp_held) = LoopgraphLocal" by (simp add: smp_held_def)
  ultimately show ?thesis using stale_worker_inert [OF run] by (simp add: run)
qed

theorem worker_sends_only_autonomous_witness:
  "w_sent (snd (process_claimed_route_job flat_runtime smp_worker 2000 smp_held
      (smp_worker_world smp_receipt smp_commit smp_held))) = []"
proof -
  let ?w = "smp_worker_world smp_receipt smp_commit smp_held"
  obtain out w' where run: "process_claimed_route_job flat_runtime smp_worker 2000 smp_held ?w = (out, w')" by fastforce
  from worker_sends_only_autonomous [OF smp_worker_local run] obtain new where
    "w_sent w' = w_sent ?w @ new" "\<forall>(k, a)\<in>set new. False" by (auto simp: smp_held_def smp_job_def)
  moreover have "w_sent ?w = []" by (simp add: smp_worker_world_def)
  ultimately show ?thesis unfolding run by (cases new) auto
qed

theorem cancelled_commit_revived_witness:
  "\<exists>item w'. process_claimed_route_job flat_runtime smp_worker 2000 smp_held
      (smp_worker_world smp_receipt (smp_commit\<lparr>rcm_status := CCancelled\<rparr>) smp_held) = (Inr item, w') \<and>
    wi_status item = Failed \<and> smp_commit\<lparr>rcm_status := CQueued\<rparr> \<in> set (list_route_commits (w_store w') None)"
proof -
  let ?c = "smp_commit\<lparr>rcm_status := CCancelled\<rparr>"
  let ?w = "smp_worker_world smp_receipt ?c smp_held"
  have c_ok: "commit_ok ?c" using smp_commit_ok(2) by (simp add: commit_ok_def)
  have ids: "job_commit_id smp_held = rcm_id ?c" "job_problem_id smp_held = ''p''" "rcp_event_id smp_receipt = job_event_id smp_held"
    "rcp_status smp_receipt = Received" "rcp_event smp_receipt = sample_event" "job_attempts smp_held < job_max_attempts smp_held"
    by (simp_all add: smp_held_def smp_job_def smp_commit_def smp_receipt_def ingest_receipt_def sample_event_def)
  have e: "ev_source sample_event \<noteq> ''loopgraph''" "\<not> notification_only sample_event"
    by (simp_all add: sample_event_def notification_only_def)
  from cancelled_commit_revived [OF smp_worker_wf, of smp_receipt ?c smp_held smp_held smp_held "''token''"
      smp_receipt smp_problem ?c smp_worker flat_runtime 2000]
  show ?thesis
    using smp_worker_found(1) [OF smp_held_ok] smp_worker_found(2) smp_worker_found(3) [OF c_ok]
      smp_worker_found(4) [OF smp_receipt_ok] smp_held_token ids e
    by (auto simp: smp_worker_def)
qed

theorem notices_never_run_witness:
  "\<exists>d s' w w'. emission flat_runtime smp_lifecycle sample_event empty_lifecycle d s' \<and>
     get_event_receipt (w_store w) (ev_id (ld_event d)) \<noteq> None \<and>
     snd (process_claimed_route_job flat_runtime smp_worker 2000 (smp_held\<lparr>job_event_id := ev_id (ld_event d)\<rparr>) w) = w' \<and>
     w_runs w' = empty_storage"
proof -
  obtain d s' where run: "emit_route_accepted flat_runtime smp_lifecycle (None, None) sample_event smp_route_commit None 3000
      empty_lifecycle = (Inr (Emitted d), s')" using smp_accepted_notice by blast
  then have em: "emission flat_runtime smp_lifecycle sample_event empty_lifecycle d s'" by (rule em_accepted)
  from run have "event_ok (ld_event d)"
    unfolding emit_route_accepted_def by (rule emit_notice_Emitted) simp
  let ?r = "ingest_receipt flat_runtime (ld_event d) False 2000"
  have r: "receipt_ok ?r" "rcp_status ?r = Received" "rcp_event_id ?r = ev_id (ld_event d)" "rcp_event ?r = ld_event d"
    by (rule ingest_receipt_ok [OF \<open>event_ok (ld_event d)\<close> digest_flat]) (simp_all add: ingest_receipt_def)
  let ?j = "smp_held\<lparr>job_event_id := ev_id (ld_event d)\<rparr>"
  let ?w = "smp_worker_world ?r smp_commit ?j"
  have got: "get_event_receipt (w_store ?w) (job_event_id ?j) = Some ?r"
    using smp_worker_found(4) [OF r(1,2), of smp_commit ?j] r(3) by simp
  obtain out w' where proc: "process_claimed_route_job flat_runtime smp_worker 2000 ?j ?w = (out, w')" by fastforce
  from notices_never_run [OF em got r(4) proc] have "w' = ?w\<lparr>w_store := w_store w'\<rparr>" by blast
  then have "w_runs w' = w_runs (?w\<lparr>w_store := w_store w'\<rparr>)" by (rule arg_cong)
  then have "w_runs w' = empty_storage" by (simp add: smp_worker_world_def)
  with em got proc show ?thesis by (intro exI [of _ d] exI [of _ s'] exI [of _ ?w] exI [of _ w']) simp
qed

text \<open>An event three hops away, about which no notice is sent.\<close>

definition smp_far_receipt :: event_receipt where
  "smp_far_receipt = ingest_receipt flat_runtime (sample_event\<lparr>ev_hop_count := 3\<rparr>) False 2000"

definition smp_context :: route_context where
  "smp_context = \<lparr>rx_receipt = smp_far_receipt, rx_problem = smp_problem, rx_commit = smp_commit, rx_spec = smp_spec\<rparr>"


end
