(* ===== verification/ControllerStore.thy ===== *)
theory ControllerStore imports OutcomeService LoopSpecRules begin

text \<open>
  The data of the loop controller (core/loop-controller.ts) and its file store
  (class FileLoopControllerStore of runtime/loop-controller-store.ts): controller runs, the
  checkpoint, the policy and the queue of triggers with its leases. A record that does not parse is
  read as absent. Every operation of the trigger queue runs under the lock file of the queue and is one action here.
  Identifiers name files through encodeURIComponent, which is injective. Lists are sorted by time and
  identifier, so the order in which a directory lists its files is not modelled beyond ties.
\<close>

subsection \<open>Data\<close>

datatype controller_trigger_type = TManual | TSchedule | TRoutingEvent | TRouteJob | TReview | TOutcomeWindow
  | TConnectorHealth | TManagementCycle

definition controller_trigger_type_text :: "controller_trigger_type \<Rightarrow> str" where
  "controller_trigger_type_text t = (case t of TManual \<Rightarrow> ''manual'' | TSchedule \<Rightarrow> ''schedule'' | TRoutingEvent \<Rightarrow> ''routing_event''
     | TRouteJob \<Rightarrow> ''route_job'' | TReview \<Rightarrow> ''review'' | TOutcomeWindow \<Rightarrow> ''outcome_window''
     | TConnectorHealth \<Rightarrow> ''connector_health'' | TManagementCycle \<Rightarrow> ''management_cycle'')"

datatype controller_act = DoNothing | RequestEvidence | StartDesign | WaitForDesign | ReviewChange
  | ShadowMaterialize | ProposePause | ProposeRetire

definition controller_act_text :: "controller_act \<Rightarrow> str" where
  "controller_act_text a = (case a of DoNothing \<Rightarrow> ''no_action'' | RequestEvidence \<Rightarrow> ''request_evidence''
     | StartDesign \<Rightarrow> ''start_design'' | WaitForDesign \<Rightarrow> ''wait_for_design'' | ReviewChange \<Rightarrow> ''review_change''
     | ShadowMaterialize \<Rightarrow> ''shadow_materialize'' | ProposePause \<Rightarrow> ''propose_pause'' | ProposeRetire \<Rightarrow> ''propose_retire'')"

datatype change_operation = ChAdd | ChUpdate | ChSplit | ChMerge | ChRetire

definition change_operation_text :: "change_operation \<Rightarrow> str" where
  "change_operation_text c = (case c of ChAdd \<Rightarrow> ''add'' | ChUpdate \<Rightarrow> ''update'' | ChSplit \<Rightarrow> ''split''
     | ChMerge \<Rightarrow> ''merge'' | ChRetire \<Rightarrow> ''retire'')"

definition signal_severity_text :: "severity \<Rightarrow> str" where
  "signal_severity_text s = (case s of SevLow \<Rightarrow> ''low'' | SevMedium \<Rightarrow> ''medium'' | SevHigh \<Rightarrow> ''high'' | SevCritical \<Rightarrow> ''critical'')"

record controller_policy =
  cp_enabled :: bool
  cp_auto_design :: bool
  cp_auto_outcomes :: bool
  cp_auto_shadow :: bool
  cp_qualify :: rat
  cp_design :: rat
  cp_shadow :: rat
  cp_max_decisions :: nat
  cp_cooldown :: nat
  cp_max_severity :: severity
  cp_blocked :: "department list"
  cp_operations :: "change_operation list"
  cp_no_questions :: bool
  cp_no_user_items :: bool
  cp_connections_ready :: bool

definition default_policy :: controller_policy where
  "default_policy =
     \<lparr>cp_enabled = True, cp_auto_design = True, cp_auto_outcomes = True, cp_auto_shadow = True,
      cp_qualify = 45, cp_design = 65, cp_shadow = 80, cp_max_decisions = 20, cp_cooldown = 3600,
      cp_max_severity = SevMedium, cp_blocked = [OpsFinance, HrTalent, LegalCompliance], cp_operations = [ChAdd],
      cp_no_questions = True, cp_no_user_items = True, cp_connections_ready = True\<rparr>"

definition policy_ok :: "controller_policy \<Rightarrow> bool" where
  "policy_ok p =
     (0 \<le> cp_qualify p \<and> cp_qualify p \<le> 100 \<and> 0 \<le> cp_design p \<and> cp_design p \<le> 100 \<and>
      0 \<le> cp_shadow p \<and> cp_shadow p \<le> 100 \<and> 1 \<le> cp_max_decisions p \<and> cp_max_decisions p \<le> 100 \<and>
      cp_cooldown p \<le> 31536000 \<and> cp_max_severity p \<in> {SevLow, SevMedium} \<and>
      set (cp_operations p) \<subseteq> {ChAdd, ChUpdate} \<and>
      cp_qualify p \<le> cp_design p \<and> cp_design p \<le> cp_shadow p)"

definition policy_json :: "controller_policy \<Rightarrow> json" where
  "policy_json p = jobj
     [(''schemaVersion'', jstr ''loop-controller-policy/v1alpha1''), (''enabled'', Some (JBool (cp_enabled p))),
      (''autoStartDesign'', Some (JBool (cp_auto_design p))), (''autoEvaluateOutcomes'', Some (JBool (cp_auto_outcomes p))),
      (''autoShadowMaterialization'', Some (JBool (cp_auto_shadow p))), (''qualifyThreshold'', Some (JNum (cp_qualify p))),
      (''autoDesignThreshold'', Some (JNum (cp_design p))), (''autoShadowThreshold'', Some (JNum (cp_shadow p))),
      (''maxDecisionsPerRun'', Some (JNum (of_nat (cp_max_decisions p)))), (''cooldownSeconds'', Some (JNum (of_nat (cp_cooldown p)))),
      (''maximumSignalSeverityForAutoShadow'', jstr (signal_severity_text (cp_max_severity p))),
      (''blockedAutoShadowDepartments'', jstrs (map department_name (cp_blocked p))),
      (''allowedAutoShadowChangeOperations'', jstrs (map change_operation_text (cp_operations p))),
      (''requireNoOpenQuestions'', Some (JBool (cp_no_questions p))),
      (''requireNoUserApprovalItems'', Some (JBool (cp_no_user_items p))),
      (''requireRoutingConnectionsReady'', Some (JBool (cp_connections_ready p)))]"

record controller_trigger =
  tg_type :: controller_trigger_type
  tg_id :: str
  tg_occurred_at :: instant
  tg_source :: str
  tg_requested_by :: "str option"
  tg_evidence :: "str list"

definition no_empty_text :: "str list \<Rightarrow> bool" where
  "no_empty_text xs = list_all (\<lambda>x. x \<noteq> []) xs"

definition trigger_ok :: "controller_trigger \<Rightarrow> bool" where
  "trigger_ok t = (tg_id t \<noteq> [] \<and> tg_source t \<noteq> [] \<and> not_empty (tg_requested_by t) \<and> no_empty_text (tg_evidence t))"

definition trigger_json :: "controller_trigger \<Rightarrow> json" where
  "trigger_json t = jobj
     [(''type'', jstr (controller_trigger_type_text (tg_type t))), (''id'', jstr (tg_id t)),
      (''occurredAt'', jstr (iso_instant (tg_occurred_at t))), (''sourceRef'', jstr (tg_source t)),
      (''requestedBy'', jopt (tg_requested_by t)), (''evidenceRefs'', jstrs (tg_evidence t))]"

record policy_rule =
  pr_id :: str
  pr_passed :: bool
  pr_summary :: str
  pr_evidence :: "str list"

definition rule_ok :: "policy_rule \<Rightarrow> bool" where
  "rule_ok r = (pr_id r \<noteq> [] \<and> pr_summary r \<noteq> [] \<and> no_empty_text (pr_evidence r))"

record policy_verdict =
  pv_passed :: bool
  pv_rules :: "policy_rule list"

text \<open>A decision; \<open>materializationId\<close> is never set by the controller.\<close>

record controller_decision =
  dc_id :: str
  dc_action :: controller_act
  dc_opportunity :: "str option"
  dc_change_set :: "str option"
  dc_task :: "str option"
  dc_run :: "str option"
  dc_receipt :: "str option"
  dc_transaction :: "str option"
  dc_department :: "department option"
  dc_targets :: "str list"
  dc_score :: "rat option"
  dc_summary :: str
  dc_reason :: str
  dc_evidence :: "str list"
  dc_policy :: policy_verdict
  dc_created_at :: instant

definition controller_decision_ok :: "controller_decision \<Rightarrow> bool" where
  "controller_decision_ok d =
     (dc_id d \<noteq> [] \<and> not_empty (dc_opportunity d) \<and> not_empty (dc_change_set d) \<and> not_empty (dc_task d) \<and>
      not_empty (dc_run d) \<and> not_empty (dc_receipt d) \<and> not_empty (dc_transaction d) \<and> no_empty_text (dc_targets d) \<and>
      (case dc_score d of None \<Rightarrow> True | Some q \<Rightarrow> 0 \<le> q \<and> q \<le> 100) \<and> dc_summary d \<noteq> [] \<and> dc_reason d \<noteq> [] \<and>
      no_empty_text (dc_evidence d) \<and> list_all rule_ok (pv_rules (dc_policy d)))"

record truth_counts =
  tc_observed :: nat
  tc_modeled :: nat
  tc_incomplete :: nat

record controller_evidence =
  re_signals :: nat
  re_opportunities :: "str list"
  re_change_sets :: "str list"
  re_tasks :: "str list"
  re_outcomes :: "str list"
  re_truth :: truth_counts

definition no_evidence :: controller_evidence where
  "no_evidence = \<lparr>re_signals = 0, re_opportunities = [], re_change_sets = [], re_tasks = [], re_outcomes = [],
     re_truth = \<lparr>tc_observed = 0, tc_modeled = 0, tc_incomplete = 0\<rparr>\<rparr>"

record controller_run_error =
  cre_code :: str
  cre_message :: str
  cre_evidence :: "str list"

datatype controller_status = CtrRunning | CtrCompleted | CtrFailed | CtrDisabled

record controller_run =
  cr_id :: str
  cr_key :: str
  cr_root :: str
  cr_trigger :: controller_trigger
  cr_status :: controller_status
  cr_policy_hash :: str
  cr_fingerprint :: str
  cr_evidence :: controller_evidence
  cr_decisions :: "controller_decision list"
  cr_errors :: "controller_run_error list"
  cr_started_at :: instant
  cr_completed_at :: "instant option"
  cr_next_eligible_at :: "instant option"

definition controller_run_ok :: "controller_run \<Rightarrow> bool" where
  "controller_run_ok r =
     (cr_id r \<noteq> [] \<and> cr_key r \<noteq> [] \<and> cr_root r \<noteq> [] \<and> trigger_ok (cr_trigger r) \<and> cr_policy_hash r \<noteq> [] \<and>
      cr_fingerprint r \<noteq> [] \<and> no_empty_text (re_opportunities (cr_evidence r)) \<and>
      no_empty_text (re_change_sets (cr_evidence r)) \<and> no_empty_text (re_tasks (cr_evidence r)) \<and>
      no_empty_text (re_outcomes (cr_evidence r)) \<and> list_all controller_decision_ok (cr_decisions r) \<and>
      list_all (\<lambda>e. cre_code e \<noteq> [] \<and> cre_message e \<noteq> [] \<and> no_empty_text (cre_evidence e)) (cr_errors r))"

record controller_checkpoint =
  ck_root :: str
  ck_run :: str
  ck_completed_at :: instant
  ck_fingerprint :: str
  ck_trigger :: str
  ck_watermarks :: "(str \<times> instant) list"
  ck_updated_at :: instant

definition checkpoint_ok :: "controller_checkpoint \<Rightarrow> bool" where
  "checkpoint_ok c = (ck_root c \<noteq> [] \<and> ck_run c \<noteq> [] \<and> ck_fingerprint c \<noteq> [] \<and> ck_trigger c \<noteq> [])"

datatype trigger_status = TrPending | TrProcessing | TrCompleted | TrFailed

record trigger_record =
  tr_rec_id :: str
  tr_rec_root :: str
  tr_rec_trigger :: controller_trigger
  tr_rec_status :: trigger_status
  tr_rec_attempts :: nat
  tr_rec_lease :: "str option"
  tr_rec_expires :: "instant option"
  tr_rec_run :: "str option"
  tr_rec_error :: "str option"
  tr_rec_created :: instant
  tr_rec_updated :: instant
  tr_rec_completed :: "instant option"

text \<open>\<open>z.string().uuid()\<close>: 36 characters, dashes at four places and hexadecimal digits at the others.\<close>

definition hex_digit :: "char \<Rightarrow> bool" where
  "hex_digit c = (c \<in> set ''0123456789abcdefABCDEF'')"

definition uuid_ok :: "str \<Rightarrow> bool" where
  "uuid_ok s = (length s = 36 \<and>
     list_all (\<lambda>(n, c). if n \<in> {8, 13, 18, 23} then c = CHR ''-'' else hex_digit c) (enumerate 0 s))"

definition trigger_record_ok :: "trigger_record \<Rightarrow> bool" where
  "trigger_record_ok r =
     (tr_rec_id r \<noteq> [] \<and> tr_rec_root r \<noteq> [] \<and> trigger_ok (tr_rec_trigger r) \<and>
      (case tr_rec_lease r of None \<Rightarrow> True | Some l \<Rightarrow> uuid_ok l) \<and> not_empty (tr_rec_run r) \<and> not_empty (tr_rec_error r))"

subsection \<open>The store\<close>

record controller_store =
  cs_runs :: "controller_run coll"
  cs_checkpoint :: "controller_checkpoint option"
  cs_policy :: "controller_policy option"
  cs_triggers :: "trigger_record coll"

datatype controller_error =
    CtrSchemaError
  | RunIdentityConflict str
  | TerminalRunTransition controller_status controller_status
  | TriggerIdentityConflict str
  | TriggerLeaseLost str
  | TriggerWithoutLease str
  | SchedulerBound str nat nat
  | CtrOutcomeError outcome_error
  | OutsideError str

type_synonym 'a controller_action = "(controller_store, controller_error, 'a) action"

definition empty_controller :: controller_store where
  "empty_controller = \<lparr>cs_runs = [], cs_checkpoint = None, cs_policy = None, cs_triggers = []\<rparr>"

definition is_terminal_status :: "controller_status \<Rightarrow> bool" where
  "is_terminal_status s = (s \<in> {CtrCompleted, CtrFailed, CtrDisabled})"

definition get_controller_run :: "controller_store \<Rightarrow> str \<Rightarrow> controller_run option" where
  "get_controller_run s runId = record_get controller_run_ok (cs_runs s) runId"

definition save_controller_run :: "controller_run \<Rightarrow> (controller_run \<times> bool) controller_action" where
  "save_controller_run r =
     act_bind (act_lift (require (controller_run_ok r) CtrSchemaError)) (\<lambda>_.
     act_bind (act_read (\<lambda>s. get_controller_run s (cr_id r))) (\<lambda>existing.
     act_bind (case existing of
         None \<Rightarrow> act_return ()
       | Some x \<Rightarrow>
           act_lift (res_bind (require (cr_key x = cr_key r) (RunIdentityConflict (cr_id r))) (\<lambda>_.
             require (\<not> (is_terminal_status (cr_status x) \<and> cr_status x \<noteq> cr_status r))
               (TerminalRunTransition (cr_status x) (cr_status r))))) (\<lambda>_.
     act_bind (act_write (cs_runs_update (coll_put (cr_id r) r))) (\<lambda>_.
     act_return (r, (case existing of None \<Rightarrow> False | Some x \<Rightarrow> is_terminal_status (cr_status x)))))))"

definition list_controller_runs :: "runtime \<Rightarrow> controller_store \<Rightarrow> controller_run list" where
  "list_controller_runs R s =
     js_sort (\<lambda>a b. cmp_then (cmp_of (cr_started_at b) (cr_started_at a)) (locale_compare R (cr_id a) (cr_id b)))
       (record_list controller_run_ok (cs_runs s))"

definition find_run_by_key :: "runtime \<Rightarrow> str \<Rightarrow> controller_store \<Rightarrow> controller_run option" where
  "find_run_by_key R k s = find (\<lambda>r. cr_key r = k) (list_controller_runs R s)"

definition read_checkpoint :: "controller_store \<Rightarrow> controller_checkpoint option" where
  "read_checkpoint s = (case cs_checkpoint s of None \<Rightarrow> None | Some c \<Rightarrow> if checkpoint_ok c then Some c else None)"

definition save_checkpoint :: "controller_checkpoint \<Rightarrow> unit controller_action" where
  "save_checkpoint c =
     act_bind (act_lift (require (checkpoint_ok c) CtrSchemaError)) (\<lambda>_. act_write (cs_checkpoint_update (\<lambda>_. Some c)))"

definition read_policy :: "controller_store \<Rightarrow> controller_policy option" where
  "read_policy s = (case cs_policy s of None \<Rightarrow> None | Some p \<Rightarrow> if policy_ok p then Some p else None)"

definition save_policy :: "controller_policy \<Rightarrow> unit controller_action" where
  "save_policy p =
     act_bind (act_lift (require (policy_ok p) CtrSchemaError)) (\<lambda>_. act_write (cs_policy_update (\<lambda>_. Some p)))"

definition save_trigger :: "trigger_record \<Rightarrow> unit controller_action" where
  "save_trigger r =
     act_bind (act_lift (require (trigger_record_ok r) CtrSchemaError))
       (\<lambda>_. act_write (cs_triggers_update (coll_put (tr_rec_id r) r)))"

definition get_trigger :: "controller_store \<Rightarrow> str \<Rightarrow> trigger_record option" where
  "get_trigger s k = record_get trigger_record_ok (cs_triggers s) k"

definition trigger_order :: "runtime \<Rightarrow> trigger_record \<Rightarrow> trigger_record \<Rightarrow> int" where
  "trigger_order R a b =
     cmp_then (cmp_of (tr_rec_created a) (tr_rec_created b)) (locale_compare R (tr_rec_id a) (tr_rec_id b))"

definition list_triggers :: "runtime \<Rightarrow> trigger_status option \<Rightarrow> controller_store \<Rightarrow> trigger_record list" where
  "list_triggers R status s =
     js_sort (trigger_order R)
       (filter (\<lambda>r. status = None \<or> status = Some (tr_rec_status r)) (record_list trigger_record_ok (cs_triggers s)))"

definition enqueue_trigger :: "trigger_record \<Rightarrow> (trigger_record \<times> bool) controller_action" where
  "enqueue_trigger r =
     act_bind (act_lift (require (trigger_record_ok r) CtrSchemaError)) (\<lambda>_.
     act_bind (act_read (\<lambda>s. get_trigger s (tr_rec_id r))) (\<lambda>existing.
     (case existing of
        Some x \<Rightarrow>
          if tr_rec_root x \<noteq> tr_rec_root r \<or> tg_type (tr_rec_trigger x) \<noteq> tg_type (tr_rec_trigger r) \<or>
             tg_id (tr_rec_trigger x) \<noteq> tg_id (tr_rec_trigger r)
          then act_throw (TriggerIdentityConflict (tr_rec_id r))
          else act_return (x, True)
      | None \<Rightarrow> act_bind (save_trigger r) (\<lambda>_. act_return (r, False)))))"

text \<open>A claim; \<open>tcl_uuids\<close> are the identifiers \<open>randomUUID\<close> returns, in order.\<close>

record trigger_claim =
  tcl_limit :: nat
  tcl_max_attempts :: nat
  tcl_lease_seconds :: nat
  tcl_now :: instant
  tcl_uuids :: "nat \<Rightarrow> str"

definition claimable_trigger :: "trigger_claim \<Rightarrow> trigger_record \<Rightarrow> bool" where
  "claimable_trigger i r =
     (tr_rec_attempts r < tcl_max_attempts i \<and>
      (tr_rec_status r = TrPending \<or> tr_rec_status r = TrFailed \<or>
       tr_rec_status r = TrProcessing \<and> opt_or (tr_rec_expires r) (tr_rec_updated r) \<le> tcl_now i))"

definition claimed_trigger :: "trigger_claim \<Rightarrow> nat \<Rightarrow> trigger_record \<Rightarrow> trigger_record" where
  "claimed_trigger i n r =
     r\<lparr>tr_rec_status := TrProcessing, tr_rec_attempts := tr_rec_attempts r + 1, tr_rec_lease := Some (tcl_uuids i n),
       tr_rec_expires := Some (tcl_now i + int (tcl_lease_seconds i) * 1000), tr_rec_error := None,
       tr_rec_updated := tcl_now i\<rparr>"

definition claim_candidates :: "runtime \<Rightarrow> trigger_claim \<Rightarrow> controller_store \<Rightarrow> trigger_record list" where
  "claim_candidates R i s = take (tcl_limit i) (filter (claimable_trigger i) (list_triggers R None s))"

definition claim_trigger :: "trigger_claim \<Rightarrow> nat \<Rightarrow> trigger_record \<Rightarrow> trigger_record controller_action" where
  "claim_trigger i n r =
     act_bind (act_lift (require (trigger_record_ok (claimed_trigger i n r)) CtrSchemaError)) (\<lambda>_.
     act_bind (save_trigger (claimed_trigger i n r)) (\<lambda>_. act_return (claimed_trigger i n r)))"

definition claim_triggers :: "runtime \<Rightarrow> trigger_claim \<Rightarrow> trigger_record list controller_action" where
  "claim_triggers R i =
     act_bind (act_read (claim_candidates R i)) (\<lambda>eligible. act_each (\<lambda>(n, r). claim_trigger i n r) (enumerate 0 eligible))"

definition settle_trigger :: "trigger_record \<Rightarrow> str \<Rightarrow> unit controller_action" where
  "settle_trigger r expectedLeaseId =
     act_bind (act_lift (require (trigger_record_ok r) CtrSchemaError)) (\<lambda>_.
     act_bind (act_read (\<lambda>s. get_trigger s (tr_rec_id r))) (\<lambda>current.
     if (case current of None \<Rightarrow> True
           | Some x \<Rightarrow> tr_rec_status x \<noteq> TrProcessing \<or> tr_rec_lease x \<noteq> Some expectedLeaseId)
     then act_throw (TriggerLeaseLost (tr_rec_id r))
     else save_trigger (r\<lparr>tr_rec_lease := None, tr_rec_expires := None\<rparr>)))"

subsection \<open>Triggers (runtime/loop-controller-triggers.ts)\<close>

record trigger_request =
  trq_type :: controller_trigger_type
  trq_id :: str
  trq_source :: str
  trq_occurred_at :: "instant option"
  trq_requested_by :: "str option"
  trq_evidence :: "str list option"

definition requested_trigger :: "trigger_request \<Rightarrow> instant \<Rightarrow> controller_trigger" where
  "requested_trigger q now =
     \<lparr>tg_type = trq_type q, tg_id = trq_id q, tg_occurred_at = opt_or (trq_occurred_at q) now, tg_source = trq_source q,
      tg_requested_by = trq_requested_by q, tg_evidence = uniq (filter (\<lambda>x. x \<noteq> []) (opt_or (trq_evidence q) []))\<rparr>"

definition trigger_record_id :: "runtime \<Rightarrow> str \<Rightarrow> controller_trigger \<Rightarrow> str" where
  "trigger_record_id R rootId t = ''controller_trigger_'' @ hash_obj R
     [(''projectRootId'', jstr rootId), (''type'', jstr (controller_trigger_type_text (tg_type t))), (''id'', jstr (tg_id t))]"

definition new_trigger_record :: "runtime \<Rightarrow> str \<Rightarrow> controller_trigger \<Rightarrow> instant \<Rightarrow> trigger_record" where
  "new_trigger_record R rootId t now =
     \<lparr>tr_rec_id = trigger_record_id R rootId t, tr_rec_root = rootId, tr_rec_trigger = t, tr_rec_status = TrPending,
      tr_rec_attempts = 0, tr_rec_lease = None, tr_rec_expires = None, tr_rec_run = None, tr_rec_error = None,
      tr_rec_created = now, tr_rec_updated = now, tr_rec_completed = None\<rparr>"

definition enqueue_loop_controller_trigger ::
  "runtime \<Rightarrow> str \<Rightarrow> trigger_request \<Rightarrow> instant \<Rightarrow> (trigger_record \<times> bool) controller_action" where
  "enqueue_loop_controller_trigger R rootId q now =
     (let t = requested_trigger q now; r = new_trigger_record R rootId t now
      in act_bind (act_lift (require (trigger_ok t) CtrSchemaError)) (\<lambda>_.
         act_bind (act_lift (require (trigger_record_ok r) CtrSchemaError)) (\<lambda>_.
         enqueue_trigger r)))"

record enqueue_answer =
  ea_enqueued :: bool
  ea_duplicate :: bool
  ea_record :: "str option"
  ea_error :: "controller_error option"

definition enqueue_trigger_best_effort ::
  "runtime \<Rightarrow> str \<Rightarrow> trigger_request \<Rightarrow> instant \<Rightarrow> enqueue_answer controller_action" where
  "enqueue_trigger_best_effort R rootId q now =
     act_catch
       (act_bind (enqueue_loop_controller_trigger R rootId q now) (\<lambda>(r, duplicate).
        act_return \<lparr>ea_enqueued = True, ea_duplicate = duplicate, ea_record = Some (tr_rec_id r), ea_error = None\<rparr>))
       (\<lambda>e. act_return \<lparr>ea_enqueued = False, ea_duplicate = False, ea_record = None, ea_error = Some e\<rparr>)"

end
