(* ===== verification/DesignTypes.thy ===== *)
theory DesignTypes imports ControllerStore begin

text \<open>
  The data of design tasks: evidence gaps (core/evidence-gap.ts), and the tasks, callbacks, requests
  and the two kinds of leased jobs of core/hermes-design-task.ts, with what their schemas accept and
  the JSON values of which the sources take hashes. Texts of closed lists are constructors. A design
  context is kept as its hash and its JSON value, a proposal set as its JSON value. The address of a
  callback in a request is one the platform has parsed.
\<close>

subsection \<open>Evidence gaps\<close>

datatype value_type = VtText | VtNumber | VtBoolean | VtStringArray | VtObject | VtUnknown

definition value_type_text :: "value_type \<Rightarrow> str" where
  "value_type_text v = (case v of VtText \<Rightarrow> ''text'' | VtNumber \<Rightarrow> ''number'' | VtBoolean \<Rightarrow> ''boolean''
     | VtStringArray \<Rightarrow> ''string_array'' | VtObject \<Rightarrow> ''object'' | VtUnknown \<Rightarrow> ''unknown'')"

datatype gap_stage = StageProblem | StageDesign | StageSimulation | StageRouting | StageExecution

definition gap_stage_text :: "gap_stage \<Rightarrow> str" where
  "gap_stage_text s = (case s of StageProblem \<Rightarrow> ''problem_classification'' | StageDesign \<Rightarrow> ''design''
     | StageSimulation \<Rightarrow> ''simulation'' | StageRouting \<Rightarrow> ''routing'' | StageExecution \<Rightarrow> ''execution'')"

datatype gap_resolution = AskUser | InspectProject | ConnectSource | RequestSample | AssignOwner | DefinePolicy
  | ReviseProposal

definition gap_resolution_text :: "gap_resolution \<Rightarrow> str" where
  "gap_resolution_text r = (case r of AskUser \<Rightarrow> ''ask_user'' | InspectProject \<Rightarrow> ''inspect_project''
     | ConnectSource \<Rightarrow> ''connect_source'' | RequestSample \<Rightarrow> ''request_sample'' | AssignOwner \<Rightarrow> ''assign_owner''
     | DefinePolicy \<Rightarrow> ''define_policy'' | ReviseProposal \<Rightarrow> ''revise_proposal'')"

datatype gap_status = GapOpen | GapAsked | GapResolved | GapWaived

definition gap_status_text :: "gap_status \<Rightarrow> str" where
  "gap_status_text s = (case s of GapOpen \<Rightarrow> ''open'' | GapAsked \<Rightarrow> ''asked'' | GapResolved \<Rightarrow> ''resolved''
     | GapWaived \<Rightarrow> ''waived'')"

datatype gap_scope = OfCompany | OfDepartment | OfProblem | OfLoop | OfConnection | OfMetric | OfPolicy

definition gap_scope_text :: "gap_scope \<Rightarrow> str" where
  "gap_scope_text s = (case s of OfCompany \<Rightarrow> ''company'' | OfDepartment \<Rightarrow> ''department'' | OfProblem \<Rightarrow> ''problem''
     | OfLoop \<Rightarrow> ''loop'' | OfConnection \<Rightarrow> ''connection'' | OfMetric \<Rightarrow> ''metric'' | OfPolicy \<Rightarrow> ''policy'')"

record gap_question =
  gq_prompt :: str
  gq_value_type :: value_type
  gq_options :: "str list option"
  gq_examples :: "str list"

record evidence_gap =
  gap_id :: str
  gap_session :: str
  gap_company :: str
  gap_department :: "department option"
  gap_scope_of :: gap_scope
  gap_field :: str
  gap_question_id :: "str option"
  gap_reason :: str
  gap_required_for :: "gap_stage list"
  gap_resolved_by :: gap_resolution
  gap_state :: gap_status
  gap_blocking :: bool
  gap_confidence :: "rat option"
  gap_evidence :: "str list"
  gap_asks :: "gap_question option"
  gap_answer :: "str option"
  gap_created :: instant
  gap_updated :: instant

definition gap_ok :: "evidence_gap \<Rightarrow> bool" where
  "gap_ok g =
     (gap_id g \<noteq> [] \<and> gap_session g \<noteq> [] \<and> gap_company g \<noteq> [] \<and> gap_field g \<noteq> [] \<and> not_empty (gap_question_id g) \<and>
      gap_reason g \<noteq> [] \<and> gap_required_for g \<noteq> [] \<and>
      (case gap_confidence g of None \<Rightarrow> True | Some c \<Rightarrow> 0 \<le> c \<and> c \<le> 1) \<and>
      (case gap_asks g of None \<Rightarrow> True | Some q \<Rightarrow> gq_prompt q \<noteq> []))"

record gap_set =
  gs_session :: str
  gs_company :: str
  gs_revision :: nat
  gs_generated :: instant
  gs_gaps :: "evidence_gap list"

definition gap_set_ok :: "gap_set \<Rightarrow> bool" where
  "gap_set_ok s = (gs_session s \<noteq> [] \<and> gs_company s \<noteq> [] \<and> list_all gap_ok (gs_gaps s))"

definition question_json :: "gap_question \<Rightarrow> json" where
  "question_json q = jobj
     [(''prompt'', jstr (gq_prompt q)), (''valueType'', jstr (value_type_text (gq_value_type q))),
      (''options'', Option.bind (gq_options q) jstrs), (''examples'', jstrs (gq_examples q))]"

definition gap_json :: "evidence_gap \<Rightarrow> json" where
  "gap_json g = jobj
     [(''schemaVersion'', jstr ''evidence-gap/v1alpha1''), (''id'', jstr (gap_id g)), (''sessionId'', jstr (gap_session g)),
      (''companyId'', jstr (gap_company g)), (''department'', jopt (map_option department_name (gap_department g))),
      (''scope'', jstr (gap_scope_text (gap_scope_of g))), (''field'', jstr (gap_field g)),
      (''questionId'', jopt (gap_question_id g)), (''reason'', jstr (gap_reason g)),
      (''requiredFor'', jstrs (map gap_stage_text (gap_required_for g))),
      (''resolution'', jstr (gap_resolution_text (gap_resolved_by g))), (''status'', jstr (gap_status_text (gap_state g))),
      (''blocking'', Some (JBool (gap_blocking g))), (''confidence'', map_option JNum (gap_confidence g)),
      (''evidenceRefs'', jstrs (gap_evidence g)), (''question'', map_option question_json (gap_asks g)),
      (''answerRef'', jopt (gap_answer g)), (''createdAt'', jstr (iso_instant (gap_created g))),
      (''updatedAt'', jstr (iso_instant (gap_updated g)))]"

subsection \<open>Design tasks\<close>

datatype design_status = DsQueued | DsNeedsInput | DsAwaitingHermes | DsDesigning | DsNeedsRepair
  | DsCompleted | DsFailed | DsCancelled

definition design_status_text :: "design_status \<Rightarrow> str" where
  "design_status_text s = (case s of DsQueued \<Rightarrow> ''queued'' | DsNeedsInput \<Rightarrow> ''needs_input''
     | DsAwaitingHermes \<Rightarrow> ''awaiting_hermes'' | DsDesigning \<Rightarrow> ''designing'' | DsNeedsRepair \<Rightarrow> ''needs_repair''
     | DsCompleted \<Rightarrow> ''completed'' | DsFailed \<Rightarrow> ''failed'' | DsCancelled \<Rightarrow> ''cancelled'')"

datatype task_delivery_status = NotYetSent | TaskSent | NotConfigured | SendFailed

definition task_delivery_status_text :: "task_delivery_status \<Rightarrow> str" where
  "task_delivery_status_text s = (case s of NotYetSent \<Rightarrow> ''pending'' | TaskSent \<Rightarrow> ''sent''
     | NotConfigured \<Rightarrow> ''not_configured'' | SendFailed \<Rightarrow> ''failed'')"

record task_delivery =
  td_status :: task_delivery_status
  td_destination :: "str option"
  td_attempts :: nat
  td_last_attempt :: "instant option"
  td_acknowledged :: "instant option"
  td_response :: "int option"
  td_error :: "str option"

datatype design_reason = ByUserRequest | ByOpportunity | ByUnhandledProblem | ByImprovement

definition design_reason_text :: "design_reason \<Rightarrow> str" where
  "design_reason_text r = (case r of ByUserRequest \<Rightarrow> ''user_requested'' | ByOpportunity \<Rightarrow> ''loop_opportunity''
     | ByUnhandledProblem \<Rightarrow> ''unhandled_problem'' | ByImprovement \<Rightarrow> ''improvement'')"

record design_task =
  dt_id :: str
  dt_key :: str
  dt_session :: str
  dt_company :: str
  dt_department :: department
  dt_status :: design_status
  dt_reason :: design_reason
  dt_problems :: "str list"
  dt_opportunity :: "str option"
  dt_context :: "str option"
  dt_gaps :: "str list"
  dt_questions :: "str list"
  dt_runs :: "str list"
  dt_compiler_errors :: "str list"
  dt_callbacks :: "str list"
  dt_hermes :: "str option"
  dt_delivery :: task_delivery
  dt_requested_by :: str
  dt_created :: instant
  dt_updated :: instant
  dt_completed :: "instant option"

definition design_task_ok :: "design_task \<Rightarrow> bool" where
  "design_task_ok t = (dt_id t \<noteq> [] \<and> dt_key t \<noteq> [] \<and> dt_session t \<noteq> [] \<and> dt_company t \<noteq> [])"

definition delivery_json :: "task_delivery \<Rightarrow> json" where
  "delivery_json d = jobj
     [(''status'', jstr (task_delivery_status_text (td_status d))), (''destination'', jopt (td_destination d)),
      (''attemptCount'', Some (JNum (of_nat (td_attempts d)))),
      (''lastAttemptAt'', jopt (map_option iso_instant (td_last_attempt d))),
      (''acknowledgedAt'', jopt (map_option iso_instant (td_acknowledged d))),
      (''responseStatus'', map_option (\<lambda>n. JNum (of_int n)) (td_response d)), (''error'', jopt (td_error d))]"

definition task_json :: "design_task \<Rightarrow> json" where
  "task_json t = jobj
     [(''schemaVersion'', jstr ''hermes-design-task/v1alpha1''), (''id'', jstr (dt_id t)),
      (''idempotencyKey'', jstr (dt_key t)), (''sessionId'', jstr (dt_session t)), (''companyId'', jstr (dt_company t)),
      (''department'', jstr (department_name (dt_department t))), (''status'', jstr (design_status_text (dt_status t))),
      (''reason'', jstr (design_reason_text (dt_reason t))), (''originProblemIds'', jstrs (dt_problems t)),
      (''originOpportunityId'', jopt (dt_opportunity t)), (''contextHash'', jopt (dt_context t)),
      (''blockingGapIds'', jstrs (dt_gaps t)), (''nextQuestionGapIds'', jstrs (dt_questions t)),
      (''designRunIds'', jstrs (dt_runs t)), (''compilerErrors'', jstrs (dt_compiler_errors t)),
      (''callbackIds'', jstrs (dt_callbacks t)), (''hermesTaskId'', jopt (dt_hermes t)),
      (''delivery'', Some (delivery_json (dt_delivery t))), (''requestedBy'', jstr (dt_requested_by t)),
      (''createdAt'', jstr (iso_instant (dt_created t))), (''updatedAt'', jstr (iso_instant (dt_updated t))),
      (''completedAt'', jopt (map_option iso_instant (dt_completed t)))]"

subsection \<open>Callbacks\<close>

datatype callback_content =
    Acknowledged "str option"
  | QuestionsRequested "evidence_gap list"
  | ProposalSubmitted json "str option" "str option" "(str \<times> json) list"
  | DesignFailed str bool

record design_callback =
  cb_id :: str
  cb_task :: str
  cb_occurred :: instant
  cb_hermes :: "str option"
  cb_content :: callback_content

definition callback_ok :: "design_callback \<Rightarrow> bool" where
  "callback_ok c =
     (cb_id c \<noteq> [] \<and> cb_task c \<noteq> [] \<and>
      (case cb_content c of
         QuestionsRequested gaps \<Rightarrow> gaps \<noteq> [] \<and> list_all gap_ok gaps
       | DesignFailed e retryable \<Rightarrow> e \<noteq> []
       | _ \<Rightarrow> True))"

subsection \<open>Requests\<close>

record design_context =
  dx_hash :: str
  dx_json :: json

record next_question =
  nq_gap :: str
  nq_question :: "str option"
  nq_prompt :: str
  nq_value_type :: value_type
  nq_options :: "str list option"
  nq_examples :: "str list"
  nq_reason :: str
  nq_required_for :: "gap_stage list"
  nq_blocking :: bool

definition next_question_ok :: "next_question \<Rightarrow> bool" where
  "next_question_ok q =
     (nq_gap q \<noteq> [] \<and> not_empty (nq_question q) \<and> nq_prompt q \<noteq> [] \<and> nq_reason q \<noteq> [] \<and> nq_required_for q \<noteq> [])"

definition next_question_json :: "next_question \<Rightarrow> json" where
  "next_question_json q = jobj
     [(''gapId'', jstr (nq_gap q)), (''questionId'', jopt (nq_question q)), (''prompt'', jstr (nq_prompt q)),
      (''valueType'', jstr (value_type_text (nq_value_type q))), (''options'', Option.bind (nq_options q) jstrs),
      (''examples'', jstrs (nq_examples q)), (''reason'', jstr (nq_reason q)),
      (''requiredFor'', jstrs (map gap_stage_text (nq_required_for q))), (''blocking'', Some (JBool (nq_blocking q)))]"

record design_request =
  rq_task :: design_task
  rq_context :: "design_context option"
  rq_gaps :: "evidence_gap list"
  rq_questions :: "next_question list"
  rq_callback_url :: "str option"
  rq_instructions :: "str list"

definition request_ok :: "design_request \<Rightarrow> bool" where
  "request_ok q = (design_task_ok (rq_task q) \<and> list_all gap_ok (rq_gaps q) \<and> list_all next_question_ok (rq_questions q))"

definition allowed_design_tools :: "str list" where
  "allowed_design_tools = [''loopgraph_opportunities_get'', ''loopgraph_evidence_gaps_get'',
     ''loopgraph_evidence_gap_answer'', ''loopgraph_design_context_get'', ''loopgraph_design_submit'']"

definition request_json :: "design_request \<Rightarrow> json" where
  "request_json q = jobj
     [(''schemaVersion'', jstr ''hermes-design-request/v1alpha1''), (''event_type'', jstr ''loopgraph.design_requested''),
      (''task'', Some (task_json (rq_task q))), (''context'', map_option dx_json (rq_context q)),
      (''gaps'', Some (JArr (map gap_json (rq_gaps q)))),
      (''nextQuestions'', Some (JArr (map next_question_json (rq_questions q)))),
      (''callback'', map_option (\<lambda>u. jobj [(''url'', jstr u), (''signatureHeader'', jstr ''x-hermes-signature''),
         (''timestampHeader'', jstr ''x-hermes-timestamp'')]) (rq_callback_url q)),
      (''allowedLoopgraphTools'', jstrs allowed_design_tools), (''instructions'', jstrs (rq_instructions q))]"

subsection \<open>Leased jobs\<close>

text \<open>
  Dispatch jobs and callback jobs are declared twice with the same fields; they differ in what they
  carry, in their results, and in the checks of the schema.
\<close>

datatype design_job_status = DjQueued | DjClaimed | DjCompleted | DjFailed | DjDeadLetter | DjCancelled

record worker_lease =
  wl_by :: str
  wl_token :: str
  wl_at :: instant
  wl_expires :: instant

record job_failure =
  jf_message :: str
  jf_at :: instant

record ('p, 'r) design_job =
  dj_id :: str
  dj_key :: str
  dj_task :: str
  dj_payload :: 'p
  dj_status :: design_job_status
  dj_attempts :: nat
  dj_max_attempts :: nat
  dj_retry :: retry_policy
  dj_next_run :: instant
  dj_lease :: "worker_lease option"
  dj_result :: "'r option"
  dj_error :: "job_failure option"
  dj_dead_letter :: "str option"
  dj_created :: instant
  dj_updated :: instant

definition default_design_retry :: retry_policy where
  "default_design_retry = \<lparr>base_delay_seconds = 30, max_delay_seconds = 3600, backoff_multiplier = 2\<rparr>"

definition design_job_ok :: "('p, 'r) design_job \<Rightarrow> bool" where
  "design_job_ok j =
     (dj_id j \<noteq> [] \<and> dj_key j \<noteq> [] \<and> dj_task j \<noteq> [] \<and> 1 \<le> dj_max_attempts j \<and>
      1 \<le> base_delay_seconds (dj_retry j) \<and> 1 \<le> max_delay_seconds (dj_retry j) \<and> 1 \<le> backoff_multiplier (dj_retry j) \<and>
      (case dj_lease j of None \<Rightarrow> True | Some l \<Rightarrow> wl_by l \<noteq> [] \<and> wl_token l \<noteq> []) \<and>
      (case dj_error j of None \<Rightarrow> True | Some e \<Rightarrow> jf_message e \<noteq> []))"

record dispatch_result =
  dr_destination :: "str option"
  dr_response :: "int option"
  dr_hermes :: "str option"
  dr_completed :: instant

type_synonym dispatch_job = "(design_request, dispatch_result) design_job"

definition dispatch_job_ok :: "dispatch_job \<Rightarrow> bool" where
  "dispatch_job_ok j = (design_job_ok j \<and> request_ok (dj_payload j))"

record callback_delivery =
  cd_callback_id :: str
  cd_request_hash :: str
  cd_callback :: design_callback

record callback_result =
  kr_duplicate :: bool
  kr_run :: "str option"
  kr_errors :: "str list"
  kr_completed :: instant

type_synonym callback_job = "(callback_delivery, callback_result) design_job"

definition lower_hex_digit :: "char \<Rightarrow> bool" where
  "lower_hex_digit c = (c \<in> set ''0123456789abcdef'')"

definition sha256_text :: "str \<Rightarrow> bool" where
  "sha256_text s = (length s = 64 \<and> list_all lower_hex_digit s)"

definition callback_job_ok :: "callback_job \<Rightarrow> bool" where
  "callback_job_ok j =
     (design_job_ok j \<and> length (dj_id j) \<le> 160 \<and> length (dj_key j) \<le> 160 \<and> length (dj_task j) \<le> 256 \<and>
      cd_callback_id (dj_payload j) \<noteq> [] \<and> length (cd_callback_id (dj_payload j)) \<le> 256 \<and>
      sha256_text (cd_request_hash (dj_payload j)) \<and> callback_ok (cd_callback (dj_payload j)) \<and>
      dj_max_attempts j \<le> 100 \<and>
      cb_task (cd_callback (dj_payload j)) = dj_task j \<and>
      cb_id (cd_callback (dj_payload j)) = cd_callback_id (dj_payload j) \<and>
      (dj_status j = DjClaimed \<longleftrightarrow> dj_lease j \<noteq> None))"

end
