(* ===== verification/ControllerRun.thy ===== *)
theory ControllerRun imports ControllerStore DesignTypes begin

text \<open>
  The loop controller (runtime/loop-controller.ts): the due outcome evaluations, the policy of
  automatic shadow materialization, one decision per opportunity, one run per trigger, and the
  scheduler that works the trigger queue off (runtime/loop-controller-scheduler.ts). The opportunity
  engine, the design tasks and proposals, the connection instances and the graph transactions are
  arguments (record \<open>controller_env\<close>) that work on a state of their own.
\<close>

subsection \<open>What the controller reads\<close>

datatype opportunity_kind = CreateLoop | ImproveLoop | SplitLoop | MergeLoops | RetireLoop

datatype opportunity_status = OpDetected | OpQualified | OpDesignRequested | OpDesigning | OpProposalReady
  | OpDismissed | OpImplemented

definition opportunity_status_text :: "opportunity_status \<Rightarrow> str" where
  "opportunity_status_text s = (case s of OpDetected \<Rightarrow> ''detected'' | OpQualified \<Rightarrow> ''qualified''
     | OpDesignRequested \<Rightarrow> ''design_requested'' | OpDesigning \<Rightarrow> ''designing'' | OpProposalReady \<Rightarrow> ''proposal_ready''
     | OpDismissed \<Rightarrow> ''dismissed'' | OpImplemented \<Rightarrow> ''implemented'')"

record opportunity_signal =
  sg_source :: str
  sg_severity :: severity
  sg_evidence :: "str list"

record loop_opportunity =
  op_id :: str
  op_generation :: nat
  op_department :: department
  op_kind :: opportunity_kind
  op_status :: opportunity_status
  op_title :: str
  op_targets :: "str list"
  op_signal_ids :: "str list"
  op_signals :: "opportunity_signal list"
  op_score :: rat
  op_task :: "str option"
  op_change_set :: "str option"
  op_last_observed :: instant

datatype connector_use = UsedInDesign | UsedInSimulation | UsedInExecution | UsedInRouting

datatype user_item = NeedsConnection | NeedsOwner | NeedsPolicy | NeedsSampleData | NeedsBaseline | NeedsApproval

record design_action =
  da_risk :: risk_level
  da_requires_approval :: bool
  da_customer_facing :: bool

record design_proposal =
  dp_id :: str
  dp_stage :: activation_mode
  dp_activation :: activation_mode
  dp_actions :: "design_action list"
  dp_questions :: "str list"
  dp_user_items :: "user_item list"
  dp_connectors :: "(str \<times> connector_use) list"

record proposal_set =
  ps_valid :: bool
  ps_proposals :: "design_proposal list"

record scan_result =
  sc_signals :: nat
  sc_opportunities :: "loop_opportunity list"
  sc_change_sets :: "str list"
  sc_dispatched :: "str list"

record approve_request =
  aq_change_set :: str
  aq_policy_version :: str
  aq_evidence :: "str list"
  aq_now :: instant

record apply_request =
  yq_change_set :: str
  yq_receipt :: str
  yq_run :: str
  yq_proposals :: "str list"
  yq_now :: instant

record 'x controller_world =
  cw_store :: controller_store
  cw_outcomes :: outcome_store
  cw_rest :: 'x

type_synonym ('x, 'a) world_step = "('x controller_world, controller_error, 'a) action"

record 'x controller_env =
  cv_root :: "str + str"
  cv_definitions :: "metric_definition list"
  cv_scan :: "controller_policy \<Rightarrow> instant \<Rightarrow> outcome_store \<Rightarrow> ('x, str, scan_result) action"
  cv_task :: "str \<Rightarrow> 'x \<Rightarrow> str + design_task option"
  cv_proposals :: "str \<Rightarrow> 'x \<Rightarrow> str + proposal_set option"
  cv_changes :: "str \<Rightarrow> 'x \<Rightarrow> str + change_operation list option"
  cv_capabilities :: "'x \<Rightarrow> str + str list"
  cv_approve :: "approve_request \<Rightarrow> ('x, str, str) action"
  cv_apply :: "apply_request \<Rightarrow> ('x, str, str) action"
  cv_materialize :: bool
  cv_library_message :: "controller_error \<Rightarrow> str"

definition in_controller :: "'a controller_action \<Rightarrow> ('x, 'a) world_step" where
  "in_controller m = act_zoom cw_store cw_store_update (\<lambda>e. e) m"

definition in_outcomes :: "'a outcome_action \<Rightarrow> ('x, 'a) world_step" where
  "in_outcomes m = act_zoom cw_outcomes cw_outcomes_update CtrOutcomeError m"

definition in_rest :: "('x, str, 'a) action \<Rightarrow> ('x, 'a) world_step" where
  "in_rest m = act_zoom cw_rest cw_rest_update OutsideError m"

definition ask :: "('x \<Rightarrow> str + 'a) \<Rightarrow> ('x, 'a) world_step" where
  "ask f = act_bind (act_read (\<lambda>w. f (cw_rest w))) (\<lambda>r.
     case r of Inl m \<Rightarrow> act_throw (OutsideError m) | Inr a \<Rightarrow> act_return a)"

definition controller_status_text :: "controller_status \<Rightarrow> str" where
  "controller_status_text s = (case s of CtrRunning \<Rightarrow> ''running'' | CtrCompleted \<Rightarrow> ''completed''
     | CtrFailed \<Rightarrow> ''failed'' | CtrDisabled \<Rightarrow> ''disabled'')"

definition error_message :: "'x controller_env \<Rightarrow> controller_error \<Rightarrow> str" where
  "error_message E e = (case e of
       RunIdentityConflict k \<Rightarrow> ''Controller run identity conflict: '' @ k
     | TerminalRunTransition a b \<Rightarrow> ''Terminal controller run cannot transition from '' @ controller_status_text a @
         '' to '' @ controller_status_text b
     | TriggerIdentityConflict k \<Rightarrow> ''Controller trigger identity conflict: '' @ k
     | TriggerLeaseLost k \<Rightarrow> ''Controller trigger lease is no longer owned: '' @ k
     | TriggerWithoutLease k \<Rightarrow> ''Claimed controller trigger is missing a lease: '' @ k
     | SchedulerBound label lo hi \<Rightarrow>
         label @ '' must be an integer from '' @ nat_text lo @ '' to '' @ nat_text hi @ ''.''
     | OutsideError m \<Rightarrow> m
     | _ \<Rightarrow> cv_library_message E e)"

subsection \<open>Due outcomes\<close>

definition metric_filter :: "str \<Rightarrow> metric_definition \<Rightarrow> sample_filters" where
  "metric_filter rootId d =
     \<lparr>sf_workspace = Some rootId, sf_company = Some (md_company d), sf_department = None, sf_loop = md_loop d,
      sf_metric = Some (md_id d), sf_metric_key = None, sf_start = None, sf_end = None\<rparr>"

definition window_milliseconds :: "metric_definition \<Rightarrow> int" where
  "window_milliseconds d = int (max 1 (opt_or (md_window_days d) 7)) * 86400000"

definition due_windows :: "metric_definition \<Rightarrow> instant \<Rightarrow> measurement_window \<times> measurement_window" where
  "due_windows d evaluationEnd =
     (let evaluationStart = evaluationEnd - window_milliseconds d + 1;
          baselineEnd = evaluationStart - 1;
          baselineStart = baselineEnd - window_milliseconds d + 1
      in (\<lparr>win_start = baselineStart, win_end = baselineEnd\<rparr>, \<lparr>win_start = evaluationStart, win_end = evaluationEnd\<rparr>))"

definition due_input :: "str \<Rightarrow> metric_definition \<Rightarrow> instant \<Rightarrow> instant \<Rightarrow> outcome_input" where
  "due_input rootId d evaluationEnd now =
     (case due_windows d evaluationEnd of (baseline, evaluation) \<Rightarrow>
       \<lparr>oi_workspace = rootId, oi_company = md_company d, oi_department = md_department d, oi_loop = opt_or (md_loop d) [],
        oi_metric = d, oi_baseline = baseline, oi_evaluation = evaluation, oi_direction = md_direction d,
        oi_min_baseline = 1, oi_min_observed = 1, oi_tolerance = 1, oi_guardrails = [], oi_runs = [], oi_problems = [],
        oi_now = now\<rparr>)"

definition latest_sample :: "runtime \<Rightarrow> str \<Rightarrow> metric_definition \<Rightarrow> outcome_store \<Rightarrow> metric_sample option" where
  "latest_sample R rootId d s =
     (let samples = js_sort (\<lambda>a b. cmp_of (ms_observed_at a) (ms_observed_at b)) (list_metric_samples R (metric_filter rootId d) s)
      in if samples = [] then None else Some (last samples))"

definition evaluate_due_definition ::
  "runtime \<Rightarrow> 'x controller_env \<Rightarrow> str \<Rightarrow> instant \<Rightarrow> metric_definition \<Rightarrow>
     ('x, (controller_run_error + observed_outcome) option) world_step" where
  "evaluate_due_definition R E rootId now d =
     act_bind (act_read (\<lambda>w. latest_sample R rootId d (cw_outcomes w))) (\<lambda>latest.
     (case latest of
        None \<Rightarrow> act_return None
      | Some m \<Rightarrow>
          if win_end (ms_window m) > now then act_return None
          else act_catch
            (act_bind (in_outcomes (evaluate_observed_outcome R (due_input rootId d (win_end (ms_window m)) now)))
               (\<lambda>(outcome, duplicate). act_return (Some (Inr outcome))))
            (\<lambda>e. act_return (Some (Inl \<lparr>cre_code = ''OUTCOME_EVALUATION_FAILED'', cre_message = error_message E e,
               cre_evidence = [md_id d]\<rparr>)))))"

definition evaluate_due_project_outcomes ::
  "runtime \<Rightarrow> 'x controller_env \<Rightarrow> str \<Rightarrow> instant \<Rightarrow>
     ('x, observed_outcome list \<times> controller_run_error list) world_step" where
  "evaluate_due_project_outcomes R E rootId now =
     act_bind (act_each (evaluate_due_definition R E rootId now)
       (filter (\<lambda>d. truthy_str (md_loop d)) (cv_definitions E))) (\<lambda>rs.
     act_return (List.map_filter (\<lambda>r. case r of Some (Inr x) \<Rightarrow> Some x | _ \<Rightarrow> None) rs,
       List.map_filter (\<lambda>r. case r of Some (Inl x) \<Rightarrow> Some x | _ \<Rightarrow> None) rs))"

subsection \<open>The policy of automatic shadow materialization\<close>

definition severity_rank :: "severity \<Rightarrow> nat" where
  "severity_rank s = (case s of SevLow \<Rightarrow> 0 | SevMedium \<Rightarrow> 1 | SevHigh \<Rightarrow> 2 | SevCritical \<Rightarrow> 3)"

definition maximum_signal_severity :: "loop_opportunity \<Rightarrow> severity" where
  "maximum_signal_severity o' =
     (case js_sort (\<lambda>a b. int (severity_rank b) - int (severity_rank a)) (map sg_severity (op_signals o')) of
        [] \<Rightarrow> SevLow | s # _ \<Rightarrow> s)"

definition policy_rule_of :: "str \<Rightarrow> bool \<Rightarrow> str \<Rightarrow> policy_rule" where
  "policy_rule_of k passed summary = \<lparr>pr_id = k, pr_passed = passed, pr_summary = summary, pr_evidence = []\<rparr>"

definition missing_capabilities :: "design_proposal list \<Rightarrow> str list \<Rightarrow> str list" where
  "missing_capabilities proposals ready =
     filter (\<lambda>c. c \<notin> set ready)
       (uniq (concat (map (\<lambda>p. map fst (filter (\<lambda>(c, u). u \<in> {UsedInRouting, UsedInSimulation}) (dp_connectors p))) proposals)))"

definition sensitive_items :: "design_proposal list \<Rightarrow> user_item list" where
  "sensitive_items proposals =
     concat (map (\<lambda>p. filter (\<lambda>u. u \<in> {NeedsApproval, NeedsPolicy, NeedsOwner}) (dp_user_items p)) proposals)"

definition shadow_rules ::
  "runtime \<Rightarrow> controller_policy \<Rightarrow> loop_opportunity \<Rightarrow> design_proposal list \<Rightarrow> change_operation list option \<Rightarrow> str list \<Rightarrow>
     policy_rule list" where
  "shadow_rules R p o' proposals changes ready =
     (let blocked = op_department o' \<in> set (cp_blocked p); worst = maximum_signal_severity o';
          sensitive = sensitive_items proposals; missing = missing_capabilities proposals ready
      in [policy_rule_of ''auto-shadow-enabled'' (cp_auto_shadow p)
            (if cp_auto_shadow p then ''Automatic shadow materialization is enabled.''
             else ''Automatic shadow materialization is disabled.''),
          policy_rule_of ''score-threshold'' (cp_shadow p \<le> op_score o')
            (''Opportunity score '' @ number_text R (op_score o') @ '' must meet '' @ number_text R (cp_shadow p) @ ''.''),
          policy_rule_of ''department-boundary'' (\<not> blocked)
            (if blocked then department_name (op_department o') @ '' requires accountable review before any automatic graph change.''
             else department_name (op_department o') @ '' is eligible for strict shadow policy evaluation.''),
          policy_rule_of ''change-operation''
            (case changes of None \<Rightarrow> False | Some cs \<Rightarrow> list_all (\<lambda>c. c \<in> set (cp_operations p)) cs)
            (case changes of None \<Rightarrow> ''A versioned graph change set is required.''
               | Some cs \<Rightarrow> ''Change operations are '' @ js_join '', '' (map change_operation_text cs) @ ''.''),
          policy_rule_of ''signal-severity'' (severity_rank worst \<le> severity_rank (cp_max_severity p))
            (''Maximum signal severity '' @ signal_severity_text worst @ '' must not exceed '' @
             signal_severity_text (cp_max_severity p) @ ''.''),
          policy_rule_of ''shadow-rollout''
            (proposals \<noteq> [] \<and> list_all (\<lambda>q. dp_stage q = Shadow \<and> dp_activation q = Shadow) proposals)
            ''Every proposal must remain in shadow rollout and shadow routing mode.'',
          policy_rule_of ''read-only-low-risk-actions''
            (list_all (\<lambda>q. list_all (\<lambda>a. da_risk a = RiskLow \<and> \<not> da_requires_approval a \<and> \<not> da_customer_facing a)
               (dp_actions q)) proposals)
            ''Automatic shadow proposals may contain only low-risk, non-customer-facing actions without approval authority.'',
          policy_rule_of ''open-questions''
            (\<not> cp_no_questions p \<or> list_all (\<lambda>q. dp_questions q = []) proposals)
            ''Blocking open questions must be resolved before automatic materialization.'',
          policy_rule_of ''user-approval-items'' (\<not> cp_no_user_items p \<or> sensitive = [])
            (if sensitive = [] then ''No owner, policy, or approval item remains unresolved.''
             else nat_text (length sensitive) @ '' accountable user item(s) remain unresolved.''),
          policy_rule_of ''routing-connections'' (\<not> cp_connections_ready p \<or> missing = [])
            (if missing = [] then ''Routing and simulation capabilities are ready or not required.''
             else ''Missing routing/simulation capabilities: '' @ js_join '', '' missing @ ''.'')])"

definition verdict_of :: "policy_rule list \<Rightarrow> policy_verdict" where
  "verdict_of rules = \<lparr>pv_passed = list_all pr_passed rules, pv_rules = rules\<rparr>"

definition evaluate_auto_shadow_policy ::
  "runtime \<Rightarrow> 'x controller_env \<Rightarrow> controller_policy \<Rightarrow> loop_opportunity \<Rightarrow> design_proposal list \<Rightarrow>
     ('x, policy_verdict) world_step" where
  "evaluate_auto_shadow_policy R E p o' proposals =
     act_bind (if truthy_str (op_change_set o') then ask (cv_changes E (the (op_change_set o'))) else act_return None) (\<lambda>changes.
     act_bind (ask (cv_capabilities E)) (\<lambda>ready.
     act_return (verdict_of (shadow_rules R p o' proposals changes ready))))"

subsection \<open>Decisions\<close>

definition make_decision :: "runtime \<Rightarrow> controller_decision \<Rightarrow> ('x, controller_decision) world_step" where
  "make_decision R d =
     (let d' = d\<lparr>dc_id := ''controller_decision_'' @ hash_obj R
        [(''action'', jstr (controller_act_text (dc_action d))), (''opportunityId'', jopt (dc_opportunity d)),
         (''designRunId'', jopt (dc_run d)), (''createdAt'', jstr (iso_instant (dc_created_at d)))]\<rparr>
      in act_bind (act_lift (require (controller_decision_ok d') CtrSchemaError)) (\<lambda>_. act_return d'))"

definition plain_verdict :: policy_verdict where
  "plain_verdict = \<lparr>pv_passed = True, pv_rules = []\<rparr>"

definition refusal :: "str \<Rightarrow> str \<Rightarrow> policy_verdict" where
  "refusal k summary = \<lparr>pv_passed = False, pv_rules = [policy_rule_of k False summary]\<rparr>"

definition no_action_decision :: "runtime \<Rightarrow> instant \<Rightarrow> str \<Rightarrow> str list \<Rightarrow> ('x, controller_decision) world_step" where
  "no_action_decision R now reason evidence =
     make_decision R \<lparr>dc_id = [], dc_action = DoNothing, dc_opportunity = None, dc_change_set = None, dc_task = None,
       dc_run = None, dc_receipt = None, dc_transaction = None, dc_department = None, dc_targets = [], dc_score = None,
       dc_summary = ''No controller action'', dc_reason = reason, dc_evidence = evidence, dc_policy = plain_verdict,
       dc_created_at = now\<rparr>"

definition signal_refs :: "loop_opportunity \<Rightarrow> str list" where
  "signal_refs o' = concat (map (\<lambda>s. sg_source s # sg_evidence s) (op_signals o'))"

definition base_decision ::
  "instant \<Rightarrow> loop_opportunity \<Rightarrow> controller_act \<Rightarrow> str \<Rightarrow> str \<Rightarrow> policy_verdict \<Rightarrow> controller_decision" where
  "base_decision now o' action summary reason verdict =
     \<lparr>dc_id = [], dc_action = action, dc_opportunity = Some (op_id o'), dc_change_set = op_change_set o',
      dc_task = op_task o', dc_run = None, dc_receipt = None, dc_transaction = None,
      dc_department = Some (op_department o'), dc_targets = op_targets o', dc_score = Some (op_score o'),
      dc_summary = summary, dc_reason = reason, dc_evidence = uniq (signal_refs o'), dc_policy = verdict,
      dc_created_at = now\<rparr>"

definition policy_version :: "runtime \<Rightarrow> controller_policy \<Rightarrow> str" where
  "policy_version R p = ''loop-controller-policy/v1alpha1:'' @ content_hash R (Some (policy_json p))"

definition all_rules_passed :: str where
  "all_rules_passed = ''Every strict automatic-shadow policy rule passed.''"

text \<open>The graph transaction: the receipt of the approval, if any, and the transaction or the error.\<close>

definition graph_transaction ::
  "runtime \<Rightarrow> 'x controller_env \<Rightarrow> controller_policy \<Rightarrow> instant \<Rightarrow> loop_opportunity \<Rightarrow> str \<Rightarrow> str \<Rightarrow> design_proposal list \<Rightarrow>
     ('x, str option \<times> (controller_error + str)) world_step" where
  "graph_transaction R E p now o' changeSet designRun proposals =
     act_catch
       (act_bind (in_rest (cv_approve E \<lparr>aq_change_set = changeSet, aq_policy_version = policy_version R p,
          aq_evidence = signal_refs o', aq_now = now\<rparr>)) (\<lambda>receipt.
        act_catch
          (act_bind (in_rest (cv_apply E \<lparr>yq_change_set = changeSet, yq_receipt = receipt, yq_run = designRun,
             yq_proposals = map dp_id proposals, yq_now = now\<rparr>)) (\<lambda>transaction.
           act_return (Some receipt, Inr transaction)))
          (\<lambda>e. act_return (Some receipt, Inl e))))
       (\<lambda>e. act_return (None, Inl e))"

definition materialize ::
  "runtime \<Rightarrow> 'x controller_env \<Rightarrow> controller_policy \<Rightarrow> instant \<Rightarrow> loop_opportunity \<Rightarrow> str \<Rightarrow> design_proposal list \<Rightarrow>
     policy_verdict \<Rightarrow> ('x, controller_decision) world_step" where
  "materialize R E p now o' designRun proposals gate =
     (if \<not> truthy_str (op_change_set o') then
        make_decision R ((base_decision now o' ReviewChange (op_title o' @ '': graph change set is missing'')
          ''Automatic shadow materialization requires a versioned graph change set.''
          \<lparr>pv_passed = False, pv_rules = pv_rules gate @ [policy_rule_of ''graph-change-set'' False
             ''A graph change set is required.'']\<rparr>)\<lparr>dc_run := Some designRun\<rparr>)
      else
        act_bind (graph_transaction R E p now o' (the (op_change_set o')) designRun proposals) (\<lambda>(receipt, result).
        (case result of
           Inl e \<Rightarrow>
             make_decision R ((base_decision now o' ReviewChange (op_title o' @ '': shadow graph transaction failed'')
               (error_message E e)
               \<lparr>pv_passed = False, pv_rules = pv_rules gate @ [policy_rule_of ''semantic-graph-transaction'' False
                  (error_message E e)]\<rparr>)\<lparr>dc_run := Some designRun, dc_receipt := receipt\<rparr>)
         | Inr transaction \<Rightarrow>
             make_decision R ((base_decision now o' ShadowMaterialize (op_title o' @ '': materialized in shadow mode'')
               ''Every strict automatic-shadow policy rule passed and the content-bound graph transaction committed.''
               gate)\<lparr>dc_run := Some designRun, dc_receipt := receipt, dc_transaction := Some transaction\<rparr>))))"

definition proposal_unusable :: "runtime \<Rightarrow> instant \<Rightarrow> loop_opportunity \<Rightarrow> ('x, controller_decision) world_step" where
  "proposal_unusable R now o' =
     make_decision R (base_decision now o' ReviewChange (op_title o' @ '': proposal cannot be materialized'')
       ''The Hermes task completed without a valid proposal set.''
       (refusal ''valid-proposal-set'' ''A validated Hermes proposal set is required.''))"

definition decide_gated ::
  "runtime \<Rightarrow> 'x controller_env \<Rightarrow> controller_policy \<Rightarrow> instant \<Rightarrow> loop_opportunity \<Rightarrow> str \<Rightarrow> design_proposal list \<Rightarrow>
     policy_verdict \<Rightarrow> ('x, controller_decision) world_step" where
  "decide_gated R E p now o' designRun proposals gate =
     (if \<not> pv_passed gate then
        make_decision R ((base_decision now o' ReviewChange (op_title o' @ '': accountable review required'')
          (js_join '' '' (map pr_summary (filter (\<lambda>r. \<not> pr_passed r) (pv_rules gate)))) gate)\<lparr>dc_run := Some designRun\<rparr>)
      else materialize R E p now o' designRun proposals gate)"

definition decide_proposals ::
  "runtime \<Rightarrow> 'x controller_env \<Rightarrow> controller_policy \<Rightarrow> instant \<Rightarrow> loop_opportunity \<Rightarrow> str \<Rightarrow> proposal_set \<Rightarrow>
     ('x, controller_decision) world_step" where
  "decide_proposals R E p now o' designRun s =
     (if \<not> ps_valid s then proposal_unusable R now o'
      else if \<not> cv_materialize E then
        make_decision R ((base_decision now o' ReviewChange (op_title o' @ '': distributed graph review required'')
          ''Automatic graph mutation is disabled until the hosted semantic graph transaction store is authoritative.''
          (refusal ''distributed-graph-authority''
            ''A shared semantic graph transaction store is required before automatic shadow materialization.''))
          \<lparr>dc_run := Some designRun\<rparr>)
      else
        act_bind (evaluate_auto_shadow_policy R E p o' (ps_proposals s))
          (decide_gated R E p now o' designRun (ps_proposals s)))"

definition decide_completed ::
  "runtime \<Rightarrow> 'x controller_env \<Rightarrow> controller_policy \<Rightarrow> instant \<Rightarrow> loop_opportunity \<Rightarrow> design_task \<Rightarrow>
     ('x, controller_decision) world_step" where
  "decide_completed R E p now o' t =
     (let designRun = (if dt_runs t = [] then None else Some (last (dt_runs t)))
      in act_bind (if truthy_str designRun then ask (cv_proposals E (the designRun)) else act_return None) (\<lambda>proposalSet.
         (case proposalSet of
            Some s \<Rightarrow> decide_proposals R E p now o' (the designRun) s
          | None \<Rightarrow> proposal_unusable R now o')))"

definition decide_open ::
  "runtime \<Rightarrow> controller_policy \<Rightarrow> instant \<Rightarrow> str list \<Rightarrow> loop_opportunity \<Rightarrow> ('x, controller_decision) world_step" where
  "decide_open R p now dispatched o' =
     (let started = opt_or (op_task o') [] \<in> set dispatched
      in make_decision R (base_decision now o' (if started then StartDesign else ReviewChange) (op_title o')
           (if started then ''The opportunity crossed the automatic-design threshold and a durable Hermes task was started.''
            else ''The opportunity is qualified but has not crossed the automatic-design threshold '' @ number_text R (cp_design p) @ ''.'')
           plain_verdict))"

definition decide_opportunity ::
  "runtime \<Rightarrow> 'x controller_env \<Rightarrow> controller_policy \<Rightarrow> instant \<Rightarrow> str list \<Rightarrow> loop_opportunity \<Rightarrow>
     ('x, controller_decision) world_step" where
  "decide_opportunity R E p now dispatched o' =
     (if op_status o' \<in> {OpDismissed, OpImplemented} then
        make_decision R (base_decision now o' DoNothing (op_title o' @ '': no controller action'')
          (''Opportunity is already '' @ opportunity_status_text (op_status o') @ ''.'') plain_verdict)
      else if op_kind o' = RetireLoop then
        make_decision R (base_decision now o' ProposeRetire (op_title o')
          ''Negative observed value can justify a retirement proposal, but the controller cannot retire a loop without accountable review.''
          (refusal ''retirement-human-owned'' ''Pausing or retiring an operating loop requires accountable approval.''))
      else if op_score o' < cp_qualify p then
        make_decision R (base_decision now o' DoNothing (op_title o' @ '': continue observing'')
          (''Score '' @ number_text R (op_score o') @ '' is below qualification threshold '' @ number_text R (cp_qualify p) @ ''.'')
          plain_verdict)
      else
        act_bind (if truthy_str (op_task o') then ask (cv_task E (the (op_task o'))) else act_return None) (\<lambda>task.
        (case task of
           None \<Rightarrow> decide_open R p now dispatched o'
         | Some t \<Rightarrow>
             if dt_status t = DsNeedsInput then
               make_decision R (base_decision now o' RequestEvidence (''Hermes needs focused evidence for '' @ op_title o')
                 (nat_text (length (dt_gaps t)) @ '' blocking evidence gap(s) remain.'')
                 (refusal ''design-evidence-complete''
                   ''Hermes must collect the unresolved design evidence before a proposal can be materialized.''))
             else if dt_status t \<in> {DsQueued, DsAwaitingHermes, DsDesigning, DsNeedsRepair} then
               make_decision R (base_decision now o' (if dt_id t \<in> set dispatched then StartDesign else WaitForDesign)
                 (op_title o' @ '': Hermes design is '' @ design_status_text (dt_status t))
                 ''The durable Hermes task owns the next design step.'' plain_verdict)
             else if dt_status t = DsCompleted then decide_completed R E p now o' t
             else decide_open R p now dispatched o')))"

definition decide_controller_actions ::
  "runtime \<Rightarrow> 'x controller_env \<Rightarrow> controller_policy \<Rightarrow> instant \<Rightarrow> scan_result \<Rightarrow>
     ('x, controller_decision list) world_step" where
  "decide_controller_actions R E p now scan =
     (if sc_opportunities scan = [] then
        act_bind (no_action_decision R now ''No durable business signal currently qualifies as a loop opportunity.'' [])
          (\<lambda>d. act_return [d])
      else act_each (decide_opportunity R E p now (sc_dispatched scan)) (sc_opportunities scan))"

end
