(* ===== verification/ControllerLoop.thy ===== *)
theory ControllerLoop imports ControllerRun begin

text \<open>
  One run of the loop controller (\<open>runLoopController\<close>) and the scheduler that works the trigger
  queue off (runtime/loop-controller-scheduler.ts). A run holds the controller lock from the lookup of
  an earlier run to its last write, so it is one action here. The two \<open>parse\<close> calls that
  reassign the run inside the \<open>try\<close> block are kept apart: an error before the second leaves the
  started run to be failed, an error after it the completed one.
\<close>

subsection \<open>Triggers and fingerprints\<close>

record trigger_input =
  tgi_type :: "controller_trigger_type option"
  tgi_id :: "str option"
  tgi_occurred_at :: "instant option"
  tgi_source :: "str option"
  tgi_requested_by :: "str option"
  tgi_evidence :: "str list option"

definition normalize_controller_trigger :: "runtime \<Rightarrow> trigger_input \<Rightarrow> instant \<Rightarrow> controller_error + controller_trigger" where
  "normalize_controller_trigger R i now =
     (let type = opt_or (tgi_type i) TManual;
          t = \<lparr>tg_type = type,
               tg_id = opt_or (tgi_id i) (controller_trigger_type_text type @ ''_'' @ number_text R (of_int (now div (15 * 60 * 1000)))),
               tg_occurred_at = opt_or (tgi_occurred_at i) now,
               tg_source = opt_or (tgi_source i) (''loopgraph-controller:'' @ controller_trigger_type_text type),
               tg_requested_by = tgi_requested_by i, tg_evidence = opt_or (tgi_evidence i) []\<rparr>
      in res_bind (require (trigger_ok t) CtrSchemaError) (\<lambda>_. Inr t))"

definition opportunity_json :: "loop_opportunity \<Rightarrow> json" where
  "opportunity_json x = jobj
     [(''id'', jstr (op_id x)), (''generation'', Some (JNum (of_nat (op_generation x)))),
      (''status'', jstr (opportunity_status_text (op_status x))), (''score'', Some (JNum (op_score x))),
      (''signalIds'', jstrs (sort (op_signal_ids x))), (''designTaskId'', jopt (op_task x))]"

definition outcome_mark_json :: "observed_outcome \<Rightarrow> json" where
  "outcome_mark_json x = jobj
     [(''id'', jstr (oo_id x)), (''status'', jstr (outcome_status_text (oo_status x))),
      (''truthStatus'', jstr (truth_text (oo_truth x))), (''evaluatedAt'', jstr (iso_instant (oo_evaluated_at x)))]"

definition controller_evidence_fingerprint :: "runtime \<Rightarrow> scan_result \<Rightarrow> observed_outcome list \<Rightarrow> str" where
  "controller_evidence_fingerprint R scan outcomes = hash_obj R
     [(''opportunities'', Some (JArr (map opportunity_json
         (js_sort (\<lambda>a b. locale_compare R (op_id a) (op_id b)) (sc_opportunities scan))))),
      (''outcomes'', Some (JArr (map outcome_mark_json
         (js_sort (\<lambda>a b. locale_compare R (oo_id a) (oo_id b)) outcomes))))]"

definition count_outcome_truth :: "observed_outcome list \<Rightarrow> truth_counts" where
  "count_outcome_truth xs =
     (let count = (\<lambda>t. length (filter (\<lambda>x. oo_truth x = t) xs))
      in \<lparr>tc_observed = count TruthObserved, tc_modeled = count TruthModeled, tc_incomplete = count TruthIncomplete\<rparr>)"

subsection \<open>A run\<close>

definition controller_key :: "runtime \<Rightarrow> str \<Rightarrow> controller_trigger \<Rightarrow> str" where
  "controller_key R rootId t = ''controller_'' @ hash_obj R
     [(''projectRootId'', jstr rootId), (''triggerType'', jstr (controller_trigger_type_text (tg_type t))), (''triggerId'', jstr (tg_id t))]"

definition controller_run_id :: "runtime \<Rightarrow> str \<Rightarrow> str" where
  "controller_run_id R key = ''controller_run_'' @ hash_obj R [(''idempotencyKey'', jstr key)]"

definition started_run ::
  "runtime \<Rightarrow> controller_policy \<Rightarrow> str \<Rightarrow> controller_trigger \<Rightarrow> controller_run option \<Rightarrow> instant \<Rightarrow> controller_run" where
  "started_run R p rootId t existing now =
     (let key = controller_key R rootId t
      in \<lparr>cr_id = (case existing of None \<Rightarrow> controller_run_id R key | Some x \<Rightarrow> cr_id x), cr_key = key, cr_root = rootId,
          cr_trigger = t, cr_status = (if cp_enabled p then CtrRunning else CtrDisabled),
          cr_policy_hash = content_hash R (Some (policy_json p)),
          cr_fingerprint = (case existing of None \<Rightarrow> ''pending_'' @ content_hash R (Some (trigger_json t)) | Some x \<Rightarrow> cr_fingerprint x),
          cr_evidence = (case existing of None \<Rightarrow> no_evidence | Some x \<Rightarrow> cr_evidence x),
          cr_decisions = (case existing of None \<Rightarrow> [] | Some x \<Rightarrow> cr_decisions x),
          cr_errors = (case existing of None \<Rightarrow> [] | Some x \<Rightarrow> cr_errors x),
          cr_started_at = (case existing of None \<Rightarrow> now | Some x \<Rightarrow> cr_started_at x),
          cr_completed_at = (if cp_enabled p then None else Some now), cr_next_eligible_at = None\<rparr>)"

definition cooldown_active :: "controller_policy \<Rightarrow> instant \<Rightarrow> str \<Rightarrow> controller_checkpoint option \<Rightarrow> bool" where
  "cooldown_active p now fingerprint checkpoint =
     (case checkpoint of
        None \<Rightarrow> False
      | Some c \<Rightarrow> ck_fingerprint c = fingerprint \<and> ck_completed_at c + int (cp_cooldown p) * 1000 > now)"

definition run_decisions ::
  "runtime \<Rightarrow> 'x controller_env \<Rightarrow> controller_policy \<Rightarrow> instant \<Rightarrow> scan_result \<Rightarrow> str \<Rightarrow> ('x, controller_decision list) world_step" where
  "run_decisions R E p now scan fingerprint =
     act_bind (act_read (\<lambda>w. read_checkpoint (cw_store w))) (\<lambda>checkpoint.
     if cooldown_active p now fingerprint checkpoint then
       act_bind (no_action_decision R now
         ''The durable evidence fingerprint has not changed and the controller cooldown is still active.''
         [ck_run (the checkpoint)]) (\<lambda>d. act_return [d])
     else decide_controller_actions R E p now scan)"

definition completed_run ::
  "controller_policy \<Rightarrow> instant \<Rightarrow> controller_run \<Rightarrow> scan_result \<Rightarrow> str \<Rightarrow> observed_outcome list \<Rightarrow>
     observed_outcome list \<times> controller_run_error list \<Rightarrow> controller_decision list \<Rightarrow> controller_run" where
  "completed_run p now r scan fingerprint outcomes evaluated decisions =
     r\<lparr>cr_status := CtrCompleted, cr_fingerprint := fingerprint,
       cr_evidence := \<lparr>re_signals = sc_signals scan, re_opportunities = map op_id (sc_opportunities scan),
         re_change_sets = sc_change_sets scan, re_tasks = sc_dispatched scan,
         re_outcomes = map oo_id (fst evaluated), re_truth = count_outcome_truth outcomes\<rparr>,
       cr_decisions := take (cp_max_decisions p) decisions, cr_errors := snd evaluated,
       cr_completed_at := Some now, cr_next_eligible_at := Some (now + int (cp_cooldown p) * 1000)\<rparr>"

definition root_outcomes :: "str \<Rightarrow> outcome_filters" where
  "root_outcomes rootId = \<lparr>of_workspace = Some rootId, of_company = None, of_department = None, of_loop = None,
     of_metric = None, of_status = None\<rparr>"

definition controller_work ::
  "runtime \<Rightarrow> 'x controller_env \<Rightarrow> controller_policy \<Rightarrow> str \<Rightarrow> instant \<Rightarrow> controller_run \<Rightarrow>
     ('x, controller_run \<times> scan_result) world_step" where
  "controller_work R E p rootId now r =
     act_bind (if cp_auto_outcomes p then evaluate_due_project_outcomes R E rootId now else act_return ([], [])) (\<lambda>evaluated.
     act_bind (act_bind (act_read cw_outcomes) (\<lambda>s. in_rest (cv_scan E p now s))) (\<lambda>scan.
     act_bind (act_read (\<lambda>w. list_observed_outcomes R (root_outcomes rootId) (cw_outcomes w))) (\<lambda>outcomes.
     let fingerprint = controller_evidence_fingerprint R scan outcomes
     in act_bind (run_decisions R E p now scan fingerprint) (\<lambda>decisions.
        let done = completed_run p now r scan fingerprint outcomes evaluated decisions
        in act_bind (act_lift (require (controller_run_ok done) CtrSchemaError)) (\<lambda>_. act_return (done, scan))))))"

definition failed_controller_run :: "'x controller_env \<Rightarrow> instant \<Rightarrow> controller_run \<Rightarrow> controller_error \<Rightarrow> controller_run" where
  "failed_controller_run E now r e =
     r\<lparr>cr_status := CtrFailed, cr_completed_at := Some now,
       cr_errors := [\<lparr>cre_code = ''CONTROLLER_RUN_FAILED'', cre_message = error_message E e, cre_evidence = []\<rparr>]\<rparr>"

definition fail_controller_run ::
  "'x controller_env \<Rightarrow> instant \<Rightarrow> controller_run \<Rightarrow> controller_error \<Rightarrow> ('x, controller_run \<times> bool) world_step" where
  "fail_controller_run E now r e =
     (let failed = failed_controller_run E now r e
      in act_bind (in_controller (save_controller_run failed)) (\<lambda>_. act_return (failed, False)))"

definition run_checkpoint :: "controller_run \<Rightarrow> str \<Rightarrow> instant \<Rightarrow> scan_result \<Rightarrow> controller_checkpoint" where
  "run_checkpoint r rootId now scan =
     \<lparr>ck_root = rootId, ck_run = cr_id r, ck_completed_at = now, ck_fingerprint = cr_fingerprint r,
      ck_trigger = tg_id (cr_trigger r), ck_watermarks = map (\<lambda>x. (op_id x, op_last_observed x)) (sc_opportunities scan),
      ck_updated_at = now\<rparr>"

definition finish_controller_run ::
  "'x controller_env \<Rightarrow> str \<Rightarrow> instant \<Rightarrow> controller_run \<Rightarrow> scan_result \<Rightarrow> ('x, controller_run \<times> bool) world_step" where
  "finish_controller_run E rootId now done scan =
     act_catch
       (act_bind (in_controller (save_controller_run done)) (\<lambda>_.
        act_bind (in_controller (save_checkpoint (run_checkpoint done rootId now scan))) (\<lambda>_.
        act_return (done, False))))
       (fail_controller_run E now done)"

definition controller_attempt ::
  "runtime \<Rightarrow> 'x controller_env \<Rightarrow> controller_policy \<Rightarrow> str \<Rightarrow> instant \<Rightarrow> controller_run \<Rightarrow>
     ('x, controller_run \<times> bool) world_step" where
  "controller_attempt R E p rootId now running =
     act_bind (act_catch
         (act_bind (controller_work R E p rootId now running) (\<lambda>x. act_return (Inr x)))
         (\<lambda>e. act_return (Inl e))) (\<lambda>result.
     (case result of
        Inl e \<Rightarrow> fail_controller_run E now running e
      | Inr (finished, scan) \<Rightarrow> finish_controller_run E rootId now finished scan))"

definition controller_body ::
  "runtime \<Rightarrow> 'x controller_env \<Rightarrow> controller_policy \<Rightarrow> str \<Rightarrow> controller_trigger \<Rightarrow> instant \<Rightarrow>
     ('x, controller_run \<times> bool) world_step" where
  "controller_body R E p rootId t now =
     act_bind (act_read (\<lambda>w. find_run_by_key R (controller_key R rootId t) (cw_store w))) (\<lambda>existing.
     if (case existing of None \<Rightarrow> False | Some x \<Rightarrow> is_terminal_status (cr_status x))
     then act_return (the existing, True)
     else
       (let running = started_run R p rootId t existing now
        in act_bind (in_controller (save_controller_run running)) (\<lambda>_.
           if \<not> cp_enabled p then act_return (running, False) else controller_attempt R E p rootId now running)))"

text \<open>The policy override \<open>ov\<close> merges the fields a caller passes into the stored (or default) policy.\<close>

definition run_loop_controller ::
  "runtime \<Rightarrow> 'x controller_env \<Rightarrow> (controller_policy \<Rightarrow> controller_policy) \<Rightarrow> trigger_input \<Rightarrow> instant \<Rightarrow>
     ('x, controller_run \<times> bool) world_step" where
  "run_loop_controller R E ov i now =
     act_bind (act_lift (case cv_root E of Inl m \<Rightarrow> Inl (OutsideError m) | Inr k \<Rightarrow> Inr k)) (\<lambda>rootId.
     act_bind (act_read (\<lambda>w. read_policy (cw_store w))) (\<lambda>saved.
     let p = ov (opt_or saved default_policy)
     in act_bind (act_lift (require (policy_ok p) CtrSchemaError)) (\<lambda>_.
        act_bind (if (case saved of None \<Rightarrow> True
              | Some q \<Rightarrow> content_hash R (Some (policy_json q)) \<noteq> content_hash R (Some (policy_json p)))
            then in_controller (save_policy p) else act_return ()) (\<lambda>_.
        act_bind (act_lift (normalize_controller_trigger R i now)) (\<lambda>t.
        controller_body R E p rootId t now)))))"

subsection \<open>The scheduler\<close>

record scheduler_input =
  sh_limit :: "int option"
  sh_max_attempts :: "int option"
  sh_lease_seconds :: "int option"

record scheduler_item =
  si_record :: str
  si_trigger :: str
  si_status :: trigger_status
  si_run :: "str option"
  si_duplicate :: "bool option"
  si_error :: "str option"

record scheduler_result =
  sr_claimed :: nat
  sr_completed :: nat
  sr_failed :: nat
  sr_items :: "scheduler_item list"

definition bounded_integer :: "int \<Rightarrow> nat \<Rightarrow> nat \<Rightarrow> str \<Rightarrow> controller_error + nat" where
  "bounded_integer v lo hi label =
     (if v < int lo \<or> v > int hi then Inl (SchedulerBound label lo hi) else Inr (nat v))"

definition input_of_trigger :: "controller_trigger \<Rightarrow> trigger_input" where
  "input_of_trigger t =
     \<lparr>tgi_type = Some (tg_type t), tgi_id = Some (tg_id t), tgi_occurred_at = Some (tg_occurred_at t),
      tgi_source = Some (tg_source t), tgi_requested_by = tg_requested_by t, tgi_evidence = Some (tg_evidence t)\<rparr>"

definition settled_record :: "controller_run \<Rightarrow> instant \<Rightarrow> trigger_record \<Rightarrow> trigger_record" where
  "settled_record run now r =
     (let failed = (cr_status run = CtrFailed); message = js_join ''; '' (map cre_message (cr_errors run))
      in r\<lparr>tr_rec_status := (if failed then TrFailed else TrCompleted), tr_rec_run := Some (cr_id run),
           tr_rec_error := (if failed then Some (if message = [] then ''Controller run failed'' else message) else None),
           tr_rec_updated := now, tr_rec_lease := None, tr_rec_expires := None,
           tr_rec_completed := (if failed then tr_rec_completed r else Some now)\<rparr>)"

definition failed_record :: "str \<Rightarrow> instant \<Rightarrow> trigger_record \<Rightarrow> trigger_record" where
  "failed_record message now r =
     r\<lparr>tr_rec_status := TrFailed, tr_rec_error := Some message, tr_rec_updated := now,
       tr_rec_lease := None, tr_rec_expires := None\<rparr>"

definition finish_trigger ::
  "instant \<Rightarrow> trigger_record \<Rightarrow> str \<Rightarrow> controller_run \<Rightarrow> bool \<Rightarrow> ('x, scheduler_item) world_step" where
  "finish_trigger now r lease run duplicate =
     (let settled = settled_record run now r
      in act_bind (act_lift (require (trigger_record_ok settled) CtrSchemaError)) (\<lambda>_.
         act_bind (in_controller (settle_trigger settled lease)) (\<lambda>_.
         act_return \<lparr>si_record = tr_rec_id settled, si_trigger = tg_id (tr_rec_trigger settled),
           si_status = tr_rec_status settled, si_run = Some (cr_id run), si_duplicate = Some duplicate,
           si_error = tr_rec_error settled\<rparr>)))"

definition fail_trigger ::
  "'x controller_env \<Rightarrow> instant \<Rightarrow> trigger_record \<Rightarrow> str \<Rightarrow> controller_error \<Rightarrow> ('x, scheduler_item) world_step" where
  "fail_trigger E now r lease e =
     (let failed = failed_record (error_message E e) now r
      in act_bind (act_lift (require (trigger_record_ok failed) CtrSchemaError)) (\<lambda>_.
         act_bind (in_controller (settle_trigger failed lease)) (\<lambda>_.
         act_return \<lparr>si_record = tr_rec_id failed, si_trigger = tg_id (tr_rec_trigger failed), si_status = TrFailed,
           si_run = None, si_duplicate = None, si_error = Some (error_message E e)\<rparr>)))"

definition schedule_trigger ::
  "runtime \<Rightarrow> 'x controller_env \<Rightarrow> instant \<Rightarrow> trigger_record \<Rightarrow> ('x, scheduler_item) world_step" where
  "schedule_trigger R E now r =
     (if \<not> truthy_str (tr_rec_lease r) then act_throw (TriggerWithoutLease (tr_rec_id r))
      else act_catch
        (act_bind (run_loop_controller R E (\<lambda>p. p) (input_of_trigger (tr_rec_trigger r)) now)
          (\<lambda>(run, duplicate). finish_trigger now r (the (tr_rec_lease r)) run duplicate))
        (fail_trigger E now r (the (tr_rec_lease r))))"

definition run_loop_controller_scheduler ::
  "runtime \<Rightarrow> 'x controller_env \<Rightarrow> scheduler_input \<Rightarrow> (nat \<Rightarrow> str) \<Rightarrow> instant \<Rightarrow> ('x, scheduler_result) world_step" where
  "run_loop_controller_scheduler R E i uuids now =
     act_bind (act_lift (bounded_integer (opt_or (sh_limit i) 20) 1 100 ''Controller scheduler limit'')) (\<lambda>limit.
     act_bind (act_lift (bounded_integer (opt_or (sh_max_attempts i) 3) 1 20 ''Controller scheduler max attempts'')) (\<lambda>attempts.
     act_bind (act_lift (bounded_integer (opt_or (sh_lease_seconds i) 300) 30 3600 ''Controller trigger lease seconds'')) (\<lambda>seconds.
     act_bind (in_controller (claim_triggers R \<lparr>tcl_limit = limit, tcl_max_attempts = attempts, tcl_lease_seconds = seconds,
        tcl_now = now, tcl_uuids = uuids\<rparr>)) (\<lambda>claimed.
     act_bind (act_each (schedule_trigger R E now) claimed) (\<lambda>items.
     act_return \<lparr>sr_claimed = length claimed,
       sr_completed = length (filter (\<lambda>x. si_status x = TrCompleted) items),
       sr_failed = length (filter (\<lambda>x. si_status x = TrFailed) items), sr_items = items\<rparr>)))))"

end
