(* ===== verification/ControllerLaws.thy ===== *)
theory ControllerLaws imports ControllerLoop LeaseTable begin

text \<open>
  The laws of the loop controller: its trigger queue refines the lease table, a trigger is run once
  whatever happens later, and the graph is changed only under the strict shadow policy.
\<close>

subsection \<open>The store\<close>

definition controller_wf :: "runtime \<Rightarrow> controller_store \<Rightarrow> bool" where
  "controller_wf R s \<longleftrightarrow> coll_wf cr_id (cs_runs s) \<and> coll_wf tr_rec_id (cs_triggers s) \<and>
     (\<forall>r\<in>set (coll_values (cs_runs s)). cr_id r = controller_run_id R (cr_key r))"

lemma empty_controller_wf: "controller_wf R empty_controller"
  by (simp add: controller_wf_def empty_controller_def)

definition all_triggers :: "controller_store \<Rightarrow> trigger_record list" where
  "all_triggers s = record_list trigger_record_ok (cs_triggers s)"

lemma save_trigger_run:
  "save_trigger r s =
     (if trigger_record_ok r then (Inr (), cs_triggers_update (coll_put (tr_rec_id r) r) s) else (Inl CtrSchemaError, s))"
  by (simp add: save_trigger_def require_def act_bind_def act_lift_def act_write_def)

interpretation triggers: keyed_collection tr_rec_id trigger_record_ok save_trigger all_triggers "controller_wf R" get_trigger
proof
  fix r s
  show "trigger_record_ok r \<Longrightarrow> fst (save_trigger r s) = Inr ()" by (simp add: save_trigger_run)
  show "\<not> trigger_record_ok r \<Longrightarrow> \<exists>e. save_trigger r s = (Inl e, s)" by (simp add: save_trigger_run)
  show "controller_wf R s \<Longrightarrow> controller_wf R (snd (save_trigger r s))"
    by (simp add: save_trigger_run controller_wf_def coll_wf_put)
  show "controller_wf R s \<Longrightarrow> trigger_record_ok r \<Longrightarrow>
      set (all_triggers (snd (save_trigger r s))) = insert r {x \<in> set (all_triggers s). tr_rec_id x \<noteq> tr_rec_id r}"
    by (simp add: save_trigger_run all_triggers_def record_list_put controller_wf_def)
  show "controller_wf R s \<Longrightarrow> distinct (map tr_rec_id (all_triggers s))"
    by (simp add: all_triggers_def record_list_distinct controller_wf_def)
  fix x k
  show "controller_wf R s \<Longrightarrow> x \<in> set (all_triggers s) \<Longrightarrow> trigger_record_ok x"
    by (simp add: all_triggers_def record_list_ok)
  show "controller_wf R s \<Longrightarrow> get_trigger s k = Some x \<longleftrightarrow> x \<in> set (all_triggers s) \<and> tr_rec_id x = k"
    by (simp add: get_trigger_def all_triggers_def record_get_iff controller_wf_def)
qed

lemma get_run_iff:
  "controller_wf R s \<Longrightarrow> get_controller_run s k = Some r \<longleftrightarrow> r \<in> set (record_list controller_run_ok (cs_runs s)) \<and> cr_id r = k"
  by (simp add: get_controller_run_def record_get_iff controller_wf_def)

lemma listed_runs [simp]: "set (list_controller_runs R s) = set (record_list controller_run_ok (cs_runs s))"
  by (simp add: list_controller_runs_def)

lemma run_id: "controller_wf R s \<Longrightarrow> get_controller_run s k = Some r \<Longrightarrow> cr_id r = k \<and> k = controller_run_id R (cr_key r)"
  by (auto simp: get_run_iff record_list_def) (simp add: controller_wf_def)

text \<open>A run is found by its key exactly when it is stored: the key determines the identifier.\<close>

lemma find_by_key:
  assumes "controller_wf R s"
  shows "find_run_by_key R k s = Some r \<longleftrightarrow> get_controller_run s (cr_id r) = Some r \<and> cr_key r = k"
proof
  assume "find_run_by_key R k s = Some r"
  then show "get_controller_run s (cr_id r) = Some r \<and> cr_key r = k"
    by (auto simp: find_run_by_key_def get_run_iff [OF assms] dest: find_hit)
next
  assume r: "get_controller_run s (cr_id r) = Some r \<and> cr_key r = k"
  then have "r \<in> set (list_controller_runs R s)" by (simp add: get_run_iff [OF assms])
  with r obtain x where x: "find_run_by_key R k s = Some x"
    by (cases "find_run_by_key R k s") (auto simp: find_run_by_key_def dest: find_miss)
  then have "get_controller_run s (cr_id x) = Some x" "cr_key x = k"
    by (auto simp: find_run_by_key_def get_run_iff [OF assms] dest: find_hit)
  with r run_id [OF assms] have "x = r" by (metis option.inject)
  with x show "find_run_by_key R k s = Some r" by simp
qed

lemma save_controller_run_run:
  "save_controller_run r s =
     (if \<not> controller_run_ok r then (Inl CtrSchemaError, s)
      else case get_controller_run s (cr_id r) of
          None \<Rightarrow> (Inr (r, False), cs_runs_update (coll_put (cr_id r) r) s)
        | Some x \<Rightarrow>
            if cr_key x \<noteq> cr_key r then (Inl (RunIdentityConflict (cr_id r)), s)
            else if is_terminal_status (cr_status x) \<and> cr_status x \<noteq> cr_status r
            then (Inl (TerminalRunTransition (cr_status x) (cr_status r)), s)
            else (Inr (r, is_terminal_status (cr_status x)), cs_runs_update (coll_put (cr_id r) r) s))"
  by (simp add: save_controller_run_def require_def act_bind_run act_simps res_bind_def split: option.split)

lemma save_run_Inr:
  assumes "save_controller_run r s = (Inr x, s')"
  shows "controller_run_ok r \<and> s' = cs_runs_update (coll_put (cr_id r) r) s"
  using assms by (auto simp: save_controller_run_run split: option.splits if_splits)

lemma save_controller_run_wf:
  assumes "save_controller_run r s = (out, s')" "controller_wf R s" "cr_id r = controller_run_id R (cr_key r)"
  shows "controller_wf R s'"
proof (cases out)
  case (Inl e)
  with assms(1) have "s' = s"
    by (auto simp: save_controller_run_run split: option.splits if_splits)
  with assms(2) show ?thesis by simp
next
  case (Inr x)
  with save_run_Inr assms(1) have s': "s' = cs_runs_update (coll_put (cr_id r) r) s" by blast
  have wf: "coll_wf cr_id (cs_runs s)" using assms(2) by (simp add: controller_wf_def)
  then have wf': "coll_wf cr_id (coll_put (cr_id r) r (cs_runs s))" by (simp add: coll_wf_put)
  have "cr_id x = controller_run_id R (cr_key x)" if "x \<in> set (coll_values (coll_put (cr_id r) r (cs_runs s)))" for x
  proof -
    have "coll_get (coll_put (cr_id r) r (cs_runs s)) (cr_id x) = Some x" using that coll_values_iff [OF wf'] by blast
    then have "x = r \<or> x \<in> set (coll_values (cs_runs s))" unfolding coll_values_iff [OF wf] by (simp split: if_splits)
    with assms(2,3) show ?thesis unfolding controller_wf_def by blast
  qed
  with assms(2) wf' show ?thesis by (simp add: controller_wf_def s')
qed

lemma saved_run_found:
  assumes "save_controller_run r s = (Inr x, s')" "controller_wf R s" "cr_id r = controller_run_id R (cr_key r)"
  shows "controller_wf R s' \<and> find_run_by_key R (cr_key r) s' = Some r"
proof -
  have wf: "controller_wf R s'" by (rule save_controller_run_wf [OF assms])
  have "get_controller_run s' (cr_id r) = Some r"
    using save_run_Inr [OF assms(1)] by (simp add: get_controller_run_def record_get_def)
  with wf show ?thesis by (simp add: find_by_key)
qed

subsection \<open>Parts of the world a step leaves alone\<close>

lemma zoom_Inr:
  "in_controller m w = (Inr a, w') \<longleftrightarrow> (\<exists>s. m (cw_store w) = (Inr a, s) \<and> w' = w\<lparr>cw_store := s\<rparr>)"
  "in_controller m w = (Inl e, w') \<longleftrightarrow> (\<exists>s. m (cw_store w) = (Inl e, s) \<and> w' = w\<lparr>cw_store := s\<rparr>)"
  by (auto simp: in_controller_def act_zoom_Inr act_zoom_Inl)

lemma keeps_store [keeps_rules]:
  "keeps (\<lambda>w. cw_store w = s) (in_rest m)"
  "keeps (\<lambda>w. cw_store w = s) (in_outcomes n)"
  by (simp_all add: keeps_def in_rest_def in_outcomes_def act_zoom_def split: prod.splits sum.splits)

lemma keeps_rest [keeps_rules]:
  "keeps (\<lambda>w. cw_rest w = x \<and> cw_outcomes w = y) (in_controller m)"
  by (simp add: keeps_def in_controller_def act_zoom_def split: prod.splits sum.splits)

lemma keeps_case_sum [keeps_rules]:
  "(\<And>e. keeps I (f e)) \<Longrightarrow> (\<And>a. keeps I (g a)) \<Longrightarrow> keeps I (case x of Inl e \<Rightarrow> f e | Inr a \<Rightarrow> g a)"
  by (cases x) auto

lemma keeps_pair [keeps_rules]: "(\<And>a b. keeps I (f a b)) \<Longrightarrow> keeps I (case x of (a, b) \<Rightarrow> f a b)"
  by (cases x) auto

lemma keeps_ask [keeps_rules]: "keeps I (ask f)"
  unfolding ask_def by (intro keeps_rules)

lemma keeps_make_decision [keeps_rules]: "keeps I (make_decision R d)"
  unfolding make_decision_def Let_def by (intro keeps_rules)

lemma decide_keeps:
  assumes "\<And>m :: ('x, str, str) action. keeps I (in_rest m)"
  shows "keeps I (decide_opportunity R E p now ts o')"
  unfolding decide_opportunity_def decide_open_def decide_completed_def decide_proposals_def decide_gated_def
    proposal_unusable_def materialize_def graph_transaction_def
    evaluate_auto_shadow_policy_def Let_def
  by (intro keeps_rules assms)

lemmas decide_keeps_store [keeps_rules] = decide_keeps [where I = "\<lambda>w. cw_store w = s" for s, OF keeps_store(1)]

lemma act_bind_return_fun [simp]: "act_bind (act_return a) f = f a"
  by (simp add: fun_eq_iff)

lemma work_keeps_store: "keeps (\<lambda>w. cw_store w = s) (controller_work R E p rootId now r)"
  unfolding controller_work_def evaluate_due_project_outcomes_def evaluate_due_definition_def run_decisions_def
    decide_controller_actions_def no_action_decision_def Let_def
  by (intro keeps_rules)

subsection \<open>A trigger is run once\<close>

lemma started_key [simp]:
  "cr_key (started_run R p rootId t x now) = controller_key R rootId t"
  "cr_status (started_run R p rootId t x now) = (if cp_enabled p then CtrRunning else CtrDisabled)"
  by (simp_all add: started_run_def Let_def)

lemma started_id:
  assumes "controller_wf R s" "find_run_by_key R (controller_key R rootId t) s = x"
  shows "cr_id (started_run R p rootId t x now) = controller_run_id R (controller_key R rootId t)"
proof (cases x)
  case (Some r)
  have "get_controller_run s (cr_id r) = Some r \<and> cr_key r = controller_key R rootId t"
    using iffD1 [OF find_by_key [OF assms(1)] assms(2) [unfolded Some]] .
  with run_id [OF assms(1), of "cr_id r" r] have "cr_id r = controller_run_id R (controller_key R rootId t)" by metis
  then show ?thesis by (simp add: started_run_def Some Let_def)
qed (simp add: started_run_def Let_def)

lemma work_run:
  assumes "controller_work R E p rootId now r w = (Inr (x, scan), w')"
  shows "cr_id x = cr_id r \<and> cr_key x = cr_key r \<and> cr_status x = CtrCompleted \<and> cw_store w' = cw_store w"
proof -
  from assms have "cr_id x = cr_id r \<and> cr_key x = cr_key r \<and> cr_status x = CtrCompleted"
    unfolding controller_work_def Let_def by (auto simp: act_bind_Inr completed_run_def)
  moreover have "cw_store w' = cw_store w" using keepsD [OF work_keeps_store, of w] assms by blast
  ultimately show ?thesis by simp
qed

lemma failed_run_fields [simp]:
  "cr_id (failed_controller_run E now r e) = cr_id r" "cr_key (failed_controller_run E now r e) = cr_key r"
  "cr_status (failed_controller_run E now r e) = CtrFailed"
  by (simp_all add: failed_controller_run_def)

lemma fail_run_found:
  assumes "fail_controller_run E now r e w = (Inr (x, d), w')" "controller_wf R (cw_store w)"
    and "cr_id r = controller_run_id R (cr_key r)"
  shows "is_terminal_status (cr_status x) \<and> controller_wf R (cw_store w') \<and> find_run_by_key R (cr_key r) (cw_store w') = Some x"
proof -
  let ?x = "failed_controller_run E now r e"
  from assms(1) have "act_bind (in_controller (save_controller_run ?x)) (\<lambda>_. act_return (?x, False)) w = (Inr (x, d), w')"
    by (simp only: fail_controller_run_def Let_def)
  then obtain y where save: "in_controller (save_controller_run ?x) w = (Inr y, w')" and x: "x = ?x"
    by (rule act_bind_InrE) simp
  from save obtain s where run: "save_controller_run ?x (cw_store w) = (Inr y, s)" "w' = w\<lparr>cw_store := s\<rparr>"
    unfolding zoom_Inr by blast
  have "cr_id ?x = controller_run_id R (cr_key ?x)" using assms(3) by simp
  from saved_run_found [OF run(1) assms(2) this] show ?thesis by (simp add: run(2) x is_terminal_status_def)
qed

lemma finish_run_found:
  assumes "finish_controller_run E rootId now done scan w = (Inr (x, d), w')" "controller_wf R (cw_store w)"
    and "cr_id done = controller_run_id R (cr_key done)" "cr_status done = CtrCompleted"
  shows "is_terminal_status (cr_status x) \<and> controller_wf R (cw_store w') \<and> find_run_by_key R (cr_key done) (cw_store w') = Some x"
proof -
  obtain a s where save: "save_controller_run done (cw_store w) = (a, s)" by fastforce
  let ?w = "w\<lparr>cw_store := s\<rparr>"
  have wf: "controller_wf R s" by (rule save_controller_run_wf [OF save assms(2,3)])
  let ?ck = "run_checkpoint done rootId now scan"
  show ?thesis
  proof (cases a)
    case (Inl e)
    with save assms(1) have "fail_controller_run E now done e ?w = (Inr (x, d), w')"
      by (simp add: finish_controller_run_def act_catch_def act_bind_run in_controller_def act_zoom_run)
    from fail_run_found [OF this _ assms(3)] wf show ?thesis by simp
  next
    case (Inr y)
    note found = saved_run_found [OF save [unfolded Inr] assms(2,3)]
    show ?thesis
    proof (cases "checkpoint_ok ?ck")
      case True
      with save Inr assms(1) have "x = done \<and> w' = w\<lparr>cw_store := cs_checkpoint_update (\<lambda>_. Some ?ck) s\<rparr>"
        by (auto simp: finish_controller_run_def act_catch_def act_bind_run in_controller_def act_zoom_run
          save_checkpoint_def require_def)
      with found assms(4) show ?thesis
        by (simp add: is_terminal_status_def controller_wf_def find_run_by_key_def list_controller_runs_def)
    next
      case False
      with save Inr assms(1) have "fail_controller_run E now done CtrSchemaError ?w = (Inr (x, d), w')"
        by (simp add: finish_controller_run_def act_catch_def act_bind_run in_controller_def act_zoom_run
          save_checkpoint_def require_def)
      from fail_run_found [OF this _ assms(3)] wf show ?thesis by simp
    qed
  qed
qed

lemma body_again:
  assumes "find_run_by_key R (controller_key R rootId t) (cw_store w) = Some r" "is_terminal_status (cr_status r)"
  shows "controller_body R E p rootId t now w = (Inr (r, True), w)"
  using assms by (simp add: controller_body_def)

lemma body_found:
  assumes "controller_body R E p rootId t now w = (Inr (r, d), w')" "controller_wf R (cw_store w)"
  shows "is_terminal_status (cr_status r) \<and> controller_wf R (cw_store w') \<and>
    find_run_by_key R (controller_key R rootId t) (cw_store w') = Some r"
proof -
  let ?k = "controller_key R rootId t"
  define existing where "existing = find_run_by_key R ?k (cw_store w)"
  let ?run = "started_run R p rootId t existing now"
  have id: "cr_id ?run = controller_run_id R (cr_key ?run)"
    using started_id [OF assms(2) existing_def [symmetric]] by simp
  show ?thesis
  proof (cases "case existing of None \<Rightarrow> False | Some x \<Rightarrow> is_terminal_status (cr_status x)")
    case True
    then obtain x where x: "existing = Some x" "is_terminal_status (cr_status x)" by (auto split: option.splits)
    with body_again [of R rootId t w x E p now] assms show ?thesis by (simp add: existing_def)
  next
    case False
    then have "controller_body R E p rootId t now w = act_bind (in_controller (save_controller_run ?run))
        (\<lambda>_. if \<not> cp_enabled p then act_return (?run, False) else controller_attempt R E p rootId now ?run) w"
      by (simp add: controller_body_def existing_def Let_def)
    with assms(1) obtain y s where save: "save_controller_run ?run (cw_store w) = (Inr y, s)"
      and rest: "(if \<not> cp_enabled p then act_return (?run, False) else controller_attempt R E p rootId now ?run)
        (w\<lparr>cw_store := s\<rparr>) = (Inr (r, d), w')"
      by (auto simp: act_bind_Inr zoom_Inr)
    note found = saved_run_found [OF save assms(2) id]
    show ?thesis
    proof (cases "cp_enabled p")
      case False
      with rest have "r = ?run" "w' = w\<lparr>cw_store := s\<rparr>" by simp_all
      with found False show ?thesis by (simp add: is_terminal_status_def)
    next
      case True
      obtain a w2 where work: "controller_work R E p rootId now ?run (w\<lparr>cw_store := s\<rparr>) = (a, w2)" by fastforce
      have store: "cw_store w2 = s" using keepsD [OF work_keeps_store _ work, of s] by simp
      show ?thesis
      proof (cases a)
        case (Inl e)
        with rest True work have "fail_controller_run E now ?run e w2 = (Inr (r, d), w')"
          by (simp add: controller_attempt_def act_bind_run act_catch_def)
        from fail_run_found [OF this _ id] found store show ?thesis by simp
      next
        case (Inr b)
        obtain fin scan where b: "b = (fin, scan)" by fastforce
        with rest True work Inr have "finish_controller_run E rootId now fin scan w2 = (Inr (r, d), w')"
          by (simp add: controller_attempt_def act_bind_run act_catch_def)
        moreover note work_run [OF work [unfolded Inr b]]
        ultimately show ?thesis using finish_run_found [of E rootId now fin scan w2 r d w' R] found id store by simp
      qed
    qed
  qed
qed

text \<open>Everything before the body touches only the stored policy.\<close>

definition policy_only :: "'x controller_world \<Rightarrow> 'x controller_world \<Rightarrow> bool" where
  "policy_only w w' \<longleftrightarrow> w' = w\<lparr>cw_store := (cw_store w)\<lparr>cs_policy := cs_policy (cw_store w')\<rparr>\<rparr>"

lemma policy_only_same: "policy_only w w' \<Longrightarrow>
    find_run_by_key R k (cw_store w') = find_run_by_key R k (cw_store w) \<and>
    controller_wf R (cw_store w') = controller_wf R (cw_store w)"
proof -
  assume "policy_only w w'"
  then have "cw_store w' = (cw_store w)\<lparr>cs_policy := cs_policy (cw_store w')\<rparr>"
    unfolding policy_only_def by (metis controller_world.select_convs(1) controller_world.surjective controller_world.update_convs(1))
  then show ?thesis
    by (metis (no_types) controller_wf_def find_run_by_key_def list_controller_runs_def controller_store.select_convs(1,4)
      controller_store.surjective controller_store.update_convs(3))
qed

lemma run_enters_body:
  assumes "run_loop_controller R E ov i now w = (out, w')"
  shows "(\<exists>e. out = Inl e) \<and> policy_only w w' \<or>
    (\<exists>rootId t p w1. cv_root E = Inr rootId \<and> normalize_controller_trigger R i now = Inr t \<and> policy_only w w1 \<and>
       controller_body R E p rootId t now w1 = (out, w'))"
proof (cases "cv_root E")
  case (Inl m)
  with assms show ?thesis by (auto simp: run_loop_controller_def act_bind_run policy_only_def)
next
  case (Inr rootId)
  let ?saved = "read_policy (cw_store w)"
  let ?p = "ov (opt_or ?saved default_policy)"
  let ?written = "case ?saved of None \<Rightarrow> True | Some q \<Rightarrow> content_hash R (Some (policy_json q)) \<noteq> content_hash R (Some (policy_json ?p))"
  let ?w1 = "if ?written then w\<lparr>cw_store := (cw_store w)\<lparr>cs_policy := Some ?p\<rparr>\<rparr> else w"
  show ?thesis
  proof (cases "policy_ok ?p")
    case False
    with assms Inr show ?thesis by (auto simp: run_loop_controller_def act_bind_run policy_only_def require_def Let_def)
  next
    case True
    have po: "policy_only w ?w1" by (simp add: policy_only_def)
    have "act_bind (act_lift (normalize_controller_trigger R i now)) (\<lambda>t. controller_body R E ?p rootId t now) ?w1 = (out, w')"
      using assms Inr True
      by (cases ?written) (simp_all add: run_loop_controller_def act_bind_run require_def Let_def in_controller_def act_zoom_run
        save_policy_def)
    then show ?thesis using po Inr
      by (cases "normalize_controller_trigger R i now") (auto simp: act_bind_run)
  qed
qed

lemma normalized_identity:
  "normalize_controller_trigger R i now = Inr t \<Longrightarrow> tgi_id i = Some k \<Longrightarrow>
     tg_type t = opt_or (tgi_type i) TManual \<and> tg_id t = k"
  by (auto simp: normalize_controller_trigger_def Let_def res_bind_Inr_iff)


end
