(* ===== verification/ShadowPolicy.thy ===== *)
theory ShadowPolicy imports ControllerLaws begin

text \<open>
  When the controller changes the graph on its own: the declarative reading of the ten rules of
  \<open>evaluateAutoShadowPolicy\<close>, and the proof that \<open>decideControllerActions\<close> changes nothing
  outside unless they all hold.
\<close>

subsection \<open>The rules\<close>

definition shadow_safe ::
  "controller_policy \<Rightarrow> loop_opportunity \<Rightarrow> design_proposal list \<Rightarrow> change_operation list option \<Rightarrow> str list \<Rightarrow> bool" where
  "shadow_safe p o' proposals changes ready \<longleftrightarrow>
     cp_auto_shadow p \<and> cp_shadow p \<le> op_score o' \<and> op_department o' \<notin> set (cp_blocked p) \<and>
     (\<exists>cs. changes = Some cs \<and> set cs \<subseteq> set (cp_operations p)) \<and>
     (\<forall>s\<in>set (op_signals o'). severity_rank (sg_severity s) \<le> severity_rank (cp_max_severity p)) \<and>
     proposals \<noteq> [] \<and>
     (\<forall>q\<in>set proposals. dp_stage q = Shadow \<and> dp_activation q = Shadow \<and>
        (\<forall>a\<in>set (dp_actions q). da_risk a = RiskLow \<and> \<not> da_requires_approval a \<and> \<not> da_customer_facing a) \<and>
        (cp_no_questions p \<longrightarrow> dp_questions q = []) \<and>
        (cp_no_user_items p \<longrightarrow> set (dp_user_items q) \<inter> {NeedsApproval, NeedsPolicy, NeedsOwner} = {}) \<and>
        (cp_connections_ready p \<longrightarrow>
           (\<forall>(c, u)\<in>set (dp_connectors q). u \<in> {UsedInRouting, UsedInSimulation} \<longrightarrow> c \<in> set ready)))"

interpretation severest_first: comparator "\<lambda>a b. int (severity_rank b) - int (severity_rank a)"
  by unfold_locales auto

lemma maximum_severity_le:
  "severity_rank (maximum_signal_severity o') \<le> n \<longleftrightarrow> (\<forall>s\<in>set (op_signals o'). severity_rank (sg_severity s) \<le> n)"
proof -
  let ?sorted = "js_sort (\<lambda>a b. int (severity_rank b) - int (severity_rank a)) (map sg_severity (op_signals o'))"
  have elements: "set ?sorted = sg_severity ` set (op_signals o')" by simp
  show ?thesis
  proof (cases ?sorted)
    case Nil
    with elements have "op_signals o' = []" by simp
    then show ?thesis by (simp add: maximum_signal_severity_def severity_rank_def)
  next
    case (Cons s rest)
    have "sorted_wrt (\<lambda>a b. int (severity_rank b) - int (severity_rank a) \<le> 0) (s # rest)"
      using severest_first.sorted_sort [of "map sg_severity (op_signals o')"] unfolding Cons .
    then have "\<forall>x\<in>set ?sorted. severity_rank x \<le> severity_rank s" unfolding Cons by auto
    with elements Cons have "\<forall>x\<in>set (op_signals o'). severity_rank (sg_severity x) \<le> severity_rank s"
      "s \<in> sg_severity ` set (op_signals o')" by (auto simp del: set_js_sort)
    moreover have "maximum_signal_severity o' = s" by (simp only: maximum_signal_severity_def Cons list.case)
    ultimately show ?thesis by (auto intro: le_trans)
  qed
qed

text \<open>
  C7: the ten rules are the strict policy. The verdict on an opportunity is passed exactly when automatic
  materialization is on, the score reaches its threshold, the department is not blocked, a change set
  of allowed operations exists, no signal is more severe than allowed, and all (at least one)
  proposals stay in shadow mode with low-risk internal actions that need no approval, no open question, no
  accountable user item and no missing connection, the last three as far as the policy asks for them.
\<close>

theorem auto_shadow_policy_iff:
  "pv_passed (verdict_of (shadow_rules R p o' proposals changes ready)) \<longleftrightarrow> shadow_safe p o' proposals changes ready"
proof -
  have missing: "missing_capabilities proposals ready = [] \<longleftrightarrow>
      (\<forall>q\<in>set proposals. \<forall>(c, u)\<in>set (dp_connectors q). u \<in> {UsedInRouting, UsedInSimulation} \<longrightarrow> c \<in> set ready)"
    by (auto simp: missing_capabilities_def filter_empty_conv)
  have sensitive: "sensitive_items proposals = [] \<longleftrightarrow>
      (\<forall>q\<in>set proposals. set (dp_user_items q) \<inter> {NeedsApproval, NeedsPolicy, NeedsOwner} = {})"
    by (auto simp: sensitive_items_def filter_empty_conv)
  show ?thesis
    unfolding verdict_of_def shadow_rules_def Let_def policy_rule_of_def shadow_safe_def
    by (auto simp: maximum_severity_le missing sensitive list_all_iff split: option.splits)
qed

subsection \<open>Decisions\<close>

text \<open>What must hold of an opportunity and the state outside before the graph may be changed for it.\<close>

definition may_materialize :: "'x controller_env \<Rightarrow> controller_policy \<Rightarrow> loop_opportunity \<Rightarrow> 'x \<Rightarrow> bool" where
  "may_materialize E p o' x \<longleftrightarrow>
     cv_materialize E \<and> op_status o' \<notin> {OpDismissed, OpImplemented} \<and> op_kind o' \<noteq> RetireLoop \<and>
     cp_qualify p \<le> op_score o' \<and>
     (\<exists>k t s c changes ready.
        op_task o' = Some k \<and> cv_task E k x = Inr (Some t) \<and> dt_status t = DsCompleted \<and> dt_runs t \<noteq> [] \<and>
        cv_proposals E (last (dt_runs t)) x = Inr (Some s) \<and> ps_valid s \<and>
        op_change_set o' = Some c \<and> cv_changes E c x = Inr changes \<and> cv_capabilities E x = Inr ready \<and>
        shadow_safe p o' (ps_proposals s) changes ready)"

lemma make_decision_run:
  "make_decision R d w = (out, w') \<Longrightarrow>
     w' = w \<and> (\<forall>d'. out = Inr d' \<longrightarrow> dc_action d' = dc_action d \<and> dc_opportunity d' = dc_opportunity d)"
  by (auto simp: make_decision_def Let_def act_bind_run require_def split: if_splits)

lemma no_action_run:
  "no_action_decision R now reason refs w = (a, w') \<Longrightarrow> w' = w \<and> (\<forall>d. a = Inr d \<longrightarrow> dc_action d = DoNothing)"
  unfolding no_action_decision_def by (drule make_decision_run) simp

lemma ask_run: "ask f w = (case f (cw_rest w) of Inl m \<Rightarrow> (Inl (OutsideError m), w) | Inr a \<Rightarrow> (Inr a, w))"
  by (simp add: ask_def split: sum.split)

lemma base_fields [simp]:
  "dc_action (base_decision now o' a summary reason v) = a"
  "dc_opportunity (base_decision now o' a summary reason v) = Some (op_id o')"
  by (simp_all add: base_decision_def)

text \<open>What a step may do: nothing, or something the policy allows; decisions name their opportunity.\<close>

definition cautious :: "bool \<Rightarrow> loop_opportunity \<Rightarrow> ('x controller_world \<Rightarrow> (controller_error + controller_decision) \<times> 'x controller_world) \<Rightarrow>
    'x controller_world \<Rightarrow> bool" where
  "cautious allowed o' m w \<longleftrightarrow>
     (\<not> allowed \<longrightarrow> snd (m w) = w) \<and>
     (\<forall>d. fst (m w) = Inr d \<longrightarrow> dc_opportunity d = Some (op_id o') \<and> (dc_action d = ShadowMaterialize \<longrightarrow> allowed))"

lemma cautious_plain:
  assumes "dc_opportunity d = Some (op_id o')" "dc_action d \<noteq> ShadowMaterialize"
  shows "cautious allowed o' (make_decision R d) w"
  using make_decision_run [of R d w] assms by (auto simp: cautious_def) (metis prod.collapse)+

lemma cautious_base [intro]:
  "a \<noteq> ShadowMaterialize \<Longrightarrow> cautious allowed o' (make_decision R (base_decision now o' a s r v)) w"
  "a \<noteq> ShadowMaterialize \<Longrightarrow> cautious allowed o' (make_decision R ((base_decision now o' a s r v)\<lparr>dc_run := u\<rparr>)) w"
  by (rule cautious_plain; simp)+

lemma cautious_ask:
  assumes "\<And>a. f (cw_rest w) = Inr a \<Longrightarrow> cautious allowed o' (g a) w"
  shows "cautious allowed o' (act_bind (ask f) g) w"
  using assms by (cases "f (cw_rest w)") (simp_all add: cautious_def act_bind_run ask_run)

lemma cautious_allowed:
  assumes "allowed" "\<And>d w'. m w = (Inr d, w') \<Longrightarrow> dc_opportunity d = Some (op_id o')"
  shows "cautious allowed o' m w"
  using assms by (cases "m w") (auto simp: cautious_def)

lemma materialize_names:
  assumes "materialize R E p now o' run proposals gate w = (Inr d, w')"
  shows "dc_opportunity d = Some (op_id o')"
proof (cases "truthy_str (op_change_set o')")
  case False
  with assms show ?thesis by (auto simp: materialize_def dest!: make_decision_run)
next
  case True
  with assms show ?thesis
    by (auto simp: materialize_def act_bind_run split: sum.splits prod.splits dest!: make_decision_run)
qed

lemma materialize_cautious:
  assumes "truthy_str (op_change_set o') \<Longrightarrow> allowed"
  shows "cautious allowed o' (materialize R E p now o' run proposals gate) w"
proof (cases "truthy_str (op_change_set o')")
  case True
  with assms show ?thesis by (intro cautious_allowed) (auto dest: materialize_names)
next
  case False
  then show ?thesis by (auto simp: materialize_def)
qed

lemma gated_cautious:
  assumes "pv_passed gate \<Longrightarrow> truthy_str (op_change_set o') \<Longrightarrow> allowed"
  shows "cautious allowed o' (decide_gated R E p now o' run proposals gate) w"
proof (cases "pv_passed gate")
  case True
  with materialize_cautious [of o' allowed R E p now run proposals gate w] assms show ?thesis by (simp add: decide_gated_def)
qed (auto simp: decide_gated_def)

lemma proposals_cautious:
  assumes "\<And>c changes ready.
      ps_valid s \<Longrightarrow> cv_materialize E \<Longrightarrow> op_change_set o' = Some c \<Longrightarrow> cv_changes E c (cw_rest w) = Inr changes \<Longrightarrow>
      cv_capabilities E (cw_rest w) = Inr ready \<Longrightarrow> shadow_safe p o' (ps_proposals s) changes ready \<Longrightarrow> allowed"
  shows "cautious allowed o' (decide_proposals R E p now o' run s) w"
proof (cases "ps_valid s \<and> cv_materialize E")
  case False
  then show ?thesis by (auto simp: decide_proposals_def proposal_unusable_def)
next
  case True
  let ?gated = "\<lambda>changes ready. decide_gated R E p now o' run (ps_proposals s)
    (verdict_of (shadow_rules R p o' (ps_proposals s) changes ready))"
  have passed: "cautious allowed o' (act_bind (ask (cv_capabilities E)) (?gated changes)) w"
    if "\<And>c. op_change_set o' = Some c \<Longrightarrow> c \<noteq> [] \<Longrightarrow> cv_changes E c (cw_rest w) = Inr changes" for changes
    using assms that True by (intro cautious_ask gated_cautious) (cases "op_change_set o'"; auto simp: auto_shadow_policy_iff)
  show ?thesis
  proof (cases "truthy_str (op_change_set o')")
    case False
    then have "decide_proposals R E p now o' run s = act_bind (ask (cv_capabilities E)) (?gated None)"
      using True by (simp add: decide_proposals_def evaluate_auto_shadow_policy_def fun_eq_iff act_bind_run ask_run split: sum.split)
    with passed [of None] False show ?thesis by fastforce
  next
    case truthy: True
    then obtain c where c: "op_change_set o' = Some c" "c \<noteq> []" by (cases "op_change_set o'") auto
    have eq: "decide_proposals R E p now o' run s =
        act_bind (ask (cv_changes E c)) (\<lambda>changes. act_bind (ask (cv_capabilities E)) (?gated changes))"
      using True c by (simp add: decide_proposals_def evaluate_auto_shadow_policy_def fun_eq_iff act_bind_run ask_run split: sum.split)
    show ?thesis unfolding eq by (rule cautious_ask, rule passed) (simp add: c)
  qed
qed

lemma completed_cautious:
  assumes "\<And>s c changes ready.
      dt_runs t \<noteq> [] \<Longrightarrow> cv_proposals E (last (dt_runs t)) (cw_rest w) = Inr (Some s) \<Longrightarrow> ps_valid s \<Longrightarrow> cv_materialize E \<Longrightarrow>
      op_change_set o' = Some c \<Longrightarrow> cv_changes E c (cw_rest w) = Inr changes \<Longrightarrow> cv_capabilities E (cw_rest w) = Inr ready \<Longrightarrow>
      shadow_safe p o' (ps_proposals s) changes ready \<Longrightarrow> allowed"
  shows "cautious allowed o' (decide_completed R E p now o' t) w"
proof (cases "dt_runs t = [] \<or> last (dt_runs t) = []")
  case True
  then show ?thesis by (auto simp: decide_completed_def proposal_unusable_def)
next
  case False
  then have eq: "decide_completed R E p now o' t = act_bind (ask (cv_proposals E (last (dt_runs t))))
      (\<lambda>x. case x of Some s \<Rightarrow> decide_proposals R E p now o' (last (dt_runs t)) s | None \<Rightarrow> proposal_unusable R now o')"
    by (simp add: decide_completed_def)
  show ?thesis unfolding eq
  proof (rule cautious_ask)
    fix a
    assume "cv_proposals E (last (dt_runs t)) (cw_rest w) = Inr a"
    with assms False show "cautious allowed o' (case a of Some s \<Rightarrow> decide_proposals R E p now o' (last (dt_runs t)) s
        | None \<Rightarrow> proposal_unusable R now o') w"
      by (cases a) (auto simp: proposal_unusable_def intro!: proposals_cautious)
  qed
qed

lemma opportunity_cautious:
  "cautious (may_materialize E p o' (cw_rest w)) o' (decide_opportunity R E p now dispatched o') w"
proof (cases "op_status o' \<in> {OpDismissed, OpImplemented} \<or> op_kind o' = RetireLoop \<or> op_score o' < cp_qualify p")
  case True
  then show ?thesis by (auto simp: decide_opportunity_def)
next
  case False
  have opened: "cautious allowed o' (decide_open R p now dispatched o') w" for allowed
    by (auto simp: decide_open_def Let_def)
  show ?thesis
  proof (cases "truthy_str (op_task o')")
    case no_task: False
    with False opened show ?thesis by (simp add: decide_opportunity_def)
  next
    case True
    then obtain k where k: "op_task o' = Some k" by (cases "op_task o'") auto
    have "cautious (may_materialize E p o' (cw_rest w)) o'
        (case task of
           None \<Rightarrow> decide_open R p now dispatched o'
         | Some t \<Rightarrow>
             if dt_status t = DsNeedsInput then
               make_decision R (base_decision now o' RequestEvidence (''Hermes needs focused evidence for '' @ op_title o')
                 (nat_text (length (dt_gaps t)) @ '' blocking evidence gap(s) remain.'')
                 (refusal ''design-evidence-complete''
                   ''Hermes must collect the unresolved design evidence before a proposal can be materialized.''))
             else if dt_status t \<in> {DsQueued, DsAwaitingHermes, DsDesigning, DsNeedsRepair} then
               make_decision R (base_decision now o' (if dt_id t \<in> set dispatched then StartDesign else WaitForDesign)
                 (op_title o' @ '': Hermes design is '' @ design_status_text (dt_status t))
                 ''The durable Hermes task owns the next design step.'' plain_verdict)
             else if dt_status t = DsCompleted then decide_completed R E p now o' t
             else decide_open R p now dispatched o') w"
      if "cv_task E k (cw_rest w) = Inr task" for task
      using that False k opened
      by (cases task) (auto simp: may_materialize_def not_less intro!: completed_cautious)
    with True False k show ?thesis by (simp add: decide_opportunity_def cautious_ask)
  qed
qed

text \<open>
  C6: the controller changes the graph only under the strict policy. Deciding about the
  opportunities of a scan never touches the controller store or the outcomes, and touches the
  state outside only when for some opportunity, in some state on the way, automatic materialization is allowed,
  the opportunity is open, qualified and no retirement, its design task is completed with a valid
  proposal set and all rules of the policy hold; every decision to materialize is about such an
  opportunity.
\<close>

theorem graph_changes_only_under_policy:
  assumes "decide_controller_actions R E p now scan w = (out, w')"
  shows "cw_store w' = cw_store w \<and> cw_outcomes w' = cw_outcomes w \<and>
    (w' = w \<or> (\<exists>o'\<in>set (sc_opportunities scan). \<exists>x. may_materialize E p o' x)) \<and>
    (\<forall>ds d. out = Inr ds \<longrightarrow> d \<in> set ds \<longrightarrow> dc_action d = ShadowMaterialize \<longrightarrow>
       (\<exists>o'\<in>set (sc_opportunities scan). dc_opportunity d = Some (op_id o') \<and> (\<exists>x. may_materialize E p o' x)))"
proof -
  have rest: "keeps (\<lambda>w. cw_store w = s \<and> cw_outcomes w = y) (in_rest m)" for s y m
    by (simp add: keeps_def in_rest_def act_zoom_def split: prod.splits sum.splits)
  have keep: "keeps (\<lambda>w. cw_store w = s \<and> cw_outcomes w = y) (decide_controller_actions R E p now scan)" for s y
    unfolding decide_controller_actions_def no_action_decision_def by (intro keeps_rules decide_keeps [OF rest])
  have each: "(w' = w \<or> (\<exists>o'\<in>set os. \<exists>x. may_materialize E p o' x)) \<and>
      (\<forall>ds d. out = Inr ds \<longrightarrow> d \<in> set ds \<longrightarrow> dc_action d = ShadowMaterialize \<longrightarrow>
         (\<exists>o'\<in>set os. dc_opportunity d = Some (op_id o') \<and> (\<exists>x. may_materialize E p o' x)))"
    if "act_each (decide_opportunity R E p now (sc_dispatched scan)) os w = (out, w')" for os out w w'
    using that
  proof (induction os arbitrary: w out w')
    case (Cons o' os)
    obtain a w1 where first: "decide_opportunity R E p now (sc_dispatched scan) o' w = (a, w1)" by fastforce
    have one: "w1 = w \<or> may_materialize E p o' (cw_rest w)"
      "\<And>d. a = Inr d \<Longrightarrow> dc_opportunity d = Some (op_id o') \<and>
         (dc_action d = ShadowMaterialize \<longrightarrow> may_materialize E p o' (cw_rest w))"
      using opportunity_cautious [of E p o' w R now "sc_dispatched scan"] first by (auto simp: cautious_def)
    show ?case
    proof (cases a)
      case (Inl e)
      with Cons.prems first one(1) show ?thesis by (auto simp: act_bind_run)
    next
      case (Inr d)
      obtain b w2 where rest: "act_each (decide_opportunity R E p now (sc_dispatched scan)) os w1 = (b, w2)" by fastforce
      have "w' = w2" "\<And>ds. out = Inr ds \<Longrightarrow> \<exists>ds'. b = Inr ds' \<and> ds = d # ds'"
        using Cons.prems first Inr rest by (auto simp: act_bind_run split: sum.splits)
      with Cons.IH [OF rest] one Inr show ?thesis by fastforce
    qed
  qed simp
  show ?thesis
  proof (cases "sc_opportunities scan = []")
    case True
    obtain a w1 where dec: "no_action_decision R now ''No durable business signal currently qualifies as a loop opportunity.'' [] w = (a, w1)"
      by (meson surj_pair)
    have "decide_controller_actions R E p now scan w = (case a of Inl e \<Rightarrow> (Inl e, w1) | Inr d \<Rightarrow> (Inr [d], w1))"
      unfolding decide_controller_actions_def True by (simp only: if_True refl act_bind_run dec prod.case act_return_run)
    with assms have "w' = w1 \<and> (\<forall>ds. out = Inr ds \<longrightarrow> (\<exists>d. a = Inr d \<and> ds = [d]))"
      by (cases a) auto
    with no_action_run [OF dec] have "w' = w \<and> (\<forall>ds d. out = Inr ds \<longrightarrow> d \<in> set ds \<longrightarrow> dc_action d = DoNothing)" by auto
    then show ?thesis by auto
  next
    case False
    have "act_each (decide_opportunity R E p now (sc_dispatched scan)) (sc_opportunities scan) w = (out, w')"
      using assms False unfolding decide_controller_actions_def by (simp only: if_False)
    note each [OF this]
    moreover have "cw_store w' = cw_store w \<and> cw_outcomes w' = cw_outcomes w"
      by (rule keepsD [OF keep _ assms]) simp
    ultimately show ?thesis by blast
  qed
qed

end
