(* ===== verification/TriggerQueue.thy ===== *)
theory TriggerQueue imports ControllerLaws begin

text \<open>
  The laws of the trigger queue: what a claim takes, that the queue refines the lease table, and what
  becomes of a trigger whose run has failed.
\<close>

subsection \<open>Claims\<close>

lemma claimed_trigger_id [simp]: "tr_rec_id (claimed_trigger i n r) = tr_rec_id r"
  by (simp add: claimed_trigger_def)

lemma claimed_trigger_ok: "trigger_record_ok r \<Longrightarrow> uuid_ok (tcl_uuids i n) \<Longrightarrow> trigger_record_ok (claimed_trigger i n r)"
  by (simp add: trigger_record_ok_def claimed_trigger_def not_empty_def)

lemma listed_triggers [simp]: "set (list_triggers R None s) = set (all_triggers s)"
  by (simp add: list_triggers_def all_triggers_def)

lemma claim_candidates_set:
  assumes "controller_wf R s"
  shows "distinct (map tr_rec_id (claim_candidates R' i s))"
    "x \<in> set (claim_candidates R' i s) \<Longrightarrow> claimable_trigger i x \<and> get_trigger s (tr_rec_id x) = Some x"
proof -
  have "distinct (map tr_rec_id (filter (claimable_trigger i) (list_triggers R' None s)))"
    using triggers.all_distinct [OF assms] by (intro distinct_map_filter) (simp add: list_triggers_def all_triggers_def)
  then show "distinct (map tr_rec_id (claim_candidates R' i s))"
    by (simp add: claim_candidates_def take_map [symmetric])
  show "x \<in> set (claim_candidates R' i s) \<Longrightarrow> claimable_trigger i x \<and> get_trigger s (tr_rec_id x) = Some x"
    using triggers.get_iff [OF assms] by (auto simp: claim_candidates_def dest!: in_set_takeD)
qed

lemma claim_trigger_run:
  "claim_trigger i n r s =
     (if trigger_record_ok (claimed_trigger i n r)
      then (Inr (claimed_trigger i n r), cs_triggers_update (coll_put (tr_rec_id r) (claimed_trigger i n r)) s)
      else (Inl CtrSchemaError, s))"
  by (simp add: claim_trigger_def act_bind_run require_def save_trigger_run)

text \<open>The claim loop over numbered records.\<close>

lemma claim_triggers_loop:
  assumes "controller_wf R s" "\<forall>n. uuid_ok (tcl_uuids i n)"
    and "distinct (map tr_rec_id rs)" "\<forall>r\<in>set rs. trigger_record_ok r"
  shows "\<exists>s'. act_each (\<lambda>(n, r). claim_trigger i n r) (enumerate m rs) s =
      (Inr (map (\<lambda>(n, r). claimed_trigger i n r) (enumerate m rs)), s') \<and> controller_wf R s' \<and>
    (\<forall>n<length rs. get_trigger s' (tr_rec_id (rs ! n)) = Some (claimed_trigger i (m + n) (rs ! n))) \<and>
    (\<forall>k. k \<notin> tr_rec_id ` set rs \<longrightarrow> get_trigger s' k = get_trigger s k)"
  using assms(1,3,4)
proof (induction rs arbitrary: s m)
  case (Cons r rs)
  let ?c = "claimed_trigger i m r"
  let ?s = "cs_triggers_update (coll_put (tr_rec_id r) ?c) s"
  have ok: "trigger_record_ok ?c" using Cons.prems(3) assms(2) by (simp add: claimed_trigger_ok)
  have save: "save_trigger ?c s = (Inr (), ?s)" using ok by (simp add: save_trigger_run)
  have wf: "controller_wf R ?s" using triggers.save_inv [OF Cons.prems(1), of ?c] save by simp
  have got: "get_trigger ?s (tr_rec_id r) = Some ?c" using triggers.get_saved [OF Cons.prems(1) ok] save by simp
  have other: "get_trigger ?s k = get_trigger s k" if "k \<noteq> tr_rec_id r" for k
    using triggers.get_other [OF Cons.prems(1), of k ?c] that save by simp
  have rest: "distinct (map tr_rec_id rs)" "\<forall>r\<in>set rs. trigger_record_ok r" "tr_rec_id r \<notin> tr_rec_id ` set rs"
    using Cons.prems by auto
  from Cons.IH [OF wf rest(1,2), of "Suc m"] obtain s' where
    run: "act_each (\<lambda>(n, r). claim_trigger i n r) (enumerate (Suc m) rs) ?s =
      (Inr (map (\<lambda>(n, r). claimed_trigger i n r) (enumerate (Suc m) rs)), s')" and wf': "controller_wf R s'"
    and taken: "\<forall>n<length rs. get_trigger s' (tr_rec_id (rs ! n)) = Some (claimed_trigger i (Suc m + n) (rs ! n))"
    and kept: "\<forall>k. k \<notin> tr_rec_id ` set rs \<longrightarrow> get_trigger s' k = get_trigger ?s k" by blast
  have "get_trigger s' (tr_rec_id ((r # rs) ! n)) = Some (claimed_trigger i (m + n) ((r # rs) ! n))"
    if "n < length (r # rs)" for n
    using that taken kept got rest(3) by (cases n) auto
  moreover have "act_each (\<lambda>(n, r). claim_trigger i n r) (enumerate m (r # rs)) s =
      (Inr (map (\<lambda>(n, r). claimed_trigger i n r) (enumerate m (r # rs))), s')"
    using run ok by (simp add: act_bind_run claim_trigger_run)
  moreover have "get_trigger s' k = get_trigger s k" if "k \<notin> tr_rec_id ` set (r # rs)" for k
    using that kept other by simp
  ultimately show ?case using wf' by blast
qed simp

lemma trigger_order_le:
  "trigger_order R a b \<le> 0 \<longleftrightarrow> tr_rec_created a < tr_rec_created b \<or>
     tr_rec_created a = tr_rec_created b \<and> locale_compare R (tr_rec_id a) (tr_rec_id b) \<le> 0"
  by (auto simp: trigger_order_def cmp_then_def cmp_of_def)

lemma comparator_trigger:
  assumes "comparator (locale_compare R)"
  shows "comparator (trigger_order R)"
proof
  fix x y z
  show "0 < trigger_order R x y \<Longrightarrow> trigger_order R y x \<le> 0"
    using trigger_order_le [of R x y] trigger_order_le [of R y x]
      comparator.total [OF assms, of "tr_rec_id x" "tr_rec_id y"] by linarith
  show "trigger_order R x y \<le> 0 \<Longrightarrow> trigger_order R y z \<le> 0 \<Longrightarrow> trigger_order R x z \<le> 0"
    using comparator.trans [OF assms, of "tr_rec_id x" "tr_rec_id y" "tr_rec_id z"] by (auto simp: trigger_order_le)
qed

lemma claim_candidates_oldest:
  assumes "comparator (locale_compare R)" "x \<in> set (all_triggers s)" "claimable_trigger i x"
    and "x \<notin> set (claim_candidates R i s)" "r \<in> set (claim_candidates R i s)"
  shows "tr_rec_created r \<le> tr_rec_created x"
proof -
  let ?xs = "filter (claimable_trigger i) (list_triggers R None s)"
  have "sorted_wrt (\<lambda>a b. trigger_order R a b \<le> 0) (list_triggers R None s)"
    unfolding list_triggers_def by (rule comparator.sorted_sort [OF comparator_trigger [OF assms(1)]])
  then have sorted: "sorted_wrt (\<lambda>a b. trigger_order R a b \<le> 0) (take (tcl_limit i) ?xs @ drop (tcl_limit i) ?xs)"
    by (simp add: sorted_wrt_filter)
  have "x \<in> set ?xs" using assms(2,3) by simp
  then have "x \<in> set (take (tcl_limit i) ?xs) \<union> set (drop (tcl_limit i) ?xs)" by (metis append_take_drop_id set_append)
  with assms(4) have "x \<in> set (drop (tcl_limit i) ?xs)" by (simp add: claim_candidates_def)
  with sorted assms(5) have "trigger_order R r x \<le> 0" by (simp only: sorted_wrt_append claim_candidates_def)
  then show ?thesis by (auto simp: trigger_order_le)
qed


subsection \<open>The queue is a lease table\<close>

definition trigger_row :: "trigger_record \<Rightarrow> lease_row" where
  "trigger_row r =
     \<lparr>lr_owner = (if tr_rec_status r = TrProcessing
        then Some (tr_rec_lease r, opt_or (tr_rec_expires r) (tr_rec_updated r)) else None),
      lr_used = tr_rec_attempts r\<rparr>"

definition trigger_rows :: "controller_store \<Rightarrow> lease_table" where
  "trigger_rows s k = map_option trigger_row (get_trigger s k)"

text \<open>
  The operations on the queue. A worker settles the record it claimed: as long as the stored record
  is leased under its identifier it is that record.
\<close>

definition claimed_copy :: "controller_store \<Rightarrow> trigger_record \<Rightarrow> str \<Rightarrow> bool" where
  "claimed_copy s c l \<longleftrightarrow> (\<forall>x. get_trigger s (tr_rec_id c) = Some x \<longrightarrow> tr_rec_lease x = Some l \<longrightarrow> x = c)"

inductive trigger_step :: "runtime \<Rightarrow> instant \<Rightarrow> controller_store \<Rightarrow> controller_store \<Rightarrow> bool" for R :: runtime where
  tq_enqueue: "trigger_step R now s (snd (enqueue_loop_controller_trigger R rootId q now s))"
| tq_claim: "\<forall>n. uuid_ok (tcl_uuids i n) \<Longrightarrow> trigger_step R (tcl_now i) s (snd (claim_triggers R i s))"
| tq_settle: "claimed_copy s c l \<Longrightarrow> trigger_step R now s (snd (settle_trigger (settled_record run now c) l s))"
| tq_fail: "claimed_copy s c l \<Longrightarrow> trigger_step R now s (snd (settle_trigger (failed_record m now c) l s))"

text \<open>What one operation does to the records: each stays, is claimed, or is settled.\<close>

lemma rows_of_save:
  assumes "controller_wf R s" "save_trigger r s = (out, s')"
    and "\<And>x. get_trigger s (tr_rec_id r) = Some x \<Longrightarrow> row_step now (trigger_row x) (trigger_row r)"
    and "get_trigger s (tr_rec_id r) = None \<Longrightarrow> trigger_row r = fresh_row"
  shows "controller_wf R s' \<and> table_step now (trigger_rows s) (trigger_rows s')"
proof (cases "trigger_record_ok r")
  case False
  with assms(1,2) show ?thesis by (auto simp: save_trigger_run trigger_rows_def intro!: table_stepI rw_stay)
next
  case True
  have s': "s' = snd (save_trigger r s)" using assms(2) by simp
  have get: "get_trigger s' k = (if k = tr_rec_id r then Some r else get_trigger s k)" for k
    using triggers.get_saved [OF assms(1) True] triggers.get_other [OF assms(1), of k r] by (simp add: s')
  have "table_step now (trigger_rows s) (trigger_rows s')"
    using assms(3,4) by (intro table_stepI) (auto simp: trigger_rows_def get intro: rw_stay split: if_splits)
  then show ?thesis using triggers.save_inv [OF assms(1)] s' by simp
qed

lemma same_store_step: "controller_wf R s \<Longrightarrow> controller_wf R s \<and> table_step now (trigger_rows s) (trigger_rows s)"
  by (auto intro!: table_stepI rw_stay)

lemma enqueue_rows:
  assumes "controller_wf R s"
  shows "controller_wf R (snd (enqueue_loop_controller_trigger R' rootId q now s)) \<and>
    table_step now (trigger_rows s) (trigger_rows (snd (enqueue_loop_controller_trigger R' rootId q now s)))"
proof -
  let ?r = "new_trigger_record R' rootId (requested_trigger q now) now"
  have row: "trigger_row ?r = fresh_row" by (simp add: new_trigger_record_def trigger_row_def fresh_row_def)
  show ?thesis
  proof (cases "trigger_ok (requested_trigger q now) \<and> trigger_record_ok ?r \<and> get_trigger s (tr_rec_id ?r) = None")
    case True
    obtain out s' where save: "save_trigger ?r s = (out, s')" by fastforce
    have "snd (enqueue_loop_controller_trigger R' rootId q now s) = s'"
      using True save by (simp add: enqueue_loop_controller_trigger_def enqueue_trigger_def Let_def act_bind_run require_def
        split: sum.split)
    with rows_of_save [OF assms save, of now] True row show ?thesis by simp
  next
    case False
    then have "snd (enqueue_loop_controller_trigger R' rootId q now s) = s"
      by (auto simp: enqueue_loop_controller_trigger_def enqueue_trigger_def Let_def act_bind_run require_def split: option.splits)
    with same_store_step [OF assms] show ?thesis by simp
  qed
qed

lemma claim_rows:
  assumes "controller_wf R s" "\<forall>n. uuid_ok (tcl_uuids i n)"
  shows "controller_wf R (snd (claim_triggers R' i s)) \<and>
    table_step (tcl_now i) (trigger_rows s) (trigger_rows (snd (claim_triggers R' i s)))"
proof -
  let ?rs = "claim_candidates R' i s" and ?s = "snd (claim_triggers R' i s)"
  have "\<forall>r\<in>set ?rs. trigger_record_ok r"
    using claim_candidates_set(2) [OF assms(1)] triggers.get_ok [OF assms(1)] by blast
  from claim_triggers_loop [OF assms(1,2) claim_candidates_set(1) [OF assms(1)] this, of 0]
  have wf: "controller_wf R ?s"
    and taken: "\<And>n. n < length ?rs \<Longrightarrow> get_trigger ?s (tr_rec_id (?rs ! n)) = Some (claimed_trigger i n (?rs ! n))"
    and kept: "\<And>k. k \<notin> tr_rec_id ` set ?rs \<Longrightarrow> get_trigger ?s k = get_trigger s k"
    by (auto simp: claim_triggers_def)
  have "table_step (tcl_now i) (trigger_rows s) (trigger_rows ?s)"
  proof (rule table_stepI)
    fix k r
    assume "trigger_rows s k = Some r"
    then obtain x where x: "get_trigger s k = Some x" "r = trigger_row x" by (auto simp: trigger_rows_def)
    show "\<exists>r'. trigger_rows ?s k = Some r' \<and> row_step (tcl_now i) r r'"
    proof (cases "k \<in> tr_rec_id ` set ?rs")
      case False
      with x kept show ?thesis by (auto simp: trigger_rows_def intro: rw_stay)
    next
      case True
      then obtain n where n: "n < length ?rs" "k = tr_rec_id (?rs ! n)" by (auto simp: in_set_conv_nth)
      then have c: "claimable_trigger i (?rs ! n)" "get_trigger s k = Some (?rs ! n)"
        using claim_candidates_set(2) [OF assms(1) nth_mem [OF n(1)]] by simp_all
      with x have x': "x = ?rs ! n" by simp
      have "row_free (tcl_now i) (trigger_row x)"
        using c(1) unfolding x' by (auto simp: row_free_def trigger_row_def claimable_trigger_def)
      from rw_take [OF this, of "tcl_uuids i n" "tcl_now i + int (tcl_lease_seconds i) * 1000"]
      have "row_step (tcl_now i) r (trigger_row (claimed_trigger i n x))"
        by (simp add: x(2) trigger_row_def claimed_trigger_def)
      with taken [OF n(1)] n(2) x' show ?thesis by (auto simp: trigger_rows_def)
    qed
  next
    fix k r
    assume "trigger_rows s k = None" "trigger_rows ?s k = Some r"
    moreover from this have "k \<notin> tr_rec_id ` set ?rs"
      using claim_candidates_set(2) [OF assms(1)] by (auto simp: trigger_rows_def)
    ultimately show "r = fresh_row" using kept by (simp add: trigger_rows_def)
  qed
  with wf show ?thesis by simp
qed

lemma settle_rows:
  assumes "controller_wf R s" "claimed_copy s c l" "tr_rec_id r = tr_rec_id c" "tr_rec_attempts r = tr_rec_attempts c"
    and "tr_rec_status r \<noteq> TrProcessing"
  shows "controller_wf R (snd (settle_trigger r l s)) \<and> table_step now (trigger_rows s) (trigger_rows (snd (settle_trigger r l s)))"
proof (cases "trigger_record_ok r \<and> (\<exists>x. get_trigger s (tr_rec_id r) = Some x \<and> tr_rec_status x = TrProcessing \<and> tr_rec_lease x = Some l)")
  case False
  then have "snd (settle_trigger r l s) = s"
    by (auto simp: settle_trigger_def act_bind_run require_def split: option.splits)
  with same_store_step [OF assms(1)] show ?thesis by simp
next
  case True
  then have x: "get_trigger s (tr_rec_id c) = Some c" "tr_rec_status c = TrProcessing" "tr_rec_lease c = Some l"
    using assms(2,3) by (auto simp: claimed_copy_def)
  let ?r = "r\<lparr>tr_rec_lease := None, tr_rec_expires := None\<rparr>"
  obtain out s' where save: "save_trigger ?r s = (out, s')" by fastforce
  have "snd (settle_trigger r l s) = s'"
    using True x assms(3) save by (auto simp: settle_trigger_def act_bind_run require_def)
  moreover have "row_step now (trigger_row c) (trigger_row ?r)"
    using rw_release [of now "trigger_row c"] assms(4,5) by (simp add: trigger_row_def)
  ultimately show ?thesis using rows_of_save [OF assms(1) save, of now] x assms(3) by simp
qed

interpretation trigger_queue: leased_table trigger_rows "trigger_step R" "controller_wf R'"
proof
  fix now s s'
  assume wf: "controller_wf R' s" and step: "trigger_step R now s s'"
  have "controller_wf R' s' \<and> table_step now (trigger_rows s) (trigger_rows s')"
    using step
  proof cases
    case (tq_enqueue rootId q)
    with enqueue_rows [OF wf] show ?thesis by simp
  next
    case (tq_claim i)
    with claim_rows [OF wf] show ?thesis by simp
  next
    case (tq_settle c l run)
    then show ?thesis
      using settle_rows [OF wf tq_settle(2), of "settled_record run now c" now] by (simp add: settled_record_def Let_def)
  next
    case (tq_fail c l m)
    then show ?thesis
      using settle_rows [OF wf tq_fail(2), of "failed_record m now c" now] by (simp add: failed_record_def)
  qed
  then show "controller_wf R' s'" "table_step now (trigger_rows s) (trigger_rows s')" by simp_all
qed

text \<open>
  The trigger queue refines the same lease table. Enqueueing adds free rows, a claim takes free rows
  only, settling releases; so from the empty queue every run is a run of the table, and one operation
  puts a trigger under another lease only when the former has run out.
\<close>

theorem trigger_queue_refines_lease_table:
  assumes "trigger_queue.run R empty_controller s"
  shows "table_run (\<lambda>k. None) (trigger_rows s) \<and>
    (\<forall>now s' k x y l l'. trigger_step R now s s' \<longrightarrow> get_trigger s k = Some x \<longrightarrow> get_trigger s' k = Some y \<longrightarrow>
       tr_rec_status x = TrProcessing \<longrightarrow> tr_rec_status y = TrProcessing \<longrightarrow>
       tr_rec_lease x = Some l \<longrightarrow> tr_rec_lease y = Some l' \<longrightarrow> l' \<noteq> l \<longrightarrow>
       opt_or (tr_rec_expires x) (tr_rec_updated x) \<le> now)"
proof -
  have run: "controller_wf R s" "table_run (trigger_rows empty_controller) (trigger_rows s)"
    using trigger_queue.run_table [of R empty_controller s R] assms empty_controller_wf by auto
  have "trigger_rows empty_controller = (\<lambda>k. None)"
    by (simp add: fun_eq_iff trigger_rows_def get_trigger_def record_get_def empty_controller_def)
  moreover have "opt_or (tr_rec_expires x) (tr_rec_updated x) \<le> now"
    if "trigger_step R now s s'" "get_trigger s k = Some x" "get_trigger s' k = Some y"
      "tr_rec_status x = TrProcessing" "tr_rec_status y = TrProcessing"
      "tr_rec_lease x = Some l" "tr_rec_lease y = Some l'" "l' \<noteq> l" for now s' k x y l l'
    by (rule trigger_queue.handover [of R s R now s' k "trigger_row x" "trigger_row y" "Some l" _ "Some l'"])
      (use that run(1) in \<open>simp_all add: trigger_rows_def trigger_row_def\<close>)
  ultimately show ?thesis using run(2) by auto
qed

subsection \<open>A failed trigger\<close>

lemma settle_keeps:
  "cw_rest (snd (in_controller (settle_trigger r l) w)) = cw_rest w"
  "cw_outcomes (snd (in_controller (settle_trigger r l) w)) = cw_outcomes w"
  "cs_runs (cw_store (snd (in_controller (settle_trigger r l) w))) = cs_runs (cw_store w)"
proof -
  have "cs_runs (snd (settle_trigger r l s)) = cs_runs s" for s
    by (simp add: settle_trigger_def act_bind_run require_def save_trigger_run split: option.split)
  from this [of "cw_store w"] show "cs_runs (cw_store (snd (in_controller (settle_trigger r l) w))) = cs_runs (cw_store w)"
    by (cases "settle_trigger r l (cw_store w)") (auto simp: in_controller_def act_zoom_run split: sum.split)
qed (simp_all add: in_controller_def act_zoom_run split: prod.split sum.split)

lemma settled_item:
  "finish_trigger now r l run dup w = (out, w') \<Longrightarrow>
     cw_rest w' = cw_rest w \<and> cw_outcomes w' = cw_outcomes w \<and> cs_runs (cw_store w') = cs_runs (cw_store w) \<and>
     (\<forall>item. out = Inr item \<longrightarrow> si_status item = tr_rec_status (settled_record run now r))"
  "fail_trigger E now r l e w = (out, w') \<Longrightarrow>
     cw_rest w' = cw_rest w \<and> cw_outcomes w' = cw_outcomes w \<and> cs_runs (cw_store w') = cs_runs (cw_store w) \<and>
     (\<forall>item. out = Inr item \<longrightarrow> si_status item = TrFailed)"
  using settle_keeps [of _ l w]
  by (auto simp: finish_trigger_def fail_trigger_def Let_def act_bind_run require_def split: prod.splits sum.splits if_splits)
    (metis snd_conv)+

text \<open>
  A trigger whose run failed never recovers. Whenever the scheduler takes it up again, the
  controller finds the failed run and answers with it: nothing is run, no outcome is evaluated, the
  stored runs stay as they are and the trigger fails again.
\<close>

theorem failed_trigger_never_recovers:
  assumes "cv_root E = Inr rootId" and "trigger_ok (tr_rec_trigger c)"
    and "find_run_by_key R (controller_key R rootId (tr_rec_trigger c)) (cw_store w) = Some x" and "cr_status x = CtrFailed"
    and "schedule_trigger R E now c w = (Inr item, w')"
  shows "si_status item = TrFailed \<and> cw_rest w' = cw_rest w \<and> cw_outcomes w' = cw_outcomes w \<and>
    cs_runs (cw_store w') = cs_runs (cw_store w)"
proof -
  let ?i = "input_of_trigger (tr_rec_trigger c)"
  have norm: "normalize_controller_trigger R ?i now = Inr (tr_rec_trigger c)"
    using assms(2) by (cases "tr_rec_trigger c") (simp add: normalize_controller_trigger_def input_of_trigger_def require_def Let_def)
  obtain a w1 where run: "run_loop_controller R E (\<lambda>p. p) ?i now w = (a, w1)" by fastforce
  have same: "policy_only w w1" and answer: "\<And>y. a = Inr y \<Longrightarrow> y = (x, True)"
  proof -
    from run_enters_body [OF run] show "policy_only w w1" "\<And>y. a = Inr y \<Longrightarrow> y = (x, True)"
    proof (atomize (full), elim disjE exE conjE)
      fix rootId' t p w2
      assume h: "cv_root E = Inr rootId'" "normalize_controller_trigger R ?i now = Inr t" "policy_only w w2"
        "controller_body R E p rootId' t now w2 = (a, w1)"
      have "find_run_by_key R (controller_key R rootId' t) (cw_store w2) = Some x"
        using h(1,2) assms(1,3) norm policy_only_same [OF h(3)] by simp
      from body_again [OF this] assms(4) h(3,4) show "policy_only w w1 \<and> (\<forall>y. a = Inr y \<longrightarrow> y = (x, True))"
        by (auto simp: is_terminal_status_def)
    qed auto
  qed
  from same have "w1 = w\<lparr>cw_store := (cw_store w)\<lparr>cs_policy := cs_policy (cw_store w1)\<rparr>\<rparr>" by (simp only: policy_only_def)
  then obtain q where w1: "w1 = w\<lparr>cw_store := (cw_store w)\<lparr>cs_policy := q\<rparr>\<rparr>" by blast
  have settled: "tr_rec_status (settled_record x now c) = TrFailed" using assms(4) by (simp add: settled_record_def Let_def)
  have lease: "truthy_str (tr_rec_lease c)" using assms(5) by (auto simp: schedule_trigger_def split: if_splits)
  show ?thesis
  proof (cases a)
    case (Inl e)
    with assms(5) lease run have "fail_trigger E now c (the (tr_rec_lease c)) e w1 = (Inr item, w')"
      by (simp add: schedule_trigger_def act_catch_def act_bind_run)
    from settled_item(2) [OF this] show ?thesis by (simp add: w1)
  next
    case (Inr y)
    with answer have y: "a = Inr (x, True)" by simp
    obtain b w2 where fin: "finish_trigger now c (the (tr_rec_lease c)) x True w1 = (b, w2)" by fastforce
    note first = settled_item(1) [OF this]
    have result: "(case b of Inl e \<Rightarrow> fail_trigger E now c (the (tr_rec_lease c)) e w2 | Inr i \<Rightarrow> (Inr i, w2)) = (Inr item, w')"
      using assms(5) lease run y fin by (simp add: schedule_trigger_def act_catch_def act_bind_run)
    show ?thesis
    proof (cases b)
      case (Inl e)
      with result settled_item(2) [of E now c "the (tr_rec_lease c)" e w2 "Inr item" w'] first show ?thesis by (simp add: w1)
    next
      case (Inr i)
      with result first settled show ?thesis by (simp add: w1)
    qed
  qed
qed

end
