(* ===== verification/ControllerWitnesses.thy ===== *)
theory ControllerWitnesses imports ShadowPolicy TriggerQueue Samples begin

text \<open>
  A concrete controller: an environment that scans one opportunity with a completed design and
  counts the graph transactions it is asked for, and a store with a trigger and a failed run.
\<close>

definition ctl_opportunity :: loop_opportunity where
  "ctl_opportunity =
     \<lparr>op_id = ''opp_1'', op_generation = 1, op_department = Sales, op_kind = CreateLoop, op_status = OpProposalReady,
      op_title = ''Follow up leads'', op_targets = [''loop_a''], op_signal_ids = [''sig_1''],
      op_signals = [\<lparr>sg_source = ''problem:1'', sg_severity = SevLow, sg_evidence = [''run:1'']\<rparr>],
      op_score = 90, op_task = Some ''task_1'', op_change_set = Some ''change_1'', op_last_observed = 0\<rparr>"

definition ctl_proposal :: design_proposal where
  "ctl_proposal =
     \<lparr>dp_id = ''proposal_1'', dp_stage = Shadow, dp_activation = Shadow,
      dp_actions = [\<lparr>da_risk = RiskLow, da_requires_approval = False, da_customer_facing = False\<rparr>],
      dp_questions = [], dp_user_items = [NeedsBaseline], dp_connectors = [(''crm'', UsedInRouting)]\<rparr>"

definition ctl_scan :: scan_result where
  "ctl_scan = \<lparr>sc_signals = 1, sc_opportunities = [ctl_opportunity], sc_change_sets = [''change_1''], sc_dispatched = []\<rparr>"

definition ctl_task :: "str \<Rightarrow> design_task" where
  "ctl_task k =
     \<lparr>dt_id = k, dt_key = ''key_1'', dt_session = ''session_1'', dt_company = ''acme'', dt_department = Marketing,
      dt_status = DsCompleted, dt_reason = ByOpportunity, dt_problems = [], dt_opportunity = None, dt_context = None,
      dt_gaps = [], dt_questions = [], dt_runs = [''design_1''], dt_compiler_errors = [], dt_callbacks = [], dt_hermes = None,
      dt_delivery = \<lparr>td_status = TaskSent, td_destination = None, td_attempts = 1, td_last_attempt = None,
        td_acknowledged = None, td_response = None, td_error = None\<rparr>,
      dt_requested_by = ''loopgraph'', dt_created = 0, dt_updated = 0, dt_completed = Some 0\<rparr>"

lemma ctl_task_fields [simp]:
  "dt_id (ctl_task k) = k" "dt_status (ctl_task k) = DsCompleted" "dt_gaps (ctl_task k) = []" "dt_runs (ctl_task k) = [''design_1'']"
  by (simp_all add: ctl_task_def)

definition ctl_env :: "nat controller_env" where
  "ctl_env =
     \<lparr>cv_root = Inr ''root'', cv_definitions = [], cv_scan = (\<lambda>p now s x. (Inr ctl_scan, x)),
      cv_task = (\<lambda>k x. Inr (Some (ctl_task k))),
      cv_proposals = (\<lambda>k x. Inr (Some \<lparr>ps_valid = True, ps_proposals = [ctl_proposal]\<rparr>)),
      cv_changes = (\<lambda>k x. Inr (Some [ChAdd])), cv_capabilities = (\<lambda>x. Inr [''crm'']),
      cv_approve = (\<lambda>q x. (Inr ''receipt_1'', x)), cv_apply = (\<lambda>q x. (Inr ''transaction_1'', x + 1)),
      cv_materialize = True, cv_library_message = (\<lambda>e. ''error'')\<rparr>"

lemma ctl_env_fields [simp]:
  "cv_root ctl_env = Inr ''root''" "cv_scan ctl_env p now st x = (Inr ctl_scan, x)"
  "cv_task ctl_env k x = Inr (Some (ctl_task k))"
  "cv_proposals ctl_env k x = Inr (Some \<lparr>ps_valid = True, ps_proposals = [ctl_proposal]\<rparr>)"
  "cv_changes ctl_env k x = Inr (Some [ChAdd])" "cv_capabilities ctl_env x = Inr [''crm'']"
  "cv_approve ctl_env q1 x = (Inr ''receipt_1'', x)" "cv_apply ctl_env q2 x = (Inr ''transaction_1'', x + 1)"
  "cv_materialize ctl_env"
  by (simp_all add: ctl_env_def)

definition ctl_world :: "controller_store \<Rightarrow> nat controller_world" where
  "ctl_world s = \<lparr>cw_store = s, cw_outcomes = empty_outcomes, cw_rest = 0\<rparr>"

definition ctl_input :: trigger_input where
  "ctl_input = \<lparr>tgi_type = Some TSchedule, tgi_id = Some ''tick_1'', tgi_occurred_at = None, tgi_source = None,
     tgi_requested_by = None, tgi_evidence = None\<rparr>"

subsection \<open>Decisions\<close>

lemma ctl_policy_passed:
  "pv_passed (verdict_of (shadow_rules flat_runtime default_policy ctl_opportunity [ctl_proposal] (Some [ChAdd]) [''crm'']))"
  by (simp add: verdict_of_def shadow_rules_def policy_rule_of_def Let_def default_policy_def ctl_opportunity_def
    ctl_proposal_def maximum_signal_severity_def severity_rank_def missing_capabilities_def sensitive_items_def)

lemma ctl_gate:
  "evaluate_auto_shadow_policy flat_runtime ctl_env default_policy ctl_opportunity [ctl_proposal] w =
     (Inr (verdict_of (shadow_rules flat_runtime default_policy ctl_opportunity [ctl_proposal] (Some [ChAdd]) [''crm''])), w)"
  by (simp add: evaluate_auto_shadow_policy_def act_bind_run ask_run) (simp add: ctl_opportunity_def)

lemma ctl_rules_ok:
  "list_all rule_ok (shadow_rules flat_runtime default_policy ctl_opportunity [ctl_proposal] (Some [ChAdd]) [''crm''])"
  by (simp add: shadow_rules_def policy_rule_of_def Let_def rule_ok_def no_empty_text_def default_policy_def
    ctl_opportunity_def ctl_proposal_def department_name_def missing_capabilities_def sensitive_items_def)

lemma ctl_materialized:
  "\<exists>d. materialize flat_runtime ctl_env default_policy 1000 ctl_opportunity ''design_1'' [ctl_proposal]
      (verdict_of (shadow_rules flat_runtime default_policy ctl_opportunity [ctl_proposal] (Some [ChAdd]) [''crm'']))
      (ctl_world empty_controller) = (Inr d, (ctl_world empty_controller)\<lparr>cw_rest := 1\<rparr>) \<and> dc_action d = ShadowMaterialize"
proof -
  let ?gate = "verdict_of (shadow_rules flat_runtime default_policy ctl_opportunity [ctl_proposal] (Some [ChAdd]) [''crm''])"
  have tx: "graph_transaction flat_runtime ctl_env default_policy 1000 ctl_opportunity k ''design_1'' [ctl_proposal]
      (ctl_world empty_controller) = (Inr (Some ''receipt_1'', Inr ''transaction_1''), (ctl_world empty_controller)\<lparr>cw_rest := 1\<rparr>)" for k
    by (simp add: graph_transaction_def act_catch_def act_bind_run in_rest_def act_zoom_run ctl_world_def)
  have rules: "list_all rule_ok (pv_rules ?gate)" using ctl_rules_ok by (simp add: verdict_of_def)
  have change: "truthy_str (op_change_set ctl_opportunity)" by (simp add: ctl_opportunity_def)
  show ?thesis
    using rules change
    by (simp add: materialize_def act_bind_run tx make_decision_def Let_def require_def controller_decision_ok_def base_decision_def)
      (simp add: ctl_opportunity_def not_empty_def no_empty_text_def signal_refs_def)
qed

lemma ctl_decided:
  "\<exists>d. decide_controller_actions flat_runtime ctl_env default_policy 1000 ctl_scan (ctl_world empty_controller) =
      (Inr [d], (ctl_world empty_controller)\<lparr>cw_rest := 1\<rparr>) \<and> dc_action d = ShadowMaterialize"
proof -
  obtain d where d: "materialize flat_runtime ctl_env default_policy 1000 ctl_opportunity ''design_1'' [ctl_proposal]
      (verdict_of (shadow_rules flat_runtime default_policy ctl_opportunity [ctl_proposal] (Some [ChAdd]) [''crm'']))
      (ctl_world empty_controller) = (Inr d, (ctl_world empty_controller)\<lparr>cw_rest := 1\<rparr>)" "dc_action d = ShadowMaterialize"
    using ctl_materialized by blast
  let ?t = "ctl_task ''task_1''"
  have completed: "decide_completed flat_runtime ctl_env default_policy 1000 ctl_opportunity ?t (ctl_world empty_controller) =
      (Inr d, (ctl_world empty_controller)\<lparr>cw_rest := 1\<rparr>)"
    using d(1) ctl_policy_passed
    by (simp add: decide_completed_def decide_proposals_def decide_gated_def act_bind_run ask_run ctl_gate)
  have "decide_opportunity flat_runtime ctl_env default_policy 1000 [] ctl_opportunity (ctl_world empty_controller) =
      (Inr d, (ctl_world empty_controller)\<lparr>cw_rest := 1\<rparr>)"
  proof -
    have fields: "op_status ctl_opportunity = OpProposalReady" "op_kind ctl_opportunity = CreateLoop"
      "\<not> op_score ctl_opportunity < cp_qualify default_policy" "op_task ctl_opportunity = Some ''task_1''"
      by (simp_all add: ctl_opportunity_def default_policy_def)
    show ?thesis by (simp add: decide_opportunity_def fields act_bind_run ask_run completed)
  qed
  with d(2) show ?thesis by (simp add: decide_controller_actions_def ctl_scan_def act_bind_run)
qed

theorem graph_changes_only_under_policy_witness:
  "\<exists>d w'. decide_controller_actions flat_runtime ctl_env default_policy 1000 ctl_scan (ctl_world empty_controller) = (Inr [d], w') \<and>
     dc_action d = ShadowMaterialize \<and> cw_rest w' = 1 \<and> (\<exists>x. may_materialize ctl_env default_policy ctl_opportunity x)"
proof -
  obtain d where d: "decide_controller_actions flat_runtime ctl_env default_policy 1000 ctl_scan (ctl_world empty_controller) =
      (Inr [d], (ctl_world empty_controller)\<lparr>cw_rest := 1\<rparr>)" "dc_action d = ShadowMaterialize"
    using ctl_decided by blast
  from graph_changes_only_under_policy [OF d(1)] d(2) have "\<exists>x. may_materialize ctl_env default_policy ctl_opportunity x"
    by (auto simp: ctl_scan_def)
  with d show ?thesis by auto
qed

subsection \<open>Runs\<close>

lemma ctl_disabled_run:
  "\<exists>r w1. run_loop_controller flat_runtime ctl_env (\<lambda>p. p\<lparr>cp_enabled := False\<rparr>) ctl_input 1000 (ctl_world empty_controller) =
      (Inr (r, False), w1)"
proof -
  let ?p = "default_policy\<lparr>cp_enabled := False\<rparr>"
  let ?t = "\<lparr>tg_type = TSchedule, tg_id = ''tick_1'', tg_occurred_at = 1000, tg_source = ''loopgraph-controller:schedule'',
    tg_requested_by = None, tg_evidence = []\<rparr>"
  have p: "policy_ok ?p" by (simp add: policy_ok_def default_policy_def)
  have t: "normalize_controller_trigger flat_runtime ctl_input 1000 = Inr ?t"
    by (simp add: normalize_controller_trigger_def ctl_input_def controller_trigger_type_text_def Let_def require_def trigger_ok_def
      not_empty_def no_empty_text_def)
  let ?run = "started_run flat_runtime ?p ''root'' ?t None 1000"
  have ok: "controller_run_ok ?run"
    by (simp add: controller_run_ok_def started_run_def Let_def controller_run_id_def controller_key_def trigger_ok_def not_empty_def
      no_empty_text_def content_hash_not_Nil [OF digest_flat] no_evidence_def)
  have none: "find_run_by_key flat_runtime k (empty_controller\<lparr>cs_policy := q\<rparr>) = None" for k q
    by (simp add: find_run_by_key_def list_controller_runs_def record_list_def empty_controller_def)
  have get: "get_controller_run (empty_controller\<lparr>cs_policy := q\<rparr>) k = None" for k q
    by (simp add: get_controller_run_def record_get_def empty_controller_def)
  have body: "controller_body flat_runtime ctl_env ?p ''root'' ?t 1000 (ctl_world (empty_controller\<lparr>cs_policy := q\<rparr>)) =
      (Inr (?run, False), ctl_world (cs_runs_update (coll_put (cr_id ?run) ?run) (empty_controller\<lparr>cs_policy := q\<rparr>)))" for q
    using ok by (simp add: controller_body_def none Let_def act_bind_run in_controller_def act_zoom_run ctl_world_def
      save_controller_run_run get)
  have saved: "read_policy empty_controller = None" by (simp add: read_policy_def empty_controller_def)
  show ?thesis
    using p body by (simp add: run_loop_controller_def act_bind_run ctl_world_def saved require_def Let_def
      in_controller_def act_zoom_run save_policy_def t)
qed


subsection \<open>The trigger queue\<close>

definition ctl_trigger :: controller_trigger where
  "ctl_trigger = \<lparr>tg_type = TSchedule, tg_id = ''tick_1'', tg_occurred_at = 0, tg_source = ''scheduler'',
     tg_requested_by = None, tg_evidence = []\<rparr>"

definition ctl_record :: trigger_record where
  "ctl_record = new_trigger_record flat_runtime ''root'' ctl_trigger 500"

definition ctl_uuid :: str where
  "ctl_uuid = ''0a0a0a0a-0000-4000-8000-00000000000f''"

definition ctl_claim :: trigger_claim where
  "ctl_claim = \<lparr>tcl_limit = 5, tcl_max_attempts = 3, tcl_lease_seconds = 300, tcl_now = 1000, tcl_uuids = (\<lambda>n. ctl_uuid)\<rparr>"

lemma ctl_uuid_ok: "uuid_ok ctl_uuid"
  by (simp add: uuid_ok_def ctl_uuid_def hex_digit_def enumerate_eq_zip upt_rec)

lemma ctl_record_ok: "trigger_record_ok ctl_record"
  by (simp add: ctl_record_def new_trigger_record_def ctl_trigger_def trigger_record_ok_def trigger_ok_def not_empty_def
    no_empty_text_def trigger_record_id_def)

definition ctl_queue :: controller_store where
  "ctl_queue = empty_controller\<lparr>cs_triggers := [(tr_rec_id ctl_record, ctl_record)]\<rparr>"

lemma ctl_queue_wf: "controller_wf flat_runtime ctl_queue"
  by (simp add: ctl_queue_def controller_wf_def empty_controller_def coll_wf_def coll_values_def)

lemma ctl_got: "get_trigger ctl_queue k = (if k = tr_rec_id ctl_record then Some ctl_record else None)"
  by (simp add: ctl_queue_def get_trigger_def record_get_def coll_get_def ctl_record_ok)


theorem trigger_queue_refines_lease_table_witness:
  "\<exists>s. trigger_queue.run flat_runtime empty_controller s \<and> trigger_rows s \<noteq> (\<lambda>k. None) \<and> table_run (\<lambda>k. None) (trigger_rows s)"
proof -
  let ?q = "\<lparr>trq_type = TSchedule, trq_id = ''tick_1'', trq_source = ''scheduler'', trq_occurred_at = Some 0,
    trq_requested_by = None, trq_evidence = None\<rparr>"
  have req: "requested_trigger ?q 500 = ctl_trigger" by (simp add: requested_trigger_def ctl_trigger_def)
  have none: "get_trigger empty_controller k = None" for k
    by (simp add: get_trigger_def record_get_def empty_controller_def)
  have "enqueue_loop_controller_trigger flat_runtime ''root'' ?q 500 empty_controller = (Inr (ctl_record, False), ctl_queue)"
    using ctl_record_ok by (simp add: enqueue_loop_controller_trigger_def req Let_def enqueue_trigger_def none act_bind_run
      require_def save_trigger_run flip: ctl_record_def)
      (simp add: ctl_queue_def empty_controller_def trigger_ok_def ctl_trigger_def not_empty_def no_empty_text_def)
  moreover have "trigger_queue.run flat_runtime empty_controller
      (snd (enqueue_loop_controller_trigger flat_runtime ''root'' ?q 500 empty_controller))"
    by (rule trigger_queue.run_step [OF trigger_queue.run_refl tq_enqueue])
  ultimately have run: "trigger_queue.run flat_runtime empty_controller ctl_queue" by simp
  have "trigger_rows ctl_queue (tr_rec_id ctl_record) \<noteq> None" by (simp add: trigger_rows_def ctl_got)
  then have "trigger_rows ctl_queue \<noteq> (\<lambda>k. None)" by auto
  with run trigger_queue_refines_lease_table [OF run] show ?thesis by blast
qed

definition ctl_failed_run :: controller_run where
  "ctl_failed_run =
     (started_run flat_runtime default_policy ''root'' ctl_trigger None 600)\<lparr>cr_status := CtrFailed,
       cr_errors := [\<lparr>cre_code = ''CONTROLLER_RUN_FAILED'', cre_message = ''offline'', cre_evidence = []\<rparr>]\<rparr>"

definition ctl_failed_world :: "nat controller_world" where
  "ctl_failed_world = ctl_world (empty_controller\<lparr>cs_runs := [(cr_id ctl_failed_run, ctl_failed_run)],
     cs_triggers := [(tr_rec_id ctl_record, claimed_trigger ctl_claim 0 ctl_record)]\<rparr>)"

theorem failed_trigger_never_recovers_witness:
  "\<exists>item w'. schedule_trigger flat_runtime ctl_env 2000 (claimed_trigger ctl_claim 0 ctl_record) ctl_failed_world = (Inr item, w') \<and>
     si_status item = TrFailed \<and> cs_runs (cw_store w') = cs_runs (cw_store ctl_failed_world)"
proof -
  let ?c = "claimed_trigger ctl_claim 0 ctl_record" and ?s = "cw_store ctl_failed_world"
  let ?k = "controller_key flat_runtime ''root'' ctl_trigger"
  have trigger: "tr_rec_trigger ?c = ctl_trigger" "trigger_ok ctl_trigger"
    by (simp_all add: claimed_trigger_def ctl_record_def new_trigger_record_def ctl_trigger_def trigger_ok_def not_empty_def no_empty_text_def)
  have run_ok: "controller_run_ok ctl_failed_run"
    using trigger(2) by (simp add: controller_run_ok_def ctl_failed_run_def started_run_def Let_def controller_run_id_def controller_key_def
      no_empty_text_def content_hash_not_Nil [OF digest_flat] no_evidence_def)
  have run: "cr_key ctl_failed_run = ?k" "cr_status ctl_failed_run = CtrFailed"
    by (simp_all add: ctl_failed_run_def)
  have found: "find_run_by_key flat_runtime ?k ?s = Some ctl_failed_run"
    using run_ok run by (simp add: find_run_by_key_def list_controller_runs_def record_list_def ctl_failed_world_def ctl_world_def
      empty_controller_def coll_values_def)
  obtain out w' where sched: "schedule_trigger flat_runtime ctl_env 2000 ?c ctl_failed_world = (out, w')" by fastforce
  have ok: "trigger_record_ok ?c" using ctl_record_ok ctl_uuid_ok by (simp add: claimed_trigger_ok ctl_claim_def)
  let ?settled = "settled_record ctl_failed_run 2000 ?c"
  have settled: "trigger_record_ok ?settled" "tr_rec_id ?settled = tr_rec_id ctl_record"
    using ok run_ok by (simp_all add: settled_record_def Let_def trigger_record_ok_def controller_run_ok_def not_empty_def)
  let ?w1 = "ctl_failed_world\<lparr>cw_store := ?s\<lparr>cs_policy := Some default_policy\<rparr>\<rparr>"
  have policy: "read_policy ?s = None" "policy_ok default_policy"
    by (simp_all add: read_policy_def ctl_failed_world_def ctl_world_def empty_controller_def policy_ok_def default_policy_def)
  have norm: "normalize_controller_trigger flat_runtime (input_of_trigger ctl_trigger) 2000 = Inr ctl_trigger"
    using trigger(2) by (simp add: normalize_controller_trigger_def input_of_trigger_def ctl_trigger_def Let_def require_def)
  have "find_run_by_key flat_runtime ?k (cw_store ?w1) = Some ctl_failed_run"
    using found by (simp add: find_run_by_key_def list_controller_runs_def)
  from body_again [OF this, of ctl_env default_policy 2000] run(2)
  have again: "controller_body flat_runtime ctl_env default_policy ''root'' ctl_trigger 2000 ?w1 = (Inr (ctl_failed_run, True), ?w1)"
    by (simp add: is_terminal_status_def)
  have "run_loop_controller flat_runtime ctl_env (\<lambda>p. p) (input_of_trigger ctl_trigger) 2000 ctl_failed_world =
      (Inr (ctl_failed_run, True), ?w1)"
    using policy again by (simp add: run_loop_controller_def act_bind_run Let_def require_def in_controller_def act_zoom_run
      save_policy_def norm)
  moreover have "get_trigger (cw_store ?w1) (tr_rec_id ctl_record) = Some ?c"
    using ok by (simp add: get_trigger_def record_get_def coll_get_def ctl_failed_world_def ctl_world_def)
  moreover have "tr_rec_lease ?c = Some ctl_uuid" "tr_rec_status ?c = TrProcessing" "ctl_uuid \<noteq> []"
    by (simp_all add: claimed_trigger_def ctl_claim_def ctl_uuid_def)
  moreover have "trigger_record_ok (?settled\<lparr>tr_rec_lease := None, tr_rec_expires := None\<rparr>)"
    using settled(1) by (simp add: trigger_record_ok_def)
  ultimately have "\<exists>item. out = Inr item"
    using sched settled trigger(1)
    by (auto simp: schedule_trigger_def act_catch_def act_bind_run finish_trigger_def Let_def require_def in_controller_def
      act_zoom_run settle_trigger_def save_trigger_run)
  then obtain item where item: "out = Inr item" by blast
  have "cv_root ctl_env = Inr ''root''" by simp
  from failed_trigger_never_recovers [OF this _ _ run(2) sched [unfolded item]] trigger found sched item show ?thesis by simp
qed

end
