(* ===== verification/DesignStore.thy ===== *)
theory DesignStore imports DesignTypes begin

text \<open>
  The file store of design tasks (class FileHermesDesignStore of runtime/hermes-design-store.ts):
  tasks, callbacks, the two queues of leased jobs and the directory of pending transactions. Every
  operation runs under the lock file of the store, which first completes the transactions an
  interrupted process left, and is one action here. Each file is written through one primitive,
  \<open>disk\<close>, which also appends the write to a list no operation reads, so that a crash
  between two writes can be stated: what the disk holds after the first n writes of an operation. Files are
  named by encodeURIComponent, which is injective; a file that does not parse is skipped by the readers.
\<close>

subsection \<open>The disk\<close>

datatype disk_write =
    WriteTask design_task
  | WriteCallback design_callback
  | WriteCallbackJob callback_job
  | WriteDispatchJob dispatch_job
  | WriteTransaction str design_task dispatch_job
  | RemoveTransaction str

record design_store =
  hs_tasks :: "design_task coll"
  hs_callbacks :: "design_callback coll"
  hs_callback_jobs :: "callback_job coll"
  hs_dispatch_jobs :: "dispatch_job coll"
  hs_transactions :: "(design_task \<times> dispatch_job) coll"
  hs_writes :: "disk_write list"

datatype design_error =
    DesignSchemaError
  | DispatchOfOtherTask
  | DesignTaskNotFound str
  | DesignTaskIdentity
  | CallbackContract
  | HostedAuthorization
  | CallbackReplayed
  | CallbackJobNotFound str
  | CallbackLeaseLost str
  | CallbackJobIdentity
  | DispatchJobNotFound str
  | DispatchLeaseLost str
  | DispatchJobIdentity
  | HermesTaskMismatch str
  | JobWithoutLease str
  | NoTransport
  | IntegerRange nat nat
  | SessionNotFound str
  | NoDepartment
  | DepartmentNotSelected department str
  | OutsideDesign str

type_synonym 'a design_op = "(design_store, design_error, 'a) action"

definition empty_design_store :: design_store where
  "empty_design_store = \<lparr>hs_tasks = [], hs_callbacks = [], hs_callback_jobs = [], hs_dispatch_jobs = [],
     hs_transactions = [], hs_writes = []\<rparr>"

definition coll_remove :: "str \<Rightarrow> 'r coll \<Rightarrow> 'r coll" where
  "coll_remove k c = filter (\<lambda>(k', r). k' \<noteq> k) c"

fun apply_write :: "disk_write \<Rightarrow> design_store \<Rightarrow> design_store" where
  "apply_write (WriteTask t) s = s\<lparr>hs_tasks := coll_put (dt_id t) t (hs_tasks s)\<rparr>"
| "apply_write (WriteCallback c) s = s\<lparr>hs_callbacks := coll_put (cb_id c) c (hs_callbacks s)\<rparr>"
| "apply_write (WriteCallbackJob j) s = s\<lparr>hs_callback_jobs := coll_put (dj_id j) j (hs_callback_jobs s)\<rparr>"
| "apply_write (WriteDispatchJob j) s = s\<lparr>hs_dispatch_jobs := coll_put (dj_id j) j (hs_dispatch_jobs s)\<rparr>"
| "apply_write (WriteTransaction k t j) s = s\<lparr>hs_transactions := coll_put k (t, j) (hs_transactions s)\<rparr>"
| "apply_write (RemoveTransaction k) s = s\<lparr>hs_transactions := coll_remove k (hs_transactions s)\<rparr>"

definition disk :: "disk_write \<Rightarrow> unit design_op" where
  "disk w = act_write (\<lambda>s. (apply_write w s)\<lparr>hs_writes := hs_writes s @ [w]\<rparr>)"

fun disk_all :: "disk_write list \<Rightarrow> unit design_op" where
  "disk_all [] = act_return ()"
| "disk_all (w # ws) = act_bind (disk w) (\<lambda>_. disk_all ws)"

subsection \<open>Transactions\<close>

definition transaction_writes :: "str \<Rightarrow> design_task \<Rightarrow> dispatch_job \<Rightarrow> disk_write list" where
  "transaction_writes k t j = [WriteTransaction k t j, WriteTask t, WriteDispatchJob j, RemoveTransaction k]"

definition write_task_and_dispatch :: "design_task \<Rightarrow> dispatch_job \<Rightarrow> unit design_op" where
  "write_task_and_dispatch t j = disk_all (transaction_writes (dj_key j) t j)"

definition complete_transaction :: "str \<times> design_task \<times> dispatch_job \<Rightarrow> unit design_op" where
  "complete_transaction = (\<lambda>(k, t, j).
     if design_task_ok t \<and> dispatch_job_ok j \<and> dj_task j = dt_id t
     then disk_all [WriteTask t, WriteDispatchJob j, RemoveTransaction k] else act_return ())"

definition recover_pending_transactions :: "unit design_op" where
  "recover_pending_transactions =
     act_bind (act_read hs_transactions) (\<lambda>pending.
     act_bind (act_each complete_transaction pending) (\<lambda>_. act_return ()))"

definition with_design_lock :: "'a design_op \<Rightarrow> 'a design_op" where
  "with_design_lock m = act_bind recover_pending_transactions (\<lambda>_. m)"

subsection \<open>Tasks\<close>

definition get_design_task :: "str \<Rightarrow> design_store \<Rightarrow> design_task option" where
  "get_design_task k s = record_get design_task_ok (hs_tasks s) k"

record task_filters =
  tf_session :: "str option"
  tf_status :: "design_status option"

definition any_task :: task_filters where
  "any_task = \<lparr>tf_session = None, tf_status = None\<rparr>"

definition list_design_tasks :: "task_filters \<Rightarrow> design_store \<Rightarrow> design_task list" where
  "list_design_tasks f s =
     js_sort (\<lambda>a b. cmp_of (dt_created b) (dt_created a))
       (filter (\<lambda>t. (\<not> truthy_str (tf_session f) \<or> tf_session f = Some (dt_session t)) \<and>
          (tf_status f = None \<or> tf_status f = Some (dt_status t))) (record_list design_task_ok (hs_tasks s)))"

definition list_dispatch_jobs :: "design_store \<Rightarrow> dispatch_job list" where
  "list_dispatch_jobs s =
     js_sort (\<lambda>a b. cmp_then (cmp_of (dj_next_run a) (dj_next_run b)) (cmp_of (dj_created a) (dj_created b)))
       (record_list dispatch_job_ok (hs_dispatch_jobs s))"

definition list_callback_jobs :: "design_store \<Rightarrow> callback_job list" where
  "list_callback_jobs s =
     js_sort (\<lambda>a b. cmp_then (cmp_of (dj_next_run a) (dj_next_run b)) (cmp_of (dj_created a) (dj_created b)))
       (record_list callback_job_ok (hs_callback_jobs s))"

definition get_dispatch_job :: "str \<Rightarrow> design_store \<Rightarrow> dispatch_job option" where
  "get_dispatch_job k s = record_get dispatch_job_ok (hs_dispatch_jobs s) k"

definition get_callback_job :: "str \<Rightarrow> design_store \<Rightarrow> callback_job option" where
  "get_callback_job k s = record_get callback_job_ok (hs_callback_jobs s) k"

definition enqueue_dispatch_unlocked :: "dispatch_job \<Rightarrow> (dispatch_job \<times> bool) design_op" where
  "enqueue_dispatch_unlocked j =
     act_bind (act_read (get_design_task (dj_task j))) (\<lambda>task.
     if task = None then act_throw (DesignTaskNotFound (dj_task j))
     else
       act_bind (act_read (\<lambda>s. find (\<lambda>x. dj_key x = dj_key j) (list_dispatch_jobs s))) (\<lambda>existing.
       (case existing of
          Some x \<Rightarrow> act_return (x, False)
        | None \<Rightarrow> act_bind (disk (WriteDispatchJob j)) (\<lambda>_. act_return (j, True)))))"

record task_creation =
  tn_task :: design_task
  tn_created :: bool
  tn_job :: "dispatch_job option"

definition create_task_locked :: "design_task \<Rightarrow> dispatch_job option \<Rightarrow> task_creation design_op" where
  "create_task_locked t job =
     act_bind (act_read (\<lambda>s. find (\<lambda>x. dt_key x = dt_key t \<and> dt_status x \<notin> {DsFailed, DsCancelled})
       (list_design_tasks any_task s))) (\<lambda>existing.
     (case existing of
        Some x \<Rightarrow>
          (case job of
             Some j \<Rightarrow>
               if dj_task j = dt_id x
               then act_bind (enqueue_dispatch_unlocked j) (\<lambda>(j', created).
                      act_return \<lparr>tn_task = x, tn_created = False, tn_job = Some j'\<rparr>)
               else act_return \<lparr>tn_task = x, tn_created = False, tn_job = None\<rparr>
           | None \<Rightarrow> act_return \<lparr>tn_task = x, tn_created = False, tn_job = None\<rparr>)
      | None \<Rightarrow>
          act_bind (case job of Some j \<Rightarrow> write_task_and_dispatch t j | None \<Rightarrow> disk (WriteTask t)) (\<lambda>_.
          act_return \<lparr>tn_task = t, tn_created = True, tn_job = job\<rparr>)))"

definition create_task_atomically :: "design_task \<Rightarrow> dispatch_job option \<Rightarrow> task_creation design_op" where
  "create_task_atomically t job =
     act_bind (act_lift (require (design_task_ok t) DesignSchemaError)) (\<lambda>_.
     act_bind (act_lift (case job of None \<Rightarrow> Inr () | Some j \<Rightarrow>
         res_bind (require (dispatch_job_ok j) DesignSchemaError) (\<lambda>_.
           require (dj_task j = dt_id t) DispatchOfOtherTask))) (\<lambda>_.
     with_design_lock (create_task_locked t job)))"

text \<open>\<open>update\<close> is the caller's function, which may throw.\<close>

definition updated_task :: "(design_task \<Rightarrow> design_error + design_task) \<Rightarrow> design_task \<Rightarrow> design_error + design_task" where
  "updated_task update current =
     res_bind (update current) (\<lambda>t.
     res_bind (require (design_task_ok t) DesignSchemaError) (\<lambda>_.
     res_bind (require (dt_id t = dt_id current \<and> dt_key t = dt_key current) DesignTaskIdentity) (\<lambda>_. Inr t)))"

definition with_task :: "str \<Rightarrow> (design_task \<Rightarrow> 'a design_op) \<Rightarrow> 'a design_op" where
  "with_task taskId f =
     with_design_lock (act_bind (act_read (get_design_task taskId)) (\<lambda>current.
       case current of None \<Rightarrow> act_throw (DesignTaskNotFound taskId) | Some t \<Rightarrow> f t))"

definition update_task_atomically :: "str \<Rightarrow> (design_task \<Rightarrow> design_error + design_task) \<Rightarrow> design_task design_op" where
  "update_task_atomically taskId update =
     with_task taskId (\<lambda>current.
       act_bind (act_lift (updated_task update current)) (\<lambda>t.
       act_bind (disk (WriteTask t)) (\<lambda>_. act_return t)))"

record dispatch_update =
  du_task :: design_task
  du_job :: dispatch_job
  du_created :: bool

definition checked_dispatch ::
  "(design_task \<Rightarrow> design_error + (design_task \<times> dispatch_job)) \<Rightarrow> design_task \<Rightarrow> design_error + (design_task \<times> dispatch_job)" where
  "checked_dispatch update current =
     res_bind (update current) (\<lambda>(t, j).
     res_bind (require (design_task_ok t) DesignSchemaError) (\<lambda>_.
     res_bind (require (dispatch_job_ok j) DesignSchemaError) (\<lambda>_.
     res_bind (require (dt_id t = dt_id current \<and> dt_key t = dt_key current) DesignTaskIdentity) (\<lambda>_.
     res_bind (require (dj_task j = dt_id t) DispatchOfOtherTask) (\<lambda>_. Inr (t, j))))))"

definition write_dispatch_update :: "design_task \<Rightarrow> dispatch_job \<Rightarrow> dispatch_update design_op" where
  "write_dispatch_update t j =
     act_bind (act_read (\<lambda>s. find (\<lambda>x. dj_key x = dj_key j) (list_dispatch_jobs s))) (\<lambda>existing.
     (case existing of
        Some x \<Rightarrow> act_bind (disk (WriteTask t)) (\<lambda>_. act_return \<lparr>du_task = t, du_job = x, du_created = False\<rparr>)
      | None \<Rightarrow> act_bind (write_task_and_dispatch t j) (\<lambda>_.
          act_return \<lparr>du_task = t, du_job = j, du_created = True\<rparr>)))"

definition update_task_and_enqueue ::
  "str \<Rightarrow> (design_task \<Rightarrow> design_error + (design_task \<times> dispatch_job)) \<Rightarrow> dispatch_update design_op" where
  "update_task_and_enqueue taskId update =
     with_task taskId (\<lambda>current.
       act_bind (act_lift (checked_dispatch update current)) (\<lambda>(t, j). write_dispatch_update t j))"

subsection \<open>Callbacks\<close>

definition checked_callback ::
  "design_callback \<Rightarrow> (design_task \<Rightarrow> design_error + design_task) \<Rightarrow> design_task \<Rightarrow> design_error + design_task" where
  "checked_callback c update current =
     res_bind (update current) (\<lambda>t.
     res_bind (require (design_task_ok t) DesignSchemaError) (\<lambda>_.
     res_bind (require (dt_id t = dt_id current \<and> dt_key t = dt_key current \<and> cb_id c \<in> set (dt_callbacks t))
       CallbackContract) (\<lambda>_. Inr t)))"

definition apply_callback_locked ::
  "design_callback \<Rightarrow> (design_task \<Rightarrow> design_error + design_task) \<Rightarrow> design_task \<Rightarrow> (design_task \<times> bool) design_op" where
  "apply_callback_locked c update current =
     (if cb_id c \<in> set (dt_callbacks current)
      then act_bind (disk (WriteCallback c)) (\<lambda>_. act_return (current, True))
      else
        act_bind (act_lift (checked_callback c update current)) (\<lambda>t.
        act_bind (disk_all [WriteTask t, WriteCallback c]) (\<lambda>_. act_return (t, False))))"

definition apply_callback_atomically ::
  "str \<Rightarrow> design_callback \<Rightarrow> (design_task \<Rightarrow> design_error + design_task) \<Rightarrow> (design_task \<times> bool) design_op" where
  "apply_callback_atomically taskId c update =
     act_bind (act_lift (require (callback_ok c) DesignSchemaError)) (\<lambda>_.
     with_task taskId (apply_callback_locked c update))"

record callback_acceptance =
  ca_duplicate :: bool
  ca_job :: callback_job

text \<open>\<open>machineRequest\<close> says whether the caller asked for the hosted authorization.\<close>

definition accept_callback_locked :: "callback_job \<Rightarrow> callback_acceptance design_op" where
  "accept_callback_locked j =
     act_bind (act_read (\<lambda>s. find (\<lambda>x. dj_id x = dj_id j \<or> dj_key x = dj_key j \<or>
       cd_callback_id (dj_payload x) = cd_callback_id (dj_payload j)) (list_callback_jobs s))) (\<lambda>existing.
     (case existing of
        Some x \<Rightarrow>
          if dj_task x \<noteq> dj_task j \<or> cd_callback_id (dj_payload x) \<noteq> cd_callback_id (dj_payload j) \<or>
             cd_request_hash (dj_payload x) \<noteq> cd_request_hash (dj_payload j)
          then act_throw CallbackReplayed
          else act_return \<lparr>ca_duplicate = True, ca_job = x\<rparr>
      | None \<Rightarrow> act_bind (disk (WriteCallbackJob j)) (\<lambda>_. act_return \<lparr>ca_duplicate = False, ca_job = j\<rparr>)))"

definition accept_callback_job :: "bool \<Rightarrow> callback_job \<Rightarrow> callback_acceptance design_op" where
  "accept_callback_job machineRequest j =
     (if machineRequest then act_throw HostedAuthorization
      else
        act_bind (act_lift (require (callback_job_ok j) DesignSchemaError)) (\<lambda>_.
        with_task (dj_task j) (\<lambda>task. accept_callback_locked j)))"

definition enqueue_dispatch_atomically :: "dispatch_job \<Rightarrow> (dispatch_job \<times> bool) design_op" where
  "enqueue_dispatch_atomically j =
     act_bind (act_lift (require (dispatch_job_ok j) DesignSchemaError)) (\<lambda>_.
     with_design_lock (enqueue_dispatch_unlocked j))"

subsection \<open>The queues\<close>

text \<open>
  Claiming and updating are written twice, once per kind of job; a \<open>job_queue\<close> holds what differs.
\<close>

record ('p, 'r) job_queue =
  jq_list :: "design_store \<Rightarrow> ('p, 'r) design_job list"
  jq_get :: "str \<Rightarrow> design_store \<Rightarrow> ('p, 'r) design_job option"
  jq_ok :: "('p, 'r) design_job \<Rightarrow> bool"
  jq_same :: "('p, 'r) design_job \<Rightarrow> ('p, 'r) design_job \<Rightarrow> bool"
  jq_write :: "('p, 'r) design_job \<Rightarrow> disk_write"
  jq_expired :: str
  jq_missing :: "str \<Rightarrow> design_error"
  jq_lost :: "str \<Rightarrow> design_error"
  jq_identity :: design_error

definition callback_queue :: "(callback_delivery, callback_result) job_queue" where
  "callback_queue =
     \<lparr>jq_list = list_callback_jobs, jq_get = get_callback_job, jq_ok = callback_job_ok,
      jq_same = (\<lambda>a b. dj_id b = dj_id a \<and> dj_key b = dj_key a \<and> dj_task b = dj_task a \<and>
        cd_callback_id (dj_payload b) = cd_callback_id (dj_payload a) \<and>
        cd_request_hash (dj_payload b) = cd_request_hash (dj_payload a)),
      jq_write = WriteCallbackJob,
      jq_expired = ''Callback worker lease expired after the maximum attempt count.'',
      jq_missing = CallbackJobNotFound, jq_lost = CallbackLeaseLost, jq_identity = CallbackJobIdentity\<rparr>"

definition dispatch_queue :: "(design_request, dispatch_result) job_queue" where
  "dispatch_queue =
     \<lparr>jq_list = list_dispatch_jobs, jq_get = get_dispatch_job, jq_ok = dispatch_job_ok,
      jq_same = (\<lambda>a b. dj_id b = dj_id a \<and> dj_key b = dj_key a \<and> dj_task b = dj_task a),
      jq_write = WriteDispatchJob,
      jq_expired = ''Dispatch worker lease expired after the maximum attempt count.'',
      jq_missing = DispatchJobNotFound, jq_lost = DispatchLeaseLost, jq_identity = DispatchJobIdentity\<rparr>"

text \<open>A claim; \<open>jc_tokens\<close> are the tokens \<open>randomUUID\<close> returns, in order.\<close>

record job_claim =
  jc_by :: str
  jc_now :: instant
  jc_lease_seconds :: nat
  jc_limit :: nat
  jc_tokens :: "nat \<Rightarrow> str"

definition lease_over :: "instant \<Rightarrow> ('p, 'r) design_job \<Rightarrow> bool" where
  "lease_over now j =
     (dj_status j = DjClaimed \<and> (case dj_lease j of None \<Rightarrow> False | Some l \<Rightarrow> wl_expires l \<le> now))"

definition exhausted_job :: "instant \<Rightarrow> ('p, 'r) design_job \<Rightarrow> bool" where
  "exhausted_job now j = (lease_over now j \<and> dj_max_attempts j \<le> dj_attempts j)"

definition buried_job :: "str \<Rightarrow> instant \<Rightarrow> ('p, 'r) design_job \<Rightarrow> ('p, 'r) design_job" where
  "buried_job reason now j =
     j\<lparr>dj_status := DjDeadLetter, dj_lease := None, dj_dead_letter := Some reason, dj_updated := now\<rparr>"

definition save_design_job :: "('p, 'r) job_queue \<Rightarrow> ('p, 'r) design_job \<Rightarrow> unit design_op" where
  "save_design_job q j = act_bind (act_lift (require (jq_ok q j) DesignSchemaError)) (\<lambda>_. disk (jq_write q j))"

definition bury_exhausted :: "('p, 'r) job_queue \<Rightarrow> instant \<Rightarrow> ('p, 'r) design_job \<Rightarrow> unit design_op" where
  "bury_exhausted q now j =
     (if exhausted_job now j
      then save_design_job q (buried_job (jq_expired q) now j) else act_return ())"

definition claimable_job :: "instant \<Rightarrow> ('p, 'r) design_job \<Rightarrow> bool" where
  "claimable_job now j =
     (dj_attempts j < dj_max_attempts j \<and>
      (dj_status j \<in> {DjQueued, DjFailed} \<and> dj_next_run j \<le> now \<or> lease_over now j))"

definition taken_job :: "job_claim \<Rightarrow> nat \<Rightarrow> ('p, 'r) design_job \<Rightarrow> ('p, 'r) design_job" where
  "taken_job i n j =
     j\<lparr>dj_status := DjClaimed, dj_attempts := dj_attempts j + 1,
       dj_lease := Some \<lparr>wl_by = jc_by i, wl_token = jc_tokens i n, wl_at = jc_now i,
         wl_expires = jc_now i + int (jc_lease_seconds i) * 1000\<rparr>,
       dj_updated := jc_now i\<rparr>"

definition take_job :: "('p, 'r) job_queue \<Rightarrow> job_claim \<Rightarrow> nat \<times> ('p, 'r) design_job \<Rightarrow> ('p, 'r) design_job design_op" where
  "take_job q i = (\<lambda>(n, j).
     act_bind (save_design_job q (taken_job i n j)) (\<lambda>_. act_return (taken_job i n j)))"

definition claim_design_jobs :: "('p, 'r) job_queue \<Rightarrow> job_claim \<Rightarrow> ('p, 'r) design_job list design_op" where
  "claim_design_jobs q i =
     with_design_lock (
       act_bind (act_read (jq_list q)) (\<lambda>jobs.
       act_bind (act_each (bury_exhausted q (jc_now i)) jobs) (\<lambda>_.
       act_bind (act_read (jq_list q)) (\<lambda>refreshed.
       act_each (take_job q i) (enumerate 0 (take (jc_limit i) (filter (claimable_job (jc_now i)) refreshed)))))))"

definition claim_due_callback_jobs :: "job_claim \<Rightarrow> callback_job list design_op" where
  "claim_due_callback_jobs = claim_design_jobs callback_queue"

definition claim_due_dispatch_jobs :: "job_claim \<Rightarrow> dispatch_job list design_op" where
  "claim_due_dispatch_jobs = claim_design_jobs dispatch_queue"

definition update_design_job ::
  "('p, 'r) job_queue \<Rightarrow> str \<Rightarrow> str option \<Rightarrow> (('p, 'r) design_job \<Rightarrow> design_error + ('p, 'r) design_job) \<Rightarrow>
     ('p, 'r) design_job design_op" where
  "update_design_job q jobId token update =
     with_design_lock (
       act_bind (act_read (jq_get q jobId)) (\<lambda>current.
       (case current of
          None \<Rightarrow> act_throw (jq_missing q jobId)
        | Some j \<Rightarrow>
            if truthy_str token \<and> map_option wl_token (dj_lease j) \<noteq> token then act_throw (jq_lost q jobId)
            else
              act_bind (act_lift (res_bind (update j) (\<lambda>j'.
                res_bind (require (jq_ok q j') DesignSchemaError) (\<lambda>_.
                res_bind (require (jq_same q j j') (jq_identity q)) (\<lambda>_. Inr j'))))) (\<lambda>j'.
              act_bind (disk (jq_write q j')) (\<lambda>_. act_return j')))))"

definition update_callback_job ::
  "str \<Rightarrow> str option \<Rightarrow> (callback_job \<Rightarrow> design_error + callback_job) \<Rightarrow> callback_job design_op" where
  "update_callback_job = update_design_job callback_queue"

definition update_dispatch_job ::
  "str \<Rightarrow> str option \<Rightarrow> (dispatch_job \<Rightarrow> design_error + dispatch_job) \<Rightarrow> dispatch_job design_op" where
  "update_dispatch_job = update_design_job dispatch_queue"

end
