(* ===== verification/DesignBridge.thy ===== *)
theory DesignBridge imports DesignStore RouteWorker begin

text \<open>
  The bridge to Hermes (runtime/hermes-design-bridge.ts): starting and resuming design tasks, the
  requests and dispatch jobs, and the callbacks that move a task. The discovery sessions, the gap
  engine, the design contexts and the proposal compiler are arguments (record \<open>design_env\<close>) that work
  on a state of their own; so is the transport, whose answer may depend on how many requests were handed
  to it before.
\<close>

record discovery_session =
  ses_id :: str
  ses_company :: str
  ses_revision :: nat
  ses_departments :: "department list"
  ses_active :: "department option"

record transport_result =
  tx_sent :: bool
  tx_destination :: "str option"
  tx_response :: "int option"
  tx_hermes :: "str option"
  tx_error :: "str option"

record submission =
  sb_session :: str
  sb_department :: department
  sb_proposals :: json
  sb_provider :: str
  sb_model :: "str option"
  sb_metadata :: "(str \<times> json option) list"
  sb_key :: str
  sb_now :: instant

record submitted =
  su_run :: str
  su_valid :: bool
  su_errors :: "str list"

record 'x design_world =
  dw_store :: design_store
  dw_sent :: "design_request list"
  dw_rest :: 'x

type_synonym ('x, 'a) design_part = "('x design_world, design_error, 'a) action"

type_synonym design_transport = "nat \<Rightarrow> design_request \<Rightarrow> str + transport_result"

record 'x design_env =
  de_session :: "str \<Rightarrow> 'x \<Rightarrow> discovery_session option"
  de_gaps :: "str \<Rightarrow> evidence_gap list \<Rightarrow> instant \<Rightarrow> ('x, str, gap_set) action"
  de_questions :: "str \<Rightarrow> ('x, str, next_question list) action"
  de_context :: "str \<Rightarrow> department \<Rightarrow> ('x, str, design_context) action"
  de_submit :: "submission \<Rightarrow> ('x, str, submitted) action"
  de_transport :: "design_error + design_transport option"
  de_shared_store :: bool
  de_public_url :: "str option"
  de_url_ok :: "str \<Rightarrow> bool"
  de_schema_message :: str

definition in_design :: "'a design_op \<Rightarrow> ('x, 'a) design_part" where
  "in_design m = act_zoom dw_store dw_store_update (\<lambda>e. e) m"

definition outside_design :: "('x, str, 'a) action \<Rightarrow> ('x, 'a) design_part" where
  "outside_design m = act_zoom dw_rest dw_rest_update OutsideDesign m"

text \<open>Handing a request to the transport.\<close>

definition transport_dispatch :: "design_transport \<Rightarrow> design_request \<Rightarrow> ('x, str + transport_result) design_part" where
  "transport_dispatch transport q =
     act_bind (act_read (\<lambda>w. transport (length (dw_sent w)) q)) (\<lambda>answer.
     act_bind (act_write (dw_sent_update (\<lambda>qs. qs @ [q]))) (\<lambda>_. act_return answer))"

subsection \<open>Requests and dispatch jobs\<close>

definition gap_pending :: "evidence_gap \<Rightarrow> bool" where
  "gap_pending g = (gap_state g \<in> {GapOpen, GapAsked})"

definition blocks_design :: "evidence_gap \<Rightarrow> bool" where
  "blocks_design g = (gap_blocking g \<and> gap_pending g \<and> StageDesign \<in> set (gap_required_for g))"

definition request_instructions :: "design_task \<Rightarrow> str list" where
  "request_instructions t =
     (if dt_status t = DsNeedsInput
      then [''Ask only the supplied nextQuestions and preserve each gapId when returning answers.'',
        ''Do not invent missing facts or create a proposal while a blocking design gap remains.'',
        ''Submit answers through Loopgraph, then wait for the refreshed evidence-gap result.'']
      else (if truthy_str (dt_opportunity t)
            then [''Read loop opportunity '' @ the (dt_opportunity t) @
              '' through loopgraph_opportunities_get before proposing a graph change.''] else []) @
        [''Use only the bounded design context and registered Loopgraph schemas.'',
         ''Return a LoopDesignProposalSet through the signed callback or loopgraph_design_submit.'',
         ''Do not materialize specs, connect providers, or perform business actions.''])"

definition build_design_request ::
  "'x design_env \<Rightarrow> design_task \<Rightarrow> design_context option \<Rightarrow> evidence_gap list \<Rightarrow> next_question list \<Rightarrow> str option \<Rightarrow>
     design_error + design_request" where
  "build_design_request E t context gaps questions url =
     (let q = \<lparr>rq_task = t, rq_context = context, rq_gaps = filter gap_pending gaps, rq_questions = questions,
        rq_callback_url = (if truthy_str url then url else None), rq_instructions = request_instructions t\<rparr>
      in res_bind (require (request_ok q \<and> (truthy_str url \<longrightarrow> de_url_ok E (the url))) DesignSchemaError) (\<lambda>_. Inr q))"

definition default_callback_url :: "'x design_env \<Rightarrow> str \<Rightarrow> str option" where
  "default_callback_url E taskId =
     (let origin = map_option (\<lambda>u. rev (dropWhile (\<lambda>c. c = CHR ''/'') (rev u))) (de_public_url E)
      in if truthy_str origin
         then Some (the origin @ ''/api/hermes/design-tasks/'' @ encode_uri_component taskId @ ''/callback'') else None)"

definition create_dispatch_job :: "runtime \<Rightarrow> design_request \<Rightarrow> instant \<Rightarrow> design_error + dispatch_job" where
  "create_dispatch_job R q now =
     res_bind (require (request_ok q) DesignSchemaError) (\<lambda>_.
     let key = ''hermes_dispatch_'' @ hash_obj R [(''taskId'', jstr (dt_id (rq_task q))), (''request'', Some (request_json q))];
         j = \<lparr>dj_id = ''hermes_dispatch_job_'' @ hash_obj R [(''idempotencyKey'', jstr key)], dj_key = key,
           dj_task = dt_id (rq_task q), dj_payload = q, dj_status = DjQueued, dj_attempts = 0, dj_max_attempts = 5,
           dj_retry = default_design_retry, dj_next_run = now, dj_lease = None, dj_result = None, dj_error = None,
           dj_dead_letter = None, dj_created = now, dj_updated = now\<rparr>
     in res_bind (require (dispatch_job_ok j) DesignSchemaError) (\<lambda>_. Inr j))"

subsection \<open>Starting a task\<close>

record design_start =
  sd_session :: str
  sd_department :: "str option"
  sd_reason :: "design_reason option"
  sd_problems :: "str list option"
  sd_opportunity :: "str option"
  sd_requested_by :: "str option"
  sd_callback_url :: "str option"

record design_dispatch =
  ds_task :: design_task
  ds_request :: design_request

definition start_department :: "design_start \<Rightarrow> discovery_session \<Rightarrow> design_error + department" where
  "start_department i s =
     (let candidate = opt_first (sd_department i) (map_option department_name (ses_active s))
      in (case (if truthy_str candidate then normalize_department_type (the candidate) else None) of
            None \<Rightarrow> Inl NoDepartment
          | Some d \<Rightarrow> res_bind (require (d \<in> set (ses_departments s)) (DepartmentNotSelected d (ses_id s))) (\<lambda>_. Inr d)))"

definition design_task_key :: "runtime \<Rightarrow> design_start \<Rightarrow> discovery_session \<Rightarrow> department \<Rightarrow> str" where
  "design_task_key R i s d = ''hermes_design_'' @ hash_obj R
     [(''sessionId'', jstr (ses_id s)), (''revision'', Some (JNum (of_nat (ses_revision s)))),
      (''department'', jstr (department_name d)),
      (''reason'', jstr (design_reason_text (opt_or (sd_reason i) ByUserRequest))),
      (''originProblemIds'', jstrs (sort (opt_or (sd_problems i) []))),
      (''originOpportunityId'', jopt (sd_opportunity i))]"

definition new_design_task ::
  "runtime \<Rightarrow> design_start \<Rightarrow> discovery_session \<Rightarrow> department \<Rightarrow> nat \<Rightarrow> evidence_gap list \<Rightarrow> next_question list \<Rightarrow>
     design_context option \<Rightarrow> instant \<Rightarrow> design_task" where
  "new_design_task R i s d attempt blocking questions context now =
     \<lparr>dt_id = ''hermes_task_'' @ hash_obj R
        [(''idempotencyKey'', jstr (design_task_key R i s d)), (''attempt'', Some (JNum (of_nat attempt)))],
      dt_key = design_task_key R i s d, dt_session = ses_id s, dt_company = ses_company s, dt_department = d,
      dt_status = (if blocking \<noteq> [] then DsNeedsInput else DsQueued),
      dt_reason = opt_or (sd_reason i) ByUserRequest, dt_problems = opt_or (sd_problems i) [],
      dt_opportunity = sd_opportunity i, dt_context = map_option dx_hash context,
      dt_gaps = map gap_id blocking, dt_questions = map nq_gap questions, dt_runs = [], dt_compiler_errors = [],
      dt_callbacks = [], dt_hermes = None,
      dt_delivery = \<lparr>td_status = NotYetSent, td_destination = None, td_attempts = 0, td_last_attempt = None,
        td_acknowledged = None, td_response = None, td_error = None\<rparr>,
      dt_requested_by = opt_or (sd_requested_by i) ''loopgraph'', dt_created = now, dt_updated = now, dt_completed = None\<rparr>"

definition no_endpoint :: str where
  "no_endpoint = ''No Hermes task endpoint is configured. Hermes can claim the durable task through the Loopgraph MCP tools.''"

definition unconfigured_task :: "instant \<Rightarrow> design_task \<Rightarrow> design_error + design_task" where
  "unconfigured_task now t =
     Inr (t\<lparr>dt_delivery := \<lparr>td_status = NotConfigured, td_destination = None, td_attempts = td_attempts (dt_delivery t),
       td_last_attempt = None, td_acknowledged = None, td_response = None, td_error = Some no_endpoint\<rparr>,
       dt_updated := now\<rparr>)"

definition delivered_task :: "transport_result \<Rightarrow> instant \<Rightarrow> design_task \<Rightarrow> design_error + design_task" where
  "delivered_task x now t =
     Inr (t\<lparr>dt_status := (if tx_sent x \<and> dt_status t = DsQueued then DsAwaitingHermes else dt_status t),
       dt_hermes := opt_first (tx_hermes x) (dt_hermes t),
       dt_delivery := \<lparr>td_status = (if tx_sent x then TaskSent else SendFailed), td_destination = tx_destination x,
         td_attempts = td_attempts (dt_delivery t) + 1, td_last_attempt = Some now, td_acknowledged = None,
         td_response = tx_response x, td_error = tx_error x\<rparr>,
       dt_updated := now\<rparr>)"

text \<open>The end of starting and resuming without a queue: the request is sent at once, if it can be.\<close>

definition send_request ::
  "design_transport option \<Rightarrow> str \<Rightarrow> design_request \<Rightarrow> instant \<Rightarrow> ('x, design_dispatch) design_part" where
  "send_request transport taskId q now =
     (case transport of
        None \<Rightarrow>
          act_bind (in_design (update_task_atomically taskId (unconfigured_task now))) (\<lambda>t.
          act_return \<lparr>ds_task = t, ds_request = q\<rparr>)
      | Some send \<Rightarrow>
          act_bind (transport_dispatch send q) (\<lambda>answer.
          (case answer of
             Inl m \<Rightarrow> act_throw (OutsideDesign m)
           | Inr x \<Rightarrow>
               act_bind (in_design (update_task_atomically taskId (delivered_task x now))) (\<lambda>t.
               act_return \<lparr>ds_task = t, ds_request = q\<rparr>))))"

definition enqueue_request :: "runtime \<Rightarrow> design_request \<Rightarrow> instant \<Rightarrow> unit design_op" where
  "enqueue_request R q now =
     act_bind (act_lift (create_dispatch_job R q now)) (\<lambda>j.
     act_bind (enqueue_dispatch_atomically j) (\<lambda>_. act_return ()))"

definition request_for ::
  "'x design_env \<Rightarrow> str option \<Rightarrow> design_context option \<Rightarrow> evidence_gap list \<Rightarrow> next_question list \<Rightarrow> design_task \<Rightarrow>
     design_error + design_request" where
  "request_for E url context gaps questions t =
     build_design_request E t context gaps questions (opt_first url (default_callback_url E (dt_id t)))"

definition existing_design_task ::
  "runtime \<Rightarrow> 'x design_env \<Rightarrow> bool \<Rightarrow> instant \<Rightarrow> (design_task \<Rightarrow> design_error + design_request) \<Rightarrow> design_task \<Rightarrow>
     ('x, design_dispatch) design_part" where
  "existing_design_task R E queueDispatch now request t =
     act_bind (act_lift (request t)) (\<lambda>q.
     act_bind (if queueDispatch \<and> td_status (dt_delivery t) \<noteq> TaskSent then in_design (enqueue_request R q now)
       else act_return ()) (\<lambda>_.
     act_return \<lparr>ds_task = t, ds_request = q\<rparr>))"

definition create_design_task ::
  "runtime \<Rightarrow> 'x design_env \<Rightarrow> design_transport option \<Rightarrow> instant \<Rightarrow> (design_task \<Rightarrow> design_error + design_request) \<Rightarrow>
     design_task \<Rightarrow> ('x, design_dispatch) design_part" where
  "create_design_task R E transport now request t =
     (let queueDispatch = (de_shared_store E \<and> transport \<noteq> None)
      in act_bind (act_lift (require (design_task_ok t) DesignSchemaError)) (\<lambda>_.
         act_bind (act_lift (request t)) (\<lambda>q.
         act_bind (act_lift (if queueDispatch then map_sum id Some (create_dispatch_job R q now) else Inr None)) (\<lambda>job.
         act_bind (in_design (create_task_atomically t job)) (\<lambda>created.
         if \<not> tn_created created
         then existing_design_task R E (queueDispatch \<and> tn_job created = None) now request (tn_task created)
         else
           act_bind (act_lift (request (tn_task created))) (\<lambda>q'.
           if queueDispatch then act_return \<lparr>ds_task = tn_task created, ds_request = q'\<rparr>
           else send_request transport (dt_id (tn_task created)) q' now))))))"

definition start_hermes_design_task ::
  "runtime \<Rightarrow> 'x design_env \<Rightarrow> design_start \<Rightarrow> instant \<Rightarrow> ('x, design_dispatch) design_part" where
  "start_hermes_design_task R E i now =
     act_bind (act_read (\<lambda>w. de_session E (sd_session i) (dw_rest w))) (\<lambda>session.
     case session of None \<Rightarrow> act_throw (SessionNotFound (sd_session i)) | Some s \<Rightarrow>
     act_bind (act_lift (start_department i s)) (\<lambda>d.
     act_bind (outside_design (de_gaps E (ses_id s) [] now)) (\<lambda>gapSet.
     act_bind (outside_design (de_questions E (ses_id s))) (\<lambda>questions.
     let blocking = filter blocks_design (gs_gaps gapSet)
     in act_bind (if blocking = [] then act_bind (outside_design (de_context E (ses_id s) d)) (\<lambda>x. act_return (Some x))
          else act_return None) (\<lambda>context.
        act_bind (act_lift (de_transport E)) (\<lambda>transport.
        act_bind (act_read (\<lambda>w. filter (\<lambda>t. dt_key t = design_task_key R i s d) (list_design_tasks any_task (dw_store w)))) (\<lambda>matching.
        let request = request_for E (sd_callback_url i) context (gs_gaps gapSet) questions
        in (case find (\<lambda>t. dt_status t \<notin> {DsFailed, DsCancelled}) matching of
              Some t \<Rightarrow> existing_design_task R E (de_shared_store E \<and> transport \<noteq> None) now request t
            | None \<Rightarrow> create_design_task R E transport now request
                (new_design_task R i s d (length matching) blocking questions context now)))))))))"

subsection \<open>Callbacks\<close>

definition terminal_design_status :: "design_status \<Rightarrow> bool" where
  "terminal_design_status s = (s \<in> {DsCompleted, DsCancelled})"

definition other_hermes :: "design_callback \<Rightarrow> design_task \<Rightarrow> bool" where
  "other_hermes c t = (truthy_str (cb_hermes c) \<and> truthy_str (dt_hermes t) \<and> cb_hermes c \<noteq> dt_hermes t)"

record callback_effect =
  ce_run :: "str option"
  ce_errors :: "str list"
  ce_update :: "design_task \<Rightarrow> design_task"

definition acknowledged_task :: "design_callback \<Rightarrow> design_task \<Rightarrow> design_task" where
  "acknowledged_task c t =
     t\<lparr>dt_status := (if dt_status t = DsNeedsInput then DsNeedsInput
         else if terminal_design_status (dt_status t) then dt_status t else DsDesigning),
       dt_delivery := (dt_delivery t)\<lparr>td_acknowledged := Some (cb_occurred c)\<rparr>\<rparr>"

definition questioned_task :: "str list \<Rightarrow> str list \<Rightarrow> design_task \<Rightarrow> design_task" where
  "questioned_task gaps questions t = t\<lparr>dt_status := DsNeedsInput, dt_gaps := gaps, dt_questions := questions\<rparr>"

definition blocked_task :: "evidence_gap list \<Rightarrow> str list \<Rightarrow> design_task \<Rightarrow> design_task" where
  "blocked_task blocking errors t =
     t\<lparr>dt_status := DsNeedsInput, dt_gaps := map gap_id blocking, dt_compiler_errors := errors\<rparr>"

definition proposed_task :: "submitted \<Rightarrow> instant \<Rightarrow> design_task \<Rightarrow> design_task" where
  "proposed_task r now t =
     t\<lparr>dt_status := (if su_valid r then DsCompleted else DsNeedsRepair), dt_runs := uniq (dt_runs t @ [su_run r]),
       dt_compiler_errors := su_errors r, dt_completed := (if su_valid r then Some now else dt_completed t)\<rparr>"

definition failed_task :: "str \<Rightarrow> design_task \<Rightarrow> design_task" where
  "failed_task e t =
     t\<lparr>dt_status := (if terminal_design_status (dt_status t) then dt_status t else DsFailed),
       dt_compiler_errors := uniq (dt_compiler_errors t @ [e])\<rparr>"

definition callback_submission ::
  "design_callback \<Rightarrow> design_task \<Rightarrow> json \<Rightarrow> str option \<Rightarrow> str option \<Rightarrow> (str \<times> json) list \<Rightarrow> instant \<Rightarrow> submission" where
  "callback_submission c t proposals provider model metadata now =
     \<lparr>sb_session = dt_session t, sb_department = dt_department t, sb_proposals = proposals,
      sb_provider = opt_or provider ''hermes'', sb_model = model,
      sb_metadata = map (\<lambda>(k, v). (k, Some v)) metadata @
        [(''hermesTaskId'', jopt (opt_first (cb_hermes c) (dt_hermes t))), (''hermesDesignTaskId'', jstr (dt_id t)),
         (''callbackId'', jstr (cb_id c))],
      sb_key = ''hermes-callback:'' @ cb_id c, sb_now = now\<rparr>"

definition callback_effect_of ::
  "'x design_env \<Rightarrow> design_callback \<Rightarrow> design_task \<Rightarrow> instant \<Rightarrow> ('x, callback_effect) design_part" where
  "callback_effect_of E c t now =
     (case cb_content c of
        Acknowledged m \<Rightarrow> act_return \<lparr>ce_run = None, ce_errors = [], ce_update = acknowledged_task c\<rparr>
      | QuestionsRequested gaps \<Rightarrow>
          act_bind (outside_design (de_gaps E (dt_session t) gaps now)) (\<lambda>gapSet.
          act_bind (outside_design (de_questions E (dt_session t))) (\<lambda>questions.
          act_return \<lparr>ce_run = None, ce_errors = [],
            ce_update = questioned_task (map gap_id (filter (\<lambda>g. gap_blocking g \<and> gap_pending g) (gs_gaps gapSet)))
              (map nq_gap questions)\<rparr>))
      | ProposalSubmitted proposals provider model metadata \<Rightarrow>
          act_bind (outside_design (de_gaps E (dt_session t) [] now)) (\<lambda>current.
          let blocking = filter blocks_design (gs_gaps current);
              errors = map (\<lambda>g. ''Unresolved evidence gap: '' @ gap_field g) blocking
          in if blocking \<noteq> []
             then act_return \<lparr>ce_run = None, ce_errors = errors, ce_update = blocked_task blocking errors\<rparr>
             else act_bind (outside_design (de_submit E (callback_submission c t proposals provider model metadata now))) (\<lambda>r.
                  act_return \<lparr>ce_run = Some (su_run r), ce_errors = su_errors r, ce_update = proposed_task r now\<rparr>))
      | DesignFailed e retryable \<Rightarrow> act_return \<lparr>ce_run = None, ce_errors = [e], ce_update = failed_task e\<rparr>)"

definition called_back :: "design_callback \<Rightarrow> (design_task \<Rightarrow> design_task) \<Rightarrow> instant \<Rightarrow> design_task \<Rightarrow> design_error + design_task" where
  "called_back c effect now current =
     (if other_hermes c current then Inl (HermesTaskMismatch (dt_id current))
      else let t = effect current
           in Inr (t\<lparr>dt_hermes := opt_first (cb_hermes c) (dt_hermes t), dt_callbacks := uniq (dt_callbacks t @ [cb_id c]),
                dt_updated := now\<rparr>))"

record callback_answer =
  an_task :: design_task
  an_duplicate :: bool
  an_run :: "str option"
  an_errors :: "str list"

definition last_run :: "design_task \<Rightarrow> str option" where
  "last_run t = (if dt_runs t = [] then None else Some (last (dt_runs t)))"

definition duplicate_answer :: "design_task \<Rightarrow> callback_answer" where
  "duplicate_answer t = \<lparr>an_task = t, an_duplicate = True, an_run = last_run t, an_errors = dt_compiler_errors t\<rparr>"

definition process_design_callback ::
  "'x design_env \<Rightarrow> design_callback \<Rightarrow> instant \<Rightarrow> ('x, callback_answer) design_part" where
  "process_design_callback E c now =
     act_bind (act_lift (require (callback_ok c) DesignSchemaError)) (\<lambda>_.
     act_bind (act_read (\<lambda>w. get_design_task (cb_task c) (dw_store w))) (\<lambda>found.
     case found of None \<Rightarrow> act_throw (DesignTaskNotFound (cb_task c)) | Some t \<Rightarrow>
     if cb_id c \<in> set (dt_callbacks t)
     then act_bind (in_design (apply_callback_atomically (cb_task c) c Inr)) (\<lambda>(t', duplicate).
          act_return (duplicate_answer t'))
     else if other_hermes c t then act_throw (HermesTaskMismatch (dt_id t))
     else
       act_bind (callback_effect_of E c t now) (\<lambda>effect.
       act_bind (in_design (apply_callback_atomically (cb_task c) c (called_back c (ce_update effect) now))) (\<lambda>(t', duplicate).
       act_return (if duplicate then duplicate_answer t'
         else \<lparr>an_task = t', an_duplicate = False,
           an_run = (if truthy_str (ce_run effect) then ce_run effect else None), an_errors = ce_errors effect\<rparr>)))))"

subsection \<open>Resuming\<close>

definition refreshed_task ::
  "evidence_gap list \<Rightarrow> next_question list \<Rightarrow> design_context option \<Rightarrow> instant \<Rightarrow> design_task \<Rightarrow> design_task" where
  "refreshed_task blocking questions context now t =
     t\<lparr>dt_status := (if blocking \<noteq> [] then DsNeedsInput else DsQueued),
       dt_context := opt_first (map_option dx_hash context) (dt_context t), dt_gaps := map gap_id blocking,
       dt_questions := map nq_gap questions,
       dt_compiler_errors := (if blocking \<noteq> [] then dt_compiler_errors t else []),
       dt_delivery := (dt_delivery t)\<lparr>td_status := NotYetSent, td_error := None\<rparr>, dt_updated := now\<rparr>"

definition resume_design_task ::
  "runtime \<Rightarrow> 'x design_env \<Rightarrow> design_task \<Rightarrow> instant \<Rightarrow> ('x, design_dispatch) design_part" where
  "resume_design_task R E t now =
     act_bind (outside_design (de_gaps E (dt_session t) [] now)) (\<lambda>gapSet.
     act_bind (outside_design (de_questions E (dt_session t))) (\<lambda>questions.
     let blocking = filter blocks_design (gs_gaps gapSet)
     in act_bind (if blocking = []
          then act_bind (outside_design (de_context E (dt_session t) (dt_department t))) (\<lambda>x. act_return (Some x))
          else act_return None) (\<lambda>context.
        act_bind (act_lift (de_transport E)) (\<lambda>transport.
        let refresh = refreshed_task blocking questions context now;
            request = request_for E None context (gs_gaps gapSet) questions
        in if de_shared_store E \<and> transport \<noteq> None
           then act_bind (in_design (update_task_and_enqueue (dt_id t) (\<lambda>current.
                  res_bind (require (design_task_ok (refresh current)) DesignSchemaError) (\<lambda>_.
                  res_bind (request (refresh current)) (\<lambda>q.
                  map_sum id (Pair (refresh current)) (create_dispatch_job R q now)))))) (\<lambda>u.
                act_return \<lparr>ds_task = du_task u, ds_request = dj_payload (du_job u)\<rparr>)
           else act_bind (in_design (update_task_atomically (dt_id t) (\<lambda>current. Inr (refresh current)))) (\<lambda>t'.
                act_bind (act_lift (request t')) (\<lambda>q. send_request transport (dt_id t') q now))))))"

definition resume_design_tasks_for_session ::
  "runtime \<Rightarrow> 'x design_env \<Rightarrow> str \<Rightarrow> instant \<Rightarrow> ('x, design_dispatch list) design_part" where
  "resume_design_tasks_for_session R E sessionId now =
     act_bind (act_read (\<lambda>w. take 1 (filter (\<lambda>t. dt_status t \<in> {DsNeedsInput, DsQueued, DsAwaitingHermes, DsNeedsRepair})
       (list_design_tasks \<lparr>tf_session = Some sessionId, tf_status = None\<rparr> (dw_store w))))) (\<lambda>tasks.
     act_each (\<lambda>t. resume_design_task R E t now) tasks)"

subsection \<open>Signatures\<close>

text \<open>
  \<open>hmac\<close> is HMAC-SHA256 in hexadecimal and \<open>parse_date\<close> is \<open>Date.parse\<close>. Comparing buffers of equal length
  in constant time is comparing the texts.
\<close>

definition sign_task_payload :: "(str \<Rightarrow> str \<Rightarrow> str) \<Rightarrow> str \<Rightarrow> str \<Rightarrow> str \<Rightarrow> str" where
  "sign_task_payload hmac body timestamp secret = ''sha256='' @ hmac secret (timestamp @ ''.'' @ body)"

record signed_callback =
  sc_body :: str
  sc_timestamp :: str
  sc_signature :: str
  sc_secret :: str
  sc_skew_seconds :: "nat option"

definition verify_callback_signature ::
  "(str \<Rightarrow> str \<Rightarrow> str) \<Rightarrow> (str \<Rightarrow> instant option) \<Rightarrow> signed_callback \<Rightarrow> instant \<Rightarrow> bool" where
  "verify_callback_signature hmac parse_date i now =
     (case parse_date (sc_timestamp i) of
        None \<Rightarrow> False
      | Some t \<Rightarrow>
          if int (opt_or (sc_skew_seconds i) 300) * 1000 < \<bar>now - t\<bar> then False
          else sign_task_payload hmac (sc_body i) (sc_timestamp i) (sc_secret i) = sc_signature i)"

end
