(* ===== verification/DesignWorkers.thy ===== *)
theory DesignWorkers imports DesignBridge begin

text \<open>
  The workers of the two design queues: runtime/hermes-design-dispatch-worker.ts sends the requests of
  claimed dispatch jobs and brings their tasks in line, runtime/hermes-design-callback-worker.ts applies
  the callbacks of claimed callback jobs.
\<close>

subsection \<open>Shared parts\<close>

definition design_retry_delay :: "('p, 'r) design_job \<Rightarrow> nat" where
  "design_retry_delay j =
     min (max_delay_seconds (dj_retry j))
       (nat \<lceil>of_nat (base_delay_seconds (dj_retry j)) * backoff_multiplier (dj_retry j) ^ (dj_attempts j - 1)\<rceil>)"

definition bounded_worker_integer :: "int option \<Rightarrow> nat \<Rightarrow> nat \<Rightarrow> nat \<Rightarrow> design_error + nat" where
  "bounded_worker_integer v fallback lo hi =
     (case v of
        None \<Rightarrow> Inr fallback
      | Some n \<Rightarrow> if n < int lo \<or> int hi < n then Inl (IntegerRange lo hi) else Inr (nat n))"

definition bounded_error :: "str \<Rightarrow> str \<Rightarrow> str" where
  "bounded_error fallback m = (let t = take 1000 (js_trim m) in if t = [] then fallback else t)"

definition delivery_failed_text :: str where
  "delivery_failed_text = ''Hermes task delivery failed''"

definition callback_failed_text :: str where
  "callback_failed_text = ''Hermes callback processing failed''"

definition out_of_attempts :: "('p, 'r) design_job \<Rightarrow> bool" where
  "out_of_attempts j = (dj_max_attempts j \<le> dj_attempts j)"

text \<open>\<open>j\<close> is the job as it was claimed, \<open>current\<close> the stored one.\<close>

definition settled_failure ::
  "str \<Rightarrow> str \<Rightarrow> instant \<Rightarrow> ('p, 'r) design_job \<Rightarrow> ('p, 'r) design_job \<Rightarrow> design_error + ('p, 'r) design_job" where
  "settled_failure reason m now j current =
     Inr (current\<lparr>dj_status := (if out_of_attempts j then DjDeadLetter else DjFailed), dj_lease := None,
       dj_next_run := (if out_of_attempts j then dj_next_run j else now + int (design_retry_delay j) * 1000),
       dj_error := Some \<lparr>jf_message = m, jf_at = now\<rparr>,
       dj_dead_letter := (if out_of_attempts j then Some reason else None), dj_updated := now\<rparr>)"

definition settled_success :: "'r \<Rightarrow> instant \<Rightarrow> ('p, 'r) design_job \<Rightarrow> design_error + ('p, 'r) design_job" where
  "settled_success result now current =
     Inr (current\<lparr>dj_status := DjCompleted, dj_lease := None, dj_result := Some result, dj_error := None,
       dj_dead_letter := None, dj_updated := now\<rparr>)"

datatype design_item_status = WiCompleted | WiRetryScheduled | WiDeadLetter

record design_item =
  di_job :: str
  di_task :: str
  di_callback :: "str option"
  di_status :: design_item_status
  di_attempts :: nat
  di_duplicate :: "bool option"
  di_run :: "str option"
  di_next_run :: "instant option"
  di_error :: "str option"

record design_report =
  dwr_worker :: str
  dwr_claimed :: nat
  dwr_completed :: nat
  dwr_retried :: nat
  dwr_dead :: nat
  dwr_reconciled :: nat
  dwr_items :: "design_item list"

definition count_items :: "design_item_status \<Rightarrow> design_item list \<Rightarrow> nat" where
  "count_items s items = length (filter (\<lambda>x. di_status x = s) items)"

record worker_call =
  wc_worker :: "str option"
  wc_process :: str
  wc_limit :: "int option"
  wc_lease_seconds :: "int option"
  wc_now :: instant
  wc_tokens :: "nat \<Rightarrow> str"

definition worker_name :: "str \<Rightarrow> worker_call \<Rightarrow> str" where
  "worker_name prefix i =
     (let given = map_option js_trim (wc_worker i) in if truthy_str given then the given else prefix @ wc_process i)"

definition failure_item :: "str option \<Rightarrow> ('p, 'r) design_job \<Rightarrow> str \<Rightarrow> ('p, 'r) design_job \<Rightarrow> design_item" where
  "failure_item callback j m saved =
     \<lparr>di_job = dj_id saved, di_task = dj_task saved, di_callback = callback,
      di_status = (if out_of_attempts j then WiDeadLetter else WiRetryScheduled), di_attempts = dj_attempts saved,
      di_duplicate = None, di_run = None, di_next_run = (if out_of_attempts j then None else Some (dj_next_run saved)),
      di_error = Some m\<rparr>"

subsection \<open>The dispatch worker\<close>

definition reconciled_task :: "dispatch_job \<Rightarrow> transport_result \<Rightarrow> instant \<Rightarrow> design_task \<Rightarrow> design_task" where
  "reconciled_task j x now t =
     t\<lparr>dt_status := (if tx_sent x \<and> dt_status t = DsQueued then DsAwaitingHermes
         else if dj_status j = DjDeadLetter \<and> dt_status t \<notin> {DsCompleted, DsCancelled} then DsFailed else dt_status t),
       dt_hermes := opt_first (tx_hermes x) (dt_hermes t),
       dt_delivery := \<lparr>td_status = (if tx_sent x then TaskSent else SendFailed),
         td_destination = opt_first (tx_destination x) (td_destination (dt_delivery t)),
         td_attempts = max (td_attempts (dt_delivery t)) (dj_attempts j), td_last_attempt = Some now,
         td_acknowledged = None, td_response = tx_response x, td_error = tx_error x\<rparr>,
       dt_updated := now\<rparr>"

definition reconcile_task_from_dispatch :: "dispatch_job \<Rightarrow> transport_result \<Rightarrow> instant \<Rightarrow> design_task design_op" where
  "reconcile_task_from_dispatch j x now =
     update_task_atomically (dj_task j) (\<lambda>current. Inr (reconciled_task j x now current))"

definition task_matches_dispatch :: "design_task \<Rightarrow> dispatch_job \<Rightarrow> bool" where
  "task_matches_dispatch t j =
     (if dj_status j = DjCompleted then
        td_status (dt_delivery t) = TaskSent \<and> dj_attempts j \<le> td_attempts (dt_delivery t) \<and>
        (case dj_result j of None \<Rightarrow> True
         | Some r \<Rightarrow> \<not> truthy_str (dr_hermes r) \<or> dt_hermes t = dr_hermes r)
      else
        td_status (dt_delivery t) = SendFailed \<and> dj_attempts j \<le> td_attempts (dt_delivery t) \<and>
        dt_status t \<in> {DsFailed, DsCompleted, DsCancelled})"

definition recorded_delivery :: "dispatch_job \<Rightarrow> transport_result" where
  "recorded_delivery j =
     \<lparr>tx_sent = (dj_status j = DjCompleted), tx_destination = Option.bind (dj_result j) dr_destination,
      tx_response = Option.bind (dj_result j) dr_response, tx_hermes = Option.bind (dj_result j) dr_hermes,
      tx_error = map_option jf_message (dj_error j)\<rparr>"

definition reconcile_dispatch_job :: "instant \<Rightarrow> dispatch_job \<Rightarrow> nat design_op" where
  "reconcile_dispatch_job now j =
     act_bind (act_read (get_design_task (dj_task j))) (\<lambda>task.
     (case task of
        None \<Rightarrow> act_return 0
      | Some t \<Rightarrow>
          if task_matches_dispatch t j then act_return 0
          else act_bind (reconcile_task_from_dispatch j (recorded_delivery j) now) (\<lambda>_. act_return 1)))"

definition reconcile_terminal_dispatch_jobs :: "instant \<Rightarrow> nat \<Rightarrow> nat design_op" where
  "reconcile_terminal_dispatch_jobs now limit =
     act_bind (act_read (\<lambda>s. take limit (filter (\<lambda>j. dj_status j \<in> {DjCompleted, DjDeadLetter}) (list_dispatch_jobs s)))) (\<lambda>jobs.
     act_bind (act_each (reconcile_dispatch_job now) jobs) (\<lambda>counts. act_return (sum_list counts)))"

definition delivery_answer :: "str + transport_result \<Rightarrow> transport_result" where
  "delivery_answer a =
     (case a of
        Inr x \<Rightarrow> x
      | Inl m \<Rightarrow> \<lparr>tx_sent = False, tx_destination = None, tx_response = None, tx_hermes = None, tx_error = Some m\<rparr>)"

definition dispatch_outcome :: "transport_result \<Rightarrow> instant \<Rightarrow> dispatch_result" where
  "dispatch_outcome x now =
     \<lparr>dr_destination = tx_destination x, dr_response = tx_response x, dr_hermes = tx_hermes x, dr_completed = now\<rparr>"

definition settle_dispatch :: "dispatch_job \<Rightarrow> str \<Rightarrow> transport_result \<Rightarrow> instant \<Rightarrow> design_item design_op" where
  "settle_dispatch j token x now =
     (if tx_sent x then
        act_bind (update_dispatch_job (dj_id j) (Some token) (settled_success (dispatch_outcome x now) now)) (\<lambda>saved.
        act_bind (reconcile_task_from_dispatch saved x now) (\<lambda>_.
        act_return \<lparr>di_job = dj_id saved, di_task = dj_task saved, di_callback = None, di_status = WiCompleted,
          di_attempts = dj_attempts saved, di_duplicate = None, di_run = None, di_next_run = None, di_error = None\<rparr>))
      else
        let m = bounded_error delivery_failed_text (opt_or (tx_error x) delivery_failed_text)
        in act_bind (update_dispatch_job (dj_id j) (Some token)
             (settled_failure ''Hermes design delivery exhausted its configured attempts.'' m now j)) (\<lambda>saved.
           act_bind (reconcile_task_from_dispatch saved x now) (\<lambda>_. act_return (failure_item None j m saved))))"

definition dispatch_claimed_job :: "design_transport \<Rightarrow> instant \<Rightarrow> dispatch_job \<Rightarrow> ('x, design_item) design_part" where
  "dispatch_claimed_job transport now j =
     (case dj_lease j of
        None \<Rightarrow> act_throw (JobWithoutLease (dj_id j))
      | Some l \<Rightarrow>
          if wl_token l = [] then act_throw (JobWithoutLease (dj_id j))
          else
            act_bind (transport_dispatch transport (dj_payload j)) (\<lambda>answer.
            in_design (settle_dispatch j (wl_token l) (delivery_answer answer) now)))"

definition run_design_dispatch_worker :: "'x design_env \<Rightarrow> worker_call \<Rightarrow> ('x, design_report) design_part" where
  "run_design_dispatch_worker E i =
     act_bind (act_lift (bounded_worker_integer (wc_limit i) 10 1 100)) (\<lambda>limit.
     act_bind (act_lift (bounded_worker_integer (wc_lease_seconds i) 300 30 3600)) (\<lambda>seconds.
     act_bind (act_lift (res_bind (de_transport E) (\<lambda>x. case x of None \<Rightarrow> Inl NoTransport | Some t \<Rightarrow> Inr t))) (\<lambda>transport.
     act_bind (in_design (reconcile_terminal_dispatch_jobs (wc_now i) limit)) (\<lambda>reconciled.
     act_bind (in_design (claim_due_dispatch_jobs \<lparr>jc_by = worker_name ''hermes-design-'' i, jc_now = wc_now i,
        jc_lease_seconds = seconds, jc_limit = limit, jc_tokens = wc_tokens i\<rparr>)) (\<lambda>claimed.
     act_bind (act_each (dispatch_claimed_job transport (wc_now i)) claimed) (\<lambda>items.
     act_return \<lparr>dwr_worker = worker_name ''hermes-design-'' i, dwr_claimed = length claimed,
       dwr_completed = count_items WiCompleted items, dwr_retried = count_items WiRetryScheduled items,
       dwr_dead = count_items WiDeadLetter items, dwr_reconciled = reconciled, dwr_items = items\<rparr>))))))"

subsection \<open>The callback worker\<close>

definition create_callback_job ::
  "runtime \<Rightarrow> design_callback \<Rightarrow> str \<Rightarrow> instant \<Rightarrow> nat option \<Rightarrow> str + callback_job" where
  "create_callback_job R c requestHash now maxAttempts =
     (if \<not> callback_ok c then Inl ''schema''
      else if \<not> sha256_text requestHash then Inl ''Hermes callback request hash must be a SHA-256 digest''
      else
        let identity = sha256_hex R (cb_task c @ [CHR 0x00] @ cb_id c);
            j = \<lparr>dj_id = ''hermes_callback_'' @ take 40 identity, dj_key = ''hermes_callback_'' @ identity, dj_task = cb_task c,
              dj_payload = \<lparr>cd_callback_id = cb_id c, cd_request_hash = requestHash, cd_callback = c\<rparr>,
              dj_status = DjQueued, dj_attempts = 0, dj_max_attempts = opt_or maxAttempts 5,
              dj_retry = default_design_retry, dj_next_run = now, dj_lease = None, dj_result = None, dj_error = None,
              dj_dead_letter = None, dj_created = now, dj_updated = now\<rparr>
        in if callback_job_ok j then Inr j else Inl ''schema'')"

definition design_error_message :: "'x design_env \<Rightarrow> design_error \<Rightarrow> str" where
  "design_error_message E e = (case e of
       DesignSchemaError \<Rightarrow> de_schema_message E
     | DispatchOfOtherTask \<Rightarrow> ''Hermes design dispatch job does not belong to the task''
     | DesignTaskNotFound k \<Rightarrow> ''Hermes design task not found: '' @ k
     | DesignTaskIdentity \<Rightarrow> ''Hermes design task identity cannot change''
     | CallbackContract \<Rightarrow> ''Hermes callback update violated the task identity contract''
     | HostedAuthorization \<Rightarrow> ''Hosted callback authorization requires the distributed Hermes design store''
     | CallbackReplayed \<Rightarrow> ''Hermes callback identity was already used with a different signed payload''
     | CallbackJobNotFound k \<Rightarrow> ''Hermes design callback job not found: '' @ k
     | CallbackLeaseLost k \<Rightarrow> ''Hermes design callback job lease lost: '' @ k
     | CallbackJobIdentity \<Rightarrow> ''Hermes design callback job identity cannot change''
     | DispatchJobNotFound k \<Rightarrow> ''Hermes design dispatch job not found: '' @ k
     | DispatchLeaseLost k \<Rightarrow> ''Hermes design dispatch job lease lost: '' @ k
     | DispatchJobIdentity \<Rightarrow> ''Hermes design dispatch job identity cannot change''
     | HermesTaskMismatch k \<Rightarrow> ''Hermes task identity mismatch for '' @ k @ ''.''
     | JobWithoutLease k \<Rightarrow> ''Claimed Hermes callback job has no lease: '' @ k
     | NoTransport \<Rightarrow> ''A Hermes task endpoint and secret are required before dispatch jobs can run.''
     | IntegerRange lo hi \<Rightarrow> ''Expected an integer from '' @ nat_text lo @ '' to '' @ nat_text hi @ ''.''
     | SessionNotFound k \<Rightarrow> ''Discovery session not found: '' @ k
     | NoDepartment \<Rightarrow> ''Select an active department before starting a Hermes design task.''
     | DepartmentNotSelected d k \<Rightarrow> ''Department '' @ department_name d @ '' is not selected in discovery session '' @ k @ ''.''
     | OutsideDesign m \<Rightarrow> m)"

definition callback_outcome :: "callback_answer \<Rightarrow> instant \<Rightarrow> callback_result" where
  "callback_outcome a now = \<lparr>kr_duplicate = an_duplicate a, kr_run = an_run a, kr_errors = an_errors a, kr_completed = now\<rparr>"

definition fail_claimed_callback :: "callback_job \<Rightarrow> str \<Rightarrow> str \<Rightarrow> instant \<Rightarrow> design_item design_op" where
  "fail_claimed_callback j token m now =
     act_bind (update_callback_job (dj_id j) (Some token)
       (settled_failure ''Hermes design callback processing exhausted its configured attempts.'' m now j)) (\<lambda>saved.
     act_return (failure_item (Some (cd_callback_id (dj_payload saved))) j m saved))"

definition complete_claimed_callback :: "'x design_env \<Rightarrow> callback_job \<Rightarrow> str \<Rightarrow> instant \<Rightarrow> ('x, design_item) design_part" where
  "complete_claimed_callback E j token now =
     act_bind (process_design_callback E (cd_callback (dj_payload j)) now) (\<lambda>a.
     act_bind (in_design (update_callback_job (dj_id j) (Some token) (settled_success (callback_outcome a now) now))) (\<lambda>saved.
     act_return \<lparr>di_job = dj_id saved, di_task = dj_task saved, di_callback = Some (cd_callback_id (dj_payload saved)),
       di_status = WiCompleted, di_attempts = dj_attempts saved, di_duplicate = Some (an_duplicate a),
       di_run = (if truthy_str (an_run a) then an_run a else None), di_next_run = None, di_error = None\<rparr>))"

definition process_claimed_callback :: "'x design_env \<Rightarrow> instant \<Rightarrow> callback_job \<Rightarrow> ('x, design_item) design_part" where
  "process_claimed_callback E now j =
     (case dj_lease j of
        None \<Rightarrow> act_throw (JobWithoutLease (dj_id j))
      | Some l \<Rightarrow>
          if wl_token l = [] then act_throw (JobWithoutLease (dj_id j))
          else
            act_catch (complete_claimed_callback E j (wl_token l) now) (\<lambda>e.
              in_design (fail_claimed_callback j (wl_token l)
                (bounded_error callback_failed_text (design_error_message E e)) now)))"

definition run_design_callback_worker :: "'x design_env \<Rightarrow> worker_call \<Rightarrow> ('x, design_report) design_part" where
  "run_design_callback_worker E i =
     act_bind (act_lift (bounded_worker_integer (wc_limit i) 10 1 100)) (\<lambda>limit.
     act_bind (act_lift (bounded_worker_integer (wc_lease_seconds i) 300 30 3600)) (\<lambda>seconds.
     act_bind (in_design (claim_due_callback_jobs \<lparr>jc_by = worker_name ''hermes-callback-'' i, jc_now = wc_now i,
        jc_lease_seconds = seconds, jc_limit = limit, jc_tokens = wc_tokens i\<rparr>)) (\<lambda>claimed.
     act_bind (act_each (process_claimed_callback E (wc_now i)) claimed) (\<lambda>items.
     act_return \<lparr>dwr_worker = worker_name ''hermes-callback-'' i, dwr_claimed = length claimed,
       dwr_completed = count_items WiCompleted items, dwr_retried = count_items WiRetryScheduled items,
       dwr_dead = count_items WiDeadLetter items, dwr_reconciled = 0, dwr_items = items\<rparr>))))"

end
