(* ===== verification/DesignCrash.thy ===== *)
theory DesignCrash imports DesignWorkers begin

text \<open>
  Crashes of the design store. An operation writes files one after the other; a process that
  stops leaves the first of them. Operations whose writes are one file, or a journaled pair of task and dispatch
  job, are atomic once the next holder of the lock has recovered, and a repeated callback completes an
  interrupted one. Operations are \<open>journaled\<close>: what they return and write does not depend on the list of writes.
\<close>

subsection \<open>Writes\<close>

lemma coll_put_put [simp]: "coll_put k r (coll_put k r' c) = coll_put k r c"
  by (induction c) auto

lemma coll_remove_simps [simp]:
  "coll_remove k [] = []" "coll_remove k ((k', r) # c) = (if k' = k then coll_remove k c else (k', r) # coll_remove k c)"
  by (simp_all add: coll_remove_def)

definition logged :: "disk_write list \<Rightarrow> design_store \<Rightarrow> design_store" where
  "logged ws s = (fold apply_write ws s)\<lparr>hs_writes := hs_writes s @ ws\<rparr>"

definition files :: "design_store \<Rightarrow> design_store" where
  "files s = s\<lparr>hs_writes := []\<rparr>"

lemma apply_write_log [simp]:
  "apply_write w (s\<lparr>hs_writes := l\<rparr>) = (apply_write w s)\<lparr>hs_writes := l\<rparr>"
  "hs_writes (apply_write w s) = hs_writes s"
  by (cases w; simp)+

lemma fold_write_log [simp]:
  "fold apply_write ws (s\<lparr>hs_writes := l\<rparr>) = (fold apply_write ws s)\<lparr>hs_writes := l\<rparr>"
  "hs_writes (fold apply_write ws s) = hs_writes s"
  by (induction ws arbitrary: s) auto

lemma disk_run [simp]: "disk w s = (Inr (), logged [w] s)"
  by (simp add: disk_def logged_def)

lemma logged_Nil [simp]: "logged [] s = s"
  by (simp add: logged_def)

lemma logged_logged [simp]: "logged ws' (logged ws s) = logged (ws @ ws') s"
  by (simp add: logged_def)

lemma disk_all_run [simp]: "disk_all ws s = (Inr (), logged ws s)"
  by (induction ws arbitrary: s) (simp_all add: act_bind_run)

declare disk_all.simps [simp del]

lemma files_log [simp]:
  "files (s\<lparr>hs_writes := l\<rparr>) = files s" "files (files s) = files s"
  "files (logged ws s) = files (fold apply_write ws s)" "files (logged ws (files s)) = files (logged ws s)"
  by (simp_all add: files_def logged_def)

lemma logged_writes [simp]: "hs_writes (logged ws s) = hs_writes s @ ws"
  by (simp add: logged_def)

lemma logged_transactions [simp]: "hs_transactions (logged ws s) = hs_transactions (fold apply_write ws s)"
  by (simp add: logged_def)

subsection \<open>Journaled operations\<close>

definition journaled :: "'a design_op \<Rightarrow> bool" where
  "journaled m \<longleftrightarrow> (\<forall>s. \<exists>r ws. \<forall>l. m (s\<lparr>hs_writes := l\<rparr>) = (r, logged ws (s\<lparr>hs_writes := l\<rparr>)))"

named_theorems journal_rules \<open>operations that are journaled\<close>

lemma journaledI: "(\<And>s. \<exists>r ws. \<forall>l. m (s\<lparr>hs_writes := l\<rparr>) = (r, logged ws (s\<lparr>hs_writes := l\<rparr>))) \<Longrightarrow> journaled m"
  by (simp add: journaled_def)

lemma same_log: "s\<lparr>hs_writes := hs_writes s\<rparr> = s"
  by simp

lemma journaledE:
  assumes "journaled m"
  obtains r ws where "m s = (r, logged ws s)" and "\<And>l. m (s\<lparr>hs_writes := l\<rparr>) = (r, logged ws (s\<lparr>hs_writes := l\<rparr>))"
proof -
  from assms obtain r ws where rw: "\<And>l. m (s\<lparr>hs_writes := l\<rparr>) = (r, logged ws (s\<lparr>hs_writes := l\<rparr>))"
    unfolding journaled_def by blast
  from this [of "hs_writes s"] have "m s = (r, logged ws s)" by simp
  with rw show ?thesis by (rule that [rotated])
qed

lemma journal_return [journal_rules]: "journaled (act_return a)"
  by (rule journaledI) (metis act_return_run logged_Nil)

lemma journal_throw [journal_rules]: "journaled (act_throw e)"
  by (rule journaledI) (metis act_throw_run logged_Nil)

lemma journal_lift [journal_rules]: "journaled (act_lift r)"
  by (rule journaledI) (metis act_lift_run logged_Nil)

lemma journal_read [journal_rules]:
  "(\<And>s l. f (s\<lparr>hs_writes := l\<rparr>) = f s) \<Longrightarrow> journaled (act_read f)"
  by (rule journaledI) (metis act_read_run logged_Nil)

lemma journal_disk [journal_rules]: "journaled (disk w)" "journaled (disk_all ws)"
  by (rule journaledI; metis disk_run disk_all_run)+

lemma journal_bind [journal_rules]:
  assumes "journaled m" "\<And>a. journaled (f a)"
  shows "journaled (act_bind m f)"
proof (rule journaledI)
  fix s
  obtain r ws where m: "\<And>l. m (s\<lparr>hs_writes := l\<rparr>) = (r, logged ws (s\<lparr>hs_writes := l\<rparr>))"
    using journaledE [OF assms(1)] by metis
  show "\<exists>r ws. \<forall>l. act_bind m f (s\<lparr>hs_writes := l\<rparr>) = (r, logged ws (s\<lparr>hs_writes := l\<rparr>))"
  proof (cases r)
    case (Inl e)
    with m show ?thesis by (auto simp: act_bind_run)
  next
    case (Inr a)
    obtain r' ws' where f: "\<And>l. f a ((fold apply_write ws s)\<lparr>hs_writes := l\<rparr>) = (r', logged ws' ((fold apply_write ws s)\<lparr>hs_writes := l\<rparr>))"
      using journaledE [OF assms(2)] by metis
    have "logged ws (s\<lparr>hs_writes := l\<rparr>) = (fold apply_write ws s)\<lparr>hs_writes := l @ ws\<rparr>" for l
      by (simp add: logged_def)
    then have "act_bind m f (s\<lparr>hs_writes := l\<rparr>) = (r', logged ws' (logged ws (s\<lparr>hs_writes := l\<rparr>)))" for l
      using m Inr f by (simp add: act_bind_run)
    then have "act_bind m f (s\<lparr>hs_writes := l\<rparr>) = (r', logged (ws @ ws') (s\<lparr>hs_writes := l\<rparr>))" for l by simp
    then show ?thesis by blast
  qed
qed

lemma journal_each [journal_rules]: "(\<And>x. journaled (f x)) \<Longrightarrow> journaled (act_each f xs)"
  by (induction xs) (auto intro!: journal_rules)

lemma journal_cases [journal_rules]:
  "(b \<Longrightarrow> journaled m) \<Longrightarrow> (\<not> b \<Longrightarrow> journaled n) \<Longrightarrow> journaled (if b then m else n)"
  "(x = None \<Longrightarrow> journaled m) \<Longrightarrow> (\<And>a. x = Some a \<Longrightarrow> journaled (g a)) \<Longrightarrow>
   journaled (case x of None \<Rightarrow> m | Some a \<Rightarrow> g a)"
  "(\<And>a b. journaled (h a b)) \<Longrightarrow> journaled (case p of (a, b) \<Rightarrow> h a b)"
  by (auto split: option.splits prod.splits)

subsection \<open>Crashes\<close>

definition new_writes :: "'a design_op \<Rightarrow> design_store \<Rightarrow> disk_write list" where
  "new_writes m s = drop (length (hs_writes s)) (hs_writes (snd (m s)))"

text \<open>What is on the disk when the process stops after the first \<open>n\<close> writes.\<close>

definition crashed :: "nat \<Rightarrow> 'a design_op \<Rightarrow> design_store \<Rightarrow> design_store" where
  "crashed n m s = logged (take n (new_writes m s)) s"

lemma journaled_run: "journaled m \<Longrightarrow> snd (m s) = logged (new_writes m s) s"
  by (erule journaledE [of m s]) (simp add: new_writes_def)

text \<open>What the next holder of the lock finds.\<close>

definition settled :: "design_store \<Rightarrow> design_store" where
  "settled s = files (snd (recover_pending_transactions s))"

definition pending_entry :: "str \<times> design_task \<times> dispatch_job \<Rightarrow> bool" where
  "pending_entry e = (case e of (k, t, j) \<Rightarrow> design_task_ok t \<and> dispatch_job_ok j \<and> dj_task j = dt_id t)"

definition pending_ok :: "design_store \<Rightarrow> bool" where
  "pending_ok s \<longleftrightarrow> hs_transactions s = [] \<or> (\<exists>e. hs_transactions s = [e] \<and> pending_entry e)"

definition recovery_writes :: "design_store \<Rightarrow> disk_write list" where
  "recovery_writes s = concat (map (\<lambda>e. case e of (k, t, j) \<Rightarrow>
     if pending_entry e then [WriteTask t, WriteDispatchJob j, RemoveTransaction k] else []) (hs_transactions s))"

lemma complete_transaction_run:
  "complete_transaction e s = (Inr (), logged (case e of (k, t, j) \<Rightarrow>
     if pending_entry e then [WriteTask t, WriteDispatchJob j, RemoveTransaction k] else []) s)"
  by (cases e) (simp add: complete_transaction_def pending_entry_def)

lemma complete_each:
  "act_each complete_transaction es s = (Inr (map (\<lambda>e. ()) es), logged (concat (map (\<lambda>e. case e of (k, t, j) \<Rightarrow>
     if pending_entry e then [WriteTask t, WriteDispatchJob j, RemoveTransaction k] else []) es)) s)"
  by (induction es arbitrary: s) (simp_all add: act_bind_run complete_transaction_run)

lemma recover_run: "recover_pending_transactions s = (Inr (), logged (recovery_writes s) s)"
  by (simp add: recover_pending_transactions_def complete_each act_bind_run recovery_writes_def)

lemma recovery_writes_log [simp]: "recovery_writes (s\<lparr>hs_writes := l\<rparr>) = recovery_writes s"
  by (simp add: recovery_writes_def)

lemma journal_recover [journal_rules]: "journaled recover_pending_transactions"
  by (rule journaledI) (auto simp: recover_run)

lemma journal_lock [journal_rules]: "journaled m \<Longrightarrow> journaled (with_design_lock m)"
  by (simp add: with_design_lock_def journal_rules)

lemma settled_clean: "hs_transactions s = [] \<Longrightarrow> settled s = files s"
  by (simp add: settled_def recover_run recovery_writes_def)

lemma settled_pending:
  "hs_transactions s = [(k, t, j)] \<Longrightarrow> pending_entry (k, t, j) \<Longrightarrow>
   settled s = files (fold apply_write [WriteTask t, WriteDispatchJob j, RemoveTransaction k] s)"
  by (simp add: settled_def recover_run recovery_writes_def)

lemma settled_files [simp]: "settled (s\<lparr>hs_writes := l\<rparr>) = settled s"
  by (simp add: settled_def recover_run)


subsection \<open>Atomic operations\<close>

definition atomic_op :: "'a design_op \<Rightarrow> bool" where
  "atomic_op m \<longleftrightarrow> (\<forall>s n. pending_ok s \<longrightarrow>
     pending_ok (crashed n m s) \<and> settled (crashed n m s) \<in> {settled s, settled (snd (m s))})"

fun touches_transactions :: "disk_write \<Rightarrow> bool" where
  "touches_transactions (WriteTransaction k t j) = True"
| "touches_transactions (RemoveTransaction k) = True"
| "touches_transactions w = False"

definition atomic_writes :: "disk_write list \<Rightarrow> bool" where
  "atomic_writes ws \<longleftrightarrow> ws = [] \<or> (\<exists>w. ws = [w] \<and> \<not> touches_transactions w) \<or>
     (\<exists>k t j. ws = transaction_writes k t j \<and> pending_entry (k, t, j))"

lemma untouched: "\<not> touches_transactions w \<Longrightarrow> hs_transactions (apply_write w s) = hs_transactions s"
  by (cases w) simp_all

text \<open>A transaction, from the first to the last of its four writes.\<close>

lemma transaction_prefix:
  assumes "hs_transactions s = []" "pending_entry (k, t, j)"
  shows "pending_ok (logged (take n (transaction_writes k t j)) s) \<and>
    settled (logged (take n (transaction_writes k t j)) s) \<in> {files s, files (logged (transaction_writes k t j) s)}"
proof -
  consider "n = 0" | "n = 1" | "n = 2" | "n = 3" | m where "n = Suc (Suc (Suc (Suc m)))"
    by (metis One_nat_def Suc_1 eval_nat_numeral(3) not0_implies_Suc)
  then show ?thesis
  proof cases
    case 1
    with assms show ?thesis by (simp add: pending_ok_def settled_clean)
  next
    case 2
    then have "hs_transactions (logged (take n (transaction_writes k t j)) s) = [(k, t, j)]"
      using assms(1) by (simp add: transaction_writes_def)
    with settled_pending [OF this assms(2)] assms 2 show ?thesis
      by (simp add: pending_ok_def transaction_writes_def files_def logged_def)
  next
    case 3
    then have "hs_transactions (logged (take n (transaction_writes k t j)) s) = [(k, t, j)]"
      using assms(1) by (simp add: transaction_writes_def numeral_2_eq_2)
    with settled_pending [OF this assms(2)] assms 3 show ?thesis
      by (simp add: pending_ok_def transaction_writes_def files_def logged_def numeral_2_eq_2)
  next
    case 4
    then have "hs_transactions (logged (take n (transaction_writes k t j)) s) = [(k, t, j)]"
      using assms(1) by (simp add: transaction_writes_def numeral_3_eq_3)
    with settled_pending [OF this assms(2)] assms 4 show ?thesis
      by (simp add: pending_ok_def transaction_writes_def files_def logged_def numeral_3_eq_3)
  next
    case 5
    then have all: "take n (transaction_writes k t j) = transaction_writes k t j" by (simp add: transaction_writes_def)
    have "hs_transactions (logged (transaction_writes k t j) s) = []" using assms(1) by (simp add: transaction_writes_def)
    with settled_clean [OF this] show ?thesis by (simp add: all pending_ok_def)
  qed
qed

lemma atomic_prefix:
  assumes "hs_transactions s = []" "atomic_writes ws"
  shows "pending_ok (logged (take n ws) s) \<and> settled (logged (take n ws) s) \<in> {files s, files (logged ws s)}"
    and "hs_transactions (logged ws s) = []"
proof -
  from assms(2) consider "ws = []" | w where "ws = [w]" "\<not> touches_transactions w"
    | k t j where "ws = transaction_writes k t j" "pending_entry (k, t, j)" by (auto simp: atomic_writes_def)
  then have "(pending_ok (logged (take n ws) s) \<and> settled (logged (take n ws) s) \<in> {files s, files (logged ws s)}) \<and>
    hs_transactions (logged ws s) = []"
  proof cases
    case 1
    with assms(1) show ?thesis by (simp add: pending_ok_def settled_clean)
  next
    case 2
    then show ?thesis using assms(1) settled_clean [of "logged [w] s"] settled_clean [OF assms(1)]
      by (cases n) (simp_all add: untouched pending_ok_def)
  next
    case 3
    with assms(1) transaction_prefix [OF assms(1) 3(2), of n] show ?thesis by (simp add: transaction_writes_def)
  qed
  then show "pending_ok (logged (take n ws) s) \<and> settled (logged (take n ws) s) \<in> {files s, files (logged ws s)}"
    and "hs_transactions (logged ws s) = []" by simp_all
qed

text \<open>Recovery itself may be interrupted: what it leaves recovers to the same files.\<close>

lemma recovery_prefix:
  assumes "pending_ok s"
  shows "pending_ok (logged (take n (recovery_writes s)) s) \<and> settled (logged (take n (recovery_writes s)) s) = settled s"
    and "hs_transactions (logged (recovery_writes s) s) = []"
proof -
  from assms consider "hs_transactions s = []" | k t j where "hs_transactions s = [(k, t, j)]" "pending_entry (k, t, j)"
    by (auto simp: pending_ok_def)
  then have "(pending_ok (logged (take n (recovery_writes s)) s) \<and> settled (logged (take n (recovery_writes s)) s) = settled s) \<and>
    hs_transactions (logged (recovery_writes s) s) = []"
  proof cases
    case 1
    then show ?thesis by (simp add: recovery_writes_def pending_ok_def)
  next
    case 2
    then have ws: "recovery_writes s = [WriteTask t, WriteDispatchJob j, RemoveTransaction k]" by (simp add: recovery_writes_def)
    consider "n = 0" | "n = 1" | "n = 2" | m where "n = Suc (Suc (Suc m))"
      by (metis One_nat_def Suc_1 not0_implies_Suc)
    then show ?thesis
    proof cases
      case 4
      then show ?thesis using 2 ws settled_clean [of "logged (take n (recovery_writes s)) s"] settled_pending [OF 2]
        by (simp add: pending_ok_def)
    qed (use 2 ws settled_pending [OF 2] settled_pending [OF _ 2(2), of "logged (take n (recovery_writes s)) s"] in
        \<open>simp_all add: pending_ok_def files_def logged_def numeral_2_eq_2\<close>)
  qed
  then show "pending_ok (logged (take n (recovery_writes s)) s) \<and> settled (logged (take n (recovery_writes s)) s) = settled s"
    and "hs_transactions (logged (recovery_writes s) s) = []" by simp_all
qed

lemma new_writes_lock:
  assumes "journaled m"
  shows "new_writes (with_design_lock m) s = recovery_writes s @ new_writes m (logged (recovery_writes s) s)"
  using journaled_run [OF assms, of "logged (recovery_writes s) s"]
  by (simp add: new_writes_def with_design_lock_def act_bind_run recover_run) (metis drop_append append_Nil2 drop_eq_Nil append.assoc
      append_eq_conv_conj logged_writes)

lemma design_lock_run: "with_design_lock m s = m (logged (recovery_writes s) s)"
  by (simp add: with_design_lock_def act_bind_run recover_run)

lemma atomic_lock:
  assumes "journaled m" "\<And>s. hs_transactions s = [] \<Longrightarrow> atomic_writes (new_writes m s)"
  shows "atomic_op (with_design_lock m)"
  unfolding atomic_op_def
proof (intro allI impI)
  fix s n
  assume ok: "pending_ok s"
  let ?r = "recovery_writes s"
  let ?s0 = "logged ?r s"
  let ?ws = "new_writes m ?s0"
  note clean = recovery_prefix(2) [OF ok]
  note atomic = assms(2) [OF clean]
  have final: "snd (with_design_lock m s) = logged ?ws ?s0" by (simp add: design_lock_run journaled_run [OF assms(1)])
  have done': "settled (snd (with_design_lock m s)) = files (logged ?ws ?s0)"
    unfolding final by (rule settled_clean [OF atomic_prefix(2) [OF clean atomic]])
  have start: "settled s = files ?s0" by (simp add: settled_def recover_run)
  show "pending_ok (crashed n (with_design_lock m) s) \<and>
    settled (crashed n (with_design_lock m) s) \<in> {settled s, settled (snd (with_design_lock m s))}"
  proof (cases "n \<le> length ?r")
    case True
    then have "crashed n (with_design_lock m) s = logged (take n ?r) s"
      by (simp add: crashed_def new_writes_lock [OF assms(1)])
    with recovery_prefix(1) [OF ok] show ?thesis by simp
  next
    case False
    then have "crashed n (with_design_lock m) s = logged (take (n - length ?r) ?ws) ?s0"
      by (simp add: crashed_def new_writes_lock [OF assms(1)])
    with atomic_prefix(1) [OF clean atomic, of "n - length ?r"] done' start show ?thesis by simp
  qed
qed

lemma atomic_lift: "(\<And>a. r = Inr a \<Longrightarrow> atomic_op (f a)) \<Longrightarrow> atomic_op (act_bind (act_lift r) f)"
  by (cases r) (simp_all add: atomic_op_def crashed_def new_writes_def act_bind_run)


lemma atomic_throw: "atomic_op (act_throw e)"
  by (simp add: atomic_op_def crashed_def new_writes_def)

subsection \<open>The operations\<close>

lemma reads_log [simp]:
  "get_design_task k (s\<lparr>hs_writes := l\<rparr>) = get_design_task k s"
  "list_design_tasks f (s\<lparr>hs_writes := l\<rparr>) = list_design_tasks f s"
  "get_dispatch_job k (s\<lparr>hs_writes := l\<rparr>) = get_dispatch_job k s"
  "list_dispatch_jobs (s\<lparr>hs_writes := l\<rparr>) = list_dispatch_jobs s"
  "get_callback_job k (s\<lparr>hs_writes := l\<rparr>) = get_callback_job k s"
  "list_callback_jobs (s\<lparr>hs_writes := l\<rparr>) = list_callback_jobs s"
  by (simp_all add: get_design_task_def list_design_tasks_def get_dispatch_job_def list_dispatch_jobs_def
    get_callback_job_def list_callback_jobs_def)

lemma new_writesI: "m s = (r, logged ws s) \<Longrightarrow> new_writes m s = ws"
  by (simp add: new_writes_def)

lemma atomic_writesI:
  "atomic_writes []" "\<not> touches_transactions w \<Longrightarrow> atomic_writes [w]"
  "pending_entry (k, t, j) \<Longrightarrow> atomic_writes (transaction_writes k t j)"
  by (auto simp: atomic_writes_def)

definition writes_atomically :: "'a design_op \<Rightarrow> bool" where
  "writes_atomically m \<longleftrightarrow> (\<forall>s. \<exists>r ws. m s = (r, logged ws s) \<and> atomic_writes ws)"

lemma writes_atomically_lock: "journaled m \<Longrightarrow> writes_atomically m \<Longrightarrow> atomic_op (with_design_lock m)"
  by (rule atomic_lock) (auto simp: writes_atomically_def dest!: spec new_writesI)

lemma writes_atomically_pure:
  "writes_atomically (act_return a)" "writes_atomically (act_throw e)" "writes_atomically (act_lift r)"
  by (auto simp: writes_atomically_def intro!: exI [of _ "[]"] atomic_writesI)

lemma writes_atomically_disk:
  "\<not> touches_transactions w \<Longrightarrow> writes_atomically (disk w)"
  "pending_entry (dj_key j, t, j) \<Longrightarrow> writes_atomically (write_task_and_dispatch t j)"
  by (auto simp: writes_atomically_def write_task_and_dispatch_def intro!: exI atomic_writesI)

text \<open>Reading and checking first, or returning after the write, changes no writes.\<close>

lemma writes_atomically_before:
  "(\<And>a. writes_atomically (f a)) \<Longrightarrow> writes_atomically (act_bind (act_read g) f)"
  "(\<And>a. r = Inr a \<Longrightarrow> writes_atomically (f a)) \<Longrightarrow> writes_atomically (act_bind (act_lift r) f)"
proof -
  assume "\<And>a. writes_atomically (f a)"
  then show "writes_atomically (act_bind (act_read g) f)" by (simp add: writes_atomically_def)
next
  assume f: "\<And>a. r = Inr a \<Longrightarrow> writes_atomically (f a)"
  show "writes_atomically (act_bind (act_lift r) f)"
  proof (cases r)
    case (Inl e)
    have "act_bind (act_lift r) f s = (Inl e, logged [] s)" for s by (simp add: Inl act_bind_run)
    then show ?thesis unfolding writes_atomically_def by (blast intro: atomic_writesI)
  next
    case (Inr a)
    with f show ?thesis by (simp add: writes_atomically_def act_bind_run)
  qed
qed

lemma writes_atomically_then:
  assumes "writes_atomically m"
  shows "writes_atomically (act_bind m (\<lambda>x. act_return (g x)))"
  unfolding writes_atomically_def
proof
  fix s
  from assms obtain r ws where m: "m s = (r, logged ws s)" "atomic_writes ws" unfolding writes_atomically_def by blast
  then have "act_bind m (\<lambda>x. act_return (g x)) s = (map_sum id g r, logged ws s)" by (cases r) (simp_all add: act_bind_run)
  with m(2) show "\<exists>r ws. act_bind m (\<lambda>x. act_return (g x)) s = (r, logged ws s) \<and> atomic_writes ws" by blast
qed

lemma writes_atomically_if:
  "(b \<Longrightarrow> writes_atomically m) \<Longrightarrow> (\<not> b \<Longrightarrow> writes_atomically n) \<Longrightarrow> writes_atomically (if b then m else n)"
  "(x = None \<Longrightarrow> writes_atomically m) \<Longrightarrow> (\<And>a. x = Some a \<Longrightarrow> writes_atomically (g a)) \<Longrightarrow>
   writes_atomically (case x of None \<Rightarrow> m | Some a \<Rightarrow> g a)"
  by (auto split: option.splits)

lemmas atomic_rules = writes_atomically_pure writes_atomically_disk writes_atomically_before writes_atomically_then
  writes_atomically_if

lemma writes_atomically_enqueue: "writes_atomically (enqueue_dispatch_unlocked j)"
  unfolding enqueue_dispatch_unlocked_def by (intro atomic_rules) simp

lemma writes_atomically_create:
  assumes "design_task_ok t" "\<And>j. job = Some j \<Longrightarrow> dispatch_job_ok j \<and> dj_task j = dt_id t"
  shows "writes_atomically (create_task_locked t job)"
proof -
  have "writes_atomically (act_bind (enqueue_dispatch_unlocked j) (\<lambda>(j', created). act_return (g j')))" for j and g :: "dispatch_job \<Rightarrow> task_creation"
    using writes_atomically_then [OF writes_atomically_enqueue, where g = "\<lambda>(j', created). g j'"] by (simp add: case_prod_unfold)
  with assms show ?thesis
    unfolding create_task_locked_def by (intro atomic_rules) (simp_all add: pending_entry_def)
qed

lemma journal_operations [journal_rules]:
  "journaled (enqueue_dispatch_unlocked j)" "journaled (create_task_locked t job)"
  unfolding enqueue_dispatch_unlocked_def create_task_locked_def write_task_and_dispatch_def
  by (intro journal_rules; simp)+

lemma create_is_atomic: "atomic_op (create_task_atomically t job)"
  unfolding create_task_atomically_def
  by (intro atomic_lift writes_atomically_lock journal_rules writes_atomically_create)
    (auto simp: res_bind_Inr_iff split: option.splits)

lemma update_is_atomic: "atomic_op (update_task_atomically k f)"
  unfolding update_task_atomically_def with_task_def
  by (intro writes_atomically_lock journal_rules atomic_rules) simp_all

lemma writes_atomically_update:
  assumes "pending_entry (dj_key j, t, j)"
  shows "writes_atomically (write_dispatch_update t j)"
  unfolding write_dispatch_update_def by (intro atomic_rules) (simp_all add: assms)

lemma journal_update [journal_rules]: "journaled (write_dispatch_update t j)" "journaled (accept_callback_locked c)"
  unfolding write_dispatch_update_def accept_callback_locked_def write_task_and_dispatch_def
  by (intro journal_rules; simp)+

lemma checked_dispatch_pending: "checked_dispatch f c = Inr (t, j) \<Longrightarrow> pending_entry (k, t, j)"
  by (auto simp: checked_dispatch_def pending_entry_def res_bind_Inr_iff)

lemma update_and_enqueue_is_atomic: "atomic_op (update_task_and_enqueue k f)"
proof -
  have core: "writes_atomically (act_bind (act_lift (checked_dispatch f c)) (\<lambda>(t, j). write_dispatch_update t j))" for c
  proof (rule writes_atomically_before(2))
    fix p
    assume "checked_dispatch f c = Inr p"
    then show "writes_atomically (case p of (t, j) \<Rightarrow> write_dispatch_update t j)"
      by (cases p) (auto intro: writes_atomically_update checked_dispatch_pending)
  qed
  show ?thesis
    unfolding update_task_and_enqueue_def with_task_def
    by (intro writes_atomically_lock journal_rules atomic_rules core) simp_all
qed

lemma accept_is_atomic: "atomic_op (accept_callback_job b j)"
proof -
  have "writes_atomically (accept_callback_locked j)"
    unfolding accept_callback_locked_def by (intro atomic_rules) simp_all
  then show ?thesis
    unfolding accept_callback_job_def with_task_def
    by (auto intro!: atomic_throw atomic_lift writes_atomically_lock journal_rules atomic_rules)
qed

lemma enqueue_is_atomic: "atomic_op (enqueue_dispatch_atomically j)"
  unfolding enqueue_dispatch_atomically_def
  by (intro atomic_lift writes_atomically_lock journal_rules writes_atomically_enqueue)

subsection \<open>Callbacks are applied once\<close>

definition design_wf :: "design_store \<Rightarrow> bool" where
  "design_wf s \<longleftrightarrow> coll_wf dt_id (hs_tasks s) \<and> coll_wf cb_id (hs_callbacks s) \<and>
     coll_wf dj_id (hs_callback_jobs s) \<and> coll_wf dj_id (hs_dispatch_jobs s)"

lemma design_wf_log [simp]: "design_wf (s\<lparr>hs_writes := l\<rparr>) = design_wf s"
  by (simp add: design_wf_def)

lemma apply_write_wf: "design_wf s \<Longrightarrow> design_wf (apply_write w s)"
  by (cases w) (simp_all add: design_wf_def coll_wf_put)

lemma logged_wf: "design_wf s \<Longrightarrow> design_wf (logged ws s)"
proof -
  have "design_wf s \<Longrightarrow> design_wf (fold apply_write ws s)" by (induction ws arbitrary: s) (simp_all add: apply_write_wf)
  then show "design_wf s \<Longrightarrow> design_wf (logged ws s)" by (simp add: logged_def)
qed

lemma journaled_same_files:
  assumes "journaled m" "files a = files b" "m a = (r, a')"
  shows "\<exists>b'. m b = (r, b') \<and> files b' = files a'"
proof -
  have b: "b = a\<lparr>hs_writes := hs_writes b\<rparr>" using assms(2) by (simp add: files_def) (metis design_store.surjective design_store.update_convs(6))
  obtain ws where "m a = (r, logged ws a)" "\<And>l. m (a\<lparr>hs_writes := l\<rparr>) = (r, logged ws (a\<lparr>hs_writes := l\<rparr>))"
    using journaledE [OF assms(1), of a] assms(3) by (metis Pair_inject)
  with assms(3) b have "m b = (r, logged ws b)" "a' = logged ws a" by (metis, simp)
  moreover have "files (logged ws b) = files (logged ws a)" using assms(2) by (metis files_log(4))
  ultimately show ?thesis by blast
qed

lemma apply_callback_eq:
  "callback_ok c \<Longrightarrow> apply_callback_atomically k c f = with_task k (apply_callback_locked c f)"
  by (rule ext) (simp add: apply_callback_atomically_def act_bind_run require_def)

lemma journal_task [journal_rules]:
  "(\<And>t. journaled (g t)) \<Longrightarrow> journaled (act_bind (act_read (get_design_task k)) (\<lambda>current.
     case current of None \<Rightarrow> act_throw e | Some t \<Rightarrow> g t))"
  by (intro journal_rules) simp_all

lemma journal_callback [journal_rules]: "journaled (apply_callback_locked c f t)"
  unfolding apply_callback_locked_def by (intro journal_rules)

lemma journal_with_task: "(\<And>t. journaled (g t)) \<Longrightarrow> journaled (with_task k g)"
  unfolding with_task_def by (intro journal_lock journal_task)

lemma task_found:
  assumes "hs_transactions s = []" "get_design_task k s = Some t"
  shows "with_task k g s = g t s"
  using assms by (simp add: with_task_def design_lock_run recovery_writes_def)

lemma get_task_written:
  "design_task_ok t \<Longrightarrow> get_design_task (dt_id t) (logged [WriteTask t] s) = Some t"
  "design_task_ok t \<Longrightarrow> get_design_task (dt_id t) (logged [WriteTask t, WriteCallback c] s) = Some t"
  by (simp_all add: get_design_task_def record_get_def logged_def)

lemma task_id: "design_wf s \<Longrightarrow> get_design_task k s = Some t \<Longrightarrow> dt_id t = k \<and> design_task_ok t"
  by (auto simp: get_design_task_def record_get_def design_wf_def split: option.splits if_splits dest: coll_get_key)

lemma callback_again:
  assumes "callback_ok c" "hs_transactions s = []" "get_design_task k s = Some t" "cb_id c \<in> set (dt_callbacks t)"
  shows "apply_callback_atomically k c g s = (Inr (t, True), logged [WriteCallback c] s)"
  using assms(4) by (simp add: apply_callback_eq [OF assms(1)] task_found [OF assms(2,3)] apply_callback_locked_def act_bind_run)

lemma callback_run:
  assumes "design_wf s" "pending_ok s" "apply_callback_atomically k c f s = (Inr (t, False), s')"
  obtains cur where "callback_ok c" "s' = logged [WriteTask t, WriteCallback c] (logged (recovery_writes s) s)"
    and "get_design_task k (logged (recovery_writes s) s) = Some cur" "cb_id c \<notin> set (dt_callbacks cur)"
    and "design_task_ok t" "dt_id t = k" "cb_id c \<in> set (dt_callbacks t)"
proof -
  let ?s0 = "logged (recovery_writes s) s"
  have c: "callback_ok c" using assms(3) by (auto simp: apply_callback_atomically_def act_bind_run require_def split: if_splits)
  have run: "with_task k (apply_callback_locked c f) s = (Inr (t, False), s')"
    using assms(3) by (simp add: apply_callback_eq [OF c])
  then obtain cur where cur: "get_design_task k ?s0 = Some cur" "apply_callback_locked c f cur ?s0 = (Inr (t, False), s')"
    by (auto simp: with_task_def design_lock_run split: option.splits)
  then have new: "cb_id c \<notin> set (dt_callbacks cur)" by (auto simp: apply_callback_locked_def act_bind_run split: if_splits)
  with cur(2) have checked: "checked_callback c f cur = Inr t" "s' = logged [WriteTask t, WriteCallback c] ?s0"
    by (auto simp: apply_callback_locked_def act_bind_run split: sum.splits)
  then have "design_task_ok t" "dt_id t = dt_id cur" "cb_id c \<in> set (dt_callbacks t)"
    by (auto simp: checked_callback_def res_bind_Inr_iff)
  with task_id [OF logged_wf [OF assms(1)] cur(1)] show ?thesis using that c checked(2) cur(1) new by blast
qed

lemma callback_repeated:
  assumes "design_wf s" "pending_ok s" "apply_callback_atomically k c f s = (Inr (t, False), s')"
  shows "\<exists>s''. apply_callback_atomically k c g s' = (Inr (t, True), s'') \<and> files s'' = files s'"
proof -
  let ?s0 = "logged (recovery_writes s) s"
  obtain cur where c: "callback_ok c" and s': "s' = logged [WriteTask t, WriteCallback c] ?s0"
    and t: "design_task_ok t" "dt_id t = k" "cb_id c \<in> set (dt_callbacks t)"
    using callback_run [OF assms] by metis
  have "hs_transactions s' = []" using recovery_prefix(2) [OF assms(2)] by (simp add: s')
  moreover have "get_design_task k s' = Some t"
    using get_task_written(2) [OF t(1), of c ?s0] t(2) by (simp add: s' del: logged_logged)
  ultimately have "apply_callback_atomically k c g s' = (Inr (t, True), logged [WriteCallback c] s')"
    by (rule callback_again [OF c _ _ t(3)])
  moreover have "files (logged [WriteCallback c] s') = files s'" by (simp add: s' files_def logged_def)
  ultimately show ?thesis by simp
qed

lemma callback_crash:
  assumes "design_wf s" "pending_ok s" "apply_callback_atomically k c f s = (Inr (t, False), s')"
  shows "\<exists>dup s''. apply_callback_atomically k c f (crashed n (apply_callback_atomically k c f) s) = (Inr (t, dup), s'') \<and>
    files s'' = files s'"
proof -
  let ?m = "apply_callback_atomically k c f" and ?r = "recovery_writes s"
  let ?s0 = "logged ?r s" and ?ws = "[WriteTask t, WriteCallback c]"
  let ?i = "act_bind (act_read (get_design_task k)) (\<lambda>current.
        case current of None \<Rightarrow> act_throw (DesignTaskNotFound k) | Some t \<Rightarrow> apply_callback_locked c f t)"
  obtain cur where c: "callback_ok c" and s': "s' = logged ?ws ?s0" and t: "design_task_ok t" "dt_id t = k" "cb_id c \<in> set (dt_callbacks t)"
    using callback_run [OF assms] by metis
  have clean: "hs_transactions ?s0 = []" by (rule recovery_prefix(2) [OF assms(2)])
  have m: "?m = with_task k (apply_callback_locked c f)" by (rule apply_callback_eq [OF c])
  have j: "journaled ?m" unfolding m by (intro journal_with_task journal_rules)
  have new: "new_writes ?m s = ?r @ ?ws" using assms(3) by (intro new_writesI) (simp add: s')
  consider "n \<le> length ?r" | "n = Suc (length ?r)" | "Suc (length ?r) < n" by linarith
  then show ?thesis
  proof cases
    case 1
    let ?c = "logged (take n ?r) s"
    have at: "crashed n ?m s = ?c" using 1 by (simp add: crashed_def new)
    have "files (logged (recovery_writes ?c) ?c) = files ?s0"
      using recovery_prefix(1) [OF assms(2), of n] by (simp add: settled_def recover_run)
    then have same: "files ?s0 = files (logged (recovery_writes ?c) ?c)" by simp
    have "?i ?s0 = (Inr (t, False), s')" using assms(3) by (simp add: m with_task_def design_lock_run)
    from journaled_same_files [OF journal_task [OF journal_callback] same this] obtain b
      where "?i (logged (recovery_writes ?c) ?c) = (Inr (t, False), b)" "files b = files s'" by blast
    moreover from this have "?m ?c = (Inr (t, False), b)" by (simp only: m with_task_def design_lock_run)
    ultimately show ?thesis unfolding at by blast
  next
    case 2
    let ?c = "logged [WriteTask t] ?s0"
    have at: "crashed n ?m s = ?c" using 2 by (simp add: crashed_def new)
    have "hs_transactions ?c = []" using clean by simp
    moreover have "get_design_task k ?c = Some t" using get_task_written(1) [OF t(1), of ?s0] t(2) by (simp del: logged_logged)
    ultimately have "?m ?c = (Inr (t, True), logged [WriteCallback c] ?c)" by (rule callback_again [OF c _ _ t(3)])
    moreover have "logged [WriteCallback c] ?c = s'" by (simp add: s')
    ultimately have "?m ?c = (Inr (t, True), s')" by (simp only:)
    then show ?thesis unfolding at by blast
  next
    case 3
    then have "take n (?r @ ?ws) = ?r @ ?ws" by simp
    then have at: "crashed n ?m s = s'" by (simp only: crashed_def new s' logged_logged)
    show ?thesis unfolding at using callback_repeated [OF assms] by blast
  qed
qed

subsection \<open>Stores reached with crashes\<close>

definition quiet :: "'a design_op \<Rightarrow> bool" where
  "quiet m \<longleftrightarrow> (\<forall>s. \<exists>r ws. m s = (r, logged ws s) \<and> list_all (\<lambda>w. \<not> touches_transactions w) ws)"

named_theorems quiet_rules \<open>operations that leave the transactions alone\<close>

lemma quietI: "(\<And>s. \<exists>r ws. m s = (r, logged ws s) \<and> list_all (\<lambda>w. \<not> touches_transactions w) ws) \<Longrightarrow> quiet m"
  by (simp add: quiet_def)

lemma quiet_pure [quiet_rules]:
  "quiet (act_return a)" "quiet (act_throw e)" "quiet (act_lift r)" "quiet (act_read g)"
  by (rule quietI, metis act_return_run act_throw_run act_lift_run act_read_run logged_Nil list.pred_inject(1))+

lemma quiet_disk [quiet_rules]: "\<not> touches_transactions w \<Longrightarrow> quiet (disk w)"
  by (rule quietI) (metis disk_run list.pred_inject)

lemma quiet_bind [quiet_rules]:
  assumes "quiet m" "\<And>a. quiet (f a)"
  shows "quiet (act_bind m f)"
proof (rule quietI)
  fix s
  from assms(1) obtain r ws where m: "m s = (r, logged ws s)" "list_all (\<lambda>w. \<not> touches_transactions w) ws"
    unfolding quiet_def by blast
  show "\<exists>r ws. act_bind m f s = (r, logged ws s) \<and> list_all (\<lambda>w. \<not> touches_transactions w) ws"
  proof (cases r)
    case (Inl e)
    with m show ?thesis by (auto simp: act_bind_run)
  next
    case (Inr a)
    from assms(2) [of a] obtain r' ws' where f: "f a (logged ws s) = (r', logged ws' (logged ws s))"
      "list_all (\<lambda>w. \<not> touches_transactions w) ws'"
      unfolding quiet_def by blast
    with m Inr have "act_bind m f s = (r', logged (ws @ ws') s)" by (simp add: act_bind_run)
    with m(2) f(2) show ?thesis by (metis list_all_append)
  qed
qed

lemma quiet_disk_all [quiet_rules]: "list_all (\<lambda>w. \<not> touches_transactions w) ws \<Longrightarrow> quiet (disk_all ws)"
  by (rule quietI) (metis disk_all_run)

lemma quiet_each [quiet_rules]: "(\<And>x. quiet (f x)) \<Longrightarrow> quiet (act_each f xs)"
  by (induction xs) (auto intro!: quiet_rules)

lemma quiet_cases [quiet_rules]:
  "(b \<Longrightarrow> quiet m) \<Longrightarrow> (\<not> b \<Longrightarrow> quiet n) \<Longrightarrow> quiet (if b then m else n)"
  "(x = None \<Longrightarrow> quiet m) \<Longrightarrow> (\<And>a. x = Some a \<Longrightarrow> quiet (g a)) \<Longrightarrow> quiet (case x of None \<Rightarrow> m | Some a \<Rightarrow> g a)"
  "(\<And>a b. quiet (h a b)) \<Longrightarrow> quiet (case p of (a, b) \<Rightarrow> h a b)"
  by (auto split: option.splits prod.splits)

lemma quiet_prefix: "list_all (\<lambda>w. \<not> touches_transactions w) ws \<Longrightarrow> hs_transactions (logged (take n ws) s) = hs_transactions s"
proof (induction ws arbitrary: n s)
  case (Cons w ws)
  then show ?case by (cases n) (simp_all add: untouched)
qed simp

lemma quiet_pending:
  assumes "journaled m" "quiet m" "pending_ok s"
  shows "pending_ok (crashed n (with_design_lock m) s)"
proof -
  let ?r = "recovery_writes s"
  let ?s0 = "logged ?r s"
  have clean: "hs_transactions ?s0 = []" by (rule recovery_prefix(2) [OF assms(3)])
  show ?thesis
  proof (cases "n \<le> length ?r")
    case True
    with recovery_prefix(1) [OF assms(3), of n] show ?thesis by (simp add: crashed_def new_writes_lock [OF assms(1)])
  next
    case False
    then have at: "crashed n (with_design_lock m) s = logged (take (n - length ?r) (new_writes m ?s0)) ?s0"
      by (simp add: crashed_def new_writes_lock [OF assms(1)])
    from assms(2) obtain r ws where "m ?s0 = (r, logged ws ?s0)" and ws: "list_all (\<lambda>w. \<not> touches_transactions w) ws"
      unfolding quiet_def by blast
    then have "new_writes m ?s0 = ws" by (intro new_writesI)
    with quiet_prefix [OF ws, of "n - length ?r" ?s0] clean show ?thesis unfolding at pending_ok_def by simp
  qed
qed

inductive design_life :: "design_store \<Rightarrow> bool" where
  dl_new: "design_life empty_design_store"
| dl_create: "design_life s \<Longrightarrow> design_life (crashed n (create_task_atomically t job) s)"
| dl_update: "design_life s \<Longrightarrow> design_life (crashed n (update_task_atomically k f) s)"
| dl_update_enqueue: "design_life s \<Longrightarrow> design_life (crashed n (update_task_and_enqueue k g) s)"
| dl_enqueue: "design_life s \<Longrightarrow> design_life (crashed n (enqueue_dispatch_atomically j) s)"
| dl_accept: "design_life s \<Longrightarrow> design_life (crashed n (accept_callback_job b c) s)"
| dl_callback: "design_life s \<Longrightarrow> design_life (crashed n (apply_callback_atomically k cb f) s)"
| dl_claim_dispatch: "design_life s \<Longrightarrow> design_life (crashed n (claim_due_dispatch_jobs i) s)"
| dl_claim_callback: "design_life s \<Longrightarrow> design_life (crashed n (claim_due_callback_jobs i) s)"
| dl_dispatch_job: "design_life s \<Longrightarrow> design_life (crashed n (update_dispatch_job k token h) s)"
| dl_callback_job: "design_life s \<Longrightarrow> design_life (crashed n (update_callback_job k token h') s)"

lemma queue_reads_log [simp]:
  "jq_list dispatch_queue (s\<lparr>hs_writes := l\<rparr>) = jq_list dispatch_queue s"
  "jq_get dispatch_queue k (s\<lparr>hs_writes := l\<rparr>) = jq_get dispatch_queue k s"
  "jq_list callback_queue (s\<lparr>hs_writes := l\<rparr>) = jq_list callback_queue s"
  "jq_get callback_queue k (s\<lparr>hs_writes := l\<rparr>) = jq_get callback_queue k s"
  by (simp_all add: dispatch_queue_def callback_queue_def)

lemma queue_writes_quiet [simp]:
  "\<not> touches_transactions (jq_write dispatch_queue j)" "\<not> touches_transactions (jq_write callback_queue c)"
  by (simp_all add: dispatch_queue_def callback_queue_def)

lemmas queue_defs = bury_exhausted_def save_design_job_def take_job_def

lemma pending_queue:
  assumes "pending_ok s" "\<And>s l. jq_list q (s\<lparr>hs_writes := l\<rparr>) = jq_list q s"
    "\<And>s l. jq_get q k (s\<lparr>hs_writes := l\<rparr>) = jq_get q k s" "\<And>j. \<not> touches_transactions (jq_write q j)"
  shows "pending_ok (crashed n (claim_design_jobs q i) s)" "pending_ok (crashed n (update_design_job q k token h) s)"
proof -
  show "pending_ok (crashed n (claim_design_jobs q i) s)"
    unfolding claim_design_jobs_def
    by (rule quiet_pending [OF _ _ assms(1)]; unfold queue_defs; (intro journal_rules quiet_rules; (simp add: assms)?))
  show "pending_ok (crashed n (update_design_job q k token h) s)"
    unfolding update_design_job_def
    by (rule quiet_pending [OF _ _ assms(1)]; (intro journal_rules quiet_rules; (simp add: assms)?))
qed

lemma crashed_wf: "design_wf s \<Longrightarrow> design_wf (crashed n m s)"
  by (simp add: crashed_def logged_wf)

lemma pending_callback: "pending_ok s \<Longrightarrow> pending_ok (crashed n (apply_callback_atomically k c f) s)"
proof (cases "callback_ok c")
  case True
  show "pending_ok s \<Longrightarrow> ?thesis"
    unfolding apply_callback_eq [OF True] with_task_def apply_callback_locked_def
    by (rule quiet_pending) (intro journal_rules quiet_rules; simp)+
next
  case False
  then have "apply_callback_atomically k c f s = (Inl DesignSchemaError, s)"
    by (simp add: apply_callback_atomically_def act_bind_run require_def)
  then show "pending_ok s \<Longrightarrow> ?thesis" by (simp add: crashed_def new_writes_def)
qed

lemma life_invariants: "design_life s \<Longrightarrow> pending_ok s \<and> design_wf s"
proof (induction rule: design_life.induct)
  case dl_new
  show ?case by (simp add: pending_ok_def design_wf_def empty_design_store_def)
qed (auto simp: crashed_wf claim_due_dispatch_jobs_def claim_due_callback_jobs_def update_dispatch_job_def update_callback_job_def
    intro: pending_callback pending_queue
      create_is_atomic [unfolded atomic_op_def, rule_format, THEN conjunct1]
      update_is_atomic [unfolded atomic_op_def, rule_format, THEN conjunct1]
      update_and_enqueue_is_atomic [unfolded atomic_op_def, rule_format, THEN conjunct1]
      enqueue_is_atomic [unfolded atomic_op_def, rule_format, THEN conjunct1]
      accept_is_atomic [unfolded atomic_op_def, rule_format, THEN conjunct1])

text \<open>
  C11: a task and its dispatch job are written together or not at all. Wherever a process stops while it
  creates or requeues a task, in a store reached by any operations, complete or interrupted, what the
  next holder of the lock finds after its recovery is the store before or the store after the whole
  operation.
\<close>

theorem task_and_job_written_together:
  assumes "design_life s"
  shows "settled (crashed n (create_task_atomically t job) s) \<in> {settled s, settled (snd (create_task_atomically t job s))} \<and>
    settled (crashed n (update_task_and_enqueue k f) s) \<in> {settled s, settled (snd (update_task_and_enqueue k f s))}"
  using life_invariants [OF assms] create_is_atomic [of t job] update_and_enqueue_is_atomic [of k f]
  by (auto simp: atomic_op_def)


end
