(* ===== verification/DesignQueues.thy ===== *)
theory DesignQueues imports DesignCrash LeaseTable begin

text \<open>
  The two queues of the design store. The locale \<open>design_queue\<close> states what the claims and updates
  rely on (a collection keyed by the identifiers of its jobs, listed by due time, whose schema admits the
  jobs they write); its facts are used for both. They say what a claim takes and buries and that both queues
  refine the lease table of the job queue.
\<close>

definition claim_ok :: "job_claim \<Rightarrow> bool" where
  "claim_ok i \<longleftrightarrow> jc_by i \<noteq> [] \<and> 0 < jc_lease_seconds i \<and> (\<forall>n. jc_tokens i n \<noteq> [])"

definition stable_store :: "design_store \<Rightarrow> bool" where
  "stable_store s \<longleftrightarrow> design_wf s \<and> hs_transactions s = []"

lemma lock_stable: "stable_store s \<Longrightarrow> with_design_lock m s = m s"
  by (simp add: stable_store_def design_lock_run recovery_writes_def)

lemma job_fields [simp]:
  "dj_id (buried_job reason now j) = dj_id j" "dj_id (taken_job i n j) = dj_id j"
  "dj_attempts (buried_job reason now j) = dj_attempts j" "dj_attempts (taken_job i n j) = dj_attempts j + 1"
  "\<not> claimable_job now (buried_job reason now j)" "\<not> exhausted_job now' (buried_job reason now j)"
  by (simp_all add: buried_job_def taken_job_def claimable_job_def exhausted_job_def lease_over_def)

lemma taken_not_over: "claim_ok i \<Longrightarrow> \<not> lease_over (jc_now i) (taken_job i n j)"
  by (simp add: claim_ok_def taken_job_def lease_over_def)

lemma claimable_not_exhausted: "claimable_job now j \<Longrightarrow> \<not> exhausted_job now j"
  by (simp add: claimable_job_def exhausted_job_def)

locale design_queue = keyed_collection dj_id "jq_ok q" "save_design_job q" "jq_list q" stable_store "\<lambda>s k. jq_get q k s"
  for q :: "('p, 'r) job_queue" +
  assumes buried_ok: "jq_ok q j \<Longrightarrow> jq_ok q (buried_job (jq_expired q) now j)"
    and taken_ok: "jq_ok q j \<Longrightarrow> claim_ok i \<Longrightarrow> jq_ok q (taken_job i n j)"
    and listed_by_time: "sorted_wrt (\<lambda>a b. dj_next_run a \<le> dj_next_run b) (jq_list q s)"
begin

lemma saved:
  assumes "stable_store s" "jq_ok q j"
  obtains s1 where "save_design_job q j s = (Inr (), s1)" "stable_store s1"
    "\<forall>k. jq_get q k s1 = (if k = dj_id j then Some j else jq_get q k s)"
proof -
  obtain r s1 where run: "save_design_job q j s = (r, s1)" by fastforce
  with save_accepts [OF assms(2), of s] have "r = Inr ()" by simp
  moreover have "stable_store s1" using save_inv [OF assms(1), of j] run by simp
  moreover have "jq_get q k s1 = (if k = dj_id j then Some j else jq_get q k s)" for k
    using get_saved [OF assms] get_other [OF assms(1), of k j] run by simp
  ultimately show ?thesis using run that by simp
qed

lemma bury_each:
  assumes "stable_store s" "distinct (map dj_id js)" "\<forall>j\<in>set js. jq_get q (dj_id j) s = Some j"
  shows "\<exists>s'. act_each (bury_exhausted q now) js s = (Inr (map (\<lambda>j. ()) js), s') \<and> stable_store s' \<and>
    (\<forall>k. jq_get q k s' = (case jq_get q k s of None \<Rightarrow> None | Some j \<Rightarrow>
       Some (if k \<in> dj_id ` set js \<and> exhausted_job now j then buried_job (jq_expired q) now j else j)))"
  using assms
proof (induction js arbitrary: s)
  case Nil
  then show ?case by (auto split: option.splits)
next
  case (Cons j js)
  let ?b = "buried_job (jq_expired q) now j"
  have got: "jq_get q (dj_id j) s = Some j" using Cons.prems(3) by simp
  have ok: "jq_ok q ?b" using get_ok [OF Cons.prems(1) got] buried_ok by simp
  obtain s1 where first: "bury_exhausted q now j s = (Inr (), s1)" and stable: "stable_store s1"
    and get1: "\<And>k. jq_get q k s1 = (if k = dj_id j \<and> exhausted_job now j then Some ?b else jq_get q k s)"
  proof (cases "exhausted_job now j")
    case True
    obtain s1 where "save_design_job q ?b s = (Inr (), s1)" "stable_store s1"
      "\<forall>k. jq_get q k s1 = (if k = dj_id ?b then Some ?b else jq_get q k s)"
      by (rule saved [OF Cons.prems(1) ok])
    with True show ?thesis by (intro that [of s1]) (simp_all add: bury_exhausted_def)
  next
    case False
    with Cons.prems(1) show ?thesis by (intro that [of s]) (simp_all add: bury_exhausted_def)
  qed
  have js: "jq_get q (dj_id x) s1 = Some x" if "x \<in> set js" for x
  proof -
    have "dj_id x \<noteq> dj_id j" using Cons.prems(2) that by (auto simp: rev_image_eqI)
    moreover have "jq_get q (dj_id x) s = Some x" using Cons.prems(3) that by simp
    ultimately show ?thesis unfolding get1 by simp
  qed
  have "distinct (map dj_id js)" using Cons.prems(2) by simp
  from Cons.IH [OF stable this] js obtain s' where
    rest: "act_each (bury_exhausted q now) js s1 = (Inr (map (\<lambda>j. ()) js), s')" "stable_store s'"
    and get': "\<And>k. jq_get q k s' = (case jq_get q k s1 of None \<Rightarrow> None | Some x \<Rightarrow>
       Some (if k \<in> dj_id ` set js \<and> exhausted_job now x then buried_job (jq_expired q) now x else x))"
    by auto
  have "act_each (bury_exhausted q now) (j # js) s = (Inr (map (\<lambda>j. ()) (j # js)), s')"
    using first rest(1) by (simp add: act_bind_run)
  moreover have "jq_get q k s' = (case jq_get q k s of None \<Rightarrow> None | Some x \<Rightarrow>
       Some (if k \<in> dj_id ` set (j # js) \<and> exhausted_job now x then buried_job (jq_expired q) now x else x))" for k
  proof (cases "k = dj_id j")
    case True
    with Cons.prems(2) have "k \<notin> dj_id ` set js" by auto
    with True show ?thesis by (simp add: get' get1 got)
  next
    case False
    then show ?thesis by (simp add: get' get1 split: option.splits)
  qed
  ultimately show ?case using rest(2) by blast
qed

lemma take_each:
  assumes "stable_store s" "claim_ok i" "distinct (map dj_id js)" "\<forall>j\<in>set js. jq_ok q j"
  shows "\<exists>s'. act_each (take_job q i) (enumerate m js) s = (Inr (map (\<lambda>(n, j). taken_job i n j) (enumerate m js)), s') \<and>
    stable_store s' \<and> (\<forall>n<length js. jq_get q (dj_id (js ! n)) s' = Some (taken_job i (m + n) (js ! n))) \<and>
    (\<forall>k. k \<notin> dj_id ` set js \<longrightarrow> jq_get q k s' = jq_get q k s)"
  using assms(1,3,4)
proof (induction js arbitrary: s m)
  case (Cons j js)
  let ?t = "taken_job i m j"
  have ok: "jq_ok q ?t" using Cons.prems(3) taken_ok [OF _ assms(2)] by simp
  obtain s1 where save: "save_design_job q ?t s = (Inr (), s1)" and stable: "stable_store s1"
    and get1: "\<forall>k. jq_get q k s1 = (if k = dj_id ?t then Some ?t else jq_get q k s)"
    by (rule saved [OF Cons.prems(1) ok])
  have first: "take_job q i (m, j) s = (Inr ?t, s1)" using save by (simp add: take_job_def act_bind_run)
  have "distinct (map dj_id js)" "\<forall>x\<in>set js. jq_ok q x" using Cons.prems(2,3) by simp_all
  from Cons.IH [OF stable this, of "Suc m"] obtain s' where
    rest: "act_each (take_job q i) (enumerate (Suc m) js) s1 = (Inr (map (\<lambda>(n, j). taken_job i n j) (enumerate (Suc m) js)), s')"
    "stable_store s'" "\<forall>n<length js. jq_get q (dj_id (js ! n)) s' = Some (taken_job i (Suc m + n) (js ! n))"
    and other: "\<And>k. k \<notin> dj_id ` set js \<Longrightarrow> jq_get q k s' = jq_get q k s1"
    by blast
  have run: "act_each (take_job q i) (enumerate m (j # js)) s =
      (Inr (map (\<lambda>(n, j). taken_job i n j) (enumerate m (j # js))), s')"
    using first rest(1) by (simp add: act_bind_run)
  have mine: "jq_get q (dj_id j) s' = Some ?t"
    using other [of "dj_id j"] get1 Cons.prems(2) by simp
  have "\<forall>n<length (j # js). jq_get q (dj_id ((j # js) ! n)) s' = Some (taken_job i (m + n) ((j # js) ! n))"
  proof (intro allI impI)
    fix n
    assume "n < length (j # js)"
    then show "jq_get q (dj_id ((j # js) ! n)) s' = Some (taken_job i (m + n) ((j # js) ! n))"
      using mine rest(3) by (cases n) auto
  qed
  moreover have "\<forall>k. k \<notin> dj_id ` set (j # js) \<longrightarrow> jq_get q k s' = jq_get q k s"
    using other get1 by simp
  ultimately show ?case using run rest(2) by blast
qed simp

lemma claim_spec:
  assumes "stable_store s" "claim_ok i" "claim_design_jobs q i s = (out, s')"
  obtains js where "out = Inr (map (\<lambda>(n, j). taken_job i n j) (enumerate 0 js))" "stable_store s'" "distinct (map dj_id js)"
    and "length js = min (jc_limit i) (card {j. jq_get q (dj_id j) s = Some j \<and> claimable_job (jc_now i) j})"
    and "\<And>j. j \<in> set js \<Longrightarrow> jq_get q (dj_id j) s = Some j \<and> claimable_job (jc_now i) j"
    and "\<And>j x. j \<in> set js \<Longrightarrow> jq_get q (dj_id x) s = Some x \<Longrightarrow> claimable_job (jc_now i) x \<Longrightarrow> x \<notin> set js \<Longrightarrow>
      dj_next_run j \<le> dj_next_run x"
    and "\<And>n. n < length js \<Longrightarrow> jq_get q (dj_id (js ! n)) s' = Some (taken_job i n (js ! n))"
    and "\<And>k. k \<notin> dj_id ` set js \<Longrightarrow> jq_get q k s' = (case jq_get q k s of None \<Rightarrow> None | Some j \<Rightarrow>
      Some (if exhausted_job (jc_now i) j then buried_job (jq_expired q) (jc_now i) j else j))"
proof -
  let ?now = "jc_now i"
  have "\<forall>j\<in>set (jq_list q s). jq_get q (dj_id j) s = Some j" by (simp add: get_iff [OF assms(1)])
  from bury_each [OF assms(1) all_distinct [OF assms(1)] this, of ?now] obtain s1 where
    s1: "act_each (bury_exhausted q ?now) (jq_list q s) s = (Inr (map (\<lambda>j. ()) (jq_list q s)), s1)" "stable_store s1"
    and bury1: "\<And>k. jq_get q k s1 = (case jq_get q k s of None \<Rightarrow> None | Some j \<Rightarrow>
       Some (if k \<in> dj_id ` set (jq_list q s) \<and> exhausted_job ?now j then buried_job (jq_expired q) ?now j else j))"
    by blast
  have get1: "jq_get q k s1 = (case jq_get q k s of None \<Rightarrow> None | Some j \<Rightarrow>
       Some (if exhausted_job ?now j then buried_job (jq_expired q) ?now j else j))" for k
  proof (cases "jq_get q k s")
    case None
    then show ?thesis by (simp add: bury1)
  next
    case (Some j)
    then have "k \<in> dj_id ` set (jq_list q s)" by (auto simp: get_iff [OF assms(1)])
    with Some show ?thesis by (simp add: bury1)
  qed
  let ?xs = "filter (claimable_job ?now) (jq_list q s1)"
  let ?js = "take (jc_limit i) ?xs"
  have same: "jq_get q (dj_id j) s1 = Some j \<and> claimable_job ?now j \<longleftrightarrow> jq_get q (dj_id j) s = Some j \<and> claimable_job ?now j" for j
    by (auto simp: get1 claimable_not_exhausted split: option.splits if_splits)
  have xs: "j \<in> set ?xs \<longleftrightarrow> jq_get q (dj_id j) s = Some j \<and> claimable_job ?now j" for j
    using same [of j] by (auto simp: get_iff [OF s1(2)])
  have dist: "distinct (map dj_id ?xs)" by (rule distinct_map_filter [OF all_distinct [OF s1(2)]])
  then have dist': "distinct (map dj_id ?js)" by (simp add: take_map [symmetric])
  have mem: "j \<in> set ?js \<Longrightarrow> jq_get q (dj_id j) s = Some j \<and> claimable_job ?now j" for j
    using xs [of j] by (auto dest: in_set_takeD)
  have "\<forall>j\<in>set ?js. jq_ok q j" using mem get_ok [OF assms(1)] by blast
  from take_each [OF s1(2) assms(2) dist' this, of 0] obtain s2 where
    s2: "act_each (take_job q i) (enumerate 0 ?js) s1 = (Inr (map (\<lambda>(n, j). taken_job i n j) (enumerate 0 ?js)), s2)"
    "stable_store s2" "\<forall>n<length ?js. jq_get q (dj_id (?js ! n)) s2 = Some (taken_job i n (?js ! n))"
    "\<forall>k. k \<notin> dj_id ` set ?js \<longrightarrow> jq_get q k s2 = jq_get q k s1"
    by auto
  have run: "out = Inr (map (\<lambda>(n, j). taken_job i n j) (enumerate 0 ?js))" "s' = s2"
    using assms(3) s1(1) s2(1) by (simp_all add: claim_design_jobs_def lock_stable [OF assms(1)] act_bind_run)
  have "distinct ?xs" using dist by (simp add: distinct_map)
  then have "length ?xs = card (set ?xs)" by (rule distinct_card [symmetric])
  also have "set ?xs = {j. jq_get q (dj_id j) s = Some j \<and> claimable_job ?now j}" using xs by blast
  finally have len: "length ?js = min (jc_limit i) (card {j. jq_get q (dj_id j) s = Some j \<and> claimable_job ?now j})"
    by (simp add: min.commute)
  have "sorted_wrt (\<lambda>a b. dj_next_run a \<le> dj_next_run b) (?js @ drop (jc_limit i) ?xs)"
    using listed_by_time [of s1] by (simp add: sorted_wrt_filter)
  then have early: "dj_next_run j \<le> dj_next_run x" if "j \<in> set ?js" "jq_get q (dj_id x) s = Some x" "claimable_job ?now x" "x \<notin> set ?js" for j x
  proof -
    from that(2,3) xs have "x \<in> set (?js @ drop (jc_limit i) ?xs)" by simp
    with that(4) have "x \<in> set (drop (jc_limit i) ?xs)" unfolding set_append by blast
    with that(1) \<open>sorted_wrt _ _\<close> show ?thesis by (simp only: sorted_wrt_append)
  qed
  have rest: "jq_get q k s' = (case jq_get q k s of None \<Rightarrow> None | Some j \<Rightarrow>
      Some (if exhausted_job ?now j then buried_job (jq_expired q) ?now j else j))" if "k \<notin> dj_id ` set ?js" for k
    using s2(4) that run(2) get1 [of k] by simp
  show ?thesis
    using that [OF run(1) _ dist' len mem early _ rest] s2(2,3) run(2) by blast
qed

end

subsection \<open>Both queues satisfy it\<close>

lemma comparator_then: "comparator (\<lambda>a b. cmp_then (cmp_of (f a) (f b)) (cmp_of (g a) (g b)))"
  by unfold_locales (auto simp: cmp_then_def cmp_of_def split: if_splits)

lemma due_sorted:
  "sorted_wrt (\<lambda>a b. dj_next_run a \<le> dj_next_run b)
     (js_sort (\<lambda>a b. cmp_then (cmp_of (dj_next_run a) (dj_next_run b)) (cmp_of (dj_created a) (dj_created b))) js)"
  by (rule sorted_wrt_mono_rel [OF _ comparator.sorted_sort [OF comparator_then]])
    (auto simp: cmp_then_def cmp_of_def split: if_splits)

lemma save_job_run:
  "save_design_job q j s = (if jq_ok q j then (Inr (), logged [jq_write q j] s) else (Inl DesignSchemaError, s))"
  by (simp add: save_design_job_def act_bind_run require_def)

lemma stable_logged: "stable_store s \<Longrightarrow> \<not> touches_transactions w \<Longrightarrow> stable_store (logged [w] s)"
  by (simp add: stable_store_def logged_wf untouched)

lemma logged_fields [simp]:
  "hs_dispatch_jobs (logged ws s) = hs_dispatch_jobs (fold apply_write ws s)"
  "hs_callback_jobs (logged ws s) = hs_callback_jobs (fold apply_write ws s)"
  "hs_tasks (logged ws s) = hs_tasks (fold apply_write ws s)"
  by (simp_all add: logged_def)

interpretation dispatches: design_queue dispatch_queue
proof
  fix r s
  let ?q = dispatch_queue
  show "jq_ok ?q r \<Longrightarrow> fst (save_design_job ?q r s) = Inr ()" by (simp add: save_job_run)
  show "\<not> jq_ok ?q r \<Longrightarrow> \<exists>e. save_design_job ?q r s = (Inl e, s)" by (simp add: save_job_run)
  show "stable_store s \<Longrightarrow> stable_store (snd (save_design_job ?q r s))" by (simp add: save_job_run stable_logged)
  show "stable_store s \<Longrightarrow> jq_ok ?q r \<Longrightarrow>
      set (jq_list ?q (snd (save_design_job ?q r s))) = insert r {x \<in> set (jq_list ?q s). dj_id x \<noteq> dj_id r}"
    by (simp add: save_job_run dispatch_queue_def list_dispatch_jobs_def record_list_put stable_store_def design_wf_def)
  show "stable_store s \<Longrightarrow> distinct (map dj_id (jq_list ?q s))"
    by (simp add: dispatch_queue_def list_dispatch_jobs_def record_list_distinct stable_store_def design_wf_def)
  fix x k
  show "stable_store s \<Longrightarrow> x \<in> set (jq_list ?q s) \<Longrightarrow> jq_ok ?q x"
    by (simp add: dispatch_queue_def list_dispatch_jobs_def record_list_def)
  show "stable_store s \<Longrightarrow> jq_get ?q k s = Some x \<longleftrightarrow> x \<in> set (jq_list ?q s) \<and> dj_id x = k"
    by (simp add: dispatch_queue_def list_dispatch_jobs_def get_dispatch_job_def record_get_iff stable_store_def design_wf_def)
  show "sorted_wrt (\<lambda>a b. dj_next_run a \<le> dj_next_run b) (jq_list ?q s)"
    by (simp add: dispatch_queue_def list_dispatch_jobs_def due_sorted)
next
  fix j :: dispatch_job and now i n
  show "jq_ok dispatch_queue j \<Longrightarrow> jq_ok dispatch_queue (buried_job (jq_expired dispatch_queue) now j)"
    by (simp add: dispatch_queue_def dispatch_job_ok_def design_job_ok_def buried_job_def)
  show "jq_ok dispatch_queue j \<Longrightarrow> claim_ok i \<Longrightarrow> jq_ok dispatch_queue (taken_job i n j)"
    by (simp add: dispatch_queue_def dispatch_job_ok_def design_job_ok_def taken_job_def claim_ok_def)
qed

interpretation callbacks: design_queue callback_queue
proof
  fix r s
  let ?q = callback_queue
  show "jq_ok ?q r \<Longrightarrow> fst (save_design_job ?q r s) = Inr ()" by (simp add: save_job_run)
  show "\<not> jq_ok ?q r \<Longrightarrow> \<exists>e. save_design_job ?q r s = (Inl e, s)" by (simp add: save_job_run)
  show "stable_store s \<Longrightarrow> stable_store (snd (save_design_job ?q r s))" by (simp add: save_job_run stable_logged)
  show "stable_store s \<Longrightarrow> jq_ok ?q r \<Longrightarrow>
      set (jq_list ?q (snd (save_design_job ?q r s))) = insert r {x \<in> set (jq_list ?q s). dj_id x \<noteq> dj_id r}"
    by (simp add: save_job_run callback_queue_def list_callback_jobs_def record_list_put stable_store_def design_wf_def)
  show "stable_store s \<Longrightarrow> distinct (map dj_id (jq_list ?q s))"
    by (simp add: callback_queue_def list_callback_jobs_def record_list_distinct stable_store_def design_wf_def)
  fix x k
  show "stable_store s \<Longrightarrow> x \<in> set (jq_list ?q s) \<Longrightarrow> jq_ok ?q x"
    by (simp add: callback_queue_def list_callback_jobs_def record_list_def)
  show "stable_store s \<Longrightarrow> jq_get ?q k s = Some x \<longleftrightarrow> x \<in> set (jq_list ?q s) \<and> dj_id x = k"
    by (simp add: callback_queue_def list_callback_jobs_def get_callback_job_def record_get_iff stable_store_def design_wf_def)
  show "sorted_wrt (\<lambda>a b. dj_next_run a \<le> dj_next_run b) (jq_list ?q s)"
    by (simp add: callback_queue_def list_callback_jobs_def due_sorted)
next
  fix j :: callback_job and now i n
  show "jq_ok callback_queue j \<Longrightarrow> jq_ok callback_queue (buried_job (jq_expired callback_queue) now j)"
    by (simp add: callback_queue_def callback_job_ok_def design_job_ok_def buried_job_def)
  show "jq_ok callback_queue j \<Longrightarrow> claim_ok i \<Longrightarrow> jq_ok callback_queue (taken_job i n j)"
    by (simp add: callback_queue_def callback_job_ok_def design_job_ok_def taken_job_def claim_ok_def)
qed

subsection \<open>The contract of a claim\<close>

definition claim_contract ::
  "('p, 'r) job_queue \<Rightarrow> job_claim \<Rightarrow> design_store \<Rightarrow> design_error + ('p, 'r) design_job list \<Rightarrow> design_store \<Rightarrow> bool" where
  "claim_contract q i s out s' \<longleftrightarrow>
     (\<exists>js. out = Inr (map (\<lambda>(n, j). taken_job i n j) (enumerate 0 js)) \<and> distinct (map dj_id js) \<and>
       length js = min (jc_limit i) (card {j. jq_get q (dj_id j) s = Some j \<and> claimable_job (jc_now i) j}) \<and>
       (\<forall>j\<in>set js. jq_get q (dj_id j) s = Some j \<and> claimable_job (jc_now i) j) \<and>
       (\<forall>j\<in>set js. \<forall>x. jq_get q (dj_id x) s = Some x \<and> claimable_job (jc_now i) x \<and> x \<notin> set js \<longrightarrow>
          dj_next_run j \<le> dj_next_run x) \<and>
       (\<forall>n<length js. jq_get q (dj_id (js ! n)) s' = Some (taken_job i n (js ! n))) \<and>
       (\<forall>k. k \<notin> dj_id ` set js \<longrightarrow> jq_get q k s' = (case jq_get q k s of None \<Rightarrow> None | Some j \<Rightarrow>
          Some (if exhausted_job (jc_now i) j then buried_job (jq_expired q) (jc_now i) j else j)))) \<and>
     (\<forall>k j. jq_get q k s' = Some j \<longrightarrow> \<not> exhausted_job (jc_now i) j)"

context design_queue
begin

lemma claim_meets_contract:
  assumes "stable_store s" "claim_ok i" "claim_design_jobs q i s = (out, s')"
  shows "claim_contract q i s out s'"
proof (rule claim_spec [OF assms])
  fix js
  assume spec: "out = Inr (map (\<lambda>(n, j). taken_job i n j) (enumerate 0 js))" "stable_store s'" "distinct (map dj_id js)"
    "length js = min (jc_limit i) (card {j. jq_get q (dj_id j) s = Some j \<and> claimable_job (jc_now i) j})"
    "\<And>j. j \<in> set js \<Longrightarrow> jq_get q (dj_id j) s = Some j \<and> claimable_job (jc_now i) j"
    "\<And>j x. j \<in> set js \<Longrightarrow> jq_get q (dj_id x) s = Some x \<Longrightarrow> claimable_job (jc_now i) x \<Longrightarrow> x \<notin> set js \<Longrightarrow>
      dj_next_run j \<le> dj_next_run x"
    "\<And>n. n < length js \<Longrightarrow> jq_get q (dj_id (js ! n)) s' = Some (taken_job i n (js ! n))"
    and others: "\<And>k. k \<notin> dj_id ` set js \<Longrightarrow> jq_get q k s' = (case jq_get q k s of None \<Rightarrow> None | Some j \<Rightarrow>
      Some (if exhausted_job (jc_now i) j then buried_job (jq_expired q) (jc_now i) j else j))"
  have "\<not> exhausted_job (jc_now i) j" if "jq_get q k s' = Some j" for k j
  proof (cases "k \<in> dj_id ` set js")
    case True
    then obtain n where "n < length js" "k = dj_id (js ! n)" by (auto simp: in_set_conv_nth)
    with spec(7) [of n] that have "j = taken_job i n (js ! n)" by simp
    with taken_not_over [OF assms(2), of n "js ! n"] show ?thesis unfolding exhausted_job_def by blast
  next
    case False
    with others [OF False] that show ?thesis by (auto split: option.splits if_splits)
  qed
  then show ?thesis unfolding claim_contract_def using spec others by blast
qed

end


subsection \<open>The queues are lease tables\<close>

definition design_row :: "('p, 'r) design_job \<Rightarrow> lease_row" where
  "design_row j =
     \<lparr>lr_owner = (if dj_status j = DjClaimed then map_option (\<lambda>l. (Some (wl_token l), wl_expires l)) (dj_lease j) else None),
      lr_used = dj_attempts j\<rparr>"

definition design_rows :: "('p, 'r) job_queue \<Rightarrow> design_store \<Rightarrow> lease_table" where
  "design_rows q s k = map_option design_row (jq_get q k s)"

definition fresh_job :: "('p, 'r) design_job \<Rightarrow> bool" where
  "fresh_job j \<longleftrightarrow> dj_status j = DjQueued \<and> dj_attempts j = 0 \<and> dj_lease j = None"

lemma fresh_design_row: "fresh_job j \<Longrightarrow> design_row j = fresh_row"
  by (simp add: fresh_job_def design_row_def fresh_row_def)

lemma lease_over_free: "lease_over now j \<Longrightarrow> row_free now (design_row j)"
  by (auto simp: lease_over_def row_free_def design_row_def split: option.splits)

lemma claimable_free: "claimable_job now j \<Longrightarrow> row_free now (design_row j)"
  by (auto simp: claimable_job_def row_free_def design_row_def dest: lease_over_free split: option.splits if_splits)

lemma taken_row: "claimable_job (jc_now i) j \<Longrightarrow> row_step (jc_now i) (design_row j) (design_row (taken_job i n j))"
  using rw_take [OF claimable_free, of "jc_now i" j "jc_tokens i n" "jc_now i + int (jc_lease_seconds i) * 1000"]
  by (simp add: design_row_def taken_job_def)

lemma released_row: "dj_status j' \<noteq> DjClaimed \<Longrightarrow> dj_attempts j' = dj_attempts j \<Longrightarrow> row_step now (design_row j) (design_row j')"
  using rw_release [of now "design_row j"] by (simp add: design_row_def)

definition settling :: "(('p, 'r) design_job \<Rightarrow> design_error + ('p, 'r) design_job) \<Rightarrow> bool" where
  "settling f \<longleftrightarrow> (\<forall>j j'. f j = Inr j' \<longrightarrow> dj_id j' = dj_id j \<and> dj_attempts j' = dj_attempts j \<and> dj_status j' \<noteq> DjClaimed)"

lemma worker_settling: "settling (settled_success result now)" "settling (settled_failure reason m now j)"
  by (auto simp: settling_def settled_success_def settled_failure_def)

context design_queue
begin

lemma rows_after_save:
  assumes "stable_store s" "jq_ok q j" "save_design_job q j s = (out, s')"
    and "\<And>x. jq_get q (dj_id j) s = Some x \<Longrightarrow> row_step now (design_row x) (design_row j)"
    and "jq_get q (dj_id j) s = None \<Longrightarrow> design_row j = fresh_row"
  shows "stable_store s' \<and> table_step now (design_rows q s) (design_rows q s')"
proof -
  obtain s1 where s1: "save_design_job q j s = (Inr (), s1)" "stable_store s1"
    "\<forall>k. jq_get q k s1 = (if k = dj_id j then Some j else jq_get q k s)"
    by (rule saved [OF assms(1,2)])
  then have "s' = s1" using assms(3) by simp
  moreover have "table_step now (design_rows q s) (design_rows q s1)"
    using assms(4,5) s1(3) by (intro table_stepI) (auto simp: design_rows_def intro: rw_stay split: if_splits)
  ultimately show ?thesis using s1(2) by simp
qed

lemma same_rows: "(\<And>k. jq_get q k s' = jq_get q k s) \<Longrightarrow> table_step now (design_rows q s) (design_rows q s')"
  by (intro table_stepI) (auto simp: design_rows_def intro: rw_stay)

lemma queue_claim_rows:
  assumes "stable_store s" "claim_ok i"
  shows "stable_store (snd (claim_design_jobs q i s)) \<and>
    table_step (jc_now i) (design_rows q s) (design_rows q (snd (claim_design_jobs q i s)))"
proof -
  obtain out s' where run: "claim_design_jobs q i s = (out, s')" by fastforce
  show ?thesis
  proof (rule claim_spec [OF assms run])
    fix js
    assume stable: "stable_store s'"
      and mem: "\<And>j. j \<in> set js \<Longrightarrow> jq_get q (dj_id j) s = Some j \<and> claimable_job (jc_now i) j"
      and taken: "\<And>n. n < length js \<Longrightarrow> jq_get q (dj_id (js ! n)) s' = Some (taken_job i n (js ! n))"
      and others: "\<And>k. k \<notin> dj_id ` set js \<Longrightarrow> jq_get q k s' = (case jq_get q k s of None \<Rightarrow> None | Some j \<Rightarrow>
        Some (if exhausted_job (jc_now i) j then buried_job (jq_expired q) (jc_now i) j else j))"
    have "table_step (jc_now i) (design_rows q s) (design_rows q s')"
    proof (rule table_stepI)
      fix k r
      assume "design_rows q s k = Some r"
      then obtain j where j: "jq_get q k s = Some j" "r = design_row j" by (auto simp: design_rows_def)
      show "\<exists>r'. design_rows q s' k = Some r' \<and> row_step (jc_now i) r r'"
      proof (cases "k \<in> dj_id ` set js")
        case True
        then obtain n where n: "n < length js" "k = dj_id (js ! n)" by (auto simp: in_set_conv_nth)
        with mem [OF nth_mem [OF n(1)]] j have "j = js ! n" "claimable_job (jc_now i) j" by simp_all
        with taken [OF n(1)] n(2) j(2) taken_row show ?thesis by (auto simp: design_rows_def)
      next
        case False
        have "row_step (jc_now i) (design_row j) (design_row (if exhausted_job (jc_now i) j
            then buried_job (jq_expired q) (jc_now i) j else j))"
          using released_row [of "buried_job (jq_expired q) (jc_now i) j" j] by (simp add: buried_job_def rw_stay)
        with others [OF False] j show ?thesis by (simp add: design_rows_def)
      qed
    next
      fix k r
      assume none: "design_rows q s k = None" and some: "design_rows q s' k = Some r"
      then have "k \<notin> dj_id ` set js" using mem by (auto simp: design_rows_def)
      with others [OF this] none some show "r = fresh_row" by (simp add: design_rows_def)
    qed
    with stable run show ?thesis by simp
  qed
qed

lemma queue_settle_rows:
  assumes "stable_store s" "settling f"
  shows "stable_store (snd (update_design_job q k (Some l) f s)) \<and>
    table_step now (design_rows q s) (design_rows q (snd (update_design_job q k (Some l) f s)))"
proof -
  obtain out s' where run: "update_design_job q k (Some l) f s = (out, s')" by fastforce
  show ?thesis
  proof (cases "\<exists>j j'. jq_get q k s = Some j \<and> f j = Inr j' \<and> jq_ok q j' \<and> save_design_job q j' s = (Inr (), s')")
    case True
    then obtain j j' where j: "jq_get q k s = Some j" "f j = Inr j'" "jq_ok q j'" "save_design_job q j' s = (Inr (), s')" by blast
    have "dj_id j = k" using get_ok [OF assms(1) j(1)] by simp
    moreover have "dj_id j' = dj_id j" "dj_attempts j' = dj_attempts j" "dj_status j' \<noteq> DjClaimed"
      using assms(2) j(2) by (auto simp: settling_def)
    ultimately have "stable_store s' \<and> table_step now (design_rows q s) (design_rows q s')"
      using j by (intro rows_after_save [OF assms(1) j(3,4)]) (auto intro: released_row)
    with run show ?thesis by simp
  next
    case False
    then have "s' = s"
      using run by (auto simp: update_design_job_def lock_stable [OF assms(1)] act_bind_run save_job_run res_bind_def require_def
        split: option.splits if_splits sum.splits)
    with run assms(1) same_rows [of s s] show ?thesis by simp
  qed
qed

lemma fresh_rows:
  assumes "stable_store s" "jq_ok q j" "fresh_job j" "save_design_job q j s = (out, s')"
  shows "stable_store s' \<and> table_step now (design_rows q s) (design_rows q s')"
  using rows_after_save [OF assms(1,2,4)] rw_reset fresh_design_row [OF assms(3)] by metis

end

text \<open>
  The steps of the two queues: every operation of the store that writes to them. A new job is as
  \<open>createHermesDesignDispatchJob\<close> and \<open>createHermesDesignCallbackJob\<close> make it.
\<close>

inductive dispatch_step :: "instant \<Rightarrow> design_store \<Rightarrow> design_store \<Rightarrow> bool" where
  ds_enqueue: "fresh_job j \<Longrightarrow> dispatch_step now s (snd (enqueue_dispatch_atomically j s))"
| ds_create: "(\<forall>j. job = Some j \<longrightarrow> fresh_job j) \<Longrightarrow> dispatch_step now s (snd (create_task_atomically t job s))"
| ds_requeue: "(\<forall>t t' j. g t = Inr (t', j) \<longrightarrow> fresh_job j) \<Longrightarrow> dispatch_step now s (snd (update_task_and_enqueue k g s))"
| ds_task: "dispatch_step now s (snd (update_task_atomically k f s))"
| ds_claim: "claim_ok i \<Longrightarrow> dispatch_step (jc_now i) s (snd (claim_due_dispatch_jobs i s))"
| ds_success: "dispatch_step now s (snd (update_dispatch_job k (Some l) (settled_success r w) s))"
| ds_failure: "dispatch_step now s (snd (update_dispatch_job k (Some l) (settled_failure reason m w j) s))"

inductive callback_step :: "instant \<Rightarrow> design_store \<Rightarrow> design_store \<Rightarrow> bool" where
  cs_accept: "fresh_job j \<Longrightarrow> callback_step now s (snd (accept_callback_job machine j s))"
| cs_claim: "claim_ok i \<Longrightarrow> callback_step (jc_now i) s (snd (claim_due_callback_jobs i s))"
| cs_apply: "callback_step now s (snd (apply_callback_atomically k c f s))"
| cs_success: "callback_step now s (snd (update_callback_job k (Some l) (settled_success r w) s))"
| cs_failure: "callback_step now s (snd (update_callback_job k (Some l) (settled_failure reason m w j) s))"

text \<open>What the operations that are not claims or settlements leave: nothing new, a task, a new job, or both.\<close>

definition task_effect :: "design_store \<Rightarrow> design_store \<Rightarrow> bool" where
  "task_effect s s' \<longleftrightarrow> s' = s \<or> (\<exists>t. s' = logged [WriteTask t] s) \<or>
     (\<exists>j. dispatch_job_ok j \<and> fresh_job j \<and>
        (s' = logged [WriteDispatchJob j] s \<or> (\<exists>k t. s' = logged (transaction_writes k t j) s)))"

lemma dispatch_get [simp]:
  "jq_get dispatch_queue k (logged ws s) = record_get dispatch_job_ok (hs_dispatch_jobs (fold apply_write ws s)) k"
  "jq_get dispatch_queue k s = record_get dispatch_job_ok (hs_dispatch_jobs s) k"
  by (simp_all add: dispatch_queue_def get_dispatch_job_def logged_def)

lemma task_effect_rows:
  assumes "stable_store s" "task_effect s s'"
  shows "stable_store s' \<and> table_step now (design_rows dispatch_queue s) (design_rows dispatch_queue s')"
proof -
  from assms(2) consider "s' = s" | t where "s' = logged [WriteTask t] s"
    | j where "dispatch_job_ok j" "fresh_job j" "s' = logged [WriteDispatchJob j] s"
    | j k t where "dispatch_job_ok j" "fresh_job j" "s' = logged (transaction_writes k t j) s"
    unfolding task_effect_def by blast
  then show ?thesis
  proof cases
    case 1
    with assms(1) dispatches.same_rows [of s s] show ?thesis by simp
  next
    case 2
    have "table_step now (design_rows dispatch_queue s) (design_rows dispatch_queue s')"
      by (rule dispatches.same_rows) (simp add: 2)
    with 2 stable_logged [OF assms(1)] show ?thesis by simp
  next
    case 3
    then have ok: "jq_ok dispatch_queue j" by (simp add: dispatch_queue_def)
    have "save_design_job dispatch_queue j s = (Inr (), s')"
      unfolding save_job_run using ok 3 by (simp add: dispatch_queue_def)
    from dispatches.fresh_rows [OF assms(1) ok 3(2) this] show ?thesis .
  next
    case 4
    then have ok: "jq_ok dispatch_queue j" by (simp add: dispatch_queue_def)
    have "save_design_job dispatch_queue j s = (Inr (), logged [WriteDispatchJob j] s)"
      unfolding save_job_run using ok by (simp add: dispatch_queue_def)
    from dispatches.fresh_rows [OF assms(1) ok 4(2) this, of now] have
      "table_step now (design_rows dispatch_queue s) (design_rows dispatch_queue (logged [WriteDispatchJob j] s))" by simp
    moreover have "design_rows dispatch_queue s' = design_rows dispatch_queue (logged [WriteDispatchJob j] s)"
      by (simp add: 4(3) design_rows_def fun_eq_iff transaction_writes_def)
    moreover have "stable_store s'"
      using assms(1) 4(3) by (simp add: stable_store_def logged_wf transaction_writes_def)
    ultimately show ?thesis by simp
  qed
qed


lemma run_if: "snd ((if b then m else n) s) = (if b then snd (m s) else snd (n s))"
  by simp

lemma created_job_key: "dispatch_job_ok j \<Longrightarrow> fresh_job j \<Longrightarrow> task_effect s (logged [WriteDispatchJob j] s)"
  "dispatch_job_ok j \<Longrightarrow> fresh_job j \<Longrightarrow> task_effect s (logged (transaction_writes k t j) s)"
  "task_effect s (logged [WriteTask t] s)" "task_effect s s"
  by (auto simp: task_effect_def)

lemma enqueue_unlocked_effect:
  "dispatch_job_ok j \<Longrightarrow> fresh_job j \<Longrightarrow> task_effect s (snd (enqueue_dispatch_unlocked j s))"
  by (auto simp: enqueue_dispatch_unlocked_def act_bind_run created_job_key split: option.splits)

lemma enqueue_run_effect:
  "enqueue_dispatch_unlocked j s = (r, s') \<Longrightarrow> dispatch_job_ok j \<Longrightarrow> fresh_job j \<Longrightarrow> task_effect s s'"
  using enqueue_unlocked_effect [of j s] by simp

lemma enqueue_effect:
  "stable_store s \<Longrightarrow> fresh_job j \<Longrightarrow> task_effect s (snd (enqueue_dispatch_atomically j s))"
  using enqueue_unlocked_effect [of j s]
  by (cases "dispatch_job_ok j") (auto simp: enqueue_dispatch_atomically_def act_bind_run require_def lock_stable created_job_key)

lemma create_task_effect:
  assumes "stable_store s" "\<forall>j. job = Some j \<longrightarrow> fresh_job j"
  shows "task_effect s (snd (create_task_atomically t job s))"
proof (cases "design_task_ok t \<and> (\<forall>j. job = Some j \<longrightarrow> dispatch_job_ok j \<and> dj_task j = dt_id t)")
  case True
  then have "snd (create_task_atomically t job s) = snd (create_task_locked t job s)"
    by (cases job) (simp_all add: create_task_atomically_def act_bind_run require_def res_bind_def lock_stable [OF assms(1)])
  moreover have "task_effect s (snd (create_task_locked t job s))"
    using True assms(2)
    by (cases job) (auto simp: create_task_locked_def act_bind_run created_job_key write_task_and_dispatch_def
      intro: enqueue_run_effect split: option.splits sum.splits prod.splits)
  ultimately show ?thesis by simp
next
  case False
  then have "snd (create_task_atomically t job s) = s"
    by (cases job) (auto simp: create_task_atomically_def act_bind_run require_def res_bind_def)
  then show ?thesis by (simp add: created_job_key)
qed

lemma requeue_effect:
  assumes "stable_store s" "\<forall>t t' j. g t = Inr (t', j) \<longrightarrow> fresh_job j"
  shows "task_effect s (snd (update_task_and_enqueue k g s))"
proof -
  have "task_effect s (snd (write_dispatch_update t j s))" if "checked_dispatch g cur = Inr (t, j)" for cur t j
  proof -
    from that have "dispatch_job_ok j" "g cur = Inr (t, j)"
      by (auto simp: checked_dispatch_def res_bind_def require_def split: sum.splits if_splits)
    with assms(2) show ?thesis
      by (auto simp: write_dispatch_update_def act_bind_run created_job_key write_task_and_dispatch_def split: option.splits)
  qed
  then show ?thesis
    by (auto simp: update_task_and_enqueue_def with_task_def lock_stable [OF assms(1)] act_bind_run created_job_key
      split: option.splits sum.splits prod.splits)
qed

lemma update_task_effect: "stable_store s \<Longrightarrow> task_effect s (snd (update_task_atomically k f s))"
  by (auto simp: update_task_atomically_def with_task_def lock_stable act_bind_run created_job_key split: option.splits sum.splits)

lemma dispatch_step_rows:
  assumes s: "stable_store s" and step: "dispatch_step now s s'"
  shows "stable_store s' \<and> table_step now (design_rows dispatch_queue s) (design_rows dispatch_queue s')"
  using step
proof cases
  case ds_claim
  with dispatches.queue_claim_rows [OF s] show ?thesis by (simp add: claim_due_dispatch_jobs_def)
next
  case ds_success
  with dispatches.queue_settle_rows [OF s worker_settling(1)] show ?thesis by (simp add: update_dispatch_job_def)
next
  case ds_failure
  with dispatches.queue_settle_rows [OF s worker_settling(2)] show ?thesis by (simp add: update_dispatch_job_def)
qed (use task_effect_rows [OF s] enqueue_effect [OF s] create_task_effect [OF s] requeue_effect [OF s] update_task_effect [OF s] in blast)+

lemma accept_rows:
  assumes "stable_store s" "fresh_job j"
  shows "stable_store (snd (accept_callback_job machine j s)) \<and>
    table_step now (design_rows callback_queue s) (design_rows callback_queue (snd (accept_callback_job machine j s)))"
proof -
  have "snd (accept_callback_job machine j s) = s \<or>
      callback_job_ok j \<and> snd (accept_callback_job machine j s) = logged [WriteCallbackJob j] s"
    by (cases "callback_job_ok j") (auto simp: accept_callback_job_def accept_callback_locked_def with_task_def act_bind_run require_def
      lock_stable [OF assms(1)] split: option.splits)
  then show ?thesis
  proof
    assume "snd (accept_callback_job machine j s) = s"
    with callbacks.same_rows [of s s] assms(1) show ?thesis by simp
  next
    assume j: "callback_job_ok j \<and> snd (accept_callback_job machine j s) = logged [WriteCallbackJob j] s"
    then have ok: "jq_ok callback_queue j" by (simp add: callback_queue_def)
    have "save_design_job callback_queue j s = (Inr (), logged [WriteCallbackJob j] s)"
      unfolding save_job_run using ok by (simp add: callback_queue_def)
    from callbacks.fresh_rows [OF assms(1) ok assms(2) this] j show ?thesis by simp
  qed
qed

lemma applied_rows:
  assumes "stable_store s"
  shows "stable_store (snd (apply_callback_atomically k c f s)) \<and>
    table_step now (design_rows callback_queue s) (design_rows callback_queue (snd (apply_callback_atomically k c f s)))"
proof -
  have "snd (apply_callback_atomically k c f s) \<in> {s, logged [WriteCallback c] s} \<union> (\<lambda>t. logged [WriteTask t, WriteCallback c] s) ` UNIV"
    by (cases "callback_ok c") (auto simp: apply_callback_atomically_def with_task_def apply_callback_locked_def act_bind_run
      require_def lock_stable [OF assms] split: option.splits sum.splits)
  then obtain ws where ws: "snd (apply_callback_atomically k c f s) = logged ws s"
    and keep: "hs_callback_jobs (fold apply_write ws s) = hs_callback_jobs s" "hs_transactions (fold apply_write ws s) = hs_transactions s"
    using that [of "[]"] that [of "[WriteCallback c]"] that [of "[WriteTask _, WriteCallback c]"] by auto
  have "table_step now (design_rows callback_queue s) (design_rows callback_queue (logged ws s))"
    by (rule callbacks.same_rows) (simp add: callback_queue_def get_callback_job_def keep)
  moreover have "stable_store (logged ws s)" using assms keep by (simp add: stable_store_def logged_wf)
  ultimately show ?thesis using ws by simp
qed

lemma callback_step_rows:
  assumes s: "stable_store s" and step: "callback_step now s s'"
  shows "stable_store s' \<and> table_step now (design_rows callback_queue s) (design_rows callback_queue s')"
  using step
proof cases
  case cs_claim
  with callbacks.queue_claim_rows [OF s] show ?thesis by (simp add: claim_due_callback_jobs_def)
next
  case cs_success
  with callbacks.queue_settle_rows [OF s worker_settling(1)] show ?thesis by (simp add: update_callback_job_def)
next
  case cs_failure
  with callbacks.queue_settle_rows [OF s worker_settling(2)] show ?thesis by (simp add: update_callback_job_def)
qed (use accept_rows [OF s] applied_rows [OF s] in blast)+

subsection \<open>A queue is untouched by the operations of the other\<close>

definition quiet_dispatch :: "dispatch_job coll \<Rightarrow> design_store \<Rightarrow> bool" where
  "quiet_dispatch c s \<longleftrightarrow> hs_transactions s = [] \<and> hs_dispatch_jobs s = c"

definition quiet_callback :: "callback_job coll \<Rightarrow> design_store \<Rightarrow> bool" where
  "quiet_callback c s \<longleftrightarrow> hs_transactions s = [] \<and> hs_callback_jobs s = c"

lemma keeps_disk:
  "\<not> touches_transactions w \<Longrightarrow> \<forall>j. w \<noteq> WriteDispatchJob j \<Longrightarrow> keeps (quiet_dispatch c) (disk w)"
  "\<not> touches_transactions w \<Longrightarrow> \<forall>j. w \<noteq> WriteCallbackJob j \<Longrightarrow> keeps (quiet_callback c') (disk w)"
  by (cases w; simp add: keeps_def quiet_dispatch_def quiet_callback_def)+

lemma keeps_design_lock:
  "keeps (quiet_dispatch c) m \<Longrightarrow> keeps (quiet_dispatch c) (with_design_lock m)"
  "keeps (quiet_callback c') m \<Longrightarrow> keeps (quiet_callback c') (with_design_lock m)"
  by (simp_all add: keeps_def design_lock_run recovery_writes_def quiet_dispatch_def quiet_callback_def)

lemma keeps_disk_all: "(\<And>w. w \<in> set ws \<Longrightarrow> keeps I (disk w)) \<Longrightarrow> keeps I (disk_all ws)"
  by (induction ws) (auto simp: disk_all.simps intro!: keeps_rules)

lemma keeps_prod: "(\<And>a b. keeps I (h a b)) \<Longrightarrow> keeps I (case p of (a, b) \<Rightarrow> h a b)"
  by (cases p) simp

lemma keeps_jobs:
  assumes "\<And>j. keeps I (disk (jq_write q j))"
  shows "keeps I (act_each (bury_exhausted q now) js)" "keeps I (act_each (take_job q i) ps)"
  by (intro keeps_rules; auto simp: bury_exhausted_def take_job_def save_design_job_def assms intro!: keeps_rules keeps_prod)+

lemma other_writes:
  "keeps (quiet_callback c) (disk (jq_write dispatch_queue j))" "keeps (quiet_dispatch c') (disk (jq_write callback_queue j'))"
  by (auto simp: dispatch_queue_def callback_queue_def intro!: keeps_disk)

lemma keeps_other_queue:
  "keeps (quiet_callback c) (claim_design_jobs dispatch_queue i)" "keeps (quiet_callback c) (update_design_job dispatch_queue k token f)"
  "keeps (quiet_dispatch c') (claim_design_jobs callback_queue i)" "keeps (quiet_dispatch c') (update_design_job callback_queue k token g)"
  unfolding claim_design_jobs_def update_design_job_def
  by (intro keeps_design_lock keeps_rules keeps_jobs other_writes keeps_prod)+

lemma keeps_callback_ops:
  "keeps (quiet_dispatch c) (accept_callback_job machine j)" "keeps (quiet_dispatch c) (apply_callback_atomically k cb f)"
  unfolding accept_callback_job_def accept_callback_locked_def apply_callback_atomically_def apply_callback_locked_def with_task_def
  by (intro keeps_design_lock keeps_rules keeps_prod keeps_disk keeps_disk_all; auto intro: keeps_disk)+

lemma quiet_rows:
  "quiet_dispatch (hs_dispatch_jobs s) s' \<Longrightarrow> table_step now (design_rows dispatch_queue s) (design_rows dispatch_queue s')"
  "quiet_callback (hs_callback_jobs s) s' \<Longrightarrow> table_step now (design_rows callback_queue s) (design_rows callback_queue s')"
  by (rule dispatches.same_rows callbacks.same_rows;
      simp add: quiet_dispatch_def quiet_callback_def callback_queue_def get_callback_job_def)+

lemma task_effect_callbacks: "task_effect s s' \<Longrightarrow> hs_callback_jobs s' = hs_callback_jobs s"
  by (auto simp: task_effect_def transaction_writes_def)

lemma dispatch_step_callbacks:
  assumes s: "stable_store s" and step: "dispatch_step now s s'"
  shows "table_step now (design_rows callback_queue s) (design_rows callback_queue s')"
proof -
  have start: "quiet_callback (hs_callback_jobs s) s" using s by (simp add: quiet_callback_def stable_store_def)
  have clean: "hs_transactions s' = []" using dispatch_step_rows [OF s step] by (simp add: stable_store_def)
  have "quiet_callback (hs_callback_jobs s) s'"
    using step
  proof cases
    case (ds_claim i)
    then show ?thesis using keeps_other_queue(1) start by (simp add: keeps_def claim_due_dispatch_jobs_def)
  next
    case ds_success
    then show ?thesis using keeps_other_queue(2) start by (simp add: keeps_def update_dispatch_job_def)
  next
    case ds_failure
    then show ?thesis using keeps_other_queue(2) start by (simp add: keeps_def update_dispatch_job_def)
  qed (use enqueue_effect [OF s] create_task_effect [OF s] requeue_effect [OF s] update_task_effect [OF s] clean in
      \<open>simp add: quiet_callback_def task_effect_callbacks\<close>)+
  then show ?thesis by (rule quiet_rows)
qed

lemma callback_step_dispatches:
  assumes s: "stable_store s" and step: "callback_step now s s'"
  shows "table_step now (design_rows dispatch_queue s) (design_rows dispatch_queue s')"
proof -
  have "quiet_dispatch (hs_dispatch_jobs s) s" using s by (simp add: quiet_dispatch_def stable_store_def)
  with step have "quiet_dispatch (hs_dispatch_jobs s) s'"
    by cases (use keeps_other_queue(3,4) keeps_callback_ops in
      \<open>simp_all add: keeps_def claim_due_callback_jobs_def update_callback_job_def\<close>)
  then show ?thesis by (rule quiet_rows)
qed

inductive design_step :: "instant \<Rightarrow> design_store \<Rightarrow> design_store \<Rightarrow> bool" where
  dq_dispatch: "dispatch_step now s s' \<Longrightarrow> design_step now s s'"
| dq_callback: "callback_step now s s' \<Longrightarrow> design_step now s s'"

interpretation dispatch_leases: leased_table "design_rows dispatch_queue" design_step stable_store
  by unfold_locales (auto elim!: design_step.cases dest: dispatch_step_rows callback_step_rows callback_step_dispatches)

interpretation callback_leases: leased_table "design_rows callback_queue" design_step stable_store
  by unfold_locales (auto elim!: design_step.cases dest: dispatch_step_rows callback_step_rows dispatch_step_callbacks)

lemma claimed_row: "dj_status j = DjClaimed \<Longrightarrow> dj_lease j = Some l \<Longrightarrow> lr_owner (design_row j) = Some (Some (wl_token l), wl_expires l)"
  by (simp add: design_row_def)

lemma empty_stable: "stable_store empty_design_store"
  by (simp add: stable_store_def design_wf_def empty_design_store_def)


end
