(* ===== verification/DesignLaws.thy ===== *)
theory DesignLaws imports DesignQueues begin

text \<open>
  What the workers and the callbacks of design tasks guarantee: a run of the dispatch worker settles every job
  it claims and brings its task in line, and a callback moves its task as its kind says.
\<close>

subsection \<open>Updates of a stable store\<close>

lemma task_after [simp]:
  "get_dispatch_job k (logged [WriteTask t] s) = get_dispatch_job k s"
  "get_design_task k (logged [WriteDispatchJob j] s) = get_design_task k s"
  by (simp_all add: get_dispatch_job_def get_design_task_def)

lemma task_stored:
  assumes "design_task_ok t"
  shows "get_design_task k (logged [WriteTask t] s) = (if k = dt_id t then Some t else get_design_task k s)"
  using assms by (simp add: get_design_task_def record_get_def)

lemma dispatch_stored:
  assumes "dispatch_job_ok j"
  shows "get_dispatch_job k (logged [WriteDispatchJob j] s) = (if k = dj_id j then Some j else get_dispatch_job k s)"
  using assms by (simp add: get_dispatch_job_def record_get_def)

lemma stable_writes [simp]:
  "stable_store s \<Longrightarrow> stable_store (logged [WriteTask t] s)"
  "stable_store s \<Longrightarrow> stable_store (logged [WriteDispatchJob j] s)"
  by (simp_all add: stable_logged)

lemma stored_job: "stable_store s \<Longrightarrow> get_dispatch_job k s = Some j \<Longrightarrow> dj_id j = k \<and> dispatch_job_ok j"
  using dispatches.get_ok [of s k j] by (simp add: dispatch_queue_def)

lemma stored_task: "stable_store s \<Longrightarrow> get_design_task k s = Some t \<Longrightarrow> dt_id t = k \<and> design_task_ok t"
  using task_id [of s k t] by (simp add: stable_store_def)

lemma update_task_run:
  assumes "stable_store s" "get_design_task k s = Some t" "f t = Inr t'"
    and "dt_id t' = dt_id t" "dt_key t' = dt_key t" "dt_session t' = dt_session t" "dt_company t' = dt_company t"
  shows "update_task_atomically k f s = (Inr t', logged [WriteTask t'] s)"
proof -
  have "design_task_ok t'" using stored_task [OF assms(1,2)] assms(4-7) by (auto simp: design_task_ok_def)
  with assms show ?thesis
    by (simp add: update_task_atomically_def with_task_def lock_stable act_bind_run updated_task_def res_bind_def require_def)
qed

lemma update_job_run:
  assumes "stable_store s" "get_dispatch_job k s = Some j" "map_option wl_token (dj_lease j) = Some token"
    and "f j = Inr j'" "dispatch_job_ok j'" "dj_id j' = dj_id j" "dj_key j' = dj_key j" "dj_task j' = dj_task j"
  shows "update_dispatch_job k (Some token) f s = (Inr j', logged [WriteDispatchJob j'] s)"
  using assms
  by (simp add: update_dispatch_job_def update_design_job_def lock_stable act_bind_run dispatch_queue_def res_bind_def require_def)

subsection \<open>Settling a dispatch job\<close>

lemma reconciled_fields [simp]:
  "dt_id (reconciled_task j x now t) = dt_id t" "dt_key (reconciled_task j x now t) = dt_key t"
  "dt_session (reconciled_task j x now t) = dt_session t" "dt_company (reconciled_task j x now t) = dt_company t"
  by (simp_all add: reconciled_task_def)

lemma reconcile_run:
  assumes "stable_store s" "get_design_task (dj_task j) s = Some t"
  shows "reconcile_task_from_dispatch j x now s = (Inr (reconciled_task j x now t), logged [WriteTask (reconciled_task j x now t)] s)"
  unfolding reconcile_task_from_dispatch_def by (rule update_task_run [OF assms]) simp_all

definition dispatch_settled :: "dispatch_job \<Rightarrow> transport_result \<Rightarrow> instant \<Rightarrow> dispatch_job" where
  "dispatch_settled j x now =
     (if tx_sent x then (case settled_success (dispatch_outcome x now) now j of Inr j' \<Rightarrow> j' | Inl e \<Rightarrow> j)
      else (case settled_failure ''Hermes design delivery exhausted its configured attempts.''
          (bounded_error delivery_failed_text (opt_or (tx_error x) delivery_failed_text)) now j j of Inr j' \<Rightarrow> j' | Inl e \<Rightarrow> j))"

lemma bounded_error_not_empty: "d \<noteq> [] \<Longrightarrow> bounded_error d m \<noteq> []"
  by (simp add: bounded_error_def Let_def)

lemma dispatch_settled_ok:
  "dispatch_job_ok j \<Longrightarrow> dispatch_job_ok (dispatch_settled j x now)"
  by (simp add: dispatch_settled_def dispatch_job_ok_def design_job_ok_def settled_success_def settled_failure_def
      bounded_error_not_empty delivery_failed_text_def)

lemma dispatch_settled_fields [simp]:
  "dj_id (dispatch_settled j x now) = dj_id j" "dj_key (dispatch_settled j x now) = dj_key j"
  "dj_task (dispatch_settled j x now) = dj_task j" "dj_attempts (dispatch_settled j x now) = dj_attempts j"
  "dj_payload (dispatch_settled j x now) = dj_payload j" "dj_lease (dispatch_settled j x now) = None"
  "dj_status (dispatch_settled j x now) =
     (if tx_sent x then DjCompleted else if out_of_attempts j then DjDeadLetter else DjFailed)"
  by (simp_all add: dispatch_settled_def settled_success_def settled_failure_def)

text \<open>A task is in line with the job just settled, if the job is terminal.\<close>

lemma settled_in_line:
  "dj_status (dispatch_settled j x now) \<noteq> DjFailed \<Longrightarrow>
   task_matches_dispatch (reconciled_task (dispatch_settled j x now) x now t) (dispatch_settled j x now)"
  by (auto simp: task_matches_dispatch_def reconciled_task_def dispatch_settled_def settled_success_def settled_failure_def
      dispatch_outcome_def opt_first_def split: option.splits if_splits)

definition item_status :: "dispatch_job \<Rightarrow> transport_result \<Rightarrow> design_item_status" where
  "item_status j x = (if tx_sent x then WiCompleted else if out_of_attempts j then WiDeadLetter else WiRetryScheduled)"

lemma settle_dispatch_run:
  assumes "stable_store s" "get_dispatch_job (dj_id j) s = Some j" "dj_lease j = Some l"
    and "get_design_task (dj_task j) s = Some t"
  obtains item where
    "settle_dispatch j (wl_token l) x now s =
       (Inr item, logged [WriteDispatchJob (dispatch_settled j x now), WriteTask (reconciled_task (dispatch_settled j x now) x now t)] s)"
    "di_status item = item_status j x" "di_job item = dj_id j"
proof -
  let ?j = "dispatch_settled j x now"
  have ok: "dispatch_job_ok ?j" using dispatch_settled_ok stored_job [OF assms(1,2)] by blast
  have run: "update_dispatch_job (dj_id j) (Some (wl_token l)) f s = (Inr ?j, logged [WriteDispatchJob ?j] s)" if "f j = Inr ?j" for f
    by (rule update_job_run [where j = j]) (use assms(1-3) that ok in simp_all)
  have task: "get_design_task (dj_task ?j) (logged [WriteDispatchJob ?j] s) = Some t" using assms(4) by simp
  note rec = reconcile_run [OF stable_writes(2) [OF assms(1)] task]
  show ?thesis
  proof (cases "tx_sent x")
    case True
    then have "settled_success (dispatch_outcome x now) now j = Inr ?j" by (simp add: dispatch_settled_def settled_success_def)
    from run [of "settled_success (dispatch_outcome x now) now", OF this] rec True show ?thesis
      by (intro that, simp add: settle_dispatch_def act_bind_run) (simp_all add: item_status_def)
  next
    case False
    then have "settled_failure ''Hermes design delivery exhausted its configured attempts.''
        (bounded_error delivery_failed_text (opt_or (tx_error x) delivery_failed_text)) now j j = Inr ?j"
      by (simp add: dispatch_settled_def settled_failure_def)
    from run [of "settled_failure ''Hermes design delivery exhausted its configured attempts.''
        (bounded_error delivery_failed_text (opt_or (tx_error x) delivery_failed_text)) now j", OF this] rec False show ?thesis
      by (intro that, simp add: settle_dispatch_def act_bind_run Let_def) (simp_all add: item_status_def failure_item_def)
  qed
qed


subsection \<open>A run of the dispatch worker\<close>

lemma in_design_run: "in_design m w = (case m (dw_store w) of (r, s) \<Rightarrow> (r, w\<lparr>dw_store := s\<rparr>))"
  by (simp add: in_design_def act_zoom_run split: prod.splits sum.splits)

text \<open>What is handed to the transport leaves the store alone.\<close>

lemma transport_run:
  "transport_dispatch send q w = (Inr (send (length (dw_sent w)) q), w\<lparr>dw_sent := dw_sent w @ [q]\<rparr>)"
  by (simp add: transport_dispatch_def act_bind_run)

definition all_tasks_exist :: "design_store \<Rightarrow> bool" where
  "all_tasks_exist s \<longleftrightarrow> (\<forall>k j. get_dispatch_job k s = Some j \<longrightarrow> get_design_task (dj_task j) s \<noteq> None)"

lemma dispatch_claimed_run:
  assumes "stable_store (dw_store w)" "get_dispatch_job (dj_id j) (dw_store w) = Some j" "dj_lease j = Some l"
    and "get_design_task (dj_task j) (dw_store w) \<noteq> None"
  obtains item w' where "dispatch_claimed_job send now j w = (Inr item, w')" "stable_store (dw_store w')"
    and "di_status item = item_status j (delivery_answer (send (length (dw_sent w)) (dj_payload j)))"
    and "dw_sent w' = dw_sent w @ [dj_payload j]"
    and "\<forall>k. get_dispatch_job k (dw_store w') = (if k = dj_id j
      then Some (dispatch_settled j (delivery_answer (send (length (dw_sent w)) (dj_payload j))) now) else get_dispatch_job k (dw_store w))"
    and "\<forall>k. get_design_task k (dw_store w') = None \<longleftrightarrow> get_design_task k (dw_store w) = None"
proof -
  let ?x = "delivery_answer (send (length (dw_sent w)) (dj_payload j))"
  let ?s = "dw_store w"
  let ?j = "dispatch_settled j ?x now"
  obtain t where t: "get_design_task (dj_task j) ?s = Some t" using assms(4) by blast
  let ?t = "reconciled_task ?j ?x now t"
  obtain item where settle: "settle_dispatch j (wl_token l) ?x now ?s = (Inr item, logged [WriteDispatchJob ?j, WriteTask ?t] ?s)"
    and item: "di_status item = item_status j ?x"
    by (rule settle_dispatch_run [OF assms(1,2,3) t])
  have ok: "dispatch_job_ok j" using stored_job [OF assms(1,2)] by simp
  then have lease: "wl_token l \<noteq> []" using assms(3) by (simp add: dispatch_job_ok_def design_job_ok_def)
  let ?w = "w\<lparr>dw_sent := dw_sent w @ [dj_payload j], dw_store := logged [WriteDispatchJob ?j, WriteTask ?t] ?s\<rparr>"
  have run: "dispatch_claimed_job send now j w = (Inr item, ?w)"
    using lease settle by (simp add: dispatch_claimed_job_def assms(3) act_bind_run transport_run in_design_run)
  have both: "logged [WriteDispatchJob ?j, WriteTask ?t] ?s = logged [WriteTask ?t] (logged [WriteDispatchJob ?j] ?s)" by simp
  have t_ok: "dt_id t = dj_task j" "design_task_ok ?t"
    using stored_task [OF assms(1) t] by (auto simp: design_task_ok_def)
  have jobs: "\<forall>k. get_dispatch_job k (dw_store ?w) = (if k = dj_id j then Some ?j else get_dispatch_job k ?s)"
    using dispatch_stored [OF dispatch_settled_ok [OF ok], of _ ?x now ?s] by (simp add: both del: logged_logged)
  have tasks: "\<forall>k. get_design_task k (dw_store ?w) = None \<longleftrightarrow> get_design_task k ?s = None"
    using t t_ok(1) task_stored [OF t_ok(2)] by (simp add: both del: logged_logged)
  have "stable_store (dw_store ?w)" using assms(1) by (simp add: both del: logged_logged)
  with that [OF run _ item _ jobs tasks] show ?thesis by simp
qed

lemma dispatch_each:
  assumes "stable_store (dw_store w)" "distinct (map dj_id js)"
    and "\<forall>j\<in>set js. get_dispatch_job (dj_id j) (dw_store w) = Some j \<and> dj_lease j \<noteq> None \<and> get_design_task (dj_task j) (dw_store w) \<noteq> None"
  shows "\<exists>items w'. act_each (dispatch_claimed_job send now) js w = (Inr items, w') \<and> stable_store (dw_store w') \<and>
    dw_sent w' = dw_sent w @ map dj_payload js \<and>
    (\<forall>j\<in>set js. \<exists>x. get_dispatch_job (dj_id j) (dw_store w') = Some (dispatch_settled j x now)) \<and>
    (\<forall>k. k \<notin> dj_id ` set js \<longrightarrow> get_dispatch_job k (dw_store w') = get_dispatch_job k (dw_store w))"
  using assms
proof (induction js arbitrary: w)
  case (Cons j js)
  let ?s = "dw_store w"
  obtain l where l: "dj_lease j = Some l" using Cons.prems(3) by auto
  have j: "get_dispatch_job (dj_id j) ?s = Some j" "get_design_task (dj_task j) ?s \<noteq> None" using Cons.prems(3) by simp_all
  obtain item w1 where first: "dispatch_claimed_job send now j w = (Inr item, w1)" "stable_store (dw_store w1)"
    "dw_sent w1 = dw_sent w @ [dj_payload j]"
    and jobs: "\<forall>k. get_dispatch_job k (dw_store w1) = (if k = dj_id j
      then Some (dispatch_settled j (delivery_answer (send (length (dw_sent w)) (dj_payload j))) now) else get_dispatch_job k ?s)"
    and tasks: "\<forall>k. get_design_task k (dw_store w1) = None \<longleftrightarrow> get_design_task k ?s = None"
    by (rule dispatch_claimed_run [OF Cons.prems(1) j(1) l j(2)])
  have other: "dj_id x \<noteq> dj_id j" if "x \<in> set js" for x using Cons.prems(2) that by (auto simp: rev_image_eqI)
  have dist: "distinct (map dj_id js)" using Cons.prems(2) by simp
  have rest: "\<forall>x\<in>set js. get_dispatch_job (dj_id x) (dw_store w1) = Some x \<and> dj_lease x \<noteq> None \<and> get_design_task (dj_task x) (dw_store w1) \<noteq> None"
    using Cons.prems(3) jobs tasks other by simp
  from Cons.IH [OF first(2) dist rest] obtain items w' where
    run: "act_each (dispatch_claimed_job send now) js w1 = (Inr items, w')" "stable_store (dw_store w')"
      "dw_sent w' = dw_sent w1 @ map dj_payload js"
    and done': "\<forall>x\<in>set js. \<exists>y. get_dispatch_job (dj_id x) (dw_store w') = Some (dispatch_settled x y now)"
    and kept: "\<forall>k. k \<notin> dj_id ` set js \<longrightarrow> get_dispatch_job k (dw_store w') = get_dispatch_job k (dw_store w1)"
    by blast
  have "act_each (dispatch_claimed_job send now) (j # js) w = (Inr (item # items), w')"
    using first(1) run(1) by (simp add: act_bind_run)
  moreover have "\<exists>x. get_dispatch_job (dj_id j) (dw_store w') = Some (dispatch_settled j x now)"
    using kept jobs Cons.prems(2) by auto
  ultimately show ?case using run(2,3) first(3) done' kept jobs by (intro exI [of _ "item # items"] exI [of _ w']) auto
qed simp


text \<open>Reconciling changes tasks only.\<close>

lemma reconcile_dispatch_run:
  assumes "stable_store s"
  shows "\<exists>n s'. reconcile_dispatch_job now j s = (Inr n, s') \<and> stable_store s' \<and> hs_dispatch_jobs s' = hs_dispatch_jobs s \<and>
    (\<forall>k. get_design_task k s' = None \<longleftrightarrow> get_design_task k s = None)"
proof (cases "get_design_task (dj_task j) s")
  case None
  with assms show ?thesis by (simp add: reconcile_dispatch_job_def act_bind_run)
next
  case (Some t)
  let ?t = "reconciled_task j (recorded_delivery j) now t"
  have t: "dt_id t = dj_task j" "design_task_ok ?t" using stored_task [OF assms Some] by (auto simp: design_task_ok_def)
  have tasks: "\<forall>k. get_design_task k (logged [WriteTask ?t] s) = None \<longleftrightarrow> get_design_task k s = None"
    using task_stored [OF t(2)] t(1) Some by simp
  show ?thesis
  proof (cases "task_matches_dispatch t j")
    case True
    with Some assms show ?thesis by (simp add: reconcile_dispatch_job_def act_bind_run)
  next
    case False
    have "reconcile_dispatch_job now j s = (Inr 1, logged [WriteTask ?t] s)"
      using False reconcile_run [OF assms Some] by (simp add: reconcile_dispatch_job_def act_bind_run Some)
    with tasks assms show ?thesis by simp
  qed
qed

lemma reconcile_each:
  assumes "stable_store s"
  shows "\<exists>ns s'. act_each (reconcile_dispatch_job now) js s = (Inr ns, s') \<and> stable_store s' \<and> hs_dispatch_jobs s' = hs_dispatch_jobs s \<and>
    (\<forall>k. get_design_task k s' = None \<longleftrightarrow> get_design_task k s = None)"
  using assms
proof (induction js arbitrary: s)
  case (Cons j js)
  from reconcile_dispatch_run [OF Cons.prems, of now j] obtain n s1 where
    first: "reconcile_dispatch_job now j s = (Inr n, s1)" "stable_store s1" "hs_dispatch_jobs s1 = hs_dispatch_jobs s"
      "\<forall>k. get_design_task k s1 = None \<longleftrightarrow> get_design_task k s = None" by blast
  from Cons.IH [OF first(2)] obtain ns s' where
    rest: "act_each (reconcile_dispatch_job now) js s1 = (Inr ns, s')" "stable_store s'" "hs_dispatch_jobs s' = hs_dispatch_jobs s1"
      "\<forall>k. get_design_task k s' = None \<longleftrightarrow> get_design_task k s1 = None" by blast
  then have "act_each (reconcile_dispatch_job now) (j # js) s = (Inr (n # ns), s')" using first(1) by (simp add: act_bind_run)
  with rest first(3,4) show ?case by simp
qed simp

lemma reconcile_terminal_run:
  assumes "stable_store s"
  obtains n s' where "reconcile_terminal_dispatch_jobs now limit s = (Inr n, s')" "stable_store s'"
    and "\<forall>k. get_dispatch_job k s' = get_dispatch_job k s" "\<forall>k. get_design_task k s' = None \<longleftrightarrow> get_design_task k s = None"
  using reconcile_each [OF assms, of now "take limit (filter (\<lambda>j. dj_status j \<in> {DjCompleted, DjDeadLetter}) (list_dispatch_jobs s))"] that
  by (auto simp: reconcile_terminal_dispatch_jobs_def act_bind_run get_dispatch_job_def)

text \<open>Claiming changes jobs only.\<close>

definition quiet_tasks :: "design_task coll \<Rightarrow> design_store \<Rightarrow> bool" where
  "quiet_tasks c s \<longleftrightarrow> hs_transactions s = [] \<and> hs_tasks s = c"

lemma claim_keeps_tasks: "stable_store s \<Longrightarrow> hs_tasks (snd (claim_due_dispatch_jobs i s)) = hs_tasks s"
proof -
  have lock: "keeps (quiet_tasks c) m \<Longrightarrow> keeps (quiet_tasks c) (with_design_lock m)" for c and m :: "'a design_op"
    by (simp add: keeps_def design_lock_run recovery_writes_def quiet_tasks_def)
  have "keeps (quiet_tasks c) (disk (jq_write dispatch_queue j))" for c j
    by (simp add: keeps_def quiet_tasks_def dispatch_queue_def)
  then have "keeps (quiet_tasks c) (claim_due_dispatch_jobs i)" for c
    unfolding claim_due_dispatch_jobs_def claim_design_jobs_def by (intro lock keeps_rules keeps_jobs)
  then show "stable_store s \<Longrightarrow> ?thesis"
    unfolding keeps_def by (auto simp: quiet_tasks_def stable_store_def)
qed

lemma count_items_split: "count_items WiCompleted items + count_items WiRetryScheduled items + count_items WiDeadLetter items = length items"
proof -
  have "di_status x = WiCompleted \<or> di_status x = WiRetryScheduled \<or> di_status x = WiDeadLetter" for x
    by (cases "di_status x") simp_all
  then show ?thesis unfolding count_items_def by (induction items) auto
qed

lemma get_is: "jq_get dispatch_queue = get_dispatch_job"
  by (simp add: dispatch_queue_def)

text \<open>
  C14: the dispatch worker settles what it claims. From a store without pending transactions whose dispatch
  jobs all have their task, with a transport, a limit and a lease within the bounds, a run returns; it takes
  the claimable jobs up to its limit, hands the transport one request for each, and afterwards each of them is
  completed, failed with its retry, or a dead letter: no job is left under a lease of this run, whatever the
  transport answered.
\<close>

theorem dispatch_worker_settles_claims:
  assumes "stable_store (dw_store w)" and "all_tasks_exist (dw_store w)"
    and "de_transport E = Inr (Some send)" and "\<forall>n. wc_tokens i n \<noteq> []"
    and "bounded_worker_integer (wc_limit i) 10 1 100 = Inr limit"
    and "bounded_worker_integer (wc_lease_seconds i) 300 30 3600 = Inr seconds"
  shows "\<exists>report w'. run_design_dispatch_worker E i w = (Inr report, w') \<and> stable_store (dw_store w') \<and>
    dwr_claimed report = min limit (card {j. get_dispatch_job (dj_id j) (dw_store w) = Some j \<and> claimable_job (wc_now i) j}) \<and>
    dwr_completed report + dwr_retried report + dwr_dead report = dwr_claimed report \<and>
    length (dw_sent w') = length (dw_sent w) + dwr_claimed report \<and>
    (\<forall>k j. get_dispatch_job k (dw_store w') = Some j \<and> dj_status j = DjClaimed \<longrightarrow> get_dispatch_job k (dw_store w) = Some j)"
proof -
  let ?s = "dw_store w"
  let ?c = "\<lparr>jc_by = worker_name ''hermes-design-'' i, jc_now = wc_now i, jc_lease_seconds = seconds, jc_limit = limit,
    jc_tokens = wc_tokens i\<rparr>"
  have claim: "claim_ok ?c"
    using assms(4,6) by (auto simp: claim_ok_def worker_name_def bounded_worker_integer_def Let_def truthy_str_def
      split: option.splits if_splits)
  obtain n s1 where rec: "reconcile_terminal_dispatch_jobs (wc_now i) limit ?s = (Inr n, s1)" "stable_store s1"
    and jobs1: "\<forall>k. get_dispatch_job k s1 = get_dispatch_job k ?s"
    and tasks1: "\<forall>k. get_design_task k s1 = None \<longleftrightarrow> get_design_task k ?s = None"
    by (rule reconcile_terminal_run [OF assms(1)])
  obtain out s2 where run2: "claim_due_dispatch_jobs ?c s1 = (out, s2)" by fastforce
  have tasks2: "get_design_task k s2 = get_design_task k s1" for k
    using claim_keeps_tasks [OF rec(2), of ?c] run2 by (simp add: get_design_task_def)
  have now: "jc_now ?c = wc_now i" "jc_limit ?c = limit" by simp_all
  from run2 have run2': "claim_design_jobs dispatch_queue ?c s1 = (out, s2)" by (simp add: claim_due_dispatch_jobs_def)
  obtain js where out: "out = Inr (map (\<lambda>(n, j). taken_job ?c n j) (enumerate 0 js))" and stable2: "stable_store s2"
    and dist: "distinct (map dj_id js)"
    and len: "length js = min limit (card {j. get_dispatch_job (dj_id j) s1 = Some j \<and> claimable_job (wc_now i) j})"
    and mem: "\<And>j. j \<in> set js \<Longrightarrow> get_dispatch_job (dj_id j) s1 = Some j"
    and taken: "\<And>n. n < length js \<Longrightarrow> get_dispatch_job (dj_id (js ! n)) s2 = Some (taken_job ?c n (js ! n))"
    and others: "\<And>k. k \<notin> dj_id ` set js \<Longrightarrow> get_dispatch_job k s2 = (case get_dispatch_job k s1 of None \<Rightarrow> None | Some j \<Rightarrow>
      Some (if exhausted_job (wc_now i) j then buried_job (jq_expired dispatch_queue) (wc_now i) j else j))"
    by (rule dispatches.claim_spec [OF rec(2) claim run2', unfolded get_is now]) blast
  let ?js = "map (\<lambda>(n, j). taken_job ?c n j) (enumerate 0 js)"
  have ids: "map dj_id ?js = map dj_id js" by (rule nth_equalityI) (simp_all add: nth_enumerate_eq)
  then have id_set: "dj_id ` set ?js = dj_id ` set js" by (metis image_set)
  let ?w2 = "w\<lparr>dw_store := s2\<rparr>"
  have ready: "\<forall>j\<in>set ?js. get_dispatch_job (dj_id j) (dw_store ?w2) = Some j \<and> dj_lease j \<noteq> None \<and>
      get_design_task (dj_task j) (dw_store ?w2) \<noteq> None"
  proof
    fix j
    assume "j \<in> set ?js"
    then obtain n where n: "n < length js" "j = taken_job ?c n (js ! n)" by (auto simp: in_set_conv_nth nth_enumerate_eq)
    have "get_design_task (dj_task (js ! n)) ?s \<noteq> None"
      using assms(2) mem [OF nth_mem [OF n(1)]] jobs1 by (auto simp: all_tasks_exist_def)
    then show "get_dispatch_job (dj_id j) (dw_store ?w2) = Some j \<and> dj_lease j \<noteq> None \<and> get_design_task (dj_task j) (dw_store ?w2) \<noteq> None"
      using taken [OF n(1)] n(2) tasks1 tasks2 by (simp add: taken_job_def)
  qed
  from dispatch_each [of ?w2 ?js send "wc_now i"] stable2 dist ids ready obtain items w' where
    each: "act_each (dispatch_claimed_job send (wc_now i)) ?js ?w2 = (Inr items, w')" "stable_store (dw_store w')"
      "dw_sent w' = dw_sent ?w2 @ map dj_payload ?js"
    and settled: "\<forall>j\<in>set ?js. \<exists>x. get_dispatch_job (dj_id j) (dw_store w') = Some (dispatch_settled j x (wc_now i))"
    and kept: "\<forall>k. k \<notin> dj_id ` set ?js \<longrightarrow> get_dispatch_job k (dw_store w') = get_dispatch_job k s2"
    by auto
  have items: "length items = length js" using act_each_length [OF each(1)] by simp
  have run: "run_design_dispatch_worker E i w = (Inr \<lparr>dwr_worker = worker_name ''hermes-design-'' i, dwr_claimed = length js,
      dwr_completed = count_items WiCompleted items, dwr_retried = count_items WiRetryScheduled items,
      dwr_dead = count_items WiDeadLetter items, dwr_reconciled = n, dwr_items = items\<rparr>, w')"
    using rec(1) run2 each(1) by (simp add: run_design_dispatch_worker_def assms(3,5,6) act_bind_run in_design_run res_bind_def out del: One_nat_def)
  have left: "get_dispatch_job k ?s = Some j" if "get_dispatch_job k (dw_store w') = Some j" "dj_status j = DjClaimed" for k j
  proof (cases "k \<in> dj_id ` set js")
    case True
    then have "k \<in> dj_id ` set ?js" unfolding id_set .
    then obtain x where x: "k = dj_id x" "x \<in> set ?js" by (rule imageE)
    from bspec [OF settled x(2)] obtain y where "get_dispatch_job k (dw_store w') = Some (dispatch_settled x y (wc_now i))"
      unfolding x(1) by (rule exE)
    with that(1) have "j = dispatch_settled x y (wc_now i)" by simp
    with that(2) show ?thesis by (simp split: if_splits)
  next
    case False
    with kept id_set that(1) others [OF False] have
      "(case get_dispatch_job k s1 of None \<Rightarrow> None | Some j \<Rightarrow>
        Some (if exhausted_job (wc_now i) j then buried_job (jq_expired dispatch_queue) (wc_now i) j else j)) = Some j" by simp
    with that(2) jobs1 show ?thesis by (auto simp: buried_job_def split: option.splits if_splits)
  qed
  have claimed: "length js = min limit (card {j. get_dispatch_job (dj_id j) ?s = Some j \<and> claimable_job (wc_now i) j})"
    using len jobs1 by simp
  have sent: "length (dw_sent w') = length (dw_sent w) + length js" using each(3) by simp
  have parts: "count_items WiCompleted items + count_items WiRetryScheduled items + count_items WiDeadLetter items = length js"
    using count_items_split [of items] items by simp
  show ?thesis
    by (rule exI, rule exI [of _ w'], intro conjI, rule run) (use claimed sent parts each(2) left in simp_all)
qed


subsection \<open>What completes a task\<close>

lemma outside_run: "outside_design m w = (case m (dw_rest w) of (Inl e, x) \<Rightarrow> (Inl (OutsideDesign e), w\<lparr>dw_rest := x\<rparr>)
    | (Inr a, x) \<Rightarrow> (Inr a, w\<lparr>dw_rest := x\<rparr>))"
  by (simp add: outside_design_def act_zoom_run)

lemma effect_leaves_store:
  assumes "callback_effect_of E c t now w = (r, w')"
  shows "dw_store w' = dw_store w"
proof -
  have outside: "keeps (\<lambda>w'. dw_store w' = dw_store w) (outside_design m)" for m :: "('a, str, 'b) action"
    by (rule keepsI) (auto simp: outside_run split: prod.splits sum.splits)
  have outside': "keeps (\<lambda>w'. dw_store w' = dw_store w) (outside_design m)" for m :: "('a, str, 'c) action"
    by (rule keepsI) (auto simp: outside_run split: prod.splits sum.splits)
  have "keeps (\<lambda>w'. dw_store w' = dw_store w) (callback_effect_of E c t now)"
    unfolding callback_effect_of_def Let_def
    by (cases "cb_content c"; simp; intro keeps_rules keepsI; auto simp: outside_run split: prod.splits sum.splits)
  then show ?thesis using assms by (auto dest: keepsD)
qed

lemma callback_applied:
  assumes "stable_store (dw_store w)" "get_design_task (cb_task c) (dw_store w) = Some t"
    and "process_design_callback E c now w = (Inr a, w')" "\<not> an_duplicate a"
  obtains eff w1 t' where "callback_effect_of E c t now w = (Inr eff, w1)" "called_back c (ce_update eff) now t = Inr t'"
    and "an_task a = t'" "get_design_task (cb_task c) (dw_store w') = Some t'"
proof -
  have ok: "callback_ok c"
    using assms(3) by (auto simp: process_design_callback_def act_bind_run require_def split: if_splits)
  have new: "cb_id c \<notin> set (dt_callbacks t)" "\<not> other_hermes c t"
    using assms(2-4) ok by (auto simp: process_design_callback_def act_bind_run require_def duplicate_answer_def
        split: if_splits sum.splits prod.splits)
  obtain r w1 where eff: "callback_effect_of E c t now w = (r, w1)" by fastforce
  with assms(2,3) ok new obtain e where r: "r = Inr e"
    by (cases r) (auto simp: process_design_callback_def act_bind_run require_def)
  have same: "dw_store w1 = dw_store w" by (rule effect_leaves_store [OF eff])
  have clean: "hs_transactions (dw_store w1) = []" using assms(1) same by (simp add: stable_store_def)
  have found: "get_design_task (cb_task c) (dw_store w1) = Some t" using assms(2) same by simp
  note locked = task_found [OF clean found]
  let ?f = "called_back c (ce_update e) now"
  obtain t' where t': "?f t = Inr t'" "checked_callback c ?f t = Inr t'"
    "in_design (apply_callback_atomically (cb_task c) c ?f) w1 =
       (Inr (t', False), w1\<lparr>dw_store := logged [WriteTask t', WriteCallback c] (dw_store w1)\<rparr>)"
    using assms(2,3) ok new eff r
    by (auto simp: process_design_callback_def act_bind_run require_def in_design_run apply_callback_eq locked apply_callback_locked_def
        checked_callback_def res_bind_Inr_iff split: sum.splits prod.splits)
  have t_ok: "design_task_ok t'" "dt_id t' = cb_task c"
    using t'(2) stored_task [OF assms(1,2)] by (auto simp: checked_callback_def res_bind_Inr_iff)
  have "an_task a = t'" "w' = w1\<lparr>dw_store := logged [WriteTask t', WriteCallback c] (dw_store w1)\<rparr>"
    using assms(2,3) ok new eff r t'(3)
    by (auto simp: process_design_callback_def act_bind_run require_def)
  with that [OF eff [unfolded r] t'(1)] get_task_written(2) [OF t_ok(1), of c "dw_store w1"] t_ok(2) show ?thesis by simp
qed

text \<open>
  C13: a design task is completed by a valid proposal only. When a callback leaves a task completed that was
  not, the callback carried proposals, the gap engine found no gap that blocks the design, and the
  submission of exactly these proposals for the session and department of the task was valid; its run is recorded on the task, which is stored.
\<close>

theorem completed_only_by_valid_proposal:
  assumes "stable_store (dw_store w)" and "get_design_task (cb_task c) (dw_store w) = Some t" and "dt_status t \<noteq> DsCompleted"
    and "process_design_callback E c now w = (Inr a, w')" and "\<not> an_duplicate a" and "dt_status (an_task a) = DsCompleted"
  shows "get_design_task (cb_task c) (dw_store w') = Some (an_task a) \<and>
    (\<exists>proposals provider model metadata gaps x r x'. cb_content c = ProposalSubmitted proposals provider model metadata \<and>
       de_gaps E (dt_session t) [] now (dw_rest w) = (Inr gaps, x) \<and> (\<forall>g\<in>set (gs_gaps gaps). \<not> blocks_design g) \<and>
       de_submit E (callback_submission c t proposals provider model metadata now) x = (Inr r, x') \<and>
       su_valid r \<and> su_run r \<in> set (dt_runs (an_task a)))"
proof -
  obtain eff w1 t' where eff: "callback_effect_of E c t now w = (Inr eff, w1)"
    and called: "called_back c (ce_update eff) now t = Inr t'"
    and t': "an_task a = t'" "get_design_task (cb_task c) (dw_store w') = Some t'"
    by (rule callback_applied [OF assms(1,2,4,5)])
  have status: "dt_status t' = dt_status (ce_update eff t)" "dt_runs t' = dt_runs (ce_update eff t)"
    using called by (auto simp: called_back_def Let_def split: if_splits)
  with assms(6) t'(1) have completed: "dt_status (ce_update eff t) = DsCompleted" by simp
  show ?thesis
  proof (cases "cb_content c")
    case (Acknowledged m)
    with eff completed assms(3) show ?thesis
      by (auto simp: callback_effect_of_def acknowledged_task_def split: if_splits)
  next
    case (QuestionsRequested gaps)
    with eff completed show ?thesis
      by (auto simp: callback_effect_of_def act_bind_run questioned_task_def split: sum.splits prod.splits)
  next
    case (DesignFailed e b)
    with eff completed assms(3) show ?thesis
      by (auto simp: callback_effect_of_def failed_task_def split: if_splits)
  next
    case (ProposalSubmitted proposals provider model metadata)
    obtain rg x where gaps: "de_gaps E (dt_session t) [] now (dw_rest w) = (rg, x)" by fastforce
    with eff ProposalSubmitted obtain g where g: "rg = Inr g"
      by (cases rg) (simp_all add: callback_effect_of_def act_bind_run outside_run)
    have none: "filter blocks_design (gs_gaps g) = []"
      using eff ProposalSubmitted gaps g completed
      by (auto simp: callback_effect_of_def act_bind_run outside_run Let_def blocked_task_def split: if_splits)
    obtain rs x' where sub: "de_submit E (callback_submission c t proposals provider model metadata now) x = (rs, x')" by fastforce
    with eff ProposalSubmitted gaps g none obtain r where r: "rs = Inr r"
      by (cases rs) (simp_all add: callback_effect_of_def act_bind_run outside_run Let_def)
    have "ce_update eff = proposed_task r now"
      using eff ProposalSubmitted gaps g none sub r by (auto simp: callback_effect_of_def act_bind_run outside_run Let_def)
    with completed status(2) have "su_valid r" "su_run r \<in> set (dt_runs t')"
      by (auto simp: proposed_task_def split: if_splits)
    with t' ProposalSubmitted gaps g none sub r show ?thesis by (auto simp: filter_empty_conv)
  qed
qed


text \<open>
  Questions have no check of a final status: one that arrives late reopens a completed or cancelled task. And
  reconciling the dispatch jobs takes an old completed job for the delivery of a task that was queued again.
\<close>

lemma late_questions_reopen_task:
  assumes "stable_store (dw_store w)" and "get_design_task (cb_task c) (dw_store w) = Some t"
    and "process_design_callback E c now w = (Inr a, w')" and "\<not> an_duplicate a" and "cb_content c = QuestionsRequested gaps"
  shows "dt_status (an_task a) = DsNeedsInput"
proof -
  obtain eff w1 t' where eff: "callback_effect_of E c t now w = (Inr eff, w1)"
    and called: "called_back c (ce_update eff) now t = Inr t'" and t': "an_task a = t'"
    by (rule callback_applied [OF assms(1-4)])
  have "dt_status (ce_update eff t) = DsNeedsInput"
    using eff assms(5) by (auto simp: callback_effect_of_def act_bind_run questioned_task_def split: sum.splits prod.splits)
  moreover have "dt_status t' = dt_status (ce_update eff t)" using called by (auto simp: called_back_def Let_def split: if_splits)
  ultimately show ?thesis using t' by simp
qed

lemma old_job_marks_requeued_task:
  assumes "dj_status j = DjCompleted" and "dt_status t = DsQueued" and "td_status (dt_delivery t) = NotYetSent"
  shows "\<not> task_matches_dispatch t j \<and> dt_status (reconciled_task j (recorded_delivery j) now t) = DsAwaitingHermes \<and>
    td_status (dt_delivery (reconciled_task j (recorded_delivery j) now t)) = TaskSent"
  using assms by (simp add: task_matches_dispatch_def reconciled_task_def recorded_delivery_def)

end
