(* ===== verification/DesignWitnesses.thy ===== *)
theory DesignWitnesses imports DesignLaws begin

text \<open>
  Inputs at which the hypotheses of the properties of design tasks hold: one task with its dispatch job, created in
  the empty store, a callback with a proposal, and an environment that accepts it.
\<close>

definition wit_task :: design_task where
  "wit_task =
     \<lparr>dt_id = ''task'', dt_key = ''key'', dt_session = ''session'', dt_company = ''acme'', dt_department = Marketing,
      dt_status = DsQueued, dt_reason = ByUserRequest, dt_problems = [], dt_opportunity = None, dt_context = None,
      dt_gaps = [], dt_questions = [], dt_runs = [], dt_compiler_errors = [], dt_callbacks = [], dt_hermes = None,
      dt_delivery = \<lparr>td_status = NotYetSent, td_destination = None, td_attempts = 0, td_last_attempt = None,
        td_acknowledged = None, td_response = None, td_error = None\<rparr>,
      dt_requested_by = ''loopgraph'', dt_created = 0, dt_updated = 0, dt_completed = None\<rparr>"

definition wit_job :: dispatch_job where
  "wit_job =
     \<lparr>dj_id = ''job'', dj_key = ''dispatch'', dj_task = ''task'',
      dj_payload = \<lparr>rq_task = wit_task, rq_context = None, rq_gaps = [], rq_questions = [], rq_callback_url = None,
        rq_instructions = []\<rparr>,
      dj_status = DjQueued, dj_attempts = 0, dj_max_attempts = 5, dj_retry = default_design_retry, dj_next_run = 0,
      dj_lease = None, dj_result = None, dj_error = None, dj_dead_letter = None, dj_created = 0, dj_updated = 0\<rparr>"

definition wit_store :: design_store where
  "wit_store = logged (transaction_writes ''dispatch'' wit_task wit_job) empty_design_store"

lemma wit_ok [simp]: "design_task_ok wit_task" "dispatch_job_ok wit_job" "fresh_job wit_job"
  by (simp_all add: design_task_ok_def dispatch_job_ok_def design_job_ok_def request_ok_def fresh_job_def wit_job_def
      default_design_retry_def) (simp_all add: wit_task_def)

lemma wit_fields [simp]:
  "dt_id wit_task = ''task''" "dt_key wit_task = ''key''" "dt_callbacks wit_task = []" "dt_status wit_task = DsQueued"
  "dj_id wit_job = ''job''" "dj_key wit_job = ''dispatch''" "dj_task wit_job = ''task''"
  by (simp_all add: wit_task_def wit_job_def)

lemma empty_lists [simp]:
  "list_design_tasks any_task empty_design_store = []" "hs_transactions empty_design_store = []" "hs_writes empty_design_store = []"
  by (simp_all add: list_design_tasks_def record_list_def empty_design_store_def)

lemma wit_created: "create_task_atomically wit_task (Some wit_job) empty_design_store =
    (Inr \<lparr>tn_task = wit_task, tn_created = True, tn_job = Some wit_job\<rparr>, wit_store)"
  by (simp add: create_task_atomically_def act_bind_run require_def res_bind_def lock_stable [OF empty_stable] create_task_locked_def
      write_task_and_dispatch_def wit_store_def)

lemma wit_stable: "stable_store wit_store"
  using empty_stable by (simp add: stable_store_def wit_store_def logged_wf transaction_writes_def)

lemma wit_life: "design_life wit_store"
proof -
  have "new_writes (create_task_atomically wit_task (Some wit_job)) empty_design_store = transaction_writes ''dispatch'' wit_task wit_job"
    by (simp add: new_writes_def wit_created) (simp add: wit_store_def)
  then have "crashed 4 (create_task_atomically wit_task (Some wit_job)) empty_design_store = wit_store"
    by (simp add: crashed_def wit_store_def transaction_writes_def)
  then show ?thesis using dl_create [OF dl_new, of 4 wit_task "Some wit_job"] by simp
qed

lemma wit_get: "get_design_task k wit_store = (if k = ''task'' then Some wit_task else None)"
  "get_dispatch_job k wit_store = (if k = ''job'' then Some wit_job else None)"
  by (simp_all add: wit_store_def get_design_task_def get_dispatch_job_def transaction_writes_def record_get_def empty_design_store_def coll_get_def)

theorem task_and_job_written_together_witness:
  "settled (crashed 2 (create_task_atomically wit_task (Some wit_job)) empty_design_store) \<in>
     {settled empty_design_store, settled wit_store} \<and>
   settled (crashed 2 (update_task_and_enqueue ''task'' (\<lambda>t. Inr (t, wit_job))) wit_store) \<in>
     {settled wit_store, settled (snd (update_task_and_enqueue ''task'' (\<lambda>t. Inr (t, wit_job)) wit_store))}"
  using task_and_job_written_together [OF dl_new, of 2 wit_task "Some wit_job"]
    task_and_job_written_together [OF wit_life, where k = "''task''" and n = 2 and f = "\<lambda>t. Inr (t, wit_job)"]
  by (simp add: wit_created)

definition wit_callback :: design_callback where
  "wit_callback = \<lparr>cb_id = ''callback'', cb_task = ''task'', cb_occurred = 10, cb_hermes = None,
     cb_content = ProposalSubmitted JNull None None []\<rparr>"

lemma wit_callback_fields [simp]: "callback_ok wit_callback" "cb_id wit_callback = ''callback''" "cb_task wit_callback = ''task''"
  "cb_content wit_callback = ProposalSubmitted JNull None None []" "cb_hermes wit_callback = None"
  by (simp_all add: callback_ok_def wit_callback_def)

lemma wit_applied:
  assumes "f wit_task = Inr t" "design_task_ok t" "dt_id t = ''task''" "dt_key t = ''key''" "''callback'' \<in> set (dt_callbacks t)"
  shows "apply_callback_atomically ''task'' wit_callback f wit_store =
    (Inr (t, False), logged [WriteTask t, WriteCallback wit_callback] wit_store)"
  using assms wit_stable
  by (simp add: apply_callback_eq task_found [where t = wit_task] wit_get stable_store_def apply_callback_locked_def act_bind_run
      checked_callback_def res_bind_def require_def)


definition wit_claim :: job_claim where
  "wit_claim = \<lparr>jc_by = ''worker'', jc_now = 5, jc_lease_seconds = 60, jc_limit = 1, jc_tokens = (\<lambda>n. ''token'')\<rparr>"

lemma wit_claimable: "{j. get_dispatch_job (dj_id j) wit_store = Some j \<and> claimable_job 5 j} = {wit_job}"
proof -
  have "claimable_job 5 wit_job" by (simp add: claimable_job_def wit_job_def)
  then show ?thesis by (auto simp: wit_get split: if_splits)
qed



definition wit_env :: "nat design_env" where
  "wit_env =
     \<lparr>de_session = (\<lambda>k x. None), de_gaps = (\<lambda>k gaps now x. (Inr \<lparr>gs_session = k, gs_company = ''acme'', gs_revision = 1,
        gs_generated = now, gs_gaps = []\<rparr>, x)),
      de_questions = (\<lambda>k x. (Inr [], x)), de_context = (\<lambda>k d x. (Inl ''none'', x)),
      de_submit = (\<lambda>q x. (Inr \<lparr>su_run = ''run'', su_valid = True, su_errors = []\<rparr>, x + 1)),
      de_transport = Inr (Some (\<lambda>n q. Inr \<lparr>tx_sent = True, tx_destination = None, tx_response = Some 202, tx_hermes = Some ''h'',
        tx_error = None\<rparr>)),
      de_shared_store = True, de_public_url = None, de_url_ok = (\<lambda>u. True), de_schema_message = ''schema''\<rparr>"

definition wit_world :: "nat design_world" where
  "wit_world = \<lparr>dw_store = wit_store, dw_sent = [], dw_rest = 0\<rparr>"

definition wit_call :: worker_call where
  "wit_call = \<lparr>wc_worker = None, wc_process = ''1'', wc_limit = None, wc_lease_seconds = None, wc_now = 5,
     wc_tokens = (\<lambda>n. ''token'')\<rparr>"

lemma wit_world_fields [simp]: "dw_store wit_world = wit_store" "dw_sent wit_world = []" "dw_rest wit_world = 0"
  by (simp_all add: wit_world_def)

theorem dispatch_worker_settles_claims_witness:
  "\<exists>report w'. run_design_dispatch_worker wit_env wit_call wit_world = (Inr report, w') \<and> dwr_claimed report = 1 \<and>
     length (dw_sent w') = 1"
proof -
  have tasks: "all_tasks_exist (dw_store wit_world)" by (simp add: all_tasks_exist_def wit_get)
  have stable: "stable_store (dw_store wit_world)" by (simp add: wit_stable)
  have call: "\<forall>n. wc_tokens wit_call n \<noteq> []" "bounded_worker_integer (wc_limit wit_call) 10 1 100 = Inr 10"
    "bounded_worker_integer (wc_lease_seconds wit_call) 300 30 3600 = Inr 300" "wc_now wit_call = 5"
    by (simp_all add: wit_call_def bounded_worker_integer_def)
  have transport: "de_transport wit_env = Inr (Some (\<lambda>n q. Inr \<lparr>tx_sent = True, tx_destination = None, tx_response = Some 202,
      tx_hermes = Some ''h'', tx_error = None\<rparr>))" by (simp add: wit_env_def)
  have "card {j. get_dispatch_job (dj_id j) (dw_store wit_world) = Some j \<and> claimable_job (wc_now wit_call) j} = 1"
    unfolding call(4) wit_world_fields wit_claimable by simp
  with dispatch_worker_settles_claims [OF stable tasks transport call(1-3)] show ?thesis by fastforce
qed

theorem completed_only_by_valid_proposal_witness:
  "\<exists>a w'. process_design_callback wit_env wit_callback 20 wit_world = (Inr a, w') \<and> dt_status (an_task a) = DsCompleted \<and>
     ''run'' \<in> set (dt_runs (an_task a)) \<and> get_design_task ''task'' (dw_store w') = Some (an_task a)"
proof -
  let ?r = "\<lparr>su_run = ''run'', su_valid = True, su_errors = []\<rparr>"
  let ?t = "(proposed_task ?r 20 wit_task)\<lparr>dt_hermes := None, dt_callbacks := [''callback''], dt_updated := 20\<rparr>"
  have effect: "callback_effect_of wit_env wit_callback wit_task 20 wit_world =
      (Inr \<lparr>ce_run = Some ''run'', ce_errors = [], ce_update = proposed_task ?r 20\<rparr>, wit_world\<lparr>dw_rest := 1\<rparr>)"
    by (simp add: callback_effect_of_def act_bind_run outside_run Let_def wit_env_def wit_world_def)
  have called: "called_back wit_callback (proposed_task ?r 20) 20 wit_task = Inr ?t"
    by (simp add: called_back_def other_hermes_def Let_def) (simp add: proposed_task_def wit_task_def opt_first_def)
  have "design_task_ok ?t" by (simp add: design_task_ok_def proposed_task_def) (simp add: wit_task_def)
  then have applied: "apply_callback_atomically ''task'' wit_callback (called_back wit_callback (proposed_task ?r 20) 20) wit_store =
      (Inr (?t, False), logged [WriteTask ?t, WriteCallback wit_callback] wit_store)"
    by (intro wit_applied called) (simp_all add: proposed_task_def)
  obtain a w' where run: "process_design_callback wit_env wit_callback 20 wit_world = (Inr a, w')"
    and a: "an_task a = ?t" "\<not> an_duplicate a"
    using effect applied
    by (simp add: process_design_callback_def act_bind_run require_def wit_get other_hermes_def in_design_run)
  have stable: "stable_store (dw_store wit_world)" by (simp add: wit_stable)
  have found: "get_design_task (cb_task wit_callback) (dw_store wit_world) = Some wit_task" by (simp add: wit_get)
  have new: "dt_status wit_task \<noteq> DsCompleted" by simp
  have completed: "dt_status (an_task a) = DsCompleted" "''run'' \<in> set (dt_runs (an_task a))"
    using a by (simp_all add: proposed_task_def)
  from completed_only_by_valid_proposal [OF stable found new run a(2) completed(1)] run completed show ?thesis by auto
qed

end
