(* ===== verification/Spec2Isabelle.thy ===== *)
theory Spec2Isabelle imports FileLock RoutingWitnesses QueueWitnesses RunWitnesses WorkerWitnesses
  ControllerWitnesses DesignWitnesses begin

text \<open>
  Loopgraph routes business events to loops (automated procedures), runs them under policies and
  human reviews, and hands live work to Hermes agents. This development models the core of
  \<open>packages/loopgraph/src\<close>: what an event is, which loops may take it, how a routing decision becomes
  durable work, how that work is claimed and executed, and who may approve what.

  How the parts interact. Hermes delivers events; \<open>ingestRoutingEvent\<close> records each once and offers
  the eligible routing cards. A routing decision is checked against the recorded event and the cards
  and becomes a business problem, a route commit and a route job per selected loop
  (\<open>submitRoutingDecision\<close>). Workers claim due jobs under leases; a job runs its loop locally
  (\<open>runLoop\<close>, through the live gate of \<open>executeLoop\<close> when it is live) or is dispatched to a Hermes
  agent, whose execution events come back through \<open>ingestHermesExecutionEvent\<close>. A run that needs
  an approval waits for \<open>applyReviewDecision\<close>, which commits approved actions through adapters;
  escalation cases are resolved by \<open>resolveCaseWithLifecycle\<close>. What happened is measured
(\<open>evaluateObservedOutcome\<close>), and the loop controller, woken by queued triggers, decides from
outcomes and detected opportunities whether the graph of loops should change.

  Theories and the code they model (paths under \<open>packages/loopgraph/src\<close>).
  Prelude, Actions: strings, options, arrays, sorting, record collections; stateful operations that
  may throw.
  Json: JSON values and \<open>core/hash.ts\<close>. SHA-256, the printing and reading of numbers, regular
  expressions of specifications and \<open>localeCompare\<close> are the platform: the record \<open>runtime\<close> is an
  argument of the definitions that use them, and \<open>digest_runtime\<close> states that a digest is 64
  hexadecimal digits.
  RoutingTypes, RoutingRules: the schemas of \<open>core/routing.ts\<close> as records and predicates
  (\<open>event_ok\<close>, \<open>job_ok\<close>, ...), eligibility, card order, input mapping and the validation of decisions.
  RoutingStore, RoutingSubmit, RouteJobs, FileLock: \<open>runtime/routing-store.ts\<close>. The store is the
  record \<open>routing_store\<close> with one collection per directory; an operation is an action on it and
  keeps the writes made before it throws. The lock file of the queue is a step relation over
  interleaved workers.
  LeaseTable, QueueLaws: what a queue with leases promises, as an abstract table, and the proof that
  the job queue refines it, writes only what its readers accept and starves no due job.
  LoopTypes, LoopSpecRules, Policy, RunMachine, RunStorage, LoopRunner, ExecutionGate: the loop
  specification with its semantic checks, \<open>core/policy.ts\<close>, \<open>runtime/state-machine.ts\<close>,
  \<open>sdk/storage.ts\<close>, \<open>runtime/loop-runner.ts\<close> with the context compiler and the verifiers, and
  \<open>runtime/executor.ts\<close>.
  World, Reviews, Cases: the joint state of the services (routing store, run storage, Hermes
  operations, the log of what was handed to adapters), \<open>runtime/review-service.ts\<close> and
  \<open>runtime/case-service.ts\<close>.
  HermesOps, HermesExecution: \<open>core/hermes-operations.ts\<close>, \<open>runtime/hermes-operations-store.ts\<close>
  and \<open>runtime/hermes-execution-service.ts\<close>.
  Lifecycle: \<open>runtime/lifecycle-events.ts\<close> up to the delivery record a notice is written as.
  OutcomeStore, OutcomeService: \<open>core/outcome.ts\<close>, \<open>runtime/outcome-store.ts\<close> and
  \<open>runtime/outcome-service.ts\<close>; metric values are rationals.
  RouteFixture, RouteWorker, RouteWorkerLaws: \<open>runtime/route-job-worker.ts\<close> with the fixture of
  \<open>runtime/routing-tools.ts\<close> it runs a job on, and its theorems.
  ControllerStore, ControllerRun, ControllerLoop: \<open>core/loop-controller.ts\<close> with
  \<open>runtime/loop-controller-store.ts\<close> and \<open>-triggers.ts\<close>; the policy, the decisions and the due
  outcome evaluations of \<open>runtime/loop-controller.ts\<close>; its runs and
  \<open>runtime/loop-controller-scheduler.ts\<close>. ControllerLaws, ShadowPolicy, TriggerQueue: their theorems,
  the refinement of the lease table by the trigger queue among them.
  DesignTypes, DesignStore, DesignBridge, DesignWorkers: the design tasks Hermes works on, that is
  \<open>core/hermes-design-task.ts\<close> with the evidence gaps of \<open>core/evidence-gap.ts\<close>,
  \<open>runtime/hermes-design-store.ts\<close> write by write, \<open>runtime/hermes-design-bridge.ts\<close> and the two
  workers \<open>runtime/hermes-design-dispatch-worker.ts\<close> and \<open>-callback-worker.ts\<close>. DesignCrash,
  DesignQueues, DesignLaws: crashes between two writes, the two queues (locale \<open>design_queue\<close>) with
  their refinement of the lease table, and what the workers and callbacks guarantee.
  Samples, RunSamples, RoutingWitnesses, QueueWitnesses, RunWitnesses, OutcomeWitnesses,
  WorkerWitnesses, ControllerWitnesses, DesignWitnesses: concrete data and, for every property with a
  hypothesis, an instance that meets it.

  What the lemmas show. Every collection obeys the laws of the locales \<open>record_collection\<close> and
  \<open>keyed_collection\<close> (interpreted on the stores' own operations); every operation keeps the
  well-formedness of its store (\<open>store_wf\<close>, \<open>storage_wf\<close>), on throwing paths too. On them rest the
  properties of the queue (leases exclude, tokens fence, attempts are bounded, bindings are
  permanent, failures back off), of decisions (accepted exactly when admissible, rejected without
  effect, committed completely), of runs and the live gate, of the worker (a stale worker writes
  nothing, a job is settled once, only autonomous jobs send), of reviews (only approved actions are
  sent, separation of duties), of Hermes events (accepted only when bound), of notices (they never
  chain), of outcomes and the value ledger (neither claims more than its evidence), and of the loop
  controller (a trigger is run once, the graph changes only under the strict policy), and of design
  tasks (a task and its dispatch job are written together, a callback is applied once, crashes
  included, a run of the dispatch worker settles what it claims, and only a valid proposal completes a task). Several properties
  state what the code does where that is not what it means to do: a lock race on abandoned locks, jobs
  stuck on their last attempt, jobs due again while Hermes works on them, replayed events that reopen
  finished jobs, cancelled routes that come back, outcomes that cannot be stored or corrected,
  late callbacks that reopen finished tasks, and second actions of a tool that are never sent.

  Conventions. Instants are milliseconds (\<open>int\<close>); the sources compare them as ISO strings of one
  shape or with \<open>Date.parse\<close>, which is the same order. Identifiers and texts are strings; an optional
  string that JavaScript tests for truth is tested with \<open>truthy_str\<close>. Loops are structural
  recursions over lists, so no fuel is needed. Error values are constructors with the parts their
  messages are made of.

  Not modelled. The semantic graph and its transactions, the measurement service and the stores of
  specifications; the opportunity engine, the proposals, the connection instances and the graph
  transactions are arguments of the loop controller, the discovery sessions, the gap engine, the
  design contexts and the proposal compiler are arguments of the design bridge. Their lock files are modelled by
  one action per critical section, except the one of the job queue. Failing writes of single files
  are not modelled; a crash between two writes is, in the design store. Network code, installers, connectors, the app
  platform, the command line, the web application and generated data are left out. Adapters other than the
  mock ones, the assessment provider, the connection plan and the transports to Hermes are arguments
  of the definitions that call them.
\<close>

end
